(* ===== verification/Vcs_Prelude.thy ===== *)
theory Vcs_Prelude
  imports Main "HOL-Library.Word" "HOL-Library.Signed_Division"
begin

text \<open>
  The shared vocabulary of the development: Go results and errors as values, panics as a third
  outcome, state-passing composition, and the generic facts that every component uses.

  A Go function returning \<open>(T, error)\<close> is a function into \<open>'a res\<close>; a method that changes state
  returns \<open>'a res \<times> 'w\<close>, its outcome paired with the state after the call. A run-time panic is
  the outcome \<open>Panic\<close> and stops the computation the way an error return does; the state at that
  point is kept, since the effects performed before a panic are not undone.
\<close>

named_theorems res_simps "evaluation of the result combinators"

text \<open>
  Error values. \<open>ErrVar\<close> is a package-level sentinel (name and message), the only values that
  \<open>errors.Is\<close> compares; \<open>ErrMsg\<close> is \<open>errors.New\<close> or \<open>fmt.Errorf\<close> without \<open>%w\<close>; \<open>ErrWrap\<close> is
  \<open>fmt.Errorf("prefix%w", err)\<close>; \<open>ErrExt\<close> is an error built by a library; \<open>ErrDup\<close> is a
  server error for which \<open>mongo.IsDuplicateKeyError\<close> is true. \<open>ErrCustom\<close> and \<open>ErrFosite\<close> are the
  two error structs of package \<open>resterr\<close>, \<open>ErrEcho\<close> is \<open>echo.HTTPError\<close>.
\<close>

datatype error_code =
    SystemError
  | Unauthorized
  | InvalidValue
  | AlreadyExist
  | DoesntExist
  | ConditionNotMet
  | OtherCode string

datatype fosite_code =
    FositeAuthorizeError
  | FositeAccessError
  | FositeIntrospectionError
  | FositePARError
  | FositeOtherCode int

datatype go_error =
    ErrVar string string
  | ErrMsg string
  | ErrWrap string go_error
  | ErrExt string
  | ErrDup string
  | ErrCustom error_code string string string go_error
  | ErrEcho int string "go_error option"
  | ErrFosite fosite_code go_error

datatype go_panic =
    NilDereference
  | TypeAssertion
  | IndexOutOfRange
  | NilMapWrite
  | ClosedChannel
  | LibraryPanic string

datatype 'a res = Ok 'a | Err go_error | Panic go_panic

fun error_code_name :: "error_code \<Rightarrow> string" where
  "error_code_name SystemError = ''system-error''"
| "error_code_name Unauthorized = ''unauthorized''"
| "error_code_name InvalidValue = ''invalid-value''"
| "error_code_name AlreadyExist = ''already-exist''"
| "error_code_name DoesntExist = ''doesnt-exist''"
| "error_code_name ConditionNotMet = ''condition-not-met''"
| "error_code_name (OtherCode s) = s"

text \<open>\<open>errors.Is\<close> against a sentinel: it unwraps \<open>fmt.Errorf\<close> chains. Neither \<open>CustomError\<close> nor
  \<open>FositeError\<close> has an \<open>Unwrap\<close> method, so the search stops there.\<close>

fun err_is :: "go_error \<Rightarrow> go_error \<Rightarrow> bool" where
  "err_is (ErrWrap p e) t = (ErrWrap p e = t \<or> err_is e t)"
| "err_is (ErrEcho c m (Some e)) t = (ErrEcho c m (Some e) = t \<or> err_is e t)"
| "err_is e t = (e = t)"

fun is_ok :: "'a res \<Rightarrow> bool" where
  "is_ok (Ok _) = True"
| "is_ok _ = False"

fun is_err :: "'a res \<Rightarrow> bool" where
  "is_err (Err _) = True"
| "is_err _ = False"

text \<open>Sequencing: \<open>bindR\<close> for pure results, \<open>andthen\<close> for state-passing calls. Both return the first
  error or panic unchanged, as the \<open>if err != nil \<open>return\<close>\<close> idiom does.\<close>

fun bindR :: "'a res \<Rightarrow> ('a \<Rightarrow> 'b res) \<Rightarrow> 'b res" where
  "bindR (Ok a) k = k a"
| "bindR (Err e) k = Err e"
| "bindR (Panic p) k = Panic p"

fun wrapR :: "string \<Rightarrow> 'a res \<Rightarrow> 'a res" where
  "wrapR msg (Ok a) = Ok a"
| "wrapR msg (Err e) = Err (ErrWrap msg e)"
| "wrapR msg (Panic p) = Panic p"

fun mapErr :: "(go_error \<Rightarrow> go_error) \<Rightarrow> 'a res \<Rightarrow> 'a res" where
  "mapErr f (Ok a) = Ok a"
| "mapErr f (Err e) = Err (f e)"
| "mapErr f (Panic p) = Panic p"

fun andthen :: "'a res \<times> 'w \<Rightarrow> ('a \<Rightarrow> 'w \<Rightarrow> 'b res \<times> 'w) \<Rightarrow> 'b res \<times> 'w" where
  "andthen (Ok a, w) k = k a w"
| "andthen (Err e, w) k = (Err e, w)"
| "andthen (Panic p, w) k = (Panic p, w)"

definition wrapS :: "string \<Rightarrow> 'a res \<times> 'w \<Rightarrow> 'a res \<times> 'w" where
  "wrapS msg m = (wrapR msg (fst m), snd m)"

definition mapErrS :: "(go_error \<Rightarrow> go_error) \<Rightarrow> 'a res \<times> 'w \<Rightarrow> 'a res \<times> 'w" where
  "mapErrS f m = (mapErr f (fst m), snd m)"

text \<open>\<open>x, err := ...; if err != nil { return onErr }\<close>: the error branch runs code of its own.\<close>

fun onErr :: "'a res \<times> 'w \<Rightarrow> (go_error \<Rightarrow> 'w \<Rightarrow> 'a res \<times> 'w) \<Rightarrow> 'a res \<times> 'w" where
  "onErr (Err e, w) h = h e w"
| "onErr (Ok a, w) h = (Ok a, w)"
| "onErr (Panic p, w) h = (Panic p, w)"

lemma wrapS_simps [simp, res_simps]:
  "wrapS msg (Ok a, w) = (Ok a, w)"
  "wrapS msg (Err e, w) = (Err (ErrWrap msg e), w)"
  "wrapS msg (Panic p, w) = (Panic p, w)"
  by (simp_all add: wrapS_def)

lemma mapErrS_simps [simp, res_simps]:
  "mapErrS f (Ok a, w) = (Ok a, w)"
  "mapErrS f (Err e, w) = (Err (f e), w)"
  "mapErrS f (Panic p, w) = (Panic p, w)"
  by (simp_all add: mapErrS_def)

lemma bindR_eq_Ok [simp]: "bindR r k = Ok b \<longleftrightarrow> (\<exists>a. r = Ok a \<and> k a = Ok b)"
  by (cases r) auto

lemma bindR_eq_Err: "bindR r k = Err e \<longleftrightarrow> r = Err e \<or> (\<exists>a. r = Ok a \<and> k a = Err e)"
  by (cases r) auto

lemma bindR_eq_Panic: "bindR r k = Panic p \<longleftrightarrow> r = Panic p \<or> (\<exists>a. r = Ok a \<and> k a = Panic p)"
  by (cases r) auto

lemma wrapR_eq_Ok [simp]: "wrapR msg r = Ok a \<longleftrightarrow> r = Ok a"
  by (cases r) auto

lemma mapErr_eq_Ok [simp]: "mapErr f r = Ok a \<longleftrightarrow> r = Ok a"
  by (cases r) auto

lemma wrapR_eq_Panic [simp]: "wrapR msg r = Panic p \<longleftrightarrow> r = Panic p"
  by (cases r) auto

lemma mapErr_eq_Panic [simp]: "mapErr f r = Panic p \<longleftrightarrow> r = Panic p"
  by (cases r) auto

lemma wrapR_eq_Err: "wrapR msg r = Err e \<longleftrightarrow> (\<exists>e'. r = Err e' \<and> e = ErrWrap msg e')"
  by (cases r) auto

lemma mapErr_eq_Err: "mapErr f r = Err e \<longleftrightarrow> (\<exists>e'. r = Err e' \<and> e = f e')"
  by (cases r) auto

lemma wrapS_eq_Ok [simp]: "wrapS msg m = (Ok a, w) \<longleftrightarrow> m = (Ok a, w)"
  by (cases m) (auto simp: wrapS_def)

lemma mapErrS_eq_Ok [simp]: "mapErrS f m = (Ok a, w) \<longleftrightarrow> m = (Ok a, w)"
  by (cases m) (auto simp: mapErrS_def)

lemma snd_wrapS [simp]: "snd (wrapS msg m) = snd m"
  by (simp add: wrapS_def)

lemma snd_mapErrS [simp]: "snd (mapErrS f m) = snd m"
  by (simp add: mapErrS_def)

lemma fst_wrapS [simp]: "fst (wrapS msg m) = wrapR msg (fst m)"
  by (simp add: wrapS_def)

lemma fst_mapErrS [simp]: "fst (mapErrS f m) = mapErr f (fst m)"
  by (simp add: mapErrS_def)

lemma andthen_eq_Ok: "andthen m k = (Ok b, w) \<longleftrightarrow> (\<exists>a w1. m = (Ok a, w1) \<and> k a w1 = (Ok b, w))"
  by (cases "(m, k)" rule: andthen.cases) auto

lemma andthen_OkE [elim!]:
  assumes "andthen m k = (Ok b, w)"
  obtains a w1 where "m = (Ok a, w1)" "k a w1 = (Ok b, w)"
  using assms by (auto simp: andthen_eq_Ok)

lemma andthen_cases:
  assumes "andthen m k = (r, w)"
  obtains (ok) a w1 where "m = (Ok a, w1)" "k a w1 = (r, w)"
  | (err) e where "m = (Err e, w)" "r = Err e"
  | (panic) p where "m = (Panic p, w)" "r = Panic p"
  using assms by (cases "(m, k)" rule: andthen.cases) auto

text \<open>The state after a sequence: an invariant kept by the first call and by the continuation is
  kept by the sequence.\<close>

lemma andthen_inv:
  assumes "P (snd m)" "\<And>a w1. m = (Ok a, w1) \<Longrightarrow> P w1 \<Longrightarrow> P (snd (k a w1))"
  shows "P (snd (andthen m k))"
  using assms by (cases "(m, k)" rule: andthen.cases) auto

lemma onErr_inv:
  assumes "P (snd m)" "\<And>e w1. m = (Err e, w1) \<Longrightarrow> P w1 \<Longrightarrow> P (snd (h e w1))"
  shows "P (snd (onErr m h))"
  using assms by (cases "(m, h)" rule: onErr.cases) auto

text \<open>Reading through a pointer.\<close>

fun deref :: "'a option \<Rightarrow> 'a res" where
  "deref (Some a) = Ok a"
| "deref None = Panic NilDereference"

lemma deref_eq_Ok [simp]: "deref p = Ok a \<longleftrightarrow> p = Some a"
  by (cases p) auto

text \<open>A pure result inside a state-passing computation.\<close>

definition pure_op :: "'a res \<Rightarrow> 'w \<Rightarrow> 'a res \<times> 'w" where
  "pure_op r w = (r, w)"

lemma pure_op_eq [simp]: "pure_op r w = (q, w') \<longleftrightarrow> r = q \<and> w' = w"
  by (auto simp: pure_op_def)

lemma snd_pure_op [simp]: "snd (pure_op r w) = w"
  by (simp add: pure_op_def)

lemma fst_pure_op [simp]: "fst (pure_op r w) = r"
  by (simp add: pure_op_def)

lemma andthen_pure_Ok [simp]: "andthen (pure_op (Ok a) w) k = k a w"
  by (simp add: pure_op_def)

lemma andthen_pureE:
  assumes "andthen (pure_op r w) k = (Ok b, w')"
  obtains a where "r = Ok a" "k a w = (Ok b, w')"
  using assms by (cases r) (auto simp: pure_op_def)

text \<open>Running an operation of a component inside a larger state.\<close>

definition lift_op :: "('w \<Rightarrow> 's) \<Rightarrow> ('s \<Rightarrow> 'w \<Rightarrow> 'w) \<Rightarrow> ('s \<Rightarrow> 'a res \<times> 's) \<Rightarrow> 'w \<Rightarrow> 'a res \<times> 'w" where
  "lift_op get put f w = (fst (f (get w)), put (snd (f (get w))) w)"

lemma lift_op_eq: "f (get w) = (r, s) \<Longrightarrow> lift_op get put f w = (r, put s w)"
  by (simp add: lift_op_def)

text \<open>A loop over a slice whose body may fail: the first error ends it.\<close>

fun mapR :: "('a \<Rightarrow> 'b res) \<Rightarrow> 'a list \<Rightarrow> 'b list res" where
  "mapR f [] = Ok []"
| "mapR f (x # xs) = bindR (f x) (\<lambda>y. bindR (mapR f xs) (\<lambda>ys. Ok (y # ys)))"

fun eachR :: "('a \<Rightarrow> unit res) \<Rightarrow> 'a list \<Rightarrow> unit res" where
  "eachR f [] = Ok ()"
| "eachR f (x # xs) = bindR (f x) (\<lambda>_. eachR f xs)"

lemma mapR_eq_Ok: "mapR f xs = Ok ys \<longleftrightarrow> map f xs = map Ok ys"
  by (induction xs arbitrary: ys) (auto simp: Cons_eq_map_conv)

lemma mapR_cong [fundef_cong]: "xs = ys \<Longrightarrow> (\<And>x. x \<in> set ys \<Longrightarrow> f x = g x) \<Longrightarrow> mapR f xs = mapR g ys"
  by (induction ys arbitrary: xs) auto

lemma eachR_eq_Ok [simp]: "eachR f xs = Ok u \<longleftrightarrow> (\<forall>x \<in> set xs. f x = Ok ())"
  by (induction xs) auto

text \<open>Go's \<open>int\<close> is 64 bits wide; \<open>wrap64\<close> is the value an arithmetic result wraps to.\<close>

definition wrap64 :: "int \<Rightarrow> int" where
  "wrap64 x = (x + 2 ^ 63) mod 2 ^ 64 - 2 ^ 63"

definition in_int64 :: "int \<Rightarrow> bool" where
  "in_int64 x \<longleftrightarrow> - (2 ^ 63) \<le> x \<and> x < 2 ^ 63"

lemma wrap64_id: "in_int64 x \<Longrightarrow> wrap64 x = x"
  by (simp add: wrap64_def in_int64_def)

lemma wrap64_in: "in_int64 (wrap64 x)"
  using pos_mod_bound [of "2 ^ 64 :: int" "x + 2 ^ 63"]
  by (simp add: wrap64_def in_int64_def)

text \<open>Association maps used for Go maps whose iteration order matters.\<close>

lemma map_upd_Some_dest: "(m(k \<mapsto> v)) x = Some y \<Longrightarrow> (x = k \<and> y = v) \<or> (x \<noteq> k \<and> m x = Some y)"
  by (auto split: if_splits)

end
