(* ===== verification/Mongo_Driver.thy ===== *)
theory Mongo_Driver
  imports Go_Strings
begin

text \<open>
  The MongoDB driver is a library, so it is a parameter: a record of the collection operations
  the stores call, over a server state of unknown type \<open>'c\<close>. Documents are records of type \<open>'d\<close>
  keyed by the hex or string form of \<open>_id\<close>. \<open>contents\<close> is a specification-only observation of
  what the server holds. \<open>mongo_ok\<close> states the documented behaviour the stores rely on: an
  operation that reports success had its effect, \<open>ErrNoDocuments\<close> means that nothing matched,
  generated ids are non-empty lower-case hex strings,
  a duplicate-key error means that a document with that \<open>_id\<close> or with a clashing unique index
  value exists, and a write that reports any other error may or may not have been applied.
\<close>

record ('c, 'd) driver =
  insert_one :: "string option \<Rightarrow> 'd \<Rightarrow> 'c \<Rightarrow> string res \<times> 'c"
  find_one :: "(string \<Rightarrow> 'd \<Rightarrow> bool) \<Rightarrow> 'c \<Rightarrow> (string \<times> 'd) res \<times> 'c"
  find_one_and_delete :: "(string \<Rightarrow> 'd \<Rightarrow> bool) \<Rightarrow> 'c \<Rightarrow> (string \<times> 'd) res \<times> 'c"
  update_by_id :: "string \<Rightarrow> ('d option \<Rightarrow> 'd) \<Rightarrow> bool \<Rightarrow> 'c \<Rightarrow> nat res \<times> 'c"
  delete_one :: "(string \<Rightarrow> 'd \<Rightarrow> bool) \<Rightarrow> 'c \<Rightarrow> nat res \<times> 'c"
  valid_hex :: "string \<Rightarrow> bool"
  contents :: "'c \<Rightarrow> string \<rightharpoonup> 'd"

definition ErrNoDocuments :: go_error where
  "ErrNoDocuments = ErrVar ''mongo.ErrNoDocuments'' ''mongo: no documents in result''"

definition is_duplicate_key :: "go_error \<Rightarrow> bool" where
  "is_duplicate_key e = (case e of ErrDup _ \<Rightarrow> True | _ \<Rightarrow> False)"

lemma is_duplicate_key_simps [simp]:
  "is_duplicate_key (ErrDup m)" "\<not> is_duplicate_key (ErrExt m)" "\<not> is_duplicate_key (ErrVar n m)"
  "\<not> is_duplicate_key ErrNoDocuments"
  by (simp_all add: is_duplicate_key_def ErrNoDocuments_def)

type_synonym 'd clash = "'d \<Rightarrow> 'd \<Rightarrow> bool"

text \<open>\<open>free_for clash m i x\<close>: writing \<open>x\<close> under \<open>i\<close> violates no unique index.\<close>

definition free_for :: "'d clash \<Rightarrow> (string \<rightharpoonup> 'd) \<Rightarrow> string \<Rightarrow> 'd \<Rightarrow> bool" where
  "free_for clash m i x \<longleftrightarrow> (\<forall>j y. m j = Some y \<longrightarrow> j \<noteq> i \<longrightarrow> \<not> clash x y)"

definition insert_law :: "'d clash \<Rightarrow> ('c, 'd) driver \<Rightarrow> bool" where
  "insert_law clash d \<longleftrightarrow> (\<forall>oid x c r c'. insert_one d oid x c = (r, c') \<longrightarrow>
     (case r of
        Ok i \<Rightarrow> contents d c i = None \<and> (\<forall>k. oid = Some k \<longrightarrow> i = k) \<and> (oid = None \<longrightarrow> valid_hex d i \<and> i \<noteq> [] \<and> to_lower i = i \<and> CHR ''/'' \<notin> set i)
                \<and> free_for clash (contents d c) i x
                \<and> contents d c' = (contents d c)(i \<mapsto> x)
      | Err e \<Rightarrow>
          (if is_duplicate_key e
           then contents d c' = contents d c
                \<and> ((\<exists>k. oid = Some k \<and> contents d c k \<noteq> None) \<or> (\<exists>j y. contents d c j = Some y \<and> clash x y))
           else contents d c' = contents d c
                \<or> (\<exists>i. contents d c i = None \<and> (\<forall>k. oid = Some k \<longrightarrow> i = k)
                       \<and> free_for clash (contents d c) i x
                       \<and> contents d c' = (contents d c)(i \<mapsto> x) \<and> (oid = None \<longrightarrow> to_lower i = i)))
      | Panic _ \<Rightarrow> False))"

definition find_law :: "('c, 'd) driver \<Rightarrow> bool" where
  "find_law d \<longleftrightarrow> (\<forall>P c r c'. find_one d P c = (r, c') \<longrightarrow> contents d c' = contents d c \<and>
     (case r of
        Ok (i, x) \<Rightarrow> contents d c i = Some x \<and> P i x
      | Err e \<Rightarrow> err_is e ErrNoDocuments \<longrightarrow> (\<forall>i x. contents d c i = Some x \<longrightarrow> \<not> P i x)
      | Panic _ \<Rightarrow> False))"

definition find_delete_law :: "('c, 'd) driver \<Rightarrow> bool" where
  "find_delete_law d \<longleftrightarrow> (\<forall>P c r c'. find_one_and_delete d P c = (r, c') \<longrightarrow>
     (case r of
        Ok (i, x) \<Rightarrow> contents d c i = Some x \<and> P i x \<and> contents d c' = (contents d c)(i := None)
      | Err e \<Rightarrow>
          (if err_is e ErrNoDocuments
           then contents d c' = contents d c \<and> (\<forall>i x. contents d c i = Some x \<longrightarrow> \<not> P i x)
           else contents d c' = contents d c
                \<or> (\<exists>i x. contents d c i = Some x \<and> P i x \<and> contents d c' = (contents d c)(i := None)))
      | Panic _ \<Rightarrow> False))"

text \<open>What an update of one document by id does: nothing when it is absent, unless it upserts.\<close>

definition upd_map :: "string \<Rightarrow> ('d option \<Rightarrow> 'd) \<Rightarrow> bool \<Rightarrow> (string \<rightharpoonup> 'd) \<Rightarrow> string \<rightharpoonup> 'd" where
  "upd_map i f upsert m = (if m i = None \<and> \<not> upsert then m else m(i \<mapsto> f (m i)))"

definition update_law :: "'d clash \<Rightarrow> ('c, 'd) driver \<Rightarrow> bool" where
  "update_law clash d \<longleftrightarrow> (\<forall>i f u c r c'. update_by_id d i f u c = (r, c') \<longrightarrow>
     (let applied = (contents d c' = upd_map i f u (contents d c)
                     \<and> (upd_map i f u (contents d c) \<noteq> contents d c
                          \<longrightarrow> free_for clash (contents d c) i (f (contents d c i))))
      in case r of
           Ok n \<Rightarrow> applied \<and> n = (if contents d c i = None then 0 else 1)
         | Err e \<Rightarrow> contents d c' = contents d c \<or> applied
         | Panic _ \<Rightarrow> False))"

definition delete_law :: "('c, 'd) driver \<Rightarrow> bool" where
  "delete_law d \<longleftrightarrow> (\<forall>P c r c'. delete_one d P c = (r, c') \<longrightarrow>
     (let none = (contents d c' = contents d c);
          one = (\<exists>i x. contents d c i = Some x \<and> P i x \<and> contents d c' = (contents d c)(i := None))
      in case r of
           Ok n \<Rightarrow> (if n = 0 then none \<and> (\<forall>i x. contents d c i = Some x \<longrightarrow> \<not> P i x) else one)
         | Err e \<Rightarrow> none \<or> one
         | Panic _ \<Rightarrow> False))"

text \<open>The driver returns errors of its own, never a sentinel of this program.\<close>

fun driver_err :: "go_error \<Rightarrow> bool" where
  "driver_err (ErrVar n m) = (ErrVar n m = ErrNoDocuments)"
| "driver_err (ErrExt m) = True"
| "driver_err (ErrDup m) = True"
| "driver_err (ErrWrap p e) = driver_err e"
| "driver_err _ = False"

definition errors_law :: "('c, 'd) driver \<Rightarrow> bool" where
  "errors_law d \<longleftrightarrow> (\<forall>oid x P i f u c e c'.
     (insert_one d oid x c = (Err e, c') \<or> find_one d P c = (Err e, c') \<or> find_one_and_delete d P c = (Err e, c')
      \<or> update_by_id d i f u c = (Err e, c') \<or> delete_one d P c = (Err e, c')) \<longrightarrow> driver_err e)"

lemma driver_err_sentinel: "driver_err e \<Longrightarrow> ErrVar n m \<noteq> ErrNoDocuments \<Longrightarrow> \<not> err_is e (ErrVar n m)"
  by (induction e rule: driver_err.induct) (auto simp: ErrNoDocuments_def)

definition mongo_ok :: "'d clash \<Rightarrow> ('c, 'd) driver \<Rightarrow> bool" where
  "mongo_ok clash d \<longleftrightarrow>
     insert_law clash d \<and> find_law d \<and> find_delete_law d \<and> update_law clash d \<and> delete_law d
     \<and> errors_law d"

definition no_clash :: "'d clash" where
  "no_clash x y = False"

lemma no_clash_simps [simp]: "\<not> no_clash x y" "free_for no_clash m i x"
  by (simp_all add: no_clash_def free_for_def)

text \<open>A collection handle: the driver and the server state behind it. The store structs hold
  the driver's client; each of their methods is a function on this record.\<close>

record ('c, 'd) coll =
  drv :: "('c, 'd) driver"
  srv :: 'c

definition docs :: "('c, 'd) coll \<Rightarrow> string \<rightharpoonup> 'd" where
  "docs s = contents (drv s) (srv s)"

definition coll_run :: "(('c, 'd) driver \<Rightarrow> 'c \<Rightarrow> 'a res \<times> 'c) \<Rightarrow> ('c, 'd) coll \<Rightarrow> 'a res \<times> ('c, 'd) coll" where
  "coll_run f s = (fst (f (drv s) (srv s)), s\<lparr>srv := snd (f (drv s) (srv s))\<rparr>)"

definition c_insert :: "string option \<Rightarrow> 'd \<Rightarrow> ('c, 'd) coll \<Rightarrow> string res \<times> ('c, 'd) coll" where
  "c_insert oid x = coll_run (\<lambda>d. insert_one d oid x)"

definition c_find :: "(string \<Rightarrow> 'd \<Rightarrow> bool) \<Rightarrow> ('c, 'd) coll \<Rightarrow> (string \<times> 'd) res \<times> ('c, 'd) coll" where
  "c_find P = coll_run (\<lambda>d. find_one d P)"

definition c_find_delete :: "(string \<Rightarrow> 'd \<Rightarrow> bool) \<Rightarrow> ('c, 'd) coll \<Rightarrow> (string \<times> 'd) res \<times> ('c, 'd) coll" where
  "c_find_delete P = coll_run (\<lambda>d. find_one_and_delete d P)"

definition c_update :: "string \<Rightarrow> ('d option \<Rightarrow> 'd) \<Rightarrow> bool \<Rightarrow> ('c, 'd) coll \<Rightarrow> nat res \<times> ('c, 'd) coll" where
  "c_update i f u = coll_run (\<lambda>d. update_by_id d i f u)"

definition c_delete :: "(string \<Rightarrow> 'd \<Rightarrow> bool) \<Rightarrow> ('c, 'd) coll \<Rightarrow> nat res \<times> ('c, 'd) coll" where
  "c_delete P = coll_run (\<lambda>d. delete_one d P)"

definition by_id :: "string \<Rightarrow> string \<Rightarrow> 'd \<Rightarrow> bool" where
  "by_id i j x = (j = i)"

lemma by_id_iff [simp]: "by_id i j x \<longleftrightarrow> j = i"
  by (simp add: by_id_def)

definition coll_ok :: "'d clash \<Rightarrow> ('c, 'd) coll \<Rightarrow> bool" where
  "coll_ok clash s = mongo_ok clash (drv s)"

lemmas coll_defs = c_insert_def c_find_def c_find_delete_def c_update_def c_delete_def coll_run_def
  docs_def

lemma drv_ops [simp]:
  "drv (snd (c_insert oid x s)) = drv s" "drv (snd (c_find P s)) = drv s"
  "drv (snd (c_find_delete P s)) = drv s" "drv (snd (c_update i f u s)) = drv s"
  "drv (snd (c_delete P s)) = drv s"
  by (simp_all add: coll_defs)

lemma coll_ok_ops [simp]:
  "coll_ok clash (snd (c_insert oid x s)) = coll_ok clash s"
  "coll_ok clash (snd (c_find P s)) = coll_ok clash s"
  "coll_ok clash (snd (c_find_delete P s)) = coll_ok clash s"
  "coll_ok clash (snd (c_update i f u s)) = coll_ok clash s"
  "coll_ok clash (snd (c_delete P s)) = coll_ok clash s"
  by (simp_all add: coll_ok_def)

lemma coll_ok_after:
  "c_insert oid x s = (r, s') \<Longrightarrow> coll_ok clash s' = coll_ok clash s"
  "c_find P s = (q, s') \<Longrightarrow> coll_ok clash s' = coll_ok clash s"
  "c_find_delete P s = (q, s') \<Longrightarrow> coll_ok clash s' = coll_ok clash s"
  "c_update i f u s = (n, s') \<Longrightarrow> coll_ok clash s' = coll_ok clash s"
  "c_delete P s = (n, s') \<Longrightarrow> coll_ok clash s' = coll_ok clash s"
  by (auto simp: coll_defs coll_ok_def)

subsection \<open>The laws at the level of collections\<close>

lemma c_insert_cases:
  assumes "coll_ok clash s" "c_insert oid x s = (r, s')"
  obtains (ok) i where "r = Ok i" "docs s i = None" "\<forall>k. oid = Some k \<longrightarrow> i = k"
      "oid = None \<longrightarrow> valid_hex (drv s) i \<and> i \<noteq> [] \<and> to_lower i = i \<and> CHR ''/'' \<notin> set i" "free_for clash (docs s) i x"
      "docs s' = (docs s)(i \<mapsto> x)"
  | (dup) e where "r = Err e" "is_duplicate_key e" "docs s' = docs s"
      "(\<exists>k. oid = Some k \<and> docs s k \<noteq> None) \<or> (\<exists>j y. docs s j = Some y \<and> clash x y)"
  | (unapplied) e where "r = Err e" "\<not> is_duplicate_key e" "docs s' = docs s"
  | (applied) e i where "r = Err e" "\<not> is_duplicate_key e" "docs s i = None"
      "\<forall>k. oid = Some k \<longrightarrow> i = k" "free_for clash (docs s) i x" "docs s' = (docs s)(i \<mapsto> x)" "oid = None \<longrightarrow> to_lower i = i"
proof -
  obtain c' where c: "insert_one (drv s) oid x (srv s) = (r, c')" "s' = s\<lparr>srv := c'\<rparr>"
    using assms(2) by (cases "insert_one (drv s) oid x (srv s)") (auto simp: coll_defs)
  have law: "insert_law clash (drv s)"
    using assms(1) by (simp add: coll_ok_def mongo_ok_def)
  note L = law [unfolded insert_law_def, rule_format, OF c(1)]
  show thesis
    using L ok dup unapplied applied c(2) by (auto simp: docs_def split: res.splits if_splits)
qed

lemma c_find_cases:
  assumes "coll_ok clash s" "c_find P s = (r, s')"
  obtains (ok) i x where "r = Ok (i, x)" "docs s i = Some x" "P i x" "docs s' = docs s"
  | (none) e where "r = Err e" "err_is e ErrNoDocuments" "\<forall>i x. docs s i = Some x \<longrightarrow> \<not> P i x" "docs s' = docs s"
  | (failed) e where "r = Err e" "\<not> err_is e ErrNoDocuments" "docs s' = docs s" "driver_err e"
proof -
  obtain c' where c: "find_one (drv s) P (srv s) = (r, c')" "s' = s\<lparr>srv := c'\<rparr>"
    using assms(2) by (cases "find_one (drv s) P (srv s)") (auto simp: coll_defs)
  have law: "find_law (drv s)"
    using assms(1) by (simp add: coll_ok_def mongo_ok_def)
  note L = law [unfolded find_law_def, rule_format, OF c(1)]
  have "driver_err e" if "r = Err e" for e
    using assms(1) c(1) that by (auto simp: coll_ok_def mongo_ok_def errors_law_def)
  then show thesis
    using L ok none failed c(2) by (auto simp: docs_def split: res.splits)
qed

lemma c_find_delete_cases:
  assumes "coll_ok clash s" "c_find_delete P s = (r, s')"
  obtains (ok) i x where "r = Ok (i, x)" "docs s i = Some x" "P i x" "docs s' = (docs s)(i := None)"
  | (none) e where "r = Err e" "err_is e ErrNoDocuments" "\<forall>i x. docs s i = Some x \<longrightarrow> \<not> P i x" "docs s' = docs s"
  | (failed) e where "r = Err e" "\<not> err_is e ErrNoDocuments" "docs s' = docs s"
  | (applied) e i x where "r = Err e" "\<not> err_is e ErrNoDocuments" "docs s i = Some x" "P i x"
      "docs s' = (docs s)(i := None)"
proof -
  obtain c' where c: "find_one_and_delete (drv s) P (srv s) = (r, c')" "s' = s\<lparr>srv := c'\<rparr>"
    using assms(2) by (cases "find_one_and_delete (drv s) P (srv s)") (auto simp: coll_defs)
  have law: "find_delete_law (drv s)"
    using assms(1) by (simp add: coll_ok_def mongo_ok_def)
  note L = law [unfolded find_delete_law_def, rule_format, OF c(1)]
  show thesis
    using L ok none failed applied c(2) by (auto simp: docs_def split: res.splits if_splits)
qed

lemma c_update_cases:
  assumes "coll_ok clash s" "c_update i f u s = (r, s')"
  obtains (ok) "r = Ok (if docs s i = None then 0 else 1)" "docs s' = upd_map i f u (docs s)"
      "docs s' \<noteq> docs s \<Longrightarrow> free_for clash (docs s) i (f (docs s i))"
  | (unapplied) e where "r = Err e" "docs s' = docs s"
  | (applied) e where "r = Err e" "docs s' = upd_map i f u (docs s)"
      "docs s' \<noteq> docs s \<Longrightarrow> free_for clash (docs s) i (f (docs s i))"
proof -
  obtain c' where c: "update_by_id (drv s) i f u (srv s) = (r, c')" "s' = s\<lparr>srv := c'\<rparr>"
    using assms(2) by (cases "update_by_id (drv s) i f u (srv s)") (auto simp: coll_defs)
  have law: "update_law clash (drv s)"
    using assms(1) by (simp add: coll_ok_def mongo_ok_def)
  note L = law [unfolded update_law_def Let_def, rule_format, OF c(1)]
  have d: "docs s = contents (drv s) (srv s)" "docs s' = contents (drv s) c'"
    using c(2) by (simp_all add: docs_def)
  show thesis
    using L ok unapplied applied unfolding d by (cases r) (simp_all, blast+)
qed

lemma c_delete_cases:
  assumes "coll_ok clash s" "c_delete P s = (r, s')"
  obtains (none) "r = Ok 0" "docs s' = docs s" "\<forall>i x. docs s i = Some x \<longrightarrow> \<not> P i x"
  | (one) n i x where "r = Ok n" "n \<noteq> 0" "docs s i = Some x" "P i x" "docs s' = (docs s)(i := None)"
  | (unapplied) e where "r = Err e" "docs s' = docs s"
  | (applied) e i x where "r = Err e" "docs s i = Some x" "P i x" "docs s' = (docs s)(i := None)"
proof -
  obtain c' where c: "delete_one (drv s) P (srv s) = (r, c')" "s' = s\<lparr>srv := c'\<rparr>"
    using assms(2) by (cases "delete_one (drv s) P (srv s)") (auto simp: coll_defs)
  have law: "delete_law (drv s)"
    using assms(1) by (simp add: coll_ok_def mongo_ok_def)
  note L = law [unfolded delete_law_def Let_def, rule_format, OF c(1)]
  have d: "docs s = contents (drv s) (srv s)" "docs s' = contents (drv s) c'"
    using c(2) by (simp_all add: docs_def)
  show thesis
    using L none one unapplied applied unfolding d by (cases r) (auto split: if_splits)
qed

lemma c_drv_eq:
  "c_insert oid x s = (r, s') \<Longrightarrow> drv s' = drv s" "c_find P s = (q, s') \<Longrightarrow> drv s' = drv s"
  "c_find_delete P s = (q, s') \<Longrightarrow> drv s' = drv s" "c_update i f u s = (n, s') \<Longrightarrow> drv s' = drv s"
  "c_delete P s = (n, s') \<Longrightarrow> drv s' = drv s"
  by (auto simp: coll_defs)

end
