(* ===== verification/Mongo_Mem.thy ===== *)
theory Mongo_Mem
  imports Mongo_Driver
begin

text \<open>
  A concrete server that satisfies the driver's laws: the documents as an association list, a
  supply of fresh ids and a script of failures (\<open>Some msg\<close>: the next call returns that error and
  has no effect). It shows that the laws of \<open>Mongo_Driver\<close> can hold and it is the instance at which
  the properties about the stores are evaluated; no store refers to it.
\<close>

record 'd mem =
  mdocs :: "(string \<times> 'd) list"
  mnext :: nat
  mscript :: "string option list"

definition mem_step :: "('d mem \<Rightarrow> 'a res \<times> 'd mem) \<Rightarrow> 'd mem \<Rightarrow> 'a res \<times> 'd mem" where
  "mem_step f c = (case mscript c of
       [] \<Rightarrow> f c
     | None # rest \<Rightarrow> f (c\<lparr>mscript := rest\<rparr>)
     | Some msg # rest \<Rightarrow> (Err (ErrExt msg), c\<lparr>mscript := rest\<rparr>))"

definition fresh_len :: "'d mem \<Rightarrow> nat" where
  "fresh_len c = Suc (fold max (map (length \<circ> fst) (mdocs c)) (mnext c))"

definition mem_has :: "(string \<Rightarrow> 'd \<Rightarrow> bool) \<Rightarrow> 'd mem \<Rightarrow> string \<Rightarrow> bool" where
  "mem_has P c i = (case map_of (mdocs c) i of None \<Rightarrow> False | Some x \<Rightarrow> P i x)"

definition mem_pick :: "(string \<Rightarrow> 'd \<Rightarrow> bool) \<Rightarrow> 'd mem \<Rightarrow> (string \<times> 'd) option" where
  "mem_pick P c = (case find (mem_has P c) (map fst (mdocs c)) of
       None \<Rightarrow> None
     | Some i \<Rightarrow> (case map_of (mdocs c) i of None \<Rightarrow> None | Some x \<Rightarrow> Some (i, x)))"

definition mem_insert :: "'d clash \<Rightarrow> string option \<Rightarrow> 'd \<Rightarrow> 'd mem \<Rightarrow> string res \<times> 'd mem" where
  "mem_insert clash oid x = mem_step (\<lambda>c.
     let n = fresh_len c;
         i = (case oid of Some k \<Rightarrow> k | None \<Rightarrow> replicate n (CHR ''1''))
     in if map_of (mdocs c) i \<noteq> None \<or> mem_pick (\<lambda>j y. clash x y) c \<noteq> None
        then (Err (ErrDup ''E11000 duplicate key error''), c)
        else (Ok i, c\<lparr>mdocs := (i, x) # mdocs c, mnext := n\<rparr>))"

definition mem_find :: "(string \<Rightarrow> 'd \<Rightarrow> bool) \<Rightarrow> 'd mem \<Rightarrow> (string \<times> 'd) res \<times> 'd mem" where
  "mem_find P = mem_step (\<lambda>c. case mem_pick P c of
       None \<Rightarrow> (Err ErrNoDocuments, c) | Some p \<Rightarrow> (Ok p, c))"

definition mem_without :: "string \<Rightarrow> 'd mem \<Rightarrow> 'd mem" where
  "mem_without i c = c\<lparr>mdocs := filter (\<lambda>p. fst p \<noteq> i) (mdocs c)\<rparr>"

definition mem_find_delete :: "(string \<Rightarrow> 'd \<Rightarrow> bool) \<Rightarrow> 'd mem \<Rightarrow> (string \<times> 'd) res \<times> 'd mem" where
  "mem_find_delete P = mem_step (\<lambda>c. case mem_pick P c of
       None \<Rightarrow> (Err ErrNoDocuments, c) | Some p \<Rightarrow> (Ok p, mem_without (fst p) c))"

definition mem_update :: "'d clash \<Rightarrow> string \<Rightarrow> ('d option \<Rightarrow> 'd) \<Rightarrow> bool \<Rightarrow> 'd mem \<Rightarrow> nat res \<times> 'd mem" where
  "mem_update clash i f u = mem_step (\<lambda>c.
     let old = map_of (mdocs c) i; x = f old
     in if old = None \<and> \<not> u then (Ok 0, c)
        else if mem_pick (\<lambda>j y. j \<noteq> i \<and> clash x y) c \<noteq> None
        then (Err (ErrDup ''E11000 duplicate key error''), c)
        else (Ok (if old = None then 0 else 1), c\<lparr>mdocs := (i, x) # mdocs c\<rparr>))"

definition mem_delete :: "(string \<Rightarrow> 'd \<Rightarrow> bool) \<Rightarrow> 'd mem \<Rightarrow> nat res \<times> 'd mem" where
  "mem_delete P = mem_step (\<lambda>c. case mem_pick P c of
       None \<Rightarrow> (Ok 0, c) | Some p \<Rightarrow> (Ok 1, mem_without (fst p) c))"

definition mem_hex :: "string \<Rightarrow> bool" where
  "mem_hex s = list_all (\<lambda>c. digit_val c \<noteq> None) s"

definition mem_driver :: "'d clash \<Rightarrow> ('d mem, 'd) driver" where
  "mem_driver clash = \<lparr>insert_one = mem_insert clash, find_one = mem_find,
     find_one_and_delete = mem_find_delete, update_by_id = mem_update clash,
     delete_one = mem_delete, valid_hex = mem_hex, contents = (\<lambda>c. map_of (mdocs c))\<rparr>"

definition mem_coll :: "'d clash \<Rightarrow> (string \<times> 'd) list \<Rightarrow> string option list \<Rightarrow> ('d mem, 'd) coll" where
  "mem_coll clash xs script = \<lparr>drv = mem_driver clash, srv = \<lparr>mdocs = xs, mnext = 0, mscript = script\<rparr>\<rparr>"

lemmas mem_ops = mem_insert_def mem_find_def mem_find_delete_def mem_update_def mem_delete_def
  mem_step_def

lemma mem_driver_sel [simp]:
  "insert_one (mem_driver clash) = mem_insert clash" "find_one (mem_driver clash) = mem_find"
  "find_one_and_delete (mem_driver clash) = mem_find_delete"
  "update_by_id (mem_driver clash) = mem_update clash" "delete_one (mem_driver clash) = mem_delete"
  "valid_hex (mem_driver clash) = mem_hex" "contents (mem_driver clash) c = map_of (mdocs c)"
  by (simp_all add: mem_driver_def)

lemma mem_pick_Some: "mem_pick P c = Some (i, x) \<Longrightarrow> map_of (mdocs c) i = Some x \<and> P i x"
  by (auto simp: mem_pick_def mem_has_def find_Some_iff split: option.splits)

lemma mem_pick_None: "mem_pick P c = None \<longleftrightarrow> (\<forall>i x. map_of (mdocs c) i = Some x \<longrightarrow> \<not> P i x)"
proof
  assume n: "mem_pick P c = None"
  show "\<forall>i x. map_of (mdocs c) i = Some x \<longrightarrow> \<not> P i x"
  proof (intro allI impI notI)
    fix i x assume ix: "map_of (mdocs c) i = Some x" "P i x"
    then have "i \<in> set (map fst (mdocs c))" "mem_has P c i"
      by (auto simp: mem_has_def dest: map_of_SomeD intro: rev_image_eqI)
    then have "find (mem_has P c) (map fst (mdocs c)) \<noteq> None"
      unfolding find_None_iff by blast
    then obtain k where k: "find (mem_has P c) (map fst (mdocs c)) = Some k"
      by blast
    then have "mem_has P c k"
      by (auto simp: find_Some_iff)
    then show False
      using n k by (auto simp: mem_pick_def mem_has_def split: option.splits)
  qed
next
  assume "\<forall>i x. map_of (mdocs c) i = Some x \<longrightarrow> \<not> P i x"
  then show "mem_pick P c = None"
    using mem_pick_Some by (cases "mem_pick P c") fastforce+
qed

lemma map_of_filter_fst: "map_of (filter (\<lambda>p. fst p \<noteq> i) xs) = (map_of xs)(i := None)"
  by (induction xs) (auto simp: fun_eq_iff)

lemma mem_without_docs [simp]: "map_of (mdocs (mem_without i c)) = (map_of (mdocs c))(i := None)"
  by (simp add: mem_without_def map_of_filter_fst)

lemma fold_max_ge: "(x :: nat) \<in> set xs \<or> x \<le> a \<Longrightarrow> x \<le> fold max xs a"
  by (induction xs arbitrary: a) (fastforce simp: le_max_iff_disj)+

lemma fresh_len_new: "map_of (mdocs c) (replicate (fresh_len c) ch) = None"
proof (rule ccontr)
  assume "map_of (mdocs c) (replicate (fresh_len c) ch) \<noteq> None"
  then have "fresh_len c \<in> set (map (length \<circ> fst) (mdocs c))"
    by (force dest!: map_of_SomeD intro: rev_image_eqI)
  then have "fresh_len c \<le> fold max (map (length \<circ> fst) (mdocs c)) (mnext c)"
    by (intro fold_max_ge) simp
  then show False
    by (simp add: fresh_len_def)
qed

lemma err_is_ext [simp]: "\<not> err_is (ErrExt m) ErrNoDocuments" "\<not> err_is (ErrDup m) ErrNoDocuments"
  "err_is ErrNoDocuments ErrNoDocuments" "ErrExt m \<noteq> ErrNoDocuments" "ErrDup m \<noteq> ErrNoDocuments"
  by (simp_all add: ErrNoDocuments_def)

text \<open>The failure script only ever changes the script: each law reduces to the scripted-free step.\<close>

lemma mem_step_cases:
  assumes "mem_step f c = (r, c')"
  obtains (fail) m where "r = Err (ErrExt m)" "mdocs c' = mdocs c"
  | (run) c0 where "mdocs c0 = mdocs c" "f c0 = (r, c')"
proof (cases "mscript c")
  case Nil
  then show thesis
    using assms run [of c] by (simp add: mem_step_def)
next
  case (Cons a rest)
  then show thesis
    using assms fail run [of "c\<lparr>mscript := rest\<rparr>"] by (cases a) (auto simp: mem_step_def)
qed

lemma mem_insert_law: "insert_law clash (mem_driver clash)"
  unfolding insert_law_def
proof (intro allI impI, simp only: mem_driver_sel mem_insert_def)
  fix oid x c r c'
  assume "mem_step (\<lambda>c.
     let n = fresh_len c; i = (case oid of Some k \<Rightarrow> k | None \<Rightarrow> replicate n (CHR ''1''))
     in if map_of (mdocs c) i \<noteq> None \<or> mem_pick (\<lambda>j y. clash x y) c \<noteq> None
        then (Err (ErrDup ''E11000 duplicate key error''), c)
        else (Ok i, c\<lparr>mdocs := (i, x) # mdocs c, mnext := n\<rparr>)) c = (r, c')"
  then show "case r of
        Ok i \<Rightarrow> map_of (mdocs c) i = None \<and> (\<forall>k. oid = Some k \<longrightarrow> i = k) \<and> (oid = None \<longrightarrow> mem_hex i \<and> i \<noteq> [] \<and> to_lower i = i \<and> CHR ''/'' \<notin> set i)
                \<and> free_for clash (map_of (mdocs c)) i x \<and> map_of (mdocs c') = (map_of (mdocs c))(i \<mapsto> x)
      | Err e \<Rightarrow>
          (if is_duplicate_key e
           then map_of (mdocs c') = map_of (mdocs c)
                \<and> ((\<exists>k. oid = Some k \<and> map_of (mdocs c) k \<noteq> None) \<or> (\<exists>j y. map_of (mdocs c) j = Some y \<and> clash x y))
           else map_of (mdocs c') = map_of (mdocs c)
                \<or> (\<exists>i. map_of (mdocs c) i = None \<and> (\<forall>k. oid = Some k \<longrightarrow> i = k)
                       \<and> free_for clash (map_of (mdocs c)) i x \<and> map_of (mdocs c') = (map_of (mdocs c))(i \<mapsto> x) \<and> (oid = None \<longrightarrow> to_lower i = i)))
      | Panic _ \<Rightarrow> False"
  proof (cases rule: mem_step_cases)
    case (fail m)
    then show ?thesis by simp
  next
    case (run c0)
    have one: "lower_char (CHR ''1'') = CHR ''1''" by code_simp
    have hex: "mem_hex (replicate n (CHR ''1'')) \<and> to_lower (replicate n (CHR ''1'')) = replicate n (CHR ''1'') \<and> CHR ''/'' \<notin> set (replicate n (CHR ''1''))" for n
      by (simp add: mem_hex_def list_all_iff digit_val_def to_lower_def one)
    have pos: "replicate (fresh_len c0) (CHR ''1'') \<noteq> []"
      by (simp add: fresh_len_def)
    show ?thesis
      using run hex pos fresh_len_new [of c0 "CHR ''1''"] mem_pick_None [of "\<lambda>j y. clash x y" c0]
      by (fastforce simp: Let_def free_for_def split: option.splits if_splits)
  qed
qed

lemma mem_find_law: "find_law (mem_driver clash)"
  unfolding find_law_def
  by (auto simp: mem_find_def mem_pick_None elim!: mem_step_cases dest!: mem_pick_Some split: option.splits)

lemma mem_find_delete_law: "find_delete_law (mem_driver clash)"
  unfolding find_delete_law_def
  by (auto simp: mem_find_delete_def mem_pick_None elim!: mem_step_cases dest!: mem_pick_Some split: option.splits)

lemma mem_delete_law: "delete_law (mem_driver clash)"
  unfolding delete_law_def Let_def
  by (fastforce simp: mem_delete_def mem_pick_None elim!: mem_step_cases dest!: mem_pick_Some split: option.splits)

lemma mem_update_law: "update_law clash (mem_driver clash)"
  unfolding update_law_def Let_def
proof (intro allI impI, simp only: mem_driver_sel mem_update_def)
  fix i f u c r c'
  assume "mem_step (\<lambda>c.
     let old = map_of (mdocs c) i; x = f old
     in if old = None \<and> \<not> u then (Ok 0, c)
        else if mem_pick (\<lambda>j y. j \<noteq> i \<and> clash x y) c \<noteq> None
        then (Err (ErrDup ''E11000 duplicate key error''), c)
        else (Ok (if old = None then 0 else 1), c\<lparr>mdocs := (i, x) # mdocs c\<rparr>)) c = (r, c')"
  then show "case r of
           Ok n \<Rightarrow> (map_of (mdocs c') = upd_map i f u (map_of (mdocs c))
                     \<and> (upd_map i f u (map_of (mdocs c)) \<noteq> map_of (mdocs c)
                          \<longrightarrow> free_for clash (map_of (mdocs c)) i (f (map_of (mdocs c) i))))
                   \<and> n = (if map_of (mdocs c) i = None then 0 else 1)
         | Err e \<Rightarrow> map_of (mdocs c') = map_of (mdocs c) \<or> map_of (mdocs c') = upd_map i f u (map_of (mdocs c))
                     \<and> (upd_map i f u (map_of (mdocs c)) \<noteq> map_of (mdocs c)
                          \<longrightarrow> free_for clash (map_of (mdocs c)) i (f (map_of (mdocs c) i)))
         | Panic _ \<Rightarrow> False"
  proof (cases rule: mem_step_cases)
    case (fail m)
    then show ?thesis by simp
  next
    case (run c0)
    then show ?thesis
      using mem_pick_None [of "\<lambda>j y. j \<noteq> i \<and> clash (f (map_of (mdocs c0) i)) y" c0]
      by (cases "map_of (mdocs c0) i") (fastforce simp: Let_def free_for_def upd_map_def split: if_splits)+
  qed
qed

lemma mem_errors_law: "errors_law (mem_driver clash)"
proof -
  have ndoc: "driver_err ErrNoDocuments"
    by (simp add: ErrNoDocuments_def)
  show ?thesis
    unfolding errors_law_def using ndoc
    by (auto simp: mem_insert_def mem_find_def mem_find_delete_def mem_update_def mem_delete_def Let_def
        elim!: mem_step_cases split: option.splits if_splits)
qed

lemma mem_driver_ok [simp]: "mongo_ok clash (mem_driver clash)"
  by (simp add: mongo_ok_def mem_insert_law mem_find_law mem_find_delete_law mem_update_law mem_delete_law mem_errors_law)

lemma mem_coll_ok [simp]: "coll_ok clash (mem_coll clash xs script)"
  by (simp add: coll_ok_def mem_coll_def)

lemma docs_mem_coll [simp]: "docs (mem_coll clash xs script) = map_of xs"
  by (simp add: docs_def mem_coll_def)

text \<open>Evaluation of a store over the concrete server.\<close>

lemmas mem_eval = coll_defs mem_coll_def mem_ops mem_pick_def mem_has_def mem_without_def fresh_len_def Let_def

end
