(* ===== verification/Nonce_Store.thy ===== *)
theory Nonce_Store
  imports Mongo_Mem
begin

text \<open>
  \<open>pkg/storage/mongodb/oidcnoncestore/tx_nonce_store.go\<close>: the one-time tokens of OIDC4VP
  interactions. The interface \<open>txNonceStore\<close> of \<open>pkg/service/oidc4vp/txmanager.go\<close> is the locale
  \<open>nonce_store\<close>; the one-time guarantee is proved from its laws, for every sequence of
  operations, and the locale is interpreted on the MongoDB store. Times are readings of one
  clock, passed as \<open>now\<close>; \<open>zero_time\<close> is Go's zero \<open>time.Time\<close>.
\<close>

definition zero_time :: int where
  "zero_time = - 62135596800000"

record nonce_doc =
  nd_txID :: string
  nd_expireAt :: int

type_synonym 'c nonce_coll = "('c, nonce_doc) coll"

text \<open>\<open>_id,omitempty\<close>: an empty id is left out and the server generates one.\<close>

definition omit_empty_id :: "string \<Rightarrow> string option" where
  "omit_empty_id s = (if s = [] then None else Some s)"

definition setIfNotExist :: "string \<Rightarrow> string \<Rightarrow> int \<Rightarrow> int \<Rightarrow> 'c nonce_coll \<Rightarrow> bool res \<times> 'c nonce_coll" where
  "setIfNotExist nonce txID expiration now s =
     (let doc = \<lparr>nd_txID = txID, nd_expireAt = now + expiration\<rparr>
      in case c_insert (omit_empty_id nonce) doc s of
           (Ok _, s') \<Rightarrow> (Ok True, s')
         | (Err e, s') \<Rightarrow> if is_duplicate_key e then (Ok False, s') else (Err e, s')
         | (Panic p, s') \<Rightarrow> (Panic p, s'))"

text \<open>\<open>GetAndDelete\<close>: the expiry test reads \<open>doc\<close> also when the call failed, where it is still the
  zero document.\<close>

definition getAndDelete :: "string \<Rightarrow> int \<Rightarrow> 'c nonce_coll \<Rightarrow> (string \<times> bool) res \<times> 'c nonce_coll" where
  "getAndDelete nonce now s =
     (case c_find_delete (by_id nonce) s of
        (Ok (i, doc), s') \<Rightarrow>
          if nd_expireAt doc < now then (Ok ([], False), s') else (Ok (nd_txID doc, True), s')
      | (Err e, s') \<Rightarrow>
          if err_is e ErrNoDocuments \<or> zero_time < now then (Ok ([], False), s')
          else (Err (ErrWrap ''mongo find failed: '' e), s')
      | (Panic p, s') \<Rightarrow> (Panic p, s'))"

text \<open>The TTL index that \<open>migrate\<close> creates on \<open>expireAt\<close>: at any moment the server may remove a
  document whose expiry has passed.\<close>

definition ttl_purge :: "int \<Rightarrow> 'c nonce_coll \<Rightarrow> 'c nonce_coll" where
  "ttl_purge now s = snd (c_delete (\<lambda>_ doc. nd_expireAt doc < now) s)"

subsection \<open>The contract\<close>

datatype nonce_op = SetOp string string int int | TakeOp string int | PurgeOp int
datatype nonce_event = EvSet string string int "bool res" | EvTake string int "(string \<times> bool) res" | EvPurge

fun nonce_step ::
  "(string \<Rightarrow> string \<Rightarrow> int \<Rightarrow> int \<Rightarrow> 's \<Rightarrow> bool res \<times> 's) \<Rightarrow> (string \<Rightarrow> int \<Rightarrow> 's \<Rightarrow> (string \<times> bool) res \<times> 's)
   \<Rightarrow> (int \<Rightarrow> 's \<Rightarrow> 's) \<Rightarrow> nonce_op \<Rightarrow> 's \<Rightarrow> nonce_event \<times> 's" where
  "nonce_step st tk pg (SetOp n tx e now) s = (let (r, s') = st n tx e now s in (EvSet n tx (now + e) r, s'))"
| "nonce_step st tk pg (TakeOp n now) s = (let (r, s') = tk n now s in (EvTake n now r, s'))"
| "nonce_step st tk pg (PurgeOp now) s = (EvPurge, pg now s)"

fun nonce_run ::
  "(string \<Rightarrow> string \<Rightarrow> int \<Rightarrow> int \<Rightarrow> 's \<Rightarrow> bool res \<times> 's) \<Rightarrow> (string \<Rightarrow> int \<Rightarrow> 's \<Rightarrow> (string \<times> bool) res \<times> 's)
   \<Rightarrow> (int \<Rightarrow> 's \<Rightarrow> 's) \<Rightarrow> nonce_op list \<Rightarrow> 's \<Rightarrow> nonce_event list \<times> 's" where
  "nonce_run st tk pg [] s = ([], s)"
| "nonce_run st tk pg (x # xs) s =
     (let (ev, s1) = nonce_step st tk pg x s; (evs, s2) = nonce_run st tk pg xs s1 in (ev # evs, s2))"

text \<open>\<open>redeems n\<close>: a take of \<open>n\<close> that was reported valid. \<open>may_store n\<close>: a set of \<open>n\<close> that took
  effect, or failed in a way that leaves this open.\<close>

fun redeems :: "string \<Rightarrow> nonce_event \<Rightarrow> bool" where
  "redeems n (EvTake m now (Ok (tx, True))) = (m = n)"
| "redeems n _ = False"

fun may_store :: "string \<Rightarrow> nonce_event \<Rightarrow> bool" where
  "may_store n (EvSet m tx e (Ok b)) = (b \<and> m = n)"
| "may_store n (EvSet m tx e (Err _)) = (m = n)"
| "may_store n (EvSet m tx e (Panic _)) = False"
| "may_store n _ = False"

definition count_ev :: "(nonce_event \<Rightarrow> bool) \<Rightarrow> nonce_event list \<Rightarrow> nat" where
  "count_ev P evs = length (filter P evs)"

lemma count_ev_simps [simp]:
  "count_ev P [] = 0" "count_ev P (x # xs) = (if P x then 1 else 0) + count_ev P xs"
  "count_ev P (xs @ ys) = count_ev P xs + count_ev P ys"
  by (simp_all add: count_ev_def)

locale nonce_store =
  fixes st :: "string \<Rightarrow> string \<Rightarrow> int \<Rightarrow> int \<Rightarrow> 's \<Rightarrow> bool res \<times> 's"
    and tk :: "string \<Rightarrow> int \<Rightarrow> 's \<Rightarrow> (string \<times> bool) res \<times> 's"
    and pg :: "int \<Rightarrow> 's \<Rightarrow> 's"
    and inv :: "'s \<Rightarrow> bool"
    and live :: "'s \<Rightarrow> string \<rightharpoonup> (string \<times> int)"
  assumes inv_ops: "inv s \<Longrightarrow> inv (snd (st n tx e now s))" "inv s \<Longrightarrow> inv (snd (tk n now s))"
      "inv s \<Longrightarrow> inv (pg now s)"
    and st_stored: "inv s \<Longrightarrow> n \<noteq> [] \<Longrightarrow> st n tx e now s = (Ok True, s') \<Longrightarrow>
      live s n = None \<and> live s' = (live s)(n \<mapsto> (tx, now + e))"
    and st_refused: "inv s \<Longrightarrow> n \<noteq> [] \<Longrightarrow> st n tx e now s = (Ok False, s') \<Longrightarrow> live s' = live s \<and> live s n \<noteq> None"
    and st_failed: "inv s \<Longrightarrow> n \<noteq> [] \<Longrightarrow> st n tx e now s = (Err er, s') \<Longrightarrow>
      live s' = live s \<or> live s n = None \<and> live s' = (live s)(n \<mapsto> (tx, now + e))"
    and st_no_panic: "inv s \<Longrightarrow> n \<noteq> [] \<Longrightarrow> st n tx e now s \<noteq> (Panic p, s')"
    and tk_valid: "inv s \<Longrightarrow> tk n now s = (Ok (tx, True), s') \<Longrightarrow>
      \<exists>e. live s n = Some (tx, e) \<and> now \<le> e \<and> live s' = (live s)(n := None)"
    and tk_other: "inv s \<Longrightarrow> tk n now s = (r, s') \<Longrightarrow> live s' = live s \<or> live s' = (live s)(n := None)"
    and pg_expired: "inv s \<Longrightarrow>
      live (pg now s) = live s \<or> (\<exists>n tx e. live s n = Some (tx, e) \<and> e < now \<and> live (pg now s) = (live s)(n := None))"
begin

definition here :: "string \<Rightarrow> 's \<Rightarrow> nat" where
  "here n s = (if live s n = None then 0 else 1)"

lemma st_cases:
  assumes "inv s" "n \<noteq> []" "st n tx e now s = (r, s')"
  obtains (stored) "r = Ok True" "live s n = None" "live s' = (live s)(n \<mapsto> (tx, now + e))"
  | (refused) "r = Ok False" "live s' = live s" "live s n \<noteq> None"
  | (failed) er where "r = Err er" "live s' = live s"
  | (doubt) er where "r = Err er" "live s n = None" "live s' = (live s)(n \<mapsto> (tx, now + e))"
proof (cases r)
  case (Ok b)
  then show thesis
    using that(1,2) st_stored [OF assms(1,2)] st_refused [OF assms(1,2)] assms(3) by (cases b) auto
next
  case (Err er)
  then show thesis
    using that(3,4) st_failed [OF assms(1,2)] assms(3) by blast
next
  case (Panic p)
  then show thesis
    using st_no_panic [OF assms(1,2)] assms(3) by blast
qed

text \<open>One step: a redemption consumes the stored nonce, a set supplies at most one.\<close>

lemma step_account:
  assumes "inv s" "n \<noteq> []" "nonce_step st tk pg x s = (ev, s')" "\<And>m tx e now. x = SetOp m tx e now \<Longrightarrow> m \<noteq> []"
  shows "inv s' \<and> (if redeems n ev then 1 else 0) + here n s' \<le> here n s + (if may_store n ev then 1 else 0)"
proof (cases x)
  case (SetOp m tx e now)
  obtain r t where rt: "st m tx e now s = (r, t)" by fastforce
  have m: "m \<noteq> []" using assms(4) SetOp by blast
  have "inv t" using inv_ops(1) [OF assms(1), of m tx e now] rt by simp
  moreover have ev: "ev = EvSet m tx (now + e) r" "s' = t"
    using assms(3) SetOp rt by auto
  moreover have "here n t \<le> here n s + (if may_store n ev then 1 else 0)"
    using assms(1) m rt by (cases rule: st_cases) (auto simp: here_def ev)
  ultimately show ?thesis by simp
next
  case (TakeOp m now)
  obtain r t where rt: "tk m now s = (r, t)" by fastforce
  have "inv t" using inv_ops(2) [OF assms(1), of m now] rt by simp
  moreover have ev: "ev = EvTake m now r" "s' = t"
    using assms(3) TakeOp rt by auto
  moreover have "here n t \<le> here n s"
    using tk_other [OF assms(1) rt] by (auto simp: here_def split: if_splits)
  moreover have "here n s = 1 \<and> here n t = 0" if "redeems n ev"
    using that ev rt tk_valid [OF assms(1)] by (cases "(n, ev)" rule: redeems.cases) (fastforce simp: here_def)+
  ultimately show ?thesis by (auto split: if_splits)
next
  case (PurgeOp now)
  then show ?thesis
    using assms(1,3) inv_ops(3) [OF assms(1), of now] pg_expired [OF assms(1), of now]
    by (auto simp: here_def split: if_splits)
qed

definition sets_named :: "nonce_op list \<Rightarrow> bool" where
  "sets_named xs \<longleftrightarrow> (\<forall>m tx e now. SetOp m tx e now \<in> set xs \<longrightarrow> m \<noteq> [])"

lemma run_account:
  assumes "inv s" "n \<noteq> []" "sets_named xs" "nonce_run st tk pg xs s = (evs, s')"
  shows "inv s' \<and> count_ev (redeems n) evs + here n s' \<le> here n s + count_ev (may_store n) evs"
  using assms
proof (induction xs arbitrary: s evs s')
  case (Cons x xs)
  obtain ev s1 where x: "nonce_step st tk pg x s = (ev, s1)" by fastforce
  obtain es s2 where xs: "nonce_run st tk pg xs s1 = (es, s2)" by fastforce
  have "inv s1 \<and> (if redeems n ev then 1 else 0) + here n s1 \<le> here n s + (if may_store n ev then 1 else 0)"
    by (rule step_account [OF Cons.prems(1,2) x]) (use Cons.prems(3) in \<open>auto simp: sets_named_def\<close>)
  moreover have "inv s2 \<and> count_ev (redeems n) es + here n s2 \<le> here n s1 + count_ev (may_store n) es"
    if "inv s1"
    using that by (intro Cons.IH [OF _ Cons.prems(2)]) (use xs Cons.prems(3) in \<open>auto simp: sets_named_def\<close>)
  moreover have "evs = ev # es" "s' = s2"
    using Cons.prems(4) x xs by auto
  ultimately show ?case
    by (auto simp del: One_nat_def split: if_splits)
qed auto

lemma redeemed_at_most_stored:
  assumes "inv s" "n \<noteq> []" "live s = Map.empty" "sets_named xs" "nonce_run st tk pg xs s = (evs, s')"
  shows "count_ev (redeems n) evs \<le> count_ev (may_store n) evs"
  using run_account [OF assms(1,2,4,5)] assms(3) by (simp add: here_def)

lemma inv_run: "inv s \<Longrightarrow> inv (snd (nonce_run st tk pg xs s))"
proof (induction xs arbitrary: s)
  case (Cons x xs)
  have "inv (snd (nonce_step st tk pg x s))"
    using inv_ops [OF Cons.prems] by (cases x) (simp_all add: case_prod_beta Let_def)
  then show ?case
    using Cons.IH by (simp add: case_prod_beta Let_def)
qed simp

end

subsection \<open>The MongoDB store satisfies it\<close>

definition nonce_live :: "'c nonce_coll \<Rightarrow> string \<rightharpoonup> (string \<times> int)" where
  "nonce_live s n = map_option (\<lambda>d. (nd_txID d, nd_expireAt d)) (docs s n)"

lemma nonce_live_upd:
  "docs s' = (docs s)(n \<mapsto> d) \<Longrightarrow> nonce_live s' = (nonce_live s)(n \<mapsto> (nd_txID d, nd_expireAt d))"
  "docs s' = (docs s)(n := None) \<Longrightarrow> nonce_live s' = (nonce_live s)(n := None)"
  "docs s' = docs s \<Longrightarrow> nonce_live s' = nonce_live s"
  by (auto simp: nonce_live_def fun_eq_iff)

lemma setIfNotExist_ok [simp]: "coll_ok no_clash (snd (setIfNotExist n tx e now s)) = coll_ok no_clash s"
  by (auto simp: setIfNotExist_def Let_def split: prod.splits res.splits
      dest: coll_ok_after(1) [where clash = no_clash])

lemma getAndDelete_ok [simp]: "coll_ok no_clash (snd (getAndDelete n now s)) = coll_ok no_clash s"
  by (auto simp: getAndDelete_def split: prod.splits res.splits
      dest: coll_ok_after(3) [where clash = no_clash])

lemma setIfNotExist_cases:
  assumes "coll_ok no_clash s" "n \<noteq> []" "setIfNotExist n tx e now s = (r, s')"
  obtains (stored) "r = Ok True" "nonce_live s n = None" "nonce_live s' = (nonce_live s)(n \<mapsto> (tx, now + e))"
  | (refused) "r = Ok False" "nonce_live s' = nonce_live s" "nonce_live s n \<noteq> None"
  | (failed) er where "r = Err er" "nonce_live s' = nonce_live s"
  | (doubt) er where "r = Err er" "nonce_live s n = None" "nonce_live s' = (nonce_live s)(n \<mapsto> (tx, now + e))"
proof -
  let ?d = "\<lparr>nd_txID = tx, nd_expireAt = now + e\<rparr>"
  obtain q t where c: "c_insert (Some n) ?d s = (q, t)" by fastforce
  have s': "s' = t"
    using assms(2,3) c by (auto simp: setIfNotExist_def omit_empty_id_def Let_def split: res.splits if_splits)
  have none: "nonce_live s n = None \<longleftrightarrow> docs s n = None"
    by (simp add: nonce_live_def)
  note def = assms(3) [unfolded setIfNotExist_def omit_empty_id_def Let_def] assms(2)
  from assms(1) c show thesis
  proof (cases rule: c_insert_cases)
    case (ok i)
    then show thesis
      using def c s' nonce_live_upd(1) [of t s n ?d] none by (intro stored) auto
  next
    case (dup e')
    then show thesis
      using def c s' nonce_live_upd(3) [of t s] none by (intro refused) auto
  next
    case (unapplied e')
    then show thesis
      using def c s' nonce_live_upd(3) [of t s] by (intro failed [of e']) auto
  next
    case (applied e' i)
    then show thesis
      using def c s' nonce_live_upd(1) [of t s n ?d] none by (intro doubt [of e']) auto
  qed
qed

lemma getAndDelete_cases:
  assumes "coll_ok no_clash s" "getAndDelete n now s = (r, s')"
  obtains (redeemed) tx e where "r = Ok (tx, True)" "nonce_live s n = Some (tx, e)" "now \<le> e"
      "nonce_live s' = (nonce_live s)(n := None)"
  | (other) "r = Ok ([], False) \<or> (\<exists>er. r = Err er)"
      "nonce_live s' = nonce_live s \<or> nonce_live s' = (nonce_live s)(n := None)"
proof -
  obtain q t where c: "c_find_delete (by_id n) s = (q, t)" by fastforce
  have s': "s' = t"
    using assms(2) c by (auto simp: getAndDelete_def split: res.splits if_splits)
  note def = assms(2) [unfolded getAndDelete_def]
  from assms(1) c show thesis
  proof (cases rule: c_find_delete_cases)
    case (ok i x)
    then have up: "nonce_live s' = (nonce_live s)(n := None)" "nonce_live s n = Some (nd_txID x, nd_expireAt x)"
      using nonce_live_upd(2) [of t s n] s' by (auto simp: nonce_live_def)
    show thesis
    proof (cases "nd_expireAt x < now")
      case True
      then show thesis using def c ok up by (intro other) auto
    next
      case False
      then show thesis using def c ok up by (intro redeemed [of "nd_txID x" "nd_expireAt x"]) auto
    qed
  next
    case (none e)
    then show thesis
      using def c s' nonce_live_upd(3) [of t s] by (intro other) (auto split: if_splits)
  next
    case (failed e)
    then show thesis
      using def c s' nonce_live_upd(3) [of t s] by (intro other) (auto split: if_splits)
  next
    case (applied e i x)
    then show thesis
      using def c s' nonce_live_upd(2) [of t s n] by (intro other) (auto split: if_splits)
  qed
qed

lemma ttl_purge_cases:
  assumes "coll_ok no_clash s"
  shows "nonce_live (ttl_purge now s) = nonce_live s \<or>
     (\<exists>n tx e. nonce_live s n = Some (tx, e) \<and> e < now \<and> nonce_live (ttl_purge now s) = (nonce_live s)(n := None))"
proof -
  obtain q t where c: "c_delete (\<lambda>_ doc. nd_expireAt doc < now) s = (q, t)" by fastforce
  have t: "ttl_purge now s = t" by (simp add: ttl_purge_def c)
  have gone: "\<exists>n tx e. nonce_live s n = Some (tx, e) \<and> e < now \<and> nonce_live t = (nonce_live s)(n := None)"
    if "docs s i = Some x" "nd_expireAt x < now" "docs t = (docs s)(i := None)" for i x
    using that nonce_live_upd(2) [OF that(3)] by (auto simp: nonce_live_def)
  from assms c show ?thesis
    by (cases rule: c_delete_cases) (use t gone nonce_live_upd(3) [of t s] in auto)
qed

lemma ttl_purge_ok [simp]: "coll_ok no_clash (ttl_purge now s) = coll_ok no_clash s"
  by (simp add: ttl_purge_def)

interpretation ns: nonce_store setIfNotExist getAndDelete ttl_purge "coll_ok no_clash" nonce_live
proof (unfold_locales, goal_cases)
  case (4 s n tx e now s') then show ?case by (cases rule: setIfNotExist_cases) auto
next
  case (5 s n tx e now s') then show ?case by (cases rule: setIfNotExist_cases) auto
next
  case (6 s n tx e now er s') then show ?case by (cases rule: setIfNotExist_cases) auto
next
  case (7 s n tx e now p s') then show ?case using setIfNotExist_cases by blast
next
  case (8 s n now tx s') then show ?case by (cases rule: getAndDelete_cases) auto
next
  case (9 s n now r s') then show ?case by (cases rule: getAndDelete_cases) auto
next
  case (10 s now) then show ?case by (rule ttl_purge_cases)
qed simp_all

lemma setIfNotExist_refused_iff:
  assumes "coll_ok no_clash s" "n \<noteq> []" "setIfNotExist n tx e now s = (Ok b, s')"
  shows "b \<longleftrightarrow> nonce_live s n = None"
  using assms by (cases rule: setIfNotExist_cases) auto

subsection \<open>Properties\<close>

text \<open>C3: One-time use of nonces. Over any sequence of \<open>SetIfNotExist\<close>, \<open>GetAndDelete\<close> and
  background TTL purges on a store that starts empty, the number of times a nonce is redeemed is at
  most the number of times it was stored (a set that the server reported as a plain failure counts
  as possibly stored). With \<open>tryCreateTxNonce\<close> storing a nonce only when it is absent, no nonce is
  accepted twice.\<close>
theorem nonce_redeemed_at_most_stored:
  assumes "coll_ok no_clash s" "docs s = Map.empty" "n \<noteq> []"
    and "\<forall>m tx e now. SetOp m tx e now \<in> set ops \<longrightarrow> m \<noteq> []"
    and "nonce_run setIfNotExist getAndDelete ttl_purge ops s = (evs, s')"
  shows "count_ev (redeems n) evs \<le> count_ev (may_store n) evs"
proof (rule ns.redeemed_at_most_stored)
  show "nonce_live s = Map.empty"
    using assms(2) by (simp add: nonce_live_def fun_eq_iff)
qed (use assms in \<open>auto simp: ns.sets_named_def\<close>)

text \<open>A concrete run: stored, refused a second time, redeemed once, refused afterwards.\<close>

definition demo_ops :: "nonce_op list" where
  "demo_ops = [SetOp ''n1'' ''tx1'' 100 1, SetOp ''n1'' ''tx2'' 100 2, TakeOp ''n1'' 50, TakeOp ''n1'' 51,
     SetOp ''n2'' ''tx3'' 10 60, TakeOp ''n2'' 99]"

definition demo_events :: "nonce_event list" where
  "demo_events = [EvSet ''n1'' ''tx1'' 101 (Ok True), EvSet ''n1'' ''tx2'' 102 (Ok False),
     EvTake ''n1'' 50 (Ok (''tx1'', True)), EvTake ''n1'' 51 (Ok ([], False)),
     EvSet ''n2'' ''tx3'' 70 (Ok True), EvTake ''n2'' 99 (Ok ([], False))]"

lemma demo_run: "fst (nonce_run setIfNotExist getAndDelete ttl_purge demo_ops (mem_coll no_clash [] [])) = demo_events"
  by (simp add: demo_ops_def demo_events_def setIfNotExist_def getAndDelete_def omit_empty_id_def mem_eval
      is_duplicate_key_def ErrNoDocuments_def zero_time_def)

theorem nonce_redeemed_at_most_stored_witness:
  "fst (nonce_run setIfNotExist getAndDelete ttl_purge demo_ops (mem_coll no_clash [] [])) = demo_events
   \<and> count_ev (redeems ''n1'') demo_events \<le> count_ev (may_store ''n1'') demo_events
   \<and> count_ev (redeems ''n1'') demo_events = 1"
proof -
  obtain s' where s': "nonce_run setIfNotExist getAndDelete ttl_purge demo_ops (mem_coll no_clash [] []) = (demo_events, s')"
    using demo_run by (metis fst_conv surj_pair)
  have "count_ev (redeems ''n1'') demo_events \<le> count_ev (may_store ''n1'') demo_events"
    using nonce_redeemed_at_most_stored [OF _ _ _ _ s', of "''n1''"] by (simp add: demo_ops_def)
  then show ?thesis
    using demo_run by (simp add: demo_events_def)
qed

text \<open>What one \<open>GetAndDelete\<close> means. A valid answer names the transaction the nonce was stored
  for, within its life time, and removes the nonce, so the next answer is not valid; a nonce past
  its expiry is never reported valid, whether or not the TTL job has run.\<close>
theorem nonce_take_sound:
  assumes "coll_ok no_clash s" "getAndDelete n now s = (Ok (tx, True), s')"
  shows "(\<exists>e. nonce_live s n = Some (tx, e) \<and> now \<le> e) \<and>
    nonce_live s' = (nonce_live s)(n := None) \<and>
    (\<forall>later tx'. fst (getAndDelete n later s') \<noteq> Ok (tx', True))"
proof (intro conjI allI notI)
  show "\<exists>e. nonce_live s n = Some (tx, e) \<and> now \<le> e" "nonce_live s' = (nonce_live s)(n := None)"
    using assms by (cases rule: getAndDelete_cases; auto)+
  then have gone: "nonce_live s' n = None"
    by simp
  have ok: "coll_ok no_clash s'"
    using getAndDelete_ok [of n now s] assms by simp
  fix later tx'
  assume "fst (getAndDelete n later s') = Ok (tx', True)"
  then obtain s'' where "getAndDelete n later s' = (Ok (tx', True), s'')"
    by (metis prod.collapse)
  with ok show False
    by (cases rule: getAndDelete_cases) (simp_all add: gone)
qed

definition one_nonce :: "(nonce_doc mem, nonce_doc) coll" where
  "one_nonce = mem_coll no_clash [(''n'', \<lparr>nd_txID = ''t'', nd_expireAt = 9\<rparr>)] []"

lemma one_nonce_take: "fst (getAndDelete ''n'' 5 one_nonce) = Ok (''t'', True)"
  by (simp add: one_nonce_def getAndDelete_def mem_eval)

theorem nonce_take_sound_witness:
  "fst (getAndDelete ''n'' 6 (snd (getAndDelete ''n'' 5 one_nonce))) \<noteq> Ok (''t'', True)"
  using nonce_take_sound [of one_nonce "''n''" 5 "''t''" "snd (getAndDelete ''n'' 5 one_nonce)"]
    one_nonce_take by (simp add: one_nonce_def prod_eq_iff)

end
