(* ===== verification/Verifiable_Model.thy ===== *)
theory Verifiable_Model
  imports Go_Strings "HOL-Library.AList"
begin

text \<open>
  The document data shared by the services and the pure helpers on it: \<open>pkg/doc/verifiable\<close>
  (formats and signature types), \<open>pkg/doc/vc\<close> and \<open>pkg/doc/vc/vcutil\<close>, \<open>pkg/internal/common/diddoc\<close>.
  The structs of the Aries library are records of the fields the source reads or writes; dynamic
  values (\<open>interface{}\<close>) are the datatype \<open>json\<close>, in which a nil interface is \<open>JNull\<close>. A Go map is an
  association list, read by \<open>map_of\<close>; a raw JSON message is the value it denotes. Parsing and
  marshalling are library functions and stay parameters.
\<close>

datatype json =
    JNull
  | JBool bool
  | JNum int
  | JStr string
  | JArr "json list"
  | JObj "(string \<times> json) list"

type_synonym fields = "(string \<times> json) list"

text \<open>Reading a map of dynamic values: an absent key reads as nil.\<close>

definition fget :: "fields \<Rightarrow> string \<Rightarrow> json" where
  "fget m k = (case map_of m k of None \<Rightarrow> JNull | Some v \<Rightarrow> v)"

definition fput :: "string \<Rightarrow> json \<Rightarrow> fields \<Rightarrow> fields" where
  "fput k v m = AList.update k v m"

lemma fget_fput [simp]: "fget (fput k v m) j = (if j = k then v else fget m j)"
  by (simp add: fget_def fput_def update_conv')

lemma fget_simps [simp]: "fget [] k = JNull" "fget ((j, v) # m) k = (if j = k then v else fget m k)"
  by (simp_all add: fget_def)

text \<open>The type assertions \<open>v, ok := x.(string)\<close> and \<open>x.(string)\<close>; the second panics.\<close>

fun as_str :: "json \<Rightarrow> string option" where
  "as_str (JStr s) = Some s"
| "as_str _ = None"

fun assert_str :: "json \<Rightarrow> string res" where
  "assert_str (JStr s) = Ok s"
| "assert_str _ = Panic TypeAssertion"

lemma assert_str_Ok [simp]: "assert_str v = Ok s \<longleftrightarrow> v = JStr s"
  by (cases v) auto

lemma as_str_Some [simp]: "as_str v = Some s \<longleftrightarrow> v = JStr s"
  by (cases v) auto

subsection \<open>Credentials and presentations\<close>

record typed_id =
  ti_ID :: string
  ti_Type :: string
  ti_Custom :: fields

record vc_issuer =
  is_ID :: string
  is_Custom :: fields

record subject =
  su_ID :: string
  su_Custom :: fields

text \<open>\<open>Subject interface{}\<close>: a parsed credential holds a slice of subjects; a status list under
  construction holds a pointer to the private struct \<open>credentialSubject\<close>.\<close>

datatype vc_subject =
    SubjNil
  | SubjList "subject list"
  | SubjStatusList string string string string
  | SubjOther json

record credential =
  cr_ID :: string
  cr_Context :: "string list"
  cr_Types :: "string list"
  cr_Issuer :: vc_issuer
  cr_Subject :: vc_subject
  cr_Status :: "typed_id option"
  cr_Proofs :: "fields list"
  cr_JWT :: string
  cr_Issued :: "int option"
  cr_Expired :: "int option"

definition empty_credential :: credential where
  "empty_credential = \<lparr>cr_ID = [], cr_Context = [], cr_Types = [], cr_Issuer = \<lparr>is_ID = [], is_Custom = []\<rparr>,
     cr_Subject = SubjNil, cr_Status = None, cr_Proofs = [], cr_JWT = [], cr_Issued = None, cr_Expired = None\<rparr>"

record presentation =
  pr_Holder :: string
  pr_Proofs :: "fields list"
  pr_JWT :: string
  pr_Credentials :: "json list"
  pr_Context :: "string list"
  pr_Types :: "string list"
  pr_Custom :: fields

subsection \<open>Formats: \<open>format.go\<close>, \<open>validate.go\<close>\<close>

definition Jwt :: string where "Jwt = ''jwt''"
definition Ldp :: string where "Ldp = ''ldp''"

definition isFormatSupported :: "string \<Rightarrow> string list \<Rightarrow> bool" where
  "isFormatSupported format supported = list_ex (\<lambda>s. format = s) supported"

text \<open>\<open>ValidateFormat\<close>: a string is a JWT, anything else JSON-LD. The bytes handed to the parser are
  the token itself or the marshalled value.\<close>

datatype vc_bytes = JwtBytes string | JsonBytes json

definition validateFormat :: "(json \<Rightarrow> json res) \<Rightarrow> json \<Rightarrow> string list \<Rightarrow> vc_bytes res" where
  "validateFormat marshal data formats =
     (case as_str data of
        Some s \<Rightarrow>
          if isFormatSupported Jwt formats then Ok (JwtBytes s)
          else Err (ErrMsg (''invlaid format, should be '' @ Jwt))
      | None \<Rightarrow>
          if isFormatSupported Ldp formats
          then bindR (wrapR ''invlaid format: '' (marshal data)) (\<lambda>j. Ok (JsonBytes j))
          else Err (ErrMsg (''invlaid format, should be '' @ Ldp)))"

definition validateCredential ::
  "(json \<Rightarrow> json res) \<Rightarrow> (vc_bytes \<Rightarrow> credential res) \<Rightarrow> json \<Rightarrow> string list \<Rightarrow> credential res" where
  "validateCredential marshal parse cred formats =
     bindR (validateFormat marshal cred formats)
       (\<lambda>b. mapErr (ErrCustom InvalidValue ''credential'' [] []) (parse b))"

subsection \<open>Signature types: \<open>signaturetype.go\<close>\<close>

text \<open>The key types are constants of the Aries KMS; their names are the parameter \<open>kt_name\<close>.\<close>

datatype key_type =
    ED25519Type
  | X25519ECDHKWType
  | ECDSASecp256k1TypeIEEEP1363
  | ECDSAP256TypeDER
  | ECDSAP384TypeDER
  | RSAPS256Type
  | BLS12381G2Type
  | OtherKeyType string

definition EdDSA :: string where "EdDSA = ''EdDSA''"
definition ES256K :: string where "ES256K = ''ES256K''"
definition ES256 :: string where "ES256 = ''ES256''"
definition ES384 :: string where "ES384 = ''ES384''"
definition PS256 :: string where "PS256 = ''PS256''"
definition Ed25519Signature2018 :: string where "Ed25519Signature2018 = ''Ed25519Signature2018''"
definition Ed25519Signature2020 :: string where "Ed25519Signature2020 = ''Ed25519Signature2020''"
definition EcdsaSecp256k1Signature2019 :: string where
  "EcdsaSecp256k1Signature2019 = ''EcdsaSecp256k1Signature2019''"
definition BbsBlsSignature2020 :: string where "BbsBlsSignature2020 = ''BbsBlsSignature2020''"
definition JSONWebSignature2020 :: string where "JSONWebSignature2020 = ''JsonWebSignature2020''"

lemmas signature_names = EdDSA_def ES256K_def ES256_def ES384_def PS256_def Ed25519Signature2018_def
  Ed25519Signature2020_def EcdsaSecp256k1Signature2019_def BbsBlsSignature2020_def JSONWebSignature2020_def

type_synonym signature_desc = "string \<times> string \<times> key_type list"

definition signatureTypes :: "signature_desc list" where
  "signatureTypes =
    [(Ed25519Signature2018, Ldp, [ED25519Type]),
     (Ed25519Signature2020, Ldp, [ED25519Type]),
     (EcdsaSecp256k1Signature2019, Ldp, [ECDSASecp256k1TypeIEEEP1363]),
     (BbsBlsSignature2020, Ldp, [BLS12381G2Type]),
     (JSONWebSignature2020, Ldp, [ED25519Type, X25519ECDHKWType, ECDSASecp256k1TypeIEEEP1363,
        ECDSAP256TypeDER, ECDSAP384TypeDER, RSAPS256Type]),
     (EdDSA, Jwt, [ED25519Type]),
     (ES256K, Jwt, [ECDSASecp256k1TypeIEEEP1363]),
     (ES256, Jwt, [ECDSAP256TypeDER]),
     (ES384, Jwt, [ECDSAP384TypeDER]),
     (PS256, Jwt, [RSAPS256Type])]"

definition matchKeyTypes :: "key_type list \<Rightarrow> key_type list \<Rightarrow> bool" where
  "matchKeyTypes ks1 ks2 = list_ex (\<lambda>k1. list_ex (\<lambda>k2. k1 = k2) ks2) ks1"

fun findSig :: "(signature_desc \<Rightarrow> bool) \<Rightarrow> signature_desc list \<Rightarrow> go_error \<Rightarrow> string res" where
  "findSig P [] e = Err e"
| "findSig P (d # ds) e = (if P d then Ok (fst d) else findSig P ds e)"

definition validateSignatureAlgorithm :: "string \<Rightarrow> string \<Rightarrow> key_type list \<Rightarrow> string res" where
  "validateSignatureAlgorithm format sigType kmsKeyTypes =
     findSig (\<lambda>(name, fmt, kts). to_lower name = to_lower sigType \<and> fmt = format \<and> matchKeyTypes kmsKeyTypes kts)
       signatureTypes
       (ErrMsg (''unsupported siganture type '' @ sigType @ '' by vc format '' @ format))"

definition getSignatureTypeByName :: "string \<Rightarrow> string res" where
  "getSignatureTypeByName sigType =
     findSig (\<lambda>(name, _). to_lower name = to_lower sigType) signatureTypes
       (ErrMsg (''unsupported siganture type '' @ sigType))"

definition getJWTSignatureTypeByKey :: "(key_type \<Rightarrow> string) \<Rightarrow> key_type \<Rightarrow> string res" where
  "getJWTSignatureTypeByKey kt_name kt =
     findSig (\<lambda>(_, fmt, kts). list_ex (\<lambda>k. k = kt \<and> fmt = Jwt) kts) signatureTypes
       (ErrMsg (''unsupported jwt key type '' @ kt_name kt))"

fun matchKeyLoop :: "(key_type \<Rightarrow> string) \<Rightarrow> string \<Rightarrow> key_type list \<Rightarrow> key_type option" where
  "matchKeyLoop kt_name keyType [] = None"
| "matchKeyLoop kt_name keyType (k # ks) =
     (if equal_fold keyType (kt_name k) then Some k else matchKeyLoop kt_name keyType ks)"

definition matchKeyType :: "(key_type \<Rightarrow> string) \<Rightarrow> string \<Rightarrow> key_type list \<Rightarrow> key_type res" where
  "matchKeyType kt_name keyType types =
     (let names = join_with '','' (map kt_name types)
      in if keyType = [] \<and> length types = 1 then Ok (hd types)
         else case matchKeyLoop kt_name keyType types of
                Some k \<Rightarrow> Ok k
              | None \<Rightarrow>
                  if keyType = [] \<and> length types > 1
                  then Err (ErrMsg (''key type should have one of the values '' @ names))
                  else Err (ErrMsg (''not supported key type '' @ keyType @ '', should have one of the values '' @ names)))"

fun signatureKeyTypes :: "string \<Rightarrow> signature_desc list \<Rightarrow> key_type list option" where
  "signatureKeyTypes sigType [] = None"
| "signatureKeyTypes sigType ((name, _, kts) # ds) = (if name = sigType then Some kts else signatureKeyTypes sigType ds)"

definition validateSignatureKeyType :: "(key_type \<Rightarrow> string) \<Rightarrow> string \<Rightarrow> string \<Rightarrow> key_type res" where
  "validateSignatureKeyType kt_name sigType keyType =
     (case signatureKeyTypes sigType signatureTypes of
        Some kts \<Rightarrow> matchKeyType kt_name keyType kts
      | None \<Rightarrow> Err (ErrMsg (sigType @ '' signature type currently not supported'')))"

definition signatureTypesSupportedKeyType :: "key_type \<Rightarrow> string list" where
  "signatureTypesSupportedKeyType kt =
     concat (map (\<lambda>(name, _, kts). concat (map (\<lambda>k. if k = kt then [name] else []) kts)) signatureTypes)"

subsection \<open>Credential helpers: \<open>vcutil.go\<close>\<close>

definition defVCContext :: string where
  "defVCContext = ''https://www.w3.org/2018/credentials/v1''"
definition jsonWebSignature2020Context :: string where
  "jsonWebSignature2020Context = ''https://w3c-ccg.github.io/lds-jws2020/contexts/lds-jws2020-v1.json''"
definition bbsBlsSignature2020Context :: string where
  "bbsBlsSignature2020Context = ''https://w3id.org/security/bbs/v1''"

fun decodeContext :: "json \<Rightarrow> string list res" where
  "decodeContext (JStr c) = Ok [c]"
| "decodeContext (JArr cs) =
     mapR (\<lambda>c. case as_str c of Some s \<Rightarrow> Ok s | None \<Rightarrow> Err (ErrMsg ''unexpected context type'')) cs"
| "decodeContext _ = Err (ErrMsg ''credential context of unknown type'')"

definition getContextsFromJSONRaw :: "json option \<Rightarrow> string list res" where
  "getContextsFromJSONRaw raw =
     (case raw of
        None \<Rightarrow> Ok [defVCContext]
      | Some (JObj m) \<Rightarrow> (if fget m ''@context'' = JNull then Ok [defVCContext] else decodeContext (fget m ''@context''))
      | Some JNull \<Rightarrow> Ok [defVCContext]
      | Some _ \<Rightarrow> Err (ErrExt ''json: cannot unmarshal''))"

text \<open>A typed id or a list of them; \<open>single\<close> and \<open>many\<close> are the decoders of the Aries types. When both fail, the
  error is the one of the list.\<close>

definition decodeTypedIDFromJSONRaw :: "(string \<Rightarrow> 't res) \<Rightarrow> (string \<Rightarrow> 't list res) \<Rightarrow> string \<Rightarrow> 't list res" where
  "decodeTypedIDFromJSONRaw single many raw =
     (if raw = [] then Ok []
      else case single raw of
             Ok t \<Rightarrow> Ok [t]
           | Err _ \<Rightarrow> many raw
           | Panic p \<Rightarrow> Panic p)"

definition updateIssuer :: "string \<Rightarrow> string \<Rightarrow> bool \<Rightarrow> credential \<Rightarrow> credential" where
  "updateIssuer did name overwrite c =
     (if overwrite \<or> is_ID (cr_Issuer c) = []
      then c\<lparr>cr_Issuer := \<lparr>is_ID = did, is_Custom = [(''name'', JStr name)]\<rparr>\<rparr> else c)"

definition updateSignatureTypeContext :: "string \<Rightarrow> credential \<Rightarrow> credential" where
  "updateSignatureTypeContext sigType c =
     (let c1 = (if sigType = JSONWebSignature2020
                then c\<lparr>cr_Context := cr_Context c @ [jsonWebSignature2020Context]\<rparr> else c)
      in if sigType = BbsBlsSignature2020
         then c1\<lparr>cr_Context := cr_Context c1 @ [bbsBlsSignature2020Context]\<rparr> else c1)"

subsection \<open>DID URLs: \<open>diddoc/util.go\<close>\<close>

record did_doc =
  dd_ID :: string
  dd_assertion :: "string list"
  dd_authentication :: "string list"
  dd_capabilityDelegation :: "string list"
  dd_capabilityInvocation :: "string list"

definition bad_method :: "string \<Rightarrow> go_error" where
  "bad_method creator = ErrMsg (''verificationMethod value '' @ creator @ '' should be in did#keyID format'')"

definition getDIDFromVerificationMethod :: "string \<Rightarrow> string res" where
  "getDIDFromVerificationMethod creator =
     (case split_on CHR ''#'' creator of [d, k] \<Rightarrow> Ok d | _ \<Rightarrow> Err (bad_method creator))"

definition getKeyIDFromVerificationMethod :: "string \<Rightarrow> string res" where
  "getKeyIDFromVerificationMethod creator =
     (case split_on CHR ''#'' creator of [d, k] \<Rightarrow> Ok k | _ \<Rightarrow> Err (bad_method creator))"

definition getDIDDocFromVerificationMethod :: "(string \<Rightarrow> did_doc res) \<Rightarrow> string \<Rightarrow> did_doc res" where
  "getDIDDocFromVerificationMethod resolve vm = bindR (getDIDFromVerificationMethod vm) resolve"

lemma did_parts:
  "getDIDFromVerificationMethod s = Ok d \<longleftrightarrow> (\<exists>k. s = d @ ''#'' @ k \<and> CHR ''#'' \<notin> set d \<and> CHR ''#'' \<notin> set k)"
proof
  assume "getDIDFromVerificationMethod s = Ok d"
  then obtain k where sp: "split_on CHR ''#'' s = [d, k]"
    by (auto simp: getDIDFromVerificationMethod_def split: list.splits)
  then have "CHR ''#'' \<notin> set d" "CHR ''#'' \<notin> set k"
    using split_on_parts [of _ "CHR ''#''" s] by auto
  moreover have "s = d @ ''#'' @ k"
    using join_split [of "CHR ''#''" s] sp by simp
  ultimately show "\<exists>k. s = d @ ''#'' @ k \<and> CHR ''#'' \<notin> set d \<and> CHR ''#'' \<notin> set k" by blast
qed (auto simp: getDIDFromVerificationMethod_def split_on_append split_on_no_sep)

lemma findSig_Ok: "findSig P ds e = Ok s \<Longrightarrow> \<exists>d \<in> set ds. P d \<and> fst d = s"
  by (induction ds) (auto split: if_splits)

lemma findSig_Err: "(\<exists>e'. findSig P ds e = Err e') \<longleftrightarrow> (\<forall>d \<in> set ds. \<not> P d)"
  by (induction ds) auto

text \<open>The five JWT rows of the table.\<close>

definition jwt_rows :: "(string \<times> key_type) set" where
  "jwt_rows = {(EdDSA, ED25519Type), (ES256K, ECDSASecp256k1TypeIEEEP1363), (ES256, ECDSAP256TypeDER),
     (ES384, ECDSAP384TypeDER), (PS256, RSAPS256Type)}"

lemma lower_names:
  "to_lower EdDSA = ''eddsa''" "to_lower ES256K = ''es256k''" "to_lower ES256 = ''es256''"
  "to_lower ES384 = ''es384''" "to_lower PS256 = ''ps256''"
  "to_lower Ed25519Signature2018 = ''ed25519signature2018''"
  "to_lower Ed25519Signature2020 = ''ed25519signature2020''"
  "to_lower EcdsaSecp256k1Signature2019 = ''ecdsasecp256k1signature2019''"
  "to_lower BbsBlsSignature2020 = ''bbsblssignature2020''"
  "to_lower JSONWebSignature2020 = ''jsonwebsignature2020''"
  by code_simp+

lemma format_neq [simp]: "Jwt \<noteq> Ldp" "Ldp \<noteq> Jwt"
  by (simp_all add: Jwt_def Ldp_def)

lemma jwt_names_neq:
  "EdDSA \<notin> {ES256K, ES256, ES384, PS256, Ed25519Signature2018, Ed25519Signature2020,
     EcdsaSecp256k1Signature2019, BbsBlsSignature2020, JSONWebSignature2020}"
  "ES256K \<notin> {EdDSA, ES256, ES384, PS256, Ed25519Signature2018, Ed25519Signature2020,
     EcdsaSecp256k1Signature2019, BbsBlsSignature2020, JSONWebSignature2020}"
  "ES256 \<notin> {EdDSA, ES256K, ES384, PS256, Ed25519Signature2018, Ed25519Signature2020,
     EcdsaSecp256k1Signature2019, BbsBlsSignature2020, JSONWebSignature2020}"
  "ES384 \<notin> {EdDSA, ES256K, ES256, PS256, Ed25519Signature2018, Ed25519Signature2020,
     EcdsaSecp256k1Signature2019, BbsBlsSignature2020, JSONWebSignature2020}"
  "PS256 \<notin> {EdDSA, ES256K, ES256, ES384, Ed25519Signature2018, Ed25519Signature2020,
     EcdsaSecp256k1Signature2019, BbsBlsSignature2020, JSONWebSignature2020}"
  unfolding signature_names by simp_all

lemmas jwt_names_neqs [simp] = jwt_names_neq [simplified]

lemma ldp_neq_jwt [simp]:
  "Ed25519Signature2018 \<noteq> EdDSA" "Ed25519Signature2020 \<noteq> EdDSA" "EcdsaSecp256k1Signature2019 \<noteq> EdDSA"
  "BbsBlsSignature2020 \<noteq> EdDSA" "JSONWebSignature2020 \<noteq> EdDSA"
  "Ed25519Signature2018 \<noteq> ES256K" "Ed25519Signature2020 \<noteq> ES256K" "EcdsaSecp256k1Signature2019 \<noteq> ES256K"
  "BbsBlsSignature2020 \<noteq> ES256K" "JSONWebSignature2020 \<noteq> ES256K"
  "Ed25519Signature2018 \<noteq> ES256" "Ed25519Signature2020 \<noteq> ES256" "EcdsaSecp256k1Signature2019 \<noteq> ES256"
  "BbsBlsSignature2020 \<noteq> ES256" "JSONWebSignature2020 \<noteq> ES256"
  "Ed25519Signature2018 \<noteq> ES384" "Ed25519Signature2020 \<noteq> ES384" "EcdsaSecp256k1Signature2019 \<noteq> ES384"
  "BbsBlsSignature2020 \<noteq> ES384" "JSONWebSignature2020 \<noteq> ES384"
  "Ed25519Signature2018 \<noteq> PS256" "Ed25519Signature2020 \<noteq> PS256" "EcdsaSecp256k1Signature2019 \<noteq> PS256"
  "BbsBlsSignature2020 \<noteq> PS256" "JSONWebSignature2020 \<noteq> PS256"
  using jwt_names_neqs by metis+

lemma jwt_row: "getJWTSignatureTypeByKey kt_name kt = Ok st \<longleftrightarrow> (st, kt) \<in> jwt_rows"
  by (cases kt) (auto simp: getJWTSignatureTypeByKey_def signatureTypes_def jwt_rows_def)

lemma jwt_rows_algorithm: "(st, kt) \<in> jwt_rows \<Longrightarrow> validateSignatureAlgorithm Jwt st [kt] = Ok st"
  by (auto simp: jwt_rows_def validateSignatureAlgorithm_def matchKeyTypes_def signatureTypes_def lower_names)

lemma jwt_rows_name: "(st, kt) \<in> jwt_rows \<Longrightarrow> to_lower s = to_lower st \<Longrightarrow> getSignatureTypeByName s = Ok st"
  unfolding jwt_rows_def
  by (elim insertE emptyE; clarify; simp add: getSignatureTypeByName_def signatureTypes_def lower_names)

lemma jwt_rows_supported: "(st, kt) \<in> jwt_rows \<Longrightarrow> st \<in> set (signatureTypesSupportedKeyType kt)"
  by (auto simp: jwt_rows_def signatureTypesSupportedKeyType_def signatureTypes_def)

lemma jwt_rows_key:
  "(st, kt) \<in> jwt_rows \<Longrightarrow> validateSignatureKeyType kt_name st [] = Ok kt \<and> validateSignatureKeyType kt_name st (kt_name kt) = Ok kt"
  unfolding jwt_rows_def
  by (elim insertE emptyE; clarify;
      simp add: validateSignatureKeyType_def matchKeyType_def signatureTypes_def Let_def)

subsection \<open>Properties\<close>

text \<open>The signature tables agree. \<open>GetJWTSignatureTypeByKey\<close> answers for exactly the key types
  of some JWT row; its answer is accepted by \<open>ValidateSignatureAlgorithm\<close> for JWT credentials with
  that key type, is found again by name in any letter case, is among the types
  \<open>SignatureTypesSupportedKeyType\<close> lists for the key, and \<open>ValidateSignatureKeyType\<close> resolves it back to
  the same key type.\<close>
theorem jwt_signature_tables_agree:
  assumes "getJWTSignatureTypeByKey kt_name kt = Ok st"
  shows "validateSignatureAlgorithm Jwt st [kt] = Ok st
    \<and> (\<forall>s. equal_fold s st \<longrightarrow> getSignatureTypeByName s = Ok st)
    \<and> st \<in> set (signatureTypesSupportedKeyType kt)
    \<and> validateSignatureKeyType kt_name st [] = Ok kt
    \<and> validateSignatureKeyType kt_name st (kt_name kt) = Ok kt"
proof -
  have row: "(st, kt) \<in> jwt_rows"
    using assms by (simp add: jwt_row)
  have low: "to_lower s = to_lower st" if "equal_fold s st" for s
    using that by (simp add: equal_fold_def)
  show ?thesis
    using row low jwt_rows_algorithm jwt_rows_name [of st] jwt_rows_supported jwt_rows_key by blast
qed

theorem jwt_signature_tables_agree_witness:
  "validateSignatureAlgorithm Jwt ''ES256'' [ECDSAP256TypeDER] = Ok ''ES256''"
proof -
  have "getJWTSignatureTypeByKey (\<lambda>_. []) ECDSAP256TypeDER = Ok ''ES256''"
    by (simp add: jwt_row jwt_rows_def ES256_def)
  from jwt_signature_tables_agree [OF this] show ?thesis by simp
qed

end
