(* ===== verification/Csl_Store.thy ===== *)
theory Csl_Store
  imports Mongo_Mem Verifiable_Model
begin

text \<open>
  \<open>pkg/storage/mongodb/cslstore/csl_store.go\<close>: status list credentials with their counters, and the
  id of the list in use. Both kinds of document live in one collection; the latest-id document has
  the fixed key \<open>LatestListID\<close>. The interface \<open>cslStore\<close> of the credential status service is the
  locale \<open>csl_store\<close>, interpreted here on the MongoDB store.
\<close>

record csl_wrapper =
  cw_VCByte :: json
  cw_Size :: int
  cw_RevocationListIndex :: int
  cw_ListID :: int
  cw_VC :: "credential option"

record csl_doc =
  cd_vc :: "json option"
  cd_size :: int
  cd_index :: int
  cd_listID :: int
  cd_latest :: "int option"

type_synonym 'c csl_coll = "('c, csl_doc) coll"

definition csl_ErrDataNotFound :: go_error where
  "csl_ErrDataNotFound = ErrVar ''credentialstatus.ErrDataNotFound'' ''data not found''"

lemma csl_ErrDataNotFound_wrap [simp]: "ErrWrap p e \<noteq> csl_ErrDataNotFound" "csl_ErrDataNotFound \<noteq> ErrWrap p e"
  "err_is csl_ErrDataNotFound csl_ErrDataNotFound"
  by (simp_all add: csl_ErrDataNotFound_def)

definition latestListIDDBEntryKey :: string where
  "latestListIDDBEntryKey = ''LatestListID''"

text \<open>The id of the VC is kept as \<open>_id\<close> only: it is removed from an object and put back on reading. A
  JWT credential is a JSON string and stays as it is.\<close>

fun strip_id :: "json \<Rightarrow> json" where
  "strip_id (JObj m) = JObj (filter (\<lambda>p. fst p \<noteq> ''id'') m)"
| "strip_id j = j"

fun restore_id :: "string \<Rightarrow> json \<Rightarrow> json" where
  "restore_id i (JObj m) = JObj (fput ''id'' (JStr i) m)"
| "restore_id i j = j"

definition set_wrapper :: "csl_wrapper \<Rightarrow> csl_doc option \<Rightarrow> csl_doc" where
  "set_wrapper w old = \<lparr>cd_vc = Some (strip_id (cw_VCByte w)), cd_size = cw_Size w,
     cd_index = cw_RevocationListIndex w, cd_listID = cw_ListID w,
     cd_latest = (case old of None \<Rightarrow> None | Some d \<Rightarrow> cd_latest d)\<rparr>"

definition cslUpsert :: "csl_wrapper \<Rightarrow> 'c csl_coll \<Rightarrow> unit res \<times> 'c csl_coll" where
  "cslUpsert w s =
     andthen (pure_op (deref (cw_VC w)) s) (\<lambda>vc s.
     andthen (c_update (cr_ID vc) (set_wrapper w) True s) (\<lambda>_ s. (Ok (), s)))"

definition wrapper_of :: "string \<Rightarrow> csl_doc \<Rightarrow> csl_wrapper" where
  "wrapper_of i d = \<lparr>cw_VCByte = (case cd_vc d of None \<Rightarrow> JNull | Some j \<Rightarrow> restore_id i j),
     cw_Size = cd_size d, cw_RevocationListIndex = cd_index d, cw_ListID = cd_listID d, cw_VC = None\<rparr>"

definition cslGet :: "string \<Rightarrow> 'c csl_coll \<Rightarrow> csl_wrapper res \<times> 'c csl_coll" where
  "cslGet i s =
     (case c_find (by_id i) s of
        (Ok (j, d), s') \<Rightarrow> (Ok (wrapper_of j d), s')
      | (Err e, s') \<Rightarrow>
          if err_is e ErrNoDocuments then (Err csl_ErrDataNotFound, s')
          else (Err (ErrWrap ''CSLWrapper find failed: '' e), s')
      | (Panic p, s') \<Rightarrow> (Panic p, s'))"

text \<open>\<open>listId,omitempty\<close>: a zero id is not written.\<close>

definition omit_zero :: "int \<Rightarrow> int option" where
  "omit_zero n = (if n = 0 then None else Some n)"

definition createLatestListID :: "int \<Rightarrow> 'c csl_coll \<Rightarrow> unit res \<times> 'c csl_coll" where
  "createLatestListID n s =
     andthen (c_insert (Some latestListIDDBEntryKey)
        \<lparr>cd_vc = None, cd_size = 0, cd_index = 0, cd_listID = 0, cd_latest = omit_zero n\<rparr> s) (\<lambda>_ s. (Ok (), s))"

definition set_latest :: "int \<Rightarrow> csl_doc option \<Rightarrow> csl_doc" where
  "set_latest n old =
     (case old of
        Some d \<Rightarrow> (if n = 0 then d else d\<lparr>cd_latest := Some n\<rparr>)
      | None \<Rightarrow> \<lparr>cd_vc = None, cd_size = 0, cd_index = 0, cd_listID = 0, cd_latest = omit_zero n\<rparr>)"

definition updateLatestListID :: "int \<Rightarrow> 'c csl_coll \<Rightarrow> unit res \<times> 'c csl_coll" where
  "updateLatestListID n s =
     andthen (c_update latestListIDDBEntryKey (set_latest n) False s) (\<lambda>_ s. (Ok (), s))"

definition getLatestListID :: "'c csl_coll \<Rightarrow> int res \<times> 'c csl_coll" where
  "getLatestListID s =
     (case c_find (by_id latestListIDDBEntryKey) s of
        (Ok (j, d), s') \<Rightarrow> (Ok (case cd_latest d of None \<Rightarrow> 0 | Some n \<Rightarrow> n), s')
      | (Err e, s') \<Rightarrow>
          if err_is e ErrNoDocuments then (Err csl_ErrDataNotFound, s')
          else (Err (ErrWrap ''latestListIDDocument find failed: '' e), s')
      | (Panic p, s') \<Rightarrow> (Panic p, s'))"

subsection \<open>The contract\<close>

text \<open>\<open>lists\<close>: what is stored for each status list; \<open>latest\<close>: the list in use. The contract speaks about
  the ids of status lists, which differ from the key of the latest-id document.\<close>

locale csl_store =
  fixes upsert :: "csl_wrapper \<Rightarrow> 's \<Rightarrow> unit res \<times> 's"
    and get :: "string \<Rightarrow> 's \<Rightarrow> csl_wrapper res \<times> 's"
    and createLatest :: "int \<Rightarrow> 's \<Rightarrow> unit res \<times> 's"
    and updateLatest :: "int \<Rightarrow> 's \<Rightarrow> unit res \<times> 's"
    and getLatest :: "'s \<Rightarrow> int res \<times> 's"
    and inv :: "'s \<Rightarrow> bool"
    and lists :: "'s \<Rightarrow> string \<rightharpoonup> csl_wrapper"
    and latest :: "'s \<Rightarrow> int option"
    and key :: string
  assumes upsert_eff: "inv s \<Longrightarrow> cw_VC w = Some vc \<Longrightarrow> cr_ID vc \<noteq> key \<Longrightarrow> upsert w s = (r, s') \<Longrightarrow>
      inv s' \<and> latest s' = latest s \<and> (\<forall>p. r \<noteq> Panic p)
      \<and> (lists s' = (lists s)(cr_ID vc \<mapsto> w\<lparr>cw_VCByte := restore_id (cr_ID vc) (strip_id (cw_VCByte w)), cw_VC := None\<rparr>)
         \<or> is_err r \<and> lists s' = lists s)"
    and get_eff: "inv s \<Longrightarrow> get i s = (q, s') \<Longrightarrow> inv s' \<and> lists s' = lists s \<and> latest s' = latest s \<and> (\<forall>p. q \<noteq> Panic p)
      \<and> (i \<noteq> key \<longrightarrow> (\<forall>w. q = Ok w \<longrightarrow> lists s i = Some w) \<and> (\<forall>e. q = Err e \<longrightarrow> err_is e csl_ErrDataNotFound \<longrightarrow> lists s i = None))
      \<and> (i = key \<longrightarrow> (\<forall>w. q = Ok w \<longrightarrow> cw_VCByte w = JNull))"
    and createLatest_eff: "inv s \<Longrightarrow> createLatest n s = (r, s') \<Longrightarrow> inv s' \<and> lists s' = lists s \<and> (\<forall>p. r \<noteq> Panic p)
      \<and> (latest s = None \<and> latest s' = Some n \<or> is_err r \<and> latest s' = latest s)"
    and updateLatest_eff: "inv s \<Longrightarrow> updateLatest n s = (r, s') \<Longrightarrow> inv s' \<and> lists s' = lists s \<and> (\<forall>p. r \<noteq> Panic p)
      \<and> (n \<noteq> 0 \<longrightarrow> latest s' = map_option (\<lambda>_. n) (latest s) \<or> is_err r \<and> latest s' = latest s)
      \<and> (latest s' = None \<longleftrightarrow> latest s = None)"
    and getLatest_eff: "inv s \<Longrightarrow> getLatest s = (n0, s') \<Longrightarrow> inv s' \<and> lists s' = lists s \<and> latest s' = latest s \<and> (\<forall>p. n0 \<noteq> Panic p)
      \<and> (\<forall>n. n0 = Ok n \<longrightarrow> latest s = Some n) \<and> (\<forall>e. n0 = Err e \<longrightarrow> err_is e csl_ErrDataNotFound \<longrightarrow> latest s = None)"
    and key_plain: "CHR ''/'' \<notin> set key"

subsection \<open>The MongoDB store satisfies it\<close>

definition csl_lists :: "'c csl_coll \<Rightarrow> string \<rightharpoonup> csl_wrapper" where
  "csl_lists s i = (if i = latestListIDDBEntryKey then None else map_option (wrapper_of i) (docs s i))"

definition csl_latest :: "'c csl_coll \<Rightarrow> int option" where
  "csl_latest s = (case docs s latestListIDDBEntryKey of None \<Rightarrow> None
                   | Some d \<Rightarrow> Some (case cd_latest d of None \<Rightarrow> 0 | Some n \<Rightarrow> n))"

definition csl_inv :: "'c csl_coll \<Rightarrow> bool" where
  "csl_inv s \<longleftrightarrow> coll_ok no_clash s \<and> (\<forall>d. docs s latestListIDDBEntryKey = Some d \<longrightarrow> cd_vc d = None)"

lemma csl_same: "docs s' = docs s \<Longrightarrow> csl_lists s' = csl_lists s \<and> csl_latest s' = csl_latest s"
  by (simp add: csl_lists_def csl_latest_def fun_eq_iff)

lemma filter_update_key: "filter (\<lambda>p. fst p \<noteq> k) (AList.update k v m) = filter (\<lambda>p. fst p \<noteq> k) m"
  by (induction m) auto

lemma strip_restore [simp]: "strip_id (restore_id i (strip_id j)) = strip_id j"
  by (cases j) (auto simp: fput_def filter_update_key)

lemma cslUpsert_eff:
  assumes "csl_inv s" "cw_VC w = Some vc" "cr_ID vc \<noteq> latestListIDDBEntryKey" "cslUpsert w s = (r, s')"
  shows "csl_inv s' \<and> csl_latest s' = csl_latest s \<and> (\<forall>p. r \<noteq> Panic p)
      \<and> (csl_lists s' = (csl_lists s)(cr_ID vc \<mapsto> w\<lparr>cw_VCByte := restore_id (cr_ID vc) (strip_id (cw_VCByte w)), cw_VC := None\<rparr>)
         \<or> is_err r \<and> csl_lists s' = csl_lists s)"
proof -
  obtain q t where c: "c_update (cr_ID vc) (set_wrapper w) True s = (q, t)" by fastforce
  have s': "s' = t" "r = (case q of Ok _ \<Rightarrow> Ok () | Err e \<Rightarrow> Err e | Panic p \<Rightarrow> Panic p)"
    using assms(2,4) c by (cases q; simp add: cslUpsert_def)+
  have ok: "coll_ok no_clash s" "coll_ok no_clash t"
    using assms(1) coll_ok_after(4) [OF c] by (auto simp: csl_inv_def)
  have eff: "csl_inv t \<and> csl_latest t = csl_latest s \<and>
      csl_lists t = (csl_lists s)(cr_ID vc \<mapsto> w\<lparr>cw_VCByte := restore_id (cr_ID vc) (strip_id (cw_VCByte w)), cw_VC := None\<rparr>)"
    if "docs t = upd_map (cr_ID vc) (set_wrapper w) True (docs s)"
    using that assms(1,3) ok
    by (auto simp: csl_inv_def csl_latest_def csl_lists_def upd_map_def wrapper_of_def set_wrapper_def fun_eq_iff)
  from ok(1) c show ?thesis
    by (cases rule: c_update_cases) (use s' eff csl_same [of t s] assms(1) ok in \<open>auto simp: csl_inv_def\<close>)
qed

lemma cslGet_eff:
  assumes "csl_inv s" "cslGet i s = (r, s')"
  shows "csl_inv s' \<and> csl_lists s' = csl_lists s \<and> csl_latest s' = csl_latest s \<and> (\<forall>p. r \<noteq> Panic p)
      \<and> (i \<noteq> latestListIDDBEntryKey \<longrightarrow> (\<forall>w. r = Ok w \<longrightarrow> csl_lists s i = Some w)
            \<and> (\<forall>e. r = Err e \<longrightarrow> err_is e csl_ErrDataNotFound \<longrightarrow> csl_lists s i = None))
      \<and> (i = latestListIDDBEntryKey \<longrightarrow> (\<forall>w. r = Ok w \<longrightarrow> cw_VCByte w = JNull))"
proof -
  obtain q t where c: "c_find (by_id i) s = (q, t)" by fastforce
  have t: "s' = t"
    using assms(2) c by (auto simp: cslGet_def split: res.splits if_splits)
  have ok: "coll_ok no_clash s" "coll_ok no_clash t"
    using assms(1) coll_ok_after(2) [OF c] by (auto simp: csl_inv_def)
  note def = assms(2) [unfolded cslGet_def c]
  from ok(1) c show ?thesis
  proof (cases rule: c_find_cases)
    case (ok j d)
    then show ?thesis
      using def t assms(1) csl_same [of t s] \<open>coll_ok no_clash t\<close>
      by (auto simp: csl_inv_def csl_lists_def wrapper_of_def)
  next
    case (none e)
    then show ?thesis
      using def t assms(1) csl_same [of t s] \<open>coll_ok no_clash t\<close>
      by (auto simp: csl_inv_def csl_lists_def)
  next
    case (failed e)
    then show ?thesis
      using def t assms(1) csl_same [of t s] \<open>coll_ok no_clash t\<close> driver_err_sentinel [OF failed(4)]
      by (auto simp: csl_inv_def csl_lists_def csl_ErrDataNotFound_def ErrNoDocuments_def)
  qed
qed

lemma createLatestListID_eff:
  assumes "csl_inv s" "createLatestListID n s = (r, s')"
  shows "csl_inv s' \<and> csl_lists s' = csl_lists s \<and> (\<forall>p. r \<noteq> Panic p)
      \<and> (csl_latest s = None \<and> csl_latest s' = Some n \<or> is_err r \<and> csl_latest s' = csl_latest s)"
proof -
  let ?x = "\<lparr>cd_vc = None, cd_size = 0, cd_index = 0, cd_listID = 0, cd_latest = omit_zero n\<rparr>"
  obtain q t where c: "c_insert (Some latestListIDDBEntryKey) ?x s = (q, t)" by fastforce
  have s': "s' = t" "r = (case q of Ok _ \<Rightarrow> Ok () | Err e \<Rightarrow> Err e | Panic p \<Rightarrow> Panic p)"
    using assms(2) c by (cases q; simp add: createLatestListID_def)+
  have ok: "coll_ok no_clash s" "coll_ok no_clash t"
    using assms(1) coll_ok_after(1) [OF c] by (auto simp: csl_inv_def)
  have eff: "csl_inv t \<and> csl_lists t = csl_lists s \<and> csl_latest s = None \<and> csl_latest t = Some n"
    if "docs t = (docs s)(latestListIDDBEntryKey \<mapsto> ?x)" "docs s latestListIDDBEntryKey = None"
    using that assms(1) ok
    by (auto simp: csl_inv_def csl_latest_def csl_lists_def fun_eq_iff omit_zero_def)
  from ok(1) c show ?thesis
    by (cases rule: c_insert_cases) (use s' eff csl_same [of t s] assms(1) ok in \<open>auto simp: csl_inv_def\<close>)
qed

lemma updateLatestListID_eff:
  assumes "csl_inv s" "updateLatestListID n s = (r, s')"
  shows "csl_inv s' \<and> csl_lists s' = csl_lists s \<and> (\<forall>p. r \<noteq> Panic p)
      \<and> (n \<noteq> 0 \<longrightarrow> csl_latest s' = map_option (\<lambda>_. n) (csl_latest s) \<or> is_err r \<and> csl_latest s' = csl_latest s)
      \<and> (csl_latest s' = None \<longleftrightarrow> csl_latest s = None)"
proof -
  obtain q t where c: "c_update latestListIDDBEntryKey (set_latest n) False s = (q, t)" by fastforce
  have s': "s' = t" "r = (case q of Ok _ \<Rightarrow> Ok () | Err e \<Rightarrow> Err e | Panic p \<Rightarrow> Panic p)"
    using assms(2) c by (cases q; simp add: updateLatestListID_def)+
  have ok: "coll_ok no_clash s" "coll_ok no_clash t"
    using assms(1) coll_ok_after(4) [OF c] by (auto simp: csl_inv_def)
  have eff: "csl_inv t \<and> csl_lists t = csl_lists s \<and> (n \<noteq> 0 \<longrightarrow> csl_latest t = map_option (\<lambda>_. n) (csl_latest s))
      \<and> (csl_latest t = None \<longleftrightarrow> csl_latest s = None)"
    if "docs t = upd_map latestListIDDBEntryKey (set_latest n) False (docs s)"
  proof (cases "docs s latestListIDDBEntryKey")
    case None
    then have "docs t = docs s"
      using that by (simp add: upd_map_def)
    then show ?thesis
      using None assms(1) ok csl_same [of t s] by (simp add: csl_inv_def csl_latest_def)
  next
    case (Some d)
    then have "docs t = (docs s)(latestListIDDBEntryKey \<mapsto> set_latest n (Some d))"
      using that by (simp add: upd_map_def)
    then show ?thesis
      using Some assms(1) ok by (simp add: csl_inv_def csl_latest_def csl_lists_def set_latest_def fun_eq_iff)
  qed
  from ok(1) c show ?thesis
    by (cases rule: c_update_cases) (use s' eff csl_same [of t s] assms(1) ok in \<open>auto simp: csl_inv_def\<close>)
qed

lemma getLatestListID_eff:
  assumes "csl_inv s" "getLatestListID s = (r, s')"
  shows "csl_inv s' \<and> csl_lists s' = csl_lists s \<and> csl_latest s' = csl_latest s \<and> (\<forall>p. r \<noteq> Panic p)
      \<and> (\<forall>n. r = Ok n \<longrightarrow> csl_latest s = Some n) \<and> (\<forall>e. r = Err e \<longrightarrow> err_is e csl_ErrDataNotFound \<longrightarrow> csl_latest s = None)"
proof -
  obtain q t where c: "c_find (by_id latestListIDDBEntryKey) s = (q, t)" by fastforce
  have t: "s' = t"
    using assms(2) c by (auto simp: getLatestListID_def split: res.splits if_splits)
  have okt: "coll_ok no_clash t"
    using assms(1) coll_ok_after(2) [OF c] by (auto simp: csl_inv_def)
  have ok: "coll_ok no_clash s"
    using assms(1) by (simp add: csl_inv_def)
  note def = assms(2) [unfolded getLatestListID_def c]
  from ok c show ?thesis
  proof (cases rule: c_find_cases)
    case (ok j d)
    then show ?thesis
      using def t assms(1) csl_same [of t s] okt by (auto simp: csl_inv_def csl_latest_def)
  next
    case (none e)
    then have "csl_latest s = None"
      by (cases "docs s latestListIDDBEntryKey") (auto simp: csl_latest_def)
    with none show ?thesis
      using def t assms(1) csl_same [of t s] okt by (auto simp: csl_inv_def)
  next
    case (failed e)
    then show ?thesis
      using def t assms(1) csl_same [of t s] okt driver_err_sentinel [OF failed(4)]
      by (auto simp: csl_inv_def csl_ErrDataNotFound_def ErrNoDocuments_def)
  qed
qed

interpretation cs: csl_store cslUpsert cslGet createLatestListID updateLatestListID getLatestListID
  csl_inv csl_lists csl_latest latestListIDDBEntryKey
  by unfold_locales ((rule cslUpsert_eff cslGet_eff createLatestListID_eff updateLatestListID_eff
      getLatestListID_eff; assumption) | simp add: latestListIDDBEntryKey_def)+

end
