(* ===== verification/Bit_String.thy ===== *)
theory Bit_String
  imports Go_Strings
begin

text \<open>
  \<open>pkg/internal/common/utils/bitstring.go\<close>: the bit string behind a status list credential.
  Bytes are \<open>8 word\<close>, positions are Go ints with Go's truncated division. The gzip and base64
  libraries are the parameters \<open>deflate\<close>, \<open>inflate\<close>, \<open>enc64\<close>, \<open>dec64\<close>.
\<close>

unbundle bit_operations_syntax

record bit_string =
  bits :: "8 word list"
  num_bits :: int

definition bits_per_byte :: int where
  "bits_per_byte = 8"

definition newBitString :: "int \<Rightarrow> bit_string res" where
  "newBitString len =
     (let size = 1 + (wrap64 (len - 1) sdiv bits_per_byte)
      in if size < 0 then Panic (LibraryPanic ''makeslice: len out of range'')
         else Ok \<lparr>bits = replicate (nat size) 0, num_bits = len\<rparr>)"

definition decodeBits ::
  "(string \<Rightarrow> 8 word list res) \<Rightarrow> (8 word list \<Rightarrow> 8 word list res) \<Rightarrow> string \<Rightarrow> bit_string res" where
  "decodeBits dec64 inflate s =
     bindR (dec64 s) (\<lambda>z. bindR (inflate z) (\<lambda>b. Ok \<lparr>bits = b, num_bits = 0\<rparr>))"

definition encodeBits ::
  "(8 word list \<Rightarrow> string) \<Rightarrow> (8 word list \<Rightarrow> 8 word list res) \<Rightarrow> bit_string \<Rightarrow> string res" where
  "encodeBits enc64 deflate b = bindR (deflate (bits b)) (\<lambda>z. Ok (enc64 z))"

definition position_invalid :: "bit_string \<Rightarrow> int \<Rightarrow> bool" where
  "position_invalid b pos \<longleftrightarrow> pos < 0 \<or> pos sdiv bits_per_byte > int (length (bits b)) - 1"

definition setBit :: "int \<Rightarrow> bool \<Rightarrow> bit_string \<Rightarrow> unit res \<times> bit_string" where
  "setBit pos v b =
     (let nByte = nat (pos sdiv bits_per_byte); nBit = nat (pos smod bits_per_byte)
      in if position_invalid b pos then (Err (ErrMsg ''position is invalid''), b)
         else if v then
           (let mask = push_bit nBit 1
            in (Ok (), b\<lparr>bits := (bits b)[nByte := (bits b ! nByte) OR mask]\<rparr>))
         else
           (let mask = NOT (push_bit nBit 1)
            in (Ok (), b\<lparr>bits := (bits b)[nByte := (bits b ! nByte) AND mask]\<rparr>)))"

definition getBit :: "int \<Rightarrow> bit_string \<Rightarrow> bool res" where
  "getBit pos b =
     (let nByte = nat (pos sdiv bits_per_byte); nBit = nat (pos smod bits_per_byte)
      in if position_invalid b pos then Err (ErrMsg ''position is invalid'')
         else Ok ((bits b ! nByte) AND push_bit nBit 1 \<noteq> 0))"

subsection \<open>Positions and bits\<close>

text \<open>The abstraction: a bit string is the sequence of its bits, least significant first in each
  byte; a position addresses it directly.\<close>

definition capacity :: "bit_string \<Rightarrow> nat" where
  "capacity b = 8 * length (bits b)"

definition bit_at :: "bit_string \<Rightarrow> nat \<Rightarrow> bool" where
  "bit_at b n = bit (bits b ! (n div 8)) (n mod 8)"

lemma sdiv_nonneg: "0 \<le> (p :: int) \<Longrightarrow> p sdiv 8 = p div 8"
  by (cases "p = 0") (simp_all add: signed_divide_int_def sgn_1_pos)

lemma smod_nonneg: "0 \<le> (p :: int) \<Longrightarrow> p smod 8 = p mod 8"
  using smod_int_alt_def [of p 8] by (cases "p = 0") (simp_all add: sgn_1_pos)

lemma position_invalid_iff: "position_invalid b pos \<longleftrightarrow> pos < 0 \<or> int (capacity b) \<le> pos"
proof (cases "pos < 0")
  case False
  then show ?thesis
    by (auto simp: position_invalid_def capacity_def bits_per_byte_def sdiv_nonneg)
qed (simp add: position_invalid_def)

lemma position_valid [simp]: "n < capacity b \<Longrightarrow> \<not> position_invalid b (int n)"
  by (simp add: position_invalid_iff)

lemma nat_pos [simp]:
  "nat (int n sdiv bits_per_byte) = n div 8" "nat (int n smod bits_per_byte) = n mod 8"
  by (simp_all add: bits_per_byte_def sdiv_nonneg smod_nonneg nat_div_distrib nat_mod_distrib)

lemma word_and_single: "(w :: 8 word) AND 2 ^ n \<noteq> 0 \<longleftrightarrow> bit w n"
  using and_exp_eq_0_iff_not_bit [of w n] by simp

lemma getBit_at: "n < capacity b \<Longrightarrow> getBit (int n) b = Ok (bit_at b n)"
  using word_and_single by (simp add: getBit_def bit_at_def)

lemma getBit_invalid: "position_invalid b pos \<Longrightarrow> getBit pos b = Err (ErrMsg ''position is invalid'')"
  by (simp add: getBit_def)

lemma setBit_invalid: "position_invalid b pos \<Longrightarrow> setBit pos v b = (Err (ErrMsg ''position is invalid''), b)"
  by (simp add: setBit_def)

definition with_bit :: "nat \<Rightarrow> bool \<Rightarrow> 8 word \<Rightarrow> 8 word" where
  "with_bit k v w = (if v then w OR push_bit k 1 else w AND NOT (push_bit k 1))"

lemma bit_with_bit: "j < 8 \<Longrightarrow> k < 8 \<Longrightarrow> bit (with_bit k v w) j = (if j = k then v else bit w j)"
  by (auto simp: with_bit_def bit_simps)

lemma setBit_valid:
  "n < capacity b \<Longrightarrow>
     setBit (int n) v b = (Ok (), b\<lparr>bits := (bits b)[n div 8 := with_bit (n mod 8) v (bits b ! (n div 8))]\<rparr>)"
  by (simp add: setBit_def with_bit_def Let_def)

lemma bit_at_update:
  assumes "n < capacity b" "m < capacity b"
  shows "bit_at (b\<lparr>bits := (bits b)[n div 8 := with_bit (n mod 8) v (bits b ! (n div 8))]\<rparr>) m
         = (if m = n then v else bit_at b m)"
proof (cases "m div 8 = n div 8")
  case True
  then have "m mod 8 = n mod 8 \<longleftrightarrow> m = n"
    by (metis div_mult_mod_eq)
  moreover have "n div 8 < length (bits b)"
    using assms by (simp add: capacity_def)
  ultimately show ?thesis
    using True by (simp add: bit_at_def bit_with_bit)
next
  case False
  then show ?thesis
    by (auto simp: bit_at_def)
qed

lemma capacity_setBit [simp]: "capacity (snd (setBit pos v b)) = capacity b"
  by (simp add: setBit_def capacity_def Let_def)

lemma setBit_range: "setBit pos v b = (Ok (), b') \<Longrightarrow> 0 \<le> pos \<and> pos < int (capacity b) \<and> capacity b' = capacity b"
  by (auto simp: setBit_def position_invalid_iff Let_def capacity_def split: if_splits)

lemma newBitString_ok:
  assumes "0 \<le> n" "in_int64 n"
  obtains b where "newBitString n = Ok b" "n \<le> int (capacity b)" "int (capacity b) \<le> n + 8"
    "\<And>m. m < capacity b \<Longrightarrow> \<not> bit_at b m" "num_bits b = n"
proof -
  have w: "wrap64 (n - 1) = n - 1"
    using assms by (intro wrap64_id) (simp add: in_int64_def)
  have size: "1 + (n - 1) sdiv 8 = (if n = 0 then 1 else 1 + (n - 1) div 8)"
    using assms(1) sdiv_nonneg [of "n - 1"] by (auto simp: signed_divide_int_def)
  then have "0 \<le> 1 + (n - 1) sdiv 8"
    using assms(1) by auto
  then have new: "newBitString n = Ok \<lparr>bits = replicate (nat (1 + (n - 1) sdiv 8)) 0, num_bits = n\<rparr>"
    by (simp add: newBitString_def w bits_per_byte_def)
  have cap: "int (capacity \<lparr>bits = replicate (nat (1 + (n - 1) sdiv 8)) 0, num_bits = n\<rparr>)
               = 8 * (1 + (n - 1) sdiv 8)"
    using size assms(1) by (auto simp: capacity_def)
  have "n \<le> 8 * (1 + (n - 1) sdiv 8)" "8 * (1 + (n - 1) sdiv 8) \<le> n + 8"
    using size assms(1) by (auto split: if_splits)
  then show thesis
    using new cap by (intro that [OF new]) (auto simp: bit_at_def capacity_def)
qed

lemma decode_encode:
  assumes "deflate (bits b) = Ok z" "dec64 (enc64 z) = Ok z" "inflate z = Ok (bits b)"
  shows "bindR (encodeBits enc64 deflate b) (decodeBits dec64 inflate) = Ok (b\<lparr>num_bits := 0\<rparr>)"
  using assms by (simp add: encodeBits_def decodeBits_def)

text \<open>A bit string refines the list of its bits: writing is a list update, reading an index.\<close>

definition bit_list :: "bit_string \<Rightarrow> bool list" where
  "bit_list b = map (bit_at b) [0..<capacity b]"

lemma length_bit_list [simp]: "length (bit_list b) = capacity b"
  by (simp add: bit_list_def)

lemma bit_list_nth: "n < capacity b \<Longrightarrow> bit_list b ! n = bit_at b n"
  by (simp add: bit_list_def)

lemma bit_list_setBit:
  assumes "n < capacity b"
  shows "bit_list (snd (setBit (int n) v b)) = (bit_list b)[n := v]"
proof (rule nth_equalityI)
  fix m assume "m < length (bit_list (snd (setBit (int n) v b)))"
  then have "m < capacity b" by simp
  then show "bit_list (snd (setBit (int n) v b)) ! m = (bit_list b)[n := v] ! m"
    using assms bit_at_update [OF assms \<open>m < capacity b\<close>, of v]
    by (simp add: bit_list_nth setBit_valid nth_list_update capacity_def)
qed simp

lemma bit_list_snd_setBit:
  "bit_list (snd (setBit pos v b)) =
     (if 0 \<le> pos \<and> pos < int (capacity b) then (bit_list b)[nat pos := v] else bit_list b)"
  using bit_list_setBit [of "nat pos" b v]
  by (auto simp: setBit_invalid position_invalid_iff)

text \<open>A client that performs a sequence of writes.\<close>

fun setBits :: "(int \<times> bool) list \<Rightarrow> bit_string \<Rightarrow> bit_string" where
  "setBits [] b = b"
| "setBits ((pos, v) # ws) b = setBits ws (snd (setBit pos v b))"

fun last_write :: "int \<Rightarrow> (int \<times> bool) list \<Rightarrow> bool \<Rightarrow> bool" where
  "last_write pos [] v0 = v0"
| "last_write pos ((q, v) # ws) v0 = last_write pos ws (if q = pos then v else v0)"

lemma capacity_setBits [simp]: "capacity (setBits ws b) = capacity b"
  by (induction ws arbitrary: b) auto

lemma getBit_setBits:
  "n < capacity b \<Longrightarrow> getBit (int n) (setBits ws b) = Ok (last_write (int n) ws (bit_at b n))"
proof (induction ws arbitrary: b)
  case (Cons w ws)
  obtain pos v where w: "w = (pos, v)" by (cases w)
  have "bit_at (snd (setBit pos v b)) n = (if pos = int n then v else bit_at b n)"
    using bit_list_snd_setBit [of pos v b] Cons.prems bit_list_nth [of n b]
      bit_list_nth [of n "snd (setBit pos v b)"]
    by (auto simp: nth_list_update split: if_splits)
  then show ?case
    using Cons by (simp add: w)
qed (simp add: getBit_at)

subsection \<open>Properties\<close>

text \<open>C31: A fresh status list of \<open>len\<close> bits starts all clear, has room for every position below
  \<open>len\<close>, and after any sequence of \<open>Set\<close> calls (valid or rejected, in any order) \<open>Get\<close> returns the
  last value written at the position and is unaffected by writes to other positions; outside the
  bytes of the string \<open>Get\<close> and \<open>Set\<close> report an error and \<open>Set\<close> changes nothing.\<close>
theorem bit_string_last_write:
  assumes "0 \<le> len" "in_int64 len"
  shows "\<exists>b. newBitString len = Ok b \<and>
     (\<forall>ws pos. getBit pos (setBits ws b) =
        (if 0 \<le> pos \<and> pos < int (capacity b) then Ok (last_write pos ws False)
         else Err (ErrMsg ''position is invalid''))) \<and>
     len \<le> int (capacity b) \<and> int (capacity b) \<le> len + 8"
proof -
  obtain b where b: "newBitString len = Ok b" "len \<le> int (capacity b)" "int (capacity b) \<le> len + 8"
    "\<And>m. m < capacity b \<Longrightarrow> \<not> bit_at b m"
    using newBitString_ok [OF assms] by metis
  have "getBit pos (setBits ws b) = (if 0 \<le> pos \<and> pos < int (capacity b)
      then Ok (last_write pos ws False) else Err (ErrMsg ''position is invalid''))" for ws pos
    using getBit_setBits [of "nat pos" b ws] b(4) [of "nat pos"]
    by (auto simp: getBit_invalid position_invalid_iff)
  then show ?thesis
    using b by blast
qed

theorem bit_string_last_write_witness:
  "\<exists>b. newBitString 20 = Ok b \<and> getBit 19 (setBits [(19, True), (3, True), (99, True)] b) = Ok True"
proof -
  obtain b where b: "newBitString 20 = Ok b" "20 \<le> int (capacity b)"
    "\<forall>ws pos. getBit pos (setBits ws b) =
        (if 0 \<le> pos \<and> pos < int (capacity b) then Ok (last_write pos ws False)
         else Err (ErrMsg ''position is invalid''))"
    using bit_string_last_write [of 20] by (auto simp: in_int64_def)
  then have "getBit 19 (setBits [(19, True), (3, True), (99, True)] b) = Ok True"
    by (simp del: setBits.simps)
  then show ?thesis using b by blast
qed

text \<open>C32: The positions of a fresh bit string are those of its bytes. For every positive length \<open>n\<close>, \<open>Get\<close> and \<open>Set\<close>
  succeed exactly at the positions below \<open>n\<close> rounded up to a multiple of 8, so every index of the list and
  at most seven positions past its length are accepted; all others, negative ones included, are refused
  with an error and change nothing, and there is no out of range access.\<close>
theorem bit_string_bounds:
  assumes "0 < n" "in_int64 n"
  shows "\<exists>b. newBitString n = Ok b \<and> n \<le> 8 * ((n + 7) div 8) \<and> 8 * ((n + 7) div 8) < n + 8
    \<and> (\<forall>pos v. if 0 \<le> pos \<and> pos < 8 * ((n + 7) div 8) then getBit pos b = Ok False \<and> fst (setBit pos v b) = Ok ()
               else getBit pos b = Err (ErrMsg ''position is invalid'') \<and> setBit pos v b = (Err (ErrMsg ''position is invalid''), b))"
proof -
  have w: "wrap64 (n - 1) = n - 1" using assms by (intro wrap64_id) (simp add: in_int64_def)
  let ?b = "\<lparr>bits = replicate (nat (1 + (n - 1) div 8)) 0, num_bits = n\<rparr>"
  have b: "newBitString n = Ok ?b"
    using assms(1) by (simp add: newBitString_def w bits_per_byte_def sdiv_nonneg Let_def)
  have d: "(n + 7) div 8 = 1 + (n - 1) div 8" using div_add_self2 [of "8 :: int" "n - 1"] by simp
  have c: "int (capacity ?b) = 8 * ((n + 7) div 8)"
    unfolding d using assms(1) by (simp add: capacity_def)
  have z: "\<not> bit_at ?b m" if "m < capacity ?b" for m
    using that by (simp add: bit_at_def capacity_def)
  have ok: "getBit pos ?b = Ok False \<and> fst (setBit pos v ?b) = Ok ()" if "0 \<le> pos" "pos < 8 * ((n + 7) div 8)" for pos v
  proof -
    have m: "nat pos < capacity ?b" "int (nat pos) = pos" using that c by auto
    show ?thesis using getBit_at [OF m(1)] setBit_valid [OF m(1), of v] z [OF m(1)] m(2) by simp
  qed
  have bad: "getBit pos ?b = Err (ErrMsg ''position is invalid'') \<and> setBit pos v ?b = (Err (ErrMsg ''position is invalid''), ?b)"
    if "\<not> (0 \<le> pos \<and> pos < 8 * ((n + 7) div 8))" for pos v
    using that c by (intro conjI getBit_invalid setBit_invalid) (auto simp: position_invalid_iff)
  show ?thesis using b ok bad by (intro exI [of _ ?b]) auto
qed

theorem bit_string_bounds_witness:
  "\<exists>b. newBitString 10 = Ok b \<and> getBit 15 b = Ok False \<and> getBit 16 b = Err (ErrMsg ''position is invalid'')
     \<and> getBit (- 1) b = Err (ErrMsg ''position is invalid'')"
proof -
  have "in_int64 10" by (simp add: in_int64_def)
  then obtain b where b: "newBitString 10 = Ok b" "\<forall>pos v. if 0 \<le> pos \<and> pos < 16
      then getBit pos b = Ok False \<and> fst (setBit pos v b) = Ok ()
      else getBit pos b = Err (ErrMsg ''position is invalid'') \<and> setBit pos v b = (Err (ErrMsg ''position is invalid''), b)"
    using bit_string_bounds [of 10] by auto
  then show ?thesis using b(2) [rule_format, of 15] b(2) [rule_format, of 16] b(2) [rule_format, of "- 1"] by auto
qed

end
