(* ===== verification/Kms_Model.thy ===== *)
theory Kms_Model
  imports Verifiable_Model
begin

text \<open>
  \<open>pkg/kms\<close>: the registry, the key manager's supported key types and signer construction
  (\<open>arieskms.go\<close>) and the signer over a KMS key (\<open>signer/arieskms.go\<close>). Key handles \<open>'h\<close> and the two
  signing calls of the Aries crypto interface are parameters.
\<close>

datatype kms_type = AwsKms | LocalKms | WebKms | OtherKms string

record kms_config =
  kc_KMSType :: kms_type
  kc_Endpoint :: string
  kc_Region :: string
  kc_SecretLockKeyPath :: string
  kc_DBType :: string
  kc_DBURL :: string
  kc_DBPrefix :: string

definition getKeyManager :: "'km \<Rightarrow> kms_config option \<Rightarrow> 'km res" where
  "getKeyManager defaultKM config =
     (case config of None \<Rightarrow> Ok defaultKM | Some _ \<Rightarrow> Err (ErrMsg ''unsupported profile kms''))"

definition ariesSupportedKeyTypes :: "key_type list" where
  "ariesSupportedKeyTypes = [ED25519Type, X25519ECDHKWType, ECDSASecp256k1TypeIEEEP1363, ECDSAP256TypeDER,
     ECDSAP384TypeDER, RSAPS256Type, BLS12381G2Type]"

definition awsSupportedKeyTypes :: "key_type list" where
  "awsSupportedKeyTypes = [ECDSAP256TypeDER, ECDSAP384TypeDER, ECDSASecp256k1TypeIEEEP1363]"

definition supportedKeyTypes :: "kms_type \<Rightarrow> key_type list" where
  "supportedKeyTypes t = (if t = AwsKms then awsSupportedKeyTypes else ariesSupportedKeyTypes)"

text \<open>\<open>NewAriesKeyManager\<close> with the local, web and AWS back ends as parameters.\<close>

definition createStoreProvider :: "'p res \<Rightarrow> (string \<Rightarrow> string \<Rightarrow> 'p res) \<Rightarrow> string \<Rightarrow> string \<Rightarrow> string \<Rightarrow> 'p res" where
  "createStoreProvider mem mongo typ url prefix =
     (if equal_fold typ ''mem'' then mem
      else if equal_fold typ ''mongodb'' then mongo url prefix
      else Err (ErrMsg (''not supported database type: '' @ typ)))"

definition createLocalSecretLock :: "(string \<Rightarrow> 'l res) \<Rightarrow> string \<Rightarrow> 'l res" where
  "createLocalSecretLock open_lock keyPath =
     (if keyPath = [] then Err (ErrMsg ''no key defined for local secret lock'') else open_lock keyPath)"

definition createLocalKMS ::
  "(string \<Rightarrow> 'l res) \<Rightarrow> 'p res \<Rightarrow> (string \<Rightarrow> string \<Rightarrow> 'p res) \<Rightarrow> ('l \<Rightarrow> 'p \<Rightarrow> 'b res) \<Rightarrow> kms_config \<Rightarrow> 'b res" where
  "createLocalKMS open_lock mem mongo build cfg =
     bindR (createLocalSecretLock open_lock (kc_SecretLockKeyPath cfg)) (\<lambda>l.
     bindR (createStoreProvider mem mongo (kc_DBType cfg) (kc_DBURL cfg) (kc_DBPrefix cfg)) (\<lambda>p.
     build l p))"

definition newAriesKeyManager ::
  "(kms_config \<Rightarrow> 'b res) \<Rightarrow> (string \<Rightarrow> 'b) \<Rightarrow> (kms_config \<Rightarrow> 'b res) \<Rightarrow> kms_config \<Rightarrow> (kms_type \<times> 'b) res" where
  "newAriesKeyManager local web aws cfg =
     (case kc_KMSType cfg of
        LocalKms \<Rightarrow> bindR (local cfg) (\<lambda>b. Ok (LocalKms, b))
      | WebKms \<Rightarrow> Ok (WebKms, web (kc_Endpoint cfg))
      | AwsKms \<Rightarrow> bindR (aws cfg) (\<lambda>b. Ok (AwsKms, b))
      | OtherKms t \<Rightarrow> Err (ErrMsg (''unsupported kms type: '' @ t)))"

subsection \<open>Signers\<close>

record 'h kms_signer =
  ks_keyHandle :: 'h
  ks_signatureType :: string
  ks_bbs :: bool

definition newKMSSigner :: "(string \<Rightarrow> 'h res) \<Rightarrow> string \<Rightarrow> string \<Rightarrow> 'h kms_signer res" where
  "newKMSSigner get_key creator sigType =
     bindR (getKeyIDFromVerificationMethod creator) (\<lambda>keyID.
     bindR (get_key keyID) (\<lambda>kh.
     Ok \<lparr>ks_keyHandle = kh, ks_signatureType = sigType, ks_bbs = (sigType = BbsBlsSignature2020)\<rparr>))"

definition is_space :: "char \<Rightarrow> bool" where
  "is_space c \<longleftrightarrow> (let n = of_char c :: nat in n = 32 \<or> 9 \<le> n \<and> n \<le> 13)"

definition blank :: "string \<Rightarrow> bool" where
  "blank s = list_all is_space s"

definition newline :: char where
  "newline = CHR 0x0A"

definition textToLines :: "string \<Rightarrow> string list" where
  "textToLines txt = filter (\<lambda>l. \<not> blank l) (split_on newline txt)"

definition signData ::
  "(string \<Rightarrow> 'h \<Rightarrow> string res) \<Rightarrow> (string list \<Rightarrow> 'h \<Rightarrow> string res) \<Rightarrow> 'h kms_signer \<Rightarrow> string \<Rightarrow> string res" where
  "signData sign sign_multi s data =
     (if ks_bbs s then sign_multi (textToLines data) (ks_keyHandle s) else sign data (ks_keyHandle s))"

definition signerAlg :: "'h kms_signer \<Rightarrow> string" where
  "signerAlg s = ks_signatureType s"

text \<open>The key manager as its clients see it (\<open>VCSKeyManager\<close>): \<open>'k\<close> is the type of signers.\<close>

record 'k key_manager =
  km_supported :: "key_type list"
  km_newSigner :: "string \<Rightarrow> string \<Rightarrow> 'k res"

definition ariesKeyManager :: "(string \<Rightarrow> 'h res) \<Rightarrow> kms_type \<Rightarrow> 'h kms_signer key_manager" where
  "ariesKeyManager get_key t = \<lparr>km_supported = supportedKeyTypes t, km_newSigner = newKMSSigner get_key\<rparr>"

lemma textToLines_lines:
  "l \<in> set (textToLines t) \<longleftrightarrow> l \<in> set (split_on newline t) \<and> \<not> blank l"
  by (auto simp: textToLines_def)

lemma newKMSSigner_Ok:
  "newKMSSigner get_key creator st = Ok s \<longleftrightarrow>
     (\<exists>k kh. getKeyIDFromVerificationMethod creator = Ok k \<and> get_key k = Ok kh \<and>
        s = \<lparr>ks_keyHandle = kh, ks_signatureType = st, ks_bbs = (st = BbsBlsSignature2020)\<rparr>)"
  by (auto simp: newKMSSigner_def)

text \<open>BBS+ signing splits its input into statements. The lines handed to \<open>SignMulti\<close> hold every
  non-blank line of the message, in order and with none of the newlines, and nothing else: a
  message without blank lines is recovered exactly by joining them. A signer for any other
  signature type signs the message as it is, with the key named by the part after \<open>#\<close>.\<close>
theorem kms_signer_messages:
  assumes "newKMSSigner get_key (did @ ''#'' @ key) st = Ok s" "CHR ''#'' \<notin> set did" "CHR ''#'' \<notin> set key"
  shows "get_key key = Ok (ks_keyHandle s)
    \<and> signData sign multi s msg = (if st = BbsBlsSignature2020 then multi (textToLines msg) (ks_keyHandle s)
                                   else sign msg (ks_keyHandle s))
    \<and> (\<forall>l \<in> set (textToLines msg). newline \<notin> set l \<and> \<not> blank l)
    \<and> ((\<forall>l \<in> set (split_on newline msg). \<not> blank l) \<longrightarrow> join_with [newline] (textToLines msg) = msg)"
proof -
  have "getKeyIDFromVerificationMethod (did @ ''#'' @ key) = Ok key"
    using assms(2,3) by (simp add: getKeyIDFromVerificationMethod_def split_on_append split_on_no_sep)
  then have "get_key key = Ok (ks_keyHandle s) \<and> ks_bbs s = (st = BbsBlsSignature2020)"
    using assms(1) by (auto simp: newKMSSigner_def)
  moreover have "textToLines msg = split_on newline msg" if "\<forall>l \<in> set (split_on newline msg). \<not> blank l"
    using that by (simp add: textToLines_def filter_id_conv)
  ultimately show ?thesis
    using join_split [of newline msg] split_on_parts [of _ newline msg]
    by (auto simp: signData_def textToLines_lines)
qed

theorem kms_signer_messages_witness:
  "\<exists>s. newKMSSigner (\<lambda>k. Ok k) ''did:a#k1'' BbsBlsSignature2020 = Ok s
     \<and> ks_keyHandle s = ''k1''
     \<and> signData (\<lambda>m h. Err (ErrMsg m)) (\<lambda>ls h. Ok (concat ls)) s ''ab'' = Ok ''ab''"
proof -
  let ?s = "\<lparr>ks_keyHandle = ''k1'', ks_signatureType = BbsBlsSignature2020, ks_bbs = True\<rparr>"
  have s: "newKMSSigner (\<lambda>k. Ok k) (''did:a'' @ ''#'' @ ''k1'') BbsBlsSignature2020 = Ok ?s"
    by (simp add: newKMSSigner_def getKeyIDFromVerificationMethod_def)
  have lines: "textToLines ''ab'' = [''ab'']"
    by (simp add: textToLines_def newline_def blank_def is_space_def)
  show ?thesis
    using kms_signer_messages [OF s, of "\<lambda>m h. Err (ErrMsg m)" "\<lambda>ls h. Ok (concat ls)" "''ab''"] s lines by simp
qed

end
