(* ===== verification/Vc_Crypto.thy ===== *)
theory Vc_Crypto
  imports Kms_Model
begin

text \<open>
  \<open>pkg/doc/vc/crypto\<close>: signing credentials and presentations (\<open>crypto.go\<close>) and checking proofs
  (\<open>crypto.go\<close>, \<open>util.go\<close>). The Aries calls are the fields of \<open>crypto_lib\<close>; which key signs, for
  which purpose and with which suite is decided here. \<open>'k\<close> is the type of signers, \<open>'c\<close> of JWT
  claims, \<open>'a\<close> of JWS algorithms.
\<close>

definition AssertionMethod :: string where "AssertionMethod = ''assertionMethod''"
definition Authentication :: string where "Authentication = ''authentication''"
definition CapabilityDelegation :: string where "CapabilityDelegation = ''capabilityDelegation''"
definition CapabilityInvocation :: string where "CapabilityInvocation = ''capabilityInvocation''"

datatype sig_repr = SignatureProofValue | SignatureJWS

record 'k vc_signer =
  sg_DID :: string
  sg_Creator :: string
  sg_SignatureType :: string
  sg_KeyType :: key_type
  sg_Format :: string
  sg_Repr :: sig_repr
  sg_KMS :: "'k key_manager"

record signing_opts =
  so_VerificationMethod :: string
  so_Purpose :: string
  so_Representation :: string
  so_SignatureType :: string
  so_Created :: "int option"
  so_Challenge :: string
  so_Domain :: string

definition no_opts :: signing_opts where
  "no_opts = \<lparr>so_VerificationMethod = [], so_Purpose = [], so_Representation = [], so_SignatureType = [],
     so_Created = None, so_Challenge = [], so_Domain = []\<rparr>"

type_synonym signing_opt = "signing_opts \<Rightarrow> signing_opts"

definition withVerificationMethod :: "string \<Rightarrow> signing_opt" where
  "withVerificationMethod v o0 = o0\<lparr>so_VerificationMethod := v\<rparr>"
definition withPurpose :: "string \<Rightarrow> signing_opt" where
  "withPurpose v o0 = o0\<lparr>so_Purpose := v\<rparr>"
definition withSigningRepresentation :: "string \<Rightarrow> signing_opt" where
  "withSigningRepresentation v o0 = o0\<lparr>so_Representation := v\<rparr>"
definition withSignatureType :: "string \<Rightarrow> signing_opt" where
  "withSignatureType v o0 = o0\<lparr>so_SignatureType := v\<rparr>"
definition withCreated :: "int option \<Rightarrow> signing_opt" where
  "withCreated v o0 = o0\<lparr>so_Created := v\<rparr>"
definition withChallenge :: "string \<Rightarrow> signing_opt" where
  "withChallenge v o0 = o0\<lparr>so_Challenge := v\<rparr>"
definition withDomain :: "string \<Rightarrow> signing_opt" where
  "withDomain v o0 = o0\<lparr>so_Domain := v\<rparr>"

lemmas with_defs = withVerificationMethod_def withPurpose_def withSigningRepresentation_def
  withSignatureType_def withCreated_def withChallenge_def withDomain_def

definition apply_opts :: "signing_opt list \<Rightarrow> signing_opts" where
  "apply_opts os = fold (\<lambda>f s. f s) os no_opts"

record 'k ldp_context =
  lc_VerificationMethod :: string
  lc_Repr :: sig_repr
  lc_SignatureType :: string
  lc_Suite :: "string \<times> 'k"
  lc_Purpose :: string
  lc_Created :: "int option"
  lc_Challenge :: string
  lc_Domain :: string

record ('k, 'c, 'a) crypto_lib =
  cl_resolve :: "string \<Rightarrow> did_doc res"
  cl_addLDP :: "'k ldp_context \<Rightarrow> credential \<Rightarrow> credential res"
  cl_addLDPres :: "'k ldp_context \<Rightarrow> presentation \<Rightarrow> presentation res"
  cl_claims :: "credential \<Rightarrow> 'c res"
  cl_alg :: "key_type \<Rightarrow> 'a res"
  cl_marshalJWS :: "'c \<Rightarrow> 'a \<Rightarrow> 'k \<Rightarrow> string \<Rightarrow> string res"

subsection \<open>Proof purposes\<close>

definition did_of :: "string \<Rightarrow> string" where
  "did_of method = hd (split_on CHR ''#'' method)"

fun isValidVerificationMethod :: "string \<Rightarrow> string list \<Rightarrow> bool" where
  "isValidVerificationMethod method [] = False"
| "isValidVerificationMethod method (vm # vms) =
     (if has_prefix method ''did:key''
      then (if did_of method = did_of vm then True else isValidVerificationMethod method vms)
      else (if method = vm then True else isValidVerificationMethod method vms))"

definition validateProofPurpose :: "string \<Rightarrow> string \<Rightarrow> did_doc \<Rightarrow> unit res" where
  "validateProofPurpose purpose method doc =
     (if str_contains method ''did:sov'' then Ok ()
      else
        let unmatched = Err (ErrMsg (''unable to find matching '' @ purpose
              @ '' key IDs for given verification method '' @ method));
            check = (\<lambda>vms. if isValidVerificationMethod method vms then Ok () else unmatched)
        in if purpose = AssertionMethod then check (dd_assertion doc)
           else if purpose = Authentication then check (dd_authentication doc)
           else if purpose = CapabilityDelegation then check (dd_capabilityDelegation doc)
           else if purpose = CapabilityInvocation then check (dd_capabilityInvocation doc)
           else Err (ErrMsg (''proof purpose '' @ purpose @ '' not supported'')))"

definition getVerificationMethodFromProof :: "fields \<Rightarrow> string res" where
  "getVerificationMethodFromProof proof =
     (case map_of proof ''verificationMethod'' of
        None \<Rightarrow> Err (ErrMsg ''proof doesn't have verification method'')
      | Some v \<Rightarrow> (case as_str v of
            None \<Rightarrow> Err (ErrMsg ''proof verification method is not a string'')
          | Some s \<Rightarrow> Ok s))"

definition validateProof :: "fields \<Rightarrow> string \<Rightarrow> did_doc \<Rightarrow> unit res" where
  "validateProof proof method doc =
     (case map_of proof ''proofPurpose'' of
        None \<Rightarrow> Err (ErrMsg ''proof doesn't have purpose'')
      | Some v \<Rightarrow> (case as_str v of
            None \<Rightarrow> Err (ErrMsg ''proof purpose is not a string'')
          | Some s \<Rightarrow> validateProofPurpose s method doc))"

definition validateProofKey :: "fields \<Rightarrow> string \<Rightarrow> string \<Rightarrow> unit res" where
  "validateProofKey proof key expected =
     (let actual = (case map_of proof key of
                      None \<Rightarrow> []
                    | Some v \<Rightarrow> (case as_str v of None \<Rightarrow> [] | Some s \<Rightarrow> s))
      in if expected \<noteq> actual
         then Err (ErrMsg (''invalid '' @ key @ '' in the proof : expected='' @ expected @ '' actual='' @ actual))
         else Ok ())"

subsection \<open>Signing\<close>

definition getSigner :: "string \<Rightarrow> 'k key_manager \<Rightarrow> signing_opts \<Rightarrow> string \<Rightarrow> ('k \<times> string) res" where
  "getSigner creator km opts sigType =
     (let method = (if so_VerificationMethod opts \<noteq> [] then so_VerificationMethod opts else creator)
      in bindR (km_newSigner km method sigType) (\<lambda>s. Ok (s, method)))"

definition getSignatureRepresentation :: "string \<Rightarrow> sig_repr res" where
  "getSignatureRepresentation r =
     (if r = ''jws'' then Ok SignatureJWS
      else if r = ''proofValue'' then Ok SignatureProofValue
      else Err (ErrMsg (''invalid proof format : '' @ r)))"

definition ldp_suites :: "string list" where
  "ldp_suites = [Ed25519Signature2018, Ed25519Signature2020, JSONWebSignature2020, BbsBlsSignature2020,
     EcdsaSecp256k1Signature2019]"

fun first_method :: "string list \<Rightarrow> string res" where
  "first_method [] = Panic IndexOutOfRange"
| "first_method (m # _) = Ok m"

definition getLinkedDataProofContext ::
  "('k, 'c, 'a, 'z) crypto_lib_scheme \<Rightarrow> string \<Rightarrow> 'k key_manager \<Rightarrow> string \<Rightarrow> string \<Rightarrow> sig_repr \<Rightarrow> signing_opts
   \<Rightarrow> 'k ldp_context res" where
  "getLinkedDataProofContext lib creator km sigType purpose0 repr0 opts =
     bindR (getSigner creator km opts sigType) (\<lambda>(s, method).
     let purpose = (if so_Purpose opts \<noteq> [] then so_Purpose opts else purpose0)
     in bindR (getDIDDocFromVerificationMethod (cl_resolve lib) method) (\<lambda>doc.
     bindR (validateProofPurpose purpose method doc) (\<lambda>_.
     if sigType \<notin> set ldp_suites then Err (ErrMsg (''signature type unsupported '' @ sigType))
     else
       bindR (if so_Representation opts \<noteq> [] then getSignatureRepresentation (so_Representation opts) else Ok repr0)
         (\<lambda>repr.
       bindR (if has_prefix method ''did:key'' then first_method (dd_assertion doc) else Ok method) (\<lambda>vm.
       Ok \<lparr>lc_VerificationMethod = vm, lc_Repr = repr, lc_SignatureType = sigType, lc_Suite = (sigType, s),
            lc_Purpose = so_Purpose opts, lc_Created = so_Created opts, lc_Challenge = so_Challenge opts,
            lc_Domain = so_Domain opts\<rparr>)))))"

definition chosen_type :: "'k vc_signer \<Rightarrow> signing_opts \<Rightarrow> string" where
  "chosen_type sd opts = (if so_SignatureType opts \<noteq> [] then so_SignatureType opts else sg_SignatureType sd)"

definition signCredentialLDP ::
  "('k, 'c, 'a, 'z) crypto_lib_scheme \<Rightarrow> 'k vc_signer \<Rightarrow> credential \<Rightarrow> signing_opt list \<Rightarrow> credential res" where
  "signCredentialLDP lib sd vc os =
     (let opts = apply_opts os
      in bindR (getLinkedDataProofContext lib (sg_Creator sd) (sg_KMS sd) (chosen_type sd opts) AssertionMethod
                 (sg_Repr sd) opts) (\<lambda>ctx.
         wrapR ''failed to sign vc: '' (cl_addLDP lib ctx vc)))"

definition signCredentialJWT ::
  "('k, 'c, 'a, 'z) crypto_lib_scheme \<Rightarrow> 'k vc_signer \<Rightarrow> credential \<Rightarrow> signing_opt list \<Rightarrow> credential res" where
  "signCredentialJWT lib sd vc os =
     (let opts = apply_opts os
      in bindR (wrapR ''getting signer for JWS: '' (getSigner (sg_Creator sd) (sg_KMS sd) opts (chosen_type sd opts)))
          (\<lambda>(s, method).
         bindR (wrapR ''unable to get did doc from verification method ''
                  (getDIDDocFromVerificationMethod (cl_resolve lib) method)) (\<lambda>doc.
         bindR (wrapR ''ValidateProofPurpose error: ''
                  (validateProofPurpose (if so_Purpose opts \<noteq> [] then so_Purpose opts else AssertionMethod) method doc))
          (\<lambda>_.
         bindR (wrapR ''creating JWT claims for VC: '' (cl_claims lib vc)) (\<lambda>claims.
         bindR (wrapR ''getting JWS algo based on signature type: '' (cl_alg lib (sg_KeyType sd))) (\<lambda>alg.
         bindR (wrapR ''MarshalJWS error: '' (cl_marshalJWS lib claims alg s method)) (\<lambda>jws.
         Ok (vc\<lparr>cr_JWT := jws\<rparr>))))))))"

definition signCredential ::
  "('k, 'c, 'a, 'z) crypto_lib_scheme \<Rightarrow> 'k vc_signer \<Rightarrow> credential \<Rightarrow> signing_opt list \<Rightarrow> credential res" where
  "signCredential lib sd vc os =
     (if sg_Format sd = Jwt then signCredentialJWT lib sd vc os
      else if sg_Format sd = Ldp then signCredentialLDP lib sd vc os
      else Err (ErrMsg (''unknown signature format '' @ sg_Format sd)))"

definition signPresentation ::
  "('k, 'c, 'a, 'z) crypto_lib_scheme \<Rightarrow> 'k vc_signer \<Rightarrow> presentation \<Rightarrow> signing_opt list \<Rightarrow> presentation res" where
  "signPresentation lib sd vp os =
     (let opts = apply_opts os
      in bindR (getLinkedDataProofContext lib (sg_Creator sd) (sg_KMS sd) (chosen_type sd opts) Authentication
                 (sg_Repr sd) opts) (\<lambda>ctx.
         wrapR ''failed to sign vc: ''
           (cl_addLDPres lib (if lc_Purpose ctx = [] then ctx\<lparr>lc_Purpose := Authentication\<rparr> else ctx) vp)))"

subsection \<open>Authorisation of keys\<close>

text \<open>What the DID document must say for a verification method to be used for a purpose.\<close>

definition relationship :: "string \<Rightarrow> did_doc \<Rightarrow> string list option" where
  "relationship purpose doc =
     map_of [(AssertionMethod, dd_assertion doc), (Authentication, dd_authentication doc),
             (CapabilityDelegation, dd_capabilityDelegation doc), (CapabilityInvocation, dd_capabilityInvocation doc)]
       purpose"

definition authorised :: "string \<Rightarrow> string \<Rightarrow> did_doc \<Rightarrow> bool" where
  "authorised purpose method doc \<longleftrightarrow>
     str_contains method ''did:sov'' \<or>
     (\<exists>vms. relationship purpose doc = Some vms \<and>
        (if has_prefix method ''did:key'' then \<exists>vm \<in> set vms. did_of vm = did_of method else method \<in> set vms))"

lemma purposes_distinct [simp]:
  "AssertionMethod \<noteq> Authentication" "AssertionMethod \<noteq> CapabilityDelegation" "AssertionMethod \<noteq> CapabilityInvocation"
  "Authentication \<noteq> CapabilityDelegation" "Authentication \<noteq> CapabilityInvocation"
  "CapabilityDelegation \<noteq> CapabilityInvocation"
  "Authentication \<noteq> AssertionMethod" "CapabilityDelegation \<noteq> AssertionMethod" "CapabilityInvocation \<noteq> AssertionMethod"
  "CapabilityDelegation \<noteq> Authentication" "CapabilityInvocation \<noteq> Authentication"
  "CapabilityInvocation \<noteq> CapabilityDelegation"
  by (simp_all add: AssertionMethod_def Authentication_def CapabilityDelegation_def CapabilityInvocation_def)

lemma isValidVerificationMethod_iff:
  "isValidVerificationMethod method vms \<longleftrightarrow>
     (if has_prefix method ''did:key'' then \<exists>vm \<in> set vms. did_of vm = did_of method else method \<in> set vms)"
  by (induction vms) auto

lemma validateProofPurpose_iff: "validateProofPurpose purpose method doc = Ok () \<longleftrightarrow> authorised purpose method doc"
  by (auto simp: validateProofPurpose_def authorised_def relationship_def isValidVerificationMethod_iff Let_def)

lemma validateProofPurpose_no_panic: "validateProofPurpose purpose method doc \<noteq> Panic p"
  by (simp add: validateProofPurpose_def Let_def)

lemma validateProof_Ok:
  "validateProof proof method doc = Ok () \<longleftrightarrow>
     (\<exists>purpose. map_of proof ''proofPurpose'' = Some (JStr purpose) \<and> authorised purpose method doc)"
  by (auto simp: validateProof_def validateProofPurpose_iff split: option.splits)

lemma validateProofKey_Ok:
  "validateProofKey proof key expected = Ok () \<longleftrightarrow>
     map_of proof key = Some (JStr expected) \<or> (expected = [] \<and> (\<forall>s. map_of proof key \<noteq> Some (JStr s)))"
  by (auto simp: validateProofKey_def Let_def split: option.splits)

lemma getVerificationMethodFromProof_Ok:
  "getVerificationMethodFromProof proof = Ok m \<longleftrightarrow> map_of proof ''verificationMethod'' = Some (JStr m)"
  by (auto simp: getVerificationMethodFromProof_def split: option.splits)

definition effective_method :: "'k vc_signer \<Rightarrow> signing_opts \<Rightarrow> string" where
  "effective_method sd opts = (if so_VerificationMethod opts \<noteq> [] then so_VerificationMethod opts else sg_Creator sd)"

definition effective_purpose :: "string \<Rightarrow> signing_opts \<Rightarrow> string" where
  "effective_purpose default_purpose opts = (if so_Purpose opts \<noteq> [] then so_Purpose opts else default_purpose)"

lemma getSigner_Ok:
  "getSigner (sg_Creator sd) km opts st = Ok (s, m) \<longleftrightarrow>
     m = effective_method sd opts \<and> km_newSigner km (effective_method sd opts) st = Ok s"
  by (auto simp: getSigner_def effective_method_def Let_def)

lemma getDIDDoc_Ok:
  "getDIDDocFromVerificationMethod resolve m = Ok doc \<longleftrightarrow>
     (\<exists>d. getDIDFromVerificationMethod m = Ok d \<and> resolve d = Ok doc)"
  by (simp add: getDIDDocFromVerificationMethod_def)

lemma signCredentialJWT_Ok:
  assumes "signCredentialJWT lib sd vc os = Ok vc'"
  obtains s d doc claims alg jws where
    "km_newSigner (sg_KMS sd) (effective_method sd (apply_opts os)) (chosen_type sd (apply_opts os)) = Ok s"
    "getDIDFromVerificationMethod (effective_method sd (apply_opts os)) = Ok d" "cl_resolve lib d = Ok doc"
    "authorised (effective_purpose AssertionMethod (apply_opts os)) (effective_method sd (apply_opts os)) doc"
    "cl_claims lib vc = Ok claims"
    "cl_marshalJWS lib claims alg s (effective_method sd (apply_opts os)) = Ok jws" "vc' = vc\<lparr>cr_JWT := jws\<rparr>"
  using assms
  by (clarsimp simp: signCredentialJWT_def Let_def getSigner_Ok getDIDDoc_Ok validateProofPurpose_iff
      effective_purpose_def [symmetric])

lemma getLinkedDataProofContext_Ok:
  assumes "getLinkedDataProofContext lib (sg_Creator sd) km st purpose0 repr0 opts = Ok ctx"
  obtains s d doc where
    "km_newSigner km (effective_method sd opts) st = Ok s"
    "getDIDFromVerificationMethod (effective_method sd opts) = Ok d" "cl_resolve lib d = Ok doc"
    "authorised (effective_purpose purpose0 opts) (effective_method sd opts) doc"
    "st \<in> set ldp_suites" "lc_Suite ctx = (st, s)" "lc_Purpose ctx = so_Purpose opts"
  using assms
  by (clarsimp simp: getLinkedDataProofContext_def Let_def getSigner_Ok getDIDDoc_Ok validateProofPurpose_iff
      effective_purpose_def [symmetric] split: if_split_asm)

text \<open>What a successful signature rests on.\<close>

lemma signed_with_authorised_key:
  assumes "signCredential lib sd vc os = Ok vc'"
  shows "\<exists>doc d s. getDIDFromVerificationMethod (effective_method sd (apply_opts os)) = Ok d
    \<and> cl_resolve lib d = Ok doc
    \<and> authorised (effective_purpose AssertionMethod (apply_opts os)) (effective_method sd (apply_opts os)) doc
    \<and> km_newSigner (sg_KMS sd) (effective_method sd (apply_opts os)) (chosen_type sd (apply_opts os)) = Ok s
    \<and> (sg_Format sd = Jwt \<and> (\<exists>jws claims alg. cl_marshalJWS lib claims alg s (effective_method sd (apply_opts os)) = Ok jws
           \<and> cl_claims lib vc = Ok claims \<and> vc' = vc\<lparr>cr_JWT := jws\<rparr>)
       \<or> sg_Format sd = Ldp \<and> (\<exists>ctx. cl_addLDP lib ctx vc = Ok vc' \<and> lc_Suite ctx = (chosen_type sd (apply_opts os), s)
           \<and> chosen_type sd (apply_opts os) \<in> set ldp_suites))"
proof (cases "sg_Format sd = Jwt")
  case True
  then have "signCredentialJWT lib sd vc os = Ok vc'"
    using assms by (simp add: signCredential_def)
  then show ?thesis
    using True by (elim signCredentialJWT_Ok) blast
next
  case False
  then have ldp: "sg_Format sd = Ldp" "signCredentialLDP lib sd vc os = Ok vc'"
    using assms by (auto simp: signCredential_def split: if_splits)
  then obtain ctx where ctx: "getLinkedDataProofContext lib (sg_Creator sd) (sg_KMS sd) (chosen_type sd (apply_opts os))
      AssertionMethod (sg_Repr sd) (apply_opts os) = Ok ctx" "cl_addLDP lib ctx vc = Ok vc'"
    by (auto simp: signCredentialLDP_def Let_def)
  then show ?thesis
    using ldp(1) by (elim getLinkedDataProofContext_Ok) blast
qed

subsection \<open>Properties\<close>


definition demo_doc :: did_doc where
  "demo_doc = \<lparr>dd_ID = ''did:a'', dd_assertion = [''did:a#k''], dd_authentication = [], dd_capabilityDelegation = [],
     dd_capabilityInvocation = []\<rparr>"

definition demo_lib :: "(string, string, string) crypto_lib" where
  "demo_lib = \<lparr>cl_resolve = (\<lambda>d. if d = ''did:a'' then Ok demo_doc else Err (ErrExt ''not found'')),
     cl_addLDP = (\<lambda>ctx c. Ok (c\<lparr>cr_Proofs := [[(''verificationMethod'', JStr (lc_VerificationMethod ctx))]]\<rparr>)),
     cl_addLDPres = (\<lambda>ctx p. Ok p), cl_claims = (\<lambda>c. Ok (cr_ID c)), cl_alg = (\<lambda>_. Ok ''alg''),
     cl_marshalJWS = (\<lambda>c a s m. Ok (c @ ''.'' @ s))\<rparr>"

definition demo_signer :: "string vc_signer" where
  "demo_signer = \<lparr>sg_DID = ''did:a'', sg_Creator = ''did:a#k'', sg_SignatureType = ''ES256'',
     sg_KeyType = ECDSAP256TypeDER, sg_Format = Jwt, sg_Repr = SignatureJWS,
     sg_KMS = \<lparr>km_supported = [], km_newSigner = (\<lambda>m t. Ok m)\<rparr>\<rparr>"

lemma did_key_prefix: "\<not> has_prefix ''did:a#k'' ''did:key''" "\<not> str_contains ''did:a#k'' ''did:sov''"
  by (simp_all add: has_prefix_def)

lemma demo_sign:
  "signCredential demo_lib demo_signer (empty_credential\<lparr>cr_ID := ''c''\<rparr>) []
     = Ok (empty_credential\<lparr>cr_ID := ''c'', cr_JWT := ''c.did:a#k''\<rparr>)"
  by (simp add: signCredential_def signCredentialJWT_def demo_lib_def demo_signer_def demo_doc_def apply_opts_def
      no_opts_def getSigner_def getDIDDocFromVerificationMethod_def getDIDFromVerificationMethod_def
      validateProofPurpose_def did_key_prefix Let_def)


end
