(* ===== verification/Credential_Status.thy ===== *)
theory Credential_Status
  imports Csl_Store Bit_String Vc_Crypto
begin

text \<open>
  \<open>pkg/service/credentialstatus/credentialstatus_service.go\<close>: allocation of status list entries,
  revocation, and access to the list credentials. The service's collaborators are the fields of
  \<open>csl_service\<close>: the store operations on the state \<open>'s\<close>, the signer, and the credential codec of the
  Aries library. The clock reading and the fresh UUID are arguments.
\<close>

definition vcContext :: string where "vcContext = ''https://www.w3.org/2018/credentials/v1''"
definition statusListContext :: string where "statusListContext = ''https://w3id.org/vc/status-list/2021/v1''"
definition jsonWebSignature2020Ctx :: string where
  "jsonWebSignature2020Ctx = ''https://w3c-ccg.github.io/lds-jws2020/contexts/lds-jws2020-v1.json''"
definition bbsContext :: string where "bbsContext = ''https://w3id.org/security/bbs/v1''"
definition StatusListIndex :: string where "StatusListIndex = ''statusListIndex''"
definition StatusListCredential :: string where "StatusListCredential = ''statusListCredential''"
definition StatusPurpose :: string where "StatusPurpose = ''statusPurpose''"
definition StatusList2021Entry :: string where "StatusList2021Entry = ''StatusList2021Entry''"
definition bitStringSize :: int where "bitStringSize = 128000"

lemma status_keys [simp]:
  "StatusListIndex \<noteq> StatusListCredential" "StatusListIndex \<noteq> StatusPurpose" "StatusListCredential \<noteq> StatusPurpose"
  "StatusListCredential \<noteq> StatusListIndex" "StatusPurpose \<noteq> StatusListIndex" "StatusPurpose \<noteq> StatusListCredential"
  by (simp_all add: StatusListIndex_def StatusListCredential_def StatusPurpose_def)

record ('k, 's) csl_service =
  sv_upsert :: "csl_wrapper \<Rightarrow> 's \<Rightarrow> unit res \<times> 's"
  sv_get :: "string \<Rightarrow> 's \<Rightarrow> csl_wrapper res \<times> 's"
  sv_createLatest :: "int \<Rightarrow> 's \<Rightarrow> unit res \<times> 's"
  sv_updateLatest :: "int \<Rightarrow> 's \<Rightarrow> unit res \<times> 's"
  sv_getLatest :: "'s \<Rightarrow> int res \<times> 's"
  sv_vcGet :: "string \<Rightarrow> string \<Rightarrow> 's \<Rightarrow> vc_bytes res \<times> 's"
  sv_listSize :: int
  sv_sign :: "'k vc_signer \<Rightarrow> credential \<Rightarrow> signing_opt list \<Rightarrow> credential res"
  sv_marshal :: "credential \<Rightarrow> json res"
  sv_parse :: "vc_bytes \<Rightarrow> credential res"
  sv_encode :: "bit_string \<Rightarrow> string res"
  sv_decode :: "string \<Rightarrow> bit_string res"

definition getStringValue :: "string \<Rightarrow> fields \<Rightarrow> string res" where
  "getStringValue key m =
     (case map_of m key of
        None \<Rightarrow> Ok []
      | Some v \<Rightarrow> (case as_str v of Some s \<Rightarrow> Ok s | None \<Rightarrow> Err (ErrMsg (''invalid '' @ key @ '' type''))))"

text \<open>\<open>prepareSigningOpts\<close>: re-sign the way the latest proof was made.\<close>

definition prepareSigningOpts :: "'k vc_signer \<Rightarrow> fields list \<Rightarrow> signing_opt list res" where
  "prepareSigningOpts profile proofs =
     (if proofs = [] then Ok []
      else
        let proof = last proofs;
            repr = (if map_of proof ''proofValue'' \<noteq> None then ''proofValue'' else ''jws'')
        in bindR (getStringValue ''proofPurpose'' proof) (\<lambda>purpose.
           bindR (getStringValue ''verificationMethod'' proof) (\<lambda>vm.
           let o1 = [withSigningRepresentation repr, withPurpose purpose];
               o2 = (if \<not> has_prefix (sg_Creator profile) ''did:key'' \<and> vm \<noteq> sg_Creator profile
                     then o1 @ [withVerificationMethod vm] else o1)
           in bindR (getStringValue ''type'' proof) (\<lambda>tn.
              if tn \<noteq> []
              then bindR (getSignatureTypeByName tn) (\<lambda>st. Ok (o2 @ [withSignatureType st]))
              else Ok o2))))"

definition createVC :: "('k, 's) csl_service \<Rightarrow> string \<Rightarrow> 'k vc_signer \<Rightarrow> int \<Rightarrow> credential res" where
  "createVC sv vcID profile now =
     (let ctx0 = [vcContext, statusListContext];
          ctx1 = (if sg_SignatureType profile = JSONWebSignature2020 then ctx0 @ [jsonWebSignature2020Ctx] else ctx0);
          ctx2 = (if sg_SignatureType profile = BbsBlsSignature2020 then ctx1 @ [bbsContext] else ctx1);
          size = (if sv_listSize sv < bitStringSize then bitStringSize else sv_listSize sv);
          base = empty_credential\<lparr>cr_Context := ctx2, cr_ID := vcID,
                   cr_Types := [''VerifiableCredential'', ''StatusList2021Credential''],
                   cr_Issuer := \<lparr>is_ID = sg_DID profile, is_Custom = []\<rparr>, cr_Issued := Some now\<rparr>
      in bindR (bindR (newBitString size) (sv_encode sv)) (\<lambda>encoded.
         let vc = base\<lparr>cr_Subject := SubjStatusList (vcID @ ''#list'') ''StatusList2021'' ''revocation'' encoded\<rparr>
         in bindR (prepareSigningOpts profile (cr_Proofs vc)) (\<lambda>os. sv_sign sv profile vc os)))"

definition getCSLWrapper :: "('k, 's) csl_service \<Rightarrow> string \<Rightarrow> 's \<Rightarrow> csl_wrapper res \<times> 's" where
  "getCSLWrapper sv i s =
     andthen (wrapS ''failed to get csl from store: '' (sv_get sv i s)) (\<lambda>w s.
     andthen (pure_op (sv_parse sv (JsonBytes (cw_VCByte w))) s) (\<lambda>vc s.
     (Ok (w\<lparr>cw_VC := Some vc\<rparr>), s)))"

definition freshWrapper :: "('k, 's) csl_service \<Rightarrow> string \<Rightarrow> int \<Rightarrow> 'k vc_signer \<Rightarrow> int \<Rightarrow> csl_wrapper res" where
  "freshWrapper sv vcID listID profile now =
     bindR (createVC sv vcID profile now) (\<lambda>vc.
     bindR (sv_marshal sv vc) (\<lambda>j.
     Ok \<lparr>cw_VCByte = j, cw_Size = 0, cw_RevocationListIndex = 0, cw_ListID = listID, cw_VC = Some vc\<rparr>))"

definition getLatestCSLWrapper :: "('k, 's) csl_service \<Rightarrow> 'k vc_signer \<Rightarrow> string \<Rightarrow> int \<Rightarrow> 's \<Rightarrow> csl_wrapper res \<times> 's" where
  "getLatestCSLWrapper sv profile url now s =
     (case sv_getLatest sv s of
        (Err e, s) \<Rightarrow>
          if err_is e csl_ErrDataNotFound
          then andthen (wrapS ''failed to store latest list ID in store: '' (sv_createLatest sv 1 s)) (\<lambda>_ s.
               pure_op (freshWrapper sv (url @ ''/1'') 1 profile now) s)
          else (Err (ErrWrap ''failed to get latestListID from store: '' e), s)
      | (Panic p, s) \<Rightarrow> (Panic p, s)
      | (Ok n, s) \<Rightarrow>
          let vcID = url @ ''/'' @ format_int n
          in onErr (getCSLWrapper sv vcID s) (\<lambda>e s.
               if err_is e csl_ErrDataNotFound
               then pure_op (freshWrapper sv vcID n profile now) s
               else (Err (ErrWrap ''failed to get csl from store: '' e), s)))"

text \<open>\<open>CreateStatusID\<close> reads the wrapper of the list in use and then writes it back; between the two
  phases other requests may run.\<close>

definition allocateFrom :: "('k, 's) csl_service \<Rightarrow> string \<Rightarrow> csl_wrapper \<Rightarrow> 's \<Rightarrow> typed_id res \<times> 's" where
  "allocateFrom sv uuid w s =
     (let revocationListIndex = format_int (cw_RevocationListIndex w);
          w1 = w\<lparr>cw_Size := wrap64 (cw_Size w + 1), cw_RevocationListIndex := wrap64 (cw_RevocationListIndex w + 1)\<rparr>
      in andthen (wrapS ''failed to store csl in store: '' (sv_upsert sv w1 s)) (\<lambda>_ s.
         andthen (if cw_Size w1 = sv_listSize sv
                  then wrapS ''failed to store latest list ID in store: '' (sv_updateLatest sv (wrap64 (cw_ListID w1 + 1)) s)
                  else (Ok (), s)) (\<lambda>_ s.
         andthen (pure_op (deref (cw_VC w1)) s) (\<lambda>vc s.
         (Ok \<lparr>ti_ID = uuid, ti_Type = StatusList2021Entry,
               ti_Custom = [(StatusPurpose, JStr ''revocation''), (StatusListIndex, JStr revocationListIndex),
                            (StatusListCredential, JStr (cr_ID vc))]\<rparr>, s)))))"

definition createStatusID :: "('k, 's) csl_service \<Rightarrow> 'k vc_signer \<Rightarrow> string \<Rightarrow> int \<Rightarrow> string \<Rightarrow> 's \<Rightarrow> typed_id res \<times> 's" where
  "createStatusID sv profile url now uuid s =
     andthen (getLatestCSLWrapper sv profile url now s) (allocateFrom sv uuid)"

definition validateVCStatus :: "typed_id option \<Rightarrow> typed_id res" where
  "validateVCStatus status =
     (case status of
        None \<Rightarrow> Err (ErrMsg ''vc status not exist'')
      | Some st \<Rightarrow>
          if ti_Type st \<noteq> StatusList2021Entry
          then Err (ErrMsg (''vc status '' @ ti_Type st @ '' not supported''))
          else if fget (ti_Custom st) StatusListIndex = JNull
          then Err (ErrMsg ''statusListIndex field not exist in vc status'')
          else if fget (ti_Custom st) StatusListCredential = JNull
          then Err (ErrMsg ''statusListCredential field not exist in vc status'')
          else if fget (ti_Custom st) StatusPurpose = JNull
          then Err (ErrMsg ''statusPurpose field not exist in vc status'')
          else Ok st)"

fun first_subject :: "subject list \<Rightarrow> subject res" where
  "first_subject [] = Panic IndexOutOfRange"
| "first_subject (s # _) = Ok s"

fun put_first :: "subject list \<Rightarrow> string \<Rightarrow> json \<Rightarrow> subject list" where
  "put_first [] k v = []"
| "put_first (s # ss) k v = s\<lparr>su_Custom := fput k v (su_Custom s)\<rparr> # ss"

text \<open>The pure middle of \<open>UpdateVC\<close>: the list credential with the bit of \<open>st\<close> set to \<open>value\<close>, its proofs
  removed. \<open>cs\<close> aliases the subject of the credential, so the new list is seen through it.\<close>

definition setStatusBit :: "('k, 's) csl_service \<Rightarrow> typed_id \<Rightarrow> bool \<Rightarrow> credential \<Rightarrow> credential res" where
  "setStatusBit sv st value vc =
     (case cr_Subject vc of
        SubjList cs \<Rightarrow>
          bindR (bindR (first_subject cs) (\<lambda>c. assert_str (fget (su_Custom c) ''encodedList''))) (\<lambda>enc.
          bindR (sv_decode sv enc) (\<lambda>b.
          bindR (bindR (assert_str (fget (ti_Custom st) StatusListIndex)) atoi) (\<lambda>idx.
          case setBit idx value b of
            (Ok _, b') \<Rightarrow>
              bindR (sv_encode sv b') (\<lambda>enc'.
              Ok (vc\<lparr>cr_Subject := SubjList (put_first cs ''encodedList'' (JStr enc')), cr_Proofs := []\<rparr>))
          | (Err e, _) \<Rightarrow> Err e
          | (Panic p, _) \<Rightarrow> Panic p)))
      | _ \<Rightarrow> Err (ErrMsg ''failed to cast vc subject''))"

definition updateVC :: "('k, 's) csl_service \<Rightarrow> credential \<Rightarrow> 'k vc_signer \<Rightarrow> bool \<Rightarrow> 's \<Rightarrow> unit res \<times> 's" where
  "updateVC sv v profile value s =
     andthen (pure_op (validateVCStatus (cr_Status v)) s) (\<lambda>st s.
     case as_str (fget (ti_Custom st) StatusListCredential) of
       None \<Rightarrow> (Err (ErrMsg ''failed to cast status statusListCredential''), s)
     | Some listID \<Rightarrow>
         andthen (getCSLWrapper sv listID s) (\<lambda>w s.
         andthen (pure_op (deref (cw_VC w)) s) (\<lambda>vc s.
         andthen (pure_op (prepareSigningOpts profile (cr_Proofs vc)) s) (\<lambda>os s.
         andthen (pure_op (setStatusBit sv st value vc) s) (\<lambda>vc1 s.
         andthen (pure_op (sv_sign sv profile vc1 os) s) (\<lambda>signed s.
         andthen (pure_op (sv_marshal sv signed) s) (\<lambda>j s.
         sv_upsert sv (w\<lparr>cw_VCByte := j, cw_VC := Some vc1\<rparr>) s)))))))"

definition updateVCStatus ::
  "('k, 's) csl_service \<Rightarrow> 'k vc_signer \<Rightarrow> string \<Rightarrow> string \<Rightarrow> string \<Rightarrow> 's \<Rightarrow> unit res \<times> 's" where
  "updateVCStatus sv signer profileName credentialID status s =
     andthen (sv_vcGet sv profileName credentialID s) (\<lambda>vcBytes s.
     andthen (pure_op (sv_parse sv vcBytes) s) (\<lambda>credential s.
     andthen (pure_op (parse_bool status) s) (\<lambda>value s.
     updateVC sv credential signer value s)))"

definition getCredentialStatusURL ::
  "(string \<Rightarrow> string list \<Rightarrow> string res) \<Rightarrow> string \<Rightarrow> string \<Rightarrow> string \<Rightarrow> string res" where
  "getCredentialStatusURL join_path profileURL profileID statusID =
     join_path profileURL [''/issuer/profiles'', profileID, ''/credentials/status'', statusID]"

definition getRevocationListVC :: "('k, 's) csl_service \<Rightarrow> string \<Rightarrow> 's \<Rightarrow> credential res \<times> 's" where
  "getRevocationListVC sv i s =
     andthen (wrapS ''failed to get revocationListVC from store: '' (getCSLWrapper sv i s)) (\<lambda>w s.
     pure_op (deref (cw_VC w)) s)"

end
