(* ===== verification/Status_Allocation.thy ===== *)
theory Status_Allocation
  imports Credential_Status
begin

text \<open>
  What the credential status service guarantees about the entries it hands out, proved from the
  contract of its store for any sequence of allocations and revocations in which every store call
  may fail.
\<close>

datatype 'k csl_op = CreateOp "'k vc_signer" string int string | RevokeOp credential "'k vc_signer" bool

type_synonym entry = "json \<times> json"

definition entry_of :: "typed_id \<Rightarrow> entry" where
  "entry_of t = (fget (ti_Custom t) StatusListCredential, fget (ti_Custom t) StatusListIndex)"

fun csl_step :: "('k, 's) csl_service \<Rightarrow> 'k csl_op \<Rightarrow> 's \<Rightarrow> entry list \<times> 's" where
  "csl_step sv (CreateOp profile url now uuid) s =
     (case createStatusID sv profile url now uuid s of
        (Ok t, s') \<Rightarrow> ([entry_of t], s')
      | (_, s') \<Rightarrow> ([], s'))"
| "csl_step sv (RevokeOp vc profile value) s = ([], snd (updateVC sv vc profile value s))"

fun csl_run :: "('k, 's) csl_service \<Rightarrow> 'k csl_op list \<Rightarrow> 's \<Rightarrow> entry list \<times> 's" where
  "csl_run sv [] s = ([], s)"
| "csl_run sv (x # xs) s =
     (let (es, s1) = csl_step sv x s; (es', s2) = csl_run sv xs s1 in (es @ es', s2))"

text \<open>What is assumed of the credential library and the signer: the id of a credential survives being
  marshalled, stored and parsed, signing keeps it, the empty document is not a credential, and the
  parser has errors of its own.\<close>

definition id_codec :: "('k, 's) csl_service \<Rightarrow> bool" where
  "id_codec sv \<longleftrightarrow>
     (\<forall>vc j c. sv_marshal sv vc = Ok j \<longrightarrow>
        sv_parse sv (JsonBytes (restore_id (cr_ID vc) (strip_id j))) = Ok c \<longrightarrow> cr_ID c = cr_ID vc) \<and>
     (\<forall>profile vc os vc'. sv_sign sv profile vc os = Ok vc' \<longrightarrow> cr_ID vc' = cr_ID vc) \<and>
     (\<forall>c. sv_parse sv (JsonBytes JNull) \<noteq> Ok c) \<and>
     (\<forall>b e. sv_parse sv b = Err e \<longrightarrow> \<not> err_is e csl_ErrDataNotFound)"

lemma id_codecD:
  assumes "id_codec sv"
  shows "sv_marshal sv vc = Ok j \<Longrightarrow> sv_parse sv (JsonBytes (restore_id (cr_ID vc) (strip_id j))) = Ok c \<Longrightarrow> cr_ID c = cr_ID vc"
    and "sv_sign sv profile vc os = Ok vc' \<Longrightarrow> cr_ID vc' = cr_ID vc"
    and "sv_parse sv (JsonBytes JNull) \<noteq> Ok c"
    and "sv_parse sv b = Err e \<Longrightarrow> \<not> err_is e csl_ErrDataNotFound"
  using assms unfolding id_codec_def by blast+

definition service_ops ::
  "(csl_wrapper \<Rightarrow> 's \<Rightarrow> unit res \<times> 's) \<Rightarrow> (string \<Rightarrow> 's \<Rightarrow> csl_wrapper res \<times> 's) \<Rightarrow> (int \<Rightarrow> 's \<Rightarrow> unit res \<times> 's)
   \<Rightarrow> (int \<Rightarrow> 's \<Rightarrow> unit res \<times> 's) \<Rightarrow> ('s \<Rightarrow> int res \<times> 's) \<Rightarrow> ('k, 's) csl_service \<Rightarrow> bool" where
  "service_ops u g c up gl sv \<longleftrightarrow> sv_upsert sv = u \<and> sv_get sv = g \<and> sv_createLatest sv = c \<and>
     sv_updateLatest sv = up \<and> sv_getLatest sv = gl"

lemma createVC_ID: "id_codec sv \<Longrightarrow> createVC sv vcID profile now = Ok vc \<Longrightarrow> cr_ID vc = vcID"
  by (auto simp: createVC_def Let_def empty_credential_def prepareSigningOpts_def dest!: id_codecD(2))

lemma setBit_case:
  "(case setBit p v b of (Ok u, b') \<Rightarrow> f u b' | (Err e, b') \<Rightarrow> g e b' | (Panic x, b') \<Rightarrow> h x b') =
     (if position_invalid b p then g (ErrMsg ''position is invalid'') b else f () (snd (setBit p v b)))"
  by (simp add: setBit_def Let_def)

lemma setStatusBit_ID: "setStatusBit sv st value vc = Ok vc' \<Longrightarrow> cr_ID vc' = cr_ID vc"
  by (auto simp: setStatusBit_def setBit_case split: vc_subject.splits if_splits)

lemma freshWrapper_Ok:
  assumes "id_codec sv" "freshWrapper sv vcID n profile now = Ok w"
  obtains vc where "cw_VC w = Some vc" "cr_ID vc = vcID" "cw_RevocationListIndex w = 0"
    "\<And>c. sv_parse sv (JsonBytes (restore_id vcID (strip_id (cw_VCByte w)))) = Ok c \<Longrightarrow> cr_ID c = vcID"
proof -
  obtain vc j where vc: "createVC sv vcID profile now = Ok vc" "sv_marshal sv vc = Ok j"
    "w = \<lparr>cw_VCByte = j, cw_Size = 0, cw_RevocationListIndex = 0, cw_ListID = n, cw_VC = Some vc\<rparr>"
    using assms(2) by (auto simp: freshWrapper_def)
  then show thesis
    using that [of vc] createVC_ID [OF assms(1) vc(1)] id_codecD(1) [OF assms(1) vc(2)] by simp
qed

definition ent :: "string \<times> int \<Rightarrow> entry" where
  "ent p = (JStr (fst p), JStr (format_int (snd p)))"

context csl_store
begin

definition lists_named :: "('k, 's) csl_service \<Rightarrow> 's \<Rightarrow> bool" where
  "lists_named sv s \<longleftrightarrow> (\<forall>i w c. lists s i = Some w \<longrightarrow> sv_parse sv (JsonBytes (cw_VCByte w)) = Ok c \<longrightarrow> cr_ID c = i)
     \<and> (\<forall>i w. lists s i = Some w \<longrightarrow> (\<exists>j. cw_VCByte w = restore_id i (strip_id j)))"

text \<open>\<open>alloc k done s\<close>: at most \<open>k\<close> allocations so far; every issued entry lies below the counter of
  its list.\<close>

definition alloc :: "('k, 's) csl_service \<Rightarrow> int \<Rightarrow> (string \<times> int) set \<Rightarrow> 's \<Rightarrow> bool" where
  "alloc sv k issued s \<longleftrightarrow> inv s \<and> lists_named sv s
     \<and> (\<forall>i w. lists s i = Some w \<longrightarrow> 0 \<le> cw_RevocationListIndex w \<and> cw_RevocationListIndex w \<le> k)
     \<and> (\<forall>(i, n) \<in> issued. \<exists>w. lists s i = Some w \<and> 0 \<le> n \<and> n < cw_RevocationListIndex w)
     \<and> (latest s = None \<longrightarrow> lists s = Map.empty)"

lemma alloc_same:
  "alloc sv k iss s \<Longrightarrow> inv s' \<Longrightarrow> lists s' = lists s \<Longrightarrow> (latest s' = None \<longrightarrow> latest s = None) \<Longrightarrow> alloc sv k iss s'"
  by (simp add: alloc_def lists_named_def)

lemma alloc_mono: "alloc sv k iss s \<Longrightarrow> k \<le> k' \<Longrightarrow> alloc sv k' iss s"
  unfolding alloc_def by fastforce

text \<open>Reading a wrapper.\<close>

lemma getCSLWrapper_eff:
  assumes "service_ops upsert get createLatest updateLatest getLatest sv" "id_codec sv" "inv s"
    "getCSLWrapper sv i s = (r, s')"
  shows "inv s' \<and> lists s' = lists s \<and> latest s' = latest s \<and>
    (\<forall>w. r = Ok w \<longrightarrow> i \<noteq> key \<and> (\<exists>w0 c. lists s i = Some w0 \<and> sv_parse sv (JsonBytes (cw_VCByte w0)) = Ok c \<and> w = w0\<lparr>cw_VC := Some c\<rparr>)) \<and>
    (\<forall>e. r = Err e \<longrightarrow> i \<noteq> key \<longrightarrow> err_is e csl_ErrDataNotFound \<longrightarrow> lists s i = None)"
proof -
  obtain q t where g: "get i s = (q, t)" by fastforce
  note E = get_eff [OF assms(3) g]
  have "s' = t"
    using assms(1,4) g by (cases q) (auto simp: getCSLWrapper_def service_ops_def andthen_eq_Ok pure_op_def
        dest!: sym [of "(r, s')"] elim!: andthen_cases)
  then show ?thesis
    using assms(1,2,4) g E
    by (cases q) (auto simp: getCSLWrapper_def service_ops_def id_codecD(3) csl_ErrDataNotFound_def [symmetric]
        dest: id_codecD(4) elim!: andthen_cases)
qed

lemma upsert_alloc:
  assumes "alloc sv k iss s" "latest s \<noteq> None" "cw_VC w = Some vc" "cr_ID vc \<noteq> key" "upsert w s = (r, s')"
    and "k \<le> k'" "0 \<le> cw_RevocationListIndex w" "cw_RevocationListIndex w \<le> k'"
    and "\<And>w0. lists s (cr_ID vc) = Some w0 \<Longrightarrow> cw_RevocationListIndex w0 \<le> cw_RevocationListIndex w"
    and "\<And>c. sv_parse sv (JsonBytes (restore_id (cr_ID vc) (strip_id (cw_VCByte w)))) = Ok c \<Longrightarrow> cr_ID c = cr_ID vc"
  shows "alloc sv k' iss s' \<and> latest s' \<noteq> None \<and>
    (is_ok r \<longrightarrow> (\<exists>w'. lists s' (cr_ID vc) = Some w' \<and> cw_RevocationListIndex w' = cw_RevocationListIndex w))"
proof -
  let ?w = "w\<lparr>cw_VCByte := restore_id (cr_ID vc) (strip_id (cw_VCByte w)), cw_VC := None\<rparr>"
  have inv: "inv s" using assms(1) by (simp add: alloc_def)
  note E = upsert_eff [OF inv assms(3,4,5)]
  have old: "alloc sv k' iss s" using assms(1,6) by (rule alloc_mono)
  show ?thesis
  proof (cases "lists s' = (lists s)(cr_ID vc \<mapsto> ?w)")
    case True
    have "\<exists>w'. lists s' i = Some w' \<and> 0 \<le> n \<and> n < cw_RevocationListIndex w'" if mem: "(i, n) \<in> iss" for i n
    proof -
      obtain w0 where "lists s i = Some w0" "0 \<le> n" "n < cw_RevocationListIndex w0"
        using old mem by (auto simp: alloc_def dest!: bspec [of _ _ "(i, n)"])
      then show ?thesis
        using True assms(9) by (cases "i = cr_ID vc") fastforce+
    qed
    moreover have named: "cr_ID c = i" if "lists s i = Some x" "sv_parse sv (JsonBytes (cw_VCByte x)) = Ok c" for i x c
      using old that unfolding alloc_def lists_named_def by blast
    moreover have stripped: "\<exists>j. cw_VCByte x = restore_id i (strip_id j)" if "lists s i = Some x" for i x
      using old that unfolding alloc_def lists_named_def by blast
    moreover have "lists_named sv s'"
      unfolding lists_named_def
    proof (intro conjI allI impI)
      fix i w' c
      assume "lists s' i = Some w'" "sv_parse sv (JsonBytes (cw_VCByte w')) = Ok c"
      then show "cr_ID c = i"
        using True named [of i w' c] assms(10) [of c] by (cases "i = cr_ID vc") (auto split: if_splits)
    next
      fix i w'
      assume "lists s' i = Some w'"
      then show "\<exists>j. cw_VCByte w' = restore_id i (strip_id j)"
        using True stripped [of i w'] by (cases "i = cr_ID vc") (auto split: if_splits)
    qed
    ultimately show ?thesis
      using E True old assms(2,7,8) by (auto simp: alloc_def)
  next
    case False
    then have "lists s' = lists s" "is_err r" using E by auto
    moreover have "\<not> is_ok r" using \<open>is_err r\<close> by (cases r) auto
    ultimately show ?thesis
      using E assms(2) alloc_same [OF old] by simp
  qed
qed

text \<open>The wrapper an allocation starts from: a stored one with its counter, or a fresh one for a list
  that does not exist yet.\<close>

lemma getLatestCSLWrapper_eff:
  assumes ops: "service_ops upsert get createLatest updateLatest getLatest sv" and codec: "id_codec sv"
    and al: "alloc sv k iss s" and run: "getLatestCSLWrapper sv profile url now s = (r, s')"
  shows "alloc sv k iss s' \<and> (\<forall>w. r = Ok w \<longrightarrow> latest s' \<noteq> None \<and> (\<exists>vc. cw_VC w = Some vc \<and> cr_ID vc \<noteq> key
      \<and> (\<forall>c. sv_parse sv (JsonBytes (restore_id (cr_ID vc) (strip_id (cw_VCByte w)))) = Ok c \<longrightarrow> cr_ID c = cr_ID vc)
      \<and> ((\<exists>w0. lists s' (cr_ID vc) = Some w0 \<and> cw_RevocationListIndex w = cw_RevocationListIndex w0)
         \<or> lists s' (cr_ID vc) = None \<and> cw_RevocationListIndex w = 0)))"
    (is "_ \<and> ?P r s'")
proof -
  have inv: "inv s" using al by (simp add: alloc_def)
  have o: "sv_getLatest sv = getLatest" "sv_createLatest sv = createLatest" "sv_get sv = get"
    using ops by (auto simp: service_ops_def)
  have slash: "url @ CHR ''/'' # x \<noteq> key" for x
    using key_plain by (metis in_set_conv_decomp)
  obtain q t where g: "getLatest s = (q, t)" by fastforce
  note G = getLatest_eff [OF inv g]
  have alt: "alloc sv k iss t" using alloc_same [OF al] G by simp
  show ?thesis
  proof (cases q)
    case (Panic p)
    then show ?thesis using G by blast
  next
    case (Ok n)
    let ?id = "url @ ''/'' @ format_int n"
    obtain q2 t2 where w: "getCSLWrapper sv ?id t = (q2, t2)" by fastforce
    have W: "inv t2 \<and> lists t2 = lists t \<and> latest t2 = latest t \<and> (\<forall>w. q2 = Ok w \<longrightarrow> ?id \<noteq> key \<and>
        (\<exists>w0 c. lists t ?id = Some w0 \<and> sv_parse sv (JsonBytes (cw_VCByte w0)) = Ok c \<and> w = w0\<lparr>cw_VC := Some c\<rparr>)) \<and>
        (\<forall>e. q2 = Err e \<longrightarrow> ?id \<noteq> key \<longrightarrow> err_is e csl_ErrDataNotFound \<longrightarrow> lists t ?id = None)"
      using alt by (intro getCSLWrapper_eff [OF ops codec _ w]) (simp add: alloc_def)
    have alt2: "alloc sv k iss t2" using alloc_same [OF alt] W by simp
    have lt: "latest t2 \<noteq> None" using G W Ok by simp
    show ?thesis
    proof (cases q2)
      case (Ok w)
      then obtain w0 c where w0: "lists t ?id = Some w0" "sv_parse sv (JsonBytes (cw_VCByte w0)) = Ok c" "w = w0\<lparr>cw_VC := Some c\<rparr>"
        using W by blast
      have nm: "cr_ID c = ?id" and "\<exists>j. cw_VCByte w0 = restore_id ?id (strip_id j)"
        using alt w0 by (auto simp: alloc_def lists_named_def)
      then have again: "restore_id ?id (strip_id (cw_VCByte w0)) = cw_VCByte w0"
        by auto
      have "r = Ok w" "s' = t2"
        using run g w \<open>q = Ok n\<close> Ok by (simp_all add: getLatestCSLWrapper_def o)
      then show ?thesis
        using alt2 lt w0 nm again W slash by auto
    next
      case (Err e)
      show ?thesis
      proof (cases "err_is e csl_ErrDataNotFound")
        case True
        have none: "lists t2 ?id = None"
          using W Err True slash by auto
        have "r = freshWrapper sv ?id n profile now" "s' = t2"
          using run g w \<open>q = Ok n\<close> Err True by (simp_all add: getLatestCSLWrapper_def o)
        then show ?thesis
          using alt2 lt none slash by (auto elim!: freshWrapper_Ok [OF codec])
      next
        case False
        then have "is_err r" "s' = t2"
          using run g w \<open>q = Ok n\<close> Err by (auto simp: getLatestCSLWrapper_def o)
        then show ?thesis using alt2 by auto
      qed
    next
      case (Panic p)
      then have "r = Panic p" "s' = t2"
        using run g w \<open>q = Ok n\<close> by (auto simp: getLatestCSLWrapper_def o)
      then show ?thesis using alt2 by simp
    qed
  next
    case (Err e)
    show ?thesis
    proof (cases "err_is e csl_ErrDataNotFound")
      case True
      obtain q2 t2 where c: "createLatest 1 t = (q2, t2)" by fastforce
      have C: "inv t2 \<and> lists t2 = lists t \<and> (\<forall>p. q2 \<noteq> Panic p) \<and> (latest t = None \<and> latest t2 = Some 1 \<or> is_err q2 \<and> latest t2 = latest t)"
        using alt createLatest_eff [OF _ c] by (simp add: alloc_def)
      have alt2: "alloc sv k iss t2" using alloc_same [OF alt] C by auto
      have empty: "lists t2 i = None" for i
        using True G Err C al by (auto simp: alloc_def)
      show ?thesis
      proof (cases q2)
        case (Ok u)
        have "r = freshWrapper sv (url @ ''/1'') 1 profile now" "s' = t2"
          using run g c \<open>q = Err e\<close> True Ok by (simp_all add: getLatestCSLWrapper_def o)
        then show ?thesis
          using alt2 C Ok empty slash by (auto elim!: freshWrapper_Ok [OF codec])
      next
        case (Err e2)
        then have "is_err r" "s' = t2"
          using run g c \<open>q = Err e\<close> True by (auto simp: getLatestCSLWrapper_def o)
        then show ?thesis using alt2 by auto
      next
        case (Panic p)
        then show ?thesis using C by blast
      qed
    next
      case False
      then have "is_err r" "s' = t"
        using run g Err by (auto simp: getLatestCSLWrapper_def o)
      then show ?thesis using alt by auto
    qed
  qed
qed

lemma createStatusID_alloc:
  assumes ops: "service_ops upsert get createLatest updateLatest getLatest sv" and codec: "id_codec sv"
    and al: "alloc sv k iss s" and k: "0 \<le> k" "k + 1 < 2 ^ 63"
    and run: "createStatusID sv profile url now uuid s = (r, s')"
  shows "alloc sv (k + 1) iss s' \<and> (\<forall>t. r = Ok t \<longrightarrow> (\<exists>i n. entry_of t = (JStr i, JStr (format_int n))
           \<and> 0 \<le> n \<and> n \<le> k \<and> (i, n) \<notin> iss \<and> alloc sv (k + 1) (insert (i, n) iss) s'))"
proof -
  have o: "sv_upsert sv = upsert" "sv_updateLatest sv = updateLatest"
    using ops by (auto simp: service_ops_def)
  obtain q t where g: "getLatestCSLWrapper sv profile url now s = (q, t)" by fastforce
  note G = getLatestCSLWrapper_eff [OF ops codec al g]
  have alt: "alloc sv (k + 1) iss t" using G alloc_mono by fastforce
  show ?thesis
  proof (cases q)
    case (Ok w)
    then obtain vc where vc: "cw_VC w = Some vc" "cr_ID vc \<noteq> key" "latest t \<noteq> None"
      "\<And>c. sv_parse sv (JsonBytes (restore_id (cr_ID vc) (strip_id (cw_VCByte w)))) = Ok c \<Longrightarrow> cr_ID c = cr_ID vc"
      "(\<exists>w0. lists t (cr_ID vc) = Some w0 \<and> cw_RevocationListIndex w = cw_RevocationListIndex w0)
         \<or> lists t (cr_ID vc) = None \<and> cw_RevocationListIndex w = 0"
      using G by blast
    let ?n = "cw_RevocationListIndex w"
    have n: "0 \<le> ?n" "?n \<le> k"
      using vc(5) G k by (auto simp: alloc_def)
    have wrap: "wrap64 (?n + 1) = ?n + 1"
      using n k by (intro wrap64_id) (simp add: in_int64_def)
    have fresh: "(cr_ID vc, ?n) \<notin> iss"
      using G vc(5) by (auto simp: alloc_def dest!: bspec [of iss _ "(cr_ID vc, ?n)"])
    define w1 where "w1 = w\<lparr>cw_Size := wrap64 (cw_Size w + 1), cw_RevocationListIndex := wrap64 (?n + 1)\<rparr>"
    have w1: "cw_VC w1 = Some vc" "cw_RevocationListIndex w1 = ?n + 1" "cw_VCByte w1 = cw_VCByte w"
      "cw_ListID w1 = cw_ListID w"
      using vc(1) wrap by (simp_all add: w1_def)
    have body: "(r, s') = andthen (wrapS ''failed to store csl in store: '' (upsert w1 t)) (\<lambda>_ s.
        andthen (if cw_Size w1 = sv_listSize sv
                 then wrapS ''failed to store latest list ID in store: '' (updateLatest (wrap64 (cw_ListID w1 + 1)) s)
                 else (Ok (), s)) (\<lambda>_ s.
        andthen (pure_op (deref (cw_VC w1)) s) (\<lambda>vc s.
        (Ok \<lparr>ti_ID = uuid, ti_Type = StatusList2021Entry,
              ti_Custom = [(StatusPurpose, JStr ''revocation''), (StatusListIndex, JStr (format_int ?n)),
                           (StatusListCredential, JStr (cr_ID vc))]\<rparr>, s))))"
      unfolding run [symmetric] createStatusID_def allocateFrom_def g Ok andthen.simps Let_def o w1_def ..
    obtain q1 t1 where u: "upsert w1 t = (q1, t1)" by fastforce
    have below: "cw_RevocationListIndex w0 \<le> cw_RevocationListIndex w1" if "lists t (cr_ID vc) = Some w0" for w0
      using vc(5) that w1 by auto
    have alt0: "alloc sv k iss t" using G by blast
    have named: "cr_ID c = cr_ID vc" if "sv_parse sv (JsonBytes (restore_id (cr_ID vc) (strip_id (cw_VCByte w1)))) = Ok c" for c
      using vc(4) that w1(3) by simp
    have U: "alloc sv (k + 1) iss t1 \<and> latest t1 \<noteq> None \<and>
        (is_ok q1 \<longrightarrow> (\<exists>w'. lists t1 (cr_ID vc) = Some w' \<and> cw_RevocationListIndex w' = cw_RevocationListIndex w1))"
      by (rule upsert_alloc [OF alt0 vc(3) w1(1) vc(2) u _ _ _ below named]) (use n w1(2) in simp_all)
    show ?thesis
    proof (cases q1)
      case (Ok u1)
      have done1: "alloc sv (k + 1) (insert (cr_ID vc, ?n) iss) t1"
        using U Ok n w1(2) by (auto simp: alloc_def)
      let ?t = "\<lparr>ti_ID = uuid, ti_Type = StatusList2021Entry,
              ti_Custom = [(StatusPurpose, JStr ''revocation''), (StatusListIndex, JStr (format_int ?n)),
                           (StatusListCredential, JStr (cr_ID vc))]\<rparr>"
      have ent: "entry_of ?t = (JStr (cr_ID vc), JStr (format_int ?n))"
        by (simp add: entry_of_def)
      show ?thesis
      proof (cases "cw_Size w1 = sv_listSize sv")
        case True
        obtain q2 t2 where l: "updateLatest (wrap64 (cw_ListID w1 + 1)) t1 = (q2, t2)" by fastforce
        have L: "inv t2 \<and> lists t2 = lists t1 \<and> (latest t2 = None \<longleftrightarrow> latest t1 = None)"
          using U updateLatest_eff [OF _ l] by (simp add: alloc_def)
        have "s' = t2 \<and> (is_ok r \<longrightarrow> r = Ok ?t)"
          using body u l Ok True w1(1) by (cases q2) auto
        then show ?thesis
          using alloc_same [OF done1, of t2] alloc_same [of sv "k + 1" iss t1 t2] U L ent n fresh by auto
      next
        case False
        have "s' = t1 \<and> r = Ok ?t"
          using body u Ok False w1(1) by auto
        then show ?thesis using done1 U ent n fresh by auto
      qed
    next
      case (Err e)
      then have "s' = t1 \<and> is_err r"
        using body u by auto
      then show ?thesis using U by auto
    next
      case (Panic p)
      then have "s' = t1 \<and> (\<exists>p. r = Panic p)"
        using body u by auto
      then show ?thesis using U by auto
    qed
  qed (use run g alt in \<open>auto simp: createStatusID_def\<close>)
qed

text \<open>A revocation rewrites the list credential and leaves its counter alone.\<close>

lemma updateVC_alloc:
  assumes ops: "service_ops upsert get createLatest updateLatest getLatest sv" and codec: "id_codec sv"
    and al: "alloc sv k iss s"
  shows "alloc sv k iss (snd (updateVC sv v profile value s))"
proof -
  have o: "sv_upsert sv = upsert" using ops by (simp add: service_ops_def)
  have main: "alloc sv k iss (snd (upsert (w\<lparr>cw_VCByte := j, cw_VC := Some vc1\<rparr>) t))"
    if "inv t" "lists t = lists s" "latest t = latest s" "i \<noteq> key" "lists s i = Some w0"
      "sv_parse sv (JsonBytes (cw_VCByte w0)) = Ok vc" "w = w0\<lparr>cw_VC := Some vc\<rparr>"
      "setStatusBit sv st value vc = Ok vc1" "sv_sign sv profile vc1 os = Ok signed" "sv_marshal sv signed = Ok j"
    for t i w0 w vc st vc1 os signed j
  proof -
    have "cr_ID vc = i" using al that(5,6) unfolding alloc_def lists_named_def by blast
    then have id1: "cr_ID vc1 = i" using setStatusBit_ID that(8) by metis
    then have id2: "cr_ID signed = i" using id_codecD(2) [OF codec that(9)] by simp
    obtain r' t' where u: "upsert (w\<lparr>cw_VCByte := j, cw_VC := Some vc1\<rparr>) t = (r', t')" by fastforce
    have alt: "alloc sv k iss t" using alloc_same [OF al that(1,2)] that(3) by simp
    have lt: "latest t \<noteq> None" using al that(2,3,5) by (auto simp: alloc_def)
    have "alloc sv k iss t' \<and> latest t' \<noteq> None \<and> (is_ok r' \<longrightarrow>
        (\<exists>w'. lists t' (cr_ID vc1) = Some w' \<and> cw_RevocationListIndex w' = cw_RevocationListIndex (w\<lparr>cw_VCByte := j, cw_VC := Some vc1\<rparr>)))"
      using alt lt that id1 id_codecD(1) [OF codec that(10)] id2
      by (intro upsert_alloc [OF alt lt _ _ u]) (auto simp: alloc_def)
    then show ?thesis using u by simp
  qed
  show ?thesis
    unfolding updateVC_def o
  proof (intro andthen_inv [where P = "alloc sv k iss"], simp add: al, goal_cases)
    case (1 st s1)
    then have s1: "s1 = s" by simp
    show ?case
    proof (cases "as_str (fget (ti_Custom st) StatusListCredential)")
      case None
      then show ?thesis using al s1 by simp
    next
      case (Some i)
      obtain q t where g: "getCSLWrapper sv i s = (q, t)" by fastforce
      have inv: "inv s" using al by (simp add: alloc_def)
      note G = getCSLWrapper_eff [OF ops codec inv g]
      have alt: "alloc sv k iss t" using alloc_same [OF al] G by simp
      show ?thesis
      proof (cases q)
        case (Ok w)
        then obtain w0 c where w0: "i \<noteq> key" "lists s i = Some w0" "sv_parse sv (JsonBytes (cw_VCByte w0)) = Ok c"
          "w = w0\<lparr>cw_VC := Some c\<rparr>" using G by blast
        have "alloc sv k iss (snd (andthen (pure_op (deref (cw_VC w)) t) (\<lambda>vc s.
           andthen (pure_op (prepareSigningOpts profile (cr_Proofs vc)) s) (\<lambda>os s.
           andthen (pure_op (setStatusBit sv st value vc) s) (\<lambda>vc1 s.
           andthen (pure_op (sv_sign sv profile vc1 os) s) (\<lambda>signed s.
           andthen (pure_op (sv_marshal sv signed) s) (\<lambda>j s.
           upsert (w\<lparr>cw_VCByte := j, cw_VC := Some vc1\<rparr>) s)))))))"
          using main [OF _ _ _ w0] G
          by (intro andthen_inv [where P = "alloc sv k iss"]) (simp_all add: alt w0(4))
        then show ?thesis using Some Ok g s1 by simp
      qed (use Some g s1 alt in auto)
    qed
  qed
qed

lemma run_alloc:
  assumes "service_ops upsert get createLatest updateLatest getLatest sv" "id_codec sv"
    "alloc sv k iss s" "0 \<le> k" "k + int (length xs) < 2 ^ 63" "csl_run sv xs s = (es, s')"
  shows "\<exists>new. es = map ent new \<and> distinct new \<and> set new \<inter> iss = {} \<and> alloc sv (k + int (length xs)) (set new \<union> iss) s'
     \<and> (\<forall>p \<in> set new. 0 \<le> snd p \<and> snd p < 2 ^ 63)"
  using assms(3-6)
proof (induction xs arbitrary: k iss s es s')
  case (Cons x xs)
  obtain e1 s1 where x: "csl_step sv x s = (e1, s1)" by fastforce
  obtain e2 s2 where xs: "csl_run sv xs s1 = (e2, s2)" by fastforce
  have es: "es = e1 @ e2" "s' = s2" using Cons.prems(4) x xs by auto
  have "\<exists>iss1 new1. e1 = map ent new1 \<and> distinct new1 \<and> set new1 \<inter> iss = {} \<and> iss1 = set new1 \<union> iss \<and> alloc sv (k + 1) iss1 s1
     \<and> (\<forall>p \<in> set new1. 0 \<le> snd p \<and> snd p < 2 ^ 63)"
  proof (cases x)
    case (CreateOp profile url now uuid)
    obtain r t where c: "createStatusID sv profile url now uuid s = (r, t)" by fastforce
    have C: "alloc sv (k + 1) iss t \<and> (\<forall>ty. r = Ok ty \<longrightarrow> (\<exists>i n. entry_of ty = (JStr i, JStr (format_int n))
           \<and> 0 \<le> n \<and> n \<le> k \<and> (i, n) \<notin> iss \<and> alloc sv (k + 1) (insert (i, n) iss) t))"
      using createStatusID_alloc [OF assms(1,2) Cons.prems(1,2) _ c] Cons.prems(3) by simp
    show ?thesis
    proof (cases r)
      case (Ok ty)
      then obtain i n where "entry_of ty = (JStr i, JStr (format_int n))" "0 \<le> n" "n \<le> k" "(i, n) \<notin> iss"
        "alloc sv (k + 1) (insert (i, n) iss) t" using C by blast
      then show ?thesis
        using x c CreateOp Ok Cons.prems(3) by (intro exI [of _ "insert (i, n) iss"] exI [of _ "[(i, n)]"]) (auto simp: ent_def)
    next
      case (Err e)
      then show ?thesis
        using x c CreateOp C by (intro exI [of _ iss] exI [of _ "[]"]) auto
    next
      case (Panic p)
      then show ?thesis
        using x c CreateOp C by (intro exI [of _ iss] exI [of _ "[]"]) auto
    qed
  next
    case (RevokeOp v profile b)
    then show ?thesis
      using x updateVC_alloc [OF assms(1,2) alloc_mono [OF Cons.prems(1), of "k + 1"], of v profile b]
      by (intro exI [of _ iss] exI [of _ "[]"]) auto
  qed
  then obtain new1 where n1: "e1 = map ent new1" "distinct new1" "set new1 \<inter> iss = {}" "alloc sv (k + 1) (set new1 \<union> iss) s1"
     "\<forall>p \<in> set new1. 0 \<le> snd p \<and> snd p < 2 ^ 63" by blast
  have "\<exists>new. e2 = map ent new \<and> distinct new \<and> set new \<inter> (set new1 \<union> iss) = {} \<and>
      alloc sv (k + 1 + int (length xs)) (set new \<union> (set new1 \<union> iss)) s2 \<and> (\<forall>p \<in> set new. 0 \<le> snd p \<and> snd p < 2 ^ 63)"
    using Cons.prems(2,3) es(2) xs by (intro Cons.IH [OF n1(4)]) auto
  then obtain new2 where n2: "e2 = map ent new2" "distinct new2" "set new2 \<inter> (set new1 \<union> iss) = {}"
     "alloc sv (k + 1 + int (length xs)) (set new2 \<union> (set new1 \<union> iss)) s2" "\<forall>p \<in> set new2. 0 \<le> snd p \<and> snd p < 2 ^ 63"
    by blast
  show ?case
  proof (intro exI [of _ "new1 @ new2"] conjI)
    show "alloc sv (k + int (length (x # xs))) (set (new1 @ new2) \<union> iss) s'"
      using n2(4) es(2) by (simp add: Un_ac add_ac)
  qed (use n1 n2 es in auto)
qed auto

lemma entries_distinct:
  assumes "service_ops upsert get createLatest updateLatest getLatest sv" "id_codec sv" "inv s" "lists s = Map.empty"
    "int (length xs) < 2 ^ 63" "csl_run sv xs s = (es, s')"
  shows "distinct es"
proof -
  have "alloc sv 0 {} s" using assms(3,4) by (simp add: alloc_def lists_named_def)
  then obtain new where new: "es = map ent new" "distinct new" "\<forall>p \<in> set new. 0 \<le> snd p \<and> snd p < 2 ^ 63"
    using run_alloc [OF assms(1,2) _ _ _ assms(6)] assms(5) by fastforce
  have "inj_on ent (set new)"
  proof (rule inj_onI)
    fix p q assume "p \<in> set new" "q \<in> set new" "ent p = ent q"
    moreover have "in_int64 (snd p)" "in_int64 (snd q)"
      using new(3) calculation by (auto simp: in_int64_def)
    ultimately show "p = q" by (simp add: ent_def prod_eq_iff format_int_inject)
  qed
  then show ?thesis using new by (simp add: distinct_map)
qed

end

subsection \<open>A concrete service\<close>

definition demo_parse :: "vc_bytes \<Rightarrow> credential res" where
  "demo_parse b = (case b of
       JsonBytes (JObj m) \<Rightarrow> (case fget m ''id'' of JStr i \<Rightarrow> Ok (empty_credential\<lparr>cr_ID := i\<rparr>) | _ \<Rightarrow> Err (ErrExt ''bad id''))
     | _ \<Rightarrow> Err (ErrExt ''not a credential''))"

definition demo_service :: "int \<Rightarrow> (string, (csl_doc mem, csl_doc) coll) csl_service" where
  "demo_service n = \<lparr>sv_upsert = cslUpsert, sv_get = cslGet, sv_createLatest = createLatestListID,
     sv_updateLatest = updateLatestListID, sv_getLatest = getLatestListID,
     sv_vcGet = (\<lambda>_ _ s. (Err (ErrExt ''no store''), s)), sv_listSize = n, sv_sign = (\<lambda>_ vc _. Ok vc),
     sv_marshal = (\<lambda>c. Ok (JObj [(''id'', JStr (cr_ID c))])), sv_parse = demo_parse,
     sv_encode = (\<lambda>_. Ok ''bits''), sv_decode = (\<lambda>_. Err (ErrExt ''corrupt''))\<rparr>"

lemma demo_service_sel [simp]:
  "sv_upsert (demo_service n) = cslUpsert" "sv_get (demo_service n) = cslGet"
  "sv_createLatest (demo_service n) = createLatestListID" "sv_updateLatest (demo_service n) = updateLatestListID"
  "sv_getLatest (demo_service n) = getLatestListID" "sv_listSize (demo_service n) = n"
  "sv_sign (demo_service n) p vc os = Ok vc" "sv_marshal (demo_service n) c = Ok (JObj [(''id'', JStr (cr_ID c))])"
  "sv_parse (demo_service n) = demo_parse" "sv_encode (demo_service n) b = Ok ''bits''"
  by (simp_all add: demo_service_def)

lemma demo_service_ops [simp]:
  "service_ops cslUpsert cslGet createLatestListID updateLatestListID getLatestListID (demo_service n)"
  by (simp add: service_ops_def)

lemma demo_codec [simp]: "id_codec (demo_service n)"
proof -
  have err: "\<not> err_is e csl_ErrDataNotFound" if "demo_parse b = Err e" for b e
    using that by (auto simp: demo_parse_def csl_ErrDataNotFound_def split: vc_bytes.splits json.splits)
  have round: "cr_ID c = cr_ID vc" if "demo_parse (JsonBytes (restore_id (cr_ID vc) (strip_id (JObj [(''id'', JStr (cr_ID vc))])))) = Ok c"
    for vc c :: credential
    using that by (auto simp: demo_parse_def fput_def)
  have null: "demo_parse (JsonBytes JNull) \<noteq> Ok c" for c
    by (simp add: demo_parse_def)
  show ?thesis
    unfolding id_codec_def demo_service_sel using err round null by blast
qed

definition list_vc :: "string \<Rightarrow> 'k vc_signer \<Rightarrow> int \<Rightarrow> credential" where
  "list_vc i profile now = empty_credential\<lparr>cr_Context := (let ctx0 = [vcContext, statusListContext];
          ctx1 = (if sg_SignatureType profile = JSONWebSignature2020 then ctx0 @ [jsonWebSignature2020Ctx] else ctx0)
        in if sg_SignatureType profile = BbsBlsSignature2020 then ctx1 @ [bbsContext] else ctx1),
     cr_ID := i, cr_Types := [''VerifiableCredential'', ''StatusList2021Credential''],
     cr_Issuer := \<lparr>is_ID = sg_DID profile, is_Custom = []\<rparr>, cr_Issued := Some now,
     cr_Subject := SubjStatusList (i @ ''#list'') ''StatusList2021'' ''revocation'' ''bits''\<rparr>"

lemma demo_createVC:
  assumes "n \<le> 128000"
  shows "createVC (demo_service n) i profile now = Ok (list_vc i profile now)"
proof -
  obtain b where "newBitString 128000 = Ok b"
    by (rule newBitString_ok [of 128000]) (auto simp: in_int64_def)
  then show ?thesis
    using assms
    by (auto simp: createVC_def bitStringSize_def Let_def prepareSigningOpts_def list_vc_def empty_credential_def)
qed

lemma list_vc_ID [simp]: "cr_ID (list_vc i profile now) = i"
  by (simp add: list_vc_def)

lemma format_int_small [simp]:
  "format_int 0 = ''0''" "format_int 1 = ''1''" "format_int 2 = ''2''" "format_int 3 = ''3''"
  by (simp_all add: format_int_def nat_digits.simps)

lemma wrap64_small [simp]: "wrap64 1 = 1" "wrap64 2 = 2" "wrap64 3 = 3" "wrap64 4 = 4"
  by (simp_all add: wrap64_def)

definition ce :: "string \<Rightarrow> string \<Rightarrow> entry" where
  "ce l n = (JStr l, JStr n)"

abbreviation mk :: "string \<Rightarrow> string csl_op" where
  "mk url \<equiv> CreateOp demo_signer url 0 ''urn:uuid:1''"

lemmas csl_eval = createStatusID_def allocateFrom_def getLatestCSLWrapper_def getCSLWrapper_def freshWrapper_def
  demo_createVC getLatestListID_def cslGet_def cslUpsert_def createLatestListID_def updateLatestListID_def
  entry_of_def set_wrapper_def wrapper_of_def set_latest_def omit_zero_def fput_def mem_eval pure_op_def
  latestListIDDBEntryKey_def demo_parse_def ErrNoDocuments_def csl_ErrDataNotFound_def empty_credential_def
  ce_def

text \<open>Two lists of size two: the third entry of the same issuer goes to the next list.\<close>

lemma demo_allocation:
  "fst (csl_run (demo_service 2) [mk ''u'', mk ''u'', mk ''u''] (mem_coll no_clash [] []))
     = [ce ''u/1'' ''0'', ce ''u/1'' ''1'', ce ''u/2'' ''0'']"
  by (simp add: csl_eval)

subsection \<open>Properties\<close>

text \<open>C7: Status list entries are never handed out twice. Over any sequence of \<open>CreateStatusID\<close> calls
  (any issuers, any URLs) mixed with revocations, starting from an empty store, all the pairs of
  list credential and index that were returned are distinct, whatever store calls fail or take
  effect without being acknowledged, as long as fewer than 2^63 operations run.\<close>
theorem status_entries_distinct:
  assumes "coll_ok no_clash s" "docs s = Map.empty" "id_codec sv"
    and "service_ops cslUpsert cslGet createLatestListID updateLatestListID getLatestListID sv"
    and "int (length ops) < 2 ^ 63"
  shows "distinct (fst (csl_run sv ops s))"
proof -
  obtain es s' where run: "csl_run sv ops s = (es, s')" by fastforce
  have "csl_inv s" "csl_lists s = Map.empty"
    using assms(1,2) by (simp_all add: csl_inv_def csl_lists_def fun_eq_iff)
  then show ?thesis
    using cs.entries_distinct [OF assms(4,3) _ _ assms(5) run] run by simp
qed

theorem status_entries_distinct_witness:
  "distinct (fst (csl_run (demo_service 2) [mk ''u'', mk ''u'', mk ''u''] (mem_coll no_clash [] [])))
   \<and> fst (csl_run (demo_service 2) [mk ''u'', mk ''u'', mk ''u''] (mem_coll no_clash [] []))
       = [ce ''u/1'' ''0'', ce ''u/1'' ''1'', ce ''u/2'' ''0'']"
  using status_entries_distinct [of "mem_coll no_clash [] []" "demo_service 2" "[mk ''u'', mk ''u'', mk ''u'']"]
    demo_allocation by simp


text \<open>C36: Allocation is not safe under concurrency. If two requests for the same issuer both read the
  list in use before either writes it back, and both succeed, they return the same entry: two
  credentials then share one revocation bit.\<close>
theorem concurrent_allocations_collide:
  assumes "csl_inv s" "id_codec sv"
    and "service_ops cslUpsert cslGet createLatestListID updateLatestListID getLatestListID sv"
    and "csl_latest s = Some n" "csl_lists s (url @ ''/'' @ format_int n) \<noteq> None"
    and "getLatestCSLWrapper sv p1 url now1 s = (Ok w1, s1)" "getLatestCSLWrapper sv p2 url now2 s1 = (Ok w2, s2)"
    and "allocateFrom sv u1 w1 s2 = (Ok t1, s3)" "allocateFrom sv u2 w2 s3 = (Ok t2, s4)"
  shows "entry_of t1 = entry_of t2"
proof -
  have o: "sv_getLatest sv = getLatestListID" using assms(3) by (simp add: service_ops_def)
  let ?id = "url @ ''/'' @ format_int n"
  have slash: "url @ CHR ''/'' # y \<noteq> latestListIDDBEntryKey" for y
    using cs.key_plain by (metis in_set_conv_decomp)
  have read: "csl_inv x' \<and> csl_lists x' = csl_lists x \<and> csl_latest x' = csl_latest x \<and>
      (\<exists>w0 c. csl_lists x ?id = Some w0 \<and> sv_parse sv (JsonBytes (cw_VCByte w0)) = Ok c \<and> w = w0\<lparr>cw_VC := Some c\<rparr>)"
    if x: "csl_inv x" "csl_latest x = Some n" "csl_lists x ?id \<noteq> None" "getLatestCSLWrapper sv p url now x = (Ok w, x')"
    for x p now w x'
  proof -
    obtain q t where g: "getLatestListID x = (q, t)" by fastforce
    note G = getLatestListID_eff [OF x(1) g]
    have q: "q = Ok n"
      using x G g o by (cases q) (auto simp: getLatestCSLWrapper_def split: if_splits)
    obtain q2 t2 where w: "getCSLWrapper sv ?id t = (q2, t2)" by fastforce
    note W = cs.getCSLWrapper_eff [OF assms(3,2) _ w]
    have "\<exists>w0. q2 = Ok w0"
    proof (cases q2)
      case (Err e)
      then have "err_is e csl_ErrDataNotFound"
        using x(4) g q w o by (auto simp: getLatestCSLWrapper_def split: if_splits)
      then show ?thesis
        using W G x(3) Err slash by simp
    qed (use x(4) g q w o in \<open>auto simp: getLatestCSLWrapper_def\<close>)
    then show ?thesis
      using W G x(4) g q w o by (auto simp: getLatestCSLWrapper_def)
  qed
  have r1: "csl_inv s1 \<and> csl_lists s1 = csl_lists s \<and> csl_latest s1 = csl_latest s \<and>
      (\<exists>w0 c. csl_lists s ?id = Some w0 \<and> sv_parse sv (JsonBytes (cw_VCByte w0)) = Ok c \<and> w1 = w0\<lparr>cw_VC := Some c\<rparr>)"
    by (rule read [OF assms(1,4,5,6)])
  then obtain wa ca where A: "csl_lists s ?id = Some wa" "sv_parse sv (JsonBytes (cw_VCByte wa)) = Ok ca"
      "w1 = wa\<lparr>cw_VC := Some ca\<rparr>" by blast
  have "csl_inv s1" "csl_latest s1 = Some n" "csl_lists s1 ?id \<noteq> None"
    using r1 assms(4,5) by simp_all
  from read [OF this assms(7)] obtain wb cb where B: "csl_lists s1 ?id = Some wb"
      "sv_parse sv (JsonBytes (cw_VCByte wb)) = Ok cb" "w2 = wb\<lparr>cw_VC := Some cb\<rparr>" by blast
  have "wa = wb" using A(1) B(1) r1 by simp
  then have "w1 = w2" using A B by simp
  then show ?thesis
    using assms(8,9) by (auto simp: allocateFrom_def Let_def andthen_eq_Ok entry_of_def)
qed

text \<open>The schedule evaluated: read, read, write, write on a list with one entry.\<close>

definition one_list :: "(csl_doc mem, csl_doc) coll" where
  "one_list = mem_coll no_clash
     [(''u/1'', \<lparr>cd_vc = Some (JObj []), cd_size = 1, cd_index = 1, cd_listID = 1, cd_latest = None\<rparr>),
      (''LatestListID'', \<lparr>cd_vc = None, cd_size = 0, cd_index = 0, cd_listID = 0, cd_latest = Some 1\<rparr>)] []"

definition one_wrapper :: csl_wrapper where
  "one_wrapper = \<lparr>cw_VCByte = JObj [(''id'', JStr ''u/1'')], cw_Size = 1, cw_RevocationListIndex = 1, cw_ListID = 1,
     cw_VC = Some (empty_credential\<lparr>cr_ID := ''u/1''\<rparr>)\<rparr>"

lemma one_read: "getLatestCSLWrapper (demo_service 9) demo_signer ''u'' 0 one_list = (Ok one_wrapper, one_list)"
  by (simp add: csl_eval one_list_def one_wrapper_def)

definition alloc_entry :: "typed_id res \<Rightarrow> entry option" where
  "alloc_entry r = (case r of Ok t \<Rightarrow> Some (entry_of t) | _ \<Rightarrow> None)"

lemma one_writes:
  "\<exists>t1 s3 t2 s4. allocateFrom (demo_service 9) ''a'' one_wrapper one_list = (Ok t1, s3)
     \<and> allocateFrom (demo_service 9) ''b'' one_wrapper s3 = (Ok t2, s4) \<and> entry_of t1 = ce ''u/1'' ''1''"
  by (simp add: csl_eval one_list_def one_wrapper_def)

theorem concurrent_allocations_collide_witness:
  "\<exists>t1 s3 t2 s4. allocateFrom (demo_service 9) ''a'' one_wrapper one_list = (Ok t1, s3)
     \<and> allocateFrom (demo_service 9) ''b'' one_wrapper s3 = (Ok t2, s4)
     \<and> entry_of t1 = entry_of t2 \<and> entry_of t1 = ce ''u/1'' ''1''"
proof -
  obtain t1 s3 t2 s4 where w: "allocateFrom (demo_service 9) ''a'' one_wrapper one_list = (Ok t1, s3)"
    "allocateFrom (demo_service 9) ''b'' one_wrapper s3 = (Ok t2, s4)" "entry_of t1 = ce ''u/1'' ''1''"
    using one_writes by blast
  have inv: "csl_inv one_list" "csl_latest one_list = Some 1" "csl_lists one_list (''u'' @ ''/'' @ format_int 1) \<noteq> None"
    by (simp_all add: csl_inv_def csl_latest_def csl_lists_def one_list_def latestListIDDBEntryKey_def)
  show ?thesis
    using concurrent_allocations_collide [OF inv(1) demo_codec demo_service_ops inv(2,3) one_read one_read w(1,2)] w by blast
qed

end
