(* ===== verification/Profile_Model.thy ===== *)
theory Profile_Model
  imports Vc_Crypto
begin

text \<open>
  \<open>pkg/profile/api.go\<close>: issuer and verifier profiles. Pointers to optional sections are options;
  presentation definitions have the library type \<open>'pd\<close>.
\<close>

record signing_did =
  sd_DID :: string
  sd_Creator :: string
  sd_UpdateKeyURL :: string
  sd_RecoveryKeyURL :: string

record credential_template =
  ct_Contexts :: "string list"
  ct_ID :: string
  ct_Type :: string
  ct_Issuer :: string
  ct_CredentialSubject :: json

record oidc4vc_config =
  oc_IssuerWellKnownURL :: string
  oc_ClientID :: string
  oc_ClientSecretHandle :: string

record vc_config =
  vcf_Format :: string
  vcf_SigningAlgorithm :: string
  vcf_KeyType :: key_type
  vcf_DIDMethod :: string
  vcf_Repr :: sig_repr
  vcf_Status :: json
  vcf_Context :: "string list"

record issuer =
  pi_ID :: string
  pi_Name :: string
  pi_URL :: string
  pi_Active :: bool
  pi_OIDCConfig :: "oidc4vc_config option"
  pi_OrganizationID :: string
  pi_VCConfig :: "vc_config option"
  pi_KMSConfig :: "kms_config option"
  pi_SigningDID :: "signing_did option"
  pi_CredentialTemplates :: "credential_template list"

record credential_checks =
  cc_Proof :: bool
  cc_Format :: "string list"
  cc_Status :: bool

record presentation_checks =
  pc_Proof :: bool
  pc_VCSubject :: bool
  pc_Format :: "string list"

record verification_checks =
  vk_Credential :: credential_checks
  vk_Presentation :: "presentation_checks option"

record oidc4vp_config =
  ov_ROSigningAlgorithm :: string
  ov_DIDMethod :: string
  ov_KeyType :: key_type

record 'pd verifier =
  pv_ID :: string
  pv_Name :: string
  pv_URL :: string
  pv_Active :: bool
  pv_OrganizationID :: string
  pv_Checks :: "verification_checks option"
  pv_OIDCConfig :: "oidc4vp_config option"
  pv_KMSConfig :: "kms_config option"
  pv_SigningDID :: "signing_did option"
  pv_PresentationDefinitions :: "'pd list"
  pv_WebHook :: string

text \<open>\<open>component/profile/reader/file/reader.go\<close>, \<open>GetProfile\<close>: a map lookup whose error is always nil;
  an unknown id yields a nil profile and no error.\<close>

definition getProfile :: "(string \<rightharpoonup> 'p) \<Rightarrow> string \<Rightarrow> 'p option res" where
  "getProfile m i = Ok (m i)"

end
