(* ===== verification/Verify_Credential.thy ===== *)
theory Verify_Credential
  imports Profile_Model Credential_Status
begin

text \<open>
  \<open>pkg/service/verifycredential/verifycredential_service.go\<close>: the proof and status checks of a
  credential. Parsing with signature verification, DID resolution and the retrieval of the
  revocation list are the fields of \<open>verify_env\<close>; the flag of \<open>ve_parse\<close> is strict validation.
\<close>

record verify_env =
  ve_marshal :: "credential \<Rightarrow> vc_bytes res"
  ve_parse :: "bool \<Rightarrow> vc_bytes \<Rightarrow> credential res"
  ve_resolve :: "string \<Rightarrow> did_doc res"
  ve_getRevocationVC :: "string \<Rightarrow> credential res"
  ve_decode :: "string \<Rightarrow> bit_string res"

record check_result =
  ck_Check :: string
  ck_Error :: string

record verify_opts =
  vo_Challenge :: string
  vo_Domain :: string

definition parseAndVerifyVC :: "verify_env \<Rightarrow> vc_bytes \<Rightarrow> bool \<Rightarrow> credential res" where
  "parseAndVerifyVC env b isJWT = ve_parse env (\<not> isJWT) b"

definition validateCredentialProof :: "verify_env \<Rightarrow> vc_bytes \<Rightarrow> string \<Rightarrow> string \<Rightarrow> bool \<Rightarrow> bool \<Rightarrow> unit res" where
  "validateCredentialProof env vcByte challenge domain vcInVP isJWT =
     bindR (wrapR ''verifiable credential proof validation error : '' (parseAndVerifyVC env vcByte isJWT)) (\<lambda>credential.
     if cr_JWT credential \<noteq> [] then Ok ()
     else case cr_Proofs credential of
       [] \<Rightarrow> Err (ErrMsg ''verifiable credential doesn't contains proof'')
     | proof # _ \<Rightarrow>
         bindR (if \<not> vcInVP
                then bindR (validateProofKey proof ''challenge'' challenge) (\<lambda>_. validateProofKey proof ''domain'' domain)
                else Ok ()) (\<lambda>_.
         bindR (getVerificationMethodFromProof proof) (\<lambda>method.
         bindR (getDIDDocFromVerificationMethod (ve_resolve env) method) (\<lambda>doc.
         if is_ID (cr_Issuer credential) \<noteq> dd_ID doc
         then Err (ErrMsg ''controller of verification method doesn't match the issuer'')
         else wrapR ''verifiable credential proof purpose validation error : '' (validateProof proof method doc)))))"

text \<open>The package has its own copy of the structural check of the status entry.\<close>

definition checkVCStatus :: "typed_id option \<Rightarrow> typed_id res" where
  "checkVCStatus status =
     (case status of
        None \<Rightarrow> Err (ErrMsg ''vc status not exist'')
      | Some st \<Rightarrow>
          if ti_Type st \<noteq> StatusList2021Entry
          then Err (ErrMsg (''vc status '' @ ti_Type st @ '' not supported''))
          else if fget (ti_Custom st) StatusListIndex = JNull
          then Err (ErrMsg ''statusListIndex field not exist in vc status'')
          else if fget (ti_Custom st) StatusListCredential = JNull
          then Err (ErrMsg ''statusListCredential field not exist in vc status'')
          else if fget (ti_Custom st) StatusPurpose = JNull
          then Err (ErrMsg ''statusPurpose field not exist in vc status'')
          else Ok st)"

definition revokedMsg :: string where "revokedMsg = ''revoked''"

definition validateStatus :: "verify_env \<Rightarrow> typed_id option \<Rightarrow> string \<Rightarrow> unit res" where
  "validateStatus env status iss =
     bindR (checkVCStatus status) (\<lambda>st.
     bindR (bindR (assert_str (fget (ti_Custom st) StatusListIndex)) atoi) (\<lambda>idx.
     bindR (bindR (assert_str (fget (ti_Custom st) StatusListCredential)) (ve_getRevocationVC env)) (\<lambda>rvc.
     if is_ID (cr_Issuer rvc) \<noteq> iss
     then Err (ErrMsg ''issuer of the credential do not match vc revocation list issuer'')
     else case cr_Subject rvc of
       SubjList cs \<Rightarrow>
         bindR (first_subject cs) (\<lambda>c.
         bindR (assert_str (fget (su_Custom c) StatusPurpose)) (\<lambda>p1.
         bindR (assert_str (fget (ti_Custom st) StatusPurpose)) (\<lambda>p2.
         if p1 \<noteq> p2 then Err (ErrMsg ''vc statusPurpose not matching statusListCredential statusPurpose'')
         else
           bindR (bindR (assert_str (fget (su_Custom c) ''encodedList''))
                    (\<lambda>enc. wrapR ''failed to decode bits: '' (ve_decode env enc))) (\<lambda>b.
           bindR (getBit idx b) (\<lambda>bitSet.
           if bitSet then Err (ErrMsg revokedMsg) else Ok ())))))
     | _ \<Rightarrow> Err (ErrMsg ''invalid subject field structure''))))"

fun as_failure :: "string \<Rightarrow> unit res \<Rightarrow> check_result list res" where
  "as_failure check (Ok _) = Ok []"
| "as_failure check (Err e) = Ok [\<lparr>ck_Check = check, ck_Error = err_text e\<rparr>]"
| "as_failure check (Panic p) = Panic p"

definition verifyCredential ::
  "verify_env \<Rightarrow> credential \<Rightarrow> verify_opts option \<Rightarrow> 'pd verifier \<Rightarrow> check_result list res" where
  "verifyCredential env credential opts profile =
     bindR (deref (pv_Checks profile)) (\<lambda>checks.
     bindR (if cc_Proof (vk_Credential checks)
            then bindR (wrapR ''unexpected error on credential marshal: '' (ve_marshal env credential)) (\<lambda>b.
                 bindR (deref opts) (\<lambda>o1.
                 as_failure ''proof'' (validateCredentialProof env b (vo_Challenge o1) (vo_Domain o1) False (cr_JWT credential \<noteq> []))))
            else Ok []) (\<lambda>r1.
     bindR (if cc_Status (vk_Credential checks)
            then as_failure ''credentialStatus'' (validateStatus env (cr_Status credential) (is_ID (cr_Issuer credential)))
            else Ok []) (\<lambda>r2.
     Ok (r1 @ r2))))"

subsection \<open>What passing the checks means\<close>

lemma as_failure_Nil [simp]: "as_failure c r = Ok [] \<longleftrightarrow> r = Ok ()"
  by (cases r) auto

text \<open>An embedded proof that binds a credential to its issuer.\<close>

definition proof_binds :: "verify_env \<Rightarrow> string \<Rightarrow> fields \<Rightarrow> bool" where
  "proof_binds env controller proof \<longleftrightarrow> (\<exists>method d doc purpose.
     map_of proof ''verificationMethod'' = Some (JStr method) \<and> getDIDFromVerificationMethod method = Ok d
     \<and> ve_resolve env d = Ok doc \<and> dd_ID doc = controller
     \<and> map_of proof ''proofPurpose'' = Some (JStr purpose) \<and> authorised purpose method doc)"

lemma validateCredentialProof_Ok:
  assumes "validateCredentialProof env b challenge domain inVP isJWT = Ok ()"
  shows "\<exists>c. ve_parse env (\<not> isJWT) b = Ok c \<and>
     (cr_JWT c \<noteq> [] \<or> (\<exists>proof more. cr_Proofs c = proof # more \<and> proof_binds env (is_ID (cr_Issuer c)) proof \<and>
        (\<not> inVP \<longrightarrow> validateProofKey proof ''challenge'' challenge = Ok () \<and> validateProofKey proof ''domain'' domain = Ok ())))"
proof -
  obtain c where c: "ve_parse env (\<not> isJWT) b = Ok c"
    using assms by (auto simp: validateCredentialProof_def parseAndVerifyVC_def)
  show ?thesis
  proof (cases "cr_JWT c = [] \<longrightarrow> cr_Proofs c = []")
    case True
    then show ?thesis
      using assms c by (auto simp: validateCredentialProof_def parseAndVerifyVC_def split: if_splits)
  next
    case False
    then obtain pf rest where p: "cr_Proofs c = pf # rest" "cr_JWT c = []"
      by (cases "cr_Proofs c") auto
    then have "\<not> inVP \<longrightarrow> validateProofKey pf ''challenge'' challenge = Ok () \<and> validateProofKey pf ''domain'' domain = Ok ()"
      using assms c by (cases inVP) (simp_all add: validateCredentialProof_def parseAndVerifyVC_def)
    moreover have "proof_binds env (is_ID (cr_Issuer c)) pf"
      using assms c p
      by (auto simp: validateCredentialProof_def parseAndVerifyVC_def proof_binds_def getVerificationMethodFromProof_Ok
          getDIDDoc_Ok validateProof_Ok split: if_splits)
    ultimately show ?thesis
      using c p by blast
  qed
qed

text \<open>The entry of a status list that a status refers to.\<close>

definition status_bit :: "verify_env \<Rightarrow> typed_id \<Rightarrow> string \<Rightarrow> bool \<Rightarrow> bool" where
  "status_bit env st iss v \<longleftrightarrow> (\<exists>idx n listID rvc c cs p enc b.
     fget (ti_Custom st) StatusListIndex = JStr idx \<and> atoi idx = Ok n
     \<and> fget (ti_Custom st) StatusListCredential = JStr listID \<and> ve_getRevocationVC env listID = Ok rvc
     \<and> is_ID (cr_Issuer rvc) = iss \<and> cr_Subject rvc = SubjList (c # cs)
     \<and> fget (su_Custom c) StatusPurpose = JStr p \<and> fget (ti_Custom st) StatusPurpose = JStr p
     \<and> fget (su_Custom c) ''encodedList'' = JStr enc \<and> ve_decode env enc = Ok b \<and> getBit n b = Ok v)"

lemma first_subject_Ok [simp]: "first_subject cs = Ok c \<longleftrightarrow> (\<exists>ds. cs = c # ds)"
  by (cases cs) auto

lemma checkVCStatus_Ok:
  "checkVCStatus status = Ok st \<longleftrightarrow> status = Some st \<and> ti_Type st = StatusList2021Entry
     \<and> fget (ti_Custom st) StatusListIndex \<noteq> JNull \<and> fget (ti_Custom st) StatusListCredential \<noteq> JNull
     \<and> fget (ti_Custom st) StatusPurpose \<noteq> JNull"
  by (auto simp: checkVCStatus_def split: option.splits if_splits)

lemma validateStatus_Ok:
  assumes "validateStatus env status iss = Ok ()"
  shows "\<exists>st. status = Some st \<and> ti_Type st = StatusList2021Entry \<and> status_bit env st iss False"
proof -
  obtain st idx n listID rvc where base: "checkVCStatus status = Ok st" "fget (ti_Custom st) StatusListIndex = JStr idx"
    "atoi idx = Ok n" "fget (ti_Custom st) StatusListCredential = JStr listID" "ve_getRevocationVC env listID = Ok rvc"
    "is_ID (cr_Issuer rvc) = iss"
    using assms by (auto simp: validateStatus_def split: if_splits)
  obtain cs where cs: "cr_Subject rvc = SubjList cs"
    using assms base by (cases "cr_Subject rvc") (auto simp: validateStatus_def)
  have "\<exists>c ds p enc b. cs = c # ds \<and> fget (su_Custom c) StatusPurpose = JStr p \<and> fget (ti_Custom st) StatusPurpose = JStr p
     \<and> fget (su_Custom c) ''encodedList'' = JStr enc \<and> ve_decode env enc = Ok b \<and> getBit n b = Ok False"
    using assms base cs by (auto simp: validateStatus_def split: if_splits)
  then show ?thesis
    using base cs by (auto simp: status_bit_def checkVCStatus_Ok)
qed

lemma validateStatus_bit:
  assumes "ti_Type st = StatusList2021Entry" "status_bit env st iss v"
  shows "validateStatus env (Some st) iss = (if v then Err (ErrMsg revokedMsg) else Ok ())"
proof -
  obtain idx n listID rvc c cs p enc b where f:
    "fget (ti_Custom st) StatusListIndex = JStr idx" "atoi idx = Ok n"
    "fget (ti_Custom st) StatusListCredential = JStr listID" "ve_getRevocationVC env listID = Ok rvc"
    "is_ID (cr_Issuer rvc) = iss" "cr_Subject rvc = SubjList (c # cs)"
    "fget (su_Custom c) StatusPurpose = JStr p" "fget (ti_Custom st) StatusPurpose = JStr p"
    "fget (su_Custom c) ''encodedList'' = JStr enc" "ve_decode env enc = Ok b" "getBit n b = Ok v"
    using assms(2) unfolding status_bit_def by blast
  have "checkVCStatus (Some st) = Ok st"
    using assms(1) f by (simp add: checkVCStatus_Ok)
  then show ?thesis
    using f by (simp add: validateStatus_def)
qed

text \<open>C11: A credential passes verification only if it holds up. If the verifier checks both proof and
  status and \<open>VerifyCredential\<close> reports no failed check, then the marshalled credential parsed with
  signature verification; unless it is a JWT, its first proof carries the expected challenge and
  domain and was made by a key of the issuer's own DID document, for a purpose that document
  allows; and the status list of the same issuer and purpose has the credential's bit clear.\<close>
theorem verified_credential_sound:
  assumes "verifyCredential env credential (Some opts) profile = Ok []"
    and "pv_Checks profile = Some checks" "cc_Proof (vk_Credential checks)" "cc_Status (vk_Credential checks)"
  shows "\<exists>b c st. ve_marshal env credential = Ok b \<and> ve_parse env (cr_JWT credential = []) b = Ok c
    \<and> (cr_JWT c \<noteq> [] \<or> (\<exists>proof more. cr_Proofs c = proof # more \<and> proof_binds env (is_ID (cr_Issuer c)) proof
          \<and> validateProofKey proof ''challenge'' (vo_Challenge opts) = Ok ()
          \<and> validateProofKey proof ''domain'' (vo_Domain opts) = Ok ()))
    \<and> cr_Status credential = Some st \<and> status_bit env st (is_ID (cr_Issuer credential)) False"
proof -
  obtain b where b: "ve_marshal env credential = Ok b"
    "validateCredentialProof env b (vo_Challenge opts) (vo_Domain opts) False (cr_JWT credential \<noteq> []) = Ok ()"
    "validateStatus env (cr_Status credential) (is_ID (cr_Issuer credential)) = Ok ()"
    using assms by (auto simp: verifyCredential_def)
  show ?thesis
    using validateCredentialProof_Ok [OF b(2)] validateStatus_Ok [OF b(3)] b(1) by auto
qed

definition sample_proof :: fields where
  "sample_proof = [(''challenge'', JStr ''ch''), (''domain'', JStr ''d''), (''verificationMethod'', JStr ''did:a#k''),
     (''proofPurpose'', JStr ''assertionMethod'')]"

definition sample_status :: typed_id where
  "sample_status = \<lparr>ti_ID = [], ti_Type = StatusList2021Entry, ti_Custom = [(StatusPurpose, JStr ''revocation''),
     (StatusListIndex, JStr ''3''), (StatusListCredential, JStr ''u/1'')]\<rparr>"

definition sample_vc :: credential where
  "sample_vc = empty_credential\<lparr>cr_Issuer := \<lparr>is_ID = ''did:a'', is_Custom = []\<rparr>, cr_Status := Some sample_status,
     cr_Proofs := [sample_proof]\<rparr>"

definition sample_env :: "8 word \<Rightarrow> verify_env" where
  "sample_env w = \<lparr>ve_marshal = (\<lambda>_. Ok (JsonBytes JNull)), ve_parse = (\<lambda>_ _. Ok sample_vc),
     ve_resolve = (\<lambda>_. Ok demo_doc),
     ve_getRevocationVC = (\<lambda>_. Ok (sample_vc\<lparr>cr_Subject := SubjList [\<lparr>su_ID = [],
        su_Custom = [(StatusPurpose, JStr ''revocation''), (''encodedList'', JStr ''x'')]\<rparr>]\<rparr>)),
     ve_decode = (\<lambda>_. Ok \<lparr>bits = [w], num_bits = 8\<rparr>)\<rparr>"

definition strict_verifier :: "unit verifier" where
  "strict_verifier = \<lparr>pv_ID = ''v'', pv_Name = [], pv_URL = [], pv_Active = True, pv_OrganizationID = ''org'',
     pv_Checks = Some \<lparr>vk_Credential = \<lparr>cc_Proof = True, cc_Format = [], cc_Status = True\<rparr>,
       vk_Presentation = None\<rparr>, pv_OIDCConfig = None, pv_KMSConfig = None, pv_SigningDID = None,
     pv_PresentationDefinitions = [], pv_WebHook = []\<rparr>"

lemma sample_keys: "atoi ''3'' = Ok 3" "getBit 3 \<lparr>bits = [0], num_bits = 8\<rparr> = Ok False"
  using atoi_format_int [of 3]
  by (simp_all add: in_int64_def format_int_def nat_digits.simps getBit_def position_invalid_def bits_per_byte_def
      signed_divide_int_def)

lemma sample_status_ok: "validateStatus (sample_env 0) (Some sample_status) ''did:a'' = Ok ()"
proof -
  have keys: "StatusPurpose \<noteq> ''encodedList''" "''encodedList'' \<noteq> StatusPurpose" by (simp_all add: StatusPurpose_def)
  show ?thesis
    by (simp add: validateStatus_def checkVCStatus_def sample_env_def sample_vc_def sample_status_def empty_credential_def
        sample_keys keys)
qed

lemma sample_verifies: "verifyCredential (sample_env 0) sample_vc (Some \<lparr>vo_Challenge = ''ch'', vo_Domain = ''d''\<rparr>) strict_verifier = Ok []"
proof -
  have "validateCredentialProof (sample_env 0) (JsonBytes JNull) ''ch'' ''d'' False False = Ok ()"
    by (simp add: validateCredentialProof_def parseAndVerifyVC_def sample_env_def sample_vc_def empty_credential_def
        sample_proof_def validateProofKey_def getVerificationMethodFromProof_def getDIDDocFromVerificationMethod_def
        getDIDFromVerificationMethod_def demo_doc_def validateProof_def validateProofPurpose_def has_prefix_def AssertionMethod_def Let_def)
  moreover note sample_status_ok
  ultimately show ?thesis
    by (simp add: verifyCredential_def strict_verifier_def) (simp add: sample_env_def sample_vc_def empty_credential_def)
qed

theorem verified_credential_sound_witness:
  "\<exists>st. cr_Status sample_vc = Some st \<and> status_bit (sample_env 0) st ''did:a'' False
     \<and> proof_binds (sample_env 0) ''did:a'' sample_proof"
  using verified_credential_sound [OF sample_verifies, of "the (pv_Checks strict_verifier)"]
  by (auto simp: strict_verifier_def sample_vc_def sample_env_def empty_credential_def)

end
