(* ===== verification/Revocation_Flow.thy ===== *)
theory Revocation_Flow
  imports Status_Allocation Verify_Credential
begin

text \<open>
  Revocation end to end: what the issuer's \<open>UpdateVC\<close> writes into the status list is what the
  verifier's \<open>ValidateVCStatus\<close> reads from it.
\<close>

text \<open>What is assumed of the codec and the signer beyond \<open>id_codec\<close>: signing keeps issuer and subject,
  a slice of subjects and the issuer id survive storage, and decoding inverts encoding up to the
  declared length, which \<open>DecodeBits\<close> leaves zero (lemma \<open>decode_encode\<close>).\<close>

definition list_codec :: "('k, 's) csl_service \<Rightarrow> bool" where
  "list_codec sv \<longleftrightarrow>
     (\<forall>profile vc os vc'. sv_sign sv profile vc os = Ok vc' \<longrightarrow> cr_Issuer vc' = cr_Issuer vc \<and> cr_Subject vc' = cr_Subject vc) \<and>
     (\<forall>vc j c cs. sv_marshal sv vc = Ok j \<longrightarrow> cr_Subject vc = SubjList cs \<longrightarrow>
        sv_parse sv (JsonBytes (restore_id (cr_ID vc) (strip_id j))) = Ok c \<longrightarrow>
        is_ID (cr_Issuer c) = is_ID (cr_Issuer vc) \<and> cr_Subject c = SubjList cs) \<and>
     (\<forall>b enc. sv_encode sv b = Ok enc \<longrightarrow> sv_decode sv enc = Ok (b\<lparr>num_bits := 0\<rparr>))"

lemma list_codecD:
  assumes "list_codec sv"
  shows "sv_sign sv profile vc os = Ok vc' \<Longrightarrow> cr_Issuer vc' = cr_Issuer vc \<and> cr_Subject vc' = cr_Subject vc"
    and "sv_marshal sv vc = Ok j \<Longrightarrow> cr_Subject vc = SubjList cs \<Longrightarrow>
        sv_parse sv (JsonBytes (restore_id (cr_ID vc) (strip_id j))) = Ok c \<Longrightarrow>
        is_ID (cr_Issuer c) = is_ID (cr_Issuer vc) \<and> cr_Subject c = SubjList cs"
    and "sv_encode sv b = Ok enc \<Longrightarrow> sv_decode sv enc = Ok (b\<lparr>num_bits := 0\<rparr>)"
  using assms unfolding list_codec_def by blast+

text \<open>The verifier reads the lists of this store, decoding them as the issuer encodes them.\<close>

definition reads_lists :: "('k, 's) csl_service \<Rightarrow> verify_env \<Rightarrow> 's \<Rightarrow> bool" where
  "reads_lists sv env s \<longleftrightarrow> ve_decode env = sv_decode sv \<and> (\<forall>i. ve_getRevocationVC env i = fst (getRevocationListVC sv i s))"

definition same_entry :: "typed_id \<Rightarrow> typed_id \<Rightarrow> bool" where
  "same_entry st st2 \<longleftrightarrow> fget (ti_Custom st) StatusListCredential = fget (ti_Custom st2) StatusListCredential
     \<and> bindR (assert_str (fget (ti_Custom st) StatusListIndex)) atoi = bindR (assert_str (fget (ti_Custom st2) StatusListIndex)) atoi"

lemma setStatusBit_Ok:
  assumes "setStatusBit sv st value vc = Ok vc1"
  obtains c cs enc b idx n enc' where "cr_Subject vc = SubjList (c # cs)" "fget (su_Custom c) ''encodedList'' = JStr enc"
    "sv_decode sv enc = Ok b" "fget (ti_Custom st) StatusListIndex = JStr idx" "atoi idx = Ok n" "\<not> position_invalid b n"
    "sv_encode sv (snd (setBit n value b)) = Ok enc'"
    "vc1 = vc\<lparr>cr_Subject := SubjList (c\<lparr>su_Custom := fput ''encodedList'' (JStr enc') (su_Custom c)\<rparr> # cs), cr_Proofs := []\<rparr>"
proof -
  obtain cs0 where "cr_Subject vc = SubjList cs0"
    using assms by (cases "cr_Subject vc") (auto simp: setStatusBit_def)
  then show thesis
    using assms that by (auto simp: setStatusBit_def setBit_case split: if_splits)
qed

lemma getBit_num_bits [simp]: "getBit m (b\<lparr>num_bits := x\<rparr>) = getBit m b"
  by (simp add: getBit_def position_invalid_def)

lemma getBit_after_set:
  assumes "\<not> position_invalid b n" "getBit m b = Ok w"
  shows "getBit m (snd (setBit n v b)) = Ok (if m = n then v else w)"
proof -
  have m: "\<not> position_invalid b m"
    using assms(2) getBit_invalid [of b m] by auto
  have "getBit m (setBits [(n, v)] b) = Ok (last_write m [(n, v)] (bit_at b (nat m)))"
    using getBit_setBits [of "nat m" b "[(n, v)]"] m
    by (simp add: position_invalid_iff nat_less_iff del: setBits.simps last_write.simps)
  moreover have "w = bit_at b (nat m)"
    using getBit_at [of "nat m" b] m assms(2) by (simp add: position_invalid_iff nat_less_iff)
  ultimately show ?thesis
    by simp
qed

context csl_store
begin

lemma getRevocationListVC_Ok:
  assumes "service_ops upsert get createLatest updateLatest getLatest sv" "id_codec sv" "inv s"
    "fst (getRevocationListVC sv i s) = Ok rvc"
  shows "\<exists>w0. lists s i = Some w0 \<and> sv_parse sv (JsonBytes (cw_VCByte w0)) = Ok rvc"
proof -
  obtain q t where g: "getCSLWrapper sv i s = (q, t)" by fastforce
  have "\<exists>w. q = Ok w \<and> cw_VC w = Some rvc"
    using assms(4) g by (cases q) (auto simp: getRevocationListVC_def)
  then show ?thesis
    using getCSLWrapper_eff [OF assms(1-3) g] by auto
qed

text \<open>A successful \<open>UpdateVC\<close>: the stored list of the status, before and after.\<close>

lemma updateVC_Ok:
  assumes ops: "service_ops upsert get createLatest updateLatest getLatest sv" and codec: "id_codec sv" "list_codec sv"
    and named: "alloc sv k iss s" and run: "updateVC sv v profile value s = (Ok (), s')" and st: "cr_Status v = Some st"
  obtains i idx n w0 vc c cs enc b w' enc' where
    "fget (ti_Custom st) StatusListCredential = JStr i" "fget (ti_Custom st) StatusListIndex = JStr idx" "atoi idx = Ok n"
    "lists s i = Some w0" "sv_parse sv (JsonBytes (cw_VCByte w0)) = Ok vc" "cr_Subject vc = SubjList (c # cs)"
    "fget (su_Custom c) ''encodedList'' = JStr enc" "sv_decode sv enc = Ok b" "\<not> position_invalid b n"
    "inv s'" "lists s' = (lists s)(i \<mapsto> w')" "sv_decode sv enc' = Ok ((snd (setBit n value b))\<lparr>num_bits := 0\<rparr>)"
    "\<And>vc'. sv_parse sv (JsonBytes (cw_VCByte w')) = Ok vc' \<Longrightarrow> is_ID (cr_Issuer vc') = is_ID (cr_Issuer vc)
       \<and> cr_Subject vc' = SubjList (c\<lparr>su_Custom := fput ''encodedList'' (JStr enc') (su_Custom c)\<rparr> # cs)"
proof -
  have inv: "inv s" using named by (simp add: alloc_def)
  obtain i where i: "fget (ti_Custom st) StatusListCredential = JStr i"
    using run st by (auto simp: updateVC_def validateVCStatus_def andthen_eq_Ok split: option.splits if_splits)
  have val: "validateVCStatus (cr_Status v) = Ok st"
    using run st by (auto simp: updateVC_def validateVCStatus_def split: if_splits)
  have o: "sv_upsert sv = upsert" using ops by (simp add: service_ops_def)
  obtain w t where g: "getCSLWrapper sv i s = (Ok w, t)" and rest: "andthen (pure_op (deref (cw_VC w)) t) (\<lambda>vc s.
         andthen (pure_op (prepareSigningOpts profile (cr_Proofs vc)) s) (\<lambda>os s.
         andthen (pure_op (setStatusBit sv st value vc) s) (\<lambda>vc1 s.
         andthen (pure_op (sv_sign sv profile vc1 os) s) (\<lambda>signed s.
         andthen (pure_op (sv_marshal sv signed) s) (\<lambda>j s.
         upsert (w\<lparr>cw_VCByte := j, cw_VC := Some vc1\<rparr>) s))))) = (Ok (), s')"
    using run unfolding updateVC_def val andthen_pure_Ok i o as_str.simps option.case by (rule andthen_OkE)
  obtain vc os vc1 signed j where steps: "deref (cw_VC w) = Ok vc" "prepareSigningOpts profile (cr_Proofs vc) = Ok os"
    "setStatusBit sv st value vc = Ok vc1" "sv_sign sv profile vc1 os = Ok signed" "sv_marshal sv signed = Ok j"
    "upsert (w\<lparr>cw_VCByte := j, cw_VC := Some vc1\<rparr>) t = (Ok (), s')"
    using rest by (elim andthen_pureE) (rule that)
  note G = getCSLWrapper_eff [OF ops codec(1) inv g]
  then obtain w0 where w0: "i \<noteq> key" "lists s i = Some w0" "sv_parse sv (JsonBytes (cw_VCByte w0)) = Ok vc"
    using steps(1) by auto
  then have "cr_ID vc = i"
    using named unfolding alloc_def lists_named_def by blast
  then have id1: "cr_ID vc1 = i" using setStatusBit_ID steps(3) by metis
  then have id2: "cr_ID signed = i" using id_codecD(2) [OF codec(1) steps(4)] by simp
  from steps(3) obtain c cs enc b idx n enc' where sb: "cr_Subject vc = SubjList (c # cs)" "fget (su_Custom c) ''encodedList'' = JStr enc"
    "sv_decode sv enc = Ok b" "fget (ti_Custom st) StatusListIndex = JStr idx" "atoi idx = Ok n" "\<not> position_invalid b n"
    "sv_encode sv (snd (setBit n value b)) = Ok enc'"
    "vc1 = vc\<lparr>cr_Subject := SubjList (c\<lparr>su_Custom := fput ''encodedList'' (JStr enc') (su_Custom c)\<rparr> # cs), cr_Proofs := []\<rparr>"
    by (rule setStatusBit_Ok)
  have U: "inv s'" "lists s' = (lists s)(i \<mapsto> w\<lparr>cw_VCByte := restore_id i (strip_id j), cw_VC := None\<rparr>)"
    using upsert_eff [OF _ _ _ steps(6)] G id1 w0(1) by auto
  have "is_ID (cr_Issuer vc') = is_ID (cr_Issuer vc)
       \<and> cr_Subject vc' = SubjList (c\<lparr>su_Custom := fput ''encodedList'' (JStr enc') (su_Custom c)\<rparr> # cs)"
    if "sv_parse sv (JsonBytes (restore_id i (strip_id j))) = Ok vc'" for vc'
    using list_codecD(2) [OF codec(2) steps(5), of _ vc'] list_codecD(1) [OF codec(2) steps(4)] that id2 sb(8) by simp
  moreover have "sv_decode sv enc' = Ok ((snd (setBit n value b))\<lparr>num_bits := 0\<rparr>)"
    using list_codecD(3) [OF codec(2) sb(7)] .
  ultimately show thesis
    using that [of i idx n w0 vc c cs enc b "w\<lparr>cw_VCByte := restore_id i (strip_id j), cw_VC := None\<rparr>" enc'] i w0 sb U by simp
qed

lemma one_bit:
  assumes ops: "service_ops upsert get createLatest updateLatest getLatest sv" and codec: "id_codec sv" "list_codec sv"
    and named: "alloc sv k iss s" and run: "updateVC sv v profile value s = (Ok (), s')" and st: "cr_Status v = Some st"
    and reads: "reads_lists sv env s" "reads_lists sv env' s'" and bit: "status_bit env st2 iss2 w"
    and l: "fget (ti_Custom st2) StatusListCredential = JStr l" "ve_getRevocationVC env' l = Ok rvc"
  shows "status_bit env' st2 iss2 (if same_entry st st2 then value else w)"
proof -
  obtain idx2 m old p c2 cs2 enc2 b2 where B: "fget (ti_Custom st2) StatusListIndex = JStr idx2" "atoi idx2 = Ok m"
    "ve_getRevocationVC env l = Ok old" "is_ID (cr_Issuer old) = iss2" "cr_Subject old = SubjList (c2 # cs2)"
    "fget (su_Custom c2) StatusPurpose = JStr p" "fget (ti_Custom st2) StatusPurpose = JStr p"
    "fget (su_Custom c2) ''encodedList'' = JStr enc2" "ve_decode env enc2 = Ok b2" "getBit m b2 = Ok w"
    using bit l(1) unfolding status_bit_def by auto
  from ops codec named run st obtain i idx n w0 vc c cs enc b w' enc' where U:
    "fget (ti_Custom st) StatusListCredential = JStr i" "fget (ti_Custom st) StatusListIndex = JStr idx" "atoi idx = Ok n"
    "lists s i = Some w0" "sv_parse sv (JsonBytes (cw_VCByte w0)) = Ok vc" "cr_Subject vc = SubjList (c # cs)"
    "fget (su_Custom c) ''encodedList'' = JStr enc" "sv_decode sv enc = Ok b" "\<not> position_invalid b n"
    "inv s'" "lists s' = (lists s)(i \<mapsto> w')" "sv_decode sv enc' = Ok ((snd (setBit n value b))\<lparr>num_bits := 0\<rparr>)"
    "\<And>vc'. sv_parse sv (JsonBytes (cw_VCByte w')) = Ok vc' \<Longrightarrow> is_ID (cr_Issuer vc') = is_ID (cr_Issuer vc)
       \<and> cr_Subject vc' = SubjList (c\<lparr>su_Custom := fput ''encodedList'' (JStr enc') (su_Custom c)\<rparr> # cs)"
    by (rule updateVC_Ok) (rule that)
  have inv: "inv s" using named by (simp add: alloc_def)
  obtain wl where old: "lists s l = Some wl" "sv_parse sv (JsonBytes (cw_VCByte wl)) = Ok old"
    using getRevocationListVC_Ok [OF ops codec(1) inv] B(3) reads(1) unfolding reads_lists_def by metis
  obtain wn where new: "lists s' l = Some wn" "sv_parse sv (JsonBytes (cw_VCByte wn)) = Ok rvc"
    using getRevocationListVC_Ok [OF ops codec(1) U(10)] l(2) reads(2) unfolding reads_lists_def by metis
  have dec: "ve_decode env = sv_decode sv" "ve_decode env' = sv_decode sv"
    using reads by (auto simp: reads_lists_def)
  have eq: "same_entry st st2 \<longleftrightarrow> i = l \<and> n = m"
    using U(1-3) B(1,2) l(1) by (simp add: same_entry_def)
  have key_ne: "''encodedList'' \<noteq> StatusPurpose" by (simp add: StatusPurpose_def)
  show ?thesis
  proof (cases "i = l")
    case False
    then have "rvc = old" using U(11) old new by simp
    then show ?thesis
      using B l dec eq False unfolding status_bit_def by auto
  next
    case True
    then have same: "old = vc" "wn = w'" using old new U(4,5,11) by auto
    then have "c2 = c" "cs2 = cs" "enc2 = enc" "b2 = b" using B U dec by auto
    moreover have "getBit m ((snd (setBit n value b))\<lparr>num_bits := 0\<rparr>) = Ok (if m = n then value else w)"
      using getBit_after_set [OF U(9)] B(10) \<open>b2 = b\<close> by simp
    ultimately show ?thesis
      using U(12) U(13) [of rvc] new(2) same B l dec eq True key_ne unfolding status_bit_def by auto
  qed
qed

end

subsection \<open>Property\<close>

text \<open>C5: Revocation takes effect, and on one credential only. In any history of allocations and
  updates from an empty store, after a successful \<open>UpdateVC\<close> of a credential with status \<open>st\<close>, a
  verifier that can read the status lists judges every status \<open>st2\<close> that resolved before as follows:
  "revoked" or valid according to the value just written if \<open>st2\<close> names the same list and index,
  and exactly as before otherwise.\<close>
theorem revocation_flips_one_bit:
  assumes "coll_ok no_clash s0" "docs s0 = Map.empty" "id_codec sv" "list_codec sv"
    and "service_ops cslUpsert cslGet createLatestListID updateLatestListID getLatestListID sv"
    and "csl_run sv ops s0 = (es, s)" "int (length ops) < 2 ^ 63"
    and "cr_Status v = Some st" "updateVC sv v profile value s = (Ok (), s')"
    and "reads_lists sv env s" "reads_lists sv env' s'"
    and "ti_Type st2 = StatusList2021Entry" "status_bit env st2 iss w"
    and "fget (ti_Custom st2) StatusListCredential = JStr l" "ve_getRevocationVC env' l = Ok rvc"
  shows "validateStatus env' (Some st2) iss =
    (if (if same_entry st st2 then value else w) then Err (ErrMsg revokedMsg) else Ok ())"
proof -
  have "csl_inv s0" "csl_lists s0 = Map.empty"
    using assms(1,2) by (simp_all add: csl_inv_def csl_lists_def fun_eq_iff)
  then have "cs.alloc sv 0 {} s0"
    by (simp add: cs.alloc_def cs.lists_named_def)
  from cs.run_alloc [OF assms(5,3) this _ _ assms(6)] assms(7)
  obtain k iss0 where "cs.alloc sv k iss0 s" by auto
  from cs.one_bit [OF assms(5,3,4) this assms(9,8,10,11,13,14,15)]
  show ?thesis
    by (rule validateStatus_bit [OF assms(12)])
qed

text \<open>A service whose codec keeps what a status list needs: the issuer, the id and purpose and bits of
  its one subject. The bits are stored uncompressed, one character a byte.\<close>

definition list_fields :: "credential \<Rightarrow> (string \<times> string \<times> string) res" where
  "list_fields vc = (case cr_Subject vc of
       SubjStatusList i t p e \<Rightarrow> Ok (i, p, e)
     | SubjList [c] \<Rightarrow>
         (if map fst (su_Custom c) = [StatusPurpose, ''encodedList'']
          then bindR (assert_str (fget (su_Custom c) StatusPurpose)) (\<lambda>p.
               bindR (assert_str (fget (su_Custom c) ''encodedList'')) (\<lambda>e. Ok (su_ID c, p, e)))
          else Err (ErrExt ''unsupported''))
     | _ \<Rightarrow> Err (ErrExt ''unsupported''))"

definition plain_marshal :: "credential \<Rightarrow> json res" where
  "plain_marshal vc = bindR (list_fields vc) (\<lambda>(i, p, e).
     Ok (JObj [(''id'', JStr (cr_ID vc)), (''issuer'', JStr (is_ID (cr_Issuer vc))), (''sub'', JStr i),
               (''purpose'', JStr p), (''list'', JStr e)]))"

definition plain_parse :: "vc_bytes \<Rightarrow> credential res" where
  "plain_parse b = (case b of
       JsonBytes (JObj m) \<Rightarrow>
         (case (fget m ''id'', fget m ''issuer'', fget m ''sub'', fget m ''purpose'', fget m ''list'') of
            (JStr i, JStr iss, JStr sb, JStr p, JStr e) \<Rightarrow>
              Ok (empty_credential\<lparr>cr_ID := i, cr_Issuer := \<lparr>is_ID = iss, is_Custom = []\<rparr>,
                    cr_Subject := SubjList [\<lparr>su_ID = sb, su_Custom = [(StatusPurpose, JStr p), (''encodedList'', JStr e)]\<rparr>]\<rparr>)
          | _ \<Rightarrow> Err (ErrExt ''not a status list''))
     | _ \<Rightarrow> Err (ErrExt ''not a credential''))"

definition plain_encode :: "bit_string \<Rightarrow> string res" where
  "plain_encode = encodeBits (map (\<lambda>w. char_of (unat w))) Ok"

definition plain_decode :: "string \<Rightarrow> bit_string res" where
  "plain_decode = decodeBits (\<lambda>s. Ok (map (\<lambda>c. of_nat (of_char c)) s)) Ok"

definition plain_service :: "(string, (csl_doc mem, csl_doc) coll) csl_service" where
  "plain_service = (demo_service 9)\<lparr>sv_marshal := plain_marshal, sv_parse := plain_parse, sv_encode := plain_encode,
     sv_decode := plain_decode\<rparr>"

lemma plain_decode_encode: "plain_encode b = Ok e \<Longrightarrow> plain_decode e = Ok (b\<lparr>num_bits := 0\<rparr>)"
proof -
  have "of_nat (unat w mod 256) = w" for w :: "8 word"
    using unsigned_less [of w, where 'a = nat] by simp
  then show "plain_encode b = Ok e \<Longrightarrow> plain_decode e = Ok (b\<lparr>num_bits := 0\<rparr>)"
    by (cases b) (auto simp: plain_encode_def plain_decode_def encodeBits_def decodeBits_def o_def)
qed

lemma plain_ops [simp]:
  "service_ops cslUpsert cslGet createLatestListID updateLatestListID getLatestListID plain_service"
  by (simp add: service_ops_def plain_service_def)

lemma purpose_key [simp]: "StatusPurpose \<noteq> ''encodedList''" "''encodedList'' \<noteq> StatusPurpose"
  by (simp_all add: StatusPurpose_def)

lemma plain_fields:
  "list_fields vc = Ok (i, p, e) \<Longrightarrow> cr_Subject vc = SubjList cs \<Longrightarrow>
     cs = [\<lparr>su_ID = i, su_Custom = [(StatusPurpose, JStr p), (''encodedList'', JStr e)]\<rparr>]"
  by (auto simp: list_fields_def StatusPurpose_def split: list.splits if_splits)

lemma plain_parse_marshal:
  assumes "plain_marshal vc = Ok j" "plain_parse (JsonBytes (restore_id (cr_ID vc) (strip_id j))) = Ok c"
  shows "cr_ID c = cr_ID vc \<and> is_ID (cr_Issuer c) = is_ID (cr_Issuer vc)
    \<and> (\<forall>cs. cr_Subject vc = SubjList cs \<longrightarrow> cr_Subject c = SubjList cs)"
  using assms plain_fields [of vc] by (auto simp: plain_marshal_def plain_parse_def fput_def)

lemma plain_parse_err: "plain_parse b = Err e \<Longrightarrow> \<not> err_is e csl_ErrDataNotFound"
  by (auto simp: plain_parse_def csl_ErrDataNotFound_def split: vc_bytes.splits json.splits)

lemma plain_sel [simp]:
  "sv_sign plain_service p vc os = Ok vc" "sv_marshal plain_service = plain_marshal" "sv_parse plain_service = plain_parse"
  "sv_encode plain_service = plain_encode" "sv_decode plain_service = plain_decode" "sv_listSize plain_service = 9"
  "sv_upsert plain_service = cslUpsert" "sv_get plain_service = cslGet" "sv_createLatest plain_service = createLatestListID"
  "sv_updateLatest plain_service = updateLatestListID" "sv_getLatest plain_service = getLatestListID"
  by (simp_all add: plain_service_def)

lemma plain_codec: "id_codec plain_service" "list_codec plain_service"
proof -
  have "plain_parse (JsonBytes JNull) \<noteq> Ok c" for c
    by (simp add: plain_parse_def)
  then show "id_codec plain_service" "list_codec plain_service"
    unfolding id_codec_def list_codec_def plain_sel
    using plain_parse_marshal plain_parse_err plain_decode_encode by blast+
qed

definition fresh_bits :: bit_string where
  "fresh_bits = \<lparr>bits = replicate 16000 0, num_bits = 128000\<rparr>"

lemma fresh_bits: "newBitString 128000 = Ok fresh_bits"
  by (simp add: newBitString_def fresh_bits_def wrap64_def bits_per_byte_def signed_divide_int_def)

lemma fresh_clear: "getBit 3 (fresh_bits\<lparr>num_bits := 0\<rparr>) = Ok False" "\<not> position_invalid fresh_bits 3"
  by (simp_all add: getBit_num_bits getBit_def position_invalid_def fresh_bits_def bits_per_byte_def
      signed_divide_int_def signed_modulo_int_def)

definition start_coll :: "(csl_doc mem, csl_doc) coll" where
  "start_coll = mem_coll no_clash [] []"

definition list_status :: typed_id where
  "list_status = \<lparr>ti_ID = ''urn:uuid:1'', ti_Type = StatusList2021Entry, ti_Custom = [(StatusPurpose, JStr ''revocation''),
     (StatusListIndex, JStr ''3''), (StatusListCredential, JStr ''u/1'')]\<rparr>"

definition revoked_vc :: credential where
  "revoked_vc = empty_credential\<lparr>cr_Status := Some list_status\<rparr>"

definition after_alloc :: "(csl_doc mem, csl_doc) coll" where
  "after_alloc = snd (csl_run plain_service [CreateOp demo_signer ''u'' 0 ''urn:uuid:1''] start_coll)"

definition after_update :: "(csl_doc mem, csl_doc) coll" where
  "after_update = snd (updateVC plain_service revoked_vc demo_signer True after_alloc)"

definition env_at :: "(csl_doc mem, csl_doc) coll \<Rightarrow> verify_env" where
  "env_at s = \<lparr>ve_marshal = (\<lambda>_. Err (ErrExt ''unused'')), ve_parse = (\<lambda>_ _. Err (ErrExt ''unused'')),
     ve_resolve = (\<lambda>_. Err (ErrExt ''unused'')), ve_getRevocationVC = (\<lambda>i. fst (getRevocationListVC plain_service i s)),
     ve_decode = plain_decode\<rparr>"

lemma reads_env_at: "reads_lists plain_service (env_at s) s"
  by (simp add: reads_lists_def env_at_def)

definition list_doc :: "bit_string \<Rightarrow> csl_doc" where
  "list_doc b = \<lparr>cd_vc = Some (JObj [(''issuer'', JStr ''did:a''), (''sub'', JStr ''u/1#list''), (''purpose'', JStr ''revocation''),
     (''list'', JStr (map (\<lambda>w. char_of (unat w)) (bits b)))]), cd_size = 1, cd_index = 1, cd_listID = 1, cd_latest = None\<rparr>"

lemma fresh_list_vc:
  "createVC plain_service ''u/1'' demo_signer 0 = Ok ((list_vc ''u/1'' demo_signer 0)\<lparr>cr_Subject :=
     SubjStatusList ''u/1#list'' ''StatusList2021'' ''revocation'' (map (\<lambda>w. char_of (unat w)) (bits fresh_bits))\<rparr>)"
  by (simp add: createVC_def bitStringSize_def Let_def prepareSigningOpts_def list_vc_def empty_credential_def fresh_bits
      plain_encode_def encodeBits_def)

text \<open>The in-memory server keeps overwritten versions behind the current one.\<close>

definition coll_of :: "bit_string \<Rightarrow> (string \<times> csl_doc) list \<Rightarrow> (csl_doc mem, csl_doc) coll" where
  "coll_of b older = \<lparr>drv = mem_driver no_clash, srv = \<lparr>mdocs = (''u/1'', list_doc b) # older, mnext = 1, mscript = []\<rparr>\<rparr>"

definition latest_doc :: "(string \<times> csl_doc) list" where
  "latest_doc = [(''LatestListID'', \<lparr>cd_vc = None, cd_size = 0, cd_index = 0, cd_listID = 0, cd_latest = Some 1\<rparr>)]"

lemma demo_signer_DID: "sg_DID demo_signer = ''did:a''"
  by (simp add: demo_signer_def)

lemma after_alloc_eq: "after_alloc = coll_of fresh_bits latest_doc"
  by (simp add: after_alloc_def start_coll_def csl_eval fresh_list_vc plain_marshal_def list_fields_def list_doc_def
      list_vc_def demo_signer_DID coll_of_def latest_doc_def)

definition read_vc :: "string \<Rightarrow> credential" where
  "read_vc e = empty_credential\<lparr>cr_ID := ''u/1'', cr_Issuer := \<lparr>is_ID = ''did:a'', is_Custom = []\<rparr>,
     cr_Subject := SubjList [\<lparr>su_ID = ''u/1#list'', su_Custom = [(StatusPurpose, JStr ''revocation''), (''encodedList'', JStr e)]\<rparr>]\<rparr>"

abbreviation raw :: "bit_string \<Rightarrow> string" where
  "raw b \<equiv> map (\<lambda>w. char_of (unat w)) (bits b)"

definition read_wrapper :: "string \<Rightarrow> csl_wrapper" where
  "read_wrapper e = \<lparr>cw_VCByte = JObj [(''issuer'', JStr ''did:a''), (''sub'', JStr ''u/1#list''), (''purpose'', JStr ''revocation''),
     (''list'', JStr e), (''id'', JStr ''u/1'')], cw_Size = 1, cw_RevocationListIndex = 1, cw_ListID = 1, cw_VC = Some (read_vc e)\<rparr>"

lemma read_list: "getCSLWrapper plain_service ''u/1'' (coll_of b t) = (Ok (read_wrapper (raw b)), coll_of b t)"
  by (simp add: csl_eval plain_parse_def list_doc_def coll_of_def read_vc_def read_wrapper_def)

lemma read_list_vc: "fst (getRevocationListVC plain_service ''u/1'' (coll_of b t)) = Ok (read_vc (raw b))"
  by (simp add: getRevocationListVC_def read_list read_wrapper_def)

lemma atoi_3: "atoi ''3'' = Ok 3"
  using atoi_format_int [of 3] by (simp add: in_int64_def)

lemma decode_fresh: "plain_decode (raw fresh_bits) = Ok (fresh_bits\<lparr>num_bits := 0\<rparr>)"
  by (rule plain_decode_encode) (simp add: plain_encode_def encodeBits_def)

lemma status_valid_before: "status_bit (env_at after_alloc) list_status ''did:a'' False"
  using fresh_clear(1) unfolding status_bit_def
  by (simp add: env_at_def after_alloc_eq list_status_def read_list_vc read_vc_def empty_credential_def decode_fresh atoi_3)

definition set_bits :: bit_string where
  "set_bits = snd (setBit 3 True (fresh_bits\<lparr>num_bits := 0\<rparr>))"

lemma set_3: "setStatusBit plain_service list_status True (read_vc (raw fresh_bits)) = Ok (read_vc (raw set_bits))"
proof -
  have "\<not> position_invalid (fresh_bits\<lparr>num_bits := 0\<rparr>) 3"
    using fresh_clear(2) by (simp add: position_invalid_def)
  then show ?thesis
    by (simp add: setStatusBit_def setBit_case read_vc_def list_status_def decode_fresh atoi_3 set_bits_def plain_encode_def
        encodeBits_def fput_def empty_credential_def)
qed

lemma store_3: "cslUpsert (read_wrapper (raw fresh_bits)\<lparr>cw_VCByte := JObj [(''id'', JStr ''u/1''), (''issuer'', JStr ''did:a''),
     (''sub'', JStr ''u/1#list''), (''purpose'', JStr ''revocation''), (''list'', JStr (raw b))], cw_VC := Some (read_vc (raw b))\<rparr>)
   (coll_of fresh_bits latest_doc) = (Ok (), coll_of b ((''u/1'', list_doc fresh_bits) # latest_doc))"
  by (simp add: csl_eval coll_of_def list_doc_def read_wrapper_def read_vc_def latest_doc_def)

definition revoked_coll :: "(csl_doc mem, csl_doc) coll" where
  "revoked_coll = coll_of set_bits ((''u/1'', list_doc fresh_bits) # latest_doc)"

lemma update_ok: "updateVC plain_service revoked_vc demo_signer True after_alloc = (Ok (), revoked_coll)"
proof -
  have "prepareSigningOpts demo_signer (cr_Proofs (read_vc e)) = Ok []" for e
    by (simp add: prepareSigningOpts_def read_vc_def empty_credential_def)
  moreover have "plain_marshal (read_vc e) = Ok (JObj [(''id'', JStr ''u/1''), (''issuer'', JStr ''did:a''),
     (''sub'', JStr ''u/1#list''), (''purpose'', JStr ''revocation''), (''list'', JStr e)])" for e
    by (simp add: plain_marshal_def list_fields_def read_vc_def)
  moreover have "validateVCStatus (cr_Status revoked_vc) = Ok list_status"
    "fget (ti_Custom list_status) StatusListCredential = JStr ''u/1''"
    by (simp_all add: validateVCStatus_def revoked_vc_def list_status_def)
  moreover have "cw_VC (read_wrapper e) = Some (read_vc e)" for e
    by (simp add: read_wrapper_def)
  ultimately show ?thesis
    by (simp add: updateVC_def after_alloc_eq read_list set_3 store_3 revoked_coll_def)
qed

theorem revocation_flips_one_bit_witness:
  "status_bit (env_at after_alloc) list_status ''did:a'' False
   \<and> validateStatus (env_at after_alloc) (Some list_status) ''did:a'' = Ok ()
   \<and> validateStatus (env_at revoked_coll) (Some list_status) ''did:a'' = Err (ErrMsg revokedMsg)"
proof -
  have ty: "ti_Type list_status = StatusList2021Entry" "cr_Status revoked_vc = Some list_status"
    "fget (ti_Custom list_status) StatusListCredential = JStr ''u/1''"
    by (simp_all add: list_status_def revoked_vc_def)
  have start: "coll_ok no_clash start_coll" "docs start_coll = Map.empty"
    by (simp_all add: start_coll_def)
  obtain es where run: "csl_run plain_service [CreateOp demo_signer ''u'' 0 ''urn:uuid:1''] start_coll = (es, after_alloc)"
    by (metis after_alloc_def prod.collapse)
  have read: "ve_getRevocationVC (env_at revoked_coll) ''u/1'' = Ok (read_vc (raw set_bits))"
    by (simp add: env_at_def revoked_coll_def read_list_vc)
  show ?thesis
    using revocation_flips_one_bit [OF start plain_codec plain_ops run _ ty(2) update_ok reads_env_at reads_env_at ty(1)
        status_valid_before ty(3) read] validateStatus_bit [OF ty(1) status_valid_before] status_valid_before
    by (simp add: same_entry_def)
qed

end
