(* ===== verification/Revocation.thy ===== *)
theory Revocation
  imports Verify_Credential
begin

text \<open>
  \<open>pkg/service/verifycredential/revocation\<close>: fetching the status list credential that a verifier
  checks, over HTTP (\<open>revocation_service.go\<close>) or from an identity hub named by a DID URL
  (\<open>identityhub.go\<close>). \<open>'b\<close> is the type of byte strings; the HTTP client, the JSON and base64 codecs,
  query parsing, DID resolution and credential parsing are the fields of \<open>rev_env\<close>. A response is its
  status and as much of its body as could be read.
\<close>

record hub_message =
  hm_Descriptor :: fields
  hm_Data :: string

record hub_request =
  hq_RequestID :: string
  hq_Target :: string
  hq_Messages :: "hub_message list"

record hub_status =
  hs_Code :: int
  hs_Message :: string

record message_result =
  mr_MessageID :: string
  mr_Status :: hub_status
  mr_Entries :: "hub_message list"

record hub_response =
  hb_RequestID :: string
  hb_Status :: "hub_status option"
  hb_Replies :: "message_result list"

text \<open>The parts of a DID document the hub lookup reads: its id and its services with their endpoints.\<close>

record hub_did =
  hd_ID :: string
  hd_Services :: "(string \<times> string res) list"

record 'b http_request =
  ht_URL :: string
  ht_Authorization :: "string option"
  ht_Body :: "'b option"

record 'b rev_env =
  rv_newRequest :: "string \<Rightarrow> 'b option \<Rightarrow> 'b http_request res"
  rv_do :: "'b http_request \<Rightarrow> (int \<times> 'b) res"
  rv_requestTokens :: "(string \<times> string) list"
  rv_text :: "'b \<Rightarrow> string"
  rv_decode64 :: "string \<Rightarrow> 'b res"
  rv_parseQuery :: "string \<Rightarrow> (string \<times> string list) list res"
  rv_queries :: "'b \<Rightarrow> fields list res"
  rv_marshal :: "hub_request \<Rightarrow> 'b res"
  rv_unmarshal :: "'b \<Rightarrow> hub_response res"
  rv_resolve :: "string \<Rightarrow> hub_did res"
  rv_parse :: "'b \<Rightarrow> credential res"

definition StatusOK :: int where "StatusOK = 200"

text \<open>\<open>url.Values.Get\<close>: the first value of the key, empty when there is none.\<close>

definition query_get :: "(string \<times> string list) list \<Rightarrow> string \<Rightarrow> string" where
  "query_get q k = (case map_of q k of Some (v # _) \<Rightarrow> v | _ \<Rightarrow> [])"

definition token_of :: "'b rev_env \<Rightarrow> string \<Rightarrow> string" where
  "token_of env name = (case map_of (rv_requestTokens env) name of None \<Rightarrow> [] | Some t \<Rightarrow> t)"

definition with_token :: "string \<Rightarrow> 'b http_request \<Rightarrow> 'b http_request" where
  "with_token token req = (if token \<noteq> [] then req\<lparr>ht_Authorization := Some (''Bearer '' @ token)\<rparr> else req)"

definition sendHTTPRequest :: "'b rev_env \<Rightarrow> 'b http_request \<Rightarrow> int \<Rightarrow> string \<Rightarrow> 'b res" where
  "sendHTTPRequest env req status token =
     bindR (rv_do env (with_token token req)) (\<lambda>(code, body).
     if code \<noteq> status
     then Err (ErrMsg (''failed to read response body for status '' @ format_int code @ '': '' @ rv_text env body))
     else Ok body)"

definition resolveHTTPUrl :: "'b rev_env \<Rightarrow> string \<Rightarrow> 'b res" where
  "resolveHTTPUrl env url =
     bindR (rv_newRequest env url None) (\<lambda>req. sendHTTPRequest env req StatusOK (token_of env ''csl''))"

subsection \<open>Identity hub messages\<close>

definition getObjectID :: "hub_message \<Rightarrow> string option" where
  "getObjectID m = as_str (fget (hm_Descriptor m) ''objectId'')"

definition isMethod :: "hub_message \<Rightarrow> string \<Rightarrow> bool" where
  "isMethod m meth = (case as_str (fget (hm_Descriptor m) ''method'') of None \<Rightarrow> False | Some v \<Rightarrow> equal_fold v meth)"

definition checkResponseStatus :: "hub_response \<Rightarrow> unit res" where
  "checkResponseStatus i =
     bindR (case hb_Status i of
              Some st \<Rightarrow> if hs_Code st \<noteq> StatusOK
                then Err (ErrMsg (''unexpected request level status code, got '' @ format_int (hs_Code st)
                       @ '', message: '' @ hs_Message st))
                else Ok ()
            | None \<Rightarrow> Ok ()) (\<lambda>_.
     eachR (\<lambda>m. if hs_Code (mr_Status m) \<noteq> StatusOK
                then Err (ErrMsg (''unexpected message level status code, got '' @ format_int (hs_Code (mr_Status m))
                       @ '', message: '' @ hs_Message (mr_Status m)))
                else Ok ()) (hb_Replies i))"

text \<open>The two nested loops of \<open>GetVCBytes\<close>; \<open>None\<close> when an inner loop ends without returning.\<close>

fun entryLoop :: "(string \<Rightarrow> 'b res) \<Rightarrow> string \<Rightarrow> hub_message list \<Rightarrow> 'b res option" where
  "entryLoop dec obj [] = None"
| "entryLoop dec obj (m # ms) =
     (case getObjectID m of
        Some received \<Rightarrow> if equal_fold received obj
                         then Some (wrapR ''unable to decode vc bytes: '' (dec (hm_Data m)))
                         else entryLoop dec obj ms
      | None \<Rightarrow> entryLoop dec obj ms)"

fun replyLoop :: "(string \<Rightarrow> 'b res) \<Rightarrow> string \<Rightarrow> message_result list \<Rightarrow> 'b res option" where
  "replyLoop dec obj [] = None"
| "replyLoop dec obj (r # rs) =
     (case entryLoop dec obj (mr_Entries r) of Some v \<Rightarrow> Some v | None \<Rightarrow> replyLoop dec obj rs)"

definition getVCBytes :: "(string \<Rightarrow> 'b res) \<Rightarrow> hub_response \<Rightarrow> string \<Rightarrow> 'b res" where
  "getVCBytes dec i obj =
     (case replyLoop dec obj (hb_Replies i) of
        Some v \<Rightarrow> v | None \<Rightarrow> Err (ErrMsg ''unable to get VC from IdentityHubResponse''))"

subsection \<open>The lookup\<close>

definition getQueryValues :: "'b rev_env \<Rightarrow> string \<Rightarrow> (string \<times> string list) list res" where
  "getQueryValues env url =
     (let chunks = split_on CHR ''?'' url
      in if length chunks > 1 then wrapR ''unable to parse query from didURL: '' (rv_parseQuery env (chunks ! 1))
         else Ok [])"

fun serviceEndpoint :: "(string \<times> string res) list \<Rightarrow> string res" where
  "serviceEndpoint [] = Err (ErrMsg ''no identity hub service supplied'')"
| "serviceEndpoint ((ty, ep) # ss) =
     (if ty = ''IdentityHub'' then wrapR ''unable to get service endpoint URL: '' ep else serviceEndpoint ss)"

definition resolveDID :: "'b rev_env \<Rightarrow> string \<Rightarrow> hub_did res" where
  "resolveDID env url = wrapR ''unable to resolve did url: '' (rv_resolve env (hd (split_on CHR ''?'' url)))"

text \<open>The loop over the decoded queries. Every collections query assigns the object id, also one that
  has none: it resets the id to the empty string.\<close>

fun queryLoop :: "fields list \<Rightarrow> string \<Rightarrow> string \<times> hub_message list" where
  "queryLoop [] obj = (obj, [])"
| "queryLoop (mm # mms) obj =
     (let msg = \<lparr>hm_Descriptor = mm, hm_Data = []\<rparr>
      in if \<not> isMethod msg ''CollectionsQuery'' then queryLoop mms obj
         else case getObjectID msg of
           Some obj' \<Rightarrow> (obj', [msg])
         | None \<Rightarrow> queryLoop mms [])"

definition getIdentityHubRequestMeta ::
  "'b rev_env \<Rightarrow> string \<Rightarrow> string \<Rightarrow> (string \<times> string list) list \<Rightarrow> (string \<times> 'b) res" where
  "getIdentityHubRequestMeta env uuid didID query =
     bindR (wrapR ''unable to decode \"queries\" key: '' (rv_decode64 env (query_get query ''queries''))) (\<lambda>decoded.
     bindR (wrapR ''unable to unmarshal queries onto map: '' (rv_queries env decoded)) (\<lambda>mapped.
     let (obj, msgs) = queryLoop mapped []
     in if obj = [] then Err (ErrMsg (''objectId is not defined, query '' @ rv_text env decoded))
        else bindR (wrapR ''unable to marshal identityHubRequest: ''
                      (rv_marshal env \<lparr>hq_RequestID = uuid, hq_Target = didID, hq_Messages = msgs\<rparr>)) (\<lambda>payload.
             Ok (obj, payload))))"

definition resolveDIDRelativeURL :: "'b rev_env \<Rightarrow> string \<Rightarrow> string \<Rightarrow> 'b res" where
  "resolveDIDRelativeURL env uuid url =
     bindR (resolveDID env url) (\<lambda>doc.
     bindR (getQueryValues env url) (\<lambda>query.
     bindR (getIdentityHubRequestMeta env uuid (hd_ID doc) query) (\<lambda>(obj, payload).
     bindR (serviceEndpoint (hd_Services doc)) (\<lambda>endpoint.
     bindR (wrapR ''unable to create request to identity hub: '' (rv_newRequest env endpoint (Some payload))) (\<lambda>req.
     bindR (wrapR ''send request failed: '' (sendHTTPRequest env req StatusOK (token_of env ''csl''))) (\<lambda>resp.
     bindR (wrapR ''unable to unmarshal IdentityHubResponse: '' (rv_unmarshal env resp)) (\<lambda>response.
     bindR (checkResponseStatus response) (\<lambda>_.
     getVCBytes (rv_decode64 env) response obj))))))))"

definition getRevocationVC :: "'b rev_env \<Rightarrow> string \<Rightarrow> string \<Rightarrow> credential res" where
  "getRevocationVC env uuid uri =
     bindR (wrapR ''unable to resolve revocation VC URI: ''
        (if has_prefix uri ''did:'' then resolveDIDRelativeURL env uuid uri else resolveHTTPUrl env uri)) (\<lambda>b.
     wrapR ''failed to parse and verify status vc: '' (rv_parse env b))"

subsection \<open>What a lookup returns\<close>

text \<open>The reference: the entries of all replies in order, and the first that has the object id.\<close>

definition hub_entries :: "hub_response \<Rightarrow> hub_message list" where
  "hub_entries i = concat (map mr_Entries (hb_Replies i))"

definition has_object :: "string \<Rightarrow> hub_message \<Rightarrow> bool" where
  "has_object obj m = (case getObjectID m of None \<Rightarrow> False | Some o' \<Rightarrow> equal_fold o' obj)"

lemma entryLoop_find:
  "entryLoop dec obj ms = map_option (\<lambda>m. wrapR ''unable to decode vc bytes: '' (dec (hm_Data m))) (find (has_object obj) ms)"
  by (induction ms) (auto simp: has_object_def split: option.splits)

lemma find_append: "find P (xs @ ys) = (case find P xs of None \<Rightarrow> find P ys | Some x \<Rightarrow> Some x)"
  by (induction xs) auto

lemma getVCBytes_find:
  "getVCBytes dec i obj = (case find (has_object obj) (hub_entries i) of
      None \<Rightarrow> Err (ErrMsg ''unable to get VC from IdentityHubResponse'')
    | Some m \<Rightarrow> wrapR ''unable to decode vc bytes: '' (dec (hm_Data m)))"
proof -
  have "replyLoop dec obj rs = map_option (\<lambda>m. wrapR ''unable to decode vc bytes: '' (dec (hm_Data m)))
      (find (has_object obj) (concat (map mr_Entries rs)))" for rs
    by (induction rs) (auto simp: entryLoop_find find_append split: option.splits)
  then show ?thesis
    by (auto simp: getVCBytes_def hub_entries_def split: option.splits)
qed

lemma queryLoop_asks:
  assumes "queryLoop mms obj = (obj', msgs)" "obj' \<noteq> []" "obj = []"
  shows "\<exists>mm \<in> set mms. msgs = [\<lparr>hm_Descriptor = mm, hm_Data = []\<rparr>] \<and> fget mm ''objectId'' = JStr obj'
      \<and> isMethod \<lparr>hm_Descriptor = mm, hm_Data = []\<rparr> ''CollectionsQuery''"
  using assms
  by (induction mms obj rule: queryLoop.induct) (auto simp: Let_def getObjectID_def split: if_splits option.splits)

lemma checkResponseStatus_Ok:
  "checkResponseStatus i = Ok () \<longleftrightarrow> (\<forall>st. hb_Status i = Some st \<longrightarrow> hs_Code st = 200)
     \<and> (\<forall>m \<in> set (hb_Replies i). hs_Code (mr_Status m) = 200)"
  by (auto simp: checkResponseStatus_def StatusOK_def split: option.splits if_splits)

lemma sendHTTPRequest_Ok:
  "sendHTTPRequest env req status token = Ok body \<longleftrightarrow> rv_do env (with_token token req) = Ok (status, body)"
  by (auto simp: sendHTTPRequest_def split: if_splits)

lemma requestMeta_Ok:
  assumes "getIdentityHubRequestMeta env uuid didID query = Ok (obj, payload)"
  shows "obj \<noteq> [] \<and> (\<exists>decoded mapped mm. rv_decode64 env (query_get query ''queries'') = Ok decoded
      \<and> rv_queries env decoded = Ok mapped \<and> mm \<in> set mapped
      \<and> isMethod \<lparr>hm_Descriptor = mm, hm_Data = []\<rparr> ''CollectionsQuery'' \<and> fget mm ''objectId'' = JStr obj
      \<and> rv_marshal env \<lparr>hq_RequestID = uuid, hq_Target = didID, hq_Messages = [\<lparr>hm_Descriptor = mm, hm_Data = []\<rparr>]\<rparr> = Ok payload)"
proof -
  obtain decoded mapped where d: "rv_decode64 env (query_get query ''queries'') = Ok decoded" "rv_queries env decoded = Ok mapped"
    using assms by (auto simp: getIdentityHubRequestMeta_def)
  obtain obj' msgs where q: "queryLoop mapped [] = (obj', msgs)" by fastforce
  then have "obj' \<noteq> []" "obj' = obj"
    "rv_marshal env \<lparr>hq_RequestID = uuid, hq_Target = didID, hq_Messages = msgs\<rparr> = Ok payload"
    using assms d by (auto simp: getIdentityHubRequestMeta_def split: if_splits)
  then show ?thesis
    using queryLoop_asks [OF q] d by auto
qed

text \<open>The answer of a hub that the program accepts: to a collections query \<open>mm\<close> of the URL for \<open>obj\<close>,
  sent with the configured token, every status is 200, and \<open>b\<close> is the data of the first entry with that object id.\<close>

definition hub_answer :: "'b rev_env \<Rightarrow> string \<Rightarrow> string \<Rightarrow> hub_did \<Rightarrow> 'b \<Rightarrow> bool" where
  "hub_answer env uuid url doc b \<longleftrightarrow> (\<exists>query decoded mapped mm obj payload endpoint req resp response m.
     getQueryValues env url = Ok query \<and> rv_decode64 env (query_get query ''queries'') = Ok decoded
     \<and> rv_queries env decoded = Ok mapped \<and> mm \<in> set mapped \<and> isMethod \<lparr>hm_Descriptor = mm, hm_Data = []\<rparr> ''CollectionsQuery''
     \<and> fget mm ''objectId'' = JStr obj \<and> obj \<noteq> []
     \<and> rv_marshal env \<lparr>hq_RequestID = uuid, hq_Target = hd_ID doc, hq_Messages = [\<lparr>hm_Descriptor = mm, hm_Data = []\<rparr>]\<rparr> = Ok payload
     \<and> serviceEndpoint (hd_Services doc) = Ok endpoint \<and> rv_newRequest env endpoint (Some payload) = Ok req
     \<and> rv_do env (with_token (token_of env ''csl'') req) = Ok (200, resp) \<and> rv_unmarshal env resp = Ok response
     \<and> (\<forall>r \<in> set (hb_Replies response). hs_Code (mr_Status r) = 200)
     \<and> find (has_object obj) (hub_entries response) = Some m \<and> rv_decode64 env (hm_Data m) = Ok b)"

lemma resolveDIDRelativeURL_Ok:
  assumes "resolveDIDRelativeURL env uuid url = Ok b"
  shows "\<exists>doc. resolveDID env url = Ok doc \<and> hub_answer env uuid url doc b"
proof -
  obtain doc query obj payload endpoint req resp response where r: "resolveDID env url = Ok doc"
    "getQueryValues env url = Ok query"
    "getIdentityHubRequestMeta env uuid (hd_ID doc) query = Ok (obj, payload)"
    "serviceEndpoint (hd_Services doc) = Ok endpoint" "rv_newRequest env endpoint (Some payload) = Ok req"
    "sendHTTPRequest env req StatusOK (token_of env ''csl'') = Ok resp" "rv_unmarshal env resp = Ok response"
    "checkResponseStatus response = Ok ()" "getVCBytes (rv_decode64 env) response obj = Ok b"
    using assms by (auto simp: resolveDIDRelativeURL_def)
  obtain m where m: "find (has_object obj) (hub_entries response) = Some m" "rv_decode64 env (hm_Data m) = Ok b"
    using r(9) by (auto simp: getVCBytes_find split: option.splits)
  moreover have "rv_do env (with_token (token_of env ''csl'') req) = Ok (200, resp)"
    "\<forall>r \<in> set (hb_Replies response). hs_Code (mr_Status r) = 200"
    using r(6,8) by (simp_all add: sendHTTPRequest_Ok StatusOK_def checkResponseStatus_Ok)
  ultimately show ?thesis
    using requestMeta_Ok [OF r(3)] r(1,2,4,5,7) unfolding hub_answer_def by blast
qed

subsection \<open>Property\<close>

text \<open>The status list a verifier uses is the one the reference names. For a DID URL,
  \<open>GetRevocationVC\<close> succeeds only with the parsed credential that the identity hub of the resolved
  DID document returned for the object id of the URL's own collections query, in an answer all of
  whose statuses are 200; for any other URL, only with the parsed body of a 200 response to a GET of
  exactly that URL. In both cases the request carries the configured token.\<close>
theorem revocation_list_source:
  assumes "getRevocationVC env uuid uri = Ok vc"
  shows "\<exists>b. rv_parse env b = Ok vc \<and>
     (if has_prefix uri ''did:''
      then \<exists>doc. rv_resolve env (hd (split_on CHR ''?'' uri)) = Ok doc \<and> hub_answer env uuid uri doc b
      else \<exists>req. rv_newRequest env uri None = Ok req \<and> rv_do env (with_token (token_of env ''csl'') req) = Ok (200, b))"
proof (cases "has_prefix uri ''did:''")
  case True
  then obtain b where "resolveDIDRelativeURL env uuid uri = Ok b" "rv_parse env b = Ok vc"
    using assms by (auto simp: getRevocationVC_def)
  with True show ?thesis
    using resolveDIDRelativeURL_Ok [of env uuid uri b] by (auto simp: resolveDID_def)
next
  case False
  then show ?thesis
    using assms by (auto simp: getRevocationVC_def resolveHTTPUrl_def sendHTTPRequest_Ok StatusOK_def)
qed

definition hub_env :: "string rev_env" where
  "hub_env = \<lparr>rv_newRequest = (\<lambda>u b. Ok \<lparr>ht_URL = u, ht_Authorization = None, ht_Body = b\<rparr>),
     rv_do = (\<lambda>r. if ht_URL r = ''hub'' \<and> ht_Authorization r = Some ''Bearer t'' then Ok (200, ''answer'') else Ok (404, [])),
     rv_requestTokens = [(''csl'', ''t'')], rv_text = (\<lambda>b. b), rv_decode64 = Ok,
     rv_parseQuery = (\<lambda>q. Ok [(''queries'', [q])]),
     rv_queries = (\<lambda>q. Ok [[(''method'', JStr ''CollectionsQuery''), (''objectId'', JStr q)]]),
     rv_marshal = (\<lambda>r. Ok (hq_Target r)),
     rv_unmarshal = (\<lambda>_. Ok \<lparr>hb_RequestID = [], hb_Status = None, hb_Replies =
        [\<lparr>mr_MessageID = [], mr_Status = \<lparr>hs_Code = 200, hs_Message = []\<rparr>, mr_Entries =
           [\<lparr>hm_Descriptor = [(''objectId'', JStr ''other'')], hm_Data = ''wrong''\<rparr>,
            \<lparr>hm_Descriptor = [(''objectId'', JStr ''ABC'')], hm_Data = ''list''\<rparr>]\<rparr>]\<rparr>),
     rv_resolve = (\<lambda>d. if d = ''did:x'' then Ok \<lparr>hd_ID = d, hd_Services = [(''IdentityHub'', Ok ''hub'')]\<rparr>
                       else Err (ErrExt ''not found'')),
     rv_parse = (\<lambda>b. if b = ''list'' then Ok empty_credential else Err (ErrExt ''bad''))\<rparr>"

lemma fold_facts: "equal_fold ''ABC'' ''abc''" "\<not> equal_fold ''other'' ''abc''"
  by code_simp+

lemma hub_lookup: "getRevocationVC hub_env ''urn:1'' ''did:x?abc'' = Ok empty_credential"
  by (simp add: getRevocationVC_def has_prefix_def resolveDIDRelativeURL_def resolveDID_def hub_env_def getQueryValues_def
      getIdentityHubRequestMeta_def query_get_def isMethod_def getObjectID_def sendHTTPRequest_def with_token_def
      token_of_def StatusOK_def checkResponseStatus_def getVCBytes_def fold_facts Let_def)

theorem revocation_list_source_witness:
  "\<exists>b doc. rv_parse hub_env b = Ok empty_credential \<and> rv_resolve hub_env ''did:x'' = Ok doc
     \<and> hub_answer hub_env ''urn:1'' ''did:x?abc'' doc b"
  using revocation_list_source [OF hub_lookup] by (auto simp: has_prefix_def)

end
