(* ===== verification/Verify_Presentation.thy ===== *)
theory Verify_Presentation
  imports Revocation
begin

text \<open>
  \<open>pkg/service/verifypresentation/verifypresentation_service.go\<close>. The interface \<open>vcVerifier\<close> of the
  service is the two fields \<open>vp_credentialProof\<close> and \<open>vp_status\<close>; its contract is the locale
  \<open>vc_verifier\<close>, interpreted on the credential verification service. The options and check results
  of the package have the shape of those of package \<open>verifycredential\<close> and share their records.
\<close>

record vp_env =
  vp_marshalVP :: "presentation \<Rightarrow> vc_bytes res"
  vp_parseVP :: "vc_bytes \<Rightarrow> presentation res"
  vp_marshalVC :: "json \<Rightarrow> vc_bytes res"
  vp_parseVC :: "vc_bytes \<Rightarrow> credential res"
  vp_resolve :: "string \<Rightarrow> did_doc res"
  vp_credentialProof :: "vc_bytes \<Rightarrow> string \<Rightarrow> string \<Rightarrow> bool \<Rightarrow> bool \<Rightarrow> unit res"
  vp_status :: "typed_id option \<Rightarrow> string \<Rightarrow> unit res"

definition no_verify_opts :: verify_opts where
  "no_verify_opts = \<lparr>vo_Challenge = [], vo_Domain = []\<rparr>"

definition validateProofData :: "vp_env \<Rightarrow> presentation \<Rightarrow> verify_opts option \<Rightarrow> unit res" where
  "validateProofData env vp opts =
     (let o1 = (case opts of None \<Rightarrow> no_verify_opts | Some o2 \<Rightarrow> o2)
      in case pr_Proofs vp of
           [] \<Rightarrow> Err (ErrMsg ''verifiable presentation doesn't contains proof'')
         | proof # _ \<Rightarrow>
             bindR (validateProofKey proof ''challenge'' (vo_Challenge o1)) (\<lambda>_.
             bindR (validateProofKey proof ''domain'' (vo_Domain o1)) (\<lambda>_.
             bindR (getVerificationMethodFromProof proof) (\<lambda>method.
             bindR (getDIDDocFromVerificationMethod (vp_resolve env) method) (\<lambda>doc.
             if pr_Holder vp \<noteq> [] \<and> pr_Holder vp \<noteq> dd_ID doc
             then Err (ErrMsg ''controller of verification method doesn't match the holder'')
             else wrapR ''verifiable presentation proof purpose validation error : '' (validateProof proof method doc))))))"

definition validatePresentationProof :: "vp_env \<Rightarrow> vc_bytes \<Rightarrow> verify_opts option \<Rightarrow> unit res" where
  "validatePresentationProof env vpBytes opts =
     bindR (wrapR ''verifiable presentation proof validation error : '' (vp_parseVP env vpBytes)) (\<lambda>vp.
     if pr_JWT vp = [] then validateProofData env vp opts else Ok ())"

definition validateCredentialsProof :: "vp_env \<Rightarrow> presentation \<Rightarrow> unit res" where
  "validateCredentialsProof env vp =
     eachR (\<lambda>cred. bindR (vp_marshalVC env cred) (\<lambda>b. vp_credentialProof env b [] [] True (pr_JWT vp \<noteq> [])))
       (pr_Credentials vp)"

definition validateCredentialsStatus :: "vp_env \<Rightarrow> presentation \<Rightarrow> unit res" where
  "validateCredentialsStatus env vp =
     eachR (\<lambda>cred. bindR (vp_marshalVC env cred) (\<lambda>b. bindR (vp_parseVC env b) (\<lambda>vc.
              vp_status env (cr_Status vc) (is_ID (cr_Issuer vc)))))
       (pr_Credentials vp)"

definition vpBytesOf :: "vp_env \<Rightarrow> presentation \<Rightarrow> vc_bytes res" where
  "vpBytesOf env p =
     (if pr_JWT p = [] then wrapR ''unexpected error on credential marshal: '' (vp_marshalVP env p)
      else Ok (JwtBytes (pr_JWT p)))"

definition verifyPresentation ::
  "vp_env \<Rightarrow> presentation \<Rightarrow> verify_opts option \<Rightarrow> 'pd verifier \<Rightarrow> check_result list res" where
  "verifyPresentation env p opts profile =
     bindR (deref (pv_Checks profile)) (\<lambda>checks.
     bindR (deref (vk_Presentation checks)) (\<lambda>pc.
     bindR (if pc_Proof pc
            then bindR (vpBytesOf env p) (\<lambda>b. as_failure ''proof'' (validatePresentationProof env b opts))
            else Ok []) (\<lambda>r1.
     bindR (if cc_Proof (vk_Credential checks) then as_failure ''credentialProof'' (validateCredentialsProof env p)
            else Ok []) (\<lambda>r2.
     bindR (if cc_Status (vk_Credential checks) then as_failure ''credentialStatus'' (validateCredentialsStatus env p)
            else Ok []) (\<lambda>r3.
     Ok (r1 @ r2 @ r3))))))"

subsection \<open>The verifier of credentials a presentation relies on\<close>

text \<open>\<open>sound b jwt\<close> says that the bytes parsed as an acceptable credential; \<open>clear st iss\<close> that the
  status of a credential by \<open>iss\<close> is not revoked.\<close>

locale vc_verifier =
  fixes credentialProof :: "vc_bytes \<Rightarrow> string \<Rightarrow> string \<Rightarrow> bool \<Rightarrow> bool \<Rightarrow> unit res"
    and status :: "typed_id option \<Rightarrow> string \<Rightarrow> unit res"
    and sound :: "vc_bytes \<Rightarrow> bool \<Rightarrow> bool"
    and clear :: "typed_id option \<Rightarrow> string \<Rightarrow> bool"
  assumes proof_sound: "credentialProof b ch dm True jwt = Ok () \<Longrightarrow> sound b jwt"
    and status_sound: "status st iss = Ok () \<Longrightarrow> clear st iss"
begin

lemma credentials_hold:
  assumes "vp_credentialProof env = credentialProof" "vp_status env = status"
    and "validateCredentialsProof env p = Ok ()" "validateCredentialsStatus env p = Ok ()" "cred \<in> set (pr_Credentials p)"
  shows "\<exists>b vc. vp_marshalVC env cred = Ok b \<and> sound b (pr_JWT p \<noteq> []) \<and> vp_parseVC env b = Ok vc
    \<and> clear (cr_Status vc) (is_ID (cr_Issuer vc))"
proof -
  obtain b where b: "vp_marshalVC env cred = Ok b" "credentialProof b [] [] True (pr_JWT p \<noteq> []) = Ok ()"
    using assms(1,3,5) by (auto simp: validateCredentialsProof_def)
  moreover obtain vc where "vp_parseVC env b = Ok vc" "status (cr_Status vc) (is_ID (cr_Issuer vc)) = Ok ()"
    using assms(2,4,5) b(1) by (auto simp: validateCredentialsStatus_def)
  ultimately show ?thesis
    using proof_sound status_sound by blast
qed

end

text \<open>The credential verification service keeps the contract.\<close>

definition credential_sound :: "verify_env \<Rightarrow> vc_bytes \<Rightarrow> bool \<Rightarrow> bool" where
  "credential_sound env b isJWT \<longleftrightarrow> (\<exists>c. ve_parse env (\<not> isJWT) b = Ok c \<and>
     (cr_JWT c \<noteq> [] \<or> (\<exists>proof rest. cr_Proofs c = proof # rest \<and> proof_binds env (is_ID (cr_Issuer c)) proof)))"

definition status_clear :: "verify_env \<Rightarrow> typed_id option \<Rightarrow> string \<Rightarrow> bool" where
  "status_clear env status iss \<longleftrightarrow>
     (\<exists>st. status = Some st \<and> ti_Type st = StatusList2021Entry \<and> status_bit env st iss False)"

interpretation vcv: vc_verifier "validateCredentialProof env" "validateStatus env" "credential_sound env" "status_clear env"
  for env
  by unfold_locales
    (auto simp: credential_sound_def status_clear_def dest!: validateCredentialProof_Ok validateStatus_Ok)

lemma verifyPresentation_Nil:
  "verifyPresentation env p opts profile = Ok [] \<longleftrightarrow> (\<exists>checks pc. pv_Checks profile = Some checks \<and> vk_Presentation checks = Some pc
     \<and> (pc_Proof pc \<longrightarrow> (\<exists>b. vpBytesOf env p = Ok b \<and> validatePresentationProof env b opts = Ok ()))
     \<and> (cc_Proof (vk_Credential checks) \<longrightarrow> validateCredentialsProof env p = Ok ())
     \<and> (cc_Status (vk_Credential checks) \<longrightarrow> validateCredentialsStatus env p = Ok ()))"
  by (auto simp: verifyPresentation_def)

lemma validateProofData_Ok:
  assumes "validateProofData env vp (Some opts) = Ok ()"
  shows "\<exists>proof rest method d doc purpose. pr_Proofs vp = proof # rest
     \<and> validateProofKey proof ''challenge'' (vo_Challenge opts) = Ok () \<and> validateProofKey proof ''domain'' (vo_Domain opts) = Ok ()
     \<and> map_of proof ''verificationMethod'' = Some (JStr method) \<and> getDIDFromVerificationMethod method = Ok d
     \<and> vp_resolve env d = Ok doc \<and> (pr_Holder vp = [] \<or> pr_Holder vp = dd_ID doc)
     \<and> map_of proof ''proofPurpose'' = Some (JStr purpose) \<and> authorised purpose method doc"
proof (cases "pr_Proofs vp")
  case (Cons proof' rest)
  then obtain mth doc where "validateProofKey proof' ''challenge'' (vo_Challenge opts) = Ok ()"
    "validateProofKey proof' ''domain'' (vo_Domain opts) = Ok ()" "getVerificationMethodFromProof proof' = Ok mth"
    "getDIDDocFromVerificationMethod (vp_resolve env) mth = Ok doc" "pr_Holder vp = [] \<or> pr_Holder vp = dd_ID doc"
    "validateProof proof' mth doc = Ok ()"
    using assms by (auto simp: validateProofData_def split: if_splits)
  then show ?thesis
    using Cons by (auto simp: getVerificationMethodFromProof_Ok getDIDDoc_Ok validateProof_Ok)
qed (use assms in \<open>simp add: validateProofData_def\<close>)

text \<open>A presentation proof made by its holder for this challenge and domain.\<close>

definition holder_proof :: "vp_env \<Rightarrow> verify_opts \<Rightarrow> presentation \<Rightarrow> bool" where
  "holder_proof env opts vp \<longleftrightarrow> (\<exists>proof rest method d doc purpose. pr_Proofs vp = proof # rest
     \<and> validateProofKey proof ''challenge'' (vo_Challenge opts) = Ok () \<and> validateProofKey proof ''domain'' (vo_Domain opts) = Ok ()
     \<and> map_of proof ''verificationMethod'' = Some (JStr method) \<and> getDIDFromVerificationMethod method = Ok d
     \<and> vp_resolve env d = Ok doc \<and> (pr_Holder vp = [] \<or> pr_Holder vp = dd_ID doc)
     \<and> map_of proof ''proofPurpose'' = Some (JStr purpose) \<and> authorised purpose method doc)"

subsection \<open>Property\<close>

text \<open>C16: A presentation passes only if all of it holds up. If the verifier runs all three checks over
  the credential verification service and \<open>VerifyPresentation\<close> reports no failed check, then the
  presentation parsed with signature verification; unless it is a JWT, its first proof answers the
  challenge and domain and was made by a key of the holder's DID document for an allowed purpose;
  and every credential in it has an acceptable proof bound to its issuer and a clear status bit.\<close>
theorem verified_presentation_sound:
  assumes "verifyPresentation env p (Some opts) profile = Ok []"
    and "pv_Checks profile = Some checks" "vk_Presentation checks = Some pc" "pc_Proof pc"
    and "cc_Proof (vk_Credential checks)" "cc_Status (vk_Credential checks)"
    and "vp_credentialProof env = validateCredentialProof cenv" "vp_status env = validateStatus cenv"
  shows "(\<exists>b vp. vpBytesOf env p = Ok b \<and> vp_parseVP env b = Ok vp \<and> (pr_JWT vp \<noteq> [] \<or> holder_proof env opts vp))
    \<and> (\<forall>cred \<in> set (pr_Credentials p). \<exists>b vc. vp_marshalVC env cred = Ok b \<and> credential_sound cenv b (pr_JWT p \<noteq> [])
        \<and> vp_parseVC env b = Ok vc \<and> status_clear cenv (cr_Status vc) (is_ID (cr_Issuer vc)))"
proof -
  obtain b where b: "vpBytesOf env p = Ok b" "validatePresentationProof env b (Some opts) = Ok ()"
    "validateCredentialsProof env p = Ok ()" "validateCredentialsStatus env p = Ok ()"
    using assms(1-6) by (auto simp: verifyPresentation_Nil)
  obtain vp where vp: "vp_parseVP env b = Ok vp" "pr_JWT vp \<noteq> [] \<or> validateProofData env vp (Some opts) = Ok ()"
    using b(2) by (auto simp: validatePresentationProof_def split: if_splits)
  have "pr_JWT vp \<noteq> [] \<or> holder_proof env opts vp"
    using vp(2) validateProofData_Ok [of env vp opts] unfolding holder_proof_def by blast
  then show ?thesis
    using vcv.credentials_hold [OF assms(7,8) b(3,4)] b(1) vp(1) by blast
qed

definition holder_doc :: did_doc where
  "holder_doc = demo_doc\<lparr>dd_authentication := [''did:a#k'']\<rparr>"

definition sample_vp :: presentation where
  "sample_vp = \<lparr>pr_Holder = ''did:a'', pr_Proofs = [[(''challenge'', JStr ''ch''), (''domain'', JStr ''d''),
      (''verificationMethod'', JStr ''did:a#k''), (''proofPurpose'', JStr ''authentication'')]], pr_JWT = [],
     pr_Credentials = [JObj []], pr_Context = [], pr_Types = [], pr_Custom = []\<rparr>"

definition sample_vp_env :: vp_env where
  "sample_vp_env = \<lparr>vp_marshalVP = (\<lambda>_. Ok (JsonBytes JNull)), vp_parseVP = (\<lambda>_. Ok sample_vp),
     vp_marshalVC = (\<lambda>j. Ok (JsonBytes j)), vp_parseVC = (\<lambda>_. Ok sample_vc), vp_resolve = (\<lambda>_. Ok holder_doc),
     vp_credentialProof = validateCredentialProof (sample_env 0), vp_status = validateStatus (sample_env 0)\<rparr>"

definition full_checks :: verification_checks where
  "full_checks = \<lparr>vk_Credential = \<lparr>cc_Proof = True, cc_Format = [], cc_Status = True\<rparr>,
     vk_Presentation = Some \<lparr>pc_Proof = True, pc_VCSubject = False, pc_Format = []\<rparr>\<rparr>"

definition full_verifier :: "unit verifier" where
  "full_verifier = strict_verifier\<lparr>pv_Checks := Some full_checks\<rparr>"

lemma sample_vp_verifies:
  "verifyPresentation sample_vp_env sample_vp (Some \<lparr>vo_Challenge = ''ch'', vo_Domain = ''d''\<rparr>) full_verifier = Ok []"
proof -
  have "validatePresentationProof sample_vp_env (JsonBytes JNull) (Some \<lparr>vo_Challenge = ''ch'', vo_Domain = ''d''\<rparr>) = Ok ()"
    by (simp add: validatePresentationProof_def validateProofData_def sample_vp_env_def sample_vp_def validateProofKey_def
        getVerificationMethodFromProof_def getDIDDocFromVerificationMethod_def getDIDFromVerificationMethod_def
        holder_doc_def demo_doc_def validateProof_def validateProofPurpose_def has_prefix_def AssertionMethod_def
        Authentication_def Let_def)
  moreover have "validateCredentialProof (sample_env 0) (JsonBytes (JObj [])) [] [] True False = Ok ()"
    by (simp add: validateCredentialProof_def parseAndVerifyVC_def sample_env_def sample_vc_def empty_credential_def
        sample_proof_def getVerificationMethodFromProof_def getDIDDocFromVerificationMethod_def
        getDIDFromVerificationMethod_def demo_doc_def validateProof_def validateProofPurpose_def has_prefix_def
        AssertionMethod_def Let_def)
  moreover have "validateStatus (sample_env 0) (Some sample_status) ''did:a'' = Ok ()"
    using sample_status_ok .
  ultimately show ?thesis
    unfolding verifyPresentation_Nil
    by (simp add: full_verifier_def full_checks_def vpBytesOf_def validateCredentialsProof_def validateCredentialsStatus_def)
       (simp add: sample_vp_env_def sample_vp_def sample_vc_def empty_credential_def)
qed

theorem verified_presentation_sound_witness:
  "\<exists>b st. credential_sound (sample_env 0) b False \<and> holder_proof sample_vp_env \<lparr>vo_Challenge = ''ch'', vo_Domain = ''d''\<rparr> sample_vp
     \<and> status_clear (sample_env 0) st ''did:a''"
  using verified_presentation_sound [OF sample_vp_verifies, of full_checks "the (vk_Presentation full_checks)" "sample_env 0"]
  by (auto simp: full_verifier_def full_checks_def sample_vp_env_def sample_vp_def sample_vc_def vpBytesOf_def empty_credential_def)

end
