(* ===== verification/Event_Model.thy ===== *)
theory Event_Model
  imports Verifiable_Model
begin

text \<open>
  \<open>pkg/event/spi/spi.go\<close>: events, and \<open>handleEvent\<close> of \<open>component/event/event.go\<close>, which delivers
  them to web hooks. The payload bytes of an event are the JSON value they encode; the time stamp is
  an integer. The HTTP call of the web hook is a parameter.
\<close>

definition VerifierEventTopic :: string where "VerifierEventTopic = ''vcs-verifier''"
definition VerifierOIDCInteractionInitiated :: string where "VerifierOIDCInteractionInitiated = ''oidc_interaction_initiated''"
definition VerifierOIDCInteractionQRScanned :: string where "VerifierOIDCInteractionQRScanned = ''oidc_interaction_qr_scanned''"
definition VerifierOIDCInteractionSucceeded :: string where "VerifierOIDCInteractionSucceeded = ''oidc_interaction_succeeded''"

record event =
  ev_SpecVersion :: string
  ev_ID :: string
  ev_Source :: string
  ev_Type :: string
  ev_DataContentType :: string
  ev_Time :: int
  ev_Data :: json

definition newEvent :: "string \<Rightarrow> string \<Rightarrow> string \<Rightarrow> json \<Rightarrow> int \<Rightarrow> event" where
  "newEvent uuid source eventType payload now =
     \<lparr>ev_SpecVersion = ''1.0'', ev_ID = uuid, ev_Source = source, ev_Type = eventType,
      ev_DataContentType = ''application/json'', ev_Time = now, ev_Data = payload\<rparr>"

definition copyEvent :: "event \<Rightarrow> event" where
  "copyEvent m = \<lparr>ev_SpecVersion = ev_SpecVersion m, ev_ID = ev_ID m, ev_Source = ev_Source m, ev_Type = ev_Type m,
     ev_DataContentType = ev_DataContentType m, ev_Time = ev_Time m, ev_Data = ev_Data m\<rparr>"

lemma copyEvent_id [simp]: "copyEvent m = m"
  by (simp add: copyEvent_def)

text \<open>\<open>webhook_of\<close> is \<open>json.Unmarshal\<close> into \<open>eventPayload\<close>: a field of another type is an error, an
  absent or null one is empty.\<close>

definition webhook_of :: "json \<Rightarrow> string res" where
  "webhook_of j = (case j of
       JObj m \<Rightarrow> (case fget m ''webHook'' of
            JNull \<Rightarrow> Ok [] | JStr s \<Rightarrow> Ok s | _ \<Rightarrow> Err (ErrExt ''json: cannot unmarshal into Go struct field''))
     | JNull \<Rightarrow> Ok []
     | _ \<Rightarrow> Err (ErrExt ''json: cannot unmarshal into Go value of type event.eventPayload''))"

text \<open>\<open>post url body\<close> is the status code of the response.\<close>

definition handleEvent :: "(event \<Rightarrow> 'b res) \<Rightarrow> (string \<Rightarrow> 'b \<Rightarrow> int res) \<Rightarrow> event \<Rightarrow> unit res" where
  "handleEvent marshal post e =
     (if ev_Type e = VerifierOIDCInteractionInitiated \<or> ev_Type e = VerifierOIDCInteractionSucceeded
         \<or> ev_Type e = VerifierOIDCInteractionQRScanned
      then bindR (webhook_of (ev_Data e)) (\<lambda>hook.
           if hook \<noteq> []
           then bindR (marshal e) (\<lambda>req.
                bindR (post hook req) (\<lambda>code.
                if code \<noteq> 200 then Err (ErrMsg (hook @ '' webhook return '' @ format_int code)) else Ok ()))
           else Ok ())
      else Ok ())"

end
