(* ===== verification/Request_Object.thy ===== *)
theory Request_Object
  imports Mongo_Mem Event_Model
begin

text \<open>
  Request objects waiting for the wallet: the MongoDB repository
  (\<open>pkg/storage/mongodb/requestobjectstore\<close>) and the public store over it
  (\<open>component/oidc/vp/requestobjectstore.go\<close>). The conversion of events to stored maps
  (\<open>StructureToMap\<close>, \<open>MapToStructure\<close>) and \<open>url.JoinPath\<close> are parameters.
\<close>

definition ro_ErrDataNotFound :: go_error where
  "ro_ErrDataNotFound = ErrVar ''requestobject.ErrDataNotFound'' ''data not found''"

record request_object =
  ro_ID :: string
  ro_Content :: string
  ro_Event :: event

record ro_doc =
  rd_Content :: string
  rd_Event :: json

type_synonym 'c ro_coll = "('c, ro_doc) coll"

record ro_codec =
  rc_toMap :: "event \<Rightarrow> json res"
  rc_ofMap :: "json \<Rightarrow> event res"

definition object_key :: "(string \<Rightarrow> bool) \<Rightarrow> string \<Rightarrow> string res" where
  "object_key hex i = (if hex i then Ok (to_lower i) else Err (ErrExt ''the provided hex string is not a valid ObjectID''))"

definition roCreate :: "ro_codec \<Rightarrow> request_object \<Rightarrow> 'c ro_coll \<Rightarrow> request_object res \<times> 'c ro_coll" where
  "roCreate rc request s =
     andthen (wrapS ''create doc: '' (pure_op (rc_toMap rc (ro_Event request)) s)) (\<lambda>ev s.
     andthen (c_insert None \<lparr>rd_Content = ro_Content request, rd_Event = ev\<rparr> s) (\<lambda>i s.
     (Ok (request\<lparr>ro_ID := i\<rparr>), s)))"

definition ro_of :: "ro_codec \<Rightarrow> string \<Rightarrow> ro_doc \<Rightarrow> request_object res" where
  "ro_of rc i d =
     bindR (wrapR ''access request object event deserialization failed: '' (rc_ofMap rc (rd_Event d))) (\<lambda>ev.
     Ok \<lparr>ro_ID = i, ro_Content = rd_Content d, ro_Event = ev\<rparr>)"

definition roFind :: "ro_codec \<Rightarrow> string \<Rightarrow> 'c ro_coll \<Rightarrow> request_object res \<times> 'c ro_coll" where
  "roFind rc i s =
     andthen (pure_op (object_key (valid_hex (drv s)) i) s) (\<lambda>k s.
     case c_find (by_id k) s of
       (Ok (j, d), s) \<Rightarrow> (ro_of rc j d, s)
     | (Err e, s) \<Rightarrow>
         if err_is e ErrNoDocuments then (Err ro_ErrDataNotFound, s) else (Err (ErrWrap ''tx find failed: '' e), s)
     | (Panic p, s) \<Rightarrow> (Panic p, s))"

definition roDelete :: "string \<Rightarrow> 'c ro_coll \<Rightarrow> unit res \<times> 'c ro_coll" where
  "roDelete i s =
     andthen (pure_op (object_key (valid_hex (drv s)) i) s) (\<lambda>k s.
     andthen (c_delete (by_id k) s) (\<lambda>_ s. (Ok (), s)))"

subsection \<open>The public store\<close>

record 'w ro_service =
  rs_create :: "request_object \<Rightarrow> 'w \<Rightarrow> request_object res \<times> 'w"
  rs_find :: "string \<Rightarrow> 'w \<Rightarrow> request_object res \<times> 'w"
  rs_delete :: "string \<Rightarrow> 'w \<Rightarrow> unit res \<times> 'w"
  rs_send :: "string \<Rightarrow> event list \<Rightarrow> 'w \<Rightarrow> unit res \<times> 'w"
  rs_joinPath :: "string \<Rightarrow> string list \<Rightarrow> string res"
  rs_selfURI :: string

definition roPublish :: "'w ro_service \<Rightarrow> string \<Rightarrow> event \<Rightarrow> 'w \<Rightarrow> string res \<times> 'w" where
  "roPublish rs content ev w =
     andthen (rs_create rs \<lparr>ro_ID = [], ro_Content = content, ro_Event = ev\<rparr> w) (\<lambda>resp w.
     pure_op (rs_joinPath rs (rs_selfURI rs) [ro_ID resp]) w)"

definition roRemove :: "'w ro_service \<Rightarrow> string \<Rightarrow> 'w \<Rightarrow> unit res \<times> 'w" where
  "roRemove rs i w = rs_delete rs (last (split_on CHR ''/'' i)) w"

definition roGet :: "'w ro_service \<Rightarrow> string \<Rightarrow> 'w \<Rightarrow> request_object res \<times> 'w" where
  "roGet rs i w =
     andthen (rs_find rs i w) (\<lambda>result w.
     andthen (rs_send rs VerifierEventTopic [ro_Event result] w) (\<lambda>_ w.
     (Ok result, w)))"

subsection \<open>The contract of the repository\<close>

text \<open>\<open>objs\<close>: the stored objects, as far as they can be decoded.\<close>

locale request_repo =
  fixes create :: "request_object \<Rightarrow> 's \<Rightarrow> request_object res \<times> 's"
    and findo :: "string \<Rightarrow> 's \<Rightarrow> request_object res \<times> 's"
    and del :: "string \<Rightarrow> 's \<Rightarrow> unit res \<times> 's"
    and inv :: "'s \<Rightarrow> bool"
    and objs :: "'s \<Rightarrow> string \<rightharpoonup> request_object res"
  assumes create_eff: "inv s \<Longrightarrow> create q s = (Ok q', s') \<Longrightarrow> inv s' \<and> (\<exists>i t. q' = q\<lparr>ro_ID := i\<rparr> \<and> CHR ''/'' \<notin> set i
      \<and> to_lower i = i \<and> objs s i = None \<and> objs s' = (objs s)(i \<mapsto> t) \<and> (\<forall>x. t = Ok x \<longrightarrow> x = q'))"
    and find_eff: "inv s \<Longrightarrow> findo i s = (r, s') \<Longrightarrow> inv s' \<and> objs s' = objs s \<and> (\<forall>x. r = Ok x \<longrightarrow> objs s (to_lower i) = Some (Ok x))"
    and del_eff: "inv s \<Longrightarrow> del i s = (d, s') \<Longrightarrow> inv s' \<and> (objs s' = objs s \<or> objs s' = (objs s)(to_lower i := None))
      \<and> (d = Ok () \<longrightarrow> objs s' (to_lower i) = None)"

definition ro_objs :: "ro_codec \<Rightarrow> 'c ro_coll \<Rightarrow> string \<rightharpoonup> request_object res" where
  "ro_objs rc s i = map_option (ro_of rc i) (docs s i)"

lemma ro_objs_same: "docs s' = docs s \<Longrightarrow> ro_objs rc s' = ro_objs rc s"
  by (simp add: ro_objs_def fun_eq_iff)

definition ro_codec_ok :: "ro_codec \<Rightarrow> bool" where
  "ro_codec_ok rc \<longleftrightarrow> (\<forall>e j e'. rc_toMap rc e = Ok j \<longrightarrow> rc_ofMap rc j = Ok e' \<longrightarrow> e' = e)"

lemma roCreate_Ok:
  assumes "coll_ok no_clash s" "ro_codec_ok rc" "roCreate rc q s = (Ok q', s')"
  shows "coll_ok no_clash s' \<and> (\<exists>i t. q' = q\<lparr>ro_ID := i\<rparr> \<and> CHR ''/'' \<notin> set i
      \<and> to_lower i = i \<and> ro_objs rc s i = None \<and> ro_objs rc s' = (ro_objs rc s)(i \<mapsto> t) \<and> (\<forall>x. t = Ok x \<longrightarrow> x = q'))"
proof -
  obtain ev i where c: "rc_toMap rc (ro_Event q) = Ok ev" "q' = q\<lparr>ro_ID := i\<rparr>"
    "c_insert None \<lparr>rd_Content = ro_Content q, rd_Event = ev\<rparr> s = (Ok i, s')"
    using assms(3) by (auto simp: roCreate_def wrapS_def)
  have ok: "coll_ok no_clash s'" using coll_ok_after(1) [OF c(3)] assms(1) by blast
  from assms(1) c(3) show ?thesis
  proof (cases rule: c_insert_cases)
    case (ok j)
    have "x = q'" if "ro_of rc i \<lparr>rd_Content = ro_Content q, rd_Event = ev\<rparr> = Ok x" for x
      using that assms(2) c(1,2) by (auto simp: ro_of_def ro_codec_ok_def)
    then show ?thesis
      using ok \<open>coll_ok no_clash s'\<close> c(2) by (fastforce simp: ro_objs_def)
  qed auto
qed

lemma roFind_step:
  assumes "coll_ok no_clash s" "roFind rc i s = (r, s')"
  shows "coll_ok no_clash s' \<and> ro_objs rc s' = ro_objs rc s \<and> (\<forall>x. r = Ok x \<longrightarrow> ro_objs rc s (to_lower i) = Some (Ok x))"
proof (cases "valid_hex (drv s) i")
  case True
  obtain q t where c: "c_find (by_id (to_lower i)) s = (q, t)" by fastforce
  have okt: "coll_ok no_clash t" using coll_ok_after(2) [OF c] assms(1) by blast
  have key: "object_key (valid_hex (drv s)) i = Ok (to_lower i)" using True by (simp add: object_key_def)
  note def = assms(2) [unfolded roFind_def key andthen_pure_Ok c]
  from assms(1) c show ?thesis
    by (cases rule: c_find_cases) (use def okt ro_objs_same [of t s rc] in \<open>auto simp: ro_objs_def split: if_splits\<close>)
qed (use assms in \<open>auto simp: roFind_def object_key_def pure_op_def\<close>)

lemma roDelete_step:
  assumes "coll_ok no_clash s" "roDelete i s = (r, s')"
  shows "coll_ok no_clash s' \<and> (ro_objs rc s' = ro_objs rc s \<or> ro_objs rc s' = (ro_objs rc s)(to_lower i := None))
    \<and> (r = Ok () \<longrightarrow> ro_objs rc s' (to_lower i) = None)"
proof (cases "valid_hex (drv s) i")
  case True
  obtain q t where c: "c_delete (by_id (to_lower i)) s = (q, t)" by fastforce
  have key: "object_key (valid_hex (drv s)) i = Ok (to_lower i)" using True by (simp add: object_key_def)
  have t: "s' = t" "\<And>u. r = Ok u \<Longrightarrow> is_ok q"
    using assms(2) [unfolded roDelete_def key andthen_pure_Ok c] by (cases q; auto)+
  have okt: "coll_ok no_clash t" using coll_ok_after(5) [OF c] assms(1) by blast
  from assms(1) c show ?thesis
    by (cases rule: c_delete_cases) (use t okt ro_objs_same [of t s rc] in \<open>auto simp: ro_objs_def fun_eq_iff\<close>)
qed (use assms in \<open>auto simp: roDelete_def object_key_def pure_op_def\<close>)

text \<open>The repository with a codec that gives back the event it was given.\<close>

definition ro_inv :: "ro_codec \<Rightarrow> 'c ro_coll \<Rightarrow> bool" where
  "ro_inv rc s \<longleftrightarrow> coll_ok no_clash s \<and> ro_codec_ok rc"

interpretation ro: request_repo "roCreate rc" "roFind rc" roDelete "ro_inv rc" "ro_objs rc"
proof (unfold_locales, goal_cases)
  case (1 s q q' s')
  then show ?case using roCreate_Ok [of s rc q q' s'] by (simp add: ro_inv_def)
next
  case (2 s i r s')
  then show ?case using roFind_step [of s rc i r s'] by (simp add: ro_inv_def)
next
  case (3 s i d s')
  then show ?case using roDelete_step [of s i d s' rc] by (simp add: ro_inv_def)
qed

subsection \<open>The public store over a repository\<close>

text \<open>\<open>ro_over\<close>: the service runs these operations on a part \<open>gt\<close> of the state that sending events does
  not touch, and \<open>JoinPath\<close> appends a plain segment after a slash.\<close>

definition ro_over ::
  "('w \<Rightarrow> 's) \<Rightarrow> ('s \<Rightarrow> 'w \<Rightarrow> 'w) \<Rightarrow> (request_object \<Rightarrow> 's \<Rightarrow> request_object res \<times> 's) \<Rightarrow> (string \<Rightarrow> 's \<Rightarrow> request_object res \<times> 's)
   \<Rightarrow> (string \<Rightarrow> 's \<Rightarrow> unit res \<times> 's) \<Rightarrow> 'w ro_service \<Rightarrow> bool" where
  "ro_over gt pt create findo del rs \<longleftrightarrow> (\<forall>s w. gt (pt s w) = s)
     \<and> rs_create rs = (\<lambda>q. lift_op gt pt (create q)) \<and> rs_find rs = (\<lambda>i. lift_op gt pt (findo i))
     \<and> rs_delete rs = (\<lambda>i. lift_op gt pt (del i))
     \<and> (\<forall>topic evs w. gt (snd (rs_send rs topic evs w)) = gt w)
     \<and> (\<forall>u i v. CHR ''/'' \<notin> set i \<longrightarrow> rs_joinPath rs u [i] = Ok v \<longrightarrow> (\<exists>base. v = base @ CHR ''/'' # i))"

lemma last_segment: "sep \<notin> set i \<Longrightarrow> last (split_on sep (base @ sep # i)) = i"
proof (induction base)
  case (Cons c base)
  have "split_on sep (base @ sep # i) \<noteq> []" "tl (split_on sep (base @ sep # i)) \<noteq> []"
    using length_split_on [of sep "base @ sep # i"] by (auto simp: tl_Nil)
  then show ?case
    using Cons by (cases "split_on sep (base @ sep # i)") auto
qed (simp add: split_on_no_sep)

context request_repo
begin

lemma published_object:
  assumes over: "ro_over gt pt create findo del rs" and inv: "inv (gt w)" and pub: "roPublish rs content ev w = (Ok uri, w1)"
  shows "\<exists>i t. last (split_on CHR ''/'' uri) = i \<and> to_lower i = i \<and> objs (gt w) i = None \<and> inv (gt w1)
    \<and> objs (gt w1) = (objs (gt w))(i \<mapsto> t) \<and> (\<forall>x. t = Ok x \<longrightarrow> x = \<lparr>ro_ID = i, ro_Content = content, ro_Event = ev\<rparr>)"
proof -
  have o: "rs_create rs = (\<lambda>q. lift_op gt pt (create q))" "\<And>s w. gt (pt s w) = s"
    "\<And>u i v. CHR ''/'' \<notin> set i \<Longrightarrow> rs_joinPath rs u [i] = Ok v \<Longrightarrow> \<exists>base. v = base @ CHR ''/'' # i"
    using over by (auto simp: ro_over_def)
  obtain resp where c: "rs_create rs \<lparr>ro_ID = [], ro_Content = content, ro_Event = ev\<rparr> w = (Ok resp, w1)"
    "rs_joinPath rs (rs_selfURI rs) [ro_ID resp] = Ok uri"
    using pub by (auto simp: roPublish_def)
  obtain s' where s': "create \<lparr>ro_ID = [], ro_Content = content, ro_Event = ev\<rparr> (gt w) = (Ok resp, s')" "w1 = pt s' w"
    using c(1) o(1) by (auto simp: lift_op_def prod_eq_iff)
  from create_eff [OF inv s'(1)] obtain i t where i: "inv s'" "resp = \<lparr>ro_ID = i, ro_Content = content, ro_Event = ev\<rparr>"
    "CHR ''/'' \<notin> set i" "to_lower i = i" "objs (gt w) i = None" "objs s' = (objs (gt w))(i \<mapsto> t)" "\<forall>x. t = Ok x \<longrightarrow> x = resp"
    by auto
  have "\<exists>base. uri = base @ CHR ''/'' # i"
    using o(3) [OF i(3)] c(2) i(2) by simp
  then obtain base where "uri = base @ CHR ''/'' # i" by blast
  then show ?thesis
    using last_segment [of "CHR ''/''" i base] i s'(2) o(2) by auto
qed

lemma get_object:
  assumes over: "ro_over gt pt create findo del rs" and inv: "inv (gt w)" and run: "roGet rs i w = (Ok x, w1)"
  shows "objs (gt w) (to_lower i) = Some (Ok x) \<and> (\<exists>wa wb. rs_send rs VerifierEventTopic [ro_Event x] wa = (Ok (), wb))"
proof -
  have o: "rs_find rs = (\<lambda>i. lift_op gt pt (findo i))"
    using over by (auto simp: ro_over_def)
  obtain wa where f: "rs_find rs i w = (Ok x, wa)" "rs_send rs VerifierEventTopic [ro_Event x] wa = (Ok (), w1)"
    using run by (auto simp: roGet_def)
  then show ?thesis
    using find_eff [OF inv, of i "Ok x" "snd (findo i (gt w))"] o by (auto simp: lift_op_def prod_eq_iff)
qed

lemma removed_object:
  assumes over: "ro_over gt pt create findo del rs" and inv: "inv (gt w)" and run: "roRemove rs uri w = (Ok (), w1)"
  shows "inv (gt w1) \<and> objs (gt w1) (to_lower (last (split_on CHR ''/'' uri))) = None"
proof -
  have o: "rs_delete rs = (\<lambda>i. lift_op gt pt (del i))" "\<And>s w. gt (pt s w) = s"
    using over by (auto simp: ro_over_def)
  let ?i = "last (split_on CHR ''/'' uri)"
  obtain s' where "del ?i (gt w) = (Ok (), s')" "w1 = pt s' w"
    using run o(1) by (auto simp: roRemove_def lift_op_def prod_eq_iff)
  then show ?thesis
    using del_eff [OF inv] o(2) by auto
qed

end

subsection \<open>Property\<close>


definition demo_event :: event where
  "demo_event = newEvent ''e1'' ''src'' VerifierOIDCInteractionQRScanned (JObj []) 7"

definition demo_ro_codec :: ro_codec where
  "demo_ro_codec = \<lparr>rc_toMap = (\<lambda>e. if e = demo_event then Ok (JObj []) else Err (ErrExt ''marshal'')), rc_ofMap = (\<lambda>_. Ok demo_event)\<rparr>"

type_synonym demo_ro_world = "(ro_doc mem, ro_doc) coll \<times> event list"

definition demo_ro :: "demo_ro_world ro_service" where
  "demo_ro = \<lparr>rs_create = (\<lambda>q. lift_op fst (\<lambda>s w. (s, snd w)) (roCreate demo_ro_codec q)),
     rs_find = (\<lambda>i. lift_op fst (\<lambda>s w. (s, snd w)) (roFind demo_ro_codec i)),
     rs_delete = (\<lambda>i. lift_op fst (\<lambda>s w. (s, snd w)) (roDelete i)),
     rs_send = (\<lambda>_ evs w. (Ok (), (fst w, snd w @ evs))),
     rs_joinPath = (\<lambda>u segs. Ok (u @ ''/'' @ concat segs)), rs_selfURI = ''http://vcs''\<rparr>"

definition demo_ro_start :: demo_ro_world where
  "demo_ro_start = (mem_coll no_clash [] [], [])"

lemma demo_ro_over: "ro_over fst (\<lambda>s w. (s, snd w)) (roCreate demo_ro_codec) (roFind demo_ro_codec) roDelete demo_ro"
  by (auto simp: ro_over_def demo_ro_def)

lemma demo_ro_inv: "ro_inv demo_ro_codec (fst demo_ro_start)"
  by (auto simp: ro_inv_def ro_codec_ok_def demo_ro_codec_def demo_ro_start_def split: if_splits)

lemmas ro_eval = pure_op_def demo_ro_def demo_ro_start_def demo_ro_codec_def roPublish_def roCreate_def roFind_def roDelete_def roGet_def
  roRemove_def lift_op_def mem_eval object_key_def ro_of_def mem_driver_def mem_hex_def digit_val_def eval_nat_numeral

definition published_world :: demo_ro_world where
  "published_world = snd (roPublish demo_ro ''jwt'' demo_event demo_ro_start)"

lemma demo_publish: "roPublish demo_ro ''jwt'' demo_event demo_ro_start = (Ok ''http://vcs/1'', published_world)"
  by (simp add: published_world_def ro_eval)

lemma lower_1: "to_lower ''1'' = ''1''"
  by code_simp

lemma demo_get: "\<exists>x w2. roGet demo_ro ''1'' published_world = (Ok x, w2)"
  by (simp add: published_world_def ro_eval lower_1)

lemma demo_remove: "\<exists>w2. roRemove demo_ro ''http://vcs/1'' published_world = (Ok (), w2)"
  by (simp add: published_world_def ro_eval lower_1)


end
