(* ===== verification/Oidc4vp_Tx_Store.thy ===== *)
theory Oidc4vp_Tx_Store
  imports Mongo_Mem Verifiable_Model
begin

text \<open>
  \<open>pkg/storage/mongodb/oidc4vptxstore/oidc4vp_tx_store.go\<close>: OIDC4VP transactions. Presentation
  definitions have the library type \<open>'pd\<close>; their conversion to a stored map (\<open>StructureToMap\<close>,
  \<open>MapToStructure\<close>) and the marshalling of credentials are parameters, the fields of \<open>tx_codec\<close>.
  The interface \<open>txStore\<close> of \<open>txmanager.go\<close> is the locale \<open>tx_store\<close>.
\<close>

definition vp_ErrDataNotFound :: go_error where
  "vp_ErrDataNotFound = ErrVar ''oidc4vp.ErrDataNotFound'' ''data not found''"

lemma vp_ErrDataNotFound_simps [simp]:
  "ErrWrap p e \<noteq> vp_ErrDataNotFound" "err_is vp_ErrDataNotFound vp_ErrDataNotFound"
  "ErrExt m \<noteq> vp_ErrDataNotFound" "ErrMsg m \<noteq> vp_ErrDataNotFound" "vp_ErrDataNotFound \<noteq> ErrNoDocuments"
  by (simp_all add: vp_ErrDataNotFound_def ErrNoDocuments_def)

type_synonym claims = "(string \<times> credential) list"

record 'pd transaction =
  tx_ID :: string
  tx_ProfileID :: string
  tx_PresentationDefinition :: 'pd
  tx_ReceivedClaims :: claims

record tx_doc =
  td_ProfileID :: string
  td_PresentationDefinition :: fields
  td_ReceivedClaims :: "(string \<times> vc_bytes) list"

type_synonym 'c tx_coll = "('c, tx_doc) coll"

record 'pd tx_codec =
  tc_toMap :: "'pd \<Rightarrow> fields res"
  tc_ofMap :: "fields \<Rightarrow> 'pd res"
  tc_marshal :: "credential \<Rightarrow> vc_bytes res"
  tc_parse :: "vc_bytes \<Rightarrow> credential res"

text \<open>\<open>ObjectIDFromHex\<close> accepts either letter case and \<open>Hex\<close> prints lower case, so the key is the
  lower-case form; the empty string stands for the nil object id.\<close>

definition nilObjectID :: string where
  "nilObjectID = replicate 24 (CHR ''0'')"

definition txIDFromString :: "(string \<Rightarrow> bool) \<Rightarrow> string \<Rightarrow> string res" where
  "txIDFromString hex strID =
     (if strID = [] then Ok nilObjectID
      else if hex strID then Ok (to_lower strID)
      else Err (ErrWrap (''tx invalid id('' @ strID @ ''): '') (ErrExt ''invalid ObjectID'')))"

definition txFromDocument :: "('pd, 'z) tx_codec_scheme \<Rightarrow> string \<Rightarrow> tx_doc \<Rightarrow> 'pd transaction res" where
  "txFromDocument tc i d =
     bindR (wrapR ''oidc4vp tx manager: pd deserialization failed: '' (tc_ofMap tc (td_PresentationDefinition d))) (\<lambda>pd.
     bindR (mapR (\<lambda>(k, b). bindR (wrapR ''oidc4vp tx manager: received claims deserialization failed: '' (tc_parse tc b))
                              (\<lambda>c. Ok (k, c))) (td_ReceivedClaims d)) (\<lambda>claims.
     Ok \<lparr>tx_ID = i, tx_ProfileID = td_ProfileID d, tx_PresentationDefinition = pd, tx_ReceivedClaims = claims\<rparr>))"

definition txCreate :: "('pd, 'z) tx_codec_scheme \<Rightarrow> 'pd \<Rightarrow> string \<Rightarrow> 'c tx_coll \<Rightarrow> string res \<times> 'c tx_coll" where
  "txCreate tc pd profileID s =
     andthen (pure_op (wrapR ''create tx doc: '' (tc_toMap tc pd)) s) (\<lambda>m s.
     c_insert None \<lparr>td_ProfileID = profileID, td_PresentationDefinition = m, td_ReceivedClaims = []\<rparr> s)"

definition txGet :: "('pd, 'z) tx_codec_scheme \<Rightarrow> string \<Rightarrow> 'c tx_coll \<Rightarrow> 'pd transaction res \<times> 'c tx_coll" where
  "txGet tc strID s =
     andthen (pure_op (txIDFromString (valid_hex (drv s)) strID) s) (\<lambda>i s.
     case c_find (by_id i) s of
       (Ok (j, d), s) \<Rightarrow> (txFromDocument tc j d, s)
     | (Err e, s) \<Rightarrow>
         if err_is e ErrNoDocuments then (Err vp_ErrDataNotFound, s)
         else (Err (ErrWrap ''tx find failed: '' e), s)
     | (Panic p, s) \<Rightarrow> (Panic p, s))"

definition set_claims :: "(string \<times> vc_bytes) list \<Rightarrow> tx_doc option \<Rightarrow> tx_doc" where
  "set_claims bs old = (case old of
       Some d \<Rightarrow> d\<lparr>td_ReceivedClaims := bs\<rparr>
     | None \<Rightarrow> \<lparr>td_ProfileID = [], td_PresentationDefinition = [], td_ReceivedClaims = bs\<rparr>)"

text \<open>A nil \<open>ReceivedClaims\<close> is the argument \<open>None\<close>.\<close>

definition marshalClaims :: "('pd, 'z) tx_codec_scheme \<Rightarrow> claims option \<Rightarrow> (string \<times> vc_bytes) list res" where
  "marshalClaims tc claims =
     (case claims of
        None \<Rightarrow> Ok []
      | Some cs \<Rightarrow> mapR (\<lambda>(k, c). bindR (wrapR ''update tx doc: encode received claims '' (tc_marshal tc c)) (\<lambda>b. Ok (k, b))) cs)"

definition txUpdate :: "('pd, 'z) tx_codec_scheme \<Rightarrow> string \<Rightarrow> claims option \<Rightarrow> 'c tx_coll \<Rightarrow> unit res \<times> 'c tx_coll" where
  "txUpdate tc strID claims s =
     andthen (pure_op (txIDFromString (valid_hex (drv s)) strID) s) (\<lambda>i s.
     andthen (pure_op (marshalClaims tc claims) s) (\<lambda>bs s.
     andthen (c_update i (set_claims bs) False s) (\<lambda>matched s.
     if matched = 0 then (Err (ErrMsg ''profile with given id not found''), s) else (Ok (), s))))"

subsection \<open>The contract\<close>

text \<open>The abstract view \<open>txs\<close> maps an id to the profile, the definition and the claims of its
  transaction, as far as they can be decoded.\<close>

locale tx_store =
  fixes create :: "'pd \<Rightarrow> string \<Rightarrow> 's \<Rightarrow> string res \<times> 's"
    and get :: "string \<Rightarrow> 's \<Rightarrow> 'pd transaction res \<times> 's"
    and update :: "string \<Rightarrow> claims option \<Rightarrow> 's \<Rightarrow> unit res \<times> 's"
    and inv :: "'s \<Rightarrow> bool"
    and txs :: "'s \<Rightarrow> string \<Rightarrow> 'pd transaction res option"
  assumes create_ok: "inv s \<Longrightarrow> create pd p s = (Ok i, s') \<Longrightarrow>
      inv s' \<and> i \<noteq> [] \<and> to_lower i = i \<and> txs s i = None \<and> (\<exists>t. txs s' = (txs s)(i \<mapsto> t) \<and>
        (\<forall>tx. t = Ok tx \<longrightarrow> tx_ID tx = i \<and> tx_ProfileID tx = p \<and> tx_ReceivedClaims tx = []))"
    and create_fail: "inv s \<Longrightarrow> create pd p s = (cr, s') \<Longrightarrow> inv s' \<and>
      (\<not> is_ok cr \<longrightarrow> txs s' = txs s \<or> (\<exists>i t. txs s i = None \<and> txs s' = (txs s)(i \<mapsto> t)))"
    and get_eff: "inv s \<Longrightarrow> get i s = (g, s') \<Longrightarrow> inv s' \<and> txs s' = txs s
      \<and> (\<forall>tx. g = Ok tx \<longrightarrow> txs s (tx_ID tx) = Some (Ok tx) \<and> (i \<noteq> [] \<longrightarrow> tx_ID tx = to_lower i))"
    and update_eff: "inv s \<Longrightarrow> update i c s = (u, s') \<Longrightarrow> inv s' \<and>
      (txs s' = txs s \<or> (\<exists>j t. txs s j \<noteq> None \<and> txs s' = (txs s)(j \<mapsto> t) \<and> (i \<noteq> [] \<longrightarrow> j = to_lower i)))
      \<and> (u = Ok () \<longrightarrow> (\<exists>j. txs s j \<noteq> None \<and> (i \<noteq> [] \<longrightarrow> j = to_lower i)))"

subsection \<open>The MongoDB store satisfies it\<close>

definition mongo_txs :: "('pd, 'z) tx_codec_scheme \<Rightarrow> 'c tx_coll \<Rightarrow> string \<Rightarrow> 'pd transaction res option" where
  "mongo_txs tc s i = map_option (txFromDocument tc i) (docs s i)"

lemma mongo_txs_same: "docs s' = docs s \<Longrightarrow> mongo_txs tc s' = mongo_txs tc s"
  by (simp add: mongo_txs_def fun_eq_iff)

lemma mongo_txs_upd: "docs s' = (docs s)(i \<mapsto> d) \<Longrightarrow> mongo_txs tc s' = (mongo_txs tc s)(i \<mapsto> txFromDocument tc i d)"
  by (simp add: mongo_txs_def fun_eq_iff)

lemma txFromDocument_Ok:
  "txFromDocument tc i d = Ok tx \<Longrightarrow> tx_ID tx = i \<and> tx_ProfileID tx = td_ProfileID d
     \<and> tc_ofMap tc (td_PresentationDefinition d) = Ok (tx_PresentationDefinition tx)
     \<and> (td_ReceivedClaims d = [] \<longrightarrow> tx_ReceivedClaims tx = [])"
  by (auto simp: txFromDocument_def)

lemma txIDFromString_Ok: "txIDFromString hex i = Ok j \<Longrightarrow> i \<noteq> [] \<Longrightarrow> j = to_lower i \<and> hex i"
  by (auto simp: txIDFromString_def split: if_splits)

lemma txCreate_step:
  assumes "coll_ok no_clash s" "txCreate tc pd p s = (r, s')"
  shows "coll_ok no_clash s' \<and> (\<forall>q. r = Panic q \<longrightarrow> tc_toMap tc pd = Panic q) \<and>
    (\<forall>i. r = Ok i \<longrightarrow> i \<noteq> [] \<and> to_lower i = i \<and> docs s i = None \<and> (\<exists>m. tc_toMap tc pd = Ok m \<and> docs s' = (docs s)(i \<mapsto>
        \<lparr>td_ProfileID = p, td_PresentationDefinition = m, td_ReceivedClaims = []\<rparr>))) \<and>
    (\<not> is_ok r \<longrightarrow> docs s' = docs s \<or> (\<exists>i d. docs s i = None \<and> docs s' = (docs s)(i \<mapsto> d)))"
proof (cases "tc_toMap tc pd")
  case (Ok m)
  have c: "c_insert None \<lparr>td_ProfileID = p, td_PresentationDefinition = m, td_ReceivedClaims = []\<rparr> s = (r, s')"
    using assms(2) Ok by (simp add: txCreate_def)
  have "coll_ok no_clash s'" using coll_ok_after(1) [OF c] assms(1) by blast
  with assms(1) c Ok show ?thesis
    by (cases rule: c_insert_cases) auto
qed (use assms in \<open>auto simp: txCreate_def pure_op_def\<close>)

lemma txGet_step:
  assumes "coll_ok no_clash s" "txGet tc i s = (r, s')"
  shows "coll_ok no_clash s' \<and> docs s' = docs s \<and>
    (\<forall>tx. r = Ok tx \<longrightarrow> mongo_txs tc s (tx_ID tx) = Some (Ok tx) \<and> (i \<noteq> [] \<longrightarrow> tx_ID tx = to_lower i))"
proof (cases "txIDFromString (valid_hex (drv s)) i")
  case (Ok j)
  obtain q t where c: "c_find (by_id j) s = (q, t)" by fastforce
  have okt: "coll_ok no_clash t" using coll_ok_after(2) [OF c] assms(1) by blast
  note def = assms(2) [unfolded txGet_def Ok andthen_pure_Ok c]
  from assms(1) c show ?thesis
  proof (cases rule: c_find_cases)
    case (ok k d)
    then show ?thesis
      using def okt txIDFromString_Ok [OF Ok] txFromDocument_Ok [of tc j d] by (auto simp: mongo_txs_def)
  qed (use def okt in \<open>auto split: if_splits\<close>)
qed (use assms in \<open>auto simp: txGet_def pure_op_def\<close>)

lemma txUpdate_step:
  assumes "coll_ok no_clash s" "txUpdate tc i c s = (r, s')"
  shows "coll_ok no_clash s' \<and>
    (docs s' = docs s \<or> (\<exists>j d bs. docs s j = Some d \<and> marshalClaims tc c = Ok bs \<and> docs s' = (docs s)(j \<mapsto> d\<lparr>td_ReceivedClaims := bs\<rparr>)
        \<and> (i \<noteq> [] \<longrightarrow> j = to_lower i))) \<and>
    (r = Ok () \<longrightarrow> (\<exists>j d bs. docs s j = Some d \<and> marshalClaims tc c = Ok bs \<and> docs s' = (docs s)(j \<mapsto> d\<lparr>td_ReceivedClaims := bs\<rparr>)
        \<and> (i \<noteq> [] \<longrightarrow> j = to_lower i)))"
proof (cases "txIDFromString (valid_hex (drv s)) i")
  case (Ok j)
  note id = txIDFromString_Ok [OF Ok]
  show ?thesis
  proof (cases "marshalClaims tc c")
    case (Ok bs)
    obtain q t where u: "c_update j (set_claims bs) False s = (q, t)" by fastforce
    have okt: "coll_ok no_clash t" using coll_ok_after(4) [OF u] assms(1) by blast
    note def = assms(2) [unfolded txUpdate_def \<open>txIDFromString _ i = Ok j\<close> andthen_pure_Ok Ok u]
    show ?thesis
      using assms(1) u
    proof (cases rule: c_update_cases)
      case ok
      then show ?thesis
        using def okt id Ok by (cases "docs s j") (auto simp: upd_map_def set_claims_def)
    next
      case (unapplied e)
      then show ?thesis using def okt by auto
    next
      case (applied e)
      then show ?thesis
        using def okt id Ok by (cases "docs s j") (auto simp: upd_map_def set_claims_def)
    qed
  qed (use assms \<open>txIDFromString _ i = Ok j\<close> in \<open>auto simp: txUpdate_def pure_op_def\<close>)
qed (use assms in \<open>auto simp: txUpdate_def pure_op_def\<close>)

interpretation tx: tx_store "txCreate tc" "txGet tc" "txUpdate tc" "coll_ok no_clash" "mongo_txs tc"
proof (unfold_locales, goal_cases)
  case (1 s pd p i s')
  then obtain m where m: "i \<noteq> []" "to_lower i = i" "docs s i = None" "coll_ok no_clash s'"
    "docs s' = (docs s)(i \<mapsto> \<lparr>td_ProfileID = p, td_PresentationDefinition = m, td_ReceivedClaims = []\<rparr>)"
    using txCreate_step [OF 1] by auto
  then show ?case
    using mongo_txs_upd [OF m(5), of tc] txFromDocument_Ok [of tc i] by (fastforce simp: mongo_txs_def)
next
  case (2 s pd p r s')
  note C = txCreate_step [OF 2]
  have "mongo_txs tc s' = mongo_txs tc s \<or> (\<exists>i t. mongo_txs tc s i = None \<and> mongo_txs tc s' = (mongo_txs tc s)(i \<mapsto> t))"
    if "\<not> is_ok r"
  proof -
    from that C consider "docs s' = docs s" | i d where "docs s i = None" "docs s' = (docs s)(i \<mapsto> d)" by blast
    then show ?thesis
    proof cases
      case 1
      then show ?thesis using mongo_txs_same by blast
    next
      case (2 i d)
      then have "mongo_txs tc s i = None" by (simp add: mongo_txs_def)
      then show ?thesis using mongo_txs_upd [OF 2(2), of tc] by blast
    qed
  qed
  then show ?case using C by blast
next
  case (3 s i g s')
  then show ?case
    using txGet_step [OF 3] mongo_txs_same [of s' s tc] by auto
next
  case (4 s i c u s')
  note U = txUpdate_step [OF 4]
  have old: "mongo_txs tc s j \<noteq> None" if "docs s j = Some d" for j d
    using that by (simp add: mongo_txs_def)
  from U consider (same) "docs s' = docs s"
    | (upd) j d bs where "docs s j = Some d" "docs s' = (docs s)(j \<mapsto> d\<lparr>td_ReceivedClaims := bs\<rparr>)" "i \<noteq> [] \<longrightarrow> j = to_lower i"
    by blast
  then have "mongo_txs tc s' = mongo_txs tc s \<or> (\<exists>j t. mongo_txs tc s j \<noteq> None \<and> mongo_txs tc s' = (mongo_txs tc s)(j \<mapsto> t)
      \<and> (i \<noteq> [] \<longrightarrow> j = to_lower i))"
  proof cases
    case same
    then show ?thesis using mongo_txs_same by blast
  next
    case upd
    then show ?thesis using mongo_txs_upd [OF upd(2), of tc] old by blast
  qed
  then show ?case using U old by blast
qed

lemma claims_roundtrip:
  assumes "\<forall>c b. tc_marshal tc c = Ok b \<longrightarrow> tc_parse tc b = Ok c" "marshalClaims tc (Some cs) = Ok bs"
  shows "mapR (\<lambda>(k, b). bindR (wrapR pre (tc_parse tc b)) (\<lambda>c. Ok (k, c))) bs = Ok cs"
proof -
  have "map (\<lambda>(k, c). bindR (wrapR pre2 (tc_marshal tc c)) (\<lambda>b. Ok (k, b))) cs = map Ok bs \<Longrightarrow>
      map (\<lambda>(k, b). bindR (wrapR pre (tc_parse tc b)) (\<lambda>c. Ok (k, c))) bs = map Ok cs" for pre2
    using assms(1) by (induction cs arbitrary: bs) (auto simp: Cons_eq_map_conv)
  then show ?thesis
    using assms(2) by (auto simp: marshalClaims_def mapR_eq_Ok)
qed

subsection \<open>Properties\<close>

text \<open>C23: What is stored is what is read. If a transaction was created for a profile and a definition
  and a later \<open>Update\<close> succeeds with some claims, then \<open>Get\<close> of its id can only return that profile,
  that definition and those claims (up to the codec of the library, which must give back what it was
  given); an update of another id leaves the transaction as it was.\<close>
theorem tx_store_roundtrip:
  assumes "coll_ok no_clash s" "txCreate tc pd profile s = (Ok i, s1)"
    and "\<forall>m x. tc_toMap tc x = Ok m \<longrightarrow> tc_ofMap tc m = Ok x"
    and "\<forall>c b. tc_marshal tc c = Ok b \<longrightarrow> tc_parse tc b = Ok c"
    and "txUpdate tc j (Some cs) s1 = (Ok (), s2)" "j \<noteq> []"
    and "txGet tc i s2 = (Ok tx, s3)"
  shows "tx = \<lparr>tx_ID = i, tx_ProfileID = profile, tx_PresentationDefinition = pd,
    tx_ReceivedClaims = (if to_lower j = i then cs else [])\<rparr>"
proof -
  obtain m where m: "tc_toMap tc pd = Ok m" "i \<noteq> []" "coll_ok no_clash s1" and low: "to_lower i = i"
    and m4: "docs s1 = (docs s)(i \<mapsto> \<lparr>td_ProfileID = profile, td_PresentationDefinition = m, td_ReceivedClaims = []\<rparr>)"
    using txCreate_step [OF assms(1,2)] by auto
  obtain d bs where d: "docs s1 (to_lower j) = Some d" "marshalClaims tc (Some cs) = Ok bs" "coll_ok no_clash s2"
    "docs s2 = (docs s1)(to_lower j \<mapsto> d\<lparr>td_ReceivedClaims := bs\<rparr>)"
    using txUpdate_step [OF m(3) assms(5)] assms(6) by blast
  have g: "mongo_txs tc s2 (tx_ID tx) = Some (Ok tx)" "tx_ID tx = i"
    using txGet_step [OF d(3) assms(7)] m(2) low by auto
  have claims: "mapR (\<lambda>(k, b). bindR (wrapR pre (tc_parse tc b)) (\<lambda>c. Ok (k, c))) bs = Ok cs" for pre
    by (rule claims_roundtrip [OF assms(4) d(2)])
  show ?thesis
  proof (cases "to_lower j = i")
    case True
    then have "docs s2 i = Some (d\<lparr>td_ReceivedClaims := bs\<rparr>)" "td_ProfileID d = profile" "td_PresentationDefinition d = m"
      using d m m4 by auto
    then show ?thesis
      using g claims m(1) assms(3) True by (auto simp: mongo_txs_def txFromDocument_def)
  next
    case False
    then have "docs s2 i = Some \<lparr>td_ProfileID = profile, td_PresentationDefinition = m, td_ReceivedClaims = []\<rparr>"
      using d m m4 by auto
    then show ?thesis
      using g m(1) assms(3) False by (auto simp: mongo_txs_def txFromDocument_def)
  qed
qed

definition demo_codec_tx :: "string tx_codec" where
  "demo_codec_tx = \<lparr>tc_toMap = (\<lambda>s. Ok [(''id'', JStr s)]), tc_ofMap = (\<lambda>m. case fget m ''id'' of JStr s \<Rightarrow> Ok s | _ \<Rightarrow> Err (ErrExt ''pd'')),
     tc_marshal = (\<lambda>c. if c = empty_credential\<lparr>cr_ID := cr_ID c\<rparr> then Ok (JwtBytes (cr_ID c)) else Err (ErrExt ''marshal'')),
     tc_parse = (\<lambda>b. case b of JwtBytes s \<Rightarrow> Ok (empty_credential\<lparr>cr_ID := s\<rparr>) | _ \<Rightarrow> Err (ErrExt ''parse''))\<rparr>"

theorem tx_store_roundtrip_witness:
  "\<exists>s1 s2 s3. txCreate demo_codec_tx ''pd'' ''p1'' (mem_coll no_clash [] []) = (Ok ''1'', s1)
    \<and> txUpdate demo_codec_tx ''1'' (Some [(''k'', empty_credential)]) s1 = (Ok (), s2)
    \<and> txGet demo_codec_tx ''1'' s2 = (Ok \<lparr>tx_ID = ''1'', tx_ProfileID = ''p1'', tx_PresentationDefinition = ''pd'',
        tx_ReceivedClaims = [(''k'', empty_credential)]\<rparr>, s3)"
proof -
  let ?s = "mem_coll no_clash [] [] :: (tx_doc mem, tx_doc) coll"
  let ?s1 = "snd (txCreate demo_codec_tx ''pd'' ''p1'' ?s)"
  let ?s2 = "snd (txUpdate demo_codec_tx ''1'' (Some [(''k'', empty_credential)]) ?s1)"
  have low: "to_lower ''1'' = ''1''" by code_simp
  have e1: "txCreate demo_codec_tx ''pd'' ''p1'' ?s = (Ok ''1'', ?s1)"
    by (simp add: txCreate_def demo_codec_tx_def mem_eval)
  have hex: "mem_hex ''1''" by (simp add: mem_hex_def digit_val_def)
  have e2: "txUpdate demo_codec_tx ''1'' (Some [(''k'', empty_credential)]) ?s1 = (Ok (), ?s2)"
    by (simp add: txUpdate_def txCreate_def demo_codec_tx_def mem_eval marshalClaims_def txIDFromString_def
        mem_driver_def hex low empty_credential_def)
  have "\<exists>tx s3. txGet demo_codec_tx ''1'' ?s2 = (Ok tx, s3)"
    by (simp add: txUpdate_def txCreate_def txGet_def demo_codec_tx_def mem_eval marshalClaims_def txIDFromString_def
        mem_driver_def hex low empty_credential_def txFromDocument_def set_claims_def)
  then obtain tx s3 where e3: "txGet demo_codec_tx ''1'' ?s2 = (Ok tx, s3)" by blast
  have laws: "\<forall>m x. tc_toMap demo_codec_tx x = Ok m \<longrightarrow> tc_ofMap demo_codec_tx m = Ok x"
    "\<forall>c b. tc_marshal demo_codec_tx c = Ok b \<longrightarrow> tc_parse demo_codec_tx b = Ok c"
    by (auto simp: demo_codec_tx_def split: if_splits)
  show ?thesis
    using tx_store_roundtrip [OF _ e1 laws e2 _ e3] e1 e2 e3 low by (intro exI [of _ ?s1] exI [of _ ?s2] exI [of _ s3]) simp
qed

end
