(* ===== verification/Tx_Manager.thy ===== *)
theory Tx_Manager
  imports Nonce_Store Oidc4vp_Tx_Store
begin

text \<open>
  \<open>pkg/service/oidc4vp/txmanager.go\<close>: transactions with a one-time token. The manager's two stores
  and the system random source are the fields of \<open>tx_mgr\<close>, operations on a state \<open>'w\<close> that holds both
  stores; the locale \<open>tx_manager\<close> joins their contracts and is interpreted on the two MongoDB stores.
\<close>

definition nonceSize :: nat where "nonceSize = 10"
definition maxRetries :: nat where "maxRetries = 10"

record ('pd, 'w) tx_mgr =
  tm_setIfNotExist :: "string \<Rightarrow> string \<Rightarrow> int \<Rightarrow> int \<Rightarrow> 'w \<Rightarrow> bool res \<times> 'w"
  tm_getAndDelete :: "string \<Rightarrow> int \<Rightarrow> 'w \<Rightarrow> (string \<times> bool) res \<times> 'w"
  tm_create :: "'pd \<Rightarrow> string \<Rightarrow> 'w \<Rightarrow> string res \<times> 'w"
  tm_get :: "string \<Rightarrow> 'w \<Rightarrow> 'pd transaction res \<times> 'w"
  tm_update :: "string \<Rightarrow> claims option \<Rightarrow> 'w \<Rightarrow> unit res \<times> 'w"
  tm_rand :: "nat \<Rightarrow> 'w \<Rightarrow> 8 word list res \<times> 'w"
  tm_encode :: "8 word list \<Rightarrow> string"
  tm_liveTime :: int

definition genNonce :: "('pd, 'w) tx_mgr \<Rightarrow> 'w \<Rightarrow> string res \<times> 'w" where
  "genNonce m w =
     andthen (wrapS ''nonce generating random failed: '' (tm_rand m nonceSize w)) (\<lambda>b w. (Ok (tm_encode m b), w))"

text \<open>The loop of \<open>tryCreateTxNonce\<close> with the number of attempts that are left.\<close>

fun tryLoop :: "('pd, 'w) tx_mgr \<Rightarrow> nat \<Rightarrow> string \<Rightarrow> int \<Rightarrow> 'w \<Rightarrow> string res \<times> 'w" where
  "tryLoop m 0 txID now w = (Err (ErrMsg ''fail to set tx to nonceStore after 10 retries''), w)"
| "tryLoop m (Suc k) txID now w =
     andthen (genNonce m w) (\<lambda>nonce w.
     andthen (wrapS ''oidc tx nonceStore set failed: '' (tm_setIfNotExist m nonce txID (tm_liveTime m) now w)) (\<lambda>isSet w.
     if isSet then (Ok nonce, w) else tryLoop m k txID now w))"

definition tryCreateTxNonce :: "('pd, 'w) tx_mgr \<Rightarrow> string \<Rightarrow> int \<Rightarrow> 'w \<Rightarrow> string res \<times> 'w" where
  "tryCreateTxNonce m txID now w = tryLoop m maxRetries txID now w"

definition createTx :: "('pd, 'w) tx_mgr \<Rightarrow> 'pd \<Rightarrow> string \<Rightarrow> int \<Rightarrow> 'w \<Rightarrow> ('pd transaction \<times> string) res \<times> 'w" where
  "createTx m pd profileID now w =
     andthen (wrapS ''oidc tx create failed: '' (tm_create m pd profileID w)) (\<lambda>txID w.
     andthen (wrapS ''oidc tx nonce create failed: '' (tryCreateTxNonce m txID now w)) (\<lambda>nonce w.
     andthen (wrapS ''oidc tx get failed: '' (tm_get m txID w)) (\<lambda>tx w.
     (Ok (tx, nonce), w))))"

definition storeReceivedClaims :: "('pd, 'w) tx_mgr \<Rightarrow> string \<Rightarrow> claims option \<Rightarrow> 'w \<Rightarrow> unit res \<times> 'w" where
  "storeReceivedClaims m txID claims w = tm_update m txID claims w"

definition mgrGet :: "('pd, 'w) tx_mgr \<Rightarrow> string \<Rightarrow> 'w \<Rightarrow> 'pd transaction res \<times> 'w" where
  "mgrGet m txID w =
     (case tm_get m txID w of
        (Err e, w) \<Rightarrow> if err_is e vp_ErrDataNotFound then (Err e, w) else (Err (ErrWrap ''oidc get tx by id failed: '' e), w)
      | (Ok tx, w) \<Rightarrow> (Ok tx, w)
      | (Panic p, w) \<Rightarrow> (Panic p, w))"

definition getByOneTimeToken :: "('pd, 'w) tx_mgr \<Rightarrow> string \<Rightarrow> int \<Rightarrow> 'w \<Rightarrow> ('pd transaction option \<times> bool) res \<times> 'w" where
  "getByOneTimeToken m nonce now w =
     andthen (wrapS ''oidc tx nonceStore get failed: '' (tm_getAndDelete m nonce now w)) (\<lambda>(txID, valid) w.
     if valid
     then andthen (wrapS ''oidc get tx by id failed: '' (tm_get m txID w)) (\<lambda>tx w. (Ok (Some tx, True), w))
     else (Ok (None, False), w))"

text \<open>\<open>mgr_over\<close>: the manager calls these operations; the encoder of nonces never returns the empty
  string.\<close>

definition mgr_over ::
  "(string \<Rightarrow> string \<Rightarrow> int \<Rightarrow> int \<Rightarrow> 'w \<Rightarrow> bool res \<times> 'w) \<Rightarrow> (string \<Rightarrow> int \<Rightarrow> 'w \<Rightarrow> (string \<times> bool) res \<times> 'w)
   \<Rightarrow> ('pd \<Rightarrow> string \<Rightarrow> 'w \<Rightarrow> string res \<times> 'w) \<Rightarrow> (string \<Rightarrow> 'w \<Rightarrow> 'pd transaction res \<times> 'w)
   \<Rightarrow> (string \<Rightarrow> claims option \<Rightarrow> 'w \<Rightarrow> unit res \<times> 'w) \<Rightarrow> (nat \<Rightarrow> 'w \<Rightarrow> 8 word list res \<times> 'w) \<Rightarrow> ('pd, 'w) tx_mgr \<Rightarrow> bool" where
  "mgr_over st tk create get update rand m \<longleftrightarrow>
     tm_setIfNotExist m = st \<and> tm_getAndDelete m = tk \<and> tm_create m = create \<and> tm_get m = get
     \<and> tm_update m = update \<and> tm_rand m = rand \<and> (\<forall>b. tm_encode m b \<noteq> [])"

subsection \<open>The contract of the two stores together\<close>

locale tx_manager = nonce_store st tk pg inv live + tx_store create get update inv txs
  for st :: "string \<Rightarrow> string \<Rightarrow> int \<Rightarrow> int \<Rightarrow> 'w \<Rightarrow> bool res \<times> 'w"
    and tk :: "string \<Rightarrow> int \<Rightarrow> 'w \<Rightarrow> (string \<times> bool) res \<times> 'w"
    and pg :: "int \<Rightarrow> 'w \<Rightarrow> 'w" and inv :: "'w \<Rightarrow> bool" and live :: "'w \<Rightarrow> string \<rightharpoonup> (string \<times> int)"
    and create :: "'pd \<Rightarrow> string \<Rightarrow> 'w \<Rightarrow> string res \<times> 'w"
    and get :: "string \<Rightarrow> 'w \<Rightarrow> 'pd transaction res \<times> 'w"
    and update :: "string \<Rightarrow> claims option \<Rightarrow> 'w \<Rightarrow> unit res \<times> 'w"
    and txs :: "'w \<Rightarrow> string \<Rightarrow> 'pd transaction res option" +
  fixes rand :: "nat \<Rightarrow> 'w \<Rightarrow> 8 word list res \<times> 'w"
  assumes st_frame: "inv s \<Longrightarrow> txs (snd (st n tx e now s)) = txs s"
    and tk_frame: "inv s \<Longrightarrow> txs (snd (tk n now s)) = txs s"
    and create_frame: "inv s \<Longrightarrow> live (snd (create pd p s)) = live s"
    and get_frame: "inv s \<Longrightarrow> live (snd (get i s)) = live s"
    and update_frame: "inv s \<Longrightarrow> live (snd (update i c s)) = live s"
    and rand_frame: "inv s \<Longrightarrow> inv (snd (rand k s)) \<and> live (snd (rand k s)) = live s \<and> txs (snd (rand k s)) = txs s"
begin

lemma tryLoop_eff:
  assumes "mgr_over st tk create get update rand m" "inv w" "tryLoop m k txID now w = (r, w')"
  shows "inv w' \<and> txs w' = txs w \<and>
    (\<forall>n. r = Ok n \<longrightarrow> n \<noteq> [] \<and> live w n = None \<and> live w' = (live w)(n \<mapsto> (txID, now + tm_liveTime m))) \<and>
    (\<not> is_ok r \<longrightarrow> live w' = live w \<or> (\<exists>n. live w n = None \<and> live w' = (live w)(n \<mapsto> (txID, now + tm_liveTime m))))"
  using assms(2,3)
proof (induction k arbitrary: w)
  case (Suc k)
  have m: "tm_setIfNotExist m = st" "tm_rand m = rand" "\<And>b. tm_encode m b \<noteq> []"
    using assms(1) by (auto simp: mgr_over_def)
  obtain q w1 where g: "rand nonceSize w = (q, w1)" by fastforce
  have R: "inv w1" "live w1 = live w" "txs w1 = txs w"
    using rand_frame [OF Suc.prems(1), of nonceSize] g by auto
  show ?case
  proof (cases q)
    case (Ok b)
    let ?n = "tm_encode m b"
    have n: "?n \<noteq> []" by (rule m(3))
    obtain u w2 where s: "st ?n txID (tm_liveTime m) now w1 = (u, w2)" by fastforce
    have S: "inv w2" "txs w2 = txs w"
      using inv_ops(1) [OF R(1), of ?n txID "tm_liveTime m" now] st_frame [OF R(1), of ?n txID "tm_liveTime m" now] s R(3)
      by auto
    have eq: "tryLoop m (Suc k) txID now w = (case u of Ok True \<Rightarrow> (Ok ?n, w2) | Ok False \<Rightarrow> tryLoop m k txID now w2
        | Err e \<Rightarrow> (Err (ErrWrap ''oidc tx nonceStore set failed: '' e), w2) | Panic p \<Rightarrow> (Panic p, w2))"
      using g s Ok m by (cases u) (auto simp: genNonce_def)
    from R(1) n s show ?thesis
    proof (cases rule: st_cases)
      case stored
      then show ?thesis using Suc.prems(2) eq S R(2) n by auto
    next
      case refused
      then show ?thesis using Suc.IH [OF S(1)] Suc.prems(2) eq S(2) R(2) by simp
    next
      case (failed er)
      then show ?thesis using Suc.prems(2) eq S R(2) by auto
    next
      case (doubt er)
      then show ?thesis using Suc.prems(2) eq S R(2) by auto
    qed
  qed (use Suc.prems g m R in \<open>auto simp: genNonce_def\<close>)
qed auto

lemma createTx_eff:
  assumes "mgr_over st tk create get update rand m" "inv w" "createTx m pd p now w = (Ok (tx, n), w')"
  shows "inv w' \<and> n \<noteq> [] \<and> live w n = None \<and> live w' = (live w)(n \<mapsto> (tx_ID tx, now + tm_liveTime m))
      \<and> txs w (tx_ID tx) = None \<and> txs w' = (txs w)(tx_ID tx \<mapsto> Ok tx) \<and> tx_ProfileID tx = p \<and> tx_ReceivedClaims tx = []"
proof -
  have m: "tm_create m = create" "tm_get m = get" using assms(1) by (auto simp: mgr_over_def)
  obtain i w1 where c: "create pd p w = (Ok i, w1)"
    using assms(3) m by (auto simp: createTx_def andthen_eq_Ok)
  have C: "inv w1" "i \<noteq> []" "txs w i = None" "to_lower i = i" using create_ok [OF assms(2) c] by auto
  obtain t where t: "txs w1 = (txs w)(i \<mapsto> t)"
    "\<forall>tx. t = Ok tx \<longrightarrow> tx_ID tx = i \<and> tx_ProfileID tx = p \<and> tx_ReceivedClaims tx = []"
    using create_ok [OF assms(2) c] by auto
  have lf: "live w1 = live w" using create_frame [OF assms(2), of pd p] c by simp
  obtain w2 where l: "tryLoop m maxRetries i now w1 = (Ok n, w2)" "wrapS ''oidc tx get failed: '' (get i w2) = (Ok tx, w')"
    using assms(3) m c by (auto simp: createTx_def andthen_eq_Ok tryCreateTxNonce_def)
  note L = tryLoop_eff [OF assms(1) C(1) l(1)]
  have inv2: "inv w2" using L by blast
  have g: "get i w2 = (Ok tx, w')" using l(2) by simp
  have G: "inv w'" "txs w' = txs w2" "txs w2 (tx_ID tx) = Some (Ok tx)" "tx_ID tx = i"
    using get_eff [OF inv2 g] C(2,4) by auto
  have lf2: "live w' = live w2" using get_frame [OF inv2, of i] g by simp
  have "t = Ok tx" using G t L by auto
  then show ?thesis
    using L G C lf lf2 t by auto
qed

lemma createTx_id:
  assumes "mgr_over st tk create get update rand m" "inv w" "createTx m pd p now w = (Ok (tx, n), w')"
  shows "tx_ID tx \<noteq> [] \<and> to_lower (tx_ID tx) = tx_ID tx"
proof -
  have m: "tm_create m = create" "tm_get m = get" using assms(1) by (auto simp: mgr_over_def)
  obtain i w1 where c: "create pd p w = (Ok i, w1)"
    using assms(3) m by (auto simp: createTx_def andthen_eq_Ok)
  have C: "inv w1" "i \<noteq> []" "to_lower i = i" using create_ok [OF assms(2) c] by auto
  obtain w2 where l: "tryLoop m maxRetries i now w1 = (Ok n, w2)" "get i w2 = (Ok tx, w')"
    using assms(3) m c by (auto simp: createTx_def andthen_eq_Ok tryCreateTxNonce_def)
  have "inv w2" using tryLoop_eff [OF assms(1) C(1) l(1)] by blast
  then show ?thesis using get_eff [OF _ l(2)] C by auto
qed

lemma getByOneTimeToken_eff:
  assumes "mgr_over st tk create get update rand m" "inv w" "getByOneTimeToken m n now w = (r, w')"
  shows "inv w' \<and> txs w' = txs w \<and> (live w' = live w \<or> live w' = (live w)(n := None)) \<and>
    (\<forall>o'. r = Ok (o', True) \<longrightarrow> (\<exists>tx i e. o' = Some tx \<and> live w n = Some (i, e) \<and> now \<le> e \<and> live w' = (live w)(n := None)
        \<and> txs w (tx_ID tx) = Some (Ok tx) \<and> (i \<noteq> [] \<longrightarrow> tx_ID tx = to_lower i)))"
proof -
  have m: "tm_getAndDelete m = tk" "tm_get m = get" using assms(1) by (auto simp: mgr_over_def)
  obtain q w1 where t: "tk n now w = (q, w1)" by fastforce
  have T: "inv w1" "txs w1 = txs w" "live w1 = live w \<or> live w1 = (live w)(n := None)"
    using inv_ops(2) [OF assms(2), of n now] tk_frame [OF assms(2), of n now] tk_other [OF assms(2) t] t by auto
  show ?thesis
  proof (cases "\<exists>i. q = Ok (i, True)")
    case True
    then obtain i where i: "q = Ok (i, True)" by blast
    obtain e where e: "live w n = Some (i, e)" "now \<le> e" "live w1 = (live w)(n := None)"
      using tk_valid [OF assms(2)] t i by blast
    obtain g w2 where g: "get i w1 = (g, w2)" by fastforce
    have G: "inv w2" "txs w2 = txs w1" "\<forall>tx. g = Ok tx \<longrightarrow> txs w1 (tx_ID tx) = Some (Ok tx) \<and> (i \<noteq> [] \<longrightarrow> tx_ID tx = to_lower i)"
      "live w2 = live w1"
      using get_eff [OF T(1) g] get_frame [OF T(1), of i] g by auto
    have "w' = w2 \<and> (r = (case g of Ok tx \<Rightarrow> Ok (Some tx, True) | Err x \<Rightarrow> Err (ErrWrap ''oidc get tx by id failed: '' x) | Panic p \<Rightarrow> Panic p))"
      using assms(3) m t i g by (cases g) (auto simp: getByOneTimeToken_def)
    then show ?thesis
      using G e T by (cases g) auto
  next
    case False
    then have "w' = w1 \<and> (\<forall>o'. r \<noteq> Ok (o', True))"
      using assms(3) m t by (cases q) (auto simp: getByOneTimeToken_def split: if_splits)
    then show ?thesis using T by auto
  qed
qed

end

subsection \<open>The manager over the two MongoDB stores\<close>

record ('c1, 'c2, 'r) vp_world =
  vw_nonces :: "'c1 nonce_coll"
  vw_txs :: "'c2 tx_coll"
  vw_rng :: 'r

type_synonym ('c1, 'c2, 'r, 'z) vpw = "('c1, 'c2, 'r, 'z) vp_world_scheme"

definition on_nonces :: "('c1 nonce_coll \<Rightarrow> 'a res \<times> 'c1 nonce_coll) \<Rightarrow> ('c1, 'c2, 'r, 'z) vpw \<Rightarrow> 'a res \<times> ('c1, 'c2, 'r, 'z) vpw" where
  "on_nonces = lift_op vw_nonces (\<lambda>s w. w\<lparr>vw_nonces := s\<rparr>)"

definition on_txs :: "('c2 tx_coll \<Rightarrow> 'a res \<times> 'c2 tx_coll) \<Rightarrow> ('c1, 'c2, 'r, 'z) vpw \<Rightarrow> 'a res \<times> ('c1, 'c2, 'r, 'z) vpw" where
  "on_txs = lift_op vw_txs (\<lambda>s w. w\<lparr>vw_txs := s\<rparr>)"

definition on_rng :: "('r \<Rightarrow> 'a res \<times> 'r) \<Rightarrow> ('c1, 'c2, 'r, 'z) vpw \<Rightarrow> 'a res \<times> ('c1, 'c2, 'r, 'z) vpw" where
  "on_rng = lift_op vw_rng (\<lambda>s w. w\<lparr>vw_rng := s\<rparr>)"

lemmas on_defs = on_nonces_def on_txs_def on_rng_def lift_op_def

definition vp_inv :: "('c1, 'c2, 'r, 'z) vpw \<Rightarrow> bool" where
  "vp_inv w \<longleftrightarrow> coll_ok no_clash (vw_nonces w) \<and> coll_ok no_clash (vw_txs w)"

definition vp_live :: "('c1, 'c2, 'r, 'z) vpw \<Rightarrow> string \<rightharpoonup> (string \<times> int)" where
  "vp_live w = nonce_live (vw_nonces w)"

definition vp_txs :: "('pd, 'y) tx_codec_scheme \<Rightarrow> ('c1, 'c2, 'r, 'z) vpw \<Rightarrow> string \<Rightarrow> 'pd transaction res option" where
  "vp_txs tc w = mongo_txs tc (vw_txs w)"

definition vp_purge :: "int \<Rightarrow> ('c1, 'c2, 'r, 'z) vpw \<Rightarrow> ('c1, 'c2, 'r, 'z) vpw" where
  "vp_purge now w = w\<lparr>vw_nonces := ttl_purge now (vw_nonces w)\<rparr>"

definition mongo_mgr :: "('pd, 'y) tx_codec_scheme \<Rightarrow> (nat \<Rightarrow> 'r \<Rightarrow> 8 word list res \<times> 'r) \<Rightarrow> (8 word list \<Rightarrow> string) \<Rightarrow> int
    \<Rightarrow> ('pd, ('c1, 'c2, 'r, 'z) vpw) tx_mgr" where
  "mongo_mgr tc rnd enc ttl = \<lparr>tm_setIfNotExist = (\<lambda>n tx e now. on_nonces (setIfNotExist n tx e now)),
     tm_getAndDelete = (\<lambda>n now. on_nonces (getAndDelete n now)),
     tm_create = (\<lambda>pd p. on_txs (txCreate tc pd p)), tm_get = (\<lambda>i. on_txs (txGet tc i)),
     tm_update = (\<lambda>i c. on_txs (txUpdate tc i c)), tm_rand = (\<lambda>k. on_rng (rnd k)),
     tm_encode = enc, tm_liveTime = ttl\<rparr>"

interpretation tm: tx_manager "\<lambda>n tx e now. on_nonces (setIfNotExist n tx e now)" "\<lambda>n now. on_nonces (getAndDelete n now)"
  vp_purge vp_inv vp_live "\<lambda>pd p. on_txs (txCreate tc pd p)" "\<lambda>i. on_txs (txGet tc i)"
  "\<lambda>i c. on_txs (txUpdate tc i c)" "vp_txs tc" "\<lambda>k. on_rng (rnd k)"
proof (unfold_locales, goal_cases)
  case (1 s n tx e now) then show ?case by (simp add: vp_inv_def on_defs)
next
  case (2 s n now) then show ?case by (simp add: vp_inv_def on_defs)
next
  case (3 s now) then show ?case by (simp add: vp_inv_def vp_purge_def)
next
  case (4 s n tx e now s')
  then show ?case
    using ns.st_stored [of "vw_nonces s" n tx e now "vw_nonces s'"] by (auto simp: vp_inv_def vp_live_def on_defs prod_eq_iff)
next
  case (5 s n tx e now s')
  then show ?case
    using ns.st_refused [of "vw_nonces s" n tx e now "vw_nonces s'"] by (auto simp: vp_inv_def vp_live_def on_defs prod_eq_iff)
next
  case (6 s n tx e now er s')
  then show ?case
    using ns.st_failed [of "vw_nonces s" n tx e now er "vw_nonces s'"] by (auto simp: vp_inv_def vp_live_def on_defs prod_eq_iff)
next
  case (7 s n tx e now p s')
  then show ?case
    using ns.st_no_panic [of "vw_nonces s" n tx e now p "vw_nonces s'"] by (auto simp: vp_inv_def on_defs prod_eq_iff)
next
  case (8 s n now tx s')
  then show ?case
    using ns.tk_valid [of "vw_nonces s" n now tx "vw_nonces s'"] by (auto simp: vp_inv_def vp_live_def on_defs prod_eq_iff)
next
  case (9 s n now r s')
  then show ?case
    using ns.tk_other [of "vw_nonces s" n now r "vw_nonces s'"] by (auto simp: vp_inv_def vp_live_def on_defs prod_eq_iff)
next
  case (10 s now)
  then show ?case
    using ns.pg_expired [of "vw_nonces s" now] by (auto simp: vp_inv_def vp_live_def vp_purge_def)
next
  case (11 s pd p i s')
  then show ?case
    using tx.create_ok [of "vw_txs s" tc pd p i "vw_txs s'"] by (auto simp: vp_inv_def vp_txs_def on_defs prod_eq_iff)
next
  case (12 s pd p r s')
  then obtain x where x: "txCreate tc pd p (vw_txs s) = (r, x)" "s' = s\<lparr>vw_txs := x\<rparr>" by (auto simp: on_defs prod_eq_iff)
  show ?case using tx.create_fail [OF _ x(1)] 12(1) by (simp add: vp_inv_def vp_txs_def [abs_def] x(2))
next
  case (13 s i g s')
  then obtain x where x: "txGet tc i (vw_txs s) = (g, x)" "s' = s\<lparr>vw_txs := x\<rparr>" by (auto simp: on_defs prod_eq_iff)
  show ?case using tx.get_eff [OF _ x(1)] 13(1) by (simp add: vp_inv_def vp_txs_def [abs_def] x(2))
next
  case (14 s i c u s')
  then obtain x where x: "txUpdate tc i c (vw_txs s) = (u, x)" "s' = s\<lparr>vw_txs := x\<rparr>" by (auto simp: on_defs prod_eq_iff)
  show ?case using tx.update_eff [OF _ x(1)] 14(1) by (simp add: vp_inv_def vp_txs_def [abs_def] x(2))
qed (auto simp: vp_inv_def vp_live_def vp_txs_def on_defs)

lemma mongo_mgr_over:
  "(\<And>b. enc b \<noteq> []) \<Longrightarrow> mgr_over (\<lambda>n tx e now. on_nonces (setIfNotExist n tx e now)) (\<lambda>n now. on_nonces (getAndDelete n now))
     (\<lambda>pd p. on_txs (txCreate tc pd p)) (\<lambda>i. on_txs (txGet tc i)) (\<lambda>i c. on_txs (txUpdate tc i c))
     (\<lambda>k. on_rng (rnd k)) (mongo_mgr tc rnd enc ttl)"
  by (simp add: mgr_over_def mongo_mgr_def)

lemma mongo_mgr_sel [simp]: "tm_liveTime (mongo_mgr tc rnd enc ttl) = ttl"
  by (simp add: mongo_mgr_def)

subsection \<open>Properties\<close>

text \<open>C8: A new transaction gets a nonce that nobody else holds. When \<open>CreateTx\<close> succeeds, the
  nonce it returns was not live before and is now bound, until the interaction life time passes, to
  the new transaction, which carries the given profile and no claims; every other nonce and
  transaction is as before.\<close>
theorem create_tx_fresh_nonce:
  assumes "vp_inv w" "\<And>b. enc b \<noteq> []"
    and "createTx (mongo_mgr tc rnd enc ttl) pd profile now w = (Ok (tx, nonce), w')"
  shows "vp_live w nonce = None \<and> vp_live w' = (vp_live w)(nonce \<mapsto> (tx_ID tx, now + ttl))
    \<and> vp_txs tc w (tx_ID tx) = None \<and> vp_txs tc w' = (vp_txs tc w)(tx_ID tx \<mapsto> Ok tx)
    \<and> tx_ProfileID tx = profile \<and> tx_ReceivedClaims tx = []"
  using tm.createTx_eff [OF mongo_mgr_over [OF assms(2)] assms(1,3)] by simp

definition demo_world :: "(nonce_doc mem, tx_doc mem, unit) vp_world" where
  "demo_world = \<lparr>vw_nonces = mem_coll no_clash [] [], vw_txs = mem_coll no_clash [] [], vw_rng = ()\<rparr>"

definition demo_mgr :: "(string, (nonce_doc mem, tx_doc mem, unit) vp_world) tx_mgr" where
  "demo_mgr = mongo_mgr demo_codec_tx (\<lambda>_ r. (Ok [], r)) (\<lambda>_. ''nonce'') 60"

definition demo_tx :: "string transaction" where
  "demo_tx = \<lparr>tx_ID = ''1'', tx_ProfileID = ''p1'', tx_PresentationDefinition = ''pd'', tx_ReceivedClaims = []\<rparr>"

lemma to_lower_1 [simp]: "to_lower ''1'' = ''1''"
  by code_simp

lemmas mgr_eval = demo_world_def demo_mgr_def demo_tx_def mongo_mgr_def tryCreateTxNonce_def maxRetries_def nonceSize_def
  genNonce_def on_defs mem_eval txCreate_def txGet_def txFromDocument_def txIDFromString_def demo_codec_tx_def
  setIfNotExist_def getAndDelete_def omit_empty_id_def mem_driver_def mem_hex_def digit_val_def eval_nat_numeral

lemma demo_create: "\<exists>w'. createTx demo_mgr ''pd'' ''p1'' 100 demo_world = (Ok (demo_tx, ''nonce''), w')"
  by (simp add: createTx_def mgr_eval)

lemma demo_redeem:
  "createTx demo_mgr ''pd'' ''p1'' 100 demo_world = (Ok (demo_tx, ''nonce''), w1) \<Longrightarrow>
     \<exists>w2. getByOneTimeToken demo_mgr ''nonce'' 150 w1 = (Ok (Some demo_tx, True), w2)"
  by (auto simp add: createTx_def getByOneTimeToken_def mgr_eval)

lemma demo_world_inv: "vp_inv demo_world"
  by (simp add: vp_inv_def demo_world_def)

theorem create_tx_fresh_nonce_witness:
  "\<exists>w'. createTx demo_mgr ''pd'' ''p1'' 100 demo_world = (Ok (demo_tx, ''nonce''), w')
     \<and> vp_live w' ''nonce'' = Some (''1'', 160)"
proof -
  obtain w' where w': "createTx demo_mgr ''pd'' ''p1'' 100 demo_world = (Ok (demo_tx, ''nonce''), w')"
    using demo_create by blast
  show ?thesis
    using create_tx_fresh_nonce [OF demo_world_inv _ w' [unfolded demo_mgr_def]] w'
    by (auto simp: demo_tx_def)
qed

text \<open>C6: A token opens its own transaction, once. After \<open>CreateTx\<close> returned a nonce, redeeming it
  within the life time can only return the transaction that was created with it; after that
  redemption the nonce is not valid any more.\<close>
theorem token_opens_its_transaction:
  assumes "vp_inv w" "\<And>b. enc b \<noteq> []"
    and "createTx (mongo_mgr tc rnd enc ttl) pd profile now w = (Ok (tx, nonce), w1)"
    and "getByOneTimeToken (mongo_mgr tc rnd enc ttl) nonce later w1 = (Ok (found, True), w2)"
  shows "found = Some tx \<and> later \<le> now + ttl
    \<and> (\<forall>any again w3. getByOneTimeToken (mongo_mgr tc rnd enc ttl) nonce again w2 \<noteq> (Ok (any, True), w3))"
proof -
  note over = mongo_mgr_over [OF assms(2)]
  note C = tm.createTx_eff [OF over assms(1,3)]
  have inv1: "vp_inv w1" using C by blast
  note G = tm.getByOneTimeToken_eff [OF over inv1 assms(4)]
  obtain tx' i e where tx': "found = Some tx'" "vp_live w1 nonce = Some (i, e)" "later \<le> e"
    "vp_live w2 = (vp_live w1)(nonce := None)" "vp_txs tc w1 (tx_ID tx') = Some (Ok tx')" "i \<noteq> [] \<longrightarrow> tx_ID tx' = to_lower i"
    using G by auto
  have ie: "i = tx_ID tx" "e = now + ttl" using C tx'(2) by auto
  have "tx_ID tx \<noteq> [] \<and> to_lower (tx_ID tx) = tx_ID tx"
    using tm.createTx_id [OF over assms(1,3)] by blast
  then have "found = Some tx"
    using tx' ie C by auto
  moreover have "\<forall>any again w3. getByOneTimeToken (mongo_mgr tc rnd enc ttl) nonce again w2 \<noteq> (Ok (any, True), w3)"
  proof (intro allI notI)
    fix any again w3
    assume again: "getByOneTimeToken (mongo_mgr tc rnd enc ttl) nonce again w2 = (Ok (any, True), w3)"
    have "vp_inv w2" using G by blast
    from tm.getByOneTimeToken_eff [OF over this again] show False
      using tx'(4) by auto
  qed
  ultimately show ?thesis using tx'(3) ie by simp
qed

theorem token_opens_its_transaction_witness:
  "\<exists>w1 w2. createTx demo_mgr ''pd'' ''p1'' 100 demo_world = (Ok (demo_tx, ''nonce''), w1)
     \<and> getByOneTimeToken demo_mgr ''nonce'' 150 w1 = (Ok (Some demo_tx, True), w2)
     \<and> fst (getByOneTimeToken demo_mgr ''nonce'' 151 w2) \<noteq> Ok (Some demo_tx, True)"
proof -
  obtain w1 where w1: "createTx demo_mgr ''pd'' ''p1'' 100 demo_world = (Ok (demo_tx, ''nonce''), w1)"
    using demo_create by blast
  obtain w2 where w2: "getByOneTimeToken demo_mgr ''nonce'' 150 w1 = (Ok (Some demo_tx, True), w2)"
    using demo_redeem [OF w1] by blast
  have "fst (getByOneTimeToken demo_mgr ''nonce'' 151 w2) \<noteq> Ok (Some demo_tx, True)"
    using token_opens_its_transaction [OF demo_world_inv _ w1 [unfolded demo_mgr_def] w2 [unfolded demo_mgr_def]]
    unfolding demo_mgr_def [symmetric] by (metis list.distinct(1) prod.collapse)
  then show ?thesis using w1 w2 by blast
qed

subsection \<open>The retries end\<close>

text \<open>The body of the loop: one attempt, and whether the nonce was set.\<close>

definition nonceAttempt :: "('pd, 'w) tx_mgr \<Rightarrow> string \<Rightarrow> int \<Rightarrow> 'w \<Rightarrow> (string \<times> bool) res \<times> 'w" where
  "nonceAttempt m txID now w =
     andthen (genNonce m w) (\<lambda>nonce w.
     andthen (wrapS ''oidc tx nonceStore set failed: '' (tm_setIfNotExist m nonce txID (tm_liveTime m) now w)) (\<lambda>isSet w.
     (Ok (nonce, isSet), w)))"

text \<open>\<open>k\<close> attempts in a row that found their nonce taken.\<close>

fun refused_times :: "('pd, 'w) tx_mgr \<Rightarrow> string \<Rightarrow> int \<Rightarrow> nat \<Rightarrow> 'w \<Rightarrow> 'w \<Rightarrow> bool" where
  "refused_times m txID now 0 w w' \<longleftrightarrow> w' = w"
| "refused_times m txID now (Suc k) w w' \<longleftrightarrow>
     (\<exists>n w1. nonceAttempt m txID now w = (Ok (n, False), w1) \<and> refused_times m txID now k w1 w')"

lemma tryLoop_attempt:
  "tryLoop m (Suc k) txID now w = (case nonceAttempt m txID now w of
      (Ok (n, isSet), w1) \<Rightarrow> if isSet then (Ok n, w1) else tryLoop m k txID now w1
    | (Err e, w1) \<Rightarrow> (Err e, w1) | (Panic p, w1) \<Rightarrow> (Panic p, w1))"
proof (cases "genNonce m w")
  case (Pair r w1)
  then show ?thesis
  proof (cases r)
    case (Ok n)
    then show ?thesis
      using Pair by (cases "tm_setIfNotExist m n txID (tm_liveTime m) now w1"; cases "fst (tm_setIfNotExist m n txID (tm_liveTime m) now w1)")
        (auto simp: nonceAttempt_def)
  qed (auto simp: nonceAttempt_def)
qed

text \<open>The attempt made in state \<open>w\<close> decides the outcome \<open>out\<close> of the call.\<close>

definition decides :: "('pd, 'w) tx_mgr \<Rightarrow> string \<Rightarrow> int \<Rightarrow> 'w \<Rightarrow> string res \<times> 'w \<Rightarrow> bool" where
  "decides m txID now w out \<longleftrightarrow> (case nonceAttempt m txID now w of
      (Ok (nonce, isSet), w2) \<Rightarrow> isSet \<and> out = (Ok nonce, w2)
    | (Err e, w2) \<Rightarrow> out = (Err e, w2)
    | (Panic p, w2) \<Rightarrow> out = (Panic p, w2))"

lemma tryLoop_outcome:
  "\<exists>k w1. k \<le> n \<and> refused_times m txID now k w w1 \<and>
     (k = n \<and> tryLoop m n txID now w = (Err (ErrMsg ''fail to set tx to nonceStore after 10 retries''), w1)
      \<or> k < n \<and> decides m txID now w1 (tryLoop m n txID now w))"
proof (induction n arbitrary: w)
  case (Suc n)
  show ?case
  proof (cases "\<exists>x w1. nonceAttempt m txID now w = (Ok (x, False), w1)")
    case True
    then obtain x w1 where a: "nonceAttempt m txID now w = (Ok (x, False), w1)" by blast
    then have t: "tryLoop m (Suc n) txID now w = tryLoop m n txID now w1" by (simp only: tryLoop_attempt) simp
    have s: "refused_times m txID now k w1 w2 \<Longrightarrow> refused_times m txID now (Suc k) w w2" for k w2
      using a by auto
    show ?thesis unfolding t using Suc.IH [of w1] s by (metis Suc_le_mono Suc_less_eq)
  next
    case False
    then have "decides m txID now w (tryLoop m (Suc n) txID now w)"
      unfolding decides_def tryLoop_attempt by (auto split: res.splits prod.splits)
    then show ?thesis by (metis refused_times.simps(1) zero_le zero_less_Suc)
  qed
qed simp

text \<open>Creating a nonce ends after at most ten attempts. Whatever the random source and the store do, there are
  some \<open>k\<close> attempts, at most ten, that found their nonce taken, and then either \<open>k\<close> is ten and the call
  gives up with an error, or the next attempt decides the outcome: it stored its nonce, which is
  returned, or failed, and its error is returned; the state is the one that attempt left.\<close>
theorem nonce_attempts_bounded:
  "\<exists>k w1. k \<le> 10 \<and> refused_times m txID now k w w1 \<and>
     (k = 10 \<and> tryCreateTxNonce m txID now w = (Err (ErrMsg ''fail to set tx to nonceStore after 10 retries''), w1)
      \<or> k < 10 \<and> decides m txID now w1 (tryCreateTxNonce m txID now w))"
  using tryLoop_outcome [of 10 m txID now w] unfolding tryCreateTxNonce_def maxRetries_def .

text \<open>A store that holds every nonce counts its ten refusals.\<close>

definition full_mgr :: "(unit, nat) tx_mgr" where
  "full_mgr = \<lparr>tm_setIfNotExist = (\<lambda>_ _ _ _ n. (Ok False, Suc n)), tm_getAndDelete = (\<lambda>_ _ n. (Ok ([], False), n)),
     tm_create = (\<lambda>_ _ n. (Ok [], n)), tm_get = (\<lambda>_ n. (Err (ErrExt ''none''), n)), tm_update = (\<lambda>_ _ n. (Ok (), n)),
     tm_rand = (\<lambda>_ n. (Ok [], n)), tm_encode = (\<lambda>_. ''nonce''), tm_liveTime = 60\<rparr>"

theorem nonce_attempts_bounded_witness:
  "tryCreateTxNonce full_mgr ''1'' 7 0 = (Err (ErrMsg ''fail to set tx to nonceStore after 10 retries''), 10)"
proof -
  have a: "nonceAttempt full_mgr ''1'' 7 n = (Ok (''nonce'', False), Suc n)" for n
    by (simp add: nonceAttempt_def genNonce_def full_mgr_def)
  have r: "refused_times full_mgr ''1'' 7 k n w' \<Longrightarrow> w' = n + k" for k n w'
  proof (induction k arbitrary: n)
    case (Suc k)
    then show ?case using Suc.IH [of "Suc n"] by (simp add: a)
  qed simp
  obtain k w1 where "refused_times full_mgr ''1'' 7 k 0 w1" "k = 10"
    "tryCreateTxNonce full_mgr ''1'' 7 0 = (Err (ErrMsg ''fail to set tx to nonceStore after 10 retries''), w1)"
    using nonce_attempts_bounded [of full_mgr "''1''" 7 0] by (auto simp: a decides_def)
  then show ?thesis using r [of 10 0 w1] by simp
qed

end
