(* ===== verification/Oidc4vp_Service.thy ===== *)
theory Oidc4vp_Service
  imports Tx_Manager Verify_Presentation Request_Object
begin

text \<open>
  \<open>pkg/service/oidc4vp/oidc4vp_service.go\<close>: the OIDC4VP interaction. The transaction manager, the event
  service and the request object store are operations on the state \<open>'w\<close>; the presentation verifier,
  the profile lookup, matching (\<open>presexch\<close>), JWT parsing and signing are functions, all fields of
  \<open>vp_service\<close>. \<open>uuid k\<close> is the k-th identifier drawn and \<open>clock k\<close> the k-th reading of the clock, in
  nanoseconds. \<open>'k\<close> is the type of signers, \<open>'t\<close> of signed tokens, \<open>'j\<close> of parsed ones.
\<close>

record request_registration =
  rr_ClientName :: string
  rr_SubjectSyntaxTypesSupported :: "string list"
  rr_JwtVCAlg :: "string list"
  rr_JwtVPAlg :: "string list"
  rr_ClientPurpose :: string

record 'pd auth_request =
  rq_JTI :: string
  rq_IAT :: int
  rq_ISS :: string
  rq_ResponseType :: string
  rq_ResponseMode :: string
  rq_Scope :: string
  rq_Nonce :: string
  rq_ClientID :: string
  rq_RedirectURI :: string
  rq_State :: string
  rq_Exp :: int
  rq_Registration :: request_registration
  rq_PresentationDefinition :: 'pd

record processed_token =
  pt_Nonce :: string
  pt_Signer :: string
  pt_Presentation :: presentation

record credential_metadata =
  cm_Format :: string
  cm_Type :: "string list"
  cm_SubjectData :: vc_subject

record interaction_info =
  ii_AuthorizationRequest :: string
  ii_TxID :: string

text \<open>\<open>JWSSigner\<close>: the key id and the signer, with its \<open>Alg\<close>.\<close>

record 'k jws_signer =
  js_keyID :: string
  js_signer :: 'k

record ('pd, 'k, 't, 'j, 'w) vp_service =
  vs_mgr :: "('pd, 'w) tx_mgr"
  vs_publishRO :: "string \<Rightarrow> event \<Rightarrow> 'w \<Rightarrow> string res \<times> 'w"
  vs_send :: "string \<Rightarrow> event list \<Rightarrow> 'w \<Rightarrow> unit res \<times> 'w"
  vs_defaultKM :: "'k key_manager"
  vs_profiles :: "string \<rightharpoonup> 'pd verifier"
  vs_verify :: "presentation \<Rightarrow> verify_opts option \<Rightarrow> 'pd verifier \<Rightarrow> check_result list res"
  vs_marshalVP :: "presentation \<Rightarrow> json res"
  vs_match :: "'pd \<Rightarrow> presentation \<Rightarrow> claims res"
  vs_subjectID :: "vc_subject \<Rightarrow> string res"
  vs_parseJWT :: "string \<Rightarrow> 'j res"
  vs_decodeSub :: "'j \<Rightarrow> string res"
  vs_keyTypeName :: "key_type \<Rightarrow> string"
  vs_newSigned :: "'pd auth_request \<Rightarrow> 'k jws_signer \<Rightarrow> 't res"
  vs_serialize :: "'t \<Rightarrow> string res"
  vs_redirectURL :: string
  vs_tokenLifetime :: int

definition unix_time :: "int \<Rightarrow> int" where
  "unix_time t = t div 1000000000"

text \<open>\<open>JWSSigner.Headers\<close>, and \<open>Sign\<close>, which is the signer's.\<close>

definition jwsHeaders :: "('k \<Rightarrow> string) \<Rightarrow> 'k jws_signer \<Rightarrow> (string \<times> string) list" where
  "jwsHeaders alg s = [(''kid'', js_keyID s), (''alg'', alg (js_signer s))]"

definition jwsSign :: "('k \<Rightarrow> string \<Rightarrow> string res) \<Rightarrow> 'k jws_signer \<Rightarrow> string \<Rightarrow> string res" where
  "jwsSign sign s data = sign (js_signer s) data"

subsection \<open>Events\<close>

definition createEvent :: "'pd transaction \<Rightarrow> 'pd verifier \<Rightarrow> string \<Rightarrow> string \<Rightarrow> int \<Rightarrow> event" where
  "createEvent tx profile eventType uuid now =
     newEvent uuid (pv_URL profile) eventType
       (JObj ((''txID'', JStr (tx_ID tx)) # (if pv_WebHook profile = [] then [] else [(''webHook'', JStr (pv_WebHook profile))]))) now"

definition sendEvent ::
  "('pd, 'k, 't, 'j, 'w) vp_service \<Rightarrow> 'pd transaction \<Rightarrow> 'pd verifier \<Rightarrow> string \<Rightarrow> string \<Rightarrow> int \<Rightarrow> 'w \<Rightarrow> unit res \<times> 'w" where
  "sendEvent svc tx profile eventType uuid now w =
     vs_send svc VerifierEventTopic [createEvent tx profile eventType uuid now] w"

subsection \<open>The request object\<close>

definition getSupportedVPFormats :: "'k key_manager \<Rightarrow> string list" where
  "getSupportedVPFormats km = concat (map signatureTypesSupportedKeyType (km_supported km))"

definition createRequestObject ::
  "('pd, 'k, 't, 'j, 'w) vp_service \<Rightarrow> 'pd \<Rightarrow> string list \<Rightarrow> 'pd transaction \<Rightarrow> string \<Rightarrow> string \<Rightarrow> 'pd verifier \<Rightarrow> signing_did
     \<Rightarrow> string \<Rightarrow> int \<Rightarrow> 'pd auth_request" where
  "createRequestObject svc pd formats tx nonce purpose profile signing uuid now =
     \<lparr>rq_JTI = uuid, rq_IAT = unix_time now, rq_ISS = sd_DID signing, rq_ResponseType = ''id_token'',
      rq_ResponseMode = ''post'', rq_Scope = ''openid'', rq_Nonce = nonce, rq_ClientID = sd_DID signing,
      rq_RedirectURI = vs_redirectURL svc, rq_State = tx_ID tx, rq_Exp = unix_time (now + vs_tokenLifetime svc),
      rq_Registration = \<lparr>rr_ClientName = pv_Name profile, rr_SubjectSyntaxTypesSupported = [''did:ion''],
         rr_JwtVCAlg = formats, rr_JwtVPAlg = formats, rr_ClientPurpose = purpose\<rparr>,
      rq_PresentationDefinition = pd\<rparr>"

definition singRequestObject ::
  "('pd, 'k, 't, 'j, 'w) vp_service \<Rightarrow> 'pd auth_request \<Rightarrow> signing_did \<Rightarrow> 'k \<Rightarrow> string res" where
  "singRequestObject svc ro signing vcsSigner =
     bindR (wrapR ''initiate oidc interaction: sign token failed: ''
        (vs_newSigned svc ro \<lparr>js_keyID = sd_Creator signing, js_signer = vcsSigner\<rparr>)) (\<lambda>token.
     wrapR ''initiate oidc interaction: serialize token failed: '' (vs_serialize svc token))"

definition createRequestObjectJWT ::
  "('pd, 'k, 't, 'j, 'w) vp_service \<Rightarrow> 'pd \<Rightarrow> 'pd transaction \<Rightarrow> string \<Rightarrow> string \<Rightarrow> 'pd verifier \<Rightarrow> string \<Rightarrow> int \<Rightarrow> string res" where
  "createRequestObjectJWT svc pd tx nonce purpose profile uuid now =
     bindR (wrapR ''initiate oidc interaction: get key manager failed: ''
        (getKeyManager (vs_defaultKM svc) (pv_KMSConfig profile))) (\<lambda>kms.
     bindR (deref (pv_SigningDID profile)) (\<lambda>signing.
     let ro = createRequestObject svc pd (getSupportedVPFormats kms) tx nonce purpose profile signing uuid now
     in bindR (deref (pv_OIDCConfig profile)) (\<lambda>cfg.
        bindR (wrapR ''initiate oidc interaction: get jwt signature type failed: ''
           (getJWTSignatureTypeByKey (vs_keyTypeName svc) (ov_KeyType cfg))) (\<lambda>alg.
        bindR (wrapR ''initiate oidc interaction: get create signer failed: ''
           (km_newSigner kms (sd_Creator signing) alg)) (\<lambda>sgn.
        singRequestObject svc ro signing sgn)))))"

definition initiateOidcInteraction ::
  "('pd, 'k, 't, 'j, 'w) vp_service \<Rightarrow> 'pd \<Rightarrow> string \<Rightarrow> 'pd verifier \<Rightarrow> (nat \<Rightarrow> string) \<Rightarrow> (nat \<Rightarrow> int) \<Rightarrow> 'w
     \<Rightarrow> interaction_info res \<times> 'w" where
  "initiateOidcInteraction svc pd purpose profile uuid clock w =
     (if pv_SigningDID profile = None then (Err (ErrMsg ''profile signing did can't be nil''), w)
      else
        andthen (wrapS ''fail to create oidc tx: '' (createTx (vs_mgr svc) pd (pv_ID profile) (clock 0) w)) (\<lambda>(tx, nonce) w.
        andthen (sendEvent svc tx profile VerifierOIDCInteractionInitiated (uuid 0) (clock 1) w) (\<lambda>_ w.
        andthen (pure_op (createRequestObjectJWT svc pd tx nonce purpose profile (uuid 1) (clock 2)) w) (\<lambda>token w.
        andthen (wrapS ''fail publish request object: ''
           (vs_publishRO svc token (createEvent tx profile VerifierOIDCInteractionQRScanned (uuid 2) (clock 3)) w)) (\<lambda>uri w.
        (Ok \<lparr>ii_AuthorizationRequest = ''openid-vc://?request_uri='' @ uri, ii_TxID = tx_ID tx\<rparr>, w))))))"

subsection \<open>The response\<close>

text \<open>The loop of \<open>checkVCSubject\<close>: the subject of a JWT credential is its \<open>sub\<close> claim.\<close>

definition subjectOf :: "('pd, 'k, 't, 'j, 'w) vp_service \<Rightarrow> credential \<Rightarrow> string res" where
  "subjectOf svc cred =
     bindR (wrapR ''fail to parse credential as jwt: '' (vs_subjectID svc (cr_Subject cred))) (\<lambda>sid.
     if cr_JWT cred \<noteq> []
     then bindR (wrapR ''fail to parse credential as jwt: '' (vs_parseJWT svc (cr_JWT cred))) (\<lambda>t.
          wrapR ''fail to decode credential claims: '' (vs_decodeSub svc t))
     else Ok sid)"

definition checkVCSubject :: "('pd, 'k, 't, 'j, 'w) vp_service \<Rightarrow> claims \<Rightarrow> processed_token \<Rightarrow> unit res" where
  "checkVCSubject svc credentials token =
     eachR (\<lambda>(_, cred). bindR (subjectOf svc cred) (\<lambda>sid.
        if pt_Signer token \<noteq> sid
        then Err (ErrMsg (''vc subject('' @ sid @ '') is not much with vp signer('' @ pt_Signer token @ '')''))
        else Ok ())) credentials"

definition checks_subject :: "'pd verifier \<Rightarrow> bool" where
  "checks_subject profile = (case pv_Checks profile of None \<Rightarrow> False
     | Some c \<Rightarrow> (case vk_Presentation c of None \<Rightarrow> False | Some pc \<Rightarrow> pc_VCSubject pc))"

text \<open>\<open>extractClaimData\<close> clears the JWT of the caller's presentation before it is matched.\<close>

definition extractClaimData ::
  "('pd, 'k, 't, 'j, 'w) vp_service \<Rightarrow> 'pd transaction \<Rightarrow> processed_token \<Rightarrow> 'pd verifier \<Rightarrow> string \<Rightarrow> int \<Rightarrow> 'w \<Rightarrow> unit res \<times> 'w" where
  "extractClaimData svc tx token profile uuid now w =
     (let vp = (pt_Presentation token)\<lparr>pr_JWT := []\<rparr>
      in andthen (pure_op (vs_marshalVP svc vp) w) (\<lambda>_ w.
         andthen (wrapS ''extract claims: match: '' (pure_op (vs_match svc (tx_PresentationDefinition tx) vp) w)) (\<lambda>credentials w.
         andthen (pure_op (if checks_subject profile then checkVCSubject svc credentials token else Ok ()) w) (\<lambda>_ w.
         andthen (wrapS ''extract claims: store: '' (storeReceivedClaims (vs_mgr svc) (tx_ID tx) (Some credentials) w)) (\<lambda>_ w.
         sendEvent svc tx profile VerifierOIDCInteractionSucceeded uuid now w)))))"

definition verifyOIDC ::
  "('pd, 'k, 't, 'j, 'w) vp_service \<Rightarrow> string \<Rightarrow> processed_token \<Rightarrow> (nat \<Rightarrow> string) \<Rightarrow> (nat \<Rightarrow> int) \<Rightarrow> 'w \<Rightarrow> unit res \<times> 'w" where
  "verifyOIDC svc txID token uuid clock w =
     andthen (wrapS ''get tx by nonce failed: '' (getByOneTimeToken (vs_mgr svc) (pt_Nonce token) (clock 0) w)) (\<lambda>(otx, validNonce) w.
     if \<not> validNonce then (Err (ErrMsg ''invalid nonce''), w)
     else
       andthen (pure_op (deref otx) w) (\<lambda>tx w.
       if tx_ID tx \<noteq> txID then (Err (ErrMsg ''invalid nonce''), w)
       else
         andthen (wrapS ''inconsistent transaction state '' (pure_op (getProfile (vs_profiles svc) (tx_ProfileID tx)) w)) (\<lambda>oprofile w.
         andthen (pure_op (deref oprofile) w) (\<lambda>profile w.
         andthen (pure_op (vs_marshalVP svc (pt_Presentation token)) w) (\<lambda>_ w.
         andthen (wrapS ''presentation verification failed: '' (pure_op (vs_verify svc (pt_Presentation token) None profile) w)) (\<lambda>vr w.
         case vr of
           c # _ \<Rightarrow> (Err (ErrMsg (''presentation verification checks failed: '' @ ck_Error c)), w)
         | [] \<Rightarrow> extractClaimData svc tx token profile (uuid 0) (clock 1) w))))))"

definition getTx :: "('pd, 'k, 't, 'j, 'w) vp_service \<Rightarrow> string \<Rightarrow> 'w \<Rightarrow> 'pd transaction res \<times> 'w" where
  "getTx svc i w = mgrGet (vs_mgr svc) i w"

text \<open>\<open>RetrieveClaims\<close>; the entries come in the iteration order of the Go map.\<close>

definition metadata_of :: "credential \<Rightarrow> credential_metadata" where
  "metadata_of cred = \<lparr>cm_Format = (if cr_JWT cred \<noteq> [] then ''jwt'' else ''ldp''), cm_Type = cr_Types cred,
     cm_SubjectData = cr_Subject cred\<rparr>"

definition retrieveClaims :: "'pd transaction \<Rightarrow> string \<rightharpoonup> credential_metadata" where
  "retrieveClaims tx = fold (\<lambda>(_, cred) m. m(cr_ID cred \<mapsto> metadata_of cred)) (tx_ReceivedClaims tx) Map.empty"

subsection \<open>What a successful interaction means\<close>

lemma andthen_pure_res: "andthen (pure_op r w) k = (case r of Ok a \<Rightarrow> k a w | Err e \<Rightarrow> (Err e, w) | Panic p \<Rightarrow> (Panic p, w))"
  by (cases r) (simp_all add: pure_op_def)

lemma extractClaimData_Ok:
  assumes "extractClaimData svc tx token profile uuid now w = (Ok (), w')"
  obtains cs w1 where "vs_match svc (tx_PresentationDefinition tx) ((pt_Presentation token)\<lparr>pr_JWT := []\<rparr>) = Ok cs"
    "checks_subject profile \<Longrightarrow> checkVCSubject svc cs token = Ok ()"
    "tm_update (vs_mgr svc) (tx_ID tx) (Some cs) w = (Ok (), w1)"
    "vs_send svc VerifierEventTopic [createEvent tx profile VerifierOIDCInteractionSucceeded uuid now] w1 = (Ok (), w')"
proof -
  let ?vp = "(pt_Presentation token)\<lparr>pr_JWT := []\<rparr>"
  obtain j where j: "vs_marshalVP svc ?vp = Ok j"
    using assms by (auto simp: extractClaimData_def Let_def elim: andthen_pureE)
  obtain cs where cs: "vs_match svc (tx_PresentationDefinition tx) ?vp = Ok cs"
    using assms j by (auto simp: extractClaimData_def Let_def)
  have sub: "checks_subject profile \<longrightarrow> checkVCSubject svc cs token = Ok ()"
    using assms j cs by (auto simp: extractClaimData_def Let_def andthen_eq_Ok)
  obtain w1 where "storeReceivedClaims (vs_mgr svc) (tx_ID tx) (Some cs) w = (Ok (), w1)"
    "sendEvent svc tx profile VerifierOIDCInteractionSucceeded uuid now w1 = (Ok (), w')"
    using assms j cs sub
    by (cases "checks_subject profile") (auto simp: extractClaimData_def Let_def andthen_eq_Ok)
  then show thesis
    using that cs sub by (auto simp: storeReceivedClaims_def sendEvent_def)
qed

lemma verifyOIDC_Ok:
  assumes "verifyOIDC svc txID token uuid clock w = (Ok (), w')"
  obtains tx profile w1 where
    "getByOneTimeToken (vs_mgr svc) (pt_Nonce token) (clock 0) w = (Ok (Some tx, True), w1)" "tx_ID tx = txID"
    "vs_profiles svc (tx_ProfileID tx) = Some profile" "vs_verify svc (pt_Presentation token) None profile = Ok []"
    "extractClaimData svc tx token profile (uuid 0) (clock 1) w1 = (Ok (), w')"
proof -
  obtain otx valid w1 where g: "getByOneTimeToken (vs_mgr svc) (pt_Nonce token) (clock 0) w = (Ok (otx, valid), w1)"
    using assms by (auto simp: verifyOIDC_def)
  then have v: "valid" using assms by (auto simp: verifyOIDC_def split: if_splits)
  note step = assms [unfolded verifyOIDC_def, unfolded g, simplified v wrapS_simps andthen.simps, simplified]
  obtain tx where tx: "otx = Some tx"
    using step by (auto elim: andthen_pureE)
  have id: "tx_ID tx = txID" using step tx by (auto split: if_splits)
  obtain oprofile where p: "getProfile (vs_profiles svc) (tx_ProfileID tx) = Ok oprofile"
    using step tx id by (auto simp: wrapS_def)
  obtain profile where profile: "oprofile = Some profile"
    using step tx id p by (auto simp: wrapS_def pure_op_def elim: andthen_pureE)
  obtain j where j: "vs_marshalVP svc (pt_Presentation token) = Ok j"
    using step tx id p profile by (auto simp: wrapS_def pure_op_def elim: andthen_pureE)
  obtain vr where vr: "vs_verify svc (pt_Presentation token) None profile = Ok vr"
    using step tx id p profile j by (auto simp: wrapS_def pure_op_def)
  have "vr = []" using step tx id p profile j vr by (cases vr) (auto simp: wrapS_def pure_op_def)
  moreover from this have "extractClaimData svc tx token profile (uuid 0) (clock 1) w1 = (Ok (), w')"
    using step tx id p profile j vr by (simp add: wrapS_def pure_op_def)
  ultimately show thesis
    using that g v tx id p profile vr by (simp add: getProfile_def)
qed

text \<open>The service over the MongoDB stores: sending events leaves the two collections alone.\<close>

definition vp_service_over ::
  "('pd, 'y) tx_codec_scheme \<Rightarrow> (nat \<Rightarrow> 'r \<Rightarrow> 8 word list res \<times> 'r) \<Rightarrow> (8 word list \<Rightarrow> string) \<Rightarrow> int
     \<Rightarrow> ('pd, 'k, 't, 'j, ('c1, 'c2, 'r, 'z) vpw) vp_service \<Rightarrow> bool" where
  "vp_service_over tc rnd enc ttl svc \<longleftrightarrow> vs_mgr svc = mongo_mgr tc rnd enc ttl \<and> (\<forall>b. enc b \<noteq> [])
     \<and> (\<forall>topic evs w. vw_nonces (snd (vs_send svc topic evs w)) = vw_nonces w \<and> vw_txs (snd (vs_send svc topic evs w)) = vw_txs w)"

text \<open>Object ids are kept in the form \<open>Hex\<close> prints them.\<close>

definition canonical_ids :: "('c1, 'c2, 'r, 'z) vpw \<Rightarrow> bool" where
  "canonical_ids w \<longleftrightarrow> (\<forall>i. docs (vw_txs w) i \<noteq> None \<longrightarrow> i \<noteq> [] \<and> to_lower i = i)"

lemma mongo_update_claims:
  assumes codec: "\<forall>c b. tc_marshal tc c = Ok b \<longrightarrow> tc_parse tc b = Ok c" and inv: "coll_ok no_clash s"
    and tx: "mongo_txs tc s i = Some (Ok tx)" "i \<noteq> []" "to_lower i = i" and upd: "txUpdate tc i (Some cs) s = (Ok (), s')"
  shows "mongo_txs tc s' = (mongo_txs tc s)(i \<mapsto> Ok (tx\<lparr>tx_ReceivedClaims := cs\<rparr>))"
proof -
  obtain d bs where d: "docs s i = Some d" "marshalClaims tc (Some cs) = Ok bs" "docs s' = (docs s)(i \<mapsto> d\<lparr>td_ReceivedClaims := bs\<rparr>)"
    using txUpdate_step [OF inv upd] tx(2,3) by auto
  have "txFromDocument tc i (d\<lparr>td_ReceivedClaims := bs\<rparr>) = Ok (tx\<lparr>tx_ReceivedClaims := cs\<rparr>)"
    using tx(1) d(1) claims_roundtrip [OF codec d(2)] by (auto simp: mongo_txs_def txFromDocument_def)
  then show ?thesis
    using mongo_txs_upd [OF d(3), of tc] by simp
qed

lemma verifyOIDC_nonce:
  assumes "vp_service_over tc rnd enc ttl svc" "vp_inv w" "verifyOIDC svc txID token uuid clock w = (Ok (), w')"
  shows "vp_inv w' \<and> (\<exists>i e. vp_live w (pt_Nonce token) = Some (i, e) \<and> clock 0 \<le> e \<and> (i \<noteq> [] \<longrightarrow> to_lower i = txID))
    \<and> vp_live w' = (vp_live w)(pt_Nonce token := None)"
proof -
  have over: "vs_mgr svc = mongo_mgr tc rnd enc ttl" "\<And>b. enc b \<noteq> []"
    "\<And>topic evs w. vw_nonces (snd (vs_send svc topic evs w)) = vw_nonces w"
    "\<And>topic evs w. vw_txs (snd (vs_send svc topic evs w)) = vw_txs w"
    using assms(1) by (auto simp: vp_service_over_def)
  obtain tx profile w1 where v: "getByOneTimeToken (vs_mgr svc) (pt_Nonce token) (clock 0) w = (Ok (Some tx, True), w1)"
    "tx_ID tx = txID" "extractClaimData svc tx token profile (uuid 0) (clock 1) w1 = (Ok (), w')"
    using verifyOIDC_Ok [OF assms(3)] by metis
  note G = tm.getByOneTimeToken_eff [OF mongo_mgr_over [OF over(2)] assms(2) v(1) [unfolded over(1)]]
  obtain cs w2 ev where e: "tm_update (vs_mgr svc) (tx_ID tx) (Some cs) w1 = (Ok (), w2)" "vs_send svc VerifierEventTopic [ev] w2 = (Ok (), w')"
    using extractClaimData_Ok [OF v(3)] by metis
  have "vw_nonces w' = vw_nonces w1" "coll_ok no_clash (vw_txs w')"
    using e over(1) over(3,4) [of VerifierEventTopic "[ev]" w2] G txUpdate_step [of "vw_txs w1" tc "tx_ID tx" "Some cs"]
    by (auto simp: mongo_mgr_def on_defs vp_inv_def prod_eq_iff)
  then show ?thesis
    using G v(2) by (auto simp: vp_inv_def vp_live_def)
qed

subsection \<open>Properties\<close>

text \<open>C1: A presentation is accepted only for the interaction it answers, and its claims are kept. If
  \<open>VerifyOIDCVerifiablePresentation\<close> succeeds, the nonce was live and unexpired and bound to the
  transaction \<open>txID\<close>; the profile of that transaction accepted the presentation without a failed
  check; the presentation matched the transaction's own definition; where the profile asks for it,
  every credential's subject is the signer of the token; the nonce is spent, the transaction now
  holds exactly the matched claims, and the success event was sent.\<close>
theorem accepted_presentation_sound:
  assumes "vp_service_over tc rnd enc ttl svc" "vp_inv w" "canonical_ids w"
    and "\<forall>c b. tc_marshal tc c = Ok b \<longrightarrow> tc_parse tc b = Ok c"
    and "verifyOIDC svc txID token uuid clock w = (Ok (), w')"
  shows "\<exists>i e tx profile cs wa. vp_live w (pt_Nonce token) = Some (i, e) \<and> clock 0 \<le> e \<and> (i \<noteq> [] \<longrightarrow> to_lower i = txID)
    \<and> vp_txs tc w txID = Some (Ok tx) \<and> vs_profiles svc (tx_ProfileID tx) = Some profile
    \<and> vs_verify svc (pt_Presentation token) None profile = Ok []
    \<and> vs_match svc (tx_PresentationDefinition tx) ((pt_Presentation token)\<lparr>pr_JWT := []\<rparr>) = Ok cs
    \<and> (checks_subject profile \<longrightarrow> (\<forall>(k, c) \<in> set cs. subjectOf svc c = Ok (pt_Signer token)))
    \<and> vp_live w' = (vp_live w)(pt_Nonce token := None)
    \<and> vp_txs tc w' = (vp_txs tc w)(txID \<mapsto> Ok (tx\<lparr>tx_ReceivedClaims := cs\<rparr>))
    \<and> vs_send svc VerifierEventTopic [createEvent tx profile VerifierOIDCInteractionSucceeded (uuid 0) (clock 1)] wa = (Ok (), w')"
proof -
  have over: "vs_mgr svc = mongo_mgr tc rnd enc ttl" "\<And>b. enc b \<noteq> []"
    "\<And>topic evs w. vw_txs (snd (vs_send svc topic evs w)) = vw_txs w"
    using assms(1) by (auto simp: vp_service_over_def)
  obtain tx profile w1 where v: "getByOneTimeToken (vs_mgr svc) (pt_Nonce token) (clock 0) w = (Ok (Some tx, True), w1)" "tx_ID tx = txID"
    "vs_profiles svc (tx_ProfileID tx) = Some profile" "vs_verify svc (pt_Presentation token) None profile = Ok []"
    "extractClaimData svc tx token profile (uuid 0) (clock 1) w1 = (Ok (), w')"
    using verifyOIDC_Ok [OF assms(5)] by metis
  note G = tm.getByOneTimeToken_eff [OF mongo_mgr_over [OF over(2)] assms(2) v(1) [unfolded over(1)]]
  then have inv1: "vp_inv w1" and tx1: "vp_txs tc w1 = vp_txs tc w" "vp_txs tc w txID = Some (Ok tx)" using v(2) by auto
  obtain cs w2 where e: "vs_match svc (tx_PresentationDefinition tx) ((pt_Presentation token)\<lparr>pr_JWT := []\<rparr>) = Ok cs"
    "checks_subject profile \<Longrightarrow> checkVCSubject svc cs token = Ok ()"
    "tm_update (vs_mgr svc) (tx_ID tx) (Some cs) w1 = (Ok (), w2)"
    "vs_send svc VerifierEventTopic [createEvent tx profile VerifierOIDCInteractionSucceeded (uuid 0) (clock 1)] w2 = (Ok (), w')"
    using extractClaimData_Ok [OF v(5)] by metis
  have canon: "txID \<noteq> []" "to_lower txID = txID"
    using assms(3) tx1(2) by (auto simp: canonical_ids_def vp_txs_def mongo_txs_def)
  have upd: "txUpdate tc txID (Some cs) (vw_txs w1) = (Ok (), vw_txs w')"
    using e(3,4) over(1) over(3) [of VerifierEventTopic "[createEvent tx profile VerifierOIDCInteractionSucceeded (uuid 0) (clock 1)]" w2] v(2)
    by (auto simp: mongo_mgr_def on_defs prod_eq_iff)
  have "vp_txs tc w' = (vp_txs tc w)(txID \<mapsto> Ok (tx\<lparr>tx_ReceivedClaims := cs\<rparr>))"
    using mongo_update_claims [OF assms(4) _ _ canon upd] inv1 tx1 by (simp add: vp_inv_def vp_txs_def)
  moreover have "checks_subject profile \<longrightarrow> (\<forall>(k, c) \<in> set cs. subjectOf svc c = Ok (pt_Signer token))"
    using e(2) by (fastforce simp: checkVCSubject_def split: if_splits)
  ultimately show ?thesis
    using G v(2-4) e(1,4) tx1(2) verifyOIDC_nonce [OF assms(1,2,5)] by auto
qed

text \<open>C2: An accepted presentation cannot be replayed. Once a call of
  \<open>VerifyOIDCVerifiablePresentation\<close> succeeded, no later call with the same nonce does, whatever
  transaction, presentation or time it is given.\<close>
theorem presentation_not_replayed:
  assumes "vp_service_over tc rnd enc ttl svc" "vp_inv w"
    and "verifyOIDC svc txID token uuid clock w = (Ok (), w1)" "pt_Nonce token2 = pt_Nonce token"
  shows "verifyOIDC svc txID2 token2 uuid2 clock2 w1 \<noteq> (Ok (), w2)"
proof
  assume "verifyOIDC svc txID2 token2 uuid2 clock2 w1 = (Ok (), w2)"
  then show False
    using verifyOIDC_nonce [OF assms(1,2,3)] verifyOIDC_nonce [OF assms(1), of w1 txID2 token2 uuid2 clock2 w2] assms(4) by auto
qed

subsection \<open>A concrete interaction\<close>

type_synonym demo_vp_world = "(nonce_doc mem, tx_doc mem, unit) vp_world"

definition subject_verifier :: "string verifier" where
  "subject_verifier = \<lparr>pv_ID = ''p1'', pv_Name = [], pv_URL = ''url'', pv_Active = True, pv_OrganizationID = ''org'',
     pv_Checks = Some (full_checks\<lparr>vk_Presentation := Some \<lparr>pc_Proof = True, pc_VCSubject = True, pc_Format = []\<rparr>\<rparr>),
     pv_OIDCConfig = None, pv_KMSConfig = None, pv_SigningDID = None, pv_PresentationDefinitions = [], pv_WebHook = []\<rparr>"

definition demo_svc :: "(string, unit, unit, unit, demo_vp_world) vp_service" where
  "demo_svc = \<lparr>vs_mgr = demo_mgr, vs_publishRO = (\<lambda>_ _ w. (Ok ''uri'', w)), vs_send = (\<lambda>_ _ w. (Ok (), w)),
     vs_defaultKM = \<lparr>km_supported = [], km_newSigner = (\<lambda>_ _. Ok ())\<rparr>, vs_profiles = [''p1'' \<mapsto> subject_verifier],
     vs_verify = (\<lambda>_ _ _. Ok []), vs_marshalVP = (\<lambda>_. Ok JNull),
     vs_match = (\<lambda>pd _. if pd = ''pd'' then Ok [(''k'', empty_credential)] else Err (ErrExt ''no match'')),
     vs_subjectID = (\<lambda>_. Ok ''did:holder''), vs_parseJWT = (\<lambda>_. Ok ()), vs_decodeSub = (\<lambda>_. Ok ''did:holder''),
     vs_keyTypeName = (\<lambda>_. []), vs_newSigned = (\<lambda>_ _. Ok ()), vs_serialize = (\<lambda>_. Ok ''jwt''), vs_redirectURL = [],
     vs_tokenLifetime = 60\<rparr>"

definition demo_token :: processed_token where
  "demo_token = \<lparr>pt_Nonce = ''nonce'', pt_Signer = ''did:holder'', pt_Presentation = sample_vp\<rparr>"

definition created_world :: demo_vp_world where
  "created_world = snd (createTx demo_mgr ''pd'' ''p1'' 100 demo_world)"

lemma created: "createTx demo_mgr ''pd'' ''p1'' 100 demo_world = (Ok (demo_tx, ''nonce''), created_world)"
  using demo_create by (auto simp: created_world_def)

lemma demo_svc_over: "vp_service_over demo_codec_tx (\<lambda>_ r. (Ok [], r)) (\<lambda>_. ''nonce'') 60 demo_svc"
  by (simp add: vp_service_over_def demo_svc_def demo_mgr_def)

lemma created_inv: "vp_inv created_world" "canonical_ids created_world"
proof -
  show "vp_inv created_world"
    using tm.createTx_eff [OF mongo_mgr_over demo_world_inv created [unfolded demo_mgr_def]] by simp
  show "canonical_ids created_world"
    by (simp add: canonical_ids_def created_world_def createTx_def mgr_eval)
qed

lemma demo_accept_any:
  "\<exists>w'. verifyOIDC demo_svc ''1'' \<lparr>pt_Nonce = ''nonce'', pt_Signer = ''did:holder'', pt_Presentation = p\<rparr> (\<lambda>_. ''id'') (\<lambda>_. 150) created_world = (Ok (), w')"
proof -
  obtain w1 where g: "getByOneTimeToken demo_mgr ''nonce'' 150 created_world = (Ok (Some demo_tx, True), w1)"
    using demo_redeem [OF created] by blast
  note G = tm.getByOneTimeToken_eff [OF mongo_mgr_over created_inv(1) g [unfolded demo_mgr_def]]
  have u: "\<exists>w2. storeReceivedClaims demo_mgr ''1'' (Some [(''k'', empty_credential)]) w1 = (Ok (), w2)"
    using g by (auto simp: created_world_def createTx_def getByOneTimeToken_def storeReceivedClaims_def mgr_eval
        txUpdate_def marshalClaims_def set_claims_def empty_credential_def)
  show ?thesis
    using g u
    by (auto simp: verifyOIDC_def extractClaimData_def demo_svc_def demo_tx_def getProfile_def Let_def
        pure_op_def checks_subject_def subject_verifier_def checkVCSubject_def subjectOf_def empty_credential_def sendEvent_def)
qed

lemma demo_accept: "\<exists>w'. verifyOIDC demo_svc ''1'' demo_token (\<lambda>_. ''id'') (\<lambda>_. 150) created_world = (Ok (), w')"
  unfolding demo_token_def by (rule demo_accept_any)

lemma demo_codec_law: "\<forall>c b. tc_marshal demo_codec_tx c = Ok b \<longrightarrow> tc_parse demo_codec_tx b = Ok c"
  by (auto simp: demo_codec_tx_def split: if_splits)

theorem accepted_presentation_sound_witness:
  "\<exists>w'. verifyOIDC demo_svc ''1'' demo_token (\<lambda>_. ''id'') (\<lambda>_. 150) created_world = (Ok (), w')
     \<and> vp_txs demo_codec_tx w' ''1'' = Some (Ok (demo_tx\<lparr>tx_ReceivedClaims := [(''k'', empty_credential)]\<rparr>))"
proof -
  obtain w' where w': "verifyOIDC demo_svc ''1'' demo_token (\<lambda>_. ''id'') (\<lambda>_. 150) created_world = (Ok (), w')"
    using demo_accept by blast
  have tx: "vp_txs demo_codec_tx created_world ''1'' = Some (Ok demo_tx)"
    using tm.createTx_eff [OF mongo_mgr_over demo_world_inv created [unfolded demo_mgr_def]] by (simp add: demo_tx_def)
  show ?thesis
    using accepted_presentation_sound [OF demo_svc_over created_inv demo_codec_law w'] w' tx
    by (auto simp: demo_svc_def demo_tx_def)
qed

theorem presentation_not_replayed_witness:
  "\<exists>w1. verifyOIDC demo_svc ''1'' demo_token (\<lambda>_. ''id'') (\<lambda>_. 150) created_world = (Ok (), w1)
     \<and> fst (verifyOIDC demo_svc ''1'' demo_token (\<lambda>_. ''id'') (\<lambda>_. 151) w1) \<noteq> Ok ()"
proof -
  obtain w1 where w1: "verifyOIDC demo_svc ''1'' demo_token (\<lambda>_. ''id'') (\<lambda>_. 150) created_world = (Ok (), w1)"
    using demo_accept by blast
  have "fst (verifyOIDC demo_svc ''1'' demo_token (\<lambda>_. ''id'') (\<lambda>_. 151) w1) \<noteq> Ok ()"
    using presentation_not_replayed [OF demo_svc_over created_inv(1) w1 refl] by (metis prod.collapse)
  then show ?thesis using w1 by blast
qed

end
