(* ===== verification/Profile_Reader.thy ===== *)
theory Profile_Reader
  imports Profile_Model
begin

text \<open>
  \<open>component/profile/reader/file\<close>: loading the profiles (\<open>reader.go\<close>) and creating their DIDs
  (\<open>creator.go\<close>). The JSON file is already decoded; key creation runs on the KMS state \<open>'w\<close>; DID
  registration (\<open>vdr.Create\<close>), JWK conversion and URL parsing are library calls and parameters.
  The registrar HTTP exchange of \<open>ionDID\<close> is one parameter that returns the long-form DID.
\<close>

record 'j ver_method =
  vm_ID :: string
  vm_Type :: string
  vm_JWK :: 'j

record 'j did_request =
  dr_VerificationMethod :: "'j ver_method list"
  dr_Authentication :: "'j ver_method list"
  dr_AssertionMethod :: "'j ver_method list"
  dr_CapabilityDelegation :: "'j ver_method list"
  dr_CapabilityInvocation :: "'j ver_method list"
  dr_LinkedDomains :: "string option"

record create_result =
  cre_didID :: string
  cre_creator :: string
  cre_updateKeyURL :: string
  cre_recoveryKeyURL :: string

record ('j, 'y, 'w) did_env =
  de_createJWK :: "key_type \<Rightarrow> 'w \<Rightarrow> (string \<times> 'j) res \<times> 'w"
  de_createCrypto :: "key_type \<Rightarrow> 'w \<Rightarrow> (string \<times> 'y) res \<times> 'w"
  de_vmFromJWK :: "string \<Rightarrow> string \<Rightarrow> 'j \<Rightarrow> 'j ver_method res"
  de_vdrCreate :: "string \<Rightarrow> 'j did_request \<Rightarrow> ('y \<times> 'y) option \<Rightarrow> 'w \<Rightarrow> string res \<times> 'w"
  de_ionRegister :: "'j did_request \<Rightarrow> 'w \<Rightarrow> string res \<times> 'w"

definition signatureTypeToDidVerificationMethod :: "(string \<times> string) list" where
  "signatureTypeToDidVerificationMethod =
    [(Ed25519Signature2020, ''Ed25519VerificationKey2020''),
     (Ed25519Signature2018, ''Ed25519VerificationKey2018''),
     (JSONWebSignature2020, ''JsonWebKey2020''),
     (EcdsaSecp256k1Signature2019, ''EcdsaSecp256k1VerificationKey2019''),
     (BbsBlsSignature2020, ''Bls12381G1Key2020''),
     (EdDSA, ''JsonWebKey2020''), (ES256K, ''JsonWebKey2020''), (ES256, ''JsonWebKey2020''),
     (ES384, ''JsonWebKey2020''), (PS256, ''JsonWebKey2020'')]"

definition didMethodType :: "string \<Rightarrow> string" where
  "didMethodType st = (case map_of signatureTypeToDidVerificationMethod st of None \<Rightarrow> [] | Some t \<Rightarrow> t)"

fun newVerMethods :: "('j, 'y, 'w) did_env \<Rightarrow> nat \<Rightarrow> string \<Rightarrow> key_type \<Rightarrow> 'w \<Rightarrow> 'j ver_method list res \<times> 'w" where
  "newVerMethods e 0 st kt w = (Ok [], w)"
| "newVerMethods e (Suc n) st kt w =
     andthen (wrapS ''failed to create key: '' (de_createJWK e kt w)) (\<lambda>(keyID, j) w.
     andthen (wrapS ''failed to create verification method: '' (pure_op (de_vmFromJWK e keyID (didMethodType st) j) w)) (\<lambda>vm w.
     andthen (newVerMethods e n st kt w) (\<lambda>vms w. (Ok (vm # vms), w))))"

definition empty_request :: "'j did_request" where
  "empty_request = \<lparr>dr_VerificationMethod = [], dr_Authentication = [], dr_AssertionMethod = [],
     dr_CapabilityDelegation = [], dr_CapabilityInvocation = [], dr_LinkedDomains = None\<rparr>"

definition createDID :: "('j, 'y, 'w) did_env \<Rightarrow> string \<Rightarrow> key_type \<Rightarrow> 'w \<Rightarrow> create_result res \<times> 'w" where
  "createDID e st kt w =
     andthen (wrapS ''did:orb: failed to create verification methods: '' (newVerMethods e 3 st kt w)) (\<lambda>ms w.
     let authentication = ms ! 0; assertion = ms ! 0; delegation = ms ! 1; invocation = ms ! 2;
         doc = empty_request\<lparr>dr_Authentication := [authentication], dr_AssertionMethod := [assertion],
                 dr_CapabilityDelegation := [delegation], dr_CapabilityInvocation := [invocation]\<rparr>
     in andthen (wrapS ''did:orb: failed to create update key: '' (de_createCrypto e kt w)) (\<lambda>(updateURL, updateKey) w.
        andthen (wrapS ''did:orb: failed to create recovery key: '' (de_createCrypto e kt w)) (\<lambda>(recoveryURL, recoveryKey) w.
        andthen (wrapS ''did:orb: failed to create did: '' (de_vdrCreate e ''orb'' doc (Some (updateKey, recoveryKey)) w)) (\<lambda>did w.
        (Ok \<lparr>cre_didID = did, cre_creator = did @ ''#'' @ vm_ID assertion, cre_updateKeyURL = updateURL,
             cre_recoveryKeyURL = recoveryURL\<rparr>, w)))))"

definition keyDID :: "('j, 'y, 'w) did_env \<Rightarrow> string \<Rightarrow> key_type \<Rightarrow> 'w \<Rightarrow> create_result res \<times> 'w" where
  "keyDID e st kt w =
     andthen (wrapS ''did:key: failed to create new ver method: '' (newVerMethods e 1 st kt w)) (\<lambda>ms w.
     andthen (wrapS ''did:key: failed to create did: ''
        (de_vdrCreate e ''key'' (empty_request\<lparr>dr_VerificationMethod := [ms ! 0]\<rparr>) None w)) (\<lambda>did w.
     (Ok \<lparr>cre_didID = did, cre_creator = did @ ''#'' @ vm_ID (ms ! 0), cre_updateKeyURL = [], cre_recoveryKeyURL = []\<rparr>, w)))"

definition webName :: "string \<Rightarrow> string \<Rightarrow> string" where
  "webName didDomain did =
     replace_all ''uAAA'' ''scid'' (replace_all ''orb'' (''web:'' @ replace_all ''https://'' [] didDomain) did)"

definition webDID :: "('j, 'y, 'w) did_env \<Rightarrow> string \<Rightarrow> key_type \<Rightarrow> string \<Rightarrow> 'w \<Rightarrow> create_result res \<times> 'w" where
  "webDID e st kt didDomain w =
     andthen (createDID e st kt w) (\<lambda>r w.
     let didWeb = webName didDomain (cre_didID r);
         creator = replace_all (cre_didID r) didWeb (cre_creator r)
     in (Ok \<lparr>cre_didID = didWeb, cre_creator = creator, cre_updateKeyURL = cre_updateKeyURL r,
             cre_recoveryKeyURL = cre_recoveryKeyURL r\<rparr>, w))"

definition ionDID :: "('j, 'y, 'w) did_env \<Rightarrow> string \<Rightarrow> key_type \<Rightarrow> string \<Rightarrow> 'w \<Rightarrow> create_result res \<times> 'w" where
  "ionDID e st kt difDidOrigin w =
     andthen (wrapS ''did:ion failed to create new ver method: '' (newVerMethods e 1 st kt w)) (\<lambda>ms w.
     let vm = (ms ! 0)\<lparr>vm_ID := ''#'' @ vm_ID (ms ! 0)\<rparr>;
         doc = empty_request\<lparr>dr_VerificationMethod := [vm], dr_AssertionMethod := [vm], dr_Authentication := [vm],
                 dr_LinkedDomains := (if difDidOrigin \<noteq> [] then Some (difDidOrigin @ ''/'') else None)\<rparr>
     in andthen (de_ionRegister e doc w) (\<lambda>longForm w.
        let did = replace_all ''test:'' [] longForm
        in (Ok \<lparr>cre_didID = did, cre_creator = did @ vm_ID vm, cre_updateKeyURL = [], cre_recoveryKeyURL = []\<rparr>, w)))"

definition publicDID ::
  "('j, 'y, 'w) did_env \<Rightarrow> string \<Rightarrow> string \<Rightarrow> key_type \<Rightarrow> string \<Rightarrow> string \<Rightarrow> 'w \<Rightarrow> create_result res \<times> 'w" where
  "publicDID e meth st kt didDomain difDidOrigin w =
     (if meth = ''key'' then keyDID e st kt w
      else if meth = ''orb'' then createDID e st kt w
      else if meth = ''web'' then webDID e st kt didDomain w
      else if meth = ''ion'' then ionDID e st kt difDidOrigin w
      else (Err (ErrMsg (''unsupported did method: '' @ meth)), w))"

subsection \<open>Loading\<close>

record 'p profile_entry =
  pe_Data :: 'p
  pe_CreateDID :: bool
  pe_DidDomain :: string

definition signing_of :: "create_result \<Rightarrow> signing_did" where
  "signing_of r = \<lparr>sd_DID = cre_didID r, sd_Creator = cre_creator r, sd_UpdateKeyURL = cre_updateKeyURL r,
     sd_RecoveryKeyURL = cre_recoveryKeyURL r\<rparr>"

definition keyCreatorErr :: string where
  "keyCreatorErr = ''issuer profile service: create profile failed: get keyCreator ''"
definition createDidErr :: string where
  "createDidErr = ''issuer profile service: create profile failed: create did ''"

text \<open>One profile of the file; \<open>env\<close> gives the DID environment for a domain, as \<open>orb.New\<close> does.\<close>

definition loadIssuer ::
  "(string \<Rightarrow> ('j, 'y, 'w) did_env res) \<Rightarrow> issuer profile_entry \<Rightarrow> 'w \<Rightarrow> issuer res \<times> 'w" where
  "loadIssuer env v w =
     (if pe_CreateDID v
      then andthen (pure_op (env (pe_DidDomain v)) w) (\<lambda>e w.
           andthen (wrapS keyCreatorErr (pure_op (getKeyManager () (pi_KMSConfig (pe_Data v))) w)) (\<lambda>_ w.
           andthen (pure_op (deref (pi_VCConfig (pe_Data v))) w) (\<lambda>cfg w.
           andthen (wrapS createDidErr (publicDID e (vcf_DIDMethod cfg) (vcf_SigningAlgorithm cfg) (vcf_KeyType cfg)
                      (pe_DidDomain v) [] w)) (\<lambda>r w.
           (Ok ((pe_Data v)\<lparr>pi_SigningDID := Some (signing_of r)\<rparr>), w)))))
      else (Ok (pe_Data v), w))"

definition loadVerifier ::
  "(string \<Rightarrow> ('j, 'y, 'w) did_env res) \<Rightarrow> (string \<Rightarrow> (string \<times> string) res) \<Rightarrow> 'pd verifier profile_entry \<Rightarrow> 'w
    \<Rightarrow> 'pd verifier res \<times> 'w" where
  "loadVerifier env parseURL v w =
     (case pv_OIDCConfig (pe_Data v) of
        Some cfg \<Rightarrow>
          if pe_CreateDID v
          then andthen (pure_op (env (pe_DidDomain v)) w) (\<lambda>e w.
               andthen (wrapS keyCreatorErr (pure_op (getKeyManager () (pv_KMSConfig (pe_Data v))) w)) (\<lambda>_ w.
               andthen (if pv_WebHook (pe_Data v) \<noteq> []
                        then andthen (pure_op (parseURL (pv_WebHook (pe_Data v))) w) (\<lambda>(scheme, host) w.
                               (Ok (scheme @ ''://'' @ host), w))
                        else (Ok [], w)) (\<lambda>origin w.
               andthen (wrapS createDidErr (publicDID e (ov_DIDMethod cfg) (ov_ROSigningAlgorithm cfg) (ov_KeyType cfg)
                          (pe_DidDomain v) origin w)) (\<lambda>r w.
               (Ok ((pe_Data v)\<lparr>pv_SigningDID := Some (signing_of r)\<rparr>), w)))))
          else (Ok (pe_Data v), w)
      | None \<Rightarrow> (Ok (pe_Data v), w))"

fun loadAll :: "('e \<Rightarrow> 'w \<Rightarrow> 'p res \<times> 'w) \<Rightarrow> ('p \<Rightarrow> string) \<Rightarrow> 'e list \<Rightarrow> (string \<rightharpoonup> 'p) \<Rightarrow> 'w \<Rightarrow> (string \<rightharpoonup> 'p) res \<times> 'w" where
  "loadAll load pid [] m w = (Ok m, w)"
| "loadAll load pid (v # vs) m w = andthen (load v w) (\<lambda>p w. loadAll load pid vs (m(pid p \<mapsto> p)) w)"

definition newIssuerReader ::
  "(string \<Rightarrow> ('j, 'y, 'w) did_env res) \<Rightarrow> issuer profile_entry list \<Rightarrow> 'w \<Rightarrow> (string \<rightharpoonup> issuer) res \<times> 'w" where
  "newIssuerReader env vs w = loadAll (loadIssuer env) pi_ID vs Map.empty w"

definition newVerifierReader ::
  "(string \<Rightarrow> ('j, 'y, 'w) did_env res) \<Rightarrow> (string \<Rightarrow> (string \<times> string) res) \<Rightarrow> 'pd verifier profile_entry list \<Rightarrow> 'w
    \<Rightarrow> (string \<rightharpoonup> 'pd verifier) res \<times> 'w" where
  "newVerifierReader env parseURL vs w = loadAll (loadVerifier env parseURL) pv_ID vs Map.empty w"

subsection \<open>Created DIDs\<close>

lemma newVerMethods_length: "newVerMethods e n st kt w = (Ok ms, w') \<Longrightarrow> length ms = n"
  by (induction n arbitrary: w ms w') (auto simp: andthen_eq_Ok)

text \<open>The creator of an orb or key DID names a key of the document that was registered: for orb, the
  assertion and authentication key.\<close>

lemma createDID_Ok:
  assumes "createDID e st kt w = (Ok r, w')"
  shows "\<exists>doc keys wa did vm. de_vdrCreate e ''orb'' doc (Some keys) wa = (Ok did, w')
     \<and> dr_AssertionMethod doc = [vm] \<and> dr_Authentication doc = [vm]
     \<and> cre_didID r = did \<and> cre_creator r = did @ ''#'' @ vm_ID vm"
  using assms by (fastforce simp: createDID_def andthen_eq_Ok Let_def empty_request_def)

lemma publicDID_supported: "publicDID e meth st kt domain origin w = (Ok r, w') \<Longrightarrow> meth \<in> {''key'', ''orb'', ''web'', ''ion''}"
  by (auto simp: publicDID_def split: if_splits)

subsection \<open>Loaded profiles\<close>

text \<open>\<open>loads_as v p\<close>: the entry's data with, when a DID was to be created, a signing DID set.\<close>

definition issuer_loads_as :: "issuer profile_entry \<Rightarrow> issuer \<Rightarrow> bool" where
  "issuer_loads_as v p \<longleftrightarrow>
     (if pe_CreateDID v then \<exists>d. p = (pe_Data v)\<lparr>pi_SigningDID := Some d\<rparr> else p = pe_Data v)"

lemma loadIssuer_Ok: "loadIssuer env v w = (Ok p, w') \<Longrightarrow> issuer_loads_as v p"
  by (auto simp: loadIssuer_def issuer_loads_as_def andthen_eq_Ok split: if_splits)

fun last_with :: "('e \<Rightarrow> string) \<Rightarrow> string \<Rightarrow> 'e list \<Rightarrow> 'e option" where
  "last_with f i [] = None"
| "last_with f i (v # vs) = (case last_with f i vs of Some x \<Rightarrow> Some x | None \<Rightarrow> if f v = i then Some v else None)"

lemma loadAll_spec:
  assumes "loadAll load pid vs m w = (Ok m', w')"
    and "\<And>v w p w1. load v w = (Ok p, w1) \<Longrightarrow> R v p \<and> pid p = eid v"
  shows "(case last_with eid i vs of None \<Rightarrow> m' i = m i | Some v \<Rightarrow> \<exists>p. m' i = Some p \<and> R v p)"
  using assms(1)
proof (induction vs arbitrary: m w)
  case (Cons v vs)
  then obtain p w1 where p: "load v w = (Ok p, w1)" "loadAll load pid vs (m(pid p \<mapsto> p)) w1 = (Ok m', w')"
    by (auto simp: andthen_eq_Ok)
  show ?case
    using Cons.IH [OF p(2)] assms(2) [OF p(1)] by (auto split: option.splits)
qed simp

text \<open>The profile table is the profile file. When the issuer reader starts, \<open>GetProfile\<close> of an id
  returns the data of the last entry of the file with that id, unchanged except that the signing DID
  is the created one where the entry asks for it; for an id that is not in the file it returns a nil
  profile and no error.\<close>
theorem issuer_reader_serves_file:
  assumes "newIssuerReader env vs w = (Ok m, w')"
  shows "case last_with (\<lambda>v. pi_ID (pe_Data v)) i vs of
      None \<Rightarrow> getProfile m i = Ok None
    | Some v \<Rightarrow> \<exists>p. getProfile m i = Ok (Some p) \<and> issuer_loads_as v p"
proof -
  have step: "issuer_loads_as v p \<and> pi_ID p = pi_ID (pe_Data v)" if "loadIssuer env v w = (Ok p, w1)" for v w p w1
    using loadIssuer_Ok [OF that] by (auto simp: issuer_loads_as_def split: if_splits)
  have "case last_with (\<lambda>v. pi_ID (pe_Data v)) i vs of None \<Rightarrow> m i = Map.empty i
      | Some v \<Rightarrow> \<exists>p. m i = Some p \<and> issuer_loads_as v p"
    by (rule loadAll_spec [OF assms [unfolded newIssuerReader_def]]) (rule step)
  then show ?thesis by (auto simp: getProfile_def split: option.splits)
qed

definition demo_issuer :: "string \<Rightarrow> string \<Rightarrow> issuer" where
  "demo_issuer i n = \<lparr>pi_ID = i, pi_Name = n, pi_URL = ''http://vc'', pi_Active = True, pi_OIDCConfig = None,
     pi_OrganizationID = ''org1'', pi_VCConfig = None, pi_KMSConfig = None, pi_SigningDID = None,
     pi_CredentialTemplates = []\<rparr>"

definition demo_file :: "issuer profile_entry list" where
  "demo_file = [\<lparr>pe_Data = demo_issuer ''a'' ''first'', pe_CreateDID = False, pe_DidDomain = []\<rparr>,
     \<lparr>pe_Data = demo_issuer ''a'' ''second'', pe_CreateDID = False, pe_DidDomain = []\<rparr>]"

definition no_env :: "string \<Rightarrow> (unit, unit, unit) did_env res" where
  "no_env _ = Err (ErrExt ''no vdr'')"

theorem issuer_reader_serves_file_witness:
  "\<exists>m. newIssuerReader no_env demo_file () = (Ok m, ()) \<and> getProfile m ''a'' = Ok (Some (demo_issuer ''a'' ''second''))"
proof -
  obtain m where m: "newIssuerReader no_env demo_file () = (Ok m, ())"
    by (auto simp: newIssuerReader_def demo_file_def loadIssuer_def)
  show ?thesis
    using issuer_reader_serves_file [OF m, of "''a''"] m
    by (auto simp: demo_file_def demo_issuer_def issuer_loads_as_def)
qed

end
