(* ===== verification/Lifecycle.thy ===== *)
theory Lifecycle
  imports Vcs_Prelude
begin

text \<open>
  \<open>pkg/lifecycle/lifecycle.go\<close>: the start/stop state of a service. \<open>Start\<close> and \<open>Stop\<close> may be called
  by several goroutines; each is cut at its atomic accesses to the state. The step relation lets
  the threads interleave in any way and records every run of the two hooks.
\<close>

datatype lc_state = StateNotStarted | StateStarting | StateStarted | StateStopped

definition ErrNotStarted :: go_error where
  "ErrNotStarted = ErrVar ''lifecycle.ErrNotStarted'' ''service has not started''"

definition compareAndSwap :: "lc_state \<Rightarrow> lc_state \<Rightarrow> lc_state \<Rightarrow> bool \<times> lc_state" where
  "compareAndSwap old new cur = (if cur = old then (True, new) else (False, cur))"

definition beginStart :: "lc_state \<Rightarrow> bool \<times> lc_state" where
  "beginStart = compareAndSwap StateNotStarted StateStarting"

definition beginStop :: "lc_state \<Rightarrow> bool \<times> lc_state" where
  "beginStop = compareAndSwap StateStarted StateStopped"

text \<open>Where a goroutine stands: between calls, before the start hook, between the hook and the store of
  \<open>StateStarted\<close>, before the stop hook.\<close>

datatype lc_pc = Ready | BeforeStartHook | BeforeStore | BeforeStopHook

datatype lc_hook = StartHook | StopHook

record lifecycle =
  lf_state :: lc_state
  lf_pc :: "nat \<Rightarrow> lc_pc"
  lf_hooks :: "lc_hook list"

definition newLifecycle :: lifecycle where
  "newLifecycle = \<lparr>lf_state = StateNotStarted, lf_pc = (\<lambda>_. Ready), lf_hooks = []\<rparr>"

inductive lc_step :: "lifecycle \<Rightarrow> lifecycle \<Rightarrow> bool" where
  start_wins: "lf_pc l t = Ready \<Longrightarrow> beginStart (lf_state l) = (True, st) \<Longrightarrow>
     lc_step l (l\<lparr>lf_state := st, lf_pc := (lf_pc l)(t := BeforeStartHook)\<rparr>)"
| start_loses: "lf_pc l t = Ready \<Longrightarrow> beginStart (lf_state l) = (False, st) \<Longrightarrow> lc_step l (l\<lparr>lf_state := st\<rparr>)"
| start_hook: "lf_pc l t = BeforeStartHook \<Longrightarrow>
     lc_step l (l\<lparr>lf_pc := (lf_pc l)(t := BeforeStore), lf_hooks := lf_hooks l @ [StartHook]\<rparr>)"
| start_store: "lf_pc l t = BeforeStore \<Longrightarrow>
     lc_step l (l\<lparr>lf_state := StateStarted, lf_pc := (lf_pc l)(t := Ready)\<rparr>)"
| stop_wins: "lf_pc l t = Ready \<Longrightarrow> beginStop (lf_state l) = (True, st) \<Longrightarrow>
     lc_step l (l\<lparr>lf_state := st, lf_pc := (lf_pc l)(t := BeforeStopHook)\<rparr>)"
| stop_loses: "lf_pc l t = Ready \<Longrightarrow> beginStop (lf_state l) = (False, st) \<Longrightarrow> lc_step l (l\<lparr>lf_state := st\<rparr>)"
| stop_hook: "lf_pc l t = BeforeStopHook \<Longrightarrow>
     lc_step l (l\<lparr>lf_pc := (lf_pc l)(t := Ready), lf_hooks := lf_hooks l @ [StopHook]\<rparr>)"

inductive lc_reach :: "lifecycle \<Rightarrow> bool" where
  lc_init: "lc_reach newLifecycle"
| lc_next: "lc_reach l \<Longrightarrow> lc_step l l' \<Longrightarrow> lc_reach l'"

subsection \<open>The invariant\<close>

text \<open>In each state at most one thread is inside a hook, and the hooks that ran are fixed.\<close>

definition only :: "(nat \<Rightarrow> lc_pc) \<Rightarrow> lc_pc \<Rightarrow> bool" where
  "only f pc \<longleftrightarrow> (\<exists>t. f t = pc \<and> (\<forall>u. u \<noteq> t \<longrightarrow> f u = Ready))"

lemma onlyD: "only f pc \<Longrightarrow> f t \<noteq> Ready \<Longrightarrow> f t = pc \<and> (\<forall>u. u \<noteq> t \<longrightarrow> f u = Ready)"
  by (auto simp: only_def) metis+

lemma only_upd: "\<forall>u. u \<noteq> t \<longrightarrow> f u = Ready \<Longrightarrow> only (f(t := pc)) pc"
  by (auto simp: only_def)

definition lc_inv :: "lifecycle \<Rightarrow> bool" where
  "lc_inv l \<longleftrightarrow> (case lf_state l of
       StateNotStarted \<Rightarrow> (\<forall>t. lf_pc l t = Ready) \<and> lf_hooks l = []
     | StateStarting \<Rightarrow> only (lf_pc l) BeforeStartHook \<and> lf_hooks l = [] \<or> only (lf_pc l) BeforeStore \<and> lf_hooks l = [StartHook]
     | StateStarted \<Rightarrow> (\<forall>t. lf_pc l t = Ready) \<and> lf_hooks l = [StartHook]
     | StateStopped \<Rightarrow> only (lf_pc l) BeforeStopHook \<and> lf_hooks l = [StartHook]
         \<or> (\<forall>t. lf_pc l t = Ready) \<and> lf_hooks l = [StartHook, StopHook])"

lemma lc_inv_busy:
  assumes "lc_inv l" "lf_pc l t \<noteq> Ready"
  shows "(\<forall>u. u \<noteq> t \<longrightarrow> lf_pc l u = Ready)
    \<and> (lf_pc l t = BeforeStartHook \<longrightarrow> lf_state l = StateStarting \<and> lf_hooks l = [])
    \<and> (lf_pc l t = BeforeStore \<longrightarrow> lf_state l = StateStarting \<and> lf_hooks l = [StartHook])
    \<and> (lf_pc l t = BeforeStopHook \<longrightarrow> lf_state l = StateStopped \<and> lf_hooks l = [StartHook])"
  using assms(1) by (cases "lf_state l") (use assms(2) in \<open>auto simp: lc_inv_def dest: onlyD [of "lf_pc l" _ t, OF _ assms(2)]\<close>)

lemma lc_step_inv: "lc_step l l' \<Longrightarrow> lc_inv l \<Longrightarrow> lc_inv l'"
proof (induction rule: lc_step.induct)
  case (start_hook l t)
  have b: "\<forall>u. u \<noteq> t \<longrightarrow> lf_pc l u = Ready" "lf_state l = StateStarting" "lf_hooks l = []"
    using lc_inv_busy [OF start_hook(2), of t] start_hook(1) by simp_all
  show ?case
    unfolding lc_inv_def using only_upd [OF b(1)] by (simp add: b(2,3))
next
  case (start_store l t)
  have b: "\<forall>u. u \<noteq> t \<longrightarrow> lf_pc l u = Ready" "lf_hooks l = [StartHook]"
    using lc_inv_busy [OF start_store(2), of t] start_store(1) by simp_all
  show ?case
    unfolding lc_inv_def using b(1) by (simp add: b(2))
next
  case (stop_hook l t)
  have b: "\<forall>u. u \<noteq> t \<longrightarrow> lf_pc l u = Ready" "lf_state l = StateStopped" "lf_hooks l = [StartHook]"
    using lc_inv_busy [OF stop_hook(2), of t] stop_hook(1) by simp_all
  show ?case
    unfolding lc_inv_def using b(1) by (simp add: b(2,3))
next
  case (start_wins l t st)
  then show ?case using only_upd [of t "lf_pc l"] by (auto simp: lc_inv_def beginStart_def compareAndSwap_def split: if_splits)
next
  case (stop_wins l t st)
  then show ?case using only_upd [of t "lf_pc l"] by (auto simp: lc_inv_def beginStop_def compareAndSwap_def split: if_splits)
next
  case (start_loses l t st)
  then have "st = lf_state l" by (simp add: beginStart_def compareAndSwap_def split: if_splits)
  then show ?case using start_loses(3) by (simp add: lc_inv_def)
next
  case (stop_loses l t st)
  then have "st = lf_state l" by (simp add: beginStop_def compareAndSwap_def split: if_splits)
  then show ?case using stop_loses(3) by (simp add: lc_inv_def)
qed

lemma lc_reach_inv: "lc_reach l \<Longrightarrow> lc_inv l"
proof (induction rule: lc_reach.induct)
  case lc_init
  show ?case by (simp add: lc_inv_def newLifecycle_def)
qed (rule lc_step_inv)

subsection \<open>Property\<close>

text \<open>C33: A service starts once and stops once. However the calls of \<open>Start\<close> and \<open>Stop\<close> by any number
  of goroutines interleave, the start hook runs at most once, the stop hook at most once and only
  after the start hook; and whenever the state reads \<open>StateStarted\<close>, the start hook has completed
  and the stop hook has not run.\<close>
theorem lifecycle_hooks_once:
  assumes "lc_reach l"
  shows "lf_hooks l \<in> {[], [StartHook], [StartHook, StopHook]} \<and> (lf_state l = StateStarted \<longrightarrow> lf_hooks l = [StartHook])"
  using lc_reach_inv [OF assms] by (auto simp: lc_inv_def split: lc_state.splits)

lemma lc_full_run: "\<exists>l. lc_reach l \<and> lf_state l = StateStopped \<and> lf_hooks l = [StartHook, StopHook]"
proof -
  have "lc_reach (newLifecycle\<lparr>lf_state := StateStarting, lf_pc := (\<lambda>_. Ready)(0 := BeforeStartHook)\<rparr>)" (is "lc_reach ?l1")
    using lc_next [OF lc_init start_wins [of newLifecycle 0 StateStarting]]
    by (simp add: newLifecycle_def beginStart_def compareAndSwap_def)
  then have "lc_reach (?l1\<lparr>lf_pc := (lf_pc ?l1)(0 := BeforeStore), lf_hooks := lf_hooks ?l1 @ [StartHook]\<rparr>)" (is "lc_reach ?l2")
    by (rule lc_next [OF _ start_hook]) simp
  then have "lc_reach (?l2\<lparr>lf_state := StateStarted, lf_pc := (lf_pc ?l2)(0 := Ready)\<rparr>)" (is "lc_reach ?l3")
    by (rule lc_next [OF _ start_store]) simp
  then have "lc_reach (?l3\<lparr>lf_state := StateStopped, lf_pc := (lf_pc ?l3)(1 := BeforeStopHook)\<rparr>)" (is "lc_reach ?l4")
    by (rule lc_next [OF _ stop_wins]) (simp_all add: beginStop_def compareAndSwap_def)
  then have "lc_reach (?l4\<lparr>lf_pc := (lf_pc ?l4)(1 := Ready), lf_hooks := lf_hooks ?l4 @ [StopHook]\<rparr>)"
    by (rule lc_next [OF _ stop_hook]) simp
  then show ?thesis
    by (intro exI) (auto simp: newLifecycle_def)
qed

theorem lifecycle_hooks_once_witness:
  "\<exists>l. lc_reach l \<and> lf_hooks l = [StartHook, StopHook] \<and> lf_hooks l \<in> {[], [StartHook], [StartHook, StopHook]}"
  using lc_full_run lifecycle_hooks_once by blast

end
