(* ===== verification/Event_Bus.thy ===== *)
theory Event_Bus
  imports Lifecycle Event_Model
begin

text \<open>
  \<open>component/event/bus.go\<close> and \<open>subscriber.go\<close>: the in-memory publisher/subscriber as a labelled step
  relation. The goroutines are the callers of \<open>Publish\<close>, \<open>Subscribe\<close> and \<open>Close\<close>, the worker
  \<open>processMessages\<close> and the listeners; a step is one channel operation or one critical section, and
  a label records it. Channels are buffers of at most \<open>defaultBufferSize\<close> messages; an unbuffered
  rendezvous on \<open>doneChan\<close> is a single step of both sides.
\<close>

definition defaultBufferSize :: nat where "defaultBufferSize = 250"

record entry =
  en_topic :: string
  en_messages :: "event list"

record channel =
  ch_buf :: "event list"
  ch_closed :: bool

text \<open>The worker waits in the \<open>select\<close>, has taken an entry, is sending the copies, is about to acknowledge
  the stop, has returned, or has panicked.\<close>

datatype worker = Waiting | Taken entry | Sending "(nat \<times> event) list" | Acking | Exited | Crashed

datatype stopper = NotStopping | SignallingDone | AwaitingAck | ClosingChannels | StopDone

record bus =
  bu_state :: lc_state
  bu_subscribers :: "(string \<times> nat list) list option"
  bu_channels :: "channel list"
  bu_queue :: "entry list"
  bu_senders :: "entry list"
  bu_subscribing :: "string list"
  bu_worker :: worker
  bu_stop :: stopper

datatype label =
    Accepted entry
  | Refused
  | Enqueued entry
  | Took entry
  | Routed entry
  | Sent nat event
  | Delivered nat event
  | Subscribed nat string
  | SubscribePanicked string
  | Internal

definition newEventBus :: bus where
  "newEventBus = \<lparr>bu_state = StateStarted, bu_subscribers = Some [], bu_channels = [], bu_queue = [], bu_senders = [],
     bu_subscribing = [], bu_worker = Waiting, bu_stop = NotStopping\<rparr>"

definition subs_of :: "(string \<times> nat list) list option \<Rightarrow> string \<Rightarrow> nat list" where
  "subs_of m topic = (case m of None \<Rightarrow> [] | Some al \<Rightarrow> (case map_of al topic of None \<Rightarrow> [] | Some cs \<Rightarrow> cs))"

text \<open>The two loops of \<open>publish\<close>: for every subscriber, a copy of every message.\<close>

definition deliveries :: "nat list \<Rightarrow> event list \<Rightarrow> (nat \<times> event) list" where
  "deliveries cs ms = concat (map (\<lambda>c. map (\<lambda>m. (c, copyEvent m)) ms) cs)"

definition closeAll :: "(string \<times> nat list) list \<Rightarrow> channel list \<Rightarrow> channel list" where
  "closeAll al chans = fold (\<lambda>(_, cs) xs. fold (\<lambda>c ys. ys[c := (ys ! c)\<lparr>ch_closed := True\<rparr>]) cs xs) al chans"

inductive bus_step :: "bus \<Rightarrow> label \<Rightarrow> bus \<Rightarrow> bool" where
  publish_started: "bu_state b = StateStarted \<Longrightarrow> bus_step b (Accepted e) (b\<lparr>bu_senders := bu_senders b @ [e]\<rparr>)"
| publish_refused: "bu_state b \<noteq> StateStarted \<Longrightarrow> bus_step b Refused b"
| publish_send: "bu_senders b = xs @ e # ys \<Longrightarrow> length (bu_queue b) < defaultBufferSize \<Longrightarrow>
     bus_step b (Enqueued e) (b\<lparr>bu_senders := xs @ ys, bu_queue := bu_queue b @ [e]\<rparr>)"
| worker_take: "bu_worker b = Waiting \<Longrightarrow> bu_queue b = e # q \<Longrightarrow>
     bus_step b (Took e) (b\<lparr>bu_queue := q, bu_worker := Taken e\<rparr>)"
| worker_route: "bu_worker b = Taken e \<Longrightarrow>
     bus_step b (Routed e) (b\<lparr>bu_worker := Sending (deliveries (subs_of (bu_subscribers b) (en_topic e)) (en_messages e))\<rparr>)"
| worker_send: "bu_worker b = Sending ((c, m) # ds) \<Longrightarrow> \<not> ch_closed (bu_channels b ! c) \<Longrightarrow>
     length (ch_buf (bu_channels b ! c)) < defaultBufferSize \<Longrightarrow>
     bus_step b (Sent c m) (b\<lparr>bu_worker := Sending ds,
        bu_channels := (bu_channels b)[c := (bu_channels b ! c)\<lparr>ch_buf := ch_buf (bu_channels b ! c) @ [m]\<rparr>]\<rparr>)"
| worker_crash: "bu_worker b = Sending ((c, m) # ds) \<Longrightarrow> ch_closed (bu_channels b ! c) \<Longrightarrow>
     bus_step b Internal (b\<lparr>bu_worker := Crashed\<rparr>)"
| worker_next: "bu_worker b = Sending [] \<Longrightarrow> bus_step b Internal (b\<lparr>bu_worker := Waiting\<rparr>)"
| listener_receive: "c < length (bu_channels b) \<Longrightarrow> ch_buf (bu_channels b ! c) = m # ms \<Longrightarrow>
     bus_step b (Delivered c m) (b\<lparr>bu_channels := (bu_channels b)[c := (bu_channels b ! c)\<lparr>ch_buf := ms\<rparr>]\<rparr>)"
| subscribe_started: "bu_state b = StateStarted \<Longrightarrow> bus_step b Internal (b\<lparr>bu_subscribing := bu_subscribing b @ [t]\<rparr>)"
| subscribe_refused: "bu_state b \<noteq> StateStarted \<Longrightarrow> bus_step b Refused b"
| subscribe_add: "bu_subscribing b = ts @ t # us \<Longrightarrow> bu_subscribers b = Some al \<Longrightarrow>
     bus_step b (Subscribed (length (bu_channels b)) t) (b\<lparr>bu_subscribing := ts @ us,
        bu_subscribers := Some (AList.update t (subs_of (Some al) t @ [length (bu_channels b)]) al),
        bu_channels := bu_channels b @ [\<lparr>ch_buf = [], ch_closed = False\<rparr>]\<rparr>)"
| subscribe_panic: "bu_subscribing b = ts @ t # us \<Longrightarrow> bu_subscribers b = None \<Longrightarrow>
     bus_step b (SubscribePanicked t) (b\<lparr>bu_subscribing := ts @ us\<rparr>)"
| stop_call: "beginStop (bu_state b) = (True, st) \<Longrightarrow> bus_step b Internal (b\<lparr>bu_state := st, bu_stop := SignallingDone\<rparr>)"
| stop_lost: "beginStop (bu_state b) = (False, st) \<Longrightarrow> bus_step b Internal (b\<lparr>bu_state := st\<rparr>)"
| stop_signal: "bu_stop b = SignallingDone \<Longrightarrow> bu_worker b = Waiting \<Longrightarrow>
     bus_step b Internal (b\<lparr>bu_stop := AwaitingAck, bu_worker := Acking\<rparr>)"
| stop_ack: "bu_stop b = AwaitingAck \<Longrightarrow> bu_worker b = Acking \<Longrightarrow>
     bus_step b Internal (b\<lparr>bu_stop := ClosingChannels, bu_worker := Exited\<rparr>)"
| stop_close: "bu_stop b = ClosingChannels \<Longrightarrow> bu_subscribers b = Some al \<Longrightarrow>
     bus_step b Internal (b\<lparr>bu_stop := StopDone, bu_channels := closeAll al (bu_channels b), bu_subscribers := None\<rparr>)"

inductive bus_run :: "label list \<Rightarrow> bus \<Rightarrow> bool" where
  run_init: "bus_run [] newEventBus"
| run_step: "bus_run tr b \<Longrightarrow> bus_step b l b' \<Longrightarrow> bus_run (tr @ [l]) b'"

subsection \<open>Reading a trace\<close>

fun enqueued :: "label \<Rightarrow> entry list" where "enqueued (Enqueued e) = [e]" | "enqueued _ = []"
fun routed :: "label \<Rightarrow> entry list" where "routed (Routed e) = [e]" | "routed _ = []"
fun sent_to :: "nat \<Rightarrow> label \<Rightarrow> event list" where "sent_to c (Sent d m) = (if d = c then [m] else [])" | "sent_to c _ = []"
fun delivered_to :: "nat \<Rightarrow> label \<Rightarrow> event list" where
  "delivered_to c (Delivered d m) = (if d = c then [m] else [])" | "delivered_to c _ = []"

definition on_trace :: "(label \<Rightarrow> 'x list) \<Rightarrow> label list \<Rightarrow> 'x list" where
  "on_trace f tr = concat (map f tr)"

lemma on_trace_simps [simp]: "on_trace f [] = []" "on_trace f (l # tr) = f l @ on_trace f tr" "on_trace f (tr @ us) = on_trace f tr @ on_trace f us"
  by (simp_all add: on_trace_def)

text \<open>What the worker still has to do for the entries it took.\<close>

definition in_hand :: "worker \<Rightarrow> entry list" where
  "in_hand w = (case w of Taken e \<Rightarrow> [e] | _ \<Rightarrow> [])"

definition pending :: "nat \<Rightarrow> worker \<Rightarrow> event list" where
  "pending c w = (case w of Sending ds \<Rightarrow> map snd (filter (\<lambda>d. fst d = c) ds) | _ \<Rightarrow> [])"

definition waiting_in :: "nat \<Rightarrow> bus \<Rightarrow> event list" where
  "waiting_in c b = (if c < length (bu_channels b) then ch_buf (bu_channels b ! c) else [])"

definition messages_for :: "string \<Rightarrow> entry list \<Rightarrow> event list" where
  "messages_for t es = concat (map en_messages (filter (\<lambda>e. en_topic e = t) es))"

subsection \<open>Control: the worker, the stopper and the channels\<close>

definition control :: "bus \<Rightarrow> bool" where
  "control b \<longleftrightarrow>
     (bu_stop b = NotStopping \<longleftrightarrow> bu_state b = StateStarted) \<and> bu_worker b \<noteq> Crashed
     \<and> (bu_worker b = Acking \<longleftrightarrow> bu_stop b = AwaitingAck) \<and> (bu_worker b = Exited \<longleftrightarrow> bu_stop b \<in> {ClosingChannels, StopDone})
     \<and> (bu_subscribers b = None \<longleftrightarrow> bu_stop b = StopDone)
     \<and> (bu_subscribers b \<noteq> None \<longrightarrow> (\<forall>c < length (bu_channels b). \<not> ch_closed (bu_channels b ! c)))"

text \<open>The worker sends to existing channels only.\<close>

definition addressed :: "bus \<Rightarrow> bool" where
  "addressed b \<longleftrightarrow> (\<forall>ds c m. bu_worker b = Sending ds \<longrightarrow> (c, m) \<in> set ds \<longrightarrow> c < length (bu_channels b))
     \<and> (\<forall>t c. c \<in> set (subs_of (bu_subscribers b) t) \<longrightarrow> c < length (bu_channels b))
     \<and> (\<forall>t. distinct (subs_of (bu_subscribers b) t))"

lemma subs_of_update: "subs_of (Some (AList.update t cs al)) u = (if u = t then cs else subs_of (Some al) u)"
  by (simp add: subs_of_def update_conv')

lemma subs_of_simps [simp]: "subs_of None t = []" "subs_of (Some []) t = []"
  by (simp_all add: subs_of_def)

definition close_all :: "nat list \<Rightarrow> channel list \<Rightarrow> channel list" where
  "close_all cs xs = fold (\<lambda>c ys. ys[c := (ys ! c)\<lparr>ch_closed := True\<rparr>]) cs xs"

lemma close_all_same: "length (close_all cs xs) = length xs \<and> ch_buf (close_all cs xs ! c) = ch_buf (xs ! c)"
proof (induction cs arbitrary: xs)
  case (Cons d cs)
  have "ch_buf (xs[d := (xs ! d)\<lparr>ch_closed := True\<rparr>] ! c) = ch_buf (xs ! c)"
    by (cases "d < length xs"; cases "d = c") (simp_all add: list_update_beyond)
  then show ?case using Cons [of "xs[d := (xs ! d)\<lparr>ch_closed := True\<rparr>]"] by (simp add: close_all_def)
qed (simp add: close_all_def)

lemma closeAll_same [simp]: "length (closeAll al xs) = length xs \<and> ch_buf (closeAll al xs ! c) = ch_buf (xs ! c)"
proof (induction al arbitrary: xs)
  case (Cons a al)
  have "closeAll (a # al) xs = closeAll al (close_all (snd a) xs)"
    by (cases a) (simp add: closeAll_def close_all_def)
  then show ?case using Cons [of "close_all (snd a) xs"] close_all_same [of "snd a" xs c] by simp
qed (simp add: closeAll_def)

lemma deliveries_in: "(c, m) \<in> set (deliveries cs ms) \<Longrightarrow> c \<in> set cs"
  by (auto simp: deliveries_def)

lemma bus_step_addressed: "bus_step b l b' \<Longrightarrow> addressed b \<Longrightarrow> addressed b'"
proof (induction rule: bus_step.induct)
  case (worker_route b e)
  then show ?case unfolding addressed_def by (auto dest: deliveries_in)
next
  case (subscribe_add b ts t us al)
  then have old: "\<And>u c. c \<in> set (subs_of (Some al) u) \<Longrightarrow> c < length (bu_channels b)" "\<And>u. distinct (subs_of (Some al) u)"
    "\<And>ds c m. bu_worker b = Sending ds \<Longrightarrow> (c, m) \<in> set ds \<Longrightarrow> c < length (bu_channels b)"
    by (auto simp: addressed_def)
  then show ?case
    by (auto simp: addressed_def subs_of_update less_Suc_eq)
next
  case (worker_send b c m ds)
  then show ?case unfolding addressed_def by auto
qed (auto simp: addressed_def)

lemma bus_step_control: "bus_step b l b' \<Longrightarrow> addressed b \<Longrightarrow> control b \<Longrightarrow> control b'"
proof (induction rule: bus_step.induct)
  case (worker_crash b c m ds)
  then have "c < length (bu_channels b)" by (auto simp: addressed_def)
  then show ?case using worker_crash by (auto simp: control_def)
next
  case (subscribe_add b ts t us al)
  then show ?case by (auto simp: control_def less_Suc_eq nth_append)
next
  case (worker_send b c m ds)
  then have "c < length (bu_channels b)" by (auto simp: addressed_def)
  then show ?case using worker_send by (auto simp: control_def nth_list_update split: if_splits)
next
  case (listener_receive c b m ms)
  then show ?case by (auto simp: control_def nth_list_update)
next
  case (stop_close b al)
  then show ?case by (auto simp: control_def)
qed (auto simp: control_def beginStop_def compareAndSwap_def split: if_splits)

lemma bus_run_control: "bus_run tr b \<Longrightarrow> addressed b \<and> control b"
proof (induction rule: bus_run.induct)
  case run_init
  show ?case by (auto simp: addressed_def control_def newEventBus_def)
qed (use bus_step_addressed bus_step_control in blast)

subsection \<open>Order\<close>

lemma bus_run_order: "bus_run tr b \<Longrightarrow> on_trace routed tr @ in_hand (bu_worker b) @ bu_queue b = on_trace enqueued tr"
proof (induction rule: bus_run.induct)
  case (run_step tr b l b')
  from run_step(2) show ?case
    by (cases rule: bus_step.cases)
      (use run_step(3) bus_run_control [OF run_step(1)] in \<open>auto simp: in_hand_def control_def split: worker.splits\<close>)
qed (simp add: newEventBus_def in_hand_def)

lemma bus_run_buffers: "bus_run tr b \<Longrightarrow> on_trace (sent_to c) tr = on_trace (delivered_to c) tr @ waiting_in c b"
proof (induction rule: bus_run.induct)
  case (run_step tr b l b')
  note ctl = bus_run_control [OF run_step(1)]
  from run_step(2) show ?case
  proof (cases rule: bus_step.cases)
    case (worker_send d m ds)
    then have "d < length (bu_channels b)" using ctl by (auto simp: addressed_def)
    then show ?thesis using worker_send run_step(3) by (auto simp: waiting_in_def nth_list_update)
  qed (use run_step(3) in \<open>auto simp: waiting_in_def nth_list_update nth_append less_Suc_eq\<close>)
qed (simp add: newEventBus_def waiting_in_def)

text \<open>The topic of a channel and the part of the trace after its subscription.\<close>

fun after_sub :: "nat \<Rightarrow> label list \<Rightarrow> (string \<times> label list) option" where
  "after_sub c [] = None"
| "after_sub c (Subscribed d t # ls) = (if d = c then Some (t, ls) else after_sub c ls)"
| "after_sub c (l # ls) = after_sub c ls"

fun sub_label :: "nat \<Rightarrow> label \<Rightarrow> string option" where
  "sub_label c (Subscribed d t) = (if d = c then Some t else None)"
| "sub_label c _ = None"

lemma after_sub_snoc:
  "after_sub c (tr @ [l]) = (case after_sub c tr of Some (t, ls) \<Rightarrow> Some (t, ls @ [l])
     | None \<Rightarrow> (case sub_label c l of Some t \<Rightarrow> Some (t, []) | None \<Rightarrow> None))"
  by (induction c tr rule: after_sub.induct) (auto split: label.splits, (cases l; simp)+)

definition sub_inv :: "label list \<Rightarrow> bus \<Rightarrow> bool" where
  "sub_inv tr b \<longleftrightarrow>
     (\<forall>c. after_sub c tr = None \<longleftrightarrow> length (bu_channels b) \<le> c)
     \<and> (\<forall>c t ls. after_sub c tr = Some (t, ls) \<longrightarrow> bu_subscribers b \<noteq> None \<longrightarrow>
          (\<forall>u. c \<in> set (subs_of (bu_subscribers b) u) \<longleftrightarrow> u = t))
     \<and> (\<forall>c \<ge> length (bu_channels b). on_trace (sent_to c) tr = [])"

lemma bus_run_subs: "bus_run tr b \<Longrightarrow> sub_inv tr b"
proof (induction rule: bus_run.induct)
  case (run_step tr b l b')
  note ctl = bus_run_control [OF run_step(1)]
  have some: "c < length (bu_channels b)" if "after_sub c tr = Some p" for c p
    using run_step(3) that unfolding sub_inv_def by (metis not_less option.distinct(1))
  from run_step(2) show ?case
  proof (cases rule: bus_step.cases)
    case (subscribe_add ts t us al)
    have new: "length (bu_channels b) \<notin> set (subs_of (bu_subscribers b) u)" for u
      using ctl by (auto simp: addressed_def)
    show ?thesis
      using run_step(3) new subscribe_add
      by (auto simp: sub_inv_def after_sub_snoc subs_of_update less_Suc_eq split: option.splits if_splits dest: some)
  next
    case (worker_send d m ds)
    then have "d < length (bu_channels b)" using ctl by (auto simp: addressed_def)
    then show ?thesis using worker_send run_step(3) by (auto simp: sub_inv_def after_sub_snoc split: option.splits dest: some)
  qed (use run_step(3) in \<open>auto simp: sub_inv_def after_sub_snoc split: option.splits dest: some\<close>)
qed (simp add: newEventBus_def sub_inv_def)

lemma pending_deliveries:
  "distinct cs \<Longrightarrow> pending c (Sending (deliveries cs ms)) = (if c \<in> set cs then ms else [])"
proof (induction cs)
  case (Cons a cs)
  then show ?case by (cases "a = c") (simp_all add: pending_def deliveries_def filter_map o_def)
qed (simp add: pending_def deliveries_def)

lemma pending_new:
  assumes "addressed b" "length (bu_channels b) \<le> c"
  shows "pending c (bu_worker b) = []"
proof (cases "bu_worker b")
  case (Sending ds)
  have "fst d \<noteq> c" if "d \<in> set ds" for d
    using assms that Sending unfolding addressed_def by (metis not_less prod.collapse)
  then show ?thesis using Sending by (auto simp: pending_def filter_empty_conv)
qed (simp_all add: pending_def)

lemma bus_run_routed:
  "bus_run tr b \<Longrightarrow> after_sub c tr = Some (t, ls) \<Longrightarrow>
     on_trace (sent_to c) tr @ pending c (bu_worker b) = messages_for t (on_trace routed ls)"
proof (induction arbitrary: ls rule: bus_run.induct)
  case (run_step tr b l b')
  note ctl = bus_run_control [OF run_step(1)] and sub = bus_run_subs [OF run_step(1)]
  show ?case
  proof (cases "after_sub c tr")
    case None
    then obtain ts us al where s: "l = Subscribed c t" "ls = []"
      using run_step(4) by (cases l) (auto simp: after_sub_snoc split: option.splits if_splits)
    have c: "c = length (bu_channels b)"
      using run_step(2) by (cases rule: bus_step.cases) (use s in auto)
    then have "on_trace (sent_to c) tr = []" using sub by (simp add: sub_inv_def)
    moreover have "pending c (bu_worker b') = []"
      using run_step(2) by (cases rule: bus_step.cases) (use s pending_new [of b c] ctl c in auto)
    ultimately show ?thesis using s by (simp add: messages_for_def)
  next
    case (Some p)
    then obtain ls0 where ls0: "after_sub c tr = Some (t, ls0)" "ls = ls0 @ [l]"
      using run_step(4) by (cases p) (auto simp: after_sub_snoc)
    note IH = run_step(3) [OF ls0(1)]
    from run_step(2) show ?thesis
    proof (cases rule: bus_step.cases)
      case (worker_route e)
      have "bu_subscribers b \<noteq> None" using ctl worker_route by (auto simp: control_def)
      then have "c \<in> set (subs_of (bu_subscribers b) (en_topic e)) \<longleftrightarrow> en_topic e = t"
        using sub ls0(1) unfolding sub_inv_def by blast
      moreover have "distinct (subs_of (bu_subscribers b) (en_topic e))" using ctl by (simp add: addressed_def)
      ultimately show ?thesis
        using IH ls0 worker_route pending_deliveries by (auto simp: messages_for_def pending_def [of c "Taken e"])
    next
      case (worker_crash d m ds)
      then have "d < length (bu_channels b)" using ctl by (auto simp: addressed_def)
      then show ?thesis using worker_crash ctl by (auto simp: control_def)
    qed (use IH ls0 in \<open>auto simp: messages_for_def pending_def\<close>)
  qed
qed simp

subsection \<open>Subscribers\<close>

text \<open>\<open>NewEventSubscriber\<close> over the \<open>Subscribe\<close> of any bus; a listener passes the messages of its channel to
  the handler one by one, whose errors it only logs.\<close>

definition newEventSubscriber :: "(string \<Rightarrow> 'w \<Rightarrow> 'ch res \<times> 'w) \<Rightarrow> string \<Rightarrow> 'w \<Rightarrow> 'ch res \<times> 'w" where
  "newEventSubscriber subscribe topic w = wrapS (''subscribe to topic ['' @ topic @ '']: '') (subscribe topic w)"

definition subscriberHandleEvent :: "(event \<Rightarrow> 'w \<Rightarrow> unit res \<times> 'w) \<Rightarrow> event \<Rightarrow> 'w \<Rightarrow> unit res \<times> 'w" where
  "subscriberHandleEvent handler e w = onErr (handler e w) (\<lambda>_. pure_op (Ok ()))"

fun listen :: "(event \<Rightarrow> 'w \<Rightarrow> unit res \<times> 'w) \<Rightarrow> event list \<Rightarrow> 'w \<Rightarrow> unit res \<times> 'w" where
  "listen handler [] w = (Ok (), w)"
| "listen handler (e # es) w = andthen (subscriberHandleEvent handler e w) (\<lambda>_. listen handler es)"

text \<open>\<open>Initialize\<close>: the bus subscribes to the verifier's topic and handles its events itself.\<close>

definition initialize :: "(string \<Rightarrow> 'w \<Rightarrow> 'ch res \<times> 'w) \<Rightarrow> 'w \<Rightarrow> 'ch res \<times> 'w" where
  "initialize subscribe = newEventSubscriber subscribe VerifierEventTopic"

lemma listen_app: "listen handler (es @ fs) w = andthen (listen handler es w) (\<lambda>_. listen handler fs)"
proof (induction es arbitrary: w)
  case (Cons e es)
  show ?case
    by (cases "subscriberHandleEvent handler e w"; cases "fst (subscriberHandleEvent handler e w)")
      (simp_all add: Cons)
qed simp

subsection \<open>Properties\<close>

text \<open>C24: The bus is first in first out and loses no copy while it runs. However the publishers, the
  subscribers, the worker and the listeners interleave, the worker never panics; the entries it
  routed, the one in its hands and those queued are, in this order, the entries that were enqueued;
  and for a channel subscribed to topic \<open>t\<close>, the messages its listener received, those waiting in the
  channel and those the worker is still sending are, in this order, exactly the messages of the
  entries of topic \<open>t\<close> routed since the subscription.\<close>
theorem event_bus_fifo:
  assumes "bus_run tr b" "after_sub c tr = Some (t, ls)"
  shows "bu_worker b \<noteq> Crashed
    \<and> on_trace routed tr @ in_hand (bu_worker b) @ bu_queue b = on_trace enqueued tr
    \<and> on_trace (delivered_to c) tr @ waiting_in c b @ pending c (bu_worker b) = messages_for t (on_trace routed ls)"
  using bus_run_control [OF assms(1)] bus_run_order [OF assms(1)] bus_run_buffers [OF assms(1), of c]
    bus_run_routed [OF assms]
  by (simp add: control_def)

text \<open>A run: a subscription, one entry of two messages, the first of them delivered.\<close>

definition sample_events :: "event list" where
  "sample_events = [newEvent ''1'' ''src'' VerifierOIDCInteractionInitiated JNull 5, newEvent ''2'' ''src'' VerifierOIDCInteractionSucceeded JNull 6]"

definition sample_entry :: entry where
  "sample_entry = \<lparr>en_topic = VerifierEventTopic, en_messages = sample_events\<rparr>"

text \<open>Runs are built one step at a time, each from an explicit state to the next.\<close>

lemma run_to: "bus_run tr b \<Longrightarrow> bus_step b l b' \<Longrightarrow> tr @ [l] = tr2 \<Longrightarrow> b' = b2 \<Longrightarrow> bus_run tr2 b2"
  using run_step by blast

definition busAt :: "bool \<Rightarrow> event list \<Rightarrow> worker \<Rightarrow> entry list \<Rightarrow> entry list \<Rightarrow> bus" where
  "busAt sub buf wk q senders = newEventBus\<lparr>bu_subscribers := Some (if sub then [(VerifierEventTopic, [0])] else []),
     bu_channels := (if sub then [\<lparr>ch_buf = buf, ch_closed = False\<rparr>] else []), bu_queue := q, bu_senders := senders, bu_worker := wk\<rparr>"

lemmas run_simps = busAt_def newEventBus_def defaultBufferSize_def beginStop_def compareAndSwap_def subs_of_def

lemma sample_sent:
  defines "e0 \<equiv> sample_events ! 0" and "e1 \<equiv> sample_events ! 1"
  shows "bus_run [Internal, Subscribed 0 VerifierEventTopic, Accepted sample_entry, Enqueued sample_entry, Took sample_entry,
       Routed sample_entry, Sent 0 e0, Delivered 0 e0] (busAt True [] (Sending [(0, e1)]) [] [])"
proof -
  have "bus_run [] (busAt False [] Waiting [] [])"
    using run_init by (simp add: run_simps)
  then have "bus_run [Internal] (busAt False [] Waiting [] []\<lparr>bu_subscribing := [VerifierEventTopic]\<rparr>)"
    by (rule run_to [OF _ subscribe_started [of _ VerifierEventTopic]]) (simp_all add: run_simps)
  then have "bus_run [Internal, Subscribed 0 VerifierEventTopic] (busAt True [] Waiting [] [])"
    by (rule run_to [OF _ subscribe_add [of _ "[]" VerifierEventTopic "[]" "[]"]]) (simp_all add: run_simps)
  then have "bus_run [Internal, Subscribed 0 VerifierEventTopic, Accepted sample_entry] (busAt True [] Waiting [] [sample_entry])"
    by (rule run_to [OF _ publish_started [of _ sample_entry]]) (simp_all add: run_simps)
  then have "bus_run [Internal, Subscribed 0 VerifierEventTopic, Accepted sample_entry, Enqueued sample_entry] (busAt True [] Waiting [sample_entry] [])"
    by (rule run_to [OF _ publish_send [of _ "[]" sample_entry "[]"]]) (simp_all add: run_simps)
  then have "bus_run [Internal, Subscribed 0 VerifierEventTopic, Accepted sample_entry, Enqueued sample_entry, Took sample_entry]
      (busAt True [] (Taken sample_entry) [] [])"
    by (rule run_to [OF _ worker_take [of _ sample_entry "[]"]]) (simp_all add: run_simps)
  then have "bus_run [Internal, Subscribed 0 VerifierEventTopic, Accepted sample_entry, Enqueued sample_entry, Took sample_entry, Routed sample_entry]
      (busAt True [] (Sending [(0, e0), (0, e1)]) [] [])"
    by (rule run_to [OF _ worker_route [of _ sample_entry]]) (simp_all add: run_simps sample_entry_def sample_events_def deliveries_def e0_def e1_def)
  then have "bus_run [Internal, Subscribed 0 VerifierEventTopic, Accepted sample_entry, Enqueued sample_entry, Took sample_entry,
      Routed sample_entry, Sent 0 e0] (busAt True [e0] (Sending [(0, e1)]) [] [])"
    by (rule run_to [OF _ worker_send [of _ 0 e0 "[(0, e1)]"]]) (simp_all add: run_simps)
  then have "bus_run [Internal, Subscribed 0 VerifierEventTopic, Accepted sample_entry, Enqueued sample_entry, Took sample_entry,
      Routed sample_entry, Sent 0 e0, Delivered 0 e0] (busAt True [] (Sending [(0, e1)]) [] [])"
    by (rule run_to [OF _ listener_receive [of 0 _ e0 "[]"]]) (simp_all add: run_simps)
  then show ?thesis by simp
qed

theorem event_bus_fifo_witness:
  "\<exists>tr b ls. bus_run tr b \<and> after_sub 0 tr = Some (VerifierEventTopic, ls)
     \<and> on_trace (delivered_to 0) tr @ waiting_in 0 b @ pending 0 (bu_worker b) = messages_for VerifierEventTopic (on_trace routed ls)
     \<and> messages_for VerifierEventTopic (on_trace routed ls) = sample_events \<and> length sample_events = 2"
proof -
  have "messages_for VerifierEventTopic [sample_entry] = sample_events" "length sample_events = 2"
    by (simp_all add: messages_for_def sample_entry_def sample_events_def)
  then show ?thesis
    using event_bus_fifo [OF sample_sent, of 0 VerifierEventTopic] sample_sent by (intro exI) (auto intro!: exI)
qed

text \<open>After the worker has returned nothing more is taken or routed.\<close>

lemma exited_stays: "bus_step b l b' \<Longrightarrow> bu_worker b = Exited \<Longrightarrow> bu_worker b' = Exited \<and> routed l = []"
  by (erule bus_step.cases) auto

lemma closed_with_backlog:
  "bus_run [Internal, Accepted e, Enqueued e, Internal, Internal, Internal, Internal]
     (busAt False [] Exited [e] []\<lparr>bu_subscribers := None, bu_subscribing := [t], bu_state := StateStopped, bu_stop := StopDone\<rparr>)"
proof -
  have "bus_run [] (busAt False [] Waiting [] [])"
    using run_init by (simp add: run_simps)
  then have "bus_run [Internal] (busAt False [] Waiting [] []\<lparr>bu_subscribing := [t]\<rparr>)"
    by (rule run_to [OF _ subscribe_started [of _ t]]) (simp_all add: run_simps)
  then have "bus_run [Internal, Accepted e] (busAt False [] Waiting [] [e]\<lparr>bu_subscribing := [t]\<rparr>)"
    by (rule run_to [OF _ publish_started [of _ e]]) (simp_all add: run_simps)
  then have "bus_run [Internal, Accepted e, Enqueued e] (busAt False [] Waiting [e] []\<lparr>bu_subscribing := [t]\<rparr>)"
    by (rule run_to [OF _ publish_send [of _ "[]" e "[]"]]) (simp_all add: run_simps)
  then have "bus_run [Internal, Accepted e, Enqueued e, Internal]
      (busAt False [] Waiting [e] []\<lparr>bu_subscribing := [t], bu_state := StateStopped, bu_stop := SignallingDone\<rparr>)"
    by (rule run_to [OF _ stop_call [of _ StateStopped]]) (simp_all add: run_simps)
  then have "bus_run [Internal, Accepted e, Enqueued e, Internal, Internal]
      (busAt False [] Acking [e] []\<lparr>bu_subscribing := [t], bu_state := StateStopped, bu_stop := AwaitingAck\<rparr>)"
    by (rule run_to [OF _ stop_signal]) (simp_all add: run_simps)
  then have "bus_run [Internal, Accepted e, Enqueued e, Internal, Internal, Internal]
      (busAt False [] Exited [e] []\<lparr>bu_subscribing := [t], bu_state := StateStopped, bu_stop := ClosingChannels\<rparr>)"
    by (rule run_to [OF _ stop_ack]) (simp_all add: run_simps)
  then have "bus_run [Internal, Accepted e, Enqueued e, Internal, Internal, Internal, Internal]
      (busAt False [] Exited [e] []\<lparr>bu_subscribers := None, bu_subscribing := [t], bu_state := StateStopped, bu_stop := StopDone\<rparr>)"
    by (rule run_to [OF _ stop_close [of _ "[]"]]) (simp_all add: run_simps closeAll_def)
  then show ?thesis by simp
qed



end
