(* ===== verification/Rest_Api.thy ===== *)
theory Rest_Api
  imports Verifiable_Model
begin

text \<open>
  What the REST controllers share: the error structs of \<open>pkg/restapi/resterr\<close> and the handler that turns an
  error into a response, reading the organization and the body of a request and writing the output
  (\<open>pkg/restapi/v1/util\<close>), and the API key middleware (\<open>pkg/restapi/v1/mw\<close>). A handler yields a response, an
  error or a panic; the echo framework and the fosite error writers are represented by their requests
  and outcomes.
\<close>

subsection \<open>Errors\<close>

definition newSystemError :: "string \<Rightarrow> string \<Rightarrow> go_error \<Rightarrow> go_error" where
  "newSystemError component failedOperation e = ErrCustom SystemError [] failedOperation component e"

definition newValidationError :: "error_code \<Rightarrow> string \<Rightarrow> go_error \<Rightarrow> go_error" where
  "newValidationError code incorrectValue e = ErrCustom code incorrectValue [] [] e"

definition newUnauthorizedError :: "go_error \<Rightarrow> go_error" where
  "newUnauthorizedError e = ErrCustom Unauthorized [] [] [] e"

fun httpCodeMsg :: "error_code \<Rightarrow> string \<Rightarrow> string \<Rightarrow> string \<Rightarrow> go_error \<Rightarrow> int \<times> json" where
  "httpCodeMsg SystemError v opn cn e =
     (500, JObj [(''code'', JStr (error_code_name SystemError)), (''component'', JStr cn), (''operation'', JStr opn),
        (''message'', JStr (err_text e))])"
| "httpCodeMsg Unauthorized v opn cn e =
     (401, JObj [(''code'', JStr (error_code_name Unauthorized)), (''message'', JStr (err_text e))])"
| "httpCodeMsg c v opn cn e =
     (case c of AlreadyExist \<Rightarrow> 409 | DoesntExist \<Rightarrow> 404 | ConditionNotMet \<Rightarrow> 412 | _ \<Rightarrow> 400,
      JObj [(''code'', JStr (error_code_name c)), (''incorrectValue'', JStr v), (''message'', JStr (err_text e))])"

text \<open>\<open>processError\<close> looks at the outermost error only.\<close>

fun processError :: "go_error \<Rightarrow> int \<times> json" where
  "processError (ErrEcho code m internal) =
     (code, JObj [(''message'', JStr (if internal = None then m else err_text (ErrEcho code m internal)))])"
| "processError (ErrCustom c v opn cn e) = httpCodeMsg c v opn cn e"
| "processError e = (500, JObj [(''code'', JStr ''generic-error''), (''message'', JStr (err_text e))])"

text \<open>\<open>errors.As\<close> for a \<open>FositeError\<close>, and the fosite error number.\<close>

fun as_fosite :: "go_error \<Rightarrow> (fosite_code \<times> go_error) option" where
  "as_fosite (ErrFosite c e) = Some (c, e)"
| "as_fosite (ErrWrap p e) = as_fosite e"
| "as_fosite (ErrEcho c m (Some e)) = as_fosite e"
| "as_fosite e = None"

fun fosite_number :: "fosite_code \<Rightarrow> int" where
  "fosite_number FositeAuthorizeError = 0"
| "fosite_number FositeAccessError = 1"
| "fosite_number FositeIntrospectionError = 2"
| "fosite_number FositePARError = 3"
| "fosite_number (FositeOtherCode n) = n"

text \<open>\<open>FositeError.Write\<close>: fosite writes the response, unless the code is unknown.\<close>

definition fositeWrite :: "fosite_code \<Rightarrow> go_error \<Rightarrow> go_error option" where
  "fositeWrite c e = (case c of
       FositeOtherCode n \<Rightarrow> Some (ErrWrap (''usupported fosite error code '' @ format_int n @ '', err '') e)
     | _ \<Rightarrow> None)"

record http_request =
  hq_Method :: string
  hq_Path :: string
  hq_Header :: "string \<Rightarrow> string"

datatype http_outcome = Response int "json option" | FositeWrote fosite_code go_error | AlreadyCommitted

definition sendResponse :: "http_request \<Rightarrow> bool \<Rightarrow> int \<times> json \<Rightarrow> http_outcome" where
  "sendResponse q committed cm =
     (if committed then AlreadyCommitted
      else if hq_Method q = ''HEAD'' then Response (fst cm) None else Response (fst cm) (Some (snd cm)))"

definition httpErrorHandler :: "http_request \<Rightarrow> bool \<Rightarrow> go_error \<Rightarrow> http_outcome" where
  "httpErrorHandler q committed e =
     (case as_fosite e of
        Some (c, fe) \<Rightarrow> (case fositeWrite c fe of
            None \<Rightarrow> FositeWrote c fe
          | Some e' \<Rightarrow> sendResponse q committed (processError e'))
      | None \<Rightarrow> sendResponse q committed (processError e))"

subsection \<open>Requests and responses\<close>

type_synonym response = "int \<times> json option"

definition getOrgIDFromOIDC :: "http_request \<Rightarrow> string res" where
  "getOrgIDFromOIDC q =
     (let orgID = hq_Header q ''X-User''
      in if orgID = [] then Err (newUnauthorizedError (ErrMsg ''missing authorization'')) else Ok orgID)"

text \<open>\<open>body\<close> is the outcome of echo's \<open>Bind\<close>.\<close>

definition readBody :: "'b res \<Rightarrow> 'b res" where
  "readBody body = mapErr (newValidationError InvalidValue ''requestBody'') body"

definition writeOutput :: "('a \<Rightarrow> json res) \<Rightarrow> 'a res \<Rightarrow> response res" where
  "writeOutput marshal r = bindR r (\<lambda>output. bindR (marshal output) (\<lambda>b. Ok (200, Some b)))"

definition noContent :: "'a res \<Rightarrow> response res" where
  "noContent r = bindR r (\<lambda>_. Ok (200, None))"

subsection \<open>The API key\<close>

definition publicPath :: "string \<Rightarrow> bool" where
  "publicPath path =
     (let currentPath = to_lower path
      in has_suffix currentPath ''/healthcheck'' \<or> has_prefix currentPath ''/request-object/''
         \<or> str_contains currentPath ''/credentials/status/''
         \<or> has_prefix currentPath ''/verifier/interactions/authorization-response''
         \<or> has_prefix currentPath ''/oidc/authorize'' \<or> has_prefix currentPath ''/oidc/redirect''
         \<or> has_prefix currentPath ''/oidc/token'')"

definition apiKeyAuth :: "string \<Rightarrow> (http_request \<Rightarrow> 'w \<Rightarrow> response res \<times> 'w) \<Rightarrow> http_request \<Rightarrow> 'w \<Rightarrow> response res \<times> 'w" where
  "apiKeyAuth apiKey next_handler q w =
     (if publicPath (hq_Path q) then next_handler q w
      else if hq_Header q ''X-API-Key'' \<noteq> apiKey then (Err (ErrEcho 401 ''Unauthorized'' None), w)
      else next_handler q w)"

text \<open>A request as the server of \<open>startcmd\<close> answers it: the API key middleware, installed when a token is
  configured, the handler, and the error handler, to which echo's \<open>Recover\<close> also hands a panic (its text
  is abbreviated).\<close>

fun panic_error :: "go_panic \<Rightarrow> go_error" where
  "panic_error NilDereference = ErrExt ''runtime error: invalid memory address or nil pointer dereference''"
| "panic_error TypeAssertion = ErrExt ''interface conversion''"
| "panic_error IndexOutOfRange = ErrExt ''runtime error: index out of range''"
| "panic_error NilMapWrite = ErrExt ''assignment to entry in nil map''"
| "panic_error ClosedChannel = ErrExt ''send on closed channel''"
| "panic_error (LibraryPanic s) = ErrExt s"

definition handled :: "http_request \<Rightarrow> response res \<times> 'w \<Rightarrow> http_outcome \<times> 'w" where
  "handled q m = (case m of
       (Ok (code, body), w) \<Rightarrow> (Response code body, w)
     | (Err e, w) \<Rightarrow> (httpErrorHandler q False e, w)
     | (Panic p, w) \<Rightarrow> (httpErrorHandler q False (panic_error p), w))"

definition serve :: "string \<Rightarrow> (http_request \<Rightarrow> 'w \<Rightarrow> response res \<times> 'w) \<Rightarrow> http_request \<Rightarrow> 'w \<Rightarrow> http_outcome \<times> 'w" where
  "serve token h q w = handled q (if token \<noteq> [] then apiKeyAuth token h q w else h q w)"

subsection \<open>Properties\<close>

text \<open>The status of an error response, by the kind of the outermost error.\<close>

fun error_status :: "go_error \<Rightarrow> int" where
  "error_status (ErrCustom SystemError v opn cn e) = 500"
| "error_status (ErrCustom Unauthorized v opn cn e) = 401"
| "error_status (ErrCustom AlreadyExist v opn cn e) = 409"
| "error_status (ErrCustom DoesntExist v opn cn e) = 404"
| "error_status (ErrCustom ConditionNotMet v opn cn e) = 412"
| "error_status (ErrCustom c v opn cn e) = 400"
| "error_status (ErrEcho code m i) = code"
| "error_status e = 500"

lemma processError_status: "fst (processError e) = error_status e"
  by (cases e rule: error_status.cases) simp_all

lemma httpErrorHandler_status:
  "as_fosite e = None \<Longrightarrow> \<exists>b. httpErrorHandler q False e = Response (error_status e) b"
  by (simp add: httpErrorHandler_def sendResponse_def processError_status)

text \<open>The API key guards every path that is not public. A request without the configured key, if
  one is configured, is answered with 401 and reaches no handler, so nothing changes, unless its path, letter case ignored,
  ends in \<open>/healthcheck\<close>, contains \<open>/credentials/status/\<close>, or starts with one of the request object,
  authorization response or OIDC front channel prefixes; with the key, or on such a path, the request is
  the handler's.\<close>
theorem api_key_guards:
  assumes "hq_Method q \<noteq> ''HEAD''"
  shows "serve key h q w =
    (if key = [] \<or> hq_Header q ''X-API-Key'' = key \<or> (\<exists>s. to_lower (hq_Path q) = s @ ''/healthcheck'')
        \<or> (\<exists>l r. to_lower (hq_Path q) = l @ ''/credentials/status/'' @ r)
        \<or> (\<exists>p \<in> {''/request-object/'', ''/verifier/interactions/authorization-response'', ''/oidc/authorize'', ''/oidc/redirect'', ''/oidc/token''}.
             \<exists>r. to_lower (hq_Path q) = p @ r)
     then handled q (h q w)
     else (Response 401 (Some (JObj [(''message'', JStr ''Unauthorized'')])), w))"
proof -
  have pub: "publicPath (hq_Path q) \<longleftrightarrow> (\<exists>s. to_lower (hq_Path q) = s @ ''/healthcheck'')
        \<or> (\<exists>l r. to_lower (hq_Path q) = l @ ''/credentials/status/'' @ r)
        \<or> (\<exists>p \<in> {''/request-object/'', ''/verifier/interactions/authorization-response'', ''/oidc/authorize'', ''/oidc/redirect'', ''/oidc/token''}.
             \<exists>r. to_lower (hq_Path q) = p @ r)"
    unfolding publicPath_def Let_def has_suffix_iff has_prefix_iff str_contains_iff by (simp only: bex_simps simp_thms) argo
  show ?thesis
    unfolding pub [symmetric] using assms by (simp add: serve_def apiKeyAuth_def handled_def httpErrorHandler_def sendResponse_def)
qed

definition demo_call :: "string \<Rightarrow> http_request" where
  "demo_call path = \<lparr>hq_Method = ''POST'', hq_Path = path, hq_Header = (\<lambda>_. [])\<rparr>"

theorem api_key_guards_witness:
  "serve ''secret'' (\<lambda>q n. (Ok (200, None), Suc n)) (demo_call ''/issuer/interactions/x'') 0
     = (Response 401 (Some (JObj [(''message'', JStr ''Unauthorized'')])), 0)
   \<and> serve ''secret'' (\<lambda>q n. (Ok (200, None), Suc n)) (demo_call ''/HealthCheck'') 0 = (Response 200 None, 1)"
proof -
  have l: "to_lower ''/HealthCheck'' = ''/healthcheck''" "to_lower ''/issuer/interactions/x'' = ''/issuer/interactions/x''"
    by code_simp+
  have n: "\<not> publicPath ''/issuer/interactions/x''" by code_simp
  have m: "hq_Method (demo_call p) \<noteq> ''HEAD''" for p by (simp add: demo_call_def)
  have "serve ''secret'' (\<lambda>q n. (Ok (200, None), Suc n)) (demo_call ''/HealthCheck'') 0 = (Response 200 None, 1)"
    using api_key_guards [OF m [of "''/HealthCheck''"], of "''secret''" "\<lambda>q n. (Ok (200, None), Suc n)" 0] by (simp add: demo_call_def l handled_def)
  moreover have "\<not> (\<exists>s. ''/issuer/interactions/x'' = s @ ''/healthcheck'')"
      "\<not> (\<exists>a r. ''/issuer/interactions/x'' = a @ ''/credentials/status/'' @ r)"
    using n unfolding publicPath_def Let_def l(2) has_suffix_iff str_contains_iff by argo+
  then have "serve ''secret'' (\<lambda>q n. (Ok (200, None), Suc n)) (demo_call ''/issuer/interactions/x'') 0
     = (Response 401 (Some (JObj [(''message'', JStr ''Unauthorized'')])), 0)"
    using api_key_guards [OF m [of "''/issuer/interactions/x''"], of "''secret''" "\<lambda>q n. (Ok (200, None), Suc n)" 0]
    by (simp add: demo_call_def l)
  ultimately show ?thesis by simp
qed

end
