(* ===== verification/Issuance_Store.thy ===== *)
theory Issuance_Store
  imports Mongo_Mem Profile_Model
begin

text \<open>
  OIDC4VC issuance transactions: the data of \<open>pkg/service/oidc4vc/models.go\<close> and \<open>errors.go\<close>, and the
  MongoDB store \<open>pkg/storage/mongodb/oidc4vcstore/oidc4vc_store.go\<close>. What the service relies on is the
  nondeterministic specification \<open>spec_step\<close> over a map from ids to transactions; the interface
  \<open>transactionStore\<close> is the locale \<open>issuance_store\<close>, whose law is that every operation is a step of the
  specification, and it is interpreted on the MongoDB store. Times are readings of one clock.
\<close>

definition oidc4vc_ErrDataNotFound :: go_error where
  "oidc4vc_ErrDataNotFound = ErrVar ''oidc4vc.ErrDataNotFound'' ''data not found''"
definition ErrProfileNotActive :: go_error where
  "ErrProfileNotActive = ErrVar ''oidc4vc.ErrProfileNotActive'' ''profile not active''"
definition ErrCredentialTemplateNotFound :: go_error where
  "ErrCredentialTemplateNotFound = ErrVar ''oidc4vc.ErrCredentialTemplateNotFound'' ''credential template not found''"
definition ErrCredentialTemplateNotConfigured :: go_error where
  "ErrCredentialTemplateNotConfigured = ErrVar ''oidc4vc.ErrCredentialTemplateNotConfigured'' ''credential template not configured''"
definition ErrCredentialTemplateIDRequired :: go_error where
  "ErrCredentialTemplateIDRequired = ErrVar ''oidc4vc.ErrCredentialTemplateIDRequired'' ''credential template ID is required''"
definition ErrAuthorizedCodeFlowNotSupported :: go_error where
  "ErrAuthorizedCodeFlowNotSupported = ErrVar ''oidc4vc.ErrAuthorizedCodeFlowNotSupported'' ''authorized code flow not supported''"
definition ErrResponseTypeMismatch :: go_error where
  "ErrResponseTypeMismatch = ErrVar ''oidc4vc.ErrResponseTypeMismatch'' ''response type mismatch''"
definition ErrInvalidScope :: go_error where
  "ErrInvalidScope = ErrVar ''oidc4vc.ErrInvalidScope'' ''invalid scope''"
definition ErrCredentialTypeNotSupported :: go_error where
  "ErrCredentialTypeNotSupported = ErrVar ''oidc4vc.ErrCredentialTypeNotSupported'' ''credential type not supported''"
definition ErrCredentialFormatNotSupported :: go_error where
  "ErrCredentialFormatNotSupported = ErrVar ''oidc4vc.ErrCredentialFormatNotSupported'' ''credential format not supported''"
definition ErrVCOptionsNotConfigured :: go_error where
  "ErrVCOptionsNotConfigured = ErrVar ''oidc4vc.ErrVCOptionsNotConfigured'' ''vc options not configured''"

lemmas oidc4vc_errors = oidc4vc_ErrDataNotFound_def ErrProfileNotActive_def ErrCredentialTemplateNotFound_def
  ErrCredentialTemplateNotConfigured_def ErrCredentialTemplateIDRequired_def ErrAuthorizedCodeFlowNotSupported_def
  ErrResponseTypeMismatch_def ErrInvalidScope_def ErrCredentialTypeNotSupported_def
  ErrCredentialFormatNotSupported_def ErrVCOptionsNotConfigured_def

record auth_details =
  ad_Type :: string
  ad_CredentialType :: string
  ad_Format :: string
  ad_Locations :: "string list"

record tx_data =
  vd_CredentialTemplate :: "credential_template option"
  vd_CredentialFormat :: string
  vd_AuthorizationEndpoint :: string
  vd_PAREndpoint :: string
  vd_TokenEndpoint :: string
  vd_ClaimEndpoint :: string
  vd_ClientID :: string
  vd_ClientSecret :: string
  vd_GrantType :: string
  vd_ResponseType :: string
  vd_Scope :: "string list"
  vd_AuthorizationDetails :: "auth_details option"
  vd_IssuerAuthCode :: string
  vd_IssuerToken :: string
  vd_OpState :: string

record issue_tx =
  vt_ID :: string
  vt_Data :: tx_data

subsection \<open>The MongoDB store\<close>

text \<open>The stored document; \<open>opState,omitempty\<close> leaves an empty value out.\<close>

record issue_doc =
  id_ExpireAt :: int
  id_OpState :: "string option"
  id_CredentialTemplate :: "credential_template option"
  id_CredentialFormat :: string
  id_ClaimEndpoint :: string
  id_GrantType :: string
  id_ResponseType :: string
  id_Scope :: "string list"
  id_AuthorizationEndpoint :: string
  id_PAREndpoint :: string
  id_TokenEndpoint :: string
  id_AuthorizationDetails :: "auth_details option"
  id_ClientID :: string
  id_ClientSecret :: string

type_synonym 'c issue_coll = "('c, issue_doc) coll"

definition defaultExpiration :: int where
  "defaultExpiration = 24 * 60 * 60 * 1000000000"

definition omit_empty :: "string \<Rightarrow> string option" where
  "omit_empty s = (if s = [] then None else Some s)"

definition read_field :: "string option \<Rightarrow> string" where
  "read_field f = (case f of None \<Rightarrow> [] | Some s \<Rightarrow> s)"

lemma field_simps [simp]: "read_field (omit_empty s) = s" "omit_empty s \<noteq> Some []" "read_field None = []" "read_field (Some s) = s"
  by (simp_all add: read_field_def omit_empty_def)

definition mapTransactionDataToMongoDocument :: "tx_data \<Rightarrow> int \<Rightarrow> issue_doc" where
  "mapTransactionDataToMongoDocument d now = \<lparr>id_ExpireAt = now + defaultExpiration, id_OpState = omit_empty (vd_OpState d),
     id_CredentialTemplate = vd_CredentialTemplate d, id_CredentialFormat = vd_CredentialFormat d,
     id_ClaimEndpoint = vd_ClaimEndpoint d, id_GrantType = vd_GrantType d, id_ResponseType = vd_ResponseType d,
     id_Scope = vd_Scope d, id_AuthorizationEndpoint = vd_AuthorizationEndpoint d, id_PAREndpoint = vd_PAREndpoint d,
     id_TokenEndpoint = vd_TokenEndpoint d, id_AuthorizationDetails = vd_AuthorizationDetails d,
     id_ClientID = vd_ClientID d, id_ClientSecret = vd_ClientSecret d\<rparr>"

definition data_of_doc :: "issue_doc \<Rightarrow> tx_data" where
  "data_of_doc m = \<lparr>vd_CredentialTemplate = id_CredentialTemplate m, vd_CredentialFormat = id_CredentialFormat m,
     vd_AuthorizationEndpoint = id_AuthorizationEndpoint m, vd_PAREndpoint = id_PAREndpoint m,
     vd_TokenEndpoint = id_TokenEndpoint m, vd_ClaimEndpoint = id_ClaimEndpoint m, vd_ClientID = id_ClientID m,
     vd_ClientSecret = id_ClientSecret m, vd_GrantType = id_GrantType m, vd_ResponseType = id_ResponseType m,
     vd_Scope = id_Scope m, vd_AuthorizationDetails = id_AuthorizationDetails m, vd_IssuerAuthCode = [],
     vd_IssuerToken = [], vd_OpState = read_field (id_OpState m)\<rparr>"

definition objectIDFromHex :: "(string \<Rightarrow> bool) \<Rightarrow> string \<Rightarrow> string res" where
  "objectIDFromHex hex i = (if hex i then Ok (to_lower i) else Err (ErrExt ''the provided hex string is not a valid ObjectID''))"

definition issueCreate :: "tx_data \<Rightarrow> int \<Rightarrow> int \<Rightarrow> 'c issue_coll \<Rightarrow> issue_tx res \<times> 'c issue_coll" where
  "issueCreate d ttl now s =
     (let obj0 = mapTransactionDataToMongoDocument d now;
          obj = (if ttl \<noteq> 0 then obj0\<lparr>id_ExpireAt := now + ttl\<rparr> else obj0)
      in case c_insert None obj s of
           (Ok i, s) \<Rightarrow> (Ok \<lparr>vt_ID = i, vt_Data = d\<rparr>, s)
         | (Err e, s) \<Rightarrow> if is_duplicate_key e then (Err oidc4vc_ErrDataNotFound, s) else (Err e, s)
         | (Panic p, s) \<Rightarrow> (Panic p, s))"

definition issueFind :: "string \<Rightarrow> int \<Rightarrow> 'c issue_coll \<Rightarrow> issue_tx res \<times> 'c issue_coll" where
  "issueFind opState now s =
     (case c_find (\<lambda>_ m. id_OpState m = Some opState) s of
        (Ok (i, m), s) \<Rightarrow>
          if id_ExpireAt m < now then (Err oidc4vc_ErrDataNotFound, s)
          else (Ok \<lparr>vt_ID = i, vt_Data = data_of_doc m\<rparr>, s)
      | (Err e, s) \<Rightarrow> if err_is e ErrNoDocuments then (Err oidc4vc_ErrDataNotFound, s) else (Err e, s)
      | (Panic p, s) \<Rightarrow> (Panic p, s))"

text \<open>\<open>$set\<close> with the whole document: an omitted field keeps its stored value.\<close>

definition set_doc :: "issue_doc \<Rightarrow> issue_doc option \<Rightarrow> issue_doc" where
  "set_doc new old = (case old of
       None \<Rightarrow> new
     | Some m \<Rightarrow> new\<lparr>id_OpState := (case id_OpState new of None \<Rightarrow> id_OpState m | Some t \<Rightarrow> Some t)\<rparr>)"

definition issueUpdate :: "issue_tx \<Rightarrow> int \<Rightarrow> 'c issue_coll \<Rightarrow> unit res \<times> 'c issue_coll" where
  "issueUpdate tx now s =
     andthen (pure_op (objectIDFromHex (valid_hex (drv s)) (vt_ID tx)) s) (\<lambda>i s.
     andthen (c_update i (set_doc (mapTransactionDataToMongoDocument (vt_Data tx) now)) False s) (\<lambda>_ s.
     (Ok (), s)))"

text \<open>The TTL index of \<open>migrate\<close>: the server removes expired documents at times of its own.\<close>

definition issuePurge :: "int \<Rightarrow> 'c issue_coll \<Rightarrow> 'c issue_coll" where
  "issuePurge now s = snd (c_delete (\<lambda>_ m. id_ExpireAt m < now) s)"

text \<open>The unique index on \<open>opState\<close>; documents without the field clash with each other.\<close>

definition opState_clash :: "issue_doc clash" where
  "opState_clash x y \<longleftrightarrow> id_OpState x = id_OpState y"

subsection \<open>Specification\<close>

text \<open>What survives storing: the authorization code and the token of the issuer do not.\<close>

definition kept :: "tx_data \<Rightarrow> tx_data" where
  "kept d = d\<lparr>vd_IssuerAuthCode := [], vd_IssuerToken := []\<rparr>"

type_synonym issue_map = "string \<rightharpoonup> (tx_data \<times> int)"

definition taken :: "issue_map \<Rightarrow> string \<Rightarrow> bool" where
  "taken m opState \<longleftrightarrow> (\<exists>i d e. m i = Some (d, e) \<and> vd_OpState d = opState)"

definition spec_update :: "issue_tx \<Rightarrow> int \<Rightarrow> issue_map \<Rightarrow> issue_map" where
  "spec_update tx now m = (case m (to_lower (vt_ID tx)) of
       None \<Rightarrow> m
     | Some (old, _) \<Rightarrow>
         let os = (if vd_OpState (vt_Data tx) = [] then vd_OpState old else vd_OpState (vt_Data tx))
         in m(to_lower (vt_ID tx) \<mapsto> (kept (vt_Data tx)\<lparr>vd_OpState := os\<rparr>, now + defaultExpiration)))"

text \<open>An update that would give its document the \<open>opState\<close> of another one.\<close>

definition conflicts :: "issue_map \<Rightarrow> issue_map \<Rightarrow> string \<Rightarrow> bool" where
  "conflicts m m' i \<longleftrightarrow> (\<exists>j d e d' e'. j \<noteq> i \<and> m j = Some (d, e) \<and> m' i = Some (d', e') \<and> vd_OpState d = vd_OpState d')"

definition update_fits :: "issue_map \<Rightarrow> issue_tx \<Rightarrow> int \<Rightarrow> bool" where
  "update_fits m tx now \<longleftrightarrow> spec_update tx now m = m \<or> \<not> conflicts m (spec_update tx now m) (to_lower (vt_ID tx))"

datatype issue_op = CreateOp tx_data int int | FindOp string int | UpdateOp issue_tx int | PurgeOp int
datatype issue_out = Returned "issue_tx res" | Done "unit res"

inductive spec_step :: "issue_map \<Rightarrow> issue_op \<Rightarrow> issue_out \<Rightarrow> issue_map \<Rightarrow> bool" where
  create_ok: "m i = None \<Longrightarrow> \<not> taken m (vd_OpState d) \<Longrightarrow>
     spec_step m (CreateOp d ttl now) (Returned (Ok \<lparr>vt_ID = i, vt_Data = d\<rparr>))
       (m(i \<mapsto> (kept d, now + (if ttl = 0 then defaultExpiration else ttl))))"
| create_dup: "taken m (vd_OpState d) \<Longrightarrow> spec_step m (CreateOp d ttl now) (Returned (Err oidc4vc_ErrDataNotFound)) m"
| create_err: "driver_err e \<Longrightarrow> spec_step m (CreateOp d ttl now) (Returned (Err e)) m"
| create_doubt: "driver_err e \<Longrightarrow> m i = None \<Longrightarrow> \<not> taken m (vd_OpState d) \<Longrightarrow>
     spec_step m (CreateOp d ttl now) (Returned (Err e)) (m(i \<mapsto> (kept d, now + (if ttl = 0 then defaultExpiration else ttl))))"
| find_ok: "m i = Some (d, e) \<Longrightarrow> vd_OpState d = os \<Longrightarrow> os \<noteq> [] \<Longrightarrow> now \<le> e \<Longrightarrow>
     spec_step m (FindOp os now) (Returned (Ok \<lparr>vt_ID = i, vt_Data = d\<rparr>)) m"
| find_none: "(\<And>i d e. m i = Some (d, e) \<Longrightarrow> vd_OpState d = os \<Longrightarrow> os \<noteq> [] \<Longrightarrow> e < now) \<Longrightarrow>
     spec_step m (FindOp os now) (Returned (Err oidc4vc_ErrDataNotFound)) m"
| find_err: "driver_err e \<Longrightarrow> spec_step m (FindOp os now) (Returned (Err e)) m"
| update_ok: "update_fits m tx now \<Longrightarrow> spec_step m (UpdateOp tx now) (Done (Ok ())) (spec_update tx now m)"
| update_err: "driver_err e \<Longrightarrow> spec_step m (UpdateOp tx now) (Done (Err e)) m"
| update_doubt: "driver_err e \<Longrightarrow> update_fits m tx now \<Longrightarrow> spec_step m (UpdateOp tx now) (Done (Err e)) (spec_update tx now m)"
| purge_none: "spec_step m (PurgeOp now) (Done (Ok ())) m"
| purge_one: "m i = Some (d, e) \<Longrightarrow> e < now \<Longrightarrow> spec_step m (PurgeOp now) (Done (Ok ())) (m(i := None))"

text \<open>No two transactions share an \<open>opState\<close>, not even the empty one.\<close>

definition unique_states :: "issue_map \<Rightarrow> bool" where
  "unique_states m \<longleftrightarrow> (\<forall>i j d e d' e'. m i = Some (d, e) \<longrightarrow> m j = Some (d', e') \<longrightarrow> vd_OpState d = vd_OpState d' \<longrightarrow> i = j)"

inductive_cases spec_createE: "spec_step m (CreateOp d ttl now) r m'"
inductive_cases spec_findE: "spec_step m (FindOp os now) r m'"
inductive_cases spec_updateE: "spec_step m (UpdateOp tx now) r m'"


lemma spec_update_other: "i \<noteq> to_lower (vt_ID tx) \<Longrightarrow> spec_update tx now m i = m i"
  by (auto simp: spec_update_def Let_def split: option.splits)

lemma unique_insert:
  assumes "unique_states m" "\<not> taken m (vd_OpState d)"
  shows "unique_states (m(i \<mapsto> (kept d, e)))"
  using assms unfolding unique_states_def taken_def by (auto simp: kept_def split: if_splits; metis)

lemma unique_update:
  assumes "unique_states m" "update_fits m tx now"
  shows "unique_states (spec_update tx now m)"
proof (cases "spec_update tx now m = m")
  case False
  let ?i = "to_lower (vt_ID tx)"
  have c: "\<not> conflicts m (spec_update tx now m) ?i" using assms(2) False by (simp add: update_fits_def)
  show ?thesis
    unfolding unique_states_def
  proof (intro allI impI)
    fix i j d e d' e'
    assume a: "spec_update tx now m i = Some (d, e)" "spec_update tx now m j = Some (d', e')" "vd_OpState d = vd_OpState d'"
    show "i = j"
      using a c assms(1) spec_update_other [of i tx now m] spec_update_other [of j tx now m]
      unfolding conflicts_def unique_states_def by metis
  qed
qed (use assms(1) in simp)

lemma spec_step_unique: "spec_step m ev r m' \<Longrightarrow> unique_states m \<Longrightarrow> unique_states m'"
proof (induction rule: spec_step.induct)
  case (purge_one m i d e now)
  then show ?case unfolding unique_states_def by (auto split: if_splits)
qed (simp_all add: unique_insert unique_update)

text \<open>Steps that leave a transaction alone until its expiry: no update of it, no purge after \<open>e\<close>.\<close>

fun leaves :: "string \<Rightarrow> int \<Rightarrow> issue_op \<Rightarrow> bool" where
  "leaves i e (UpdateOp tx now) = (to_lower (vt_ID tx) \<noteq> i)"
| "leaves i e (PurgeOp now) = (now \<le> e)"
| "leaves i e _ = True"

lemma spec_step_leaves:
  "spec_step m ev r m' \<Longrightarrow> leaves i e ev \<Longrightarrow> m i = Some (d, e) \<Longrightarrow> m' i = Some (d, e)"
  by (induction rule: spec_step.induct) (auto simp: spec_update_other)

subsection \<open>The contract\<close>

fun issue_run_op ::
  "(tx_data \<Rightarrow> int \<Rightarrow> int \<Rightarrow> 's \<Rightarrow> issue_tx res \<times> 's) \<Rightarrow> (string \<Rightarrow> int \<Rightarrow> 's \<Rightarrow> issue_tx res \<times> 's)
   \<Rightarrow> (issue_tx \<Rightarrow> int \<Rightarrow> 's \<Rightarrow> unit res \<times> 's) \<Rightarrow> (int \<Rightarrow> 's \<Rightarrow> 's) \<Rightarrow> issue_op \<Rightarrow> 's \<Rightarrow> issue_out \<times> 's" where
  "issue_run_op cr fd up pg (CreateOp d ttl now) s = (let (r, s') = cr d ttl now s in (Returned r, s'))"
| "issue_run_op cr fd up pg (FindOp os now) s = (let (r, s') = fd os now s in (Returned r, s'))"
| "issue_run_op cr fd up pg (UpdateOp tx now) s = (let (r, s') = up tx now s in (Done r, s'))"
| "issue_run_op cr fd up pg (PurgeOp now) s = (Done (Ok ()), pg now s)"

fun issue_run :: "(issue_op \<Rightarrow> 's \<Rightarrow> issue_out \<times> 's) \<Rightarrow> issue_op list \<Rightarrow> 's \<Rightarrow> issue_out list \<times> 's" where
  "issue_run step [] s = ([], s)"
| "issue_run step (p # ps) s = (let (r, s1) = step p s; (rs, s2) = issue_run step ps s1 in (r # rs, s2))"

fun spec_run :: "issue_map \<Rightarrow> issue_op list \<Rightarrow> issue_out list \<Rightarrow> issue_map \<Rightarrow> bool" where
  "spec_run m [] rs m' \<longleftrightarrow> rs = [] \<and> m' = m"
| "spec_run m (p # ps) rs m' \<longleftrightarrow> (\<exists>r qs m1. rs = r # qs \<and> spec_step m p r m1 \<and> spec_run m1 ps qs m')"

lemma spec_run_leaves:
  "spec_run m ps rs m' \<Longrightarrow> list_all (leaves i e) ps \<Longrightarrow> m i = Some (d, e) \<Longrightarrow> m' i = Some (d, e)"
  by (induction ps arbitrary: m rs) (auto dest: spec_step_leaves)

locale issuance_store =
  fixes create :: "tx_data \<Rightarrow> int \<Rightarrow> int \<Rightarrow> 's \<Rightarrow> issue_tx res \<times> 's"
    and findo :: "string \<Rightarrow> int \<Rightarrow> 's \<Rightarrow> issue_tx res \<times> 's"
    and update :: "issue_tx \<Rightarrow> int \<Rightarrow> 's \<Rightarrow> unit res \<times> 's"
    and purge :: "int \<Rightarrow> 's \<Rightarrow> 's"
    and inv :: "'s \<Rightarrow> bool"
    and view :: "'s \<Rightarrow> issue_map"
  assumes step_sim: "inv s \<Longrightarrow> issue_run_op create findo update purge p s = (r, s') \<Longrightarrow> inv s' \<and> spec_step (view s) p r (view s')"
    and inv_unique: "inv s \<Longrightarrow> unique_states (view s)"
    and view_kept: "inv s \<Longrightarrow> view s i = Some (d, e) \<Longrightarrow> kept d = d \<and> to_lower i = i"
begin

lemma run_sim:
  "inv s \<Longrightarrow> issue_run (issue_run_op create findo update purge) ps s = (rs, s') \<Longrightarrow> inv s' \<and> spec_run (view s) ps rs (view s')"
proof (induction ps arbitrary: s rs)
  case (Cons p ps)
  obtain r s1 where a: "issue_run_op create findo update purge p s = (r, s1)" by fastforce
  obtain qs where b: "issue_run (issue_run_op create findo update purge) ps s1 = (qs, s')" "rs = r # qs"
    using Cons.prems(2) a by (auto simp: Let_def split: prod.splits)
  show ?case using step_sim [OF Cons.prems(1) a] Cons.IH [OF _ b(1)] b(2) by auto
qed simp

lemma create_spec: "inv s \<Longrightarrow> create d ttl now s = (r, s') \<Longrightarrow> inv s' \<and> spec_step (view s) (CreateOp d ttl now) (Returned r) (view s')"
  using step_sim [of s "CreateOp d ttl now"] by simp

lemma find_spec: "inv s \<Longrightarrow> findo os now s = (r, s') \<Longrightarrow> inv s' \<and> spec_step (view s) (FindOp os now) (Returned r) (view s')"
  using step_sim [of s "FindOp os now"] by simp

lemma update_spec: "inv s \<Longrightarrow> update tx now s = (r, s') \<Longrightarrow> inv s' \<and> spec_step (view s) (UpdateOp tx now) (Done r) (view s')"
  using step_sim [of s "UpdateOp tx now"] by simp

lemma find_Ok:
  assumes "inv s" "findo os now s = (Ok tx, s')"
  shows "inv s' \<and> view s' = view s \<and> os \<noteq> [] \<and> vd_OpState (vt_Data tx) = os
    \<and> (\<exists>e. view s (vt_ID tx) = Some (vt_Data tx, e) \<and> now \<le> e)"
  using find_spec [OF assms] by (auto elim!: spec_findE)

lemma create_Ok:
  assumes "inv s" "create d ttl now s = (Ok tx, s')"
  shows "inv s' \<and> vt_Data tx = d \<and> view s (vt_ID tx) = None
    \<and> view s' = (view s)(vt_ID tx \<mapsto> (kept d, now + (if ttl = 0 then defaultExpiration else ttl)))"
  using create_spec [OF assms] by (auto elim!: spec_createE)

text \<open>The stored transaction is found by its \<open>opState\<close> as long as it is left alone and not expired.\<close>

lemma found_again:
  assumes "inv s" "view s i = Some (d, e)" "findo os now s = (r, s')" "os = vd_OpState d" "os \<noteq> []" "now \<le> e"
  shows "(\<exists>er. r = Err er \<and> driver_err er) \<or> r = Ok \<lparr>vt_ID = i, vt_Data = d\<rparr>"
proof -
  have "spec_step (view s) (FindOp os now) (Returned r) (view s')" using find_spec [OF assms(1,3)] by simp
  then show ?thesis
  proof (cases rule: spec_step.cases)
    case (find_ok j d' e')
    then have "j = i" using inv_unique [OF assms(1)] assms(2,4) unfolding unique_states_def by blast
    then show ?thesis using find_ok assms(2) by simp
  next
    case find_none
    then show ?thesis using assms(2,4,5,6) by fastforce
  qed auto
qed

end

subsection \<open>The MongoDB store satisfies it\<close>

definition issue_view :: "'c issue_coll \<Rightarrow> issue_map" where
  "issue_view s i = map_option (\<lambda>m. (data_of_doc m, id_ExpireAt m)) (docs s i)"

definition issue_inv :: "'c issue_coll \<Rightarrow> bool" where
  "issue_inv s \<longleftrightarrow> coll_ok opState_clash s \<and> (\<forall>i m. docs s i = Some m \<longrightarrow> id_OpState m \<noteq> Some [])
     \<and> unique_states (issue_view s) \<and> (\<forall>i. docs s i \<noteq> None \<longrightarrow> to_lower i = i)"

lemma issue_view_same: "docs s' = docs s \<Longrightarrow> issue_view s' = issue_view s"
  by (simp add: issue_view_def fun_eq_iff)

lemma issue_view_upd: "docs s' = (docs s)(i \<mapsto> m) \<Longrightarrow> issue_view s' = (issue_view s)(i \<mapsto> (data_of_doc m, id_ExpireAt m))"
  by (simp add: issue_view_def fun_eq_iff)

lemma issue_view_del: "docs s' = (docs s)(i := None) \<Longrightarrow> issue_view s' = (issue_view s)(i := None)"
  by (simp add: issue_view_def fun_eq_iff)

lemma data_of_map [simp]: "data_of_doc (mapTransactionDataToMongoDocument d now) = kept d"
  by (simp add: data_of_doc_def mapTransactionDataToMongoDocument_def kept_def)

lemma data_of_expire [simp]: "data_of_doc (m\<lparr>id_ExpireAt := t\<rparr>) = data_of_doc m"
  by (simp add: data_of_doc_def)

lemma state_of_data: "vd_OpState (data_of_doc m) = read_field (id_OpState m)"
  by (simp add: data_of_doc_def)

lemma read_field_inject: "x \<noteq> Some [] \<Longrightarrow> y \<noteq> Some [] \<Longrightarrow> read_field x = read_field y \<longleftrightarrow> x = y"
  by (cases x; cases y) auto

lemma read_field_eq: "os \<noteq> [] \<Longrightarrow> read_field x = os \<longleftrightarrow> x = Some os"
  by (cases x) auto

lemma read_field_nonempty: "read_field x \<noteq> [] \<Longrightarrow> x = Some (read_field x)"
  by (cases x) auto

lemma taken_docs:
  assumes "issue_inv s" "x \<noteq> Some []"
  shows "taken (issue_view s) (read_field x) \<longleftrightarrow> (\<exists>i m. docs s i = Some m \<and> id_OpState m = x)"
  using assms read_field_inject
  by (fastforce simp: taken_def issue_view_def issue_inv_def state_of_data)

lemma issueCreate_sim:
  assumes "issue_inv s" "issueCreate d ttl now s = (r, s')"
  shows "coll_ok opState_clash s' \<and> (\<forall>i m. docs s' i = Some m \<longrightarrow> id_OpState m \<noteq> Some []) \<and> (\<forall>i. docs s' i \<noteq> None \<longrightarrow> to_lower i = i)
    \<and> spec_step (issue_view s) (CreateOp d ttl now) (Returned r) (issue_view s')"
proof -
  define obj where "obj = (if ttl \<noteq> 0 then mapTransactionDataToMongoDocument d now\<lparr>id_ExpireAt := now + ttl\<rparr>
     else mapTransactionDataToMongoDocument d now)"
  have obj: "data_of_doc obj = kept d" "id_ExpireAt obj = now + (if ttl = 0 then defaultExpiration else ttl)"
    "id_OpState obj = omit_empty (vd_OpState d)"
    by (simp add: obj_def, simp_all add: obj_def mapTransactionDataToMongoDocument_def)
  have tk: "taken (issue_view s) (vd_OpState d) \<longleftrightarrow> (\<exists>i m. docs s i = Some m \<and> id_OpState m = omit_empty (vd_OpState d))"
    using taken_docs [OF assms(1), of "omit_empty (vd_OpState d)"] by simp
  have nf: "\<not> taken (issue_view s) (vd_OpState d)" if "free_for opState_clash (docs s) i obj" "docs s i = None" for i
    using that unfolding tk free_for_def opState_clash_def obj(3) by (metis option.distinct(1))
  have vn: "issue_view s i = None" if "docs s i = None" for i using that by (simp add: issue_view_def)
  obtain q where q: "c_insert None obj s = (q, s')"
    "r = (case q of Ok i \<Rightarrow> Ok \<lparr>vt_ID = i, vt_Data = d\<rparr> | Err e \<Rightarrow> if is_duplicate_key e then Err oidc4vc_ErrDataNotFound else Err e
        | Panic p \<Rightarrow> Panic p)"
    using assms(2) by (auto simp: issueCreate_def Let_def obj_def [symmetric] split: prod.splits res.splits if_splits)
  have ok: "coll_ok opState_clash s" "coll_ok opState_clash s'"
    using assms(1) coll_ok_after(1) [OF q(1)] by (auto simp: issue_inv_def)
  have er: "driver_err e" if "q = Err e" for e
    using ok(1) q(1) that
    by (auto simp: coll_ok_def mongo_ok_def errors_law_def c_insert_def coll_run_def prod_eq_iff)
  have dn: "\<forall>i m. docs s i = Some m \<longrightarrow> id_OpState m \<noteq> Some []" "\<forall>i. docs s i \<noteq> None \<longrightarrow> to_lower i = i"
    using assms(1) by (simp_all add: issue_inv_def)
  from ok(1) q(1) show ?thesis
  proof (cases rule: c_insert_cases)
    case (ok i)
    then have "spec_step (issue_view s) (CreateOp d ttl now) (Returned r) (issue_view s')"
      using create_ok [of "issue_view s" i d ttl now] nf vn q(2) issue_view_upd [OF ok(6)] by (simp add: obj)
    then show ?thesis using ok dn \<open>coll_ok opState_clash s'\<close> by (auto simp: obj(3))
  next
    case (dup e)
    then have "taken (issue_view s) (vd_OpState d)" unfolding tk by (fastforce simp: opState_clash_def obj(3))
    then show ?thesis using dup dn ok q(2) create_dup issue_view_same [OF dup(3)] by simp
  next
    case (unapplied e)
    then show ?thesis using dn ok q er create_err issue_view_same [OF unapplied(3)] by simp
  next
    case (applied e i)
    then have "spec_step (issue_view s) (CreateOp d ttl now) (Returned r) (issue_view s')"
      using create_doubt [of e "issue_view s" i d ttl now] nf vn q(2) er issue_view_upd [OF applied(6)] by (simp add: obj)
    then show ?thesis using applied dn ok by (auto simp: obj(3))
  qed
qed

lemma issueFind_sim:
  assumes "issue_inv s" "issueFind os now s = (r, s')"
  shows "coll_ok opState_clash s' \<and> docs s' = docs s \<and> spec_step (issue_view s) (FindOp os now) (Returned r) (issue_view s')"
proof -
  have ok: "coll_ok opState_clash s" and dn: "\<forall>i m. docs s i = Some m \<longrightarrow> id_OpState m \<noteq> Some []"
    and un: "unique_states (issue_view s)"
    using assms(1) by (simp_all add: issue_inv_def)
  obtain q where q: "c_find (\<lambda>_ m. id_OpState m = Some os) s = (q, s')"
    using assms(2) by (auto simp: issueFind_def split: prod.splits res.splits if_splits)
  from ok q show ?thesis
  proof (cases rule: c_find_cases)
    case (ok i m)
    then have v: "issue_view s i = Some (data_of_doc m, id_ExpireAt m)" "vd_OpState (data_of_doc m) = os" "os \<noteq> []"
      using dn by (auto simp: issue_view_def state_of_data)
    have exp: "e < now" if "id_ExpireAt m < now" "issue_view s j = Some (d, e)" "vd_OpState d = os" for j d e
      using un v that unfolding unique_states_def by (metis option.inject prod.inject)
    have r: "r = (if id_ExpireAt m < now then Err oidc4vc_ErrDataNotFound else Ok \<lparr>vt_ID = i, vt_Data = data_of_doc m\<rparr>)"
      using assms(2) q ok by (simp add: issueFind_def split: if_splits)
    have "spec_step (issue_view s) (FindOp os now) (Returned r) (issue_view s)"
    proof (cases "id_ExpireAt m < now")
      case True
      then show ?thesis unfolding r by (simp, intro find_none) (rule exp)
    next
      case False
      then show ?thesis unfolding r using find_ok [of "issue_view s" i "data_of_doc m" "id_ExpireAt m" os now] v by simp
    qed
    then show ?thesis
      using coll_ok_after(2) [OF q] \<open>coll_ok opState_clash s\<close> issue_view_same [OF ok(4)] ok(4) by simp
  next
    case (none e)
    then have "spec_step (issue_view s) (FindOp os now) (Returned (Err oidc4vc_ErrDataNotFound)) (issue_view s)"
      by (intro find_none) (use read_field_nonempty in \<open>fastforce simp: issue_view_def state_of_data\<close>)
    then show ?thesis
      using assms(2) q none coll_ok_after(2) [OF q] ok issue_view_same [OF none(4)] by (simp add: issueFind_def)
  next
    case (failed e)
    then show ?thesis
      using assms(2) q failed coll_ok_after(2) [OF q] ok find_err [of e "issue_view s" os now] issue_view_same [OF failed(3)] by (auto simp: issueFind_def)
  qed
qed

text \<open>The update of a document is the update of the specification.\<close>

lemma spec_update_docs:
  assumes "issue_inv s" "docs s' = upd_map (to_lower (vt_ID tx)) (set_doc (mapTransactionDataToMongoDocument (vt_Data tx) now)) False (docs s)"
  shows "issue_view s' = spec_update tx now (issue_view s) \<and> (\<forall>i m. docs s' i = Some m \<longrightarrow> id_OpState m \<noteq> Some [])
    \<and> (\<forall>i. docs s' i \<noteq> None \<longrightarrow> to_lower i = i)"
proof (cases "docs s (to_lower (vt_ID tx))")
  case None
  then have "docs s' = docs s" using assms(2) by (simp add: upd_map_def)
  moreover have "spec_update tx now (issue_view s) = issue_view s" using None by (simp add: spec_update_def issue_view_def)
  ultimately show ?thesis using assms(1) issue_view_same [of s' s] by (simp add: issue_inv_def)
next
  case (Some m)
  let ?n = "set_doc (mapTransactionDataToMongoDocument (vt_Data tx) now) (Some m)"
  have d: "docs s' = (docs s)(to_lower (vt_ID tx) \<mapsto> ?n)" using assms(2) Some by (simp add: upd_map_def)
  have dn: "\<forall>i m. docs s i = Some m \<longrightarrow> id_OpState m \<noteq> Some []" "\<forall>i. docs s i \<noteq> None \<longrightarrow> to_lower i = i"
    using assms(1) by (simp_all add: issue_inv_def)
  have os: "id_OpState ?n = (if vd_OpState (vt_Data tx) = [] then id_OpState m else Some (vd_OpState (vt_Data tx)))"
    by (simp add: set_doc_def mapTransactionDataToMongoDocument_def omit_empty_def)
  have "data_of_doc ?n = kept (vt_Data tx)\<lparr>vd_OpState := if vd_OpState (vt_Data tx) = [] then vd_OpState (data_of_doc m) else vd_OpState (vt_Data tx)\<rparr>"
    by (simp add: set_doc_def mapTransactionDataToMongoDocument_def omit_empty_def data_of_doc_def kept_def)
  moreover have "id_ExpireAt ?n = now + defaultExpiration"
    by (simp add: set_doc_def mapTransactionDataToMongoDocument_def)
  moreover have "id_OpState ?n \<noteq> Some []" using dn Some os by simp
  ultimately show ?thesis
    using dn d Some by (auto simp: issue_view_upd [OF d] spec_update_def issue_view_def Let_def)
qed

lemma free_no_conflict:
  assumes "issue_inv s" "docs s i = Some old" "free_for opState_clash (docs s) i n" "id_OpState n \<noteq> Some []"
    "issue_view s' = (issue_view s)(i \<mapsto> (data_of_doc n, e))"
  shows "\<not> conflicts (issue_view s) (issue_view s') i"
proof
  assume "conflicts (issue_view s) (issue_view s') i"
  then obtain j m where "j \<noteq> i" "docs s j = Some m" "read_field (id_OpState m) = read_field (id_OpState n)"
    using assms(5) by (auto simp: conflicts_def issue_view_def state_of_data)
  moreover have "id_OpState m \<noteq> Some []" using assms(1) calculation(2) by (auto simp: issue_inv_def)
  ultimately show False
    using assms(3,4) read_field_inject unfolding free_for_def opState_clash_def by metis
qed

lemma issueUpdate_fits:
  assumes "issue_inv s" "issue_view s' = spec_update tx now (issue_view s)"
    "docs s' = upd_map (to_lower (vt_ID tx)) (set_doc (mapTransactionDataToMongoDocument (vt_Data tx) now)) False (docs s)"
    "docs s' \<noteq> docs s \<Longrightarrow> free_for opState_clash (docs s) (to_lower (vt_ID tx))
        (set_doc (mapTransactionDataToMongoDocument (vt_Data tx) now) (docs s (to_lower (vt_ID tx))))"
  shows "update_fits (issue_view s) tx now"
proof (cases "docs s' = docs s")
  case True
  then show ?thesis using assms(2) issue_view_same [OF True] by (simp add: update_fits_def)
next
  case False
  let ?i = "to_lower (vt_ID tx)" and ?n = "set_doc (mapTransactionDataToMongoDocument (vt_Data tx) now) (docs s (to_lower (vt_ID tx)))"
  obtain old where o: "docs s ?i = Some old" using False assms(3) by (cases "docs s ?i") (auto simp: upd_map_def)
  then have d: "docs s' = (docs s)(?i \<mapsto> ?n)" using assms(3) by (simp add: upd_map_def)
  have "docs s' ?i = Some ?n" using d by simp
  then have "id_OpState ?n \<noteq> Some []" using spec_update_docs [OF assms(1,3)] by blast
  then have "\<not> conflicts (issue_view s) (issue_view s') ?i"
    using free_no_conflict [OF assms(1) o assms(4) [OF False] _ issue_view_upd [OF d]] by simp
  then show ?thesis using assms(2) by (simp add: update_fits_def)
qed

lemma issueUpdate_sim:
  assumes "issue_inv s" "issueUpdate tx now s = (r, s')"
  shows "coll_ok opState_clash s' \<and> (\<forall>i m. docs s' i = Some m \<longrightarrow> id_OpState m \<noteq> Some []) \<and> (\<forall>i. docs s' i \<noteq> None \<longrightarrow> to_lower i = i)
    \<and> spec_step (issue_view s) (UpdateOp tx now) (Done r) (issue_view s')"
proof (cases "valid_hex (drv s) (vt_ID tx)")
  case False
  then have "r = Err (ErrExt ''the provided hex string is not a valid ObjectID'')" "s' = s"
    using assms(2) by (simp_all add: issueUpdate_def objectIDFromHex_def pure_op_def)
  then show ?thesis using assms(1) update_err by (simp add: issue_inv_def)
next
  case True
  let ?f = "set_doc (mapTransactionDataToMongoDocument (vt_Data tx) now)"
  obtain q where q: "c_update (to_lower (vt_ID tx)) ?f False s = (q, s')" "r = bindR q (\<lambda>_. Ok ())"
    using assms(2) True
    by (cases "c_update (to_lower (vt_ID tx)) ?f False s"; cases "fst (c_update (to_lower (vt_ID tx)) ?f False s)")
      (auto simp: issueUpdate_def objectIDFromHex_def)
  have ok: "coll_ok opState_clash s" using assms(1) by (simp add: issue_inv_def)
  have er: "driver_err e" if "q = Err e" for e
    using ok q(1) that
    by (auto simp: coll_ok_def mongo_ok_def errors_law_def c_update_def coll_run_def prod_eq_iff)
  from ok q(1) show ?thesis
  proof (cases rule: c_update_cases)
    case ok
    note u = spec_update_docs [OF assms(1) ok(2)]
    then show ?thesis
      using update_ok [OF issueUpdate_fits [OF assms(1) conjunct1 [OF u] ok(2,3)]] q(2) ok(1) coll_ok_after(4) [OF q(1)] \<open>coll_ok opState_clash s\<close>
      by simp
  next
    case (unapplied e)
    then show ?thesis
      using q er ok unapplied coll_ok_after(4) [OF q(1)] assms(1) update_err issue_view_same [OF unapplied(2)] by (simp add: issue_inv_def)
  next
    case (applied e)
    note u = spec_update_docs [OF assms(1) applied(2)]
    then show ?thesis
      using update_doubt [OF er issueUpdate_fits [OF assms(1) conjunct1 [OF u] applied(2,3)]] q(2) applied(1) coll_ok_after(4) [OF q(1)] ok
      by simp
  qed
qed

lemma issuePurge_sim:
  assumes "issue_inv s"
  shows "coll_ok opState_clash (issuePurge now s) \<and> (\<forall>i m. docs (issuePurge now s) i = Some m \<longrightarrow> id_OpState m \<noteq> Some [])
    \<and> (\<forall>i. docs (issuePurge now s) i \<noteq> None \<longrightarrow> to_lower i = i) \<and> spec_step (issue_view s) (PurgeOp now) (Done (Ok ())) (issue_view (issuePurge now s))"
proof -
  obtain q s' where q: "c_delete (\<lambda>_ m. id_ExpireAt m < now) s = (q, s')" by fastforce
  then have p: "issuePurge now s = s'" by (simp add: issuePurge_def)
  have ok: "coll_ok opState_clash s" using assms(1) by (simp add: issue_inv_def)
  have one: "spec_step (issue_view s) (PurgeOp now) (Done (Ok ())) (issue_view s')"
    if "docs s i = Some m" "id_ExpireAt m < now" "docs s' = (docs s)(i := None)" for i m
    unfolding issue_view_del [OF that(3)]
    using purge_one [of "issue_view s" i "data_of_doc m" "id_ExpireAt m" now] that by (simp add: issue_view_def)
  have same: "spec_step (issue_view s) (PurgeOp now) (Done (Ok ())) (issue_view s')" if "docs s' = docs s"
    unfolding issue_view_same [OF that] by (rule purge_none)
  have sub: "docs s' = docs s \<or> (\<exists>i. docs s' = (docs s)(i := None))"
    and "spec_step (issue_view s) (PurgeOp now) (Done (Ok ())) (issue_view s')"
    using ok q by (cases rule: c_delete_cases; use one same in blast)+
  then show ?thesis
    unfolding p using coll_ok_after(5) [OF q] ok assms by (auto simp: issue_inv_def split: if_splits)
qed

theorem issue_run_op_sim:
  assumes "issue_inv s" "issue_run_op issueCreate issueFind issueUpdate issuePurge p s = (r, s')"
  shows "issue_inv s' \<and> spec_step (issue_view s) p r (issue_view s')"
proof -
  have "coll_ok opState_clash s' \<and> (\<forall>i m. docs s' i = Some m \<longrightarrow> id_OpState m \<noteq> Some []) \<and> (\<forall>i. docs s' i \<noteq> None \<longrightarrow> to_lower i = i)
    \<and> spec_step (issue_view s) p r (issue_view s')"
  proof (cases p)
    case (CreateOp d ttl now)
    then show ?thesis using assms(2) issueCreate_sim [OF assms(1), of d ttl now] by (auto simp: Let_def split: prod.splits)
  next
    case (FindOp os now)
    then show ?thesis
      using assms issueFind_sim [OF assms(1), of os now] by (auto simp: Let_def issue_inv_def split: prod.splits)
  next
    case (UpdateOp tx now)
    then show ?thesis using assms(2) issueUpdate_sim [OF assms(1), of tx now] by (auto simp: Let_def split: prod.splits)
  next
    case (PurgeOp now)
    then show ?thesis using assms(2) issuePurge_sim [OF assms(1), of now] by simp
  qed
  then show ?thesis using spec_step_unique assms(1) unfolding issue_inv_def by blast
qed

interpretation isd: issuance_store issueCreate issueFind issueUpdate issuePurge issue_inv issue_view
proof unfold_locales
  fix s :: "'a issue_coll" and i d e
  assume "issue_inv s" "issue_view s i = Some (d, e)"
  then show "kept d = d \<and> to_lower i = i"
    by (auto simp: issue_inv_def issue_view_def data_of_doc_def kept_def)
qed (rule issue_run_op_sim, assumption+, simp add: issue_inv_def)

subsection \<open>Properties\<close>

text \<open>C21: The MongoDB store implements the transaction store specification. Any sequence of creations,
  lookups, updates and expiry sweeps, whatever the server answers, is a run of the specification with
  the same outcomes: \<open>opState\<close> values stay unique, a lookup returns the one live transaction with that
  \<open>opState\<close> or "data not found" when there is none, an update replaces the data and renews the expiry,
  and a failed call either had its effect or none.\<close>
theorem issuance_store_refines:
  assumes "issue_inv s" "issue_run (issue_run_op issueCreate issueFind issueUpdate issuePurge) ps s = (rs, s')"
  shows "spec_run (issue_view s) ps rs (issue_view s') \<and> unique_states (issue_view s') \<and> issue_inv s'"
  using isd.run_sim [OF assms] isd.inv_unique by blast

text \<open>A stored transaction is found again. After a successful \<open>Create\<close> with a non-empty \<open>opState\<close>, and any
  operations that neither update that transaction nor sweep after its expiry, \<open>FindByOpState\<close> before the
  expiry either reports a driver error or returns the id and the data that were stored, without the
  issuer's authorization code and token, which the store never keeps.\<close>
theorem issued_transaction_found:
  assumes "issue_inv s" "issueCreate d ttl t0 s = (Ok tx, s1)"
    "issue_run (issue_run_op issueCreate issueFind issueUpdate issuePurge) ps s1 = (rs, s2)"
    "list_all (leaves (vt_ID tx) (t0 + (if ttl = 0 then defaultExpiration else ttl))) ps"
    "issueFind (vd_OpState d) now s2 = (r, s3)" "vd_OpState d \<noteq> []" "now \<le> t0 + (if ttl = 0 then defaultExpiration else ttl)"
  shows "(\<exists>e. r = Err e \<and> driver_err e) \<or> r = Ok \<lparr>vt_ID = vt_ID tx, vt_Data = kept d\<rparr>"
proof -
  note c = isd.create_Ok [OF assms(1,2)]
  then have run: "issue_inv s2" "spec_run (issue_view s1) ps rs (issue_view s2)"
    using isd.run_sim [OF _ assms(3)] by blast+
  have "issue_view s2 (vt_ID tx) = Some (kept d, t0 + (if ttl = 0 then defaultExpiration else ttl))"
    using c spec_run_leaves [OF run(2) assms(4)] by simp
  then show ?thesis
    using isd.found_again [OF run(1) _ assms(5) _ assms(6,7)] by (simp add: kept_def)
qed

definition demo_data :: tx_data where
  "demo_data = \<lparr>vd_CredentialTemplate = Some \<lparr>ct_Contexts = [], ct_ID = ''tpl'', ct_Type = ''PermanentResidentCard'', ct_Issuer = [],
       ct_CredentialSubject = JNull\<rparr>, vd_CredentialFormat = Ldp, vd_AuthorizationEndpoint = ''https://issuer/auth'', vd_PAREndpoint = [],
     vd_TokenEndpoint = ''https://issuer/token'', vd_ClaimEndpoint = [], vd_ClientID = ''c'', vd_ClientSecret = [], vd_GrantType = [],
     vd_ResponseType = ''code'', vd_Scope = [''openid''], vd_AuthorizationDetails = None, vd_IssuerAuthCode = ''secret'',
     vd_IssuerToken = [], vd_OpState = ''st1''\<rparr>"

abbreviation demo_issue_store :: "(issue_doc mem, issue_doc) coll" where
  "demo_issue_store \<equiv> mem_coll opState_clash [] []"

lemma demo_issue_inv: "issue_inv demo_issue_store"
  by (simp add: issue_inv_def issue_view_def unique_states_def mem_coll_ok docs_mem_coll)

definition demo_ops :: "issue_op list" where
  "demo_ops = [CreateOp (demo_data\<lparr>vd_OpState := ''st2''\<rparr>) 0 3, CreateOp demo_data 0 4, FindOp ''st3'' 5, PurgeOp 6]"

lemmas issue_eval = issueCreate_def issueFind_def issuePurge_def mapTransactionDataToMongoDocument_def data_of_doc_def omit_empty_def mem_eval
  opState_clash_def defaultExpiration_def demo_data_def demo_ops_def Let_def mem_driver_def eval_nat_numeral

lemma demo_issue_run:
  "\<exists>s1 s2 s3. issueCreate demo_data 0 2 demo_issue_store = (Ok \<lparr>vt_ID = ''1'', vt_Data = demo_data\<rparr>, s1)
    \<and> issue_run (issue_run_op issueCreate issueFind issueUpdate issuePurge) demo_ops s1
        = ([Returned (Ok \<lparr>vt_ID = ''11'', vt_Data = demo_data\<lparr>vd_OpState := ''st2''\<rparr>\<rparr>), Returned (Err oidc4vc_ErrDataNotFound),
            Returned (Err oidc4vc_ErrDataNotFound), Done (Ok ())], s2)
    \<and> issueFind ''st1'' 9 s2 = (Ok \<lparr>vt_ID = ''1'', vt_Data = demo_data\<lparr>vd_IssuerAuthCode := []\<rparr>\<rparr>, s3)"
  by (simp add: issue_eval)

theorem issuance_store_refines_witness:
  "\<exists>rs s'. issue_run (issue_run_op issueCreate issueFind issueUpdate issuePurge) demo_ops demo_issue_store = (rs, s')
     \<and> spec_run (issue_view demo_issue_store) demo_ops rs (issue_view s') \<and> length rs = 4"
proof -
  obtain rs s' where r: "issue_run (issue_run_op issueCreate issueFind issueUpdate issuePurge) demo_ops demo_issue_store = (rs, s')"
    by fastforce
  then have "length rs = 4" by (auto simp: demo_ops_def Let_def split: prod.splits)
  then show ?thesis using r issuance_store_refines [OF demo_issue_inv r] by blast
qed

theorem issued_transaction_found_witness:
  "\<exists>s1 rs s2 r s3. issueCreate demo_data 0 2 demo_issue_store = (Ok \<lparr>vt_ID = ''1'', vt_Data = demo_data\<rparr>, s1)
     \<and> issue_run (issue_run_op issueCreate issueFind issueUpdate issuePurge) demo_ops s1 = (rs, s2)
     \<and> issueFind ''st1'' 9 s2 = (r, s3)
     \<and> ((\<exists>e. r = Err e \<and> driver_err e) \<or> r = Ok \<lparr>vt_ID = ''1'', vt_Data = kept demo_data\<rparr>)"
proof -
  obtain s1 rs s2 r s3 where d: "issueCreate demo_data 0 2 demo_issue_store = (Ok \<lparr>vt_ID = ''1'', vt_Data = demo_data\<rparr>, s1)"
    "issue_run (issue_run_op issueCreate issueFind issueUpdate issuePurge) demo_ops s1 = (rs, s2)" "issueFind ''st1'' 9 s2 = (r, s3)"
    using demo_issue_run by blast
  moreover have "list_all (leaves ''1'' (2 + defaultExpiration)) demo_ops" by (simp add: demo_ops_def defaultExpiration_def)
  moreover have "vd_OpState demo_data = ''st1''" by (simp add: demo_data_def)
  ultimately show ?thesis
    using issued_transaction_found [OF demo_issue_inv d(1,2), of 9 r s3] by (fastforce simp: defaultExpiration_def)
qed

end
