(* ===== verification/Api_Common.thy ===== *)
theory Api_Common
  imports Rest_Api Issuance_Store
begin

text \<open>
  \<open>pkg/restapi/v1/common/common.go\<close>: the names of formats, DID methods and KMS types in the REST API and
  their internal counterparts, and the validation of authorization details. The DID method names of
  the Aries packages are the parameters of \<open>did_methods\<close>. Optional members of the generated request
  structs are options.
\<close>

definition JwtVc :: string where "JwtVc = ''jwt_vc''"
definition LdpVc :: string where "LdpVc = ''ldp_vc''"
definition JwtVp :: string where "JwtVp = ''jwt_vp''"
definition LdpVp :: string where "LdpVp = ''ldp_vp''"

lemmas format_names = JwtVc_def LdpVc_def JwtVp_def LdpVp_def Jwt_def Ldp_def

definition validateVCFormat :: "string \<Rightarrow> string res" where
  "validateVCFormat format =
     (if format = JwtVc then Ok Jwt else if format = LdpVc then Ok Ldp
      else Err (ErrMsg (''unsupported vc format '' @ format @ '', use one of next ['' @ JwtVc @ '', '' @ LdpVc @ '']'')))"

definition mapToVCFormat :: "string \<Rightarrow> string res" where
  "mapToVCFormat format =
     (if format = Jwt then Ok JwtVc else if format = Ldp then Ok LdpVc
      else Err (ErrMsg (''vc format missmatch '' @ format @ '', rest api supports only ['' @ JwtVc @ '', '' @ LdpVc @ '']'')))"

definition validateVPFormat :: "string \<Rightarrow> string res" where
  "validateVPFormat format =
     (if format = JwtVp then Ok Jwt else if format = LdpVp then Ok Ldp
      else Err (ErrMsg (''unsupported vc format '' @ format @ '', use one of next ['' @ JwtVc @ '', '' @ LdpVc @ '']'')))"

definition mapToVPFormat :: "string \<Rightarrow> string res" where
  "mapToVPFormat format =
     (if format = Jwt then Ok JwtVp else if format = Ldp then Ok LdpVp
      else Err (ErrMsg (''vc format missmatch '' @ format @ '', rest api supports only ['' @ JwtVc @ '', '' @ LdpVc @ '']'')))"

text \<open>The internal DID methods \<open>key.DIDMethod\<close> and \<open>orb.DIDMethod\<close> are library constants.\<close>

record did_methods =
  dm_Key :: string
  dm_Orb :: string

definition WebDIDMethod :: string where "WebDIDMethod = ''web''"
definition DIDMethodKey :: string where "DIDMethodKey = ''key''"
definition DIDMethodOrb :: string where "DIDMethodOrb = ''orb''"
definition DIDMethodWeb :: string where "DIDMethodWeb = ''web''"

definition did_choice :: string where
  "did_choice = ''['' @ DIDMethodKey @ '', '' @ DIDMethodWeb @ '', '' @ DIDMethodOrb @ '']''"

definition validateDIDMethod :: "did_methods \<Rightarrow> string \<Rightarrow> string res" where
  "validateDIDMethod dm method =
     (if method = DIDMethodKey then Ok (dm_Key dm) else if method = DIDMethodWeb then Ok WebDIDMethod
      else if method = DIDMethodOrb then Ok (dm_Orb dm)
      else Err (ErrMsg (''unsupported did method '' @ method @ '', use one of next '' @ did_choice)))"

definition mapToDIDMethod :: "did_methods \<Rightarrow> string \<Rightarrow> string res" where
  "mapToDIDMethod dm method =
     (if method = dm_Key dm then Ok DIDMethodKey else if method = WebDIDMethod then Ok DIDMethodWeb
      else if method = dm_Orb dm then Ok DIDMethodOrb
      else Err (ErrMsg (''did method missmatch '' @ method @ '', rest api supports only '' @ did_choice)))"

subsection \<open>KMS configurations\<close>

definition KMSConfigTypeAws :: string where "KMSConfigTypeAws = ''aws''"
definition KMSConfigTypeLocal :: string where "KMSConfigTypeLocal = ''local''"
definition KMSConfigTypeWeb :: string where "KMSConfigTypeWeb = ''web''"

definition kms_choice :: string where
  "kms_choice = ''['' @ KMSConfigTypeAws @ '', '' @ KMSConfigTypeLocal @ '', '' @ KMSConfigTypeWeb @ '']''"

definition validateKMSType :: "string \<Rightarrow> kms_type res" where
  "validateKMSType t =
     (if t = KMSConfigTypeAws then Ok AwsKms else if t = KMSConfigTypeLocal then Ok LocalKms
      else if t = KMSConfigTypeWeb then Ok WebKms
      else Err (ErrMsg (''unsupported kms type '' @ t @ '', use one of next '' @ kms_choice)))"

definition mapToKMSConfigType :: "kms_type \<Rightarrow> string res" where
  "mapToKMSConfigType t = (case t of
       AwsKms \<Rightarrow> Ok KMSConfigTypeAws | LocalKms \<Rightarrow> Ok KMSConfigTypeLocal | WebKms \<Rightarrow> Ok KMSConfigTypeWeb
     | OtherKms s \<Rightarrow> Err (ErrMsg (''kms type missmatch '' @ s @ '', rest api supportes only '' @ kms_choice)))"

record kms_request =
  kq_DbPrefix :: "string option"
  kq_DbType :: "string option"
  kq_DbURL :: "string option"
  kq_Endpoint :: "string option"
  kq_SecretLockKeyPath :: "string option"
  kq_Type :: string

definition kms_required :: "string option \<Rightarrow> string \<Rightarrow> string \<Rightarrow> string \<Rightarrow> string res" where
  "kms_required field key_name what typ = (case field of
       Some s \<Rightarrow> Ok s
     | None \<Rightarrow> Err (newValidationError InvalidValue key_name (ErrMsg (what @ '' is required for '' @ typ @ '' kms''))))"

definition validateKMSConfig :: "kms_request option \<Rightarrow> kms_config option res" where
  "validateKMSConfig config =
     (case config of
        None \<Rightarrow> Ok None
      | Some c \<Rightarrow>
          bindR (mapErr (newValidationError InvalidValue ''kmsConfig.type'') (validateKMSType (kq_Type c))) (\<lambda>t.
          if t = AwsKms \<or> t = WebKms
          then bindR (kms_required (kq_Endpoint c) ''kmsConfig.endpoint'' ''enpoint'' (kq_Type c)) (\<lambda>e.
               Ok (Some \<lparr>kc_KMSType = t, kc_Endpoint = e, kc_Region = [], kc_SecretLockKeyPath = [], kc_DBType = [], kc_DBURL = [], kc_DBPrefix = []\<rparr>))
          else
            bindR (kms_required (kq_SecretLockKeyPath c) ''kmsConfig.secretLockKeyPath'' ''secretLockKeyPath'' (kq_Type c)) (\<lambda>l.
            bindR (kms_required (kq_DbType c) ''kmsConfig.dbType'' ''dbType'' (kq_Type c)) (\<lambda>dt.
            bindR (kms_required (kq_DbURL c) ''kmsConfig.dbURL'' ''dbURL'' (kq_Type c)) (\<lambda>du.
            bindR (kms_required (kq_DbPrefix c) ''kmsConfig.dbPrefix'' ''dbPrefix'' (kq_Type c)) (\<lambda>dp.
            Ok (Some \<lparr>kc_KMSType = t, kc_Endpoint = [], kc_Region = [], kc_SecretLockKeyPath = l, kc_DBType = dt, kc_DBURL = du, kc_DBPrefix = dp\<rparr>)))))))"

subsection \<open>Authorization details\<close>

record details_request =
  dr_CredentialType :: string
  dr_Format :: "string option"
  dr_Locations :: "string list option"
  dr_Type :: string

definition from_ptr :: "'a \<Rightarrow> 'a option \<Rightarrow> 'a" where
  "from_ptr zero p = (case p of None \<Rightarrow> zero | Some a \<Rightarrow> a)"

text \<open>The argument is a pointer that is read without a nil check.\<close>

definition validateAuthorizationDetails :: "details_request option \<Rightarrow> auth_details res" where
  "validateAuthorizationDetails p =
     bindR (deref p) (\<lambda>ad.
     if dr_Type ad \<noteq> ''openid_credential''
     then Err (newValidationError InvalidValue ''authorization_details.type'' (ErrMsg (''type should be '' @ CHR 0x27 # ''openid_credential'' @ [CHR 0x27])))
     else
       bindR (case dr_Format ad of
                None \<Rightarrow> Ok []
              | Some f \<Rightarrow> mapErr (newValidationError InvalidValue ''authorization_details.format'') (validateVCFormat f)) (\<lambda>fmt.
       Ok \<lparr>ad_Type = dr_Type ad, ad_CredentialType = dr_CredentialType ad, ad_Format = fmt,
            ad_Locations = from_ptr [] (dr_Locations ad)\<rparr>))"

lemma vc_formats_neq [simp]: "JwtVc \<noteq> LdpVc" "LdpVc \<noteq> JwtVc" "Jwt \<noteq> Ldp" "Ldp \<noteq> Jwt"
  by (simp_all add: format_names)

lemma validateVCFormat_Ok: "validateVCFormat f = Ok g \<longleftrightarrow> f = JwtVc \<and> g = Jwt \<or> f = LdpVc \<and> g = Ldp"
  by (auto simp: validateVCFormat_def)

text \<open>The two tables of each kind are inverse to each other.\<close>

lemma vc_format_inverse: "validateVCFormat f = Ok g \<longleftrightarrow> mapToVCFormat g = Ok f"
  by (auto simp: validateVCFormat_def mapToVCFormat_def split: if_splits)

lemma vp_format_inverse: "validateVPFormat f = Ok g \<longleftrightarrow> mapToVPFormat g = Ok f"
  by (auto simp: validateVPFormat_def mapToVPFormat_def format_names split: if_splits)

lemma kms_type_inverse: "validateKMSType s = Ok t \<longleftrightarrow> mapToKMSConfigType t = Ok s"
  by (cases t) (auto simp: validateKMSType_def mapToKMSConfigType_def KMSConfigTypeAws_def KMSConfigTypeLocal_def KMSConfigTypeWeb_def split: if_splits)

lemma did_method_inverse:
  assumes "distinct [dm_Key dm, WebDIDMethod, dm_Orb dm]"
  shows "validateDIDMethod dm s = Ok t \<longleftrightarrow> mapToDIDMethod dm t = Ok s"
  using assms by (auto simp: validateDIDMethod_def mapToDIDMethod_def DIDMethodKey_def DIDMethodOrb_def DIDMethodWeb_def split: if_splits)

text \<open>The names of the REST API and the internal ones translate into each other without loss, in either
  direction: for the credential and the presentation formats, the KMS types and, when the three internal
  DID methods differ, the DID methods, one table accepts exactly what the other produces.\<close>
theorem api_names_bijective:
  assumes "distinct [dm_Key dm, WebDIDMethod, dm_Orb dm]"
  shows "(validateVCFormat f = Ok g \<longleftrightarrow> mapToVCFormat g = Ok f) \<and> (validateVPFormat f = Ok g \<longleftrightarrow> mapToVPFormat g = Ok f)
    \<and> (validateKMSType s = Ok t \<longleftrightarrow> mapToKMSConfigType t = Ok s) \<and> (validateDIDMethod dm m = Ok n \<longleftrightarrow> mapToDIDMethod dm n = Ok m)"
  using vc_format_inverse vp_format_inverse kms_type_inverse did_method_inverse [OF assms] by blast

theorem api_names_bijective_witness:
  "(validateVCFormat ''ldp_vc'' = Ok Ldp) = (mapToVCFormat Ldp = Ok ''ldp_vc'') \<and> mapToVCFormat Ldp = Ok ''ldp_vc''
   \<and> (validateDIDMethod \<lparr>dm_Key = ''key'', dm_Orb = ''orb''\<rparr> ''orb'' = Ok ''orb'')
       = (mapToDIDMethod \<lparr>dm_Key = ''key'', dm_Orb = ''orb''\<rparr> ''orb'' = Ok ''orb'')"
  using api_names_bijective [of "\<lparr>dm_Key = ''key'', dm_Orb = ''orb''\<rparr>" "''ldp_vc''" Ldp "''aws''" AwsKms "''orb''" "''orb''"]
  by (simp add: WebDIDMethod_def mapToVCFormat_def format_names)

end
