(* ===== verification/Vc_Store.thy ===== *)
theory Vc_Store
  imports Mongo_Mem Verifiable_Model
begin

text \<open>
  \<open>pkg/storage/mongodb/vcstore/vc_store.go\<close>: issued credentials. A document is a map of dynamic values;
  the conversion of a JSON-LD credential to one (\<open>PrepareDataForBSONStorage\<close>) is a parameter. The
  interfaces \<open>vcStore\<close> of the services are the locale \<open>vc_repository\<close>, whose view is the set of stored
  bytes by profile name and credential id.
\<close>

definition profileNameField :: string where "profileNameField = ''profileName''"
definition idField :: string where "idField = ''_id''"
definition vcIDField :: string where "vcIDField = ''id''"
definition jwtField :: string where "jwtField = ''jwt''"

lemma vc_fields [simp]:
  "profileNameField \<noteq> idField" "profileNameField \<noteq> vcIDField" "profileNameField \<noteq> jwtField" "idField \<noteq> vcIDField" "idField \<noteq> jwtField"
  "vcIDField \<noteq> jwtField" "idField \<noteq> profileNameField" "vcIDField \<noteq> profileNameField" "jwtField \<noteq> profileNameField"
  "vcIDField \<noteq> idField" "jwtField \<noteq> idField" "jwtField \<noteq> vcIDField"
  by (simp_all add: profileNameField_def idField_def vcIDField_def jwtField_def)

type_synonym 'c vc_coll = "('c, fields) coll"

definition vc_document :: "(credential \<Rightarrow> fields res) \<Rightarrow> string \<Rightarrow> credential \<Rightarrow> fields res" where
  "vc_document prepare profileName vc =
     bindR (if cr_JWT vc \<noteq> [] then Ok [(vcIDField, JStr (cr_ID vc)), (jwtField, JStr (cr_JWT vc))] else prepare vc) (\<lambda>m.
     Ok (fput profileNameField (JStr profileName) m))"

definition vcPut :: "(credential \<Rightarrow> fields res) \<Rightarrow> string \<Rightarrow> credential \<Rightarrow> 'c vc_coll \<Rightarrow> unit res \<times> 'c vc_coll" where
  "vcPut prepare profileName vc s =
     andthen (pure_op (vc_document prepare profileName vc) s) (\<lambda>m s.
     andthen (c_insert (as_str (fget m idField)) m s) (\<lambda>_ s. (Ok (), s)))"

definition without :: "string \<Rightarrow> fields \<Rightarrow> fields" where
  "without k m = filter (\<lambda>p. fst p \<noteq> k) m"

definition vc_bytes_of :: "fields \<Rightarrow> vc_bytes" where
  "vc_bytes_of m = (case as_str (fget m jwtField) of
       Some jwt \<Rightarrow> JwtBytes jwt
     | None \<Rightarrow> JsonBytes (JObj (without profileNameField (without idField m))))"

definition vcGet :: "string \<Rightarrow> string \<Rightarrow> 'c vc_coll \<Rightarrow> vc_bytes res \<times> 'c vc_coll" where
  "vcGet profileName vcID s =
     andthen (wrapS ''failed to query MongoDB: ''
         (c_find (\<lambda>_ m. fget m vcIDField = JStr vcID \<and> fget m profileNameField = JStr profileName) s)) (\<lambda>(_, m) s.
     (Ok (vc_bytes_of m), s))"

subsection \<open>The contract\<close>

locale vc_repository =
  fixes put :: "string \<Rightarrow> credential \<Rightarrow> 's \<Rightarrow> unit res \<times> 's"
    and get :: "string \<Rightarrow> string \<Rightarrow> 's \<Rightarrow> vc_bytes res \<times> 's"
    and encode :: "credential \<Rightarrow> (string \<times> vc_bytes) res"
    and inv :: "'s \<Rightarrow> bool"
    and held :: "'s \<Rightarrow> (string \<times> string \<times> vc_bytes) set"
  assumes put_eff: "inv s \<Longrightarrow> put p vc s = (r, s') \<Longrightarrow> inv s' \<and> (held s' = held s \<or> (\<exists>i b. encode vc = Ok (i, b) \<and> held s' = insert (p, i, b) (held s)))
      \<and> (r = Ok () \<longrightarrow> (\<exists>i b. encode vc = Ok (i, b) \<and> held s' = insert (p, i, b) (held s)))"
    and get_eff: "inv s \<Longrightarrow> get p i s = (g, s') \<Longrightarrow> inv s' \<and> held s' = held s \<and> (\<forall>b. g = Ok b \<longrightarrow> (p, i, b) \<in> held s)"
begin

lemma put_then_get:
  assumes "inv s" "put p vc s = (Ok (), s1)" "encode vc = Ok (i, b)" "get p i s1 = (Ok b', s2)"
    "\<forall>x. (p, i, x) \<notin> held s"
  shows "b' = b"
  using put_eff [OF assms(1,2)] get_eff [OF _ assms(4)] assms(3,5) by fastforce

end

subsection \<open>The MongoDB store satisfies it\<close>

text \<open>The key and the bytes under which a credential is found again.\<close>

definition vc_key :: "(credential \<Rightarrow> fields res) \<Rightarrow> credential \<Rightarrow> (string \<times> vc_bytes) res" where
  "vc_key prepare vc = bindR (vc_document prepare [] vc) (\<lambda>m. bindR (assert_str (fget m vcIDField)) (\<lambda>i. Ok (i, vc_bytes_of m)))"

definition vc_held :: "'c vc_coll \<Rightarrow> (string \<times> string \<times> vc_bytes) set" where
  "vc_held s = {(p, i, b). \<exists>k m. docs s k = Some m \<and> fget m vcIDField = JStr i \<and> fget m profileNameField = JStr p \<and> b = vc_bytes_of m}"

text \<open>What is assumed of the conversion: it yields a document with a string id.\<close>

definition prepare_ok :: "(credential \<Rightarrow> fields res) \<Rightarrow> bool" where
  "prepare_ok prepare \<longleftrightarrow> (\<forall>vc m. prepare vc = Ok m \<longrightarrow> fget m vcIDField = JStr (cr_ID vc))"

lemma without_fput: "without k (fput k v m) = without k m"
proof (induction m)
  case (Cons x m)
  then show ?case by (cases x) (auto simp: without_def fput_def)
qed (simp add: without_def fput_def)

lemma without_swap: "without j (without k m) = without k (without j m)"
  by (simp add: without_def conj_commute)

lemma bytes_profile: "vc_bytes_of (fput profileNameField v m) = vc_bytes_of (fput profileNameField w m)"
proof -
  have "without profileNameField (without idField (fput profileNameField x m)) = without idField (without profileNameField m)" for x
    by (metis without_swap without_fput)
  then show ?thesis by (simp add: vc_bytes_of_def split: option.split)
qed

lemma vc_document_key:
  assumes "prepare_ok prepare" "vc_document prepare p vc = Ok m"
  shows "vc_key prepare vc = Ok (cr_ID vc, vc_bytes_of m) \<and> fget m vcIDField = JStr (cr_ID vc) \<and> fget m profileNameField = JStr p"
proof -
  obtain m0 where m0: "(if cr_JWT vc \<noteq> [] then Ok [(vcIDField, JStr (cr_ID vc)), (jwtField, JStr (cr_JWT vc))] else prepare vc) = Ok m0"
    "m = fput profileNameField (JStr p) m0"
    using assms(2) by (auto simp: vc_document_def)
  have "fget m0 vcIDField = JStr (cr_ID vc)"
    using m0(1) assms(1) by (auto simp: prepare_ok_def split: if_splits)
  then show ?thesis
    using m0 bytes_profile [of "JStr p" m0 "JStr []"] by (simp add: vc_key_def vc_document_def)
qed

definition vc_inv :: "(credential \<Rightarrow> fields res) \<Rightarrow> 'c vc_coll \<Rightarrow> bool" where
  "vc_inv prepare s \<longleftrightarrow> coll_ok no_clash s \<and> prepare_ok prepare"

lemma vc_held_insert:
  assumes "docs s' = (docs s)(k \<mapsto> m)" "docs s k = None" "fget m vcIDField = JStr i" "fget m profileNameField = JStr p"
  shows "vc_held s' = insert (p, i, vc_bytes_of m) (vc_held s)"
proof -
  have "(\<exists>j x. docs s' j = Some x \<and> P x) \<longleftrightarrow> P m \<or> (\<exists>j x. docs s j = Some x \<and> P x)" for P
    using assms(1,2) by (auto split: if_splits) (metis option.distinct(1))+
  then show ?thesis using assms(3,4) by (auto simp: vc_held_def)
qed

lemma vcPut_eff:
  assumes "vc_inv prepare s" "vcPut prepare p vc s = (r, s')"
  shows "vc_inv prepare s' \<and> (vc_held s' = vc_held s \<or> (\<exists>i b. vc_key prepare vc = Ok (i, b) \<and> vc_held s' = insert (p, i, b) (vc_held s)))
      \<and> (r = Ok () \<longrightarrow> (\<exists>i b. vc_key prepare vc = Ok (i, b) \<and> vc_held s' = insert (p, i, b) (vc_held s)))"
proof (cases "vc_document prepare p vc")
  case (Ok m)
  have ok: "coll_ok no_clash s" "prepare_ok prepare" using assms(1) by (simp_all add: vc_inv_def)
  note K = vc_document_key [OF ok(2) Ok]
  obtain q where q: "c_insert (as_str (fget m idField)) m s = (q, s')" "r = bindR q (\<lambda>_. Ok ())"
    using assms(2) Ok by (cases "c_insert (as_str (fget m idField)) m s"; cases "fst (c_insert (as_str (fget m idField)) m s)")
      (auto simp: vcPut_def)
  have inv: "vc_inv prepare s'" using coll_ok_after(1) [OF q(1)] ok by (simp add: vc_inv_def)
  have same: "vc_held s' = vc_held s" if "docs s' = docs s" using that by (simp add: vc_held_def)
  from ok(1) q(1) show ?thesis
  proof (cases rule: c_insert_cases)
    case (ok i)
    then show ?thesis using vc_held_insert [OF ok(6,2)] K inv by auto
  next
    case (applied e i)
    then show ?thesis using vc_held_insert [OF applied(6,3)] K inv q(2) by auto
  qed (use same inv q(2) in auto)
qed (use assms in \<open>auto simp: vcPut_def pure_op_def\<close>)

lemma vcGet_eff:
  assumes "vc_inv prepare s" "vcGet p i s = (g, s')"
  shows "vc_inv prepare s' \<and> vc_held s' = vc_held s \<and> (\<forall>b. g = Ok b \<longrightarrow> (p, i, b) \<in> vc_held s)"
proof -
  have ok: "coll_ok no_clash s" using assms(1) by (simp add: vc_inv_def)
  obtain q where q: "c_find (\<lambda>_ m. fget m vcIDField = JStr i \<and> fget m profileNameField = JStr p) s = (q, s')"
    "g = bindR (wrapR ''failed to query MongoDB: '' q) (\<lambda>(_, m). Ok (vc_bytes_of m))"
    using assms(2)
    by (cases "c_find (\<lambda>_ m. fget m vcIDField = JStr i \<and> fget m profileNameField = JStr p) s";
        cases "fst (c_find (\<lambda>_ m. fget m vcIDField = JStr i \<and> fget m profileNameField = JStr p) s)")
      (auto simp: vcGet_def)
  have inv: "vc_inv prepare s'" using coll_ok_after(2) [OF q(1)] assms(1) by (simp add: vc_inv_def)
  from ok q(1) show ?thesis
    by (cases rule: c_find_cases) (use inv q(2) in \<open>auto simp: vc_held_def\<close>)
qed

interpretation vcr: vc_repository "vcPut prepare" vcGet "vc_key prepare" "vc_inv prepare" vc_held for prepare
  by unfold_locales (rule vcPut_eff, assumption+, rule vcGet_eff, assumption+)

end
