(* ===== verification/Issue_Credential.thy ===== *)
theory Issue_Credential
  imports Status_Allocation Vc_Store Profile_Model "HOL-Library.Sublist"
begin

text \<open>
  \<open>pkg/service/issuecredential/issuecredential_service.go\<close>: issuing a credential. The service's collaborators
  are the fields of \<open>issue_service\<close>, operations on a state \<open>'w\<close>; \<open>now\<close> and \<open>uuid\<close> are the clock reading and the
  fresh id that the status manager draws. The credential is a value: the Go code changes it in place and
  no caller looks at it afterwards.
\<close>

record ('k, 'w) issue_service =
  se_keyManager :: "kms_config option \<Rightarrow> 'k key_manager res"
  se_statusURL :: "string \<Rightarrow> string \<Rightarrow> string \<Rightarrow> string res"
  se_createStatusID :: "'k vc_signer \<Rightarrow> string \<Rightarrow> int \<Rightarrow> string \<Rightarrow> 'w \<Rightarrow> typed_id res \<times> 'w"
  se_sign :: "'k vc_signer \<Rightarrow> credential \<Rightarrow> signing_opt list \<Rightarrow> credential res"
  se_put :: "string \<Rightarrow> credential \<Rightarrow> 'w \<Rightarrow> unit res \<times> 'w"

text \<open>The signer of a profile; a profile without a signing DID or a VC configuration panics here.\<close>

definition profile_signer :: "issuer \<Rightarrow> 'k key_manager \<Rightarrow> 'k vc_signer res" where
  "profile_signer profile km =
     bindR (deref (pi_SigningDID profile)) (\<lambda>sd.
     bindR (deref (pi_VCConfig profile)) (\<lambda>vcf.
     Ok \<lparr>sg_DID = sd_DID sd, sg_Creator = sd_Creator sd, sg_SignatureType = vcf_SigningAlgorithm vcf,
          sg_KeyType = vcf_KeyType vcf, sg_Format = vcf_Format vcf, sg_Repr = vcf_Repr vcf, sg_KMS = km\<rparr>))"

definition prepared :: "issuer \<Rightarrow> 'k vc_signer \<Rightarrow> typed_id \<Rightarrow> credential \<Rightarrow> credential" where
  "prepared profile signer status vc =
     (let vc1 = vc\<lparr>cr_Context := cr_Context vc @ [statusListContext], cr_Status := Some status\<rparr>;
          vc2 = updateSignatureTypeContext (sg_SignatureType signer) vc1
      in updateIssuer (sg_DID signer) (pi_Name profile) True vc2)"

definition issueCredential ::
  "('k, 'w) issue_service \<Rightarrow> credential \<Rightarrow> signing_opt list \<Rightarrow> issuer \<Rightarrow> int \<Rightarrow> string \<Rightarrow> 'w \<Rightarrow> credential res \<times> 'w" where
  "issueCredential sv vc os profile now uuid w =
     andthen (wrapS ''failed to get kms: '' (pure_op (se_keyManager sv (pi_KMSConfig profile)) w)) (\<lambda>km w.
     andthen (pure_op (profile_signer profile km) w) (\<lambda>signer w.
     andthen (wrapS ''failed to create status URL: '' (pure_op (se_statusURL sv (pi_URL profile) (pi_ID profile) []) w)) (\<lambda>url w.
     andthen (wrapS ''failed to add credential status: '' (se_createStatusID sv signer url now uuid w)) (\<lambda>status w.
     andthen (wrapS ''failed to sign credential: '' (pure_op (se_sign sv signer (prepared profile signer status vc) os) w)) (\<lambda>signedVC w.
     andthen (wrapS ''failed to store credential: '' (se_put sv (pi_Name profile) signedVC w)) (\<lambda>_ w.
     (Ok signedVC, w)))))))"

lemma issueCredential_Ok:
  assumes "issueCredential sv vc os profile now uuid w = (Ok signedVC, w')"
  obtains km signer url status w1 where "se_keyManager sv (pi_KMSConfig profile) = Ok km" "profile_signer profile km = Ok signer"
    "se_statusURL sv (pi_URL profile) (pi_ID profile) [] = Ok url"
    "se_createStatusID sv signer url now uuid w = (Ok status, w1)"
    "se_sign sv signer (prepared profile signer status vc) os = Ok signedVC" "se_put sv (pi_Name profile) signedVC w1 = (Ok (), w')"
  using assms unfolding issueCredential_def
  by (auto simp: andthen_eq_Ok)

lemma prepared_status [simp]: "cr_Status (prepared profile signer status vc) = Some status"
  by (simp add: prepared_def updateSignatureTypeContext_def updateIssuer_def Let_def)

lemma prepared_issuer [simp]: "cr_Issuer (prepared profile signer status vc) = \<lparr>is_ID = sg_DID signer, is_Custom = [(''name'', JStr (pi_Name profile))]\<rparr>"
  by (simp add: prepared_def updateSignatureTypeContext_def updateIssuer_def Let_def)

subsection \<open>Over the status service and the credential store\<close>

text \<open>The state is the status list store and the credential store.\<close>

definition issueOver ::
  "('k, 's) csl_service \<Rightarrow> (string \<Rightarrow> credential \<Rightarrow> 'v \<Rightarrow> unit res \<times> 'v) \<Rightarrow> (kms_config option \<Rightarrow> 'k key_manager res)
   \<Rightarrow> (string \<Rightarrow> string list \<Rightarrow> string res) \<Rightarrow> ('k, 's \<times> 'v) issue_service" where
  "issueOver csl put km join_path = \<lparr>se_keyManager = km, se_statusURL = getCredentialStatusURL join_path,
     se_createStatusID = (\<lambda>signer url now uuid. lift_op fst (\<lambda>s w. (s, snd w)) (createStatusID csl signer url now uuid)),
     se_sign = sv_sign csl, se_put = (\<lambda>p vc. lift_op snd (\<lambda>v w. (fst w, v)) (put p vc))\<rparr>"

record issue_request =
  rq_Credential :: credential
  rq_Opts :: "signing_opt list"
  rq_Profile :: issuer
  rq_Now :: int
  rq_UUID :: string

fun issue_all :: "('k, 'w) issue_service \<Rightarrow> issue_request list \<Rightarrow> 'w \<Rightarrow> (string \<times> credential) list \<times> 'w" where
  "issue_all sv [] w = ([], w)"
| "issue_all sv (q # qs) w =
     (let (r, w1) = issueCredential sv (rq_Credential q) (rq_Opts q) (rq_Profile q) (rq_Now q) (rq_UUID q) w;
          (cs, w2) = issue_all sv qs w1
      in ((case r of Ok c \<Rightarrow> [(pi_Name (rq_Profile q), c)] | _ \<Rightarrow> []) @ cs, w2))"

definition status_entry :: "credential \<Rightarrow> (json \<times> json) option" where
  "status_entry c = map_option entry_of (cr_Status c)"

text \<open>What is assumed of the signer: it keeps the status of the credential.\<close>

definition keeps_status :: "('k, 's) csl_service \<Rightarrow> bool" where
  "keeps_status csl \<longleftrightarrow> (\<forall>signer vc os vc'. sv_sign csl signer vc os = Ok vc' \<longrightarrow> cr_Status vc' = cr_Status vc)"

lemma csl_run_append: "csl_run sv (xs @ ys) s = (let (es, s1) = csl_run sv xs s; (fs, s2) = csl_run sv ys s1 in (es @ fs, s2))"
  by (induction xs arbitrary: s) (auto simp: Let_def split: prod.splits)

text \<open>Seen from the status list store, an issuance is at most one allocation.\<close>

lemma issueCredential_csl:
  assumes "issueCredential (issueOver csl put km jp) vc os profile now uuid (s, v) = (r, (s', v'))" "keeps_status csl"
  shows "\<exists>ops es. length ops \<le> 1 \<and> csl_run csl ops s = (es, s') \<and> (\<forall>c. r = Ok c \<longrightarrow> (\<exists>e. es = [e] \<and> status_entry c = Some e))"
proof (cases "\<exists>k signer url. km (pi_KMSConfig profile) = Ok k \<and> profile_signer profile k = Ok signer
    \<and> getCredentialStatusURL jp (pi_URL profile) (pi_ID profile) [] = Ok url")
  case False
  then have "s' = s \<and> \<not> is_ok r"
    using assms(1) unfolding issueCredential_def
    by (cases "getCredentialStatusURL jp (pi_URL profile) (pi_ID profile) []")
      (auto simp: issueOver_def pure_op_def wrapS_def elim!: andthen_cases)
  then show ?thesis by (intro exI [of _ "[]"]) auto
next
  case True
  then obtain k signer url where p: "km (pi_KMSConfig profile) = Ok k" "profile_signer profile k = Ok signer"
    "getCredentialStatusURL jp (pi_URL profile) (pi_ID profile) [] = Ok url" by blast
  obtain q s1 where q: "createStatusID csl signer url now uuid s = (q, s1)" by fastforce
  have rest: "s' = s1 \<and> (\<forall>c. r = Ok c \<longrightarrow> (\<exists>t. q = Ok t \<and> sv_sign csl signer (prepared profile signer t vc) os = Ok c))"
    using assms(1) p q unfolding issueCredential_def
    by (cases q) (auto simp: issueOver_def pure_op_def lift_op_def wrapS_def elim!: andthen_cases)
  have "csl_run csl [CreateOp signer url now uuid] s = (case q of Ok t \<Rightarrow> [entry_of t] | _ \<Rightarrow> [], s1)"
    using q by (cases q) auto
  moreover have "status_entry c = Some (entry_of t)" if "q = Ok t" "sv_sign csl signer (prepared profile signer t vc) os = Ok c" for c t
    using that assms(2) by (auto simp: keeps_status_def status_entry_def)
  ultimately show ?thesis
    using rest by (intro exI [of _ "[CreateOp signer url now uuid]"]) auto
qed

lemma subseq_distinct: "subseq xs ys \<Longrightarrow> distinct ys \<Longrightarrow> distinct xs \<and> set xs \<subseteq> set ys"
  by (induction rule: list_emb.induct) auto

lemma issue_all_csl:
  assumes "issue_all (issueOver csl put km jp) qs (s, v) = (cs, (s', v'))" "keeps_status csl"
  shows "\<exists>ops es. length ops \<le> length qs \<and> csl_run csl ops s = (es, s') \<and> subseq (map (status_entry \<circ> snd) cs) (map Some es)"
  using assms(1)
proof (induction qs arbitrary: s v cs)
  case (Cons q qs)
  obtain r s1 v1 where a: "issueCredential (issueOver csl put km jp) (rq_Credential q) (rq_Opts q) (rq_Profile q) (rq_Now q) (rq_UUID q) (s, v)
      = (r, (s1, v1))" by (metis prod.collapse)
  obtain cs1 where b: "issue_all (issueOver csl put km jp) qs (s1, v1) = (cs1, (s', v'))"
    "cs = (case r of Ok c \<Rightarrow> [(pi_Name (rq_Profile q), c)] | _ \<Rightarrow> []) @ cs1"
    using Cons.prems a by (auto simp: Let_def split: prod.splits)
  obtain ops1 es1 where A: "length ops1 \<le> 1" "csl_run csl ops1 s = (es1, s1)" "\<forall>c. r = Ok c \<longrightarrow> (\<exists>e. es1 = [e] \<and> status_entry c = Some e)"
    using issueCredential_csl [OF a assms(2)] by (elim exE conjE) (rule that)
  obtain ops2 es2 where B: "length ops2 \<le> length qs" "csl_run csl ops2 s1 = (es2, s')" "subseq (map (status_entry \<circ> snd) cs1) (map Some es2)"
    using Cons.IH [OF b(1)] by blast
  have "subseq (map (status_entry \<circ> snd) (case r of Ok c \<Rightarrow> [(pi_Name (rq_Profile q), c)] | _ \<Rightarrow> [])) (map Some es1)"
    using A(3) by (cases r) auto
  then have "subseq (map (status_entry \<circ> snd) cs) (map Some (es1 @ es2))"
    using B(3) b(2) by (auto intro: list_emb_append_mono)
  moreover have "csl_run csl (ops1 @ ops2) s = (es1 @ es2, s')" using A(2) B(2) by (simp add: csl_run_append)
  ultimately show ?case using A(1) B(1) by (intro exI [of _ "ops1 @ ops2"] exI [of _ "es1 @ es2"]) (simp add: o_def)
qed simp

text \<open>Seen from the credential store, an issuance adds at most the credential it returns.\<close>

lemma issueCredential_held:
  assumes "issueCredential (issueOver csl (vcPut prepare) km jp) vc os profile now uuid (s, v) = (r, (s', v'))" "vc_inv prepare v"
  shows "vc_inv prepare v' \<and> vc_held v \<subseteq> vc_held v'
    \<and> (\<forall>c. r = Ok c \<longrightarrow> (\<exists>i b. vc_key prepare c = Ok (i, b) \<and> (pi_Name profile, i, b) \<in> vc_held v'))"
proof -
  have put: "vc_inv prepare (snd (vcPut prepare p c v)) \<and> vc_held v \<subseteq> vc_held (snd (vcPut prepare p c v))
      \<and> (fst (vcPut prepare p c v) = Ok () \<longrightarrow> (\<exists>i b. vc_key prepare c = Ok (i, b) \<and> (p, i, b) \<in> vc_held (snd (vcPut prepare p c v))))" for p c
    using vcr.put_eff [OF assms(2), of p c "fst (vcPut prepare p c v)" "snd (vcPut prepare p c v)"] by auto
  have "v' = v \<and> \<not> is_ok r \<or> (\<exists>c. v' = snd (vcPut prepare (pi_Name profile) c v) \<and> (r = Ok c \<and> fst (vcPut prepare (pi_Name profile) c v) = Ok () \<or> \<not> is_ok r))"
    using assms(1) unfolding issueCredential_def
    by (auto simp: issueOver_def pure_op_def lift_op_def wrapS_def elim!: andthen_cases)
  then show ?thesis using put assms(2) by auto
qed

lemma issue_all_held:
  assumes "issue_all (issueOver csl (vcPut prepare) km jp) qs (s, v) = (cs, (s', v'))" "vc_inv prepare v"
  shows "vc_held v \<subseteq> vc_held v' \<and> (\<forall>(p, c) \<in> set cs. \<exists>i b. vc_key prepare c = Ok (i, b) \<and> (p, i, b) \<in> vc_held v')"
  using assms
proof (induction qs arbitrary: s v cs)
  case (Cons q qs)
  obtain r s1 v1 where a: "issueCredential (issueOver csl (vcPut prepare) km jp) (rq_Credential q) (rq_Opts q) (rq_Profile q) (rq_Now q) (rq_UUID q) (s, v)
      = (r, (s1, v1))" by (metis prod.collapse)
  obtain cs1 where b: "issue_all (issueOver csl (vcPut prepare) km jp) qs (s1, v1) = (cs1, (s', v'))"
    "cs = (case r of Ok c \<Rightarrow> [(pi_Name (rq_Profile q), c)] | _ \<Rightarrow> []) @ cs1"
    using Cons.prems(1) a by (auto simp: Let_def split: prod.splits)
  note A = issueCredential_held [OF a Cons.prems(2)]
  then have B: "vc_held v1 \<subseteq> vc_held v' \<and> (\<forall>(p, c) \<in> set cs1. \<exists>i b. vc_key prepare c = Ok (i, b) \<and> (p, i, b) \<in> vc_held v')"
    using Cons.IH [OF b(1)] by blast
  show ?case using A B b(2) by (cases r) fastforce+
qed simp

subsection \<open>Property\<close>


definition demo_request :: issue_request where
  "demo_request = \<lparr>rq_Credential = empty_credential\<lparr>cr_ID := ''vc1'', cr_JWT := ''j''\<rparr>, rq_Opts = [],
     rq_Profile = \<lparr>pi_ID = ''i1'', pi_Name = ''bank'', pi_URL = ''u'', pi_Active = True, pi_OIDCConfig = None, pi_OrganizationID = ''org'',
       pi_VCConfig = Some \<lparr>vcf_Format = Jwt, vcf_SigningAlgorithm = ''ES256'', vcf_KeyType = ECDSAP256TypeDER, vcf_DIDMethod = [],
         vcf_Repr = SignatureJWS, vcf_Status = JNull, vcf_Context = []\<rparr>, pi_KMSConfig = None,
       pi_SigningDID = Some \<lparr>sd_DID = ''did:a'', sd_Creator = ''did:a#k'', sd_UpdateKeyURL = [], sd_RecoveryKeyURL = []\<rparr>,
       pi_CredentialTemplates = []\<rparr>, rq_Now = 0, rq_UUID = ''urn:uuid:1''\<rparr>"

definition demo_issuing :: "(string, (csl_doc mem, csl_doc) coll \<times> (fields mem, fields) coll) issue_service" where
  "demo_issuing = issueOver (demo_service 2) (vcPut (\<lambda>_. Err (ErrExt ''json''))) (\<lambda>_. Ok (sg_KMS demo_signer)) (\<lambda>u segs. Ok u)"

lemma demo_allocated:
  "\<exists>t1 s1 t2 s2. createStatusID (demo_service 2) demo_signer ''u'' 0 ''urn:uuid:1'' (mem_coll no_clash [] []) = (Ok t1, s1)
     \<and> createStatusID (demo_service 2) demo_signer ''u'' 0 ''urn:uuid:1'' s1 = (Ok t2, s2)"
  using demo_allocation by (auto simp: Let_def ce_def split: prod.splits res.splits)

lemma demo_put:
  assumes "cr_ID c = ''vc1''" "cr_JWT c = ''j''"
  shows "\<exists>v1 v2. vcPut prep ''bank'' c (mem_coll no_clash [] []) = (Ok (), v1)
     \<and> (\<forall>d. cr_ID d = ''vc1'' \<longrightarrow> cr_JWT d = ''j'' \<longrightarrow> vcPut prep ''bank'' d v1 = (Ok (), v2))"
  using assms by (simp add: vcPut_def vc_document_def pure_op_def mem_eval fput_def vcIDField_def jwtField_def profileNameField_def
      idField_def no_clash_def) blast

lemma demo_signer_of: "profile_signer (rq_Profile demo_request) (sg_KMS demo_signer) = Ok demo_signer"
  by (simp add: profile_signer_def demo_request_def demo_signer_def)

lemma demo_step:
  assumes "createStatusID (demo_service 2) demo_signer ''u'' 0 ''urn:uuid:1'' s = (Ok t, s1)"
    and "vcPut (\<lambda>_. Err (ErrExt ''json'')) ''bank'' (prepared (rq_Profile demo_request) demo_signer t (rq_Credential demo_request)) v = (Ok (), v1)"
  shows "issueCredential demo_issuing (rq_Credential demo_request) (rq_Opts demo_request) (rq_Profile demo_request) (rq_Now demo_request)
     (rq_UUID demo_request) (s, v) = (Ok (prepared (rq_Profile demo_request) demo_signer t (rq_Credential demo_request)), (s1, v1))"
proof -
  have f: "pi_Name (rq_Profile demo_request) = ''bank''" "pi_URL (rq_Profile demo_request) = ''u''" "rq_Now demo_request = 0"
    "rq_UUID demo_request = ''urn:uuid:1''" by (simp_all add: demo_request_def)
  show ?thesis
    using assms demo_signer_of
    by (simp add: issueCredential_def demo_issuing_def issueOver_def getCredentialStatusURL_def lift_op_def pure_op_def f)
qed

lemma prepared_id [simp]: "cr_ID (prepared p sg t c) = cr_ID c" "cr_JWT (prepared p sg t c) = cr_JWT c"
  by (simp_all add: prepared_def updateSignatureTypeContext_def updateIssuer_def Let_def)

lemma demo_issued:
  "\<exists>c1 c2 w. issue_all demo_issuing [demo_request, demo_request] (mem_coll no_clash [] [], mem_coll no_clash [] []) = ([(''bank'', c1), (''bank'', c2)], w)"
proof -
  obtain t1 s1 t2 s2 where t: "createStatusID (demo_service 2) demo_signer ''u'' 0 ''urn:uuid:1'' (mem_coll no_clash [] []) = (Ok t1, s1)"
    "createStatusID (demo_service 2) demo_signer ''u'' 0 ''urn:uuid:1'' s1 = (Ok t2, s2)" using demo_allocated by blast
  let ?c = "\<lambda>t. prepared (rq_Profile demo_request) demo_signer t (rq_Credential demo_request)"
  have c: "cr_ID (?c t) = ''vc1'' \<and> cr_JWT (?c t) = ''j''" for t by (simp add: demo_request_def)
  obtain v1 v2 where v: "vcPut (\<lambda>_. Err (ErrExt ''json'')) ''bank'' (?c t1) (mem_coll no_clash [] []) = (Ok (), v1)"
    "vcPut (\<lambda>_. Err (ErrExt ''json'')) ''bank'' (?c t2) v1 = (Ok (), v2)"
    using demo_put [of "?c t1"] c by blast
  have "pi_Name (rq_Profile demo_request) = ''bank''" by (simp add: demo_request_def)
  then show ?thesis using demo_step [OF t(1) v(1)] demo_step [OF t(2) v(2)] by simp
qed


end
