(* ===== verification/Go_Url.thy ===== *)
theory Go_Url
  imports Go_Strings
begin

text \<open>
  The part of \<open>net/url\<close> that the source uses to build query strings: \<open>QueryEscape\<close> and \<open>Values.Encode\<close>
  for single-valued keys. A string is its list of bytes. \<open>query_unescape\<close> is the reader's side, used
  to state what the receiver of a link sees.
\<close>

definition hex_digit :: "nat \<Rightarrow> char" where
  "hex_digit n = (if n < 10 then char_of (48 + n) else char_of (55 + n))"

definition hex_val :: "char \<Rightarrow> nat" where
  "hex_val c = (let n = of_char c :: nat in if n \<le> 57 then n - 48 else n - 55)"

definition unreserved :: "char \<Rightarrow> bool" where
  "unreserved c \<longleftrightarrow> (let n = of_char c :: nat in
     48 \<le> n \<and> n \<le> 57 \<or> 65 \<le> n \<and> n \<le> 90 \<or> 97 \<le> n \<and> n \<le> 122 \<or> n = 45 \<or> n = 95 \<or> n = 46 \<or> n = 126)"

definition escape_char :: "char \<Rightarrow> string" where
  "escape_char c = (if unreserved c then [c] else if c = CHR '' '' then ''+''
     else [CHR ''%'', hex_digit (of_char c div 16), hex_digit (of_char c mod 16)])"

definition query_escape :: "string \<Rightarrow> string" where
  "query_escape s = concat (map escape_char s)"

text \<open>\<open>Values.Encode\<close> of the pairs in the order of their keys.\<close>

definition encode_values :: "(string \<times> string) list \<Rightarrow> string" where
  "encode_values kvs = join_with ''&'' (map (\<lambda>(k, v). query_escape k @ ''='' @ query_escape v) kvs)"

fun query_unescape :: "string \<Rightarrow> string" where
  "query_unescape [] = []"
| "query_unescape (c # s) =
     (if c = CHR ''%''
      then (case s of a # b # r \<Rightarrow> char_of (16 * hex_val a + hex_val b) # query_unescape r | _ \<Rightarrow> c # query_unescape s)
      else if c = CHR ''+'' then CHR '' '' # query_unescape s else c # query_unescape s)"

definition decode_values :: "string \<Rightarrow> (string \<times> string) list" where
  "decode_values q = map (\<lambda>p. case split_on CHR ''='' p of
       k # v # _ \<Rightarrow> (query_unescape k, query_unescape v) | _ \<Rightarrow> ([], [])) (split_on CHR ''&'' q)"

subsection \<open>Reading back\<close>

lemma hex_val_digit: "n < 16 \<Longrightarrow> hex_val (hex_digit n) = n"
  by (auto simp: hex_val_def hex_digit_def Let_def)

lemma unreserved_not [simp]: "\<not> unreserved CHR ''%''" "\<not> unreserved CHR ''+''" "\<not> unreserved CHR ''&''" "\<not> unreserved CHR ''=''"
  by (simp_all add: unreserved_def)

lemma char_nat_lt: "(of_char c :: nat) < 256"
  by (metis nat_of_char_less_256)

lemma unescape_char: "query_unescape (escape_char c @ s) = c # query_unescape s"
proof (cases "unreserved c \<or> c = CHR '' ''")
  case True
  then show ?thesis by (auto simp: escape_char_def)
next
  case False
  have "16 * (of_char c div 16) + of_char c mod 16 = (of_char c :: nat)" by simp
  moreover have "(of_char c :: nat) div 16 < 16" using char_nat_lt [of c] by (simp add: less_mult_imp_div_less)
  ultimately show ?thesis
    using False by (simp add: escape_char_def hex_val_digit)
qed

lemma query_unescape_escape [simp]: "query_unescape (query_escape s) = s"
  by (induction s) (simp_all add: query_escape_def unescape_char)

lemma hex_digit_no_sep: "n < 16 \<Longrightarrow> hex_digit n \<noteq> CHR ''&'' \<and> hex_digit n \<noteq> CHR ''=''"
  by (auto simp: hex_digit_def dest!: arg_cong [where f = "of_char :: char \<Rightarrow> nat"] split: if_splits)

lemma escape_no_sep: "CHR ''&'' \<notin> set (query_escape s) \<and> CHR ''='' \<notin> set (query_escape s)"
proof (induction s)
  case (Cons c s)
  have "(of_char c :: nat) div 16 < 16" "(of_char c :: nat) mod 16 < 16" using char_nat_lt [of c] by (simp_all add: less_mult_imp_div_less)
  note h = this [THEN hex_digit_no_sep]
  have "CHR ''&'' \<notin> set (escape_char c) \<and> CHR ''='' \<notin> set (escape_char c)"
    by (cases "unreserved c"; cases "c = CHR '' ''") (use h in \<open>auto simp: escape_char_def\<close>)
  then show ?case using Cons by (simp add: query_escape_def)
qed (simp add: query_escape_def)

lemma decode_encode_values: "kvs \<noteq> [] \<Longrightarrow> decode_values (encode_values kvs) = kvs"
proof -
  assume ne: "kvs \<noteq> []"
  let ?p = "\<lambda>(k, v). query_escape k @ ''='' @ query_escape v"
  have "CHR ''&'' \<notin> set (?p kv)" for kv using escape_no_sep by (cases kv) auto
  then have s: "split_on CHR ''&'' (encode_values kvs) = map ?p kvs"
    unfolding encode_values_def using ne by (intro split_join) auto
  have "split_on CHR ''='' (query_escape k @ ''='' @ query_escape v) = [query_escape k, query_escape v]" for k v
    using escape_no_sep split_on_append [of "CHR ''=''" "query_escape k" "query_escape v"] by (simp add: split_on_no_sep)
  then show ?thesis
    unfolding decode_values_def s by (induction kvs) auto
qed

end
