(* ===== verification/Issuance_Service.thy ===== *)
theory Issuance_Service
  imports Issuance_Store Go_Url
begin

text \<open>
  \<open>pkg/service/oidc4vc\<close>: the OIDC4VC issuance service (\<open>oidc4vc_service.go\<close>, \<open>_initiate_issuance.go\<close>,
  \<open>_store_auth_code.go\<close>, \<open>_exchange_code.go\<close>). The transaction store, the well-known client and the
  OAuth2 client are the fields of \<open>vc_service\<close>, operations on a state \<open>'w\<close>; \<open>clock k\<close> is the k-th reading
  of the clock. The locale \<open>issuance_service\<close> is a service over a store that meets the store's contract
  and over outside calls that leave the store alone; it is interpreted on the MongoDB store.
\<close>

definition defaultGrantType :: string where "defaultGrantType = ''authorization_code''"
definition defaultResponseType :: string where "defaultResponseType = ''token''"
definition defaultScope :: string where "defaultScope = ''openid''"

record oidc_configuration =
  oi_AuthorizationEndpoint :: string
  oi_PAREndpoint :: string
  oi_TokenEndpoint :: string
  oi_ResponseTypesSupported :: "string list"
  oi_ScopesSupported :: "string list"
  oi_GrantTypesSupported :: "string list"
  oi_InitiateIssuanceEndpoint :: string

record oauth_config =
  oa_ClientID :: string
  oa_ClientSecret :: string
  oa_AuthURL :: string
  oa_TokenURL :: string
  oa_Scopes :: "string list"

record initiate_request =
  ir_CredentialTemplateID :: string
  ir_ClientInitiateIssuanceURL :: string
  ir_ClientWellKnownURL :: string
  ir_ClaimEndpoint :: string
  ir_GrantType :: string
  ir_ResponseType :: string
  ir_Scope :: "string list"
  ir_OpState :: string

record claim_data_request =
  cd_ResponseType :: string
  cd_Scope :: "string list"
  cd_OpState :: string
  cd_AuthorizationDetails :: "auth_details option"

record oauth_parameters =
  op_ClientID :: string
  op_ClientSecret :: string
  op_ResponseType :: string
  op_Scope :: "string list"

record claim_data_response =
  cr_AuthorizationEndpoint :: string
  cr_PAREndpoint :: string
  cr_AuthorizationParameters :: oauth_parameters
  cr_TxID :: string

record 'w vc_service =
  vi_create :: "tx_data \<Rightarrow> int \<Rightarrow> int \<Rightarrow> 'w \<Rightarrow> issue_tx res \<times> 'w"
  vi_find :: "string \<Rightarrow> int \<Rightarrow> 'w \<Rightarrow> issue_tx res \<times> 'w"
  vi_update :: "issue_tx \<Rightarrow> int \<Rightarrow> 'w \<Rightarrow> unit res \<times> 'w"
  vi_wellKnown :: "string \<Rightarrow> 'w \<Rightarrow> oidc_configuration res \<times> 'w"
  vi_exchange :: "oauth_config \<Rightarrow> string \<Rightarrow> 'w \<Rightarrow> string res \<times> 'w"
  vi_host :: string

subsection \<open>Initiating an issuance\<close>

fun pick_template :: "string \<Rightarrow> credential_template list \<Rightarrow> credential_template res" where
  "pick_template tid [] = Err ErrCredentialTemplateNotFound"
| "pick_template tid (t # ts) = (if ct_ID t = tid then Ok t else pick_template tid ts)"

definition findCredentialTemplate :: "credential_template list \<Rightarrow> string \<Rightarrow> credential_template res" where
  "findCredentialTemplate ts tid =
     (if ts = [] \<or> ct_ID (hd ts) = [] then Err ErrCredentialTemplateNotConfigured
      else if length ts > 1 \<and> tid = [] then Err ErrCredentialTemplateIDRequired
      else pick_template tid ts)"

definition clientInitiateURL :: "'w vc_service \<Rightarrow> initiate_request \<Rightarrow> 'w \<Rightarrow> string res \<times> 'w" where
  "clientInitiateURL sv req w =
     (if ir_ClientInitiateIssuanceURL req \<noteq> [] then (Ok (ir_ClientInitiateIssuanceURL req), w)
      else if ir_ClientWellKnownURL req \<noteq> []
      then onErr (andthen (vi_wellKnown sv (ir_ClientWellKnownURL req) w) (\<lambda>c w. (Ok (oi_InitiateIssuanceEndpoint c), w)))
             (\<lambda>_ w. (Ok [], w))
      else (Ok [], w))"

definition buildInitiateIssuanceURL ::
  "'w vc_service \<Rightarrow> initiate_request \<Rightarrow> credential_template \<Rightarrow> string \<Rightarrow> 'w \<Rightarrow> string res \<times> 'w" where
  "buildInitiateIssuanceURL sv req template txID w =
     andthen (clientInitiateURL sv req w) (\<lambda>u w.
     (Ok ((if u = [] then ''openid-initiate-issuance://'' else u) @ ''?'' @
          encode_values [(''credential_type'', ct_Type template), (''issuer'', vi_host sv @ ''/'' @ txID),
            (''op_state'', ir_OpState req)]), w))"

definition transactionData :: "initiate_request \<Rightarrow> oidc4vc_config \<Rightarrow> vc_config \<Rightarrow> credential_template \<Rightarrow> oidc_configuration \<Rightarrow> tx_data" where
  "transactionData req oc vcf template cfg =
     \<lparr>vd_CredentialTemplate = Some template, vd_CredentialFormat = vcf_Format vcf,
      vd_AuthorizationEndpoint = oi_AuthorizationEndpoint cfg, vd_PAREndpoint = oi_PAREndpoint cfg,
      vd_TokenEndpoint = oi_TokenEndpoint cfg, vd_ClaimEndpoint = ir_ClaimEndpoint req, vd_ClientID = oc_ClientID oc,
      vd_ClientSecret = [],
      vd_GrantType = (if ir_GrantType req = [] then defaultGrantType else ir_GrantType req),
      vd_ResponseType = (if ir_ResponseType req = [] then defaultResponseType else ir_ResponseType req),
      vd_Scope = (if ir_Scope req = [] then [defaultScope] else ir_Scope req),
      vd_AuthorizationDetails = None, vd_IssuerAuthCode = [], vd_IssuerToken = [], vd_OpState = ir_OpState req\<rparr>"

definition initiateIssuance ::
  "'w vc_service \<Rightarrow> initiate_request \<Rightarrow> issuer \<Rightarrow> (nat \<Rightarrow> int) \<Rightarrow> 'w \<Rightarrow> (string \<times> string) res \<times> 'w" where
  "initiateIssuance sv req profile clock w =
     (if \<not> pi_Active profile then (Err ErrProfileNotActive, w)
      else case pi_OIDCConfig profile of
        None \<Rightarrow> (Err ErrAuthorizedCodeFlowNotSupported, w)
      | Some oc \<Rightarrow> (case pi_VCConfig profile of
          None \<Rightarrow> (Err ErrVCOptionsNotConfigured, w)
        | Some vcf \<Rightarrow>
            andthen (pure_op (findCredentialTemplate (pi_CredentialTemplates profile) (ir_CredentialTemplateID req)) w) (\<lambda>template w.
            andthen (wrapS ''get oidc configuration from well-known: '' (vi_wellKnown sv (oc_IssuerWellKnownURL oc) w)) (\<lambda>cfg w.
            andthen (wrapS ''store tx: '' (vi_create sv (transactionData req oc vcf template cfg) 0 (clock 0) w)) (\<lambda>tx w.
            andthen (buildInitiateIssuanceURL sv req template (vt_ID tx) w) (\<lambda>url w.
            (Ok (url, vt_ID tx), w)))))))"

subsection \<open>Authorization details\<close>

definition updateAuthorizationDetails :: "'w vc_service \<Rightarrow> auth_details \<Rightarrow> issue_tx \<Rightarrow> int \<Rightarrow> 'w \<Rightarrow> unit res \<times> 'w" where
  "updateAuthorizationDetails sv ad tx now w =
     (case vd_CredentialTemplate (vt_Data tx) of
        None \<Rightarrow> (Err ErrCredentialTemplateNotConfigured, w)
      | Some t \<Rightarrow>
          if \<not> equal_fold (ad_CredentialType ad) (ct_Type t) then (Err ErrCredentialTypeNotSupported, w)
          else if ad_Format ad \<noteq> vd_CredentialFormat (vt_Data tx) then (Err ErrCredentialFormatNotSupported, w)
          else wrapS ''update tx: '' (vi_update sv (tx\<lparr>vt_Data := vt_Data tx\<lparr>vd_AuthorizationDetails := Some ad\<rparr>\<rparr>) now w))"

definition pushAuthorizationDetails :: "'w vc_service \<Rightarrow> string \<Rightarrow> auth_details \<Rightarrow> (nat \<Rightarrow> int) \<Rightarrow> 'w \<Rightarrow> unit res \<times> 'w" where
  "pushAuthorizationDetails sv opState ad clock w =
     andthen (wrapS ''find tx by op state: '' (vi_find sv opState (clock 0) w)) (\<lambda>tx w.
     updateAuthorizationDetails sv ad tx (clock 1) w)"

definition scope_valid :: "string list \<Rightarrow> string list \<Rightarrow> bool" where
  "scope_valid requested granted = list_all (\<lambda>scope. list_ex (\<lambda>v. v = scope) granted) requested"

definition prepareClaimDataAuthorizationRequest ::
  "'w vc_service \<Rightarrow> claim_data_request \<Rightarrow> (nat \<Rightarrow> int) \<Rightarrow> 'w \<Rightarrow> claim_data_response res \<times> 'w" where
  "prepareClaimDataAuthorizationRequest sv req clock w =
     andthen (wrapS ''find tx by op state: '' (vi_find sv (cd_OpState req) (clock 0) w)) (\<lambda>tx w.
     if cd_ResponseType req \<noteq> vd_ResponseType (vt_Data tx) then (Err ErrResponseTypeMismatch, w)
     else if \<not> scope_valid (cd_Scope req) (vd_Scope (vt_Data tx)) then (Err ErrInvalidScope, w)
     else andthen (case cd_AuthorizationDetails req of
                     None \<Rightarrow> (Ok (), w)
                   | Some ad \<Rightarrow> updateAuthorizationDetails sv ad tx (clock 1) w) (\<lambda>_ w.
          (Ok \<lparr>cr_AuthorizationEndpoint = vd_AuthorizationEndpoint (vt_Data tx), cr_PAREndpoint = vd_PAREndpoint (vt_Data tx),
               cr_AuthorizationParameters = \<lparr>op_ClientID = vd_ClientID (vt_Data tx), op_ClientSecret = vd_ClientSecret (vt_Data tx),
                 op_ResponseType = cd_ResponseType req, op_Scope = cd_Scope req\<rparr>, cr_TxID = vt_ID tx\<rparr>, w)))"

subsection \<open>The authorization code of the issuer\<close>

text \<open>\<open>StoreAuthorizationCode\<close> returns the id also beside the error of the update; its caller drops it then.\<close>

definition storeAuthorizationCode :: "'w vc_service \<Rightarrow> string \<Rightarrow> string \<Rightarrow> (nat \<Rightarrow> int) \<Rightarrow> 'w \<Rightarrow> string res \<times> 'w" where
  "storeAuthorizationCode sv opState code clock w =
     andthen (wrapS ''get transaction by opstate: '' (vi_find sv opState (clock 0) w)) (\<lambda>tx w.
     andthen (vi_update sv (tx\<lparr>vt_Data := vt_Data tx\<lparr>vd_IssuerAuthCode := code\<rparr>\<rparr>) (clock 1) w) (\<lambda>_ w.
     (Ok (vt_ID tx), w)))"

definition oauthConfig :: "tx_data \<Rightarrow> oauth_config" where
  "oauthConfig d = \<lparr>oa_ClientID = vd_ClientID d, oa_ClientSecret = vd_ClientSecret d, oa_AuthURL = vd_AuthorizationEndpoint d,
     oa_TokenURL = vd_TokenEndpoint d, oa_Scopes = vd_Scope d\<rparr>"

definition exchangeAuthorizationCode :: "'w vc_service \<Rightarrow> string \<Rightarrow> (nat \<Rightarrow> int) \<Rightarrow> 'w \<Rightarrow> string res \<times> 'w" where
  "exchangeAuthorizationCode sv opState clock w =
     andthen (wrapS ''get transaction by opstate: '' (vi_find sv opState (clock 0) w)) (\<lambda>tx w.
     andthen (vi_exchange sv (oauthConfig (vt_Data tx)) (vd_IssuerAuthCode (vt_Data tx)) w) (\<lambda>token w.
     andthen (vi_update sv (tx\<lparr>vt_Data := vt_Data tx\<lparr>vd_IssuerToken := token\<rparr>\<rparr>) (clock 1) w) (\<lambda>_ w.
     (Ok (vt_ID tx), w))))"

subsection \<open>The service over its contracts\<close>

definition service_over ::
  "(tx_data \<Rightarrow> int \<Rightarrow> int \<Rightarrow> 'w \<Rightarrow> issue_tx res \<times> 'w) \<Rightarrow> (string \<Rightarrow> int \<Rightarrow> 'w \<Rightarrow> issue_tx res \<times> 'w)
   \<Rightarrow> (issue_tx \<Rightarrow> int \<Rightarrow> 'w \<Rightarrow> unit res \<times> 'w) \<Rightarrow> 'w vc_service \<Rightarrow> bool" where
  "service_over create findo update sv \<longleftrightarrow> vi_create sv = create \<and> vi_find sv = findo \<and> vi_update sv = update"

locale issuance_service = issuance_store create findo update purge inv view
  for create :: "tx_data \<Rightarrow> int \<Rightarrow> int \<Rightarrow> 'w \<Rightarrow> issue_tx res \<times> 'w"
    and findo :: "string \<Rightarrow> int \<Rightarrow> 'w \<Rightarrow> issue_tx res \<times> 'w"
    and update :: "issue_tx \<Rightarrow> int \<Rightarrow> 'w \<Rightarrow> unit res \<times> 'w"
    and purge :: "int \<Rightarrow> 'w \<Rightarrow> 'w" and inv :: "'w \<Rightarrow> bool" and view :: "'w \<Rightarrow> issue_map" +
  fixes sv :: "'w vc_service"
  assumes ops: "service_over create findo update sv"
    and wk_frame: "inv w \<Longrightarrow> inv (snd (vi_wellKnown sv u w)) \<and> view (snd (vi_wellKnown sv u w)) = view w"
    and exchange_frame: "inv w \<Longrightarrow> inv (snd (vi_exchange sv c code w)) \<and> view (snd (vi_exchange sv c code w)) = view w"
begin

lemma update_Ok:
  assumes "inv w" "update tx now w = (Ok (), w')" "view w (vt_ID tx) = Some (old, e)" "to_lower (vt_ID tx) = vt_ID tx"
    "vd_OpState (vt_Data tx) = vd_OpState old"
  shows "inv w' \<and> view w' = (view w)(vt_ID tx \<mapsto> (kept (vt_Data tx), now + defaultExpiration))"
  using update_spec [OF assms(1,2)] assms(3,4,5) by (auto elim!: spec_updateE simp: spec_update_def kept_def)

lemma update_details_Ok:
  assumes "inv w" "updateAuthorizationDetails sv ad tx now w = (Ok (), w')"
    "view w (vt_ID tx) = Some (vt_Data tx, e)" "to_lower (vt_ID tx) = vt_ID tx"
  shows "inv w' \<and> (\<exists>t. vd_CredentialTemplate (vt_Data tx) = Some t \<and> equal_fold (ad_CredentialType ad) (ct_Type t))
    \<and> ad_Format ad = vd_CredentialFormat (vt_Data tx)
    \<and> view w' = (view w)(vt_ID tx \<mapsto> (kept (vt_Data tx)\<lparr>vd_AuthorizationDetails := Some ad\<rparr>, now + defaultExpiration))"
proof -
  let ?tx = "tx\<lparr>vt_Data := vt_Data tx\<lparr>vd_AuthorizationDetails := Some ad\<rparr>\<rparr>"
  have u: "update ?tx now w = (Ok (), w')" and g: "\<exists>t. vd_CredentialTemplate (vt_Data tx) = Some t \<and> equal_fold (ad_CredentialType ad) (ct_Type t)"
    "ad_Format ad = vd_CredentialFormat (vt_Data tx)"
    using assms(2) ops by (auto simp: updateAuthorizationDetails_def service_over_def split: option.splits if_splits)
  show ?thesis using update_Ok [OF assms(1) u] assms(3,4) g by (auto simp: kept_def)
qed

lemma client_url_frame:
  assumes "inv w"
  shows "inv (snd (clientInitiateURL sv req w)) \<and> view (snd (clientInitiateURL sv req w)) = view w"
proof -
  obtain r w1 where "vi_wellKnown sv (ir_ClientWellKnownURL req) w = (r, w1)" by fastforce
  then show ?thesis
    using wk_frame [OF assms, of "ir_ClientWellKnownURL req"] assms by (cases r) (auto simp: clientInitiateURL_def)
qed

lemma build_url_Ok:
  assumes "inv w" "buildInitiateIssuanceURL sv req t i w = (Ok url, w')"
  shows "inv w' \<and> view w' = view w \<and> (\<exists>base. base \<noteq> [] \<and> url = base @ ''?'' @
     encode_values [(''credential_type'', ct_Type t), (''issuer'', vi_host sv @ ''/'' @ i), (''op_state'', ir_OpState req)])"
  using assms(2) client_url_frame [OF assms(1), of req] by (auto simp: buildInitiateIssuanceURL_def andthen_eq_Ok)

lemma initiate_Ok:
  assumes "inv w" "initiateIssuance sv req profile clock w = (Ok (url, i), w')"
  shows "inv w' \<and> pi_Active profile \<and> (\<exists>oc vcf t cfg. pi_OIDCConfig profile = Some oc \<and> pi_VCConfig profile = Some vcf
    \<and> findCredentialTemplate (pi_CredentialTemplates profile) (ir_CredentialTemplateID req) = Ok t
    \<and> (\<exists>wa wb. vi_wellKnown sv (oc_IssuerWellKnownURL oc) wa = (Ok cfg, wb))
    \<and> view w i = None \<and> view w' = (view w)(i \<mapsto> (transactionData req oc vcf t cfg, clock 0 + defaultExpiration))
    \<and> (\<exists>base. base \<noteq> [] \<and> url = base @ ''?'' @
         encode_values [(''credential_type'', ct_Type t), (''issuer'', vi_host sv @ ''/'' @ i), (''op_state'', ir_OpState req)]))"
proof -
  obtain oc vcf t cfg w1 tx w2 where s: "pi_Active profile" "pi_OIDCConfig profile = Some oc" "pi_VCConfig profile = Some vcf"
    "findCredentialTemplate (pi_CredentialTemplates profile) (ir_CredentialTemplateID req) = Ok t"
    "vi_wellKnown sv (oc_IssuerWellKnownURL oc) w = (Ok cfg, w1)"
    "vi_create sv (transactionData req oc vcf t cfg) 0 (clock 0) w1 = (Ok tx, w2)"
    "buildInitiateIssuanceURL sv req t (vt_ID tx) w2 = (Ok url, w')" "i = vt_ID tx"
    using assms(2) by (auto simp: initiateIssuance_def andthen_eq_Ok split: if_splits option.splits)
  have f: "inv w1" "view w1 = view w" using wk_frame [OF assms(1), of "oc_IssuerWellKnownURL oc"] s(5) by simp_all
  have c: "create (transactionData req oc vcf t cfg) 0 (clock 0) w1 = (Ok tx, w2)" using s(6) ops by (simp add: service_over_def)
  have k: "kept (transactionData req oc vcf t cfg) = transactionData req oc vcf t cfg" by (simp add: kept_def transactionData_def)
  note C = create_Ok [OF f(1) c]
  then show ?thesis using build_url_Ok [OF _ s(7)] s f(2) k by auto
qed

lemma find_tx:
  assumes "inv w" "vi_find sv os now w = (Ok tx, w')"
  shows "inv w' \<and> view w' = view w \<and> os \<noteq> [] \<and> vd_OpState (vt_Data tx) = os
    \<and> (\<exists>e. view w (vt_ID tx) = Some (vt_Data tx, e) \<and> now \<le> e)"
  using find_Ok [OF assms(1)] assms(2) ops by (simp add: service_over_def)

lemma found_kept:
  assumes "inv w" "vi_find sv os now w = (Ok tx, w')"
  shows "kept (vt_Data tx) = vt_Data tx \<and> to_lower (vt_ID tx) = vt_ID tx"
  using find_tx [OF assms] view_kept [OF assms(1)] by blast

lemma push_Ok:
  assumes "inv w" "pushAuthorizationDetails sv os ad clock w = (Ok (), w')"
  shows "inv w' \<and> (\<exists>i d e t. view w i = Some (d, e) \<and> vd_OpState d = os \<and> os \<noteq> [] \<and> clock 0 \<le> e
    \<and> vd_CredentialTemplate d = Some t \<and> equal_fold (ad_CredentialType ad) (ct_Type t) \<and> ad_Format ad = vd_CredentialFormat d
    \<and> view w' = (view w)(i \<mapsto> (d\<lparr>vd_AuthorizationDetails := Some ad\<rparr>, clock 1 + defaultExpiration)))"
proof -
  obtain tx w1 where f: "vi_find sv os (clock 0) w = (Ok tx, w1)" "updateAuthorizationDetails sv ad tx (clock 1) w1 = (Ok (), w')"
    using assms(2) by (auto simp: pushAuthorizationDetails_def)
  note F = find_tx [OF assms(1) f(1)] and K = found_kept [OF assms(1) f(1)]
  then obtain e where e: "view w1 (vt_ID tx) = Some (vt_Data tx, e)" "clock 0 \<le> e" by auto
  show ?thesis using update_details_Ok [OF _ f(2) e(1)] F K e(2) by auto
qed

lemma prepare_Ok:
  assumes "inv w" "prepareClaimDataAuthorizationRequest sv req clock w = (Ok resp, w')"
  shows "\<exists>i d e. view w i = Some (d, e) \<and> vd_OpState d = cd_OpState req \<and> cd_OpState req \<noteq> [] \<and> clock 0 \<le> e
    \<and> cd_ResponseType req = vd_ResponseType d \<and> set (cd_Scope req) \<subseteq> set (vd_Scope d)
    \<and> resp = \<lparr>cr_AuthorizationEndpoint = vd_AuthorizationEndpoint d, cr_PAREndpoint = vd_PAREndpoint d,
         cr_AuthorizationParameters = \<lparr>op_ClientID = vd_ClientID d, op_ClientSecret = vd_ClientSecret d,
            op_ResponseType = cd_ResponseType req, op_Scope = cd_Scope req\<rparr>, cr_TxID = i\<rparr>
    \<and> (case cd_AuthorizationDetails req of None \<Rightarrow> view w' = view w
       | Some ad \<Rightarrow> (\<exists>t. vd_CredentialTemplate d = Some t \<and> equal_fold (ad_CredentialType ad) (ct_Type t))
           \<and> ad_Format ad = vd_CredentialFormat d
           \<and> view w' = (view w)(i \<mapsto> (d\<lparr>vd_AuthorizationDetails := Some ad\<rparr>, clock 1 + defaultExpiration)))"
proof -
  obtain tx w1 where f: "vi_find sv (cd_OpState req) (clock 0) w = (Ok tx, w1)" "cd_ResponseType req = vd_ResponseType (vt_Data tx)"
    "scope_valid (cd_Scope req) (vd_Scope (vt_Data tx))"
    "(case cd_AuthorizationDetails req of None \<Rightarrow> (Ok (), w1) | Some ad \<Rightarrow> updateAuthorizationDetails sv ad tx (clock 1) w1) = (Ok (), w')"
    "resp = \<lparr>cr_AuthorizationEndpoint = vd_AuthorizationEndpoint (vt_Data tx), cr_PAREndpoint = vd_PAREndpoint (vt_Data tx),
       cr_AuthorizationParameters = \<lparr>op_ClientID = vd_ClientID (vt_Data tx), op_ClientSecret = vd_ClientSecret (vt_Data tx),
       op_ResponseType = cd_ResponseType req, op_Scope = cd_Scope req\<rparr>, cr_TxID = vt_ID tx\<rparr>"
    using assms(2) by (auto simp: prepareClaimDataAuthorizationRequest_def andthen_eq_Ok split: if_splits)
  note F = find_tx [OF assms(1) f(1)] and K = found_kept [OF assms(1) f(1)]
  then obtain e where e: "view w1 (vt_ID tx) = Some (vt_Data tx, e)" "clock 0 \<le> e" by auto
  have sc: "set (cd_Scope req) \<subseteq> set (vd_Scope (vt_Data tx))"
    using f(3) by (auto simp: scope_valid_def list_all_iff list_ex_iff)
  show ?thesis
  proof (cases "cd_AuthorizationDetails req")
    case None
    then show ?thesis using F f e sc by (intro exI [of _ "vt_ID tx"] exI [of _ "vt_Data tx"]) auto
  next
    case (Some ad)
    then have "updateAuthorizationDetails sv ad tx (clock 1) w1 = (Ok (), w')" using f(4) by simp
    note U = update_details_Ok [OF _ this e(1)]
    then show ?thesis using F K f e sc Some
      by (intro exI [of _ "vt_ID tx"] exI [of _ "vt_Data tx"]) auto
  qed
qed

end

subsection \<open>The service over the MongoDB store\<close>

text \<open>The state is the collection and the world outside; \<open>wk\<close> and \<open>exch\<close> are the outside calls.\<close>

abbreviation on_store :: "('s \<Rightarrow> 'a res \<times> 's) \<Rightarrow> 's \<times> 'e \<Rightarrow> 'a res \<times> 's \<times> 'e" where
  "on_store \<equiv> lift_op fst (\<lambda>s w. (s, snd w))"

abbreviation outside :: "('e \<Rightarrow> 'a res \<times> 'e) \<Rightarrow> 's \<times> 'e \<Rightarrow> 'a res \<times> 's \<times> 'e" where
  "outside \<equiv> lift_op snd (\<lambda>e w. (fst w, e))"

definition mongoService ::
  "(string \<Rightarrow> 'e \<Rightarrow> oidc_configuration res \<times> 'e) \<Rightarrow> (oauth_config \<Rightarrow> string \<Rightarrow> 'e \<Rightarrow> string res \<times> 'e) \<Rightarrow> string
   \<Rightarrow> ('c issue_coll \<times> 'e) vc_service" where
  "mongoService wk exch host = \<lparr>vi_create = (\<lambda>d ttl now. on_store (issueCreate d ttl now)),
     vi_find = (\<lambda>os now. on_store (issueFind os now)), vi_update = (\<lambda>tx now. on_store (issueUpdate tx now)),
     vi_wellKnown = (\<lambda>u. outside (wk u)), vi_exchange = (\<lambda>c code. outside (exch c code)), vi_host = host\<rparr>"

lemma lifted_run_op:
  "issue_run_op (\<lambda>d ttl now. on_store (cr d ttl now)) (\<lambda>os now. on_store (fd os now)) (\<lambda>tx now. on_store (up tx now))
      (\<lambda>now w. (pg now (fst w), snd w)) p w
    = (fst (issue_run_op cr fd up pg p (fst w)), (snd (issue_run_op cr fd up pg p (fst w)), snd w))"
  by (cases p) (auto simp: lift_op_def split: prod.splits)

interpretation iss: issuance_service "\<lambda>d ttl now. on_store (issueCreate d ttl now)" "\<lambda>os now. on_store (issueFind os now)"
    "\<lambda>tx now. on_store (issueUpdate tx now)" "\<lambda>now w. (issuePurge now (fst w), snd w)"
    "\<lambda>w. issue_inv (fst w)" "\<lambda>w. issue_view (fst w)" "mongoService wk exch host" for wk exch host
proof unfold_locales
  fix w :: "'a issue_coll \<times> 'b" and p r w'
  assume a: "issue_inv (fst w)" and st: "issue_run_op (\<lambda>d ttl now. on_store (issueCreate d ttl now)) (\<lambda>os now. on_store (issueFind os now))
    (\<lambda>tx now. on_store (issueUpdate tx now)) (\<lambda>now w. (issuePurge now (fst w), snd w)) p w = (r, w')"
  obtain r0 s0 where rs: "issue_run_op issueCreate issueFind issueUpdate issuePurge p (fst w) = (r0, s0)" by fastforce
  then show "issue_inv (fst w') \<and> spec_step (issue_view (fst w)) p r (issue_view (fst w'))"
    using isd.step_sim [OF a rs] st by (auto simp: lifted_run_op)
qed (auto simp: isd.inv_unique isd.view_kept mongoService_def service_over_def lift_op_def)

subsection \<open>Properties\<close>


text \<open>C14: Authorization details are recorded only for what the issuer offered. When \<open>PushAuthorizationDetails\<close>
  succeeds, a live transaction has that non-empty \<open>opState\<close>, the requested credential type is its template's
  type up to letter case and the format is its format; the details are stored in that transaction, the
  rest of it and every other transaction stay as they were, and its expiry is renewed.\<close>
theorem pushed_details_guarded:
  assumes "issue_inv s" "pushAuthorizationDetails (mongoService wk exch host) os ad clock (s, w) = (Ok (), (s', w'))"
  shows "\<exists>i d e t. issue_view s i = Some (d, e) \<and> vd_OpState d = os \<and> os \<noteq> [] \<and> clock 0 \<le> e
    \<and> vd_CredentialTemplate d = Some t \<and> equal_fold (ad_CredentialType ad) (ct_Type t) \<and> ad_Format ad = vd_CredentialFormat d
    \<and> issue_view s' = (issue_view s)(i \<mapsto> (d\<lparr>vd_AuthorizationDetails := Some ad\<rparr>, clock 1 + defaultExpiration))"
  using iss.push_Ok [of "(s, w)" wk exch host, OF _ assms(2)] assms(1) by simp

text \<open>C13: A claim data request is granted only within the transaction. When
  \<open>PrepareClaimDataAuthorizationRequest\<close> succeeds, a live transaction has the request's \<open>opState\<close>, the
  response type is the transaction's and the requested scopes are among the transaction's; the response
  carries that transaction's id, endpoints and client id; and the store changes only by the
  authorization details, which are checked the way pushed ones are.\<close>
theorem claim_data_request_granted:
  assumes "issue_inv s" "prepareClaimDataAuthorizationRequest (mongoService wk exch host) req clock (s, w) = (Ok resp, (s', w'))"
  shows "\<exists>i d e. issue_view s i = Some (d, e) \<and> vd_OpState d = cd_OpState req \<and> cd_OpState req \<noteq> [] \<and> clock 0 \<le> e
    \<and> cd_ResponseType req = vd_ResponseType d \<and> set (cd_Scope req) \<subseteq> set (vd_Scope d)
    \<and> cr_TxID resp = i \<and> cr_AuthorizationEndpoint resp = vd_AuthorizationEndpoint d \<and> cr_PAREndpoint resp = vd_PAREndpoint d
    \<and> op_ClientID (cr_AuthorizationParameters resp) = vd_ClientID d \<and> op_Scope (cr_AuthorizationParameters resp) = cd_Scope req
    \<and> (case cd_AuthorizationDetails req of None \<Rightarrow> issue_view s' = issue_view s
       | Some ad \<Rightarrow> (\<exists>t. vd_CredentialTemplate d = Some t \<and> equal_fold (ad_CredentialType ad) (ct_Type t))
           \<and> ad_Format ad = vd_CredentialFormat d
           \<and> issue_view s' = (issue_view s)(i \<mapsto> (d\<lparr>vd_AuthorizationDetails := Some ad\<rparr>, clock 1 + defaultExpiration)))"
proof -
  from iss.prepare_Ok [of "(s, w)" wk exch host, OF _ assms(2)] assms(1)
  obtain i d e where o: "issue_view s i = Some (d, e)" "vd_OpState d = cd_OpState req" "cd_OpState req \<noteq> []" "clock 0 \<le> e"
    "cd_ResponseType req = vd_ResponseType d" "set (cd_Scope req) \<subseteq> set (vd_Scope d)"
    "resp = \<lparr>cr_AuthorizationEndpoint = vd_AuthorizationEndpoint d, cr_PAREndpoint = vd_PAREndpoint d,
         cr_AuthorizationParameters = \<lparr>op_ClientID = vd_ClientID d, op_ClientSecret = vd_ClientSecret d,
            op_ResponseType = cd_ResponseType req, op_Scope = cd_Scope req\<rparr>, cr_TxID = i\<rparr>"
    "case cd_AuthorizationDetails req of None \<Rightarrow> issue_view s' = issue_view s
       | Some ad \<Rightarrow> (\<exists>t. vd_CredentialTemplate d = Some t \<and> equal_fold (ad_CredentialType ad) (ct_Type t))
           \<and> ad_Format ad = vd_CredentialFormat d
           \<and> issue_view s' = (issue_view s)(i \<mapsto> (d\<lparr>vd_AuthorizationDetails := Some ad\<rparr>, clock 1 + defaultExpiration))"
    unfolding fst_conv by blast
  show ?thesis
    by (rule exI [of _ i], rule exI [of _ d], rule exI [of _ e]) (use o(1-6,8) in \<open>simp add: o(7)\<close>)
qed

text \<open>C15: The authorization code of the issuer is lost. Whatever \<open>StoreAuthorizationCode\<close> stored before,
  \<open>ExchangeAuthorizationCode\<close> over the MongoDB store behaves in every state as if its OAuth2 client were
  always called with the empty code: the document has no field for the code.\<close>
theorem exchange_sends_no_code:
  fixes s :: "'c issue_coll" and w :: 'e
  assumes "issue_inv s"
  shows "exchangeAuthorizationCode (mongoService wk exch host) os clock (s, w)
    = exchangeAuthorizationCode (mongoService wk (\<lambda>c _. exch c []) host) os clock (s, w)"
proof -
  let ?f = "vi_find (mongoService wk exch host) os (clock 0) (s, w)"
  have same: "vi_find (mongoService wk (\<lambda>c _. exch c []) host) os (clock 0) (s, w) = ?f"
    "vi_update (mongoService wk (\<lambda>c _. exch c []) host) = vi_update (mongoService wk exch host)"
    by (simp_all add: mongoService_def)
  have x: "vi_exchange (mongoService wk exch host) c [] = vi_exchange (mongoService wk (\<lambda>c _. exch c []) host) c code" for c code
    by (simp add: mongoService_def)
  obtain r w1 where f: "?f = (r, w1)" by (cases ?f)
  show ?thesis
  proof (cases r)
      case (Ok tx)
      have "kept (vt_Data tx) = vt_Data tx"
        using iss.found_kept [of "(s, w)" wk exch host os "clock 0" tx w1] f Ok assms by simp
      then have "vd_IssuerAuthCode (vt_Data tx) = []" by (metis kept_def tx_data.select_convs(13) tx_data.surjective tx_data.update_convs(13,14))
      then show ?thesis using f Ok by (simp add: exchangeAuthorizationCode_def same x [of _ "[]"])
  qed (use f in \<open>simp_all add: exchangeAuthorizationCode_def same\<close>)
qed

subsection \<open>Concrete runs\<close>

definition demo_wk :: "string \<Rightarrow> unit \<Rightarrow> oidc_configuration res \<times> unit" where
  "demo_wk u e = (Ok \<lparr>oi_AuthorizationEndpoint = ''https://issuer/auth'', oi_PAREndpoint = [], oi_TokenEndpoint = ''https://issuer/token'',
     oi_ResponseTypesSupported = [], oi_ScopesSupported = [], oi_GrantTypesSupported = [], oi_InitiateIssuanceEndpoint = ''wallet://''\<rparr>, e)"

definition demo_exch :: "oauth_config \<Rightarrow> string \<Rightarrow> unit \<Rightarrow> string res \<times> unit" where
  "demo_exch c code e = (if code = [] then Err (ErrExt ''invalid_grant'') else Ok code, e)"

definition demo_issuer :: issuer where
  "demo_issuer = \<lparr>pi_ID = ''i1'', pi_Name = ''bank'', pi_URL = [], pi_Active = True,
     pi_OIDCConfig = Some \<lparr>oc_IssuerWellKnownURL = ''https://issuer'', oc_ClientID = ''c'', oc_ClientSecretHandle = []\<rparr>,
     pi_OrganizationID = ''org'', pi_VCConfig = Some \<lparr>vcf_Format = Ldp, vcf_SigningAlgorithm = [], vcf_KeyType = ED25519Type,
       vcf_DIDMethod = [], vcf_Repr = SignatureJWS, vcf_Status = JNull, vcf_Context = []\<rparr>, pi_KMSConfig = None, pi_SigningDID = None,
     pi_CredentialTemplates = [\<lparr>ct_Contexts = [], ct_ID = ''tpl'', ct_Type = ''PermanentResidentCard'', ct_Issuer = [],
       ct_CredentialSubject = JNull\<rparr>]\<rparr>"

definition demo_initiate :: initiate_request where
  "demo_initiate = \<lparr>ir_CredentialTemplateID = ''tpl'', ir_ClientInitiateIssuanceURL = [], ir_ClientWellKnownURL = ''https://wallet'',
     ir_ClaimEndpoint = [], ir_GrantType = [], ir_ResponseType = [], ir_Scope = [], ir_OpState = ''st1''\<rparr>"

definition demo_stored :: "(issue_doc mem, issue_doc) coll" where
  "demo_stored = snd (issueCreate demo_data 0 2 demo_issue_store)"

lemma demo_stored_eq: "issueCreate demo_data 0 2 demo_issue_store = (Ok \<lparr>vt_ID = ''1'', vt_Data = demo_data\<rparr>, demo_stored)"
  using demo_issue_run by (auto simp: demo_stored_def)

lemma demo_stored_inv: "issue_inv demo_stored"
  using isd.create_Ok [OF demo_issue_inv demo_stored_eq] by blast

definition demo_details :: auth_details where
  "demo_details = \<lparr>ad_Type = ''openid_credential'', ad_CredentialType = ''permanentresidentcard'', ad_Format = Ldp, ad_Locations = []\<rparr>"

lemma demo_type: "equal_fold ''permanentresidentcard'' ''PermanentResidentCard''"
  by code_simp

lemmas service_eval = mongoService_def lift_op_def demo_stored_def issue_eval issueUpdate_def set_doc_def objectIDFromHex_def pure_op_def
  demo_wk_def demo_exch_def mem_hex_def digit_val_def

lemma demo_initiated:
  "\<exists>url s'. initiateIssuance (mongoService demo_wk demo_exch ''https://vcs'') demo_initiate demo_issuer (\<lambda>k. 2) (demo_issue_store, ())
     = (Ok (url, ''1''), (s', ()))"
  by (simp add: initiateIssuance_def demo_initiate_def demo_issuer_def findCredentialTemplate_def transactionData_def
      buildInitiateIssuanceURL_def clientInitiateURL_def service_eval)

lemma lower_one: "to_lower ''1'' = ''1''"
  by code_simp

lemma demo_pushed:
  "\<exists>s'. pushAuthorizationDetails (mongoService demo_wk demo_exch ''https://vcs'') ''st1'' demo_details (\<lambda>k. 3) (demo_stored, ()) = (Ok (), (s', ()))"
  by (simp add: pushAuthorizationDetails_def updateAuthorizationDetails_def demo_details_def demo_type lower_one service_eval)

definition demo_claim_request :: claim_data_request where
  "demo_claim_request = \<lparr>cd_ResponseType = ''code'', cd_Scope = [''openid''], cd_OpState = ''st1'', cd_AuthorizationDetails = Some demo_details\<rparr>"

lemma demo_prepared:
  "\<exists>resp s'. prepareClaimDataAuthorizationRequest (mongoService demo_wk demo_exch ''https://vcs'') demo_claim_request (\<lambda>k. 3) (demo_stored, ())
     = (Ok resp, (s', ()))"
  by (simp add: prepareClaimDataAuthorizationRequest_def demo_claim_request_def scope_valid_def updateAuthorizationDetails_def
      demo_details_def demo_type lower_one service_eval)


theorem pushed_details_guarded_witness:
  "\<exists>s' d e. pushAuthorizationDetails (mongoService demo_wk demo_exch ''https://vcs'') ''st1'' demo_details (\<lambda>k. 3) (demo_stored, ()) = (Ok (), (s', ()))
     \<and> issue_view demo_stored ''1'' = Some (d, e) \<and> issue_view s' ''1'' = Some (d\<lparr>vd_AuthorizationDetails := Some demo_details\<rparr>, 3 + defaultExpiration)"
proof -
  obtain s' where p: "pushAuthorizationDetails (mongoService demo_wk demo_exch ''https://vcs'') ''st1'' demo_details (\<lambda>k. 3) (demo_stored, ()) = (Ok (), (s', ()))"
    using demo_pushed by blast
  have only1: "issue_view demo_stored i = Some x \<Longrightarrow> i = ''1''" for i x
    using isd.create_Ok [OF demo_issue_inv demo_stored_eq] by (auto simp: issue_view_def docs_mem_coll split: if_splits)
  show ?thesis using p pushed_details_guarded [OF demo_stored_inv p] only1 by fastforce
qed

theorem claim_data_request_granted_witness:
  "\<exists>resp s' d e. prepareClaimDataAuthorizationRequest (mongoService demo_wk demo_exch ''https://vcs'') demo_claim_request (\<lambda>k. 3) (demo_stored, ())
     = (Ok resp, (s', ())) \<and> issue_view demo_stored (cr_TxID resp) = Some (d, e) \<and> set [''openid''] \<subseteq> set (vd_Scope d)"
proof -
  obtain resp s' where p: "prepareClaimDataAuthorizationRequest (mongoService demo_wk demo_exch ''https://vcs'') demo_claim_request (\<lambda>k. 3)
     (demo_stored, ()) = (Ok resp, (s', ()))" using demo_prepared by blast
  show ?thesis
    using p claim_data_request_granted [OF demo_stored_inv p] by (auto simp: demo_claim_request_def)
qed

text \<open>A code is stored, and the exchange that needs it fails.\<close>

theorem exchange_sends_no_code_witness:
  "\<exists>s1 s2. storeAuthorizationCode (mongoService demo_wk demo_exch ''https://vcs'') ''st1'' ''code-1'' (\<lambda>k. 3) (demo_stored, ()) = (Ok ''1'', (s1, ()))
     \<and> issue_inv s1
     \<and> exchangeAuthorizationCode (mongoService demo_wk demo_exch ''https://vcs'') ''st1'' (\<lambda>k. 4) (s1, ()) = (Err (ErrExt ''invalid_grant''), (s2, ()))"
proof -
  let ?sv = "mongoService demo_wk demo_exch ''https://vcs''"
  obtain s1 where a: "storeAuthorizationCode ?sv ''st1'' ''code-1'' (\<lambda>k. 3) (demo_stored, ()) = (Ok ''1'', (s1, ()))"
    and f: "\<exists>tx s2. issueFind ''st1'' 4 s1 = (Ok tx, s2)"
    by (simp add: storeAuthorizationCode_def lower_one service_eval)
  have inv: "issue_inv s1"
  proof -
    obtain tx w1 where t: "vi_find ?sv ''st1'' 3 (demo_stored, ()) = (Ok tx, w1)"
      "vi_update ?sv (tx\<lparr>vt_Data := vt_Data tx\<lparr>vd_IssuerAuthCode := ''code-1''\<rparr>\<rparr>) 3 w1 = (Ok (), (s1, ()))"
      using a by (auto simp: storeAuthorizationCode_def)
    have "issue_inv (fst w1)" using iss.find_tx [OF _ t(1)] demo_stored_inv by simp
    then show ?thesis using iss.update_spec [OF _ t(2) [unfolded mongoService_def vc_service.select_convs]] by simp
  qed
  have "\<exists>s2. exchangeAuthorizationCode (mongoService demo_wk (\<lambda>c _. demo_exch c []) ''https://vcs'') ''st1'' (\<lambda>k. 4) (s1, ())
      = (Err (ErrExt ''invalid_grant''), (s2, ()))"
    using f by (auto simp: exchangeAuthorizationCode_def mongoService_def lift_op_def demo_exch_def)
  then show ?thesis
    using a inv exchange_sends_no_code [OF inv, of demo_wk demo_exch "''https://vcs''" "''st1''" "\<lambda>k. 4" "()"] by metis
qed

end
