(* ===== verification/Issuer_Controller.thy ===== *)
theory Issuer_Controller
  imports Api_Common Issue_Credential Issuance_Service
begin

text \<open>
  \<open>pkg/restapi/v1/issuer/controller.go\<close>: the issuer's REST API. The services behind it are the fields of
  \<open>issuer_ctl\<close>, operations on a state \<open>'w\<close> that draw their own clock readings and ids; the JSON-LD and JWT
  parsers, \<open>time.Parse\<close> and the marshalling of outputs are parameters. \<open>body\<close> is what echo binds the
  request body to.
\<close>

record ('k, 'w) issuer_ctl =
  ic_getProfile :: "string \<Rightarrow> issuer option res"
  ic_keyManager :: "kms_config option \<Rightarrow> 'k key_manager res"
  ic_marshal :: "json \<Rightarrow> json res"
  ic_parse :: "vc_bytes \<Rightarrow> credential res"
  ic_parseTime :: "string \<Rightarrow> int res"
  ic_marshalVC :: "credential \<Rightarrow> json res"
  ic_issue :: "credential \<Rightarrow> signing_opt list \<Rightarrow> issuer \<Rightarrow> 'w \<Rightarrow> credential res \<times> 'w"
  ic_statusURL :: "string \<Rightarrow> string \<Rightarrow> string \<Rightarrow> string res"
  ic_getRevocationListVC :: "string \<Rightarrow> 'w \<Rightarrow> credential res \<times> 'w"
  ic_updateVCStatus :: "'k vc_signer \<Rightarrow> string \<Rightarrow> string \<Rightarrow> string \<Rightarrow> 'w \<Rightarrow> unit res \<times> 'w"
  ic_initiate :: "initiate_request \<Rightarrow> issuer \<Rightarrow> 'w \<Rightarrow> (string \<times> string) res \<times> 'w"
  ic_push :: "string \<Rightarrow> auth_details \<Rightarrow> 'w \<Rightarrow> unit res \<times> 'w"
  ic_prepare :: "claim_data_request \<Rightarrow> 'w \<Rightarrow> claim_data_response res \<times> 'w"
  ic_storeCode :: "string \<Rightarrow> string \<Rightarrow> 'w \<Rightarrow> string res \<times> 'w"
  ic_exchangeCode :: "string \<Rightarrow> 'w \<Rightarrow> string res \<times> 'w"

subsection \<open>Request bodies\<close>

record issue_options =
  io_Challenge :: "string option"
  io_Created :: "string option"
  io_CredentialStatus :: "string option"
  io_Domain :: "string option"
  io_VerificationMethod :: "string option"

record issue_body =
  ib_Credential :: json
  ib_Options :: "issue_options option"

record status_body =
  sb_CredentialID :: string
  sb_Status :: string
  sb_Type :: string

record initiate_body =
  ii_ClaimEndpoint :: "string option"
  ii_ClientInitiateIssuanceUrl :: "string option"
  ii_ClientWellknown :: "string option"
  ii_CredentialTemplateId :: "string option"
  ii_GrantType :: "string option"
  ii_OpState :: "string option"
  ii_ResponseType :: "string option"
  ii_Scope :: "string list option"

record push_body =
  pb_AuthorizationDetails :: details_request
  pb_OpState :: string

record prepare_body =
  eb_AuthorizationDetails :: "details_request option"
  eb_OpState :: string
  eb_ResponseType :: string
  eb_Scope :: "string list option"

record code_body =
  kb_Code :: string
  kb_OpState :: string

subsection \<open>Profiles\<close>

definition no_profile :: "string \<Rightarrow> go_error" where
  "no_profile profileID = newValidationError DoesntExist ''profile'' (ErrMsg (''profile with given id '' @ profileID @ '', dosn't exists''))"

definition accessProfile :: "('k, 'w) issuer_ctl \<Rightarrow> string \<Rightarrow> issuer option res" where
  "accessProfile c profileID =
     mapErr (\<lambda>e. if str_contains (err_text e) ''not found'' then no_profile profileID
                 else newSystemError ''issuer.ProfileService'' ''GetProfile'' e)
       (ic_getProfile c profileID)"

text \<open>The profile pointer is dereferenced without a nil check.\<close>

definition accessOIDCProfile :: "('k, 'w) issuer_ctl \<Rightarrow> string \<Rightarrow> string \<Rightarrow> issuer res" where
  "accessOIDCProfile c profileID oidcOrgID =
     bindR (accessProfile c profileID) (\<lambda>p.
     bindR (deref p) (\<lambda>profile.
     if pi_OrganizationID profile \<noteq> oidcOrgID then Err (no_profile profileID) else Ok profile))"

definition ownProfile :: "('k, 'w) issuer_ctl \<Rightarrow> http_request \<Rightarrow> string \<Rightarrow> issuer res" where
  "ownProfile c q profileID = bindR (getOrgIDFromOIDC q) (accessOIDCProfile c profileID)"

subsection \<open>Issuing\<close>

text \<open>\<open>options.CredentialStatus\<close> is an optional member that is read without a nil check.\<close>

definition validateIssueCredOptions :: "(string \<Rightarrow> int res) \<Rightarrow> issue_options option \<Rightarrow> signing_opt list res" where
  "validateIssueCredOptions parseTime options =
     (case options of
        None \<Rightarrow> Ok []
      | Some io \<Rightarrow>
          bindR (deref (io_CredentialStatus io)) (\<lambda>typ.
          if typ \<noteq> [] \<and> typ \<noteq> StatusList2021Entry
          then Err (newValidationError InvalidValue ''options.credentialStatus'' (ErrMsg (''not supported credential status type : '' @ typ)))
          else
            let vm = (case io_VerificationMethod io of None \<Rightarrow> [] | Some v \<Rightarrow> [withVerificationMethod v])
            in bindR (case io_Created io of
                        None \<Rightarrow> Ok []
                      | Some t \<Rightarrow> mapErr (newValidationError InvalidValue ''options.created'')
                                    (bindR (parseTime t) (\<lambda>created. Ok [withCreated (Some created)]))) (\<lambda>cr.
               Ok (vm @ cr @ (case io_Challenge io of None \<Rightarrow> [] | Some v \<Rightarrow> [withChallenge v])
                   @ (case io_Domain io of None \<Rightarrow> [] | Some v \<Rightarrow> [withDomain v])))))"

definition issueCredentialReq :: "('k, 'w) issuer_ctl \<Rightarrow> http_request \<Rightarrow> issue_body \<Rightarrow> string \<Rightarrow> 'w \<Rightarrow> credential res \<times> 'w" where
  "issueCredentialReq c q body profileID w =
     andthen (pure_op (ownProfile c q profileID) w) (\<lambda>profile w.
     andthen (pure_op (deref (pi_VCConfig profile)) w) (\<lambda>vcf w.
     andthen (pure_op (mapErr (newValidationError InvalidValue ''credential'')
         (validateCredential (ic_marshal c) (ic_parse c) (ib_Credential body) [vcf_Format vcf])) w) (\<lambda>vc w.
     andthen (pure_op (validateIssueCredOptions (ic_parseTime c) (ib_Options body)) w) (\<lambda>os w.
     mapErrS (newSystemError ''IssueCredentialService'' ''IssueCredential'') (ic_issue c vc os profile w)))))"

definition postIssueCredentials ::
  "('k, 'w) issuer_ctl \<Rightarrow> issue_body res \<Rightarrow> string \<Rightarrow> http_request \<Rightarrow> 'w \<Rightarrow> response res \<times> 'w" where
  "postIssueCredentials c body profileID q w =
     andthen (pure_op (readBody body) w) (\<lambda>b w.
     andthen (issueCredentialReq c q b profileID w) (\<lambda>vc w.
     pure_op (writeOutput (ic_marshalVC c) (Ok vc)) w))"

subsection \<open>Status\<close>

definition getCredentialsStatus :: "('k, 'w) issuer_ctl \<Rightarrow> string \<Rightarrow> string \<Rightarrow> http_request \<Rightarrow> 'w \<Rightarrow> response res \<times> 'w" where
  "getCredentialsStatus c profileID statusID q w =
     andthen (pure_op (accessProfile c profileID) w) (\<lambda>p w.
     andthen (pure_op (deref p) w) (\<lambda>profile w.
     andthen (pure_op (ic_statusURL c (pi_URL profile) (pi_ID profile) statusID) w) (\<lambda>url w.
     andthen (ic_getRevocationListVC c url w) (\<lambda>vc w.
     pure_op (writeOutput (ic_marshalVC c) (Ok vc)) w))))"

definition updateCredentialStatus :: "('k, 'w) issuer_ctl \<Rightarrow> http_request \<Rightarrow> status_body \<Rightarrow> string \<Rightarrow> 'w \<Rightarrow> unit res \<times> 'w" where
  "updateCredentialStatus c q body profileID w =
     andthen (pure_op (ownProfile c q profileID) w) (\<lambda>profile w.
     andthen (wrapS ''failed to get kms: '' (pure_op (ic_keyManager c (pi_KMSConfig profile)) w)) (\<lambda>km w.
     if sb_Type body \<noteq> StatusList2021Entry
     then (Err (newValidationError InvalidValue ''CredentialStatus.Type''
             (ErrMsg (''credential status '' @ sb_Type body @ '' not supported''))), w)
     else
       andthen (pure_op (deref (pi_VCConfig profile)) w) (\<lambda>_ w.
       andthen (pure_op (profile_signer profile km) w) (\<lambda>signer w.
       mapErrS (newSystemError ''VCStatusManager'' ''UpdateVCStatus'')
         (ic_updateVCStatus c signer (pi_Name profile) (sb_CredentialID body) (sb_Status body) w)))))"

definition postCredentialsStatus ::
  "('k, 'w) issuer_ctl \<Rightarrow> status_body res \<Rightarrow> string \<Rightarrow> http_request \<Rightarrow> 'w \<Rightarrow> response res \<times> 'w" where
  "postCredentialsStatus c body profileID q w =
     andthen (pure_op (readBody body) w) (\<lambda>b w.
     andthen (updateCredentialStatus c q b profileID w) (\<lambda>_ w.
     (Ok (200, None), w)))"

subsection \<open>OIDC4VC interactions\<close>

definition initiateReq :: "initiate_body \<Rightarrow> initiate_request" where
  "initiateReq b = \<lparr>ir_CredentialTemplateID = from_ptr [] (ii_CredentialTemplateId b),
     ir_ClientInitiateIssuanceURL = from_ptr [] (ii_ClientInitiateIssuanceUrl b),
     ir_ClientWellKnownURL = from_ptr [] (ii_ClientWellknown b), ir_ClaimEndpoint = from_ptr [] (ii_ClaimEndpoint b),
     ir_GrantType = from_ptr [] (ii_GrantType b), ir_ResponseType = from_ptr [] (ii_ResponseType b),
     ir_Scope = from_ptr [] (ii_Scope b), ir_OpState = from_ptr [] (ii_OpState b)\<rparr>"

definition initiate_error :: "go_error \<Rightarrow> go_error" where
  "initiate_error e =
     (if err_is e ErrCredentialTemplateNotFound \<or> err_is e ErrCredentialTemplateIDRequired
      then newValidationError InvalidValue ''credential_template_id'' e
      else newSystemError ''OIDC4VCService'' ''InitiateIssuance'' e)"

definition initiateCredentialIssuance ::
  "('k, 'w) issuer_ctl \<Rightarrow> initiate_body res \<Rightarrow> string \<Rightarrow> http_request \<Rightarrow> 'w \<Rightarrow> response res \<times> 'w" where
  "initiateCredentialIssuance c body profileID q w =
     andthen (pure_op (ownProfile c q profileID) w) (\<lambda>profile w.
     andthen (pure_op (readBody body) w) (\<lambda>b w.
     andthen (mapErrS initiate_error (ic_initiate c (initiateReq b) profile w)) (\<lambda>(url, txID) w.
     (Ok (200, Some (JObj [(''initiate_issuance_url'', JStr url), (''tx_id'', JStr txID)])), w))))"

definition push_error :: "go_error \<Rightarrow> go_error" where
  "push_error e =
     (if err_is e ErrCredentialTypeNotSupported then newValidationError InvalidValue ''authorization_details.type'' e
      else if err_is e ErrCredentialFormatNotSupported then newValidationError InvalidValue ''authorization_details.format'' e
      else newSystemError ''OIDC4VCService'' ''PushAuthorizationRequest'' e)"

definition pushAuthorizationDetailsReq :: "('k, 'w) issuer_ctl \<Rightarrow> push_body res \<Rightarrow> http_request \<Rightarrow> 'w \<Rightarrow> response res \<times> 'w" where
  "pushAuthorizationDetailsReq c body q w =
     andthen (pure_op (readBody body) w) (\<lambda>b w.
     andthen (pure_op (validateAuthorizationDetails (Some (pb_AuthorizationDetails b))) w) (\<lambda>ad w.
     andthen (mapErrS push_error (ic_push c (pb_OpState b) ad w)) (\<lambda>_ w.
     (Ok (200, None), w))))"

definition prepare_output :: "claim_data_response \<Rightarrow> json" where
  "prepare_output r = JObj [(''authorization_endpoint'', JStr (cr_AuthorizationEndpoint r)),
     (''authorization_request'', JObj [(''client_id'', JStr (op_ClientID (cr_AuthorizationParameters r))),
        (''client_secret'', JStr (op_ClientSecret (cr_AuthorizationParameters r))),
        (''response_type'', JStr (op_ResponseType (cr_AuthorizationParameters r))),
        (''scope'', JArr (map JStr (op_Scope (cr_AuthorizationParameters r))))]),
     (''pushed_authorization_request_endpoint'', JStr (cr_PAREndpoint r)), (''tx_id'', JStr (cr_TxID r))]"

definition prepareAuthorizationRequest :: "('k, 'w) issuer_ctl \<Rightarrow> prepare_body res \<Rightarrow> http_request \<Rightarrow> 'w \<Rightarrow> response res \<times> 'w" where
  "prepareAuthorizationRequest c body q w =
     andthen (pure_op (readBody body) w) (\<lambda>b w.
     andthen (pure_op (validateAuthorizationDetails (eb_AuthorizationDetails b)) w) (\<lambda>ad w.
     andthen (mapErrS (newSystemError ''OIDC4VCService'' ''PrepareClaimDataAuthorizationRequest'')
         (ic_prepare c \<lparr>cd_ResponseType = eb_ResponseType b, cd_Scope = from_ptr [] (eb_Scope b), cd_OpState = eb_OpState b,
            cd_AuthorizationDetails = Some ad\<rparr> w)) (\<lambda>r w.
     (Ok (200, Some (prepare_output r)), w))))"

text \<open>The output of the last two is the transaction id itself, a JSON string.\<close>

definition storeAuthorizationCodeRequest :: "('k, 'w) issuer_ctl \<Rightarrow> code_body res \<Rightarrow> http_request \<Rightarrow> 'w \<Rightarrow> response res \<times> 'w" where
  "storeAuthorizationCodeRequest c body q w =
     andthen (pure_op (readBody body) w) (\<lambda>b w.
     andthen (ic_storeCode c (kb_OpState b) (kb_Code b) w) (\<lambda>txID w.
     (Ok (200, Some (JStr txID)), w)))"

definition exchangeAuthorizationCodeRequest :: "('k, 'w) issuer_ctl \<Rightarrow> string res \<Rightarrow> http_request \<Rightarrow> 'w \<Rightarrow> response res \<times> 'w" where
  "exchangeAuthorizationCodeRequest c opState q w =
     andthen (pure_op (readBody opState) w) (\<lambda>b w.
     andthen (ic_exchangeCode c b w) (\<lambda>txID w.
     (Ok (200, Some (JStr txID)), w)))"

subsection \<open>Properties\<close>

text \<open>The error of a request for a profile of another organization.\<close>

definition foreign_error :: "http_request \<Rightarrow> string \<Rightarrow> go_error" where
  "foreign_error q profileID =
     (if hq_Header q ''X-User'' = [] then newUnauthorizedError (ErrMsg ''missing authorization'') else no_profile profileID)"

lemma ownProfile_foreign:
  "ic_getProfile c pid = Ok (Some p) \<Longrightarrow> pi_OrganizationID p \<noteq> hq_Header q ''X-User'' \<Longrightarrow> ownProfile c q pid = Err (foreign_error q pid)"
  by (simp add: ownProfile_def getOrgIDFromOIDC_def accessOIDCProfile_def accessProfile_def foreign_error_def Let_def)

lemma ownProfile_Ok:
  "ownProfile c q pid = Ok p \<Longrightarrow> ic_getProfile c pid = Ok (Some p) \<and> pi_OrganizationID p = hq_Header q ''X-User'' \<and> pi_OrganizationID p \<noteq> []"
  by (auto simp: ownProfile_def getOrgIDFromOIDC_def accessOIDCProfile_def accessProfile_def Let_def split: if_splits)

lemma ownProfile_nil:
  "ic_getProfile c pid = Ok None \<Longrightarrow> hq_Header q ''X-User'' \<noteq> [] \<Longrightarrow> ownProfile c q pid = Panic NilDereference"
  by (simp add: ownProfile_def getOrgIDFromOIDC_def accessOIDCProfile_def accessProfile_def Let_def)

text \<open>An organization reaches its own issuer profiles only. For a profile of another organization the
  operations that issue credentials, change their status and initiate issuances return the same 404 error
  whatever the profile is (401 without an organization) and change nothing; and when one of them
  succeeds, the profile belongs to the organization of the request.\<close>
theorem issuer_profiles_isolated:
  "(\<forall>p. ic_getProfile c pid = Ok (Some p) \<longrightarrow> pi_OrganizationID p \<noteq> hq_Header q ''X-User'' \<longrightarrow>
      postIssueCredentials c (Ok b1) pid q w = (Err (foreign_error q pid), w)
      \<and> postCredentialsStatus c (Ok b2) pid q w = (Err (foreign_error q pid), w)
      \<and> initiateCredentialIssuance c b3 pid q w = (Err (foreign_error q pid), w)
      \<and> error_status (foreign_error q pid) \<in> {401, 404})
   \<and> (\<forall>r w'. postIssueCredentials c (Ok b1) pid q w = (Ok r, w') \<or> postCredentialsStatus c (Ok b2) pid q w = (Ok r, w')
        \<or> initiateCredentialIssuance c b3 pid q w = (Ok r, w') \<longrightarrow>
      (\<exists>p. ic_getProfile c pid = Ok (Some p) \<and> pi_OrganizationID p = hq_Header q ''X-User'' \<and> pi_OrganizationID p \<noteq> []))"
proof -
  have "postIssueCredentials c (Ok b1) pid q w = (Err (foreign_error q pid), w)
      \<and> postCredentialsStatus c (Ok b2) pid q w = (Err (foreign_error q pid), w)
      \<and> initiateCredentialIssuance c b3 pid q w = (Err (foreign_error q pid), w)
      \<and> error_status (foreign_error q pid) \<in> {401, 404}"
    if "ic_getProfile c pid = Ok (Some p)" "pi_OrganizationID p \<noteq> hq_Header q ''X-User''" for p
    using ownProfile_foreign [OF that]
    by (simp add: postIssueCredentials_def issueCredentialReq_def postCredentialsStatus_def updateCredentialStatus_def readBody_def
        initiateCredentialIssuance_def pure_op_def foreign_error_def newUnauthorizedError_def no_profile_def newValidationError_def)
  moreover have "\<exists>p. ownProfile c q pid = Ok p"
    if "postIssueCredentials c (Ok b1) pid q w = (Ok r, w') \<or> postCredentialsStatus c (Ok b2) pid q w = (Ok r, w')
        \<or> initiateCredentialIssuance c b3 pid q w = (Ok r, w')" for r w'
    using that
    by (auto simp: postIssueCredentials_def issueCredentialReq_def postCredentialsStatus_def updateCredentialStatus_def readBody_def
        initiateCredentialIssuance_def andthen_eq_Ok)
  ultimately show ?thesis using ownProfile_Ok by blast
qed

text \<open>An unknown issuer profile makes the handlers panic. With the file profile reader, whose lookup of an
  unknown id yields a nil profile and no error, the three operations dereference the nil profile for every
  request that names an organization; they never give the 404 response meant for this case, so that a
  caller can tell the profiles of other organizations from unknown ids.\<close>
theorem unknown_profile_panics:
  assumes "ic_getProfile c = getProfile profiles" "profiles pid = None" "hq_Header q ''X-User'' \<noteq> []"
  shows "postIssueCredentials c (Ok b1) pid q w = (Panic NilDereference, w)
    \<and> postCredentialsStatus c (Ok b2) pid q w = (Panic NilDereference, w)
    \<and> initiateCredentialIssuance c b3 pid q w = (Panic NilDereference, w)
    \<and> (\<forall>p. profiles other = Some p \<longrightarrow> pi_OrganizationID p \<noteq> hq_Header q ''X-User'' \<longrightarrow>
         initiateCredentialIssuance c b3 other q w = (Err (no_profile other), w))"
proof -
  have "ownProfile c q pid = Panic NilDereference" using assms by (intro ownProfile_nil) (simp_all add: getProfile_def)
  moreover have "ownProfile c q other = Err (no_profile other)" if "profiles other = Some p" "pi_OrganizationID p \<noteq> hq_Header q ''X-User''" for p
    using ownProfile_foreign [of c other p q] that assms(1,3) by (simp add: getProfile_def foreign_error_def)
  ultimately show ?thesis
    by (simp add: postIssueCredentials_def issueCredentialReq_def postCredentialsStatus_def updateCredentialStatus_def readBody_def
        initiateCredentialIssuance_def pure_op_def)
qed

text \<open>Two members that the API declares optional are read without a nil check. Issuing options without
  \<open>credentialStatus\<close> make the request for an own profile and a valid credential panic before anything is
  issued, and so does a claim data request without \<open>authorization_details\<close>; nothing changes.\<close>
theorem optional_members_panic:
  assumes "ownProfile c q pid = Ok p" "pi_VCConfig p = Some vcf"
    "validateCredential (ic_marshal c) (ic_parse c) (ib_Credential b1) [vcf_Format vcf] = Ok vc"
    "ib_Options b1 = Some io" "io_CredentialStatus io = None" "eb_AuthorizationDetails b2 = None"
  shows "postIssueCredentials c (Ok b1) pid q w = (Panic NilDereference, w)
    \<and> prepareAuthorizationRequest c (Ok b2) q w = (Panic NilDereference, w)"
  using assms by (simp add: postIssueCredentials_def issueCredentialReq_def readBody_def validateIssueCredOptions_def pure_op_def
      prepareAuthorizationRequest_def validateAuthorizationDetails_def)

subsection \<open>Concrete requests\<close>

definition demo_ctl :: "(string, nat) issuer_ctl" where
  "demo_ctl = \<lparr>ic_getProfile = getProfile [''i1'' \<mapsto> demo_issuer], ic_keyManager = (\<lambda>_. Ok (sg_KMS demo_signer)), ic_marshal = Ok,
     ic_parse = (\<lambda>_. Ok empty_credential), ic_parseTime = (\<lambda>_. Ok 0), ic_marshalVC = (\<lambda>_. Ok JNull), ic_issue = (\<lambda>vc _ _ n. (Ok vc, Suc n)),
     ic_statusURL = (\<lambda>u _ _. Ok u), ic_getRevocationListVC = (\<lambda>_ n. (Ok empty_credential, n)), ic_updateVCStatus = (\<lambda>_ _ _ _ n. (Ok (), Suc n)),
     ic_initiate = (\<lambda>_ _ n. (Ok (''url'', ''tx''), Suc n)), ic_push = (\<lambda>_ _ n. (Ok (), Suc n)),
     ic_prepare = (\<lambda>_ n. (Err (ErrExt ''down''), n)), ic_storeCode = (\<lambda>_ _ n. (Ok ''tx'', Suc n)), ic_exchangeCode = (\<lambda>_ n. (Ok ''tx'', Suc n))\<rparr>"

definition from_org :: "string \<Rightarrow> http_request" where
  "from_org org = \<lparr>hq_Method = ''POST'', hq_Path = ''/'', hq_Header = (\<lambda>h. if h = ''X-User'' then org else [])\<rparr>"

abbreviation no_initiate :: initiate_body where
  "no_initiate \<equiv> \<lparr>ii_ClaimEndpoint = None, ii_ClientInitiateIssuanceUrl = None, ii_ClientWellknown = None, ii_CredentialTemplateId = None,
     ii_GrantType = None, ii_OpState = None, ii_ResponseType = None, ii_Scope = None\<rparr>"

theorem issuer_profiles_isolated_witness:
  "initiateCredentialIssuance demo_ctl (Ok no_initiate) ''i1'' (from_org ''other'') 5 = (Err (no_profile ''i1''), 5)
   \<and> (\<exists>r. initiateCredentialIssuance demo_ctl (Ok no_initiate) ''i1'' (from_org ''org'') 5 = (Ok r, 6))
   \<and> pi_OrganizationID demo_issuer = hq_Header (from_org ''org'') ''X-User''"
proof -
  have g: "ic_getProfile demo_ctl ''i1'' = Ok (Some demo_issuer)" by (simp add: demo_ctl_def getProfile_def)
  have o: "pi_OrganizationID demo_issuer = ''org''" by (simp add: demo_issuer_def)
  have ok: "\<exists>r. initiateCredentialIssuance demo_ctl (Ok no_initiate) ''i1'' (from_org ''org'') 5 = (Ok r, 6)"
    by (simp add: initiateCredentialIssuance_def ownProfile_def getOrgIDFromOIDC_def from_org_def accessOIDCProfile_def accessProfile_def g o
        readBody_def Let_def) (simp add: demo_ctl_def)
  note T = issuer_profiles_isolated [of demo_ctl "''i1''" _ undefined _ undefined "Ok no_initiate"]
  show ?thesis
    using T [of "from_org ''other''" 5] T [of "from_org ''org''" 5] g o ok by (auto simp: from_org_def foreign_error_def)
qed

theorem unknown_profile_panics_witness:
  "initiateCredentialIssuance demo_ctl (Ok no_initiate) ''i2'' (from_org ''other'') 5 = (Panic NilDereference, 5)
   \<and> initiateCredentialIssuance demo_ctl (Ok no_initiate) ''i1'' (from_org ''other'') 5 = (Err (no_profile ''i1''), 5)"
  using unknown_profile_panics [of demo_ctl "[''i1'' \<mapsto> demo_issuer]" "''i2''" "from_org ''other''" undefined 5 undefined "Ok no_initiate" "''i1''"]
  by (simp add: demo_ctl_def from_org_def demo_issuer_def)

definition no_status :: issue_options where
  "no_status = \<lparr>io_Challenge = Some ''c'', io_Created = None, io_CredentialStatus = None, io_Domain = None, io_VerificationMethod = None\<rparr>"

theorem optional_members_panic_witness:
  "postIssueCredentials demo_ctl (Ok \<lparr>ib_Credential = JObj [], ib_Options = Some no_status\<rparr>) ''i1'' (from_org ''org'') 5
     = (Panic NilDereference, 5)
   \<and> prepareAuthorizationRequest demo_ctl (Ok \<lparr>eb_AuthorizationDetails = None, eb_OpState = ''s'', eb_ResponseType = ''code'', eb_Scope = None\<rparr>)
       (from_org ''org'') 5 = (Panic NilDereference, 5)"
proof -
  have o: "ownProfile demo_ctl (from_org ''org'') ''i1'' = Ok demo_issuer"
    by (simp add: ownProfile_def getOrgIDFromOIDC_def from_org_def accessOIDCProfile_def accessProfile_def demo_ctl_def getProfile_def
        demo_issuer_def Let_def)
  have "\<exists>vcf. pi_VCConfig demo_issuer = Some vcf \<and> vcf_Format vcf = Ldp" by (simp add: demo_issuer_def)
  then obtain vcf where c: "pi_VCConfig demo_issuer = Some vcf" and f: "vcf_Format vcf = Ldp" by blast
  let ?b = "\<lparr>ib_Credential = JObj [], ib_Options = Some no_status\<rparr>"
  have v: "validateCredential (ic_marshal demo_ctl) (ic_parse demo_ctl) (ib_Credential ?b) [vcf_Format vcf] = Ok empty_credential"
    by (simp add: validateCredential_def validateFormat_def isFormatSupported_def demo_ctl_def f)
  have s: "ib_Options ?b = Some no_status" "io_CredentialStatus no_status = None" by (simp_all add: no_status_def)
  show ?thesis by (rule optional_members_panic [OF o c v s]) simp
qed

end
