(* ===== verification/Oidc4vc_State_Store.thy ===== *)
theory Oidc4vc_State_Store
  imports Issuance_Store
begin

text \<open>
  \<open>pkg/storage/mongodb/oidc4vcstatestore\<close>: the answers of the OAuth2 provider to authorization requests,
  kept by \<open>op_state\<close> until the issuer's OIDC provider redirects back. The interface \<open>StateStore\<close> of the
  OIDC4VC controller is the locale \<open>authorize_states\<close>, interpreted on the MongoDB store. A redirect URI
  stands for its text; \<open>ttl\<close> is what the insert options set, 0 without them.
\<close>

record authorize_state =
  as_RedirectURI :: string
  as_RespondMode :: string
  as_Header :: "(string \<times> string list) list"
  as_Parameters :: "(string \<times> string list) list"

record state_doc =
  sd_ExpireAt :: int
  sd_OpState :: "string option"
  sd_State :: authorize_state

type_synonym 'c state_coll = "('c, state_doc) coll"

definition stateDefaultExpiration :: int where
  "stateDefaultExpiration = 24 * 60 * 60 * 1000000000"

definition mapStateToMongoDocument :: "string \<Rightarrow> authorize_state \<Rightarrow> int \<Rightarrow> state_doc" where
  "mapStateToMongoDocument opState st now =
     \<lparr>sd_ExpireAt = now + stateDefaultExpiration, sd_OpState = omit_empty opState, sd_State = st\<rparr>"

definition saveAuthorizeState :: "string \<Rightarrow> authorize_state \<Rightarrow> int \<Rightarrow> int \<Rightarrow> 'c state_coll \<Rightarrow> unit res \<times> 'c state_coll" where
  "saveAuthorizeState opState st ttl now s =
     (let obj0 = mapStateToMongoDocument opState st now;
          obj = (if ttl \<noteq> 0 then obj0\<lparr>sd_ExpireAt := now + ttl\<rparr> else obj0)
      in andthen (c_insert None obj s) (\<lambda>_ s. (Ok (), s)))"

definition getAuthorizeState :: "string \<Rightarrow> int \<Rightarrow> 'c state_coll \<Rightarrow> authorize_state res \<times> 'c state_coll" where
  "getAuthorizeState opState now s =
     (case c_find (\<lambda>_ m. sd_OpState m = Some opState) s of
        (Ok (_, m), s) \<Rightarrow> if sd_ExpireAt m < now then (Err oidc4vc_ErrDataNotFound, s) else (Ok (sd_State m), s)
      | (Err e, s) \<Rightarrow> if err_is e ErrNoDocuments then (Err oidc4vc_ErrDataNotFound, s) else (Err e, s)
      | (Panic p, s) \<Rightarrow> (Panic p, s))"

text \<open>The unique index on \<open>opState\<close> and the TTL index of \<open>migrate\<close>.\<close>

definition state_clash :: "state_doc clash" where
  "state_clash x y \<longleftrightarrow> sd_OpState x = sd_OpState y"

definition statePurge :: "int \<Rightarrow> 'c state_coll \<Rightarrow> 'c state_coll" where
  "statePurge now s = snd (c_delete (\<lambda>_ m. sd_ExpireAt m < now) s)"

subsection \<open>The contract\<close>

text \<open>\<open>saved s os st e\<close>: the state \<open>st\<close> is held for \<open>os\<close> until \<open>e\<close>.\<close>

locale authorize_states =
  fixes save :: "string \<Rightarrow> authorize_state \<Rightarrow> int \<Rightarrow> int \<Rightarrow> 's \<Rightarrow> unit res \<times> 's"
    and get :: "string \<Rightarrow> int \<Rightarrow> 's \<Rightarrow> authorize_state res \<times> 's"
    and purge :: "int \<Rightarrow> 's \<Rightarrow> 's"
    and inv :: "'s \<Rightarrow> bool"
    and saved :: "'s \<Rightarrow> string \<Rightarrow> authorize_state \<Rightarrow> int \<Rightarrow> bool"
  assumes save_inv: "inv s \<Longrightarrow> save os st ttl now s = (r, s') \<Longrightarrow> inv s'"
    and save_keeps: "inv s \<Longrightarrow> save os st ttl now s = (r, s') \<Longrightarrow> saved s os' st' e \<Longrightarrow> saved s' os' st' e"
    and save_new: "inv s \<Longrightarrow> save os st ttl now s = (Ok (), s') \<Longrightarrow> os \<noteq> [] \<Longrightarrow>
      saved s' os st (now + (if ttl = 0 then stateDefaultExpiration else ttl)) \<and> (\<forall>st' e. \<not> saved s os st' e)"
    and get_law: "inv s \<Longrightarrow> get os now s = (q, s') \<Longrightarrow> inv s' \<and> saved s' = saved s \<and>
      (case q of Ok st \<Rightarrow> (\<exists>e. saved s os st e \<and> now \<le> e)
       | Err er \<Rightarrow> driver_err er \<or> er = oidc4vc_ErrDataNotFound \<and> (\<forall>st e. saved s os st e \<longrightarrow> e < now)
       | Panic _ \<Rightarrow> False)"
    and one_saved: "inv s \<Longrightarrow> saved s os st e \<Longrightarrow> saved s os st' e' \<Longrightarrow> st' = st \<and> e' = e"
    and purge_law: "inv s \<Longrightarrow> inv (purge now s) \<and> (\<forall>os st e. saved s os st e \<longrightarrow> now \<le> e \<longrightarrow> saved (purge now s) os st e)"
begin

lemma get_saved:
  assumes "inv s" "saved s os st e" "now \<le> e" "get os now s = (r, s')"
  shows "r = Ok st \<or> (\<exists>er. r = Err er \<and> driver_err er)"
proof (cases r)
  case (Ok st')
  then obtain e' where "saved s os st' e'" using get_law [OF assms(1,4)] by auto
  then show ?thesis using one_saved [OF assms(1,2)] Ok by blast
next
  case (Err er)
  then show ?thesis using get_law [OF assms(1,4)] assms(2,3) by fastforce
next
  case (Panic p)
  then show ?thesis using get_law [OF assms(1,4)] by simp
qed

end

subsection \<open>The MongoDB store\<close>

definition state_inv :: "'c state_coll \<Rightarrow> bool" where
  "state_inv s \<longleftrightarrow> coll_ok state_clash s \<and>
     (\<forall>i j m n. docs s i = Some m \<longrightarrow> docs s j = Some n \<longrightarrow> sd_OpState m = sd_OpState n \<longrightarrow> i = j)"

definition state_saved :: "'c state_coll \<Rightarrow> string \<Rightarrow> authorize_state \<Rightarrow> int \<Rightarrow> bool" where
  "state_saved s os st e \<longleftrightarrow> (\<exists>i. docs s i = Some \<lparr>sd_ExpireAt = e, sd_OpState = Some os, sd_State = st\<rparr>)"

lemma state_saved_same: "docs s' = docs s \<Longrightarrow> state_saved s' = state_saved s"
  by (simp add: state_saved_def fun_eq_iff)

lemma saveAuthorizeState_eff:
  fixes s :: "'c state_coll"
  assumes "state_inv s" "saveAuthorizeState os st ttl now s = (r, s')"
  obtains (new) i where "docs s i = None" "free_for state_clash (docs s) i (mapStateToMongoDocument os st now)"
      "docs s' = (docs s)(i \<mapsto> \<lparr>sd_ExpireAt = now + (if ttl = 0 then stateDefaultExpiration else ttl), sd_OpState = omit_empty os, sd_State = st\<rparr>)"
      "coll_ok state_clash s'"
    | (same) e where "r = Err e" "docs s' = docs s" "coll_ok state_clash s'"
proof -
  define obj where "obj = (if ttl \<noteq> 0 then mapStateToMongoDocument os st now\<lparr>sd_ExpireAt := now + ttl\<rparr> else mapStateToMongoDocument os st now)"
  have o: "obj = \<lparr>sd_ExpireAt = now + (if ttl = 0 then stateDefaultExpiration else ttl), sd_OpState = omit_empty os, sd_State = st\<rparr>"
    by (simp add: obj_def mapStateToMongoDocument_def)
  have fr: "free_for state_clash m i obj = free_for state_clash m i (mapStateToMongoDocument os st now)" for m i
    by (simp add: free_for_def state_clash_def obj_def mapStateToMongoDocument_def)
  obtain q where q: "c_insert None obj s = (q, s')" "r = bindR q (\<lambda>_. Ok ())"
    using assms(2)
    by (cases "c_insert None obj s"; cases "fst (c_insert None obj s)") (auto simp: saveAuthorizeState_def Let_def obj_def [symmetric])
  have ok: "coll_ok state_clash s" using assms(1) by (simp add: state_inv_def)
  have ok': "coll_ok state_clash s'" using coll_ok_after(1) [OF q(1)] ok by simp
  from ok q(1) show thesis
    by (cases rule: c_insert_cases) (use q(2) o fr ok' new same in auto)
qed

lemma state_inv_new:
  assumes "state_inv s" "docs s i = None" "free_for state_clash (docs s) i x" "sd_OpState y = sd_OpState x"
    "docs s' = (docs s)(i \<mapsto> y)" "coll_ok state_clash s'"
  shows "state_inv s'"
proof -
  have "sd_OpState m \<noteq> sd_OpState y" if "docs s j = Some m" for j m
    using assms(2,3,4) that unfolding free_for_def state_clash_def by (metis option.distinct(1))
  then show ?thesis using assms(1,5,6) unfolding state_inv_def by (auto split: if_splits) metis
qed

lemma getAuthorizeState_eff:
  assumes "state_inv s" "getAuthorizeState os now s = (r, s')"
  shows "state_inv s' \<and> docs s' = docs s \<and>
      (case r of Ok st \<Rightarrow> (\<exists>e. state_saved s os st e \<and> now \<le> e)
       | Err er \<Rightarrow> driver_err er \<or> er = oidc4vc_ErrDataNotFound \<and> (\<forall>st e. state_saved s os st e \<longrightarrow> e < now)
       | Panic _ \<Rightarrow> False)"
proof -
  obtain q where q: "c_find (\<lambda>_ m. sd_OpState m = Some os) s = (q, s')"
    using assms(2) by (auto simp: getAuthorizeState_def split: prod.splits res.splits if_splits)
  have ok: "coll_ok state_clash s" and un: "\<And>i j m n. docs s i = Some m \<Longrightarrow> docs s j = Some n \<Longrightarrow> sd_OpState m = sd_OpState n \<Longrightarrow> i = j"
    using assms(1) unfolding state_inv_def by blast+
  have inv: "state_inv s'" if "docs s' = docs s"
    using assms(1) coll_ok_after(2) [OF q] that by (simp add: state_inv_def)
  from ok q show ?thesis
  proof (cases rule: c_find_cases)
    case (ok i m)
    then have m: "state_saved s os (sd_State m) (sd_ExpireAt m)"
      unfolding state_saved_def by (intro exI [of _ i], cases m) simp
    have one: "e = sd_ExpireAt m" if "state_saved s os st e" for st e
      using that ok(2,3) un unfolding state_saved_def by fastforce
    have r: "r = (if sd_ExpireAt m < now then Err oidc4vc_ErrDataNotFound else Ok (sd_State m))"
      using assms(2) q ok(1) by (simp add: getAuthorizeState_def split: if_splits)
    show ?thesis
    proof (cases "sd_ExpireAt m < now")
      case True
      moreover have "e < now" if "state_saved s os st e" for st e using one [OF that] True by simp
      ultimately show ?thesis unfolding r using inv ok(4) by simp
    next
      case False
      then have "now \<le> sd_ExpireAt m" by simp
      then show ?thesis unfolding r using inv ok(4) m by auto
    qed
  next
    case (none e)
    then have "\<not> state_saved s os st e" for st e by (fastforce simp: state_saved_def)
    then show ?thesis using assms(2) q none inv by (auto simp: getAuthorizeState_def)
  next
    case (failed e)
    then show ?thesis using assms(2) q inv by (auto simp: getAuthorizeState_def)
  qed
qed

interpretation ast: authorize_states saveAuthorizeState getAuthorizeState statePurge state_inv state_saved
proof unfold_locales
  fix s s' :: "'c state_coll" and os st ttl now and r :: "unit res"
  assume a: "state_inv s" "saveAuthorizeState os st ttl now s = (r, s')"
  show "state_inv s'"
    using a
  proof (cases rule: saveAuthorizeState_eff)
    case (new i)
    then show ?thesis using state_inv_new [OF a(1) new(1,2) _ new(3,4)] by (simp add: mapStateToMongoDocument_def)
  next
    case (same e)
    then show ?thesis using a(1) by (simp add: state_inv_def)
  qed
  show "state_saved s' os' st' e" if k: "state_saved s os' st' e" for os' st' e
    using a
  proof (cases rule: saveAuthorizeState_eff)
    case (new i)
    obtain j where "docs s j = Some \<lparr>sd_ExpireAt = e, sd_OpState = Some os', sd_State = st'\<rparr>"
      using k by (auto simp: state_saved_def)
    moreover have "j \<noteq> i" using calculation new(1) by auto
    ultimately show ?thesis unfolding state_saved_def new(3) by (intro exI [of _ j]) simp
  next
    case (same e)
    then show ?thesis using k by (simp add: state_saved_def)
  qed
next
  fix s s' :: "'c state_coll" and os st ttl now
  assume a: "state_inv s" "saveAuthorizeState os st ttl now s = (Ok (), s')" "os \<noteq> []"
  from a(1,2) show "state_saved s' os st (now + (if ttl = 0 then stateDefaultExpiration else ttl)) \<and> (\<forall>st' e. \<not> state_saved s os st' e)"
  proof (cases rule: saveAuthorizeState_eff)
    case (new i)
    have "\<not> state_saved s os st' e" for st' e
    proof
      assume "state_saved s os st' e"
      then obtain j where j: "docs s j = Some \<lparr>sd_ExpireAt = e, sd_OpState = Some os, sd_State = st'\<rparr>"
        by (auto simp: state_saved_def)
      then have "j \<noteq> i" using new(1) by auto
      then show False
        using new(2) j a(3) unfolding free_for_def state_clash_def by (fastforce simp: omit_empty_def mapStateToMongoDocument_def)
    qed
    then show ?thesis
      using a(3) unfolding state_saved_def new(3) by (auto simp: omit_empty_def)
  qed simp
next
  fix s s' :: "'c state_coll" and os now and r :: "authorize_state res"
  assume a: "state_inv s" "getAuthorizeState os now s = (r, s')"
  show "state_inv s' \<and> state_saved s' = state_saved s \<and>
      (case r of Ok st \<Rightarrow> (\<exists>e. state_saved s os st e \<and> now \<le> e)
       | Err er \<Rightarrow> driver_err er \<or> er = oidc4vc_ErrDataNotFound \<and> (\<forall>st e. state_saved s os st e \<longrightarrow> e < now)
       | Panic _ \<Rightarrow> False)"
    using getAuthorizeState_eff [OF a] state_saved_same [of s' s] by simp
next
  fix s :: "'c state_coll" and os st e st' e'
  assume "state_inv s" "state_saved s os st e" "state_saved s os st' e'"
  then show "st' = st \<and> e' = e" unfolding state_inv_def state_saved_def by fastforce
next
  fix s :: "'c state_coll" and now
  assume a: "state_inv s"
  obtain q s' where q: "c_delete (\<lambda>_ m. sd_ExpireAt m < now) s = (q, s')" by fastforce
  have ok: "coll_ok state_clash s" using a by (simp add: state_inv_def)
  have c: "docs s' = docs s \<or> (\<exists>i m. docs s i = Some m \<and> sd_ExpireAt m < now \<and> docs s' = (docs s)(i := None))"
    using ok q by (cases rule: c_delete_cases) blast+
  have kept: "docs s' i = Some m" if "docs s i = Some m" "now \<le> sd_ExpireAt m" for i m
    using c that by (auto split: if_splits)
  have "state_saved s' os st e" if k: "state_saved s os st e" "now \<le> e" for os st e
  proof -
    obtain j where "docs s j = Some \<lparr>sd_ExpireAt = e, sd_OpState = Some os, sd_State = st\<rparr>"
      using k(1) by (auto simp: state_saved_def)
    then show ?thesis unfolding state_saved_def using kept k(2) by (intro exI [of _ j]) simp
  qed
  moreover have "coll_ok state_clash s'" using coll_ok_after(5) [OF q] ok by simp
  then have "state_inv s'" using a c by (auto simp: state_inv_def split: if_splits)
  ultimately show "state_inv (statePurge now s) \<and> (\<forall>os st e. state_saved s os st e \<longrightarrow> now \<le> e \<longrightarrow> state_saved (statePurge now s) os st e)"
    using q by (simp add: statePurge_def)
qed

end
