(* ===== verification/Oidc4vc_Controller.thy ===== *)
theory Oidc4vc_Controller
  imports Oidc4vc_State_Store Issuer_Controller
begin

text \<open>
  \<open>pkg/restapi/v1/oidc4vc/controller.go\<close>: the public OIDC endpoints of the issuance flow. The OAuth2 provider
  (fosite), its request and response types, the OAuth2 client library and JSON decoding are parameters;
  the client of the issuer's private API is a set of operations that yield the status and the body of
  the response. A handler yields what is written to the response: \<open>oidc_reply\<close>.
\<close>

record par_request =
  pq_OpState :: string
  pq_AuthorizationDetails :: string

record authorize_params =
  ap_OpState :: string
  ap_ResponseType :: string

record redirect_params =
  rp_Code :: string
  rp_State :: string

text \<open>What \<open>NewAuthorizeResponse\<close> yields: header and parameters.\<close>

type_synonym answer = "(string \<times> string list) list \<times> (string \<times> string list) list"

datatype ('ar, 'pr, 'q, 'tr) oidc_reply =
    ParWritten 'ar 'pr
  | SeeOther string
  | AuthorizeWritten authorize_state string
  | AccessWritten 'q 'tr

record ('ar, 'pr, 'q, 'tr, 'w) oidc_ctl =
  oc_newPAR :: "http_request \<Rightarrow> 'w \<Rightarrow> 'ar res \<times> 'w"
  oc_newPARResponse :: "'ar \<Rightarrow> 'w \<Rightarrow> 'pr res \<times> 'w"
  oc_newAuthorize :: "http_request \<Rightarrow> 'w \<Rightarrow> 'ar res \<times> 'w"
  oc_newAuthorizeResponse :: "'ar \<Rightarrow> fields \<Rightarrow> 'w \<Rightarrow> answer res \<times> 'w"
  oc_newAccess :: "http_request \<Rightarrow> 'w \<Rightarrow> 'q res \<times> 'w"
  oc_newAccessResponse :: "'q \<Rightarrow> 'w \<Rightarrow> 'tr res \<times> 'w"
  oc_scopes :: "'ar \<Rightarrow> string list"
  oc_redirectURI :: "'ar \<Rightarrow> string"
  oc_responseMode :: "'ar \<Rightarrow> string"
  oc_withState :: "string \<Rightarrow> 'ar \<Rightarrow> 'ar"
  oc_sessionExtra :: "'q \<Rightarrow> fields option"
  oc_push :: "push_body \<Rightarrow> 'w \<Rightarrow> response res \<times> 'w"
  oc_prepare :: "prepare_body \<Rightarrow> 'w \<Rightarrow> response res \<times> 'w"
  oc_storeCode :: "code_body \<Rightarrow> 'w \<Rightarrow> response res \<times> 'w"
  oc_exchangeCode :: "string \<Rightarrow> 'w \<Rightarrow> response res \<times> 'w"
  oc_save :: "string \<Rightarrow> authorize_state \<Rightarrow> int \<Rightarrow> int \<Rightarrow> 'w \<Rightarrow> unit res \<times> 'w"
  oc_get :: "string \<Rightarrow> int \<Rightarrow> 'w \<Rightarrow> authorize_state res \<times> 'w"
  oc_unmarshalDetails :: "string \<Rightarrow> details_request res"
  oc_decodeClaimAuth :: "json option \<Rightarrow> claim_data_response res"
  oc_authCodeURL :: "oauth_config \<Rightarrow> string \<Rightarrow> string \<Rightarrow> string"
  oc_host :: string

definition sessionOpStateKey :: string where "sessionOpStateKey = ''opState''"

text \<open>\<open>resterr.NewFositeError\<close>; the requester it carries is only read by the provider's writer.\<close>

definition newFositeError :: "fosite_code \<Rightarrow> go_error \<Rightarrow> go_error" where
  "newFositeError code e = ErrFosite code e"

text \<open>The details sent on: the format is the internal name, or the empty string without one.\<close>

definition par_body :: "auth_details \<Rightarrow> string \<Rightarrow> push_body" where
  "par_body ad opState = \<lparr>pb_AuthorizationDetails = \<lparr>dr_CredentialType = ad_CredentialType ad, dr_Format = Some (ad_Format ad),
     dr_Locations = Some (ad_Locations ad), dr_Type = ad_Type ad\<rparr>, pb_OpState = opState\<rparr>"

definition status_error :: "string \<Rightarrow> int \<Rightarrow> go_error" where
  "status_error what code = ErrMsg (what @ '': status code '' @ format_int code)"

definition oidcPushedAuthorizationRequest ::
  "('ar, 'pr, 'q, 'tr, 'w) oidc_ctl \<Rightarrow> par_request res \<Rightarrow> http_request \<Rightarrow> 'w \<Rightarrow> ('ar, 'pr, 'q, 'tr) oidc_reply res \<times> 'w" where
  "oidcPushedAuthorizationRequest o1 body q w =
     andthen (mapErrS (newFositeError FositePARError) (oc_newPAR o1 q w)) (\<lambda>ar w.
     andthen (mapErrS (newFositeError FositePARError) (pure_op body w)) (\<lambda>par w.
     andthen (mapErrS (newValidationError InvalidValue ''authorization_details'')
        (pure_op (oc_unmarshalDetails o1 (pq_AuthorizationDetails par)) w)) (\<lambda>ad w.
     andthen (pure_op (validateAuthorizationDetails (Some ad)) w) (\<lambda>details w.
     andthen (wrapS ''push authorization details: '' (oc_push o1 (par_body details (pq_OpState par)) w)) (\<lambda>(status, _) w.
     if status \<noteq> 200 then (Err (status_error ''push authorization details'' status), w)
     else
       andthen (mapErrS (newFositeError FositePARError) (oc_newPARResponse o1 ar w)) (\<lambda>resp w.
       (Ok (ParWritten ar resp), w)))))))"

text \<open>The credential type and format asked from the issuer are constants.\<close>

definition claim_auth_body :: "authorize_params \<Rightarrow> string list \<Rightarrow> prepare_body" where
  "claim_auth_body params scope = \<lparr>eb_AuthorizationDetails = Some \<lparr>dr_CredentialType = ''PermanentResidentCard'', dr_Format = Some ''ldp_vc'',
       dr_Locations = None, dr_Type = ''openid_credential''\<rparr>, eb_OpState = ap_OpState params, eb_ResponseType = ap_ResponseType params,
     eb_Scope = Some scope\<rparr>"

definition issuer_oauth :: "claim_data_response \<Rightarrow> oauth_config" where
  "issuer_oauth ca = \<lparr>oa_ClientID = op_ClientID (cr_AuthorizationParameters ca), oa_ClientSecret = op_ClientSecret (cr_AuthorizationParameters ca),
     oa_AuthURL = cr_AuthorizationEndpoint ca, oa_TokenURL = [], oa_Scopes = op_Scope (cr_AuthorizationParameters ca)\<rparr>"

definition state_of :: "('ar, 'pr, 'q, 'tr, 'w) oidc_ctl \<Rightarrow> 'ar \<Rightarrow> answer \<Rightarrow> authorize_state" where
  "state_of o1 ar resp = \<lparr>as_RedirectURI = oc_redirectURI o1 ar, as_RespondMode = oc_responseMode o1 ar, as_Header = fst resp,
     as_Parameters = snd resp\<rparr>"

definition oidcAuthorize ::
  "('ar, 'pr, 'q, 'tr, 'w) oidc_ctl \<Rightarrow> authorize_params \<Rightarrow> http_request \<Rightarrow> int \<Rightarrow> 'w \<Rightarrow> ('ar, 'pr, 'q, 'tr) oidc_reply res \<times> 'w" where
  "oidcAuthorize o1 params q now w =
     andthen (mapErrS (newFositeError FositeAuthorizeError) (oc_newAuthorize o1 q w)) (\<lambda>ar w.
     andthen (wrapS ''prepare claim data authorization: '' (oc_prepare o1 (claim_auth_body params (oc_scopes o1 ar)) w)) (\<lambda>(status, answer) w.
     if status \<noteq> 200 then (Err (status_error ''prepare claim data authorization'' status), w)
     else
       andthen (wrapS ''decode claim data authorization response: '' (pure_op (oc_decodeClaimAuth o1 answer) w)) (\<lambda>ca w.
       let ar' = oc_withState o1 (ap_OpState params) ar
       in andthen (mapErrS (newFositeError FositeAuthorizeError)
             (oc_newAuthorizeResponse o1 ar' [(sessionOpStateKey, JStr (ap_OpState params))] w)) (\<lambda>resp w.
          andthen (wrapS ''save authorize state: '' (oc_save o1 (ap_OpState params) (state_of o1 ar' resp) 0 now w)) (\<lambda>_ w.
          (Ok (SeeOther (oc_authCodeURL o1 (issuer_oauth ca) (oc_host o1 @ ''/oidc/redirect'') (ap_OpState params))), w))))))"

text \<open>The status of the issuer's response is not looked at by the next two.\<close>

definition oidcRedirect ::
  "('ar, 'pr, 'q, 'tr, 'w) oidc_ctl \<Rightarrow> redirect_params \<Rightarrow> int \<Rightarrow> 'w \<Rightarrow> ('ar, 'pr, 'q, 'tr) oidc_reply res \<times> 'w" where
  "oidcRedirect o1 params now w =
     andthen (oc_get o1 (rp_State params) now w) (\<lambda>resp w.
     andthen (oc_storeCode o1 \<lparr>kb_Code = rp_Code params, kb_OpState = rp_State params\<rparr> w) (\<lambda>_ w.
     (Ok (AuthorizeWritten resp (rp_State params)), w)))"

definition session_state :: "fields option \<Rightarrow> string res" where
  "session_state extra = (case extra of
       None \<Rightarrow> Panic TypeAssertion
     | Some m \<Rightarrow> (case map_of m sessionOpStateKey of Some (JStr s) \<Rightarrow> Ok s | _ \<Rightarrow> Panic TypeAssertion))"

definition oidcToken ::
  "('ar, 'pr, 'q, 'tr, 'w) oidc_ctl \<Rightarrow> http_request \<Rightarrow> 'w \<Rightarrow> ('ar, 'pr, 'q, 'tr) oidc_reply res \<times> 'w" where
  "oidcToken o1 q w =
     andthen (mapErrS (newFositeError FositeAccessError) (oc_newAccess o1 q w)) (\<lambda>ar w.
     andthen (pure_op (session_state (oc_sessionExtra o1 ar)) w) (\<lambda>opState w.
     andthen (oc_exchangeCode o1 opState w) (\<lambda>_ w.
     andthen (mapErrS (newFositeError FositeAccessError) (oc_newAccessResponse o1 ar w)) (\<lambda>resp w.
     (Ok (AccessWritten ar resp), w)))))"

subsection \<open>The issuer's API behind the client\<close>

text \<open>A call of the private API: the client sees the status and the body that the server writes.\<close>

definition issuer_call :: "string \<Rightarrow> (http_request \<Rightarrow> 'w \<Rightarrow> response res \<times> 'w) \<Rightarrow> http_request \<Rightarrow> 'w \<Rightarrow> response res \<times> 'w" where
  "issuer_call apiKey h q w = (case serve apiKey h q w of
       (Response code body, w) \<Rightarrow> (Ok (code, body), w)
     | (_, w) \<Rightarrow> (Err (ErrExt ''connection closed''), w))"

text \<open>The internal format names are none of the API, and neither is the empty string.\<close>

lemma internal_format_refused:
  assumes "validateAuthorizationDetails (Some d) = Ok ad"
  shows "validateAuthorizationDetails (Some (pb_AuthorizationDetails (par_body ad opState)))
    = Err (newValidationError InvalidValue ''authorization_details.format''
        (ErrMsg (''unsupported vc format '' @ ad_Format ad @ '', use one of next ['' @ JwtVc @ '', '' @ LdpVc @ '']'')))"
proof -
  have "ad_Format ad \<in> {[], Jwt, Ldp}"
    using assms by (auto simp: validateAuthorizationDetails_def validateVCFormat_Ok split: option.splits if_splits)
  then have f: "ad_Format ad \<noteq> JwtVc" "ad_Format ad \<noteq> LdpVc" by (auto simp: format_names)
  have "ad_Type ad = ''openid_credential''"
    using assms by (auto simp: validateAuthorizationDetails_def split: option.splits if_splits)
  then show ?thesis
    using f by (simp add: validateAuthorizationDetails_def par_body_def validateVCFormat_def)
qed

lemma push_call_refused:
  assumes "validateAuthorizationDetails (Some d) = Ok ad"
  shows "\<exists>code body. code \<noteq> 200 \<and> (hq_Header q ''X-API-Key'' = apiKey \<longrightarrow> code = 400)
    \<and> issuer_call apiKey (pushAuthorizationDetailsReq c (Ok (par_body ad opState))) q w = (Ok (code, body), w)"
proof -
  have "\<exists>e. pushAuthorizationDetailsReq c (Ok (par_body ad opState)) q w = (Err (ErrCustom InvalidValue ''authorization_details.format'' [] [] e), w)"
    using internal_format_refused [OF assms, of opState]
    by (simp add: pushAuthorizationDetailsReq_def readBody_def pure_op_def newValidationError_def)
  then show ?thesis
    by (auto simp: issuer_call_def serve_def handled_def apiKeyAuth_def httpErrorHandler_def sendResponse_def)
qed

subsection \<open>Properties\<close>

text \<open>C39: A pushed authorization request is never accepted. The handler sends the issuer's API the internal name
  of the validated format ("ldp", "jwt", or "" without one), which that API does not know: for every
  request with valid authorization details the issuer answers 400 and changes nothing, and the handler
  reports "push authorization details: status code 400"; no request at all succeeds.\<close>
theorem par_always_rejected:
  assumes "oc_push o1 = (\<lambda>b. issuer_call apiKey (pushAuthorizationDetailsReq c (Ok b)) rq)"
  shows "(\<forall>r w'. oidcPushedAuthorizationRequest o1 body q w \<noteq> (Ok r, w')) \<and>
    (\<forall>ar w1 par d ad. oc_newPAR o1 q w = (Ok ar, w1) \<and> body = Ok par \<and> oc_unmarshalDetails o1 (pq_AuthorizationDetails par) = Ok d
       \<and> validateAuthorizationDetails (Some d) = Ok ad \<and> hq_Header rq ''X-API-Key'' = apiKey \<longrightarrow>
       oidcPushedAuthorizationRequest o1 body q w = (Err (status_error ''push authorization details'' 400), w1))"
proof (intro conjI allI impI)
  fix r w'
  show "oidcPushedAuthorizationRequest o1 body q w \<noteq> (Ok r, w')"
  proof
    assume "oidcPushedAuthorizationRequest o1 body q w = (Ok r, w')"
    then obtain d ad opState w1 b w2 where "validateAuthorizationDetails (Some d) = Ok ad"
      "issuer_call apiKey (pushAuthorizationDetailsReq c (Ok (par_body ad opState))) rq w1 = (Ok (200, b), w2)"
      by (auto simp: oidcPushedAuthorizationRequest_def assms andthen_eq_Ok split: prod.splits if_splits)
    then show False using push_call_refused by (metis prod.inject res.inject(1))
  qed
next
  fix ar w1 par d ad
  assume a: "oc_newPAR o1 q w = (Ok ar, w1) \<and> body = Ok par \<and> oc_unmarshalDetails o1 (pq_AuthorizationDetails par) = Ok d
    \<and> validateAuthorizationDetails (Some d) = Ok ad \<and> hq_Header rq ''X-API-Key'' = apiKey"
  then obtain b where "issuer_call apiKey (pushAuthorizationDetailsReq c (Ok (par_body ad (pq_OpState par)))) rq w1 = (Ok (400, b), w1)"
    using push_call_refused [of d ad rq apiKey c "pq_OpState par" w1] by auto
  then show "oidcPushedAuthorizationRequest o1 body q w = (Err (status_error ''push authorization details'' 400), w1)"
    using a by (simp add: oidcPushedAuthorizationRequest_def assms pure_op_def)
qed

text \<open>The store inside a state that also holds what the provider and the issuer's API keep.\<close>

record 'c auth_world =
  aw_states :: "'c state_coll"

definition on_states :: "('c state_coll \<Rightarrow> 'a res \<times> 'c state_coll) \<Rightarrow> ('c, 'z) auth_world_scheme \<Rightarrow> 'a res \<times> ('c, 'z) auth_world_scheme" where
  "on_states = lift_op aw_states (\<lambda>s w. w\<lparr>aw_states := s\<rparr>)"

text \<open>A controller over the MongoDB store; its other collaborators do not touch that collection.\<close>

definition keeps_states :: "(('c, 'z) auth_world_scheme \<Rightarrow> 'a res \<times> ('c, 'z) auth_world_scheme) \<Rightarrow> bool" where
  "keeps_states f \<longleftrightarrow> (\<forall>w. aw_states (snd (f w)) = aw_states w)"

definition oidc_over :: "('ar, 'pr, 'q, 'tr, ('c, 'z) auth_world_scheme) oidc_ctl \<Rightarrow> bool" where
  "oidc_over o1 \<longleftrightarrow> oc_save o1 = (\<lambda>os st ttl now. on_states (saveAuthorizeState os st ttl now))
     \<and> oc_get o1 = (\<lambda>os now. on_states (getAuthorizeState os now))
     \<and> (\<forall>q. keeps_states (oc_newAuthorize o1 q)) \<and> (\<forall>ar x. keeps_states (oc_newAuthorizeResponse o1 ar x))
     \<and> (\<forall>b. keeps_states (oc_prepare o1 b)) \<and> (\<forall>b. keeps_states (oc_storeCode o1 b))"

text \<open>What may happen to the collection until \<open>e\<close>: other requests, and sweeps of expired documents.\<close>

inductive states_later :: "int \<Rightarrow> 'c state_coll \<Rightarrow> 'c state_coll \<Rightarrow> bool" for e where
  same: "states_later e s s"
| saved: "states_later e s s1 \<Longrightarrow> saveAuthorizeState os st ttl now s1 = (r, s2) \<Longrightarrow> states_later e s s2"
| read: "states_later e s s1 \<Longrightarrow> getAuthorizeState os now s1 = (q, s2) \<Longrightarrow> states_later e s s2"
| swept: "states_later e s s1 \<Longrightarrow> now \<le> e \<Longrightarrow> states_later e s (statePurge now s1)"

lemma states_later_saved:
  "states_later e s s' \<Longrightarrow> state_inv s \<Longrightarrow> state_saved s os st e \<Longrightarrow> state_inv s' \<and> state_saved s' os st e"
proof (induction rule: states_later.induct)
  case (saved s s1 os' st' ttl now r s2)
  then show ?case using ast.save_inv [OF _ saved.hyps(2)] ast.save_keeps [OF _ saved.hyps(2)] by blast
next
  case (read s s1 os' now q s2)
  then show ?case using ast.get_law [OF _ read.hyps(2)] by simp
next
  case (swept s s1 now)
  then show ?case using ast.purge_law by blast
qed simp

lemma on_statesD: "on_states f w = (r, w') \<Longrightarrow> f (aw_states w) = (r, aw_states w')"
  by (auto simp: on_states_def lift_op_def prod_eq_iff)

lemma keeps_statesD: "keeps_states f \<Longrightarrow> f w = (r, w') \<Longrightarrow> aw_states w' = aw_states w"
  unfolding keeps_states_def by (metis snd_conv)

lemma oidcAuthorize_saves:
  assumes "oidc_over o1" "oidcAuthorize o1 params q now w = (Ok r, w')"
  obtains ar w1 resp w2 w3 where "oc_newAuthorize o1 q w = (Ok ar, w1)"
    "oc_newAuthorizeResponse o1 (oc_withState o1 (ap_OpState params) ar) [(sessionOpStateKey, JStr (ap_OpState params))] w2 = (Ok resp, w3)"
    "saveAuthorizeState (ap_OpState params) (state_of o1 (oc_withState o1 (ap_OpState params) ar) resp) 0 now (aw_states w) = (Ok (), aw_states w')"
proof -
  obtain ar w1 where a: "oc_newAuthorize o1 q w = (Ok ar, w1)"
    using assms(2) by (auto simp: oidcAuthorize_def)
  obtain ans w2 where b: "oc_prepare o1 (claim_auth_body params (oc_scopes o1 ar)) w1 = (Ok (200, ans), w2)"
    using assms(2) a by (auto simp: oidcAuthorize_def split: if_splits)
  obtain resp w3 where c: "oc_newAuthorizeResponse o1 (oc_withState o1 (ap_OpState params) ar) [(sessionOpStateKey, JStr (ap_OpState params))] w2 = (Ok resp, w3)"
    and d: "oc_save o1 (ap_OpState params) (state_of o1 (oc_withState o1 (ap_OpState params) ar) resp) 0 now w3 = (Ok (), w')"
    using assms(2) a b by (auto simp: oidcAuthorize_def Let_def andthen_eq_Ok)
  have "aw_states w3 = aw_states w"
    using a b c assms(1) unfolding oidc_over_def by (metis keeps_statesD)
  moreover have "saveAuthorizeState (ap_OpState params) (state_of o1 (oc_withState o1 (ap_OpState params) ar) resp) 0 now (aw_states w3) = (Ok (), aw_states w')"
    using d assms(1) by (auto simp: oidc_over_def dest: on_statesD)
  ultimately show thesis using a c that by simp
qed

lemma redirect_of_saved:
  assumes "oidc_over o1" "state_inv (aw_states w)" "state_saved (aw_states w) os st e" "now \<le> e"
    "oidcRedirect o1 \<lparr>rp_Code = code, rp_State = os\<rparr> now w = (r, w')"
  obtains (failed) er where "r = Err er" "driver_err er" "getAuthorizeState os now (aw_states w) = (Err er, aw_states w')"
  | (answered) wd ra where "getAuthorizeState os now (aw_states w) = (Ok st, aw_states w')"
      "oc_storeCode o1 \<lparr>kb_Code = code, kb_OpState = os\<rparr> wd = (ra, w')"
      "\<forall>status answer. ra = Ok (status, answer) \<longrightarrow> r = Ok (AuthorizeWritten st os)"
proof -
  obtain g wd where g: "oc_get o1 os now w = (g, wd)" by fastforce
  then have g': "getAuthorizeState os now (aw_states w) = (g, aw_states wd)"
    using assms(1) by (auto simp: oidc_over_def dest: on_statesD)
  consider "g = Ok st" | er where "g = Err er" "driver_err er" using ast.get_saved [OF assms(2,3,4) g'] by blast
  then show thesis
  proof cases
    case 1
    obtain ra we where e: "oc_storeCode o1 \<lparr>kb_Code = code, kb_OpState = os\<rparr> wd = (ra, we)" by fastforce
    have "aw_states we = aw_states wd" using e assms(1) by (auto simp: oidc_over_def intro: keeps_statesD)
    moreover have "we = w'" "\<forall>status answer. ra = Ok (status, answer) \<longrightarrow> r = Ok (AuthorizeWritten st os)"
      using assms(5) g 1 e by (cases ra; simp add: oidcRedirect_def)+
    ultimately show thesis using answered [of wd ra] g' 1 e by simp
  next
    case 2
    then show thesis using failed assms(5) g g' by (simp add: oidcRedirect_def)
  qed
qed

text \<open>C25: The redirect of the issuer's provider is answered with the response to the authorization request it
  belongs to. After an authorization request with a non-empty \<open>op_state\<close> was redirected to the issuer, and
  whatever other requests and sweeps happen in its 24 hours, a redirect with that state finds the stored
  redirect URI, mode, header and parameters, unless the store fails; it hands the code to the issuer and
  writes the stored response whatever status the issuer answered with, and does so again when repeated.\<close>
theorem redirect_answers_its_request:
  fixes w :: "('c, 'z) auth_world_scheme"
  assumes "oidc_over o1" "state_inv (aw_states w)" "ap_OpState params \<noteq> []"
    "oidcAuthorize o1 params q t0 w = (Ok r, w1)" "states_later (t0 + stateDefaultExpiration) (aw_states w1) (aw_states w2)"
    "now \<le> t0 + stateDefaultExpiration" "oidcRedirect o1 \<lparr>rp_Code = code, rp_State = ap_OpState params\<rparr> now w2 = (r2, w3)"
  shows "\<exists>ar wa wb wc resp. oc_newAuthorize o1 q w = (Ok ar, wa)
    \<and> oc_newAuthorizeResponse o1 (oc_withState o1 (ap_OpState params) ar) [(sessionOpStateKey, JStr (ap_OpState params))] wb = (Ok resp, wc)
    \<and> ((\<exists>e. r2 = Err e \<and> driver_err e) \<or>
       (\<exists>wd ra. oc_storeCode o1 \<lparr>kb_Code = code, kb_OpState = ap_OpState params\<rparr> wd = (ra, w3)
          \<and> (\<forall>status answer. ra = Ok (status, answer) \<longrightarrow>
               r2 = Ok (AuthorizeWritten (state_of o1 (oc_withState o1 (ap_OpState params) ar) resp) (ap_OpState params)))))
    \<and> states_later (t0 + stateDefaultExpiration) (aw_states w1) (aw_states w3)"
proof -
  obtain ar wa resp wb wc where s: "oc_newAuthorize o1 q w = (Ok ar, wa)"
    "oc_newAuthorizeResponse o1 (oc_withState o1 (ap_OpState params) ar) [(sessionOpStateKey, JStr (ap_OpState params))] wb = (Ok resp, wc)"
    "saveAuthorizeState (ap_OpState params) (state_of o1 (oc_withState o1 (ap_OpState params) ar) resp) 0 t0 (aw_states w) = (Ok (), aw_states w1)"
    by (rule oidcAuthorize_saves [OF assms(1,4)]) (rule that)
  let ?st = "state_of o1 (oc_withState o1 (ap_OpState params) ar) resp"
  have "state_inv (aw_states w1)" "state_saved (aw_states w1) (ap_OpState params) ?st (t0 + stateDefaultExpiration)"
    using ast.save_inv [OF assms(2) s(3)] ast.save_new [OF assms(2) s(3) assms(3)] by simp_all
  then have later: "state_inv (aw_states w2)" "state_saved (aw_states w2) (ap_OpState params) ?st (t0 + stateDefaultExpiration)"
    using states_later_saved [OF assms(5)] by blast+
  from assms(1) later assms(6,7) show ?thesis
  proof (cases rule: redirect_of_saved)
    case (failed er)
    then show ?thesis using s states_later.read [OF assms(5) failed(3)] by blast
  next
    case (answered wd ra)
    show ?thesis
      by (intro exI conjI disjI2) (rule s(1), rule s(2), rule answered(2), rule answered(3), rule states_later.read [OF assms(5) answered(1)])
  qed
qed

subsection \<open>A concrete flow\<close>

text \<open>A provider that accepts every request, and an issuer API that answers 500 to everything but a request for
  claim data authorization.\<close>

definition demo_claim_auth :: claim_data_response where
  "demo_claim_auth = \<lparr>cr_AuthorizationEndpoint = ''https://issuer/auth'', cr_PAREndpoint = [],
     cr_AuthorizationParameters = \<lparr>op_ClientID = ''c'', op_ClientSecret = [], op_ResponseType = ''code'', op_Scope = []\<rparr>, cr_TxID = ''1''\<rparr>"

definition demo_oidc ::
  "(string \<Rightarrow> authorize_state \<Rightarrow> int \<Rightarrow> int \<Rightarrow> 'w \<Rightarrow> unit res \<times> 'w) \<Rightarrow> (string \<Rightarrow> int \<Rightarrow> 'w \<Rightarrow> authorize_state res \<times> 'w)
     \<Rightarrow> (push_body \<Rightarrow> 'w \<Rightarrow> response res \<times> 'w) \<Rightarrow> (string, unit, unit, unit, 'w) oidc_ctl" where
  "demo_oidc sv gt ps = \<lparr>oc_newPAR = (\<lambda>_ w. (Ok [], w)), oc_newPARResponse = (\<lambda>_ w. (Ok (), w)), oc_newAuthorize = (\<lambda>_ w. (Ok [], w)),
     oc_newAuthorizeResponse = (\<lambda>_ _ w. (Ok ([], [(''code'', [''x''])]), w)), oc_newAccess = (\<lambda>_ w. (Ok (), w)),
     oc_newAccessResponse = (\<lambda>_ w. (Ok (), w)), oc_scopes = (\<lambda>_. []), oc_redirectURI = (\<lambda>_. ''https://wallet/cb''),
     oc_responseMode = (\<lambda>_. ''query''), oc_withState = (\<lambda>s _. s), oc_sessionExtra = (\<lambda>_. None), oc_push = ps,
     oc_prepare = (\<lambda>_ w. (Ok (200, None), w)), oc_storeCode = (\<lambda>_ w. (Ok (500, None), w)), oc_exchangeCode = (\<lambda>_ w. (Ok (500, None), w)),
     oc_save = sv, oc_get = gt, oc_unmarshalDetails = (\<lambda>_. Ok \<lparr>dr_CredentialType = ''t'', dr_Format = Some LdpVc, dr_Locations = None,
       dr_Type = ''openid_credential''\<rparr>), oc_decodeClaimAuth = (\<lambda>_. Ok demo_claim_auth), oc_authCodeURL = (\<lambda>c r s. oa_AuthURL c @ s),
     oc_host = ''https://vcs''\<rparr>"

theorem par_always_rejected_witness:
  "oidcPushedAuthorizationRequest
      (demo_oidc (\<lambda>_ _ _ _ n. (Ok (), n)) (\<lambda>_ _ n. (Err (ErrExt ''none''), n))
        (\<lambda>b. issuer_call [] (pushAuthorizationDetailsReq demo_ctl (Ok b)) (from_org [])))
      (Ok \<lparr>pq_OpState = ''s'', pq_AuthorizationDetails = ''details''\<rparr>) (from_org []) 5
    = (Err (status_error ''push authorization details'' 400), 5)"
proof -
  let ?o = "demo_oidc (\<lambda>_ _ _ _ n. (Ok (), n)) (\<lambda>_ _ n. (Err (ErrExt ''none''), n))
        (\<lambda>b. issuer_call [] (pushAuthorizationDetailsReq demo_ctl (Ok b)) (from_org []))"
  have "oc_push ?o = (\<lambda>b. issuer_call [] (pushAuthorizationDetailsReq demo_ctl (Ok b)) (from_org []))" by (simp add: demo_oidc_def)
  note T = par_always_rejected [OF this, THEN conjunct2, rule_format]
  have "validateAuthorizationDetails (Some \<lparr>dr_CredentialType = ''t'', dr_Format = Some LdpVc, dr_Locations = None, dr_Type = ''openid_credential''\<rparr>)
    = Ok \<lparr>ad_Type = ''openid_credential'', ad_CredentialType = ''t'', ad_Format = Ldp, ad_Locations = []\<rparr>"
    by (simp add: validateAuthorizationDetails_def validateVCFormat_def from_ptr_def)
  then show ?thesis by (intro T) (simp add: demo_oidc_def from_org_def)
qed

type_synonym demo_auth_world = "(state_doc mem, unit) auth_world_scheme"

definition demo_states :: demo_auth_world where
  "demo_states = \<lparr>aw_states = mem_coll state_clash [] []\<rparr>"

definition demo_flow :: "(string, unit, unit, unit, demo_auth_world) oidc_ctl" where
  "demo_flow = demo_oidc (\<lambda>os st ttl now. on_states (saveAuthorizeState os st ttl now)) (\<lambda>os now. on_states (getAuthorizeState os now))
     (\<lambda>_ w. (Err (ErrExt ''down''), w))"

lemma demo_flow_ops [simp]:
  "oc_newAuthorize demo_flow q w = (Ok [], w)" "oc_prepare demo_flow b w = (Ok (200, None), w)"
  "oc_decodeClaimAuth demo_flow j = Ok demo_claim_auth" "oc_storeCode demo_flow cb w = (Ok (500, None), w)"
  "oc_newAuthorizeResponse demo_flow ar x w = (Ok ([], [(''code'', [''x''])]), w)"
  "oc_save demo_flow os st ttl now = on_states (saveAuthorizeState os st ttl now)"
  "oc_get demo_flow os now = on_states (getAuthorizeState os now)"
  "oc_authCodeURL demo_flow c r s = oa_AuthURL c @ s" "oa_AuthURL (issuer_oauth demo_claim_auth) = ''https://issuer/auth''"
  "state_of demo_flow ar ([], [(''code'', [''x''])])
     = \<lparr>as_RedirectURI = ''https://wallet/cb'', as_RespondMode = ''query'', as_Header = [], as_Parameters = [(''code'', [''x''])]\<rparr>"
  by (simp_all add: demo_flow_def demo_oidc_def issuer_oauth_def demo_claim_auth_def state_of_def)

lemma demo_saved:
  "\<exists>s1 s2. saveAuthorizeState ''s'' st 0 3 (mem_coll state_clash [] []) = (Ok (), s1) \<and> getAuthorizeState ''s'' 7 s1 = (Ok st, s2)"
  by (simp add: saveAuthorizeState_def getAuthorizeState_def mapStateToMongoDocument_def stateDefaultExpiration_def omit_empty_def
      mem_eval mem_driver_def state_clash_def eval_nat_numeral)

theorem redirect_answers_its_request_witness:
  "\<exists>w1 w3. oidcAuthorize demo_flow \<lparr>ap_OpState = ''s'', ap_ResponseType = ''code''\<rparr> (from_org []) 3 demo_states = (Ok (SeeOther ''https://issuer/auths''), w1)
     \<and> oidcRedirect demo_flow \<lparr>rp_Code = ''c'', rp_State = ''s''\<rparr> 7 w1
         = (Ok (AuthorizeWritten \<lparr>as_RedirectURI = ''https://wallet/cb'', as_RespondMode = ''query'', as_Header = [],
              as_Parameters = [(''code'', [''x''])]\<rparr> ''s''), w3)"
proof -
  let ?p = "\<lparr>ap_OpState = ''s'', ap_ResponseType = ''code''\<rparr>"
  have o: "oidc_over demo_flow" by (simp add: oidc_over_def keeps_states_def fun_eq_iff)
  have i: "state_inv (aw_states demo_states)" by (simp add: demo_states_def state_inv_def mem_coll_ok docs_mem_coll)
  obtain s1 s2 where s: "saveAuthorizeState ''s'' \<lparr>as_RedirectURI = ''https://wallet/cb'', as_RespondMode = ''query'', as_Header = [],
      as_Parameters = [(''code'', [''x''])]\<rparr> 0 3 (mem_coll state_clash [] []) = (Ok (), s1)"
    "getAuthorizeState ''s'' 7 s1 = (Ok \<lparr>as_RedirectURI = ''https://wallet/cb'', as_RespondMode = ''query'', as_Header = [],
      as_Parameters = [(''code'', [''x''])]\<rparr>, s2)"
    using demo_saved by metis
  let ?w1 = "demo_states\<lparr>aw_states := s1\<rparr>"
  have a: "oidcAuthorize demo_flow ?p (from_org []) 3 demo_states = (Ok (SeeOther ''https://issuer/auths''), ?w1)"
    by (simp add: oidcAuthorize_def on_states_def lift_op_def demo_states_def s(1) pure_op_def Let_def)
  obtain r2 w3 where r: "oidcRedirect demo_flow \<lparr>rp_Code = ''c'', rp_State = ap_OpState ?p\<rparr> 7 ?w1 = (r2, w3)" by fastforce
  have k: "is_ok r2" using r by (auto simp: oidcRedirect_def on_states_def lift_op_def s(2))
  have e: "ap_OpState ?p \<noteq> []" "(7::int) \<le> 3 + stateDefaultExpiration" by (simp_all add: stateDefaultExpiration_def)
  show ?thesis
    using redirect_answers_its_request [OF o i e(1) a states_later.same e(2) r] k a r by auto
qed

end
