(* ===== verification/Verifier_Controller.thy ===== *)
theory Verifier_Controller
  imports Rest_Api Oidc4vp_Service Go_Url
begin

text \<open>
  \<open>pkg/restapi/v1/verifier/controller.go\<close>: the verifier's REST API. The services behind it are the fields of
  \<open>verifier_ctl\<close>; those of the OIDC4VP service work on a state \<open>'w\<close>. JWT parsing with the signature check
  and the decoding of claims are parameters, \<open>'j\<close> is a parsed token. \<open>body\<close> is what echo binds the request
  body to and \<open>form\<close> the outcome of \<open>ParseForm\<close>; logging and metrics are left out.
\<close>

record id_claims =
  idc_Submission :: "fields option"
  idc_Nonce :: string
  idc_Exp :: int

record vp_claims =
  vpc_VP :: "json option"
  vpc_Nonce :: string
  vpc_Exp :: int

record ('pd, 'j, 'w) verifier_ctl =
  vr_verifyCredential :: "credential \<Rightarrow> verify_opts option \<Rightarrow> 'pd verifier \<Rightarrow> check_result list res"
  vr_verifyPresentation :: "presentation \<Rightarrow> verify_opts option \<Rightarrow> 'pd verifier \<Rightarrow> check_result list res"
  vr_getProfile :: "string \<Rightarrow> 'pd verifier option res"
  vr_marshal :: "json \<Rightarrow> json res"
  vr_parseVC :: "vc_bytes \<Rightarrow> credential res"
  vr_parseVP :: "vc_bytes \<Rightarrow> presentation res"
  vr_initiate :: "'pd \<Rightarrow> string \<Rightarrow> 'pd verifier \<Rightarrow> 'w \<Rightarrow> interaction_info res \<times> 'w"
  vr_verifyOIDC :: "string \<Rightarrow> processed_token \<Rightarrow> 'w \<Rightarrow> unit res \<times> 'w"
  vr_getTx :: "string \<Rightarrow> 'w \<Rightarrow> 'pd transaction res \<times> 'w"
  vr_marshalClaims :: "(string \<rightharpoonup> credential_metadata) \<Rightarrow> json res"
  vr_pdID :: "'pd \<Rightarrow> string"
  vr_parseJWT :: "string \<Rightarrow> 'j res"
  vr_idClaims :: "'j \<Rightarrow> id_claims res"
  vr_vpClaims :: "'j \<Rightarrow> vp_claims res"
  vr_kid :: "'j \<Rightarrow> string"
  vr_submissionContext :: string
  vr_submissionType :: string

subsection \<open>Request bodies\<close>

record verify_options =
  vq_Challenge :: "string option"
  vq_Domain :: "string option"

record verify_body =
  vb_Document :: json
  vb_Options :: "verify_options option"

record initiate_vp_body =
  iv_PresentationDefinitionId :: "string option"
  iv_Purpose :: "string option"

definition strPtrToStr :: "string option \<Rightarrow> string" where
  "strPtrToStr p = (case p of None \<Rightarrow> [] | Some s \<Rightarrow> s)"

definition getVerifyCredentialOptions :: "verify_options option \<Rightarrow> verify_opts" where
  "getVerifyCredentialOptions p = (case p of
       None \<Rightarrow> no_verify_opts
     | Some vq \<Rightarrow> \<lparr>vo_Challenge = strPtrToStr (vq_Challenge vq), vo_Domain = strPtrToStr (vq_Domain vq)\<rparr>)"

definition getVerifyPresentationOptions :: "verify_options option \<Rightarrow> verify_opts" where
  "getVerifyPresentationOptions p = (case p of
       None \<Rightarrow> no_verify_opts
     | Some vq \<Rightarrow> \<lparr>vo_Challenge = strPtrToStr (vq_Challenge vq), vo_Domain = strPtrToStr (vq_Domain vq)\<rparr>)"

subsection \<open>Profiles\<close>

text \<open>The verb \<open>%q\<close>, for ASCII text.\<close>

definition quote_char :: "char \<Rightarrow> string" where
  "quote_char c =
     (let n = (of_char c :: nat)
      in if c = CHR 0x22 \<or> c = CHR 0x5C then [CHR 0x5C, c]
         else if n = 7 then CHR 0x5C # ''a'' else if n = 8 then CHR 0x5C # ''b'' else if n = 9 then CHR 0x5C # ''t''
         else if n = 10 then CHR 0x5C # ''n'' else if n = 11 then CHR 0x5C # ''v'' else if n = 12 then CHR 0x5C # ''f''
         else if n = 13 then CHR 0x5C # ''r''
         else if n < 32 \<or> 127 \<le> n then CHR 0x5C # ''x'' @ map lower_char [hex_digit (n div 16), hex_digit (n mod 16)]
         else [c])"

definition go_quote :: "string \<Rightarrow> string" where
  "go_quote s = [CHR 0x22] @ concat (map quote_char s) @ [CHR 0x22]"

definition accessVerifierProfile :: "('pd, 'j, 'w) verifier_ctl \<Rightarrow> string \<Rightarrow> string \<Rightarrow> 'pd verifier res" where
  "accessVerifierProfile c profileID oidcOrgID =
     bindR (mapErr (\<lambda>e. if str_contains (err_text e) ''data not found''
                        then newValidationError DoesntExist ''profile'' (ErrMsg (''profile with given id '' @ profileID @ '', doesn'' @ [CHR 0x27] @ ''t exist''))
                        else newSystemError ''verifier.ProfileService'' ''GetProfile'' e)
              (vr_getProfile c profileID)) (\<lambda>p.
     bindR (deref p) (\<lambda>profile.
     if pv_OrganizationID profile \<noteq> oidcOrgID
     then Err (newValidationError DoesntExist ''organizationID'' (ErrMsg (''profile with given org id '' @ go_quote oidcOrgID @ '', doesn'' @ [CHR 0x27] @ ''t exist'')))
     else Ok profile))"

definition requestProfile :: "('pd, 'j, 'w) verifier_ctl \<Rightarrow> Rest_Api.http_request \<Rightarrow> string \<Rightarrow> 'pd verifier res" where
  "requestProfile c q profileID = bindR (getOrgIDFromOIDC q) (accessVerifierProfile c profileID)"

subsection \<open>Verification of credentials and presentations\<close>

definition mapVerifyCredentialChecks :: "check_result list \<Rightarrow> json" where
  "mapVerifyCredentialChecks checks =
     JObj (if checks = [] then []
           else [(''checks'', JArr (map (\<lambda>ck. JObj [(''check'', JStr (ck_Check ck)), (''error'', JStr (ck_Error ck)),
                    (''verificationMethod'', JStr [])]) checks))])"

definition mapVerifyPresentationChecks :: "check_result list \<Rightarrow> json" where
  "mapVerifyPresentationChecks checks =
     JObj (if checks = [] then []
           else [(''checks'', JArr (map (\<lambda>ck. JObj [(''check'', JStr (ck_Check ck)), (''error'', JStr (ck_Error ck))]) checks))])"

definition verifyCredentialReq :: "('pd, 'j, 'w) verifier_ctl \<Rightarrow> Rest_Api.http_request \<Rightarrow> verify_body \<Rightarrow> string \<Rightarrow> json res" where
  "verifyCredentialReq c q body profileID =
     bindR (requestProfile c q profileID) (\<lambda>profile.
     bindR (deref (pv_Checks profile)) (\<lambda>checks.
     bindR (mapErr (newValidationError InvalidValue ''credential'')
        (validateCredential (vr_marshal c) (vr_parseVC c) (vb_Document body) (cc_Format (vk_Credential checks)))) (\<lambda>cred.
     bindR (mapErr (newSystemError ''verifycredential.Service'' ''VerifyCredential'')
        (vr_verifyCredential c cred (Some (getVerifyCredentialOptions (vb_Options body))) profile)) (\<lambda>verRes.
     Ok (mapVerifyCredentialChecks verRes)))))"

definition postVerifyCredentials ::
  "('pd, 'j, 'w) verifier_ctl \<Rightarrow> verify_body res \<Rightarrow> string \<Rightarrow> Rest_Api.http_request \<Rightarrow> 'w \<Rightarrow> response res \<times> 'w" where
  "postVerifyCredentials c body profileID q w =
     pure_op (bindR (readBody body) (\<lambda>b. writeOutput Ok (verifyCredentialReq c q b profileID))) w"

text \<open>\<open>vp.ValidatePresentation\<close>; the failure of the verification is reported as one of credentials.\<close>

definition validatePresentation ::
  "(json \<Rightarrow> json res) \<Rightarrow> (vc_bytes \<Rightarrow> presentation res) \<Rightarrow> json \<Rightarrow> string list \<Rightarrow> presentation res" where
  "validatePresentation marshal parse pres formats =
     bindR (validateFormat marshal pres formats)
       (\<lambda>b. mapErr (newValidationError InvalidValue ''presentation'') (parse b))"

definition verifyPresentationReq :: "('pd, 'j, 'w) verifier_ctl \<Rightarrow> Rest_Api.http_request \<Rightarrow> verify_body \<Rightarrow> string \<Rightarrow> json res" where
  "verifyPresentationReq c q body profileID =
     bindR (requestProfile c q profileID) (\<lambda>profile.
     bindR (deref (pv_Checks profile)) (\<lambda>checks.
     bindR (deref (vk_Presentation checks)) (\<lambda>pc.
     bindR (mapErr (newValidationError InvalidValue ''presentation'')
        (validatePresentation (vr_marshal c) (vr_parseVP c) (vb_Document body) (pc_Format pc))) (\<lambda>pres.
     bindR (mapErr (newSystemError ''verifycredential.Service'' ''VerifyCredential'')
        (vr_verifyPresentation c pres (Some (getVerifyPresentationOptions (vb_Options body))) profile)) (\<lambda>verRes.
     Ok (mapVerifyPresentationChecks verRes))))))"

definition postVerifyPresentation ::
  "('pd, 'j, 'w) verifier_ctl \<Rightarrow> verify_body res \<Rightarrow> string \<Rightarrow> Rest_Api.http_request \<Rightarrow> 'w \<Rightarrow> response res \<times> 'w" where
  "postVerifyPresentation c body profileID q w =
     pure_op (bindR (readBody body) (\<lambda>b. writeOutput Ok (verifyPresentationReq c q b profileID))) w"

subsection \<open>Initiating an interaction\<close>

definition findPresentationDefinition :: "('pd \<Rightarrow> string) \<Rightarrow> 'pd verifier \<Rightarrow> string \<Rightarrow> 'pd res" where
  "findPresentationDefinition pdID profile pdExternalID =
     (if pdExternalID = [] \<and> pv_PresentationDefinitions profile \<noteq> [] then Ok (hd (pv_PresentationDefinitions profile))
      else case find (\<lambda>pd. pdID pd = pdExternalID) (pv_PresentationDefinitions profile) of
             Some pd \<Rightarrow> Ok pd
           | None \<Rightarrow> Err (ErrMsg (''presentation definition not found for profile with id='' @ pv_ID profile)))"

definition initiateInteraction ::
  "('pd, 'j, 'w) verifier_ctl \<Rightarrow> initiate_vp_body \<Rightarrow> 'pd verifier \<Rightarrow> 'w \<Rightarrow> json res \<times> 'w" where
  "initiateInteraction c b profile w =
     (if \<not> pv_Active profile
      then (Err (newValidationError ConditionNotMet ''profile.Active'' (ErrMsg ''profile should be active'')), w)
      else if pv_OIDCConfig profile = None
      then (Err (newValidationError ConditionNotMet ''profile.OIDCConfig'' (ErrMsg ''OIDC not configured'')), w)
      else
        andthen (mapErrS (newValidationError InvalidValue ''presentationDefinitionID'')
           (pure_op (findPresentationDefinition (vr_pdID c) profile (strPtrToStr (iv_PresentationDefinitionId b))) w)) (\<lambda>pd w.
        andthen (mapErrS (newSystemError ''oidc4VPService'' ''InitiateOidcInteraction'')
           (vr_initiate c pd (strPtrToStr (iv_Purpose b)) profile w)) (\<lambda>result w.
        (Ok (JObj [(''authorizationRequest'', JStr (ii_AuthorizationRequest result)), (''txID'', JStr (ii_TxID result))]), w))))"

definition initiateOidcInteractionReq ::
  "('pd, 'j, 'w) verifier_ctl \<Rightarrow> initiate_vp_body res \<Rightarrow> string \<Rightarrow> Rest_Api.http_request \<Rightarrow> 'w \<Rightarrow> response res \<times> 'w" where
  "initiateOidcInteractionReq c body profileID q w =
     andthen (pure_op (requestProfile c q profileID) w) (\<lambda>profile w.
     andthen (pure_op (readBody body) w) (\<lambda>b w.
     andthen (initiateInteraction c b profile w) (\<lambda>out w.
     (Ok (200, Some out), w))))"

subsection \<open>The authorization response\<close>

record authorization_response =
  ar_IDToken :: string
  ar_VPToken :: string
  ar_State :: string

definition decodeFormValue :: "string \<Rightarrow> (string \<Rightarrow> string list) \<Rightarrow> string res" where
  "decodeFormValue valName values = (case values valName of
       [] \<Rightarrow> Err (newValidationError InvalidValue valName (ErrMsg ''value is missed''))
     | [v] \<Rightarrow> Ok v
     | _ \<Rightarrow> Err (newValidationError InvalidValue valName (ErrMsg ''value is duplicated'')))"

definition validateAuthorizationResponse :: "(string \<Rightarrow> string list) res \<Rightarrow> authorization_response res" where
  "validateAuthorizationResponse form =
     bindR (mapErr (newValidationError InvalidValue ''body'') form) (\<lambda>values.
     bindR (decodeFormValue ''id_token'' values) (\<lambda>idToken.
     bindR (decodeFormValue ''vp_token'' values) (\<lambda>vpToken.
     bindR (decodeFormValue ''state'' values) (\<lambda>state.
     Ok \<lparr>ar_IDToken = idToken, ar_VPToken = vpToken, ar_State = state\<rparr>))))"

text \<open>The signer is the DID before the fragment of the key id, the empty string without a key id.\<close>

definition verifyTokenSignature :: "('pd, 'j, 'w) verifier_ctl \<Rightarrow> ('j \<Rightarrow> 'a res) \<Rightarrow> string \<Rightarrow> ('a \<times> string) res" where
  "verifyTokenSignature c decode rawJwt =
     bindR (wrapR ''parse JWT: '' (vr_parseJWT c rawJwt)) (\<lambda>t.
     bindR (wrapR ''decode claims: '' (decode t)) (\<lambda>claims.
     Ok (claims, hd (split_on (CHR ''#'') (vr_kid c t)))))"

definition validateIDToken :: "('pd, 'j, 'w) verifier_ctl \<Rightarrow> string \<Rightarrow> int \<Rightarrow> id_claims res" where
  "validateIDToken c rawJwt now =
     bindR (mapErr (newValidationError InvalidValue ''id_token'') (verifyTokenSignature c (vr_idClaims c) rawJwt)) (\<lambda>(claims, _).
     if idc_Exp claims < unix_time now then Err (newValidationError InvalidValue ''id_token.exp'' (ErrMsg ''token expired''))
     else if idc_Submission claims = None
     then Err (newValidationError InvalidValue ''id_token._vp_token.presentation_submission'' (ErrMsg ''$_vp_token.presentation_submission is missed''))
     else Ok claims)"

definition validateVPToken :: "('pd, 'j, 'w) verifier_ctl \<Rightarrow> string \<Rightarrow> int \<Rightarrow> (vp_claims \<times> string) res" where
  "validateVPToken c rawJwt now =
     bindR (mapErr (newValidationError InvalidValue ''vp_token'') (verifyTokenSignature c (vr_vpClaims c) rawJwt)) (\<lambda>(claims, signer).
     if vpc_Exp claims < unix_time now then Err (newValidationError InvalidValue ''vp_token.exp'' (ErrMsg ''token expired''))
     else if vpc_VP claims = None then Err (newValidationError InvalidValue ''vp_token.vp'' (ErrMsg ''$vp is missed''))
     else Ok (claims, signer))"

text \<open>The presentation handed on carries the token it came in and the submission of the id token.\<close>

definition with_submission :: "('pd, 'j, 'w) verifier_ctl \<Rightarrow> string \<Rightarrow> fields \<Rightarrow> presentation \<Rightarrow> presentation" where
  "with_submission c vpToken submission p = p\<lparr>pr_JWT := vpToken, pr_Context := pr_Context p @ [vr_submissionContext c],
     pr_Types := pr_Types p @ [vr_submissionType c], pr_Custom := fput ''presentation_submission'' (JObj submission) (pr_Custom p)\<rparr>"

definition verifyAuthorizationResponseTokens ::
  "('pd, 'j, 'w) verifier_ctl \<Rightarrow> authorization_response \<Rightarrow> (nat \<Rightarrow> int) \<Rightarrow> processed_token res" where
  "verifyAuthorizationResponseTokens c authResp clock =
     bindR (validateIDToken c (ar_IDToken authResp) (clock 0)) (\<lambda>idc.
     bindR (validateVPToken c (ar_VPToken authResp) (clock 1)) (\<lambda>(vpc, signer).
     if vpc_Nonce vpc \<noteq> idc_Nonce idc
     then Err (newValidationError InvalidValue ''nonce'' (ErrMsg ''nonce should be the same for both id_token and vp_token''))
     else
       bindR (deref (vpc_VP vpc)) (\<lambda>vp.
       bindR (mapErr (newValidationError InvalidValue ''vp_token.vp'') (vr_parseVP c (JsonBytes vp))) (\<lambda>p.
       bindR (deref (idc_Submission idc)) (\<lambda>submission.
       Ok \<lparr>pt_Nonce = idc_Nonce idc, pt_Signer = signer, pt_Presentation = with_submission c (ar_VPToken authResp) submission p\<rparr>)))))"

text \<open>Success writes nothing, which the server answers with 200.\<close>

definition checkAuthorizationResponse ::
  "('pd, 'j, 'w) verifier_ctl \<Rightarrow> (string \<Rightarrow> string list) res \<Rightarrow> (nat \<Rightarrow> int) \<Rightarrow> 'w \<Rightarrow> response res \<times> 'w" where
  "checkAuthorizationResponse c form clock w =
     andthen (pure_op (validateAuthorizationResponse form) w) (\<lambda>authResp w.
     andthen (pure_op (verifyAuthorizationResponseTokens c authResp clock) w) (\<lambda>token w.
     andthen (vr_verifyOIDC c (ar_State authResp) token w) (\<lambda>_ w.
     (Ok (200, None), w))))"

subsection \<open>Retrieving claims\<close>

definition accessOIDC4VPTx :: "('pd, 'j, 'w) verifier_ctl \<Rightarrow> string \<Rightarrow> 'w \<Rightarrow> 'pd transaction res \<times> 'w" where
  "accessOIDC4VPTx c txID w =
     mapErrS (\<lambda>e. if err_is e vp_ErrDataNotFound
                  then newValidationError DoesntExist ''txID'' (ErrMsg (''transaction with given id '' @ txID @ '', doesn'' @ [CHR 0x27] @ ''t exist''))
                  else newSystemError ''oidc4vp.Service'' ''GetTx'' e)
       (vr_getTx c txID w)"

definition retrieveInteractionsClaim :: "('pd, 'j, 'w) verifier_ctl \<Rightarrow> string \<Rightarrow> Rest_Api.http_request \<Rightarrow> 'w \<Rightarrow> response res \<times> 'w" where
  "retrieveInteractionsClaim c txID q w =
     andthen (pure_op (getOrgIDFromOIDC q) w) (\<lambda>oidcOrgID w.
     andthen (accessOIDC4VPTx c txID w) (\<lambda>tx w.
     andthen (pure_op (accessVerifierProfile c (tx_ProfileID tx) oidcOrgID) w) (\<lambda>_ w.
     pure_op (writeOutput (vr_marshalClaims c) (Ok (retrieveClaims tx))) w)))"

subsection \<open>Properties\<close>

lemma decodeFormValue_Ok: "decodeFormValue n values = Ok v \<longleftrightarrow> values n = [v]"
  by (auto simp: decodeFormValue_def split: list.splits)

lemma verifyTokenSignature_Ok:
  "verifyTokenSignature c decode raw = Ok (claims, signer) \<longleftrightarrow>
     (\<exists>t. vr_parseJWT c raw = Ok t \<and> decode t = Ok claims \<and> signer = hd (split_on (CHR ''#'') (vr_kid c t)))"
  by (auto simp: verifyTokenSignature_def)

lemma validateIDToken_Ok:
  "validateIDToken c raw now = Ok claims \<longleftrightarrow>
     (\<exists>t. vr_parseJWT c raw = Ok t \<and> vr_idClaims c t = Ok claims \<and> unix_time now \<le> idc_Exp claims \<and> idc_Submission claims \<noteq> None)"
  by (auto simp: validateIDToken_def verifyTokenSignature_Ok split: if_splits)

lemma validateVPToken_Ok:
  "validateVPToken c raw now = Ok (claims, signer) \<longleftrightarrow>
     (\<exists>t. vr_parseJWT c raw = Ok t \<and> vr_vpClaims c t = Ok claims \<and> unix_time now \<le> vpc_Exp claims \<and> vpc_VP claims \<noteq> None
        \<and> signer = hd (split_on (CHR ''#'') (vr_kid c t)))"
  by (fastforce simp: validateVPToken_def verifyTokenSignature_Ok split: if_splits)

text \<open>C4: An authorization response is accepted only with two valid tokens for the interaction it names. If the
  handler succeeds, the form has exactly one \<open>id_token\<close>, \<open>vp_token\<close> and \<open>state\<close>; both tokens carry valid
  signatures, are not expired and have the same nonce; that nonce was live and bound to the transaction
  \<open>state\<close>, and is spent; and the OIDC4VP service accepted the presentation of the \<open>vp_token\<close>, extended by
  the submission of the \<open>id_token\<close>, as signed by the DID of the \<open>vp_token\<close>'s key.\<close>
theorem authorization_response_sound:
  assumes "vp_service_over tc rnd enc ttl svc" "vr_verifyOIDC c = (\<lambda>tx token. verifyOIDC svc tx token uuid clock2)" "vp_inv w"
    "checkAuthorizationResponse c form clock w = (Ok resp, w')"
  shows "\<exists>fm idT vpT state ti tv idc vpc vp sub p i e. resp = (200, None) \<and> form = Ok fm
    \<and> fm ''id_token'' = [idT] \<and> fm ''vp_token'' = [vpT] \<and> fm ''state'' = [state]
    \<and> vr_parseJWT c idT = Ok ti \<and> vr_idClaims c ti = Ok idc \<and> unix_time (clock 0) \<le> idc_Exp idc \<and> idc_Submission idc = Some sub
    \<and> vr_parseJWT c vpT = Ok tv \<and> vr_vpClaims c tv = Ok vpc \<and> unix_time (clock 1) \<le> vpc_Exp vpc \<and> vpc_VP vpc = Some vp
    \<and> vpc_Nonce vpc = idc_Nonce idc \<and> vr_parseVP c (JsonBytes vp) = Ok p
    \<and> vp_live w (idc_Nonce idc) = Some (i, e) \<and> clock2 0 \<le> e \<and> (i \<noteq> [] \<longrightarrow> to_lower i = state)
    \<and> vp_live w' = (vp_live w)(idc_Nonce idc := None)
    \<and> verifyOIDC svc state \<lparr>pt_Nonce = idc_Nonce idc, pt_Signer = hd (split_on (CHR ''#'') (vr_kid c tv)),
         pt_Presentation = with_submission c vpT sub p\<rparr> uuid clock2 w = (Ok (), w')"
proof -
  obtain a token where a: "validateAuthorizationResponse form = Ok a" and t: "verifyAuthorizationResponseTokens c a clock = Ok token"
    and v: "verifyOIDC svc (ar_State a) token uuid clock2 w = (Ok (), w')" and r: "resp = (200, None)"
    using assms(4) by (auto simp: checkAuthorizationResponse_def assms(2) andthen_eq_Ok)
  obtain fm where f: "form = Ok fm" "fm ''id_token'' = [ar_IDToken a]" "fm ''vp_token'' = [ar_VPToken a]" "fm ''state'' = [ar_State a]"
    using a by (auto simp: validateAuthorizationResponse_def decodeFormValue_Ok)
  obtain idc vpc signer where c: "validateIDToken c (ar_IDToken a) (clock 0) = Ok idc"
    "validateVPToken c (ar_VPToken a) (clock 1) = Ok (vpc, signer)" "vpc_Nonce vpc = idc_Nonce idc"
    using t by (auto simp: verifyAuthorizationResponseTokens_def split: if_splits)
  obtain vp p sub where p: "vpc_VP vpc = Some vp" "vr_parseVP c (JsonBytes vp) = Ok p" "idc_Submission idc = Some sub"
    "token = \<lparr>pt_Nonce = idc_Nonce idc, pt_Signer = signer, pt_Presentation = with_submission c (ar_VPToken a) sub p\<rparr>"
    using t c by (auto simp: verifyAuthorizationResponseTokens_def)
  show ?thesis
    using r f c p v verifyOIDC_nonce [OF assms(1,3) v] unfolding validateIDToken_Ok validateVPToken_Ok by auto
qed

text \<open>An organization reaches its own verifier profiles only. A request that names a profile of another
  organization is refused with 404 (401 without an organization) and changes nothing; a request that
  succeeds is for a profile of the requesting organization, and claims are handed out only if the
  profile of their transaction is one.\<close>
theorem verifier_profiles_isolated:
  "(\<forall>p. vr_getProfile c pid = Ok (Some p) \<and> pv_OrganizationID p \<noteq> hq_Header q ''X-User'' \<longrightarrow>
      (\<exists>e. error_status e \<in> {401, 404} \<and> postVerifyCredentials c (Ok b1) pid q w = (Err e, w)
         \<and> postVerifyPresentation c (Ok b2) pid q w = (Err e, w) \<and> initiateOidcInteractionReq c b3 pid q w = (Err e, w)))
   \<and> (\<forall>r w'. postVerifyCredentials c (Ok b1) pid q w = (Ok r, w') \<or> postVerifyPresentation c (Ok b2) pid q w = (Ok r, w')
        \<or> initiateOidcInteractionReq c b3 pid q w = (Ok r, w') \<longrightarrow>
      (\<exists>p. vr_getProfile c pid = Ok (Some p) \<and> pv_OrganizationID p = hq_Header q ''X-User''))
   \<and> (\<forall>r w'. retrieveInteractionsClaim c txID q w = (Ok r, w') \<longrightarrow>
      (\<exists>tx p. vr_getTx c txID w = (Ok tx, w') \<and> vr_getProfile c (tx_ProfileID tx) = Ok (Some p)
         \<and> pv_OrganizationID p = hq_Header q ''X-User''))"
proof (intro conjI allI impI)
  fix p
  assume p: "vr_getProfile c pid = Ok (Some p) \<and> pv_OrganizationID p \<noteq> hq_Header q ''X-User''"
  have "\<exists>e. requestProfile c q pid = Err e \<and> error_status e \<in> {401, 404}"
    using p by (simp add: requestProfile_def getOrgIDFromOIDC_def accessVerifierProfile_def Let_def newUnauthorizedError_def newValidationError_def)
  then show "\<exists>e. error_status e \<in> {401, 404} \<and> postVerifyCredentials c (Ok b1) pid q w = (Err e, w)
         \<and> postVerifyPresentation c (Ok b2) pid q w = (Err e, w) \<and> initiateOidcInteractionReq c b3 pid q w = (Err e, w)"
    by (auto simp: postVerifyCredentials_def verifyCredentialReq_def postVerifyPresentation_def verifyPresentationReq_def readBody_def
        writeOutput_def initiateOidcInteractionReq_def pure_op_def)
next
  fix r w'
  assume "postVerifyCredentials c (Ok b1) pid q w = (Ok r, w') \<or> postVerifyPresentation c (Ok b2) pid q w = (Ok r, w')
        \<or> initiateOidcInteractionReq c b3 pid q w = (Ok r, w')"
  then obtain p where "requestProfile c q pid = Ok p"
    by (auto simp: postVerifyCredentials_def verifyCredentialReq_def postVerifyPresentation_def verifyPresentationReq_def readBody_def
        writeOutput_def initiateOidcInteractionReq_def)
  then show "\<exists>p. vr_getProfile c pid = Ok (Some p) \<and> pv_OrganizationID p = hq_Header q ''X-User''"
    by (auto simp: requestProfile_def getOrgIDFromOIDC_def accessVerifierProfile_def Let_def split: if_splits)
next
  fix r w'
  assume "retrieveInteractionsClaim c txID q w = (Ok r, w')"
  then obtain tx p where "vr_getTx c txID w = (Ok tx, w')" "accessVerifierProfile c (tx_ProfileID tx) (hq_Header q ''X-User'') = Ok p"
    by (auto simp: retrieveInteractionsClaim_def accessOIDC4VPTx_def getOrgIDFromOIDC_def Let_def split: if_splits)
  then show "\<exists>tx p. vr_getTx c txID w = (Ok tx, w') \<and> vr_getProfile c (tx_ProfileID tx) = Ok (Some p) \<and> pv_OrganizationID p = hq_Header q ''X-User''"
    by (auto simp: accessVerifierProfile_def split: if_splits)
qed

subsection \<open>Concrete requests\<close>

definition demo_vctl :: "(string, string, demo_vp_world) verifier_ctl" where
  "demo_vctl = \<lparr>vr_verifyCredential = (\<lambda>_ _ _. Ok []), vr_verifyPresentation = (\<lambda>_ _ _. Ok []),
     vr_getProfile = getProfile [''p1'' \<mapsto> subject_verifier], vr_marshal = Ok, vr_parseVC = (\<lambda>_. Ok empty_credential),
     vr_parseVP = (\<lambda>_. Ok sample_vp), vr_initiate = (\<lambda>_ _ _ w. (Err (ErrExt ''down''), w)),
     vr_verifyOIDC = (\<lambda>tx token. verifyOIDC demo_svc tx token (\<lambda>_. ''id'') (\<lambda>_. 150)), vr_getTx = getTx demo_svc,
     vr_marshalClaims = (\<lambda>_. Ok JNull), vr_pdID = (\<lambda>pd. pd), vr_parseJWT = Ok,
     vr_idClaims = (\<lambda>_. Ok \<lparr>idc_Submission = Some [], idc_Nonce = ''nonce'', idc_Exp = 200\<rparr>),
     vr_vpClaims = (\<lambda>_. Ok \<lparr>vpc_VP = Some JNull, vpc_Nonce = ''nonce'', vpc_Exp = 200\<rparr>), vr_kid = (\<lambda>_. ''did:holder#k''),
     vr_submissionContext = ''ctx'', vr_submissionType = ''type''\<rparr>"

definition demo_form :: "(string \<Rightarrow> string list) res" where
  "demo_form = Ok (\<lambda>n. if n = ''state'' then [''1''] else [''jwt''])"

lemma demo_vctl_accepts:
  "\<exists>w'. checkAuthorizationResponse demo_vctl demo_form (\<lambda>_. 150) created_world = (Ok (200, None), w')"
proof -
  obtain w' where w': "verifyOIDC demo_svc ''1'' \<lparr>pt_Nonce = ''nonce'', pt_Signer = ''did:holder'',
      pt_Presentation = with_submission demo_vctl ''jwt'' [] sample_vp\<rparr> (\<lambda>_. ''id'') (\<lambda>_. 150) created_world = (Ok (), w')"
    using demo_accept_any by blast
  have k: "hd (split_on (CHR ''#'') ''did:holder#k'') = ''did:holder''" by simp
  show ?thesis
    using w'
    by (simp add: checkAuthorizationResponse_def validateAuthorizationResponse_def demo_form_def decodeFormValue_def
        verifyAuthorizationResponseTokens_def validateIDToken_def validateVPToken_def verifyTokenSignature_def unix_time_def
        demo_vctl_def pure_op_def with_submission_def)
qed

theorem authorization_response_sound_witness:
  "\<exists>w' i e. checkAuthorizationResponse demo_vctl demo_form (\<lambda>_. 150) created_world = (Ok (200, None), w')
     \<and> vp_live created_world ''nonce'' = Some (i, e) \<and> (i \<noteq> [] \<longrightarrow> to_lower i = ''1'') \<and> vp_live w' ''nonce'' = None"
proof -
  obtain w' where a: "checkAuthorizationResponse demo_vctl demo_form (\<lambda>_. 150) created_world = (Ok (200, None), w')"
    using demo_vctl_accepts by blast
  have v: "vr_verifyOIDC demo_vctl = (\<lambda>tx token. verifyOIDC demo_svc tx token (\<lambda>_. ''id'') (\<lambda>_. 150))"
    by (simp add: demo_vctl_def)
  have n: "idc_Nonce idc = ''nonce''" if "vr_idClaims demo_vctl t = Ok idc" for t idc
    using that by (auto simp: demo_vctl_def)
  have st: "state = ''1''" if "demo_form = Ok fm" "fm ''state'' = [state]" for fm state
    using that by (auto simp: demo_form_def)
  obtain fm state t idc i e where "demo_form = Ok fm" "fm ''state'' = [state]" "vr_idClaims demo_vctl t = Ok idc"
    "vp_live created_world (idc_Nonce idc) = Some (i, e)" "i \<noteq> [] \<longrightarrow> to_lower i = state"
    "vp_live w' = (vp_live created_world)(idc_Nonce idc := None)"
    using authorization_response_sound [OF demo_svc_over v created_inv(1) a] by blast
  then show ?thesis using a n st by auto
qed

theorem verifier_profiles_isolated_witness:
  "\<exists>e. error_status e = 404 \<and> postVerifyCredentials demo_vctl (Ok \<lparr>vb_Document = JNull, vb_Options = None\<rparr>) ''p1''
      \<lparr>hq_Method = ''POST'', hq_Path = [], hq_Header = (\<lambda>_. ''other'')\<rparr> created_world = (Err e, created_world)"
proof -
  have "vr_getProfile demo_vctl ''p1'' = Ok (Some subject_verifier)" "pv_OrganizationID subject_verifier \<noteq> ''other''"
    by (simp_all add: demo_vctl_def getProfile_def subject_verifier_def)
  then obtain e where e: "error_status e \<in> {401, 404}"
    "postVerifyCredentials demo_vctl (Ok \<lparr>vb_Document = JNull, vb_Options = None\<rparr>) ''p1''
      \<lparr>hq_Method = ''POST'', hq_Path = [], hq_Header = (\<lambda>_. ''other'')\<rparr> created_world = (Err e, created_world)"
    using verifier_profiles_isolated [THEN conjunct1, rule_format, of demo_vctl "''p1''" subject_verifier
        "\<lparr>hq_Method = ''POST'', hq_Path = [], hq_Header = (\<lambda>_. ''other'')\<rparr>"] by fastforce
  moreover have "error_status e \<noteq> 401"
    using e(2) by (auto simp: postVerifyCredentials_def readBody_def writeOutput_def verifyCredentialReq_def requestProfile_def
        getOrgIDFromOIDC_def accessVerifierProfile_def demo_vctl_def getProfile_def subject_verifier_def newValidationError_def
        pure_op_def)
  ultimately show ?thesis by blast
qed

end
