(* ===== verification/Fosite_Store.thy ===== *)
theory Fosite_Store
  imports Mongo_Mem Verifiable_Model
begin

text \<open>
  \<open>component/oidc/fositemongo\<close>: the storage of the OAuth2 provider in MongoDB. Every collection holds
  \<open>genericDocument\<close>s, which \<open>getInternal\<close> reads by \<open>_lookupId\<close>; four of them hold sessions, of authorization
  codes, PKCE requests, refresh and access tokens, selected by \<open>session_kind\<close>. The driver is a parameter,
  fosite's request types are records with the members the store reads or fills, and a type assertion of
  the store on one of its arguments is an option. The contract of a session collection is the locale
  \<open>lookup_store\<close>.
\<close>

definition fosite_ErrDataNotFound :: go_error where
  "fosite_ErrDataNotFound = ErrVar ''fositemongo.ErrDataNotFound'' ''data not found''"
definition ErrJTIKnown :: go_error where
  "ErrJTIKnown = ErrVar ''fosite.ErrJTIKnown'' ''jti_known''"

definition defaultTTL :: int where
  "defaultTTL = 24 * 60 * 60 * 1000000000"

record 'r generic_doc =
  gd_Record :: 'r
  gd_LookupID :: string
  gd_ExpireAt :: "int option"

record fosite_client =
  fc_ID :: string
  fc_Secret :: string
  fc_RotatedSecrets :: "string list"
  fc_RedirectURIs :: "string list"
  fc_GrantTypes :: "string list"
  fc_ResponseTypes :: "string list"
  fc_Scopes :: "string list"
  fc_Audience :: "string list"
  fc_Public :: bool

definition getGrantTypes :: "fosite_client \<Rightarrow> string list" where
  "getGrantTypes c = (if fc_GrantTypes c = [] then [''authorization_code''] else fc_GrantTypes c)"

definition getResponseTypes :: "fosite_client \<Rightarrow> string list" where
  "getResponseTypes c = (if fc_ResponseTypes c = [] then [''code''] else fc_ResponseTypes c)"

type_synonym values_map = "(string \<times> string list) list"

record session_record =
  sr_ID :: string
  sr_RequestedAt :: int
  sr_RequestedScope :: "string list"
  sr_GrantedScope :: "string list"
  sr_Form :: values_map
  sr_RequestedAudience :: "string list"
  sr_GrantedAudience :: "string list"
  sr_Lang :: string
  sr_ClientID :: string
  sr_SessionExtra :: fields

record par_record =
  pa_ResponseTypes :: "string list"
  pa_RedirectURI :: string
  pa_State :: string
  pa_HandledResponseTypes :: "string list"
  pa_ResponseMode :: string
  pa_DefaultResponseMode :: string
  pa_ClientID :: string

text \<open>\<open>fosite.Request\<close> and \<open>fosite.AuthorizeRequest\<close>. The session is its \<open>Extra\<close> map, if it is a
  \<open>DefaultSession\<close>.\<close>

record fosite_request =
  fr_ID :: string
  fr_RequestedAt :: int
  fr_Client :: fosite_client
  fr_RequestedScope :: "string list"
  fr_GrantedScope :: "string list"
  fr_Form :: values_map
  fr_Session :: "fields option"
  fr_RequestedAudience :: "string list"
  fr_GrantedAudience :: "string list"
  fr_Lang :: string

record authorize_request =
  fa_ResponseTypes :: "string list"
  fa_RedirectURI :: string
  fa_State :: string
  fa_HandledResponseTypes :: "string list"
  fa_ResponseMode :: string
  fa_DefaultResponseMode :: string
  fa_Request :: fosite_request

definition empty_request :: "fosite_client \<Rightarrow> fosite_request" where
  "empty_request client = \<lparr>fr_ID = [], fr_RequestedAt = 0, fr_Client = client, fr_RequestedScope = [], fr_GrantedScope = [],
     fr_Form = [], fr_Session = None, fr_RequestedAudience = [], fr_GrantedAudience = [], fr_Lang = []\<rparr>"

type_synonym ('c, 'r) gcoll = "('c, 'r generic_doc) coll"

record ('c1, 'c2, 'c3, 'c4) fosite_db =
  fb_clients :: "('c1, fosite_client) gcoll"
  fb_par :: "('c2, par_record) gcoll"
  fb_authCode :: "('c3, session_record) gcoll"
  fb_pkce :: "('c3, session_record) gcoll"
  fb_refresh :: "('c3, session_record) gcoll"
  fb_access :: "('c3, session_record) gcoll"
  fb_jtis :: "('c4, string) gcoll"

datatype session_kind = AuthCode | Pkce | RefreshToken | AccessToken

fun fb_sessions :: "session_kind \<Rightarrow> ('c1, 'c2, 'c3, 'c4) fosite_db \<Rightarrow> ('c3, session_record) gcoll" where
  "fb_sessions AuthCode db = fb_authCode db"
| "fb_sessions Pkce db = fb_pkce db"
| "fb_sessions RefreshToken db = fb_refresh db"
| "fb_sessions AccessToken db = fb_access db"

fun with_sessions :: "session_kind \<Rightarrow> ('c3, session_record) gcoll \<Rightarrow> ('c1, 'c2, 'c3, 'c4) fosite_db \<Rightarrow> ('c1, 'c2, 'c3, 'c4) fosite_db" where
  "with_sessions AuthCode s db = db\<lparr>fb_authCode := s\<rparr>"
| "with_sessions Pkce s db = db\<lparr>fb_pkce := s\<rparr>"
| "with_sessions RefreshToken s db = db\<lparr>fb_refresh := s\<rparr>"
| "with_sessions AccessToken s db = db\<lparr>fb_access := s\<rparr>"

abbreviation on_sessions where
  "on_sessions k f db \<equiv> lift_op (fb_sessions k) (with_sessions k) f db"

subsection \<open>Reading and writing documents\<close>

definition getInternal :: "string \<Rightarrow> int \<Rightarrow> ('c, 'r) gcoll \<Rightarrow> 'r res \<times> ('c, 'r) gcoll" where
  "getInternal lookupID now s =
     (case c_find (\<lambda>_ d. gd_LookupID d = lookupID) s of
        (Ok (_, d), s) \<Rightarrow>
          (case gd_ExpireAt d of
             Some e \<Rightarrow> if e < now then (Err fosite_ErrDataNotFound, s) else (Ok (gd_Record d), s)
           | None \<Rightarrow> (Ok (gd_Record d), s))
      | (Err e, s) \<Rightarrow> if err_is e ErrNoDocuments then (Err fosite_ErrDataNotFound, s) else (Err e, s)
      | (Panic p, s) \<Rightarrow> (Panic p, s))"

definition insertDoc :: "string \<Rightarrow> 'r \<Rightarrow> int option \<Rightarrow> ('c, 'r) gcoll \<Rightarrow> string res \<times> ('c, 'r) gcoll" where
  "insertDoc lookupID r expireAt s = c_insert None \<lparr>gd_Record = r, gd_LookupID = lookupID, gd_ExpireAt = expireAt\<rparr> s"

definition deleteDoc :: "string \<Rightarrow> ('c, 'r) gcoll \<Rightarrow> unit res \<times> ('c, 'r) gcoll" where
  "deleteDoc lookupID s = andthen (c_delete (\<lambda>_ d. gd_LookupID d = lookupID) s) (\<lambda>_ s. (Ok (), s))"

text \<open>The unique index on \<open>_lookupId\<close> and the TTL index of \<open>migrate\<close>, which the access token collection is
  not given.\<close>

definition lookup_clash :: "'r generic_doc clash" where
  "lookup_clash x y \<longleftrightarrow> gd_LookupID x = gd_LookupID y"

definition ttlSweep :: "int \<Rightarrow> ('c, 'r) gcoll \<Rightarrow> ('c, 'r) gcoll" where
  "ttlSweep now s = snd (c_delete (\<lambda>_ d. \<exists>e. gd_ExpireAt d = Some e \<and> e < now) s)"

fun session_clash :: "session_kind \<Rightarrow> session_record generic_doc clash" where
  "session_clash AccessToken = no_clash"
| "session_clash _ = lookup_clash"

subsection \<open>Clients and client assertions\<close>

definition getClient :: "string \<Rightarrow> int \<Rightarrow> ('c1, 'c2, 'c3, 'c4) fosite_db \<Rightarrow> fosite_client res \<times> ('c1, 'c2, 'c3, 'c4) fosite_db" where
  "getClient i now = lift_op fb_clients (\<lambda>s db. db\<lparr>fb_clients := s\<rparr>) (getInternal i now)"

definition insertClient :: "fosite_client \<Rightarrow> ('c1, 'c2, 'c3, 'c4) fosite_db \<Rightarrow> string res \<times> ('c1, 'c2, 'c3, 'c4) fosite_db" where
  "insertClient client = lift_op fb_clients (\<lambda>s db. db\<lparr>fb_clients := s\<rparr>) (insertDoc (fc_ID client) client None)"

definition clientAssertionJWTValid :: "string \<Rightarrow> int \<Rightarrow> ('c1, 'c2, 'c3, 'c4) fosite_db \<Rightarrow> unit res \<times> ('c1, 'c2, 'c3, 'c4) fosite_db" where
  "clientAssertionJWTValid jti now db =
     (case lift_op fb_jtis (\<lambda>s db. db\<lparr>fb_jtis := s\<rparr>) (getInternal jti now) db of
        (Err e, db) \<Rightarrow> if err_is e fosite_ErrDataNotFound then (Ok (), db) else (Err ErrJTIKnown, db)
      | (Ok _, db) \<Rightarrow> (Err ErrJTIKnown, db)
      | (Panic p, db) \<Rightarrow> (Panic p, db))"

definition setClientAssertionJWT :: "string \<Rightarrow> int \<Rightarrow> ('c1, 'c2, 'c3, 'c4) fosite_db \<Rightarrow> unit res \<times> ('c1, 'c2, 'c3, 'c4) fosite_db" where
  "setClientAssertionJWT jti expiry db =
     andthen (lift_op fb_jtis (\<lambda>s db. db\<lparr>fb_jtis := s\<rparr>) (insertDoc jti jti (Some expiry)) db) (\<lambda>_ db. (Ok (), db))"

subsection \<open>Sessions\<close>

definition clone_of :: "fosite_request \<Rightarrow> fields \<Rightarrow> session_record" where
  "clone_of mapped extra = \<lparr>sr_ID = fr_ID mapped, sr_RequestedAt = fr_RequestedAt mapped, sr_RequestedScope = fr_RequestedScope mapped,
     sr_GrantedScope = fr_GrantedScope mapped, sr_Form = fr_Form mapped, sr_RequestedAudience = fr_RequestedAudience mapped,
     sr_GrantedAudience = fr_GrantedAudience mapped, sr_Lang = fr_Lang mapped, sr_ClientID = fc_ID (fr_Client mapped),
     sr_SessionExtra = extra\<rparr>"

text \<open>\<open>requester\<close> is \<open>None\<close> if it is not a \<open>*fosite.Request\<close>.\<close>

definition createSession ::
  "session_kind \<Rightarrow> string \<Rightarrow> fosite_request option \<Rightarrow> int \<Rightarrow> int \<Rightarrow> ('c1, 'c2, 'c3, 'c4) fosite_db \<Rightarrow> unit res \<times> ('c1, 'c2, 'c3, 'c4) fosite_db" where
  "createSession k lookupID requester ttl now db =
     (case requester of
        None \<Rightarrow> (Err (ErrMsg ''expected record of type *fosite.Request''), db)
      | Some mapped \<Rightarrow>
          (case fr_Session mapped of
             None \<Rightarrow> (Panic TypeAssertion, db)
           | Some extra \<Rightarrow>
               andthen (on_sessions k (insertDoc lookupID (clone_of mapped extra) (if ttl > 0 then Some (now + ttl) else None)) db)
                 (\<lambda>_ db. (Ok (), db))))"

definition merge_extra :: "fields \<Rightarrow> fields \<Rightarrow> fields" where
  "merge_extra stored extra = fold (\<lambda>(k, v). fput k v) stored extra"

definition request_of :: "session_record \<Rightarrow> fosite_client \<Rightarrow> fields \<Rightarrow> fosite_request" where
  "request_of resp client extra = \<lparr>fr_ID = sr_ID resp, fr_RequestedAt = sr_RequestedAt resp, fr_Client = client,
     fr_RequestedScope = sr_RequestedScope resp, fr_GrantedScope = sr_GrantedScope resp, fr_Form = sr_Form resp,
     fr_Session = Some extra, fr_RequestedAudience = sr_RequestedAudience resp, fr_GrantedAudience = sr_GrantedAudience resp,
     fr_Lang = []\<rparr>"

text \<open>\<open>session\<close> is the \<open>Extra\<close> map of the caller's session, into which the stored one is merged.\<close>

definition getSession ::
  "session_kind \<Rightarrow> string \<Rightarrow> fields option \<Rightarrow> (nat \<Rightarrow> int) \<Rightarrow> ('c1, 'c2, 'c3, 'c4) fosite_db
     \<Rightarrow> fosite_request res \<times> ('c1, 'c2, 'c3, 'c4) fosite_db" where
  "getSession k lookupID session clock db =
     andthen (on_sessions k (getInternal lookupID (clock 0)) db) (\<lambda>resp db.
     (case session of
        None \<Rightarrow> (Panic TypeAssertion, db)
      | Some extra \<Rightarrow>
          andthen (getClient (sr_ClientID resp) (clock 1) db) (\<lambda>client db.
          (Ok (request_of resp client (merge_extra (sr_SessionExtra resp) extra)), db))))"

definition deleteSession :: "session_kind \<Rightarrow> string \<Rightarrow> ('c1, 'c2, 'c3, 'c4) fosite_db \<Rightarrow> unit res \<times> ('c1, 'c2, 'c3, 'c4) fosite_db" where
  "deleteSession k lookupID = on_sessions k (deleteDoc lookupID)"

definition revokeSession :: "session_kind \<Rightarrow> string \<Rightarrow> ('c1, 'c2, 'c3, 'c4) fosite_db \<Rightarrow> unit res \<times> ('c1, 'c2, 'c3, 'c4) fosite_db" where
  "revokeSession k requestID =
     on_sessions k (\<lambda>s. andthen (c_delete (\<lambda>_ d. sr_ID (gd_Record d) = requestID) s) (\<lambda>_ s. (Ok (), s)))"

text \<open>The methods of the provider's storage interfaces.\<close>

definition createAuthorizeCodeSession where "createAuthorizeCodeSession code r = createSession AuthCode code r defaultTTL"
definition getAuthorizeCodeSession where "getAuthorizeCodeSession = getSession AuthCode"
definition invalidateAuthorizeCodeSession where "invalidateAuthorizeCodeSession = deleteSession AuthCode"
definition createPKCERequestSession where "createPKCERequestSession signature r = createSession Pkce signature r defaultTTL"
definition getPKCERequestSession where "getPKCERequestSession = getSession Pkce"
definition deletePKCERequestSession where "deletePKCERequestSession = deleteSession Pkce"
definition createRefreshTokenSession where "createRefreshTokenSession signature r = createSession RefreshToken signature r defaultTTL"
definition getRefreshTokenSession where "getRefreshTokenSession = getSession RefreshToken"
definition deleteRefreshTokenSession where "deleteRefreshTokenSession = deleteSession RefreshToken"
definition revokeRefreshToken where "revokeRefreshToken = revokeSession RefreshToken"
definition createAccessTokenSession where "createAccessTokenSession signature r = createSession AccessToken signature r defaultTTL"
definition getAccessTokenSession where "getAccessTokenSession = getSession AccessToken"
definition deleteAccessTokenSession where "deleteAccessTokenSession = deleteSession AccessToken"
definition revokeAccessToken where "revokeAccessToken = revokeSession AccessToken"

definition revokeRefreshTokenMaybeGracePeriod ::
  "string \<Rightarrow> string \<Rightarrow> ('c1, 'c2, 'c3, 'c4) fosite_db \<Rightarrow> unit res \<times> ('c1, 'c2, 'c3, 'c4) fosite_db" where
  "revokeRefreshTokenMaybeGracePeriod requestID signature db =
     andthen (revokeRefreshToken requestID db) (\<lambda>_ db. deleteRefreshTokenSession signature db)"

subsection \<open>Pushed authorization requests\<close>

definition createPARSession ::
  "string \<Rightarrow> authorize_request option \<Rightarrow> int \<Rightarrow> ('c1, 'c2, 'c3, 'c4) fosite_db \<Rightarrow> unit res \<times> ('c1, 'c2, 'c3, 'c4) fosite_db" where
  "createPARSession requestURI request now db =
     (case request of
        None \<Rightarrow> (Err (ErrMsg ''expected record of type *fosite.AuthorizeRequest''), db)
      | Some mapped \<Rightarrow>
          andthen (lift_op fb_par (\<lambda>s db. db\<lparr>fb_par := s\<rparr>)
              (insertDoc requestURI \<lparr>pa_ResponseTypes = fa_ResponseTypes mapped, pa_RedirectURI = fa_RedirectURI mapped,
                 pa_State = fa_State mapped, pa_HandledResponseTypes = fa_HandledResponseTypes mapped,
                 pa_ResponseMode = fa_ResponseMode mapped, pa_DefaultResponseMode = fa_DefaultResponseMode mapped,
                 pa_ClientID = fc_ID (fr_Client (fa_Request mapped))\<rparr> (Some (now + defaultTTL))) db)
            (\<lambda>_ db. (Ok (), db)))"

definition getPARSession ::
  "string \<Rightarrow> (nat \<Rightarrow> int) \<Rightarrow> ('c1, 'c2, 'c3, 'c4) fosite_db \<Rightarrow> authorize_request res \<times> ('c1, 'c2, 'c3, 'c4) fosite_db" where
  "getPARSession requestURI clock db =
     andthen (lift_op fb_par (\<lambda>s db. db\<lparr>fb_par := s\<rparr>) (getInternal requestURI (clock 0)) db) (\<lambda>resp db.
     andthen (getClient (pa_ClientID resp) (clock 1) db) (\<lambda>client db.
     (Ok \<lparr>fa_ResponseTypes = pa_ResponseTypes resp, fa_RedirectURI = pa_RedirectURI resp, fa_State = pa_State resp,
          fa_HandledResponseTypes = pa_HandledResponseTypes resp, fa_ResponseMode = pa_ResponseMode resp,
          fa_DefaultResponseMode = pa_DefaultResponseMode resp, fa_Request = empty_request client\<rparr>, db)))"

definition deletePARSession :: "string \<Rightarrow> ('c1, 'c2, 'c3, 'c4) fosite_db \<Rightarrow> unit res \<times> ('c1, 'c2, 'c3, 'c4) fosite_db" where
  "deletePARSession requestURI = lift_op fb_par (\<lambda>s db. db\<lparr>fb_par := s\<rparr>) (deleteDoc requestURI)"

subsection \<open>The contract of a collection\<close>

text \<open>\<open>stored s l r e\<close>: a document \<open>r\<close> is held under \<open>l\<close>, until \<open>e\<close> if it expires.\<close>

definition alive :: "int \<Rightarrow> int option \<Rightarrow> bool" where
  "alive now e \<longleftrightarrow> (\<forall>t. e = Some t \<longrightarrow> now \<le> t)"

locale lookup_store =
  fixes ins :: "string \<Rightarrow> 'r \<Rightarrow> int option \<Rightarrow> 's \<Rightarrow> string res \<times> 's"
    and get :: "string \<Rightarrow> int \<Rightarrow> 's \<Rightarrow> 'r res \<times> 's"
    and del :: "string \<Rightarrow> 's \<Rightarrow> unit res \<times> 's"
    and sweep :: "int \<Rightarrow> 's \<Rightarrow> 's"
    and inv :: "'s \<Rightarrow> bool"
    and stored :: "'s \<Rightarrow> string \<Rightarrow> 'r \<Rightarrow> int option \<Rightarrow> bool"
  assumes ins_law: "inv s \<Longrightarrow> ins l r e s = (q, s') \<Longrightarrow> inv s'
      \<and> (\<forall>l' r' e'. stored s l' r' e' \<longrightarrow> stored s' l' r' e') \<and> (\<forall>l' r' e'. stored s' l' r' e' \<longrightarrow> l' \<noteq> l \<longrightarrow> stored s l' r' e')
      \<and> (is_ok q \<longrightarrow> stored s' l r e)"
    and get_law: "inv s \<Longrightarrow> get l now s = (rr, s') \<Longrightarrow> inv s' \<and> stored s' = stored s \<and>
      (case rr of Ok r \<Rightarrow> (\<exists>e. stored s l r e \<and> alive now e)
       | Err er \<Rightarrow> driver_err er \<or> er = fosite_ErrDataNotFound \<and> (\<forall>r e. stored s l r e \<longrightarrow> \<not> alive now e)
       | Panic _ \<Rightarrow> False)"
    and del_law: "inv s \<Longrightarrow> del l s = (u, s') \<Longrightarrow> inv s' \<and> (\<forall>l' r e. stored s' l' r e \<longrightarrow> stored s l' r e)
      \<and> (\<forall>l' r e. stored s l' r e \<longrightarrow> l' \<noteq> l \<longrightarrow> stored s' l' r e) \<and> (u = Ok () \<longrightarrow> (\<forall>r e. \<not> stored s' l r e))"
    and sweep_law: "inv s \<Longrightarrow> inv (sweep now s) \<and> (\<forall>l r e. stored (sweep now s) l r e \<longrightarrow> stored s l r e)
      \<and> (\<forall>l r e. stored s l r e \<longrightarrow> alive now e \<longrightarrow> stored (sweep now s) l r e)"
    and one_stored: "inv s \<Longrightarrow> stored s l r e \<Longrightarrow> stored s l r' e' \<Longrightarrow> r' = r \<and> e' = e"
begin

lemma get_stored:
  assumes "inv s" "stored s l r e" "alive now e" "get l now s = (q, s')"
  shows "q = Ok r \<or> (\<exists>er. q = Err er \<and> driver_err er)"
proof (cases q)
  case (Ok r')
  then obtain e' where "stored s l r' e'" using get_law [OF assms(1,4)] by auto
  then show ?thesis using one_stored [OF assms(1,2)] Ok by blast
next
  case (Err er)
  then show ?thesis using get_law [OF assms(1,4)] assms(2,3) by auto
next
  case (Panic p)
  then show ?thesis using get_law [OF assms(1,4)] by simp
qed

lemma get_absent:
  assumes "inv s" "\<forall>r e. \<not> stored s l r e" "get l now s = (q, s')"
  shows "\<exists>er. q = Err er \<and> (er = fosite_ErrDataNotFound \<or> driver_err er)"
  using get_law [OF assms(1,3)] assms(2) by (cases q) auto

end

subsection \<open>Collections with the unique index satisfy it\<close>

definition gcoll_ok :: "('c, 'r) gcoll \<Rightarrow> bool" where
  "gcoll_ok s \<longleftrightarrow> coll_ok lookup_clash s \<and>
     (\<forall>i j m n. docs s i = Some m \<longrightarrow> docs s j = Some n \<longrightarrow> gd_LookupID m = gd_LookupID n \<longrightarrow> i = j)"

definition gstored :: "('c, 'r) gcoll \<Rightarrow> string \<Rightarrow> 'r \<Rightarrow> int option \<Rightarrow> bool" where
  "gstored s l r e \<longleftrightarrow> (\<exists>i. docs s i = Some \<lparr>gd_Record = r, gd_LookupID = l, gd_ExpireAt = e\<rparr>)"

lemma gstored_same: "docs s' = docs s \<Longrightarrow> gstored s' = gstored s"
  by (simp add: gstored_def fun_eq_iff)

lemma gstored_doc: "docs s i = Some m \<Longrightarrow> gstored s (gd_LookupID m) (gd_Record m) (gd_ExpireAt m)"
  unfolding gstored_def by (intro exI [of _ i], cases m) simp

lemma gcoll_one: "gcoll_ok s \<Longrightarrow> gstored s l r e \<Longrightarrow> gstored s l r' e' \<Longrightarrow> r' = r \<and> e' = e"
  unfolding gcoll_ok_def gstored_def by fastforce

lemma insertDoc_eff:
  fixes s :: "('c, 'r) gcoll"
  assumes "gcoll_ok s" "insertDoc l r e s = (q, s')"
  shows "gcoll_ok s' \<and> (\<forall>l' r' e'. gstored s l' r' e' \<longrightarrow> gstored s' l' r' e')
      \<and> (\<forall>l' r' e'. gstored s' l' r' e' \<longrightarrow> l' \<noteq> l \<longrightarrow> gstored s l' r' e') \<and> (is_ok q \<longrightarrow> gstored s' l r e)"
proof -
  let ?d = "\<lparr>gd_Record = r, gd_LookupID = l, gd_ExpireAt = e\<rparr> :: 'r generic_doc"
  have ok: "coll_ok lookup_clash s" and un: "\<And>i j m n. docs s i = Some m \<Longrightarrow> docs s j = Some n \<Longrightarrow> gd_LookupID m = gd_LookupID n \<Longrightarrow> i = j"
    using assms(1) unfolding gcoll_ok_def by blast+
  have c: "c_insert None ?d s = (q, s')" using assms(2) by (simp add: insertDoc_def)
  have ok': "coll_ok lookup_clash s'" using coll_ok_after(1) [OF c] ok by simp
  have new: ?thesis if n: "docs s i = None" "free_for lookup_clash (docs s) i ?d" "docs s' = (docs s)(i \<mapsto> ?d)" for i
  proof -
    have f: "gd_LookupID m \<noteq> l" if "docs s j = Some m" for j m
      using n(1,2) that unfolding free_for_def lookup_clash_def by (metis generic_doc.select_convs(2) option.distinct(1))
    have "gcoll_ok s'" using ok' un f unfolding gcoll_ok_def n(3) by (auto split: if_splits; metis)
    moreover have "gstored s' l' r' e'" if k: "gstored s l' r' e'" for l' r' e'
    proof -
      obtain j where "docs s j = Some \<lparr>gd_Record = r', gd_LookupID = l', gd_ExpireAt = e'\<rparr>" using k by (auto simp: gstored_def)
      then show ?thesis using n(1) unfolding gstored_def n(3) by (intro exI [of _ j]) auto
    qed
    ultimately show ?thesis unfolding gstored_def n(3) by (auto split: if_splits)
  qed
  have same: ?thesis if "docs s' = docs s" "\<not> is_ok q"
    using assms(1) ok' that gstored_same [OF that(1)] by (simp add: gcoll_ok_def)
  from ok c show ?thesis
  proof (cases rule: c_insert_cases)
    case (ok i)
    show ?thesis by (rule new [OF ok(2,5,6)])
  next
    case (dup er)
    show ?thesis by (rule same [OF dup(3)]) (simp add: dup(1))
  next
    case (unapplied er)
    show ?thesis by (rule same [OF unapplied(3)]) (simp add: unapplied(1))
  next
    case (applied er i)
    show ?thesis by (rule new [OF applied(3,5,6)])
  qed
qed

lemma getInternal_eff:
  assumes "gcoll_ok s" "getInternal l now s = (q, s')"
  shows "gcoll_ok s' \<and> gstored s' = gstored s \<and>
      (case q of Ok r \<Rightarrow> (\<exists>e. gstored s l r e \<and> alive now e)
       | Err er \<Rightarrow> driver_err er \<or> er = fosite_ErrDataNotFound \<and> (\<forall>r e. gstored s l r e \<longrightarrow> \<not> alive now e)
       | Panic _ \<Rightarrow> False)"
proof -
  obtain u where c: "c_find (\<lambda>_ d. gd_LookupID d = l) s = (u, s')"
    using assms(2) by (auto simp: getInternal_def split: prod.splits res.splits option.splits if_splits)
  have ok: "coll_ok lookup_clash s" using assms(1) by (simp add: gcoll_ok_def)
  have inv: "gcoll_ok s' \<and> gstored s' = gstored s" if "docs s' = docs s"
    using assms(1) coll_ok_after(2) [OF c] that gstored_same [OF that] by (simp add: gcoll_ok_def)
  from ok c show ?thesis
  proof (cases rule: c_find_cases)
    case (ok i m)
    have st: "gstored s l (gd_Record m) (gd_ExpireAt m)" using gstored_doc [OF ok(2)] ok(3) by simp
    have q: "q = (if alive now (gd_ExpireAt m) then Ok (gd_Record m) else Err fosite_ErrDataNotFound)"
      using assms(2) c ok(1) by (cases "gd_ExpireAt m") (auto simp: getInternal_def alive_def split: if_splits)
    show ?thesis
    proof (cases "alive now (gd_ExpireAt m)")
      case True
      then show ?thesis using q inv [OF ok(4)] st by auto
    next
      case False
      have "\<not> alive now e" if "gstored s l r e" for r e
        using gcoll_one [OF assms(1) st that] False by simp
      then show ?thesis using q inv [OF ok(4)] False by simp
    qed
  next
    case (none e)
    have "\<not> gstored s l r x" for r x using none(3) by (fastforce simp: gstored_def)
    then show ?thesis using assms(2) c none inv by (auto simp: getInternal_def)
  next
    case (failed e)
    then show ?thesis using assms(2) c inv by (auto simp: getInternal_def)
  qed
qed

text \<open>A deletion removes at most one document, one that matches.\<close>

lemma c_delete_eff:
  assumes "gcoll_ok s" "c_delete P s = (q, s')"
  shows "gcoll_ok s' \<and> (docs s' = docs s \<or> (\<exists>i m. docs s i = Some m \<and> P i m \<and> docs s' = (docs s)(i := None)))
    \<and> (is_ok q \<longrightarrow> docs s' = docs s \<longrightarrow> (\<forall>i m. docs s i = Some m \<longrightarrow> \<not> P i m))"
proof -
  have ok: "coll_ok lookup_clash s" using assms(1) by (simp add: gcoll_ok_def)
  have c: "docs s' = docs s \<or> (\<exists>i m. docs s i = Some m \<and> P i m \<and> docs s' = (docs s)(i := None))"
    using ok assms(2) by (cases rule: c_delete_cases) blast+
  moreover have "is_ok q \<longrightarrow> docs s' = docs s \<longrightarrow> (\<forall>i m. docs s i = Some m \<longrightarrow> \<not> P i m)"
    using ok assms(2)
  proof (cases rule: c_delete_cases)
    case (one n i x)
    then have "docs s' i \<noteq> docs s i" by simp
    then show ?thesis by metis
  qed auto
  moreover have "coll_ok lookup_clash s'" using coll_ok_after(5) [OF assms(2)] ok by simp
  then have "gcoll_ok s'" using assms(1) c by (auto simp: gcoll_ok_def split: if_splits)
  ultimately show ?thesis by blast
qed

lemma gstored_removed:
  assumes "docs s i = Some m" "docs s' = (docs s)(i := None)"
  shows "gstored s' l r e \<Longrightarrow> gstored s l r e"
    and "gstored s l r e \<Longrightarrow> \<lparr>gd_Record = r, gd_LookupID = l, gd_ExpireAt = e\<rparr> \<noteq> m \<Longrightarrow> gstored s' l r e"
proof -
  show "gstored s' l r e \<Longrightarrow> gstored s l r e" unfolding gstored_def assms(2) by (auto split: if_splits)
  assume "gstored s l r e" "\<lparr>gd_Record = r, gd_LookupID = l, gd_ExpireAt = e\<rparr> \<noteq> m"
  then obtain j where "docs s j = Some \<lparr>gd_Record = r, gd_LookupID = l, gd_ExpireAt = e\<rparr>" "j \<noteq> i"
    using assms(1) unfolding gstored_def by (metis option.inject)
  then show "gstored s' l r e" unfolding gstored_def assms(2) by (intro exI [of _ j]) simp
qed

interpretation gs: lookup_store insertDoc getInternal deleteDoc ttlSweep gcoll_ok gstored
proof unfold_locales
  fix s s' :: "('c, 'r) gcoll" and l u
  assume a: "gcoll_ok s" "deleteDoc l s = (u, s')"
  obtain q where c: "c_delete (\<lambda>_ d. gd_LookupID d = l) s = (q, s')" "u = Ok () \<longrightarrow> is_ok q"
    using a(2) by (cases "c_delete (\<lambda>_ d. gd_LookupID d = l) s"; cases "fst (c_delete (\<lambda>_ d. gd_LookupID d = l) s)")
      (auto simp: deleteDoc_def)
  note D = c_delete_eff [OF a(1) c(1)]
  show "gcoll_ok s' \<and> (\<forall>l' r e. gstored s' l' r e \<longrightarrow> gstored s l' r e)
      \<and> (\<forall>l' r e. gstored s l' r e \<longrightarrow> l' \<noteq> l \<longrightarrow> gstored s' l' r e) \<and> (u = Ok () \<longrightarrow> (\<forall>r e. \<not> gstored s' l r e))"
  proof (cases "docs s' = docs s")
    case True
    then show ?thesis using D c(2) gstored_same [OF True] by (fastforce simp: gstored_def)
  next
    case False
    then obtain i m where m: "docs s i = Some m" "gd_LookupID m = l" "docs s' = (docs s)(i := None)" using D by blast
    have "\<not> gstored s' l r e" for r e
      using gcoll_one [OF a(1)] gstored_doc [OF m(1)] m gstored_removed(1) [OF m(1,3), of l r e] a(1)
      unfolding gstored_def gcoll_ok_def by (auto split: if_splits)
    moreover have "gstored s' l' r e" if "gstored s l' r e" "l' \<noteq> l" for l' r e
      using gstored_removed(2) [OF m(1,3) that(1)] that(2) m(2) by (metis generic_doc.select_convs(2))
    ultimately show ?thesis using D gstored_removed(1) [OF m(1,3)] by blast
  qed
next
  fix s :: "('c, 'r) gcoll" and now
  assume a: "gcoll_ok s"
  obtain q s' where c: "c_delete (\<lambda>_ d. \<exists>e. gd_ExpireAt d = Some e \<and> e < now) s = (q, s')" by fastforce
  note D = c_delete_eff [OF a c]
  have "gcoll_ok s' \<and> (\<forall>l r e. gstored s' l r e \<longrightarrow> gstored s l r e) \<and> (\<forall>l r e. gstored s l r e \<longrightarrow> alive now e \<longrightarrow> gstored s' l r e)"
  proof (cases "docs s' = docs s")
    case True
    then show ?thesis using D gstored_same [OF True] by simp
  next
    case False
    then obtain i m e where m: "docs s i = Some m" "gd_ExpireAt m = Some e" "e < now" "docs s' = (docs s)(i := None)" using D by blast
    have "gstored s' l r x" if "gstored s l r x" "alive now x" for l r x
    proof -
      have "x \<noteq> Some e" using that(2) m(3) by (auto simp: alive_def)
      then show ?thesis using gstored_removed(2) [OF m(1,4) that(1)] m(2) by (metis generic_doc.select_convs(3))
    qed
    then show ?thesis using D gstored_removed(1) [OF m(1,4)] by blast
  qed
  then show "gcoll_ok (ttlSweep now s) \<and> (\<forall>l r e. gstored (ttlSweep now s) l r e \<longrightarrow> gstored s l r e)
      \<and> (\<forall>l r e. gstored s l r e \<longrightarrow> alive now e \<longrightarrow> gstored (ttlSweep now s) l r e)"
    using c by (simp add: ttlSweep_def)
qed (rule insertDoc_eff getInternal_eff gcoll_one, assumption+)+

subsection \<open>The life of an authorization code\<close>

text \<open>What other requests do to the collection of codes: they store, read and remove other codes, and the
  server sweeps expired documents, none that live until \<open>e\<close>.\<close>

inductive other_codes :: "string \<Rightarrow> int \<Rightarrow> ('c, 'r) gcoll \<Rightarrow> ('c, 'r) gcoll \<Rightarrow> bool" for code e where
  same: "other_codes code e s s"
| created: "other_codes code e s s1 \<Longrightarrow> l \<noteq> code \<Longrightarrow> insertDoc l r x s1 = (q, s2) \<Longrightarrow> other_codes code e s s2"
| read: "other_codes code e s s1 \<Longrightarrow> getInternal l now s1 = (rr, s2) \<Longrightarrow> other_codes code e s s2"
| removed: "other_codes code e s s1 \<Longrightarrow> l \<noteq> code \<Longrightarrow> deleteDoc l s1 = (u, s2) \<Longrightarrow> other_codes code e s s2"
| swept: "other_codes code e s s1 \<Longrightarrow> now \<le> e \<Longrightarrow> other_codes code e s (ttlSweep now s1)"

lemma other_codes_keep:
  "other_codes code e s s' \<Longrightarrow> gcoll_ok s \<Longrightarrow> gcoll_ok s' \<and> (gstored s code r (Some e) \<longrightarrow> gstored s' code r (Some e))
     \<and> ((\<forall>r x. \<not> gstored s code r x) \<longrightarrow> (\<forall>r x. \<not> gstored s' code r x))"
proof (induction rule: other_codes.induct)
  case (created s s1 l r x q s2)
  then show ?case using gs.ins_law [OF _ created.hyps(3)] by metis
next
  case (read s s1 l now rr s2)
  then show ?case using gs.get_law [OF _ read.hyps(2)] by simp
next
  case (removed s s1 l u s2)
  then show ?case using gs.del_law [OF _ removed.hyps(3)] by metis
next
  case (swept s s1 now)
  have "alive now (Some e)" using swept.hyps(2) by (simp add: alive_def)
  then show ?case using swept gs.sweep_law [of s1 now] by metis
qed simp

lemma on_authCode: "on_sessions AuthCode f db = (q, db') \<longleftrightarrow> (\<exists>s. f (fb_authCode db) = (q, s) \<and> db' = db\<lparr>fb_authCode := s\<rparr>)"
  by (auto simp: lift_op_def prod_eq_iff)


subsection \<open>A concrete code\<close>

definition demo_client :: fosite_client where
  "demo_client = \<lparr>fc_ID = ''cl'', fc_Secret = [], fc_RotatedSecrets = [], fc_RedirectURIs = [], fc_GrantTypes = [], fc_ResponseTypes = [],
     fc_Scopes = [], fc_Audience = [], fc_Public = True\<rparr>"

definition demo_request :: fosite_request where
  "demo_request = (empty_request demo_client)\<lparr>fr_ID := ''r'', fr_Session := Some [(''opState'', JStr ''s'')], fr_Lang := ''en''\<rparr>"

lemma demo_collection:
  "\<exists>s1 s2. insertDoc l r x (mem_coll lookup_clash [] []) = (Ok ''1'', s1) \<and> deleteDoc l s1 = (Ok (), s2)"
  "\<exists>s1 s2. insertDoc l r None (mem_coll lookup_clash [] []) = (Ok ''1'', s1) \<and> getInternal l 7 s1 = (Ok r, s2)"
  "\<exists>s1 s2. insertDoc l r (Some (3 + defaultTTL)) (mem_coll lookup_clash [] []) = (Ok ''1'', s1) \<and> getInternal l 7 s1 = (Ok r, s2)"
  by (simp_all add: insertDoc_def deleteDoc_def getInternal_def mem_eval mem_driver_def lookup_clash_def defaultTTL_def eval_nat_numeral)

type_synonym demo_db =
  "(fosite_client generic_doc mem, par_record generic_doc mem, session_record generic_doc mem, string generic_doc mem) fosite_db"


end
