(* ===== verification/Command_Env.thy ===== *)
theory Command_Env
  imports Go_Strings
begin

text \<open>
  \<open>internal/pkg/utils/cmd\<close>: reading a setting from a command line flag or, when the flag was not given,
  from an environment variable. The flag set of the command line library and the environment are the
  record \<open>cmd_env\<close>; the functions on it are the source's.
\<close>

record cmd_env =
  ce_Changed :: "string \<Rightarrow> bool"
  ce_GetString :: "string \<Rightarrow> string res"
  ce_GetStringArray :: "string \<Rightarrow> string list res"
  ce_GetStringSlice :: "string \<Rightarrow> string list res"
  ce_LookupEnv :: "string \<Rightarrow> string option"

definition flag_not_found :: "string \<Rightarrow> go_error \<Rightarrow> go_error" where
  "flag_not_found flagName e = ErrMsg (flagName @ '' flag not found: '' @ err_text e)"

definition empty_setting :: "string \<Rightarrow> go_error" where
  "empty_setting name = ErrMsg (name @ '' value is empty'')"

definition neither_set :: "string \<Rightarrow> string \<Rightarrow> go_error" where
  "neither_set flagName envKey = ErrMsg (''Neither '' @ flagName @ '' (command line flag) nor '' @ envKey @
     '' (environment variable) have been set.'')"

definition getUserSetVarFromString :: "cmd_env \<Rightarrow> string \<Rightarrow> string \<Rightarrow> bool \<Rightarrow> string res" where
  "getUserSetVarFromString e flagName envKey isOptional =
     (if ce_Changed e flagName
      then bindR (mapErr (flag_not_found flagName) (ce_GetString e flagName)) (\<lambda>v.
           if v = [] then Err (empty_setting flagName) else Ok v)
      else (case ce_LookupEnv e envKey of
         Some v \<Rightarrow> if \<not> isOptional \<and> v = [] then Err (empty_setting envKey) else Ok v
       | None \<Rightarrow> if isOptional then Ok [] else Err (neither_set flagName envKey)))"

definition getUserSetVarFromArrayString :: "cmd_env \<Rightarrow> string \<Rightarrow> string \<Rightarrow> bool \<Rightarrow> string list res" where
  "getUserSetVarFromArrayString e flagName envKey isOptional =
     (if ce_Changed e flagName
      then bindR (mapErr (flag_not_found flagName) (ce_GetStringArray e flagName)) (\<lambda>v.
           if v = [] then Err (empty_setting flagName) else Ok v)
      else (case ce_LookupEnv e envKey of
         Some v \<Rightarrow> if \<not> isOptional \<and> v = [] then Err (empty_setting envKey)
                   else if v = [] then Ok [] else Ok (split_on CHR '','' v)
       | None \<Rightarrow> if isOptional then Ok [] else Err (neither_set flagName envKey)))"

definition getUserSetCSVVar :: "cmd_env \<Rightarrow> string \<Rightarrow> string \<Rightarrow> bool \<Rightarrow> string list res" where
  "getUserSetCSVVar e flagName envKey isOptional =
     (if ce_Changed e flagName
      then bindR (mapErr (flag_not_found flagName) (ce_GetStringSlice e flagName)) (\<lambda>v.
           if v = [] then Err (empty_setting flagName) else Ok v)
      else (case ce_LookupEnv e envKey of
         Some v \<Rightarrow> if \<not> isOptional \<and> v = [] then Err (empty_setting envKey)
                   else if v = [] then Ok [] else Ok (split_on CHR '','' v)
       | None \<Rightarrow> if isOptional then Ok [] else Err (neither_set flagName envKey)))"

text \<open>The optional variants drop the error and return the zero value that comes with it.\<close>

fun or_zero :: "'a \<Rightarrow> 'a res \<Rightarrow> 'a res" where
  "or_zero z (Err e) = Ok z"
| "or_zero z r = r"

definition getUserSetOptionalVarFromString :: "cmd_env \<Rightarrow> string \<Rightarrow> string \<Rightarrow> string res" where
  "getUserSetOptionalVarFromString e flagName envKey = or_zero [] (getUserSetVarFromString e flagName envKey True)"

definition getUserSetOptionalVarFromArrayString :: "cmd_env \<Rightarrow> string \<Rightarrow> string \<Rightarrow> string list res" where
  "getUserSetOptionalVarFromArrayString e flagName envKey =
     or_zero [] (getUserSetVarFromArrayString e flagName envKey True)"

definition getUserSetOptionalCSVVar :: "cmd_env \<Rightarrow> string \<Rightarrow> string \<Rightarrow> string list res" where
  "getUserSetOptionalCSVVar e flagName envKey = or_zero [] (getUserSetCSVVar e flagName envKey True)"

subsection \<open>The command line library\<close>

text \<open>The type a flag is registered with. A typed getter of the flag set fails for a flag that is
  registered with another type, none of them panics, and a flag that is not registered is never changed.\<close>

datatype flag_type = StringFlag | StringSliceFlag

definition flag_laws :: "(string \<rightharpoonup> flag_type) \<Rightarrow> cmd_env \<Rightarrow> bool" where
  "flag_laws reg e \<longleftrightarrow>
     (\<forall>n. reg n = None \<longrightarrow> \<not> ce_Changed e n)
     \<and> (\<forall>n. if reg n = Some StringFlag then is_ok (ce_GetString e n) else is_err (ce_GetString e n))
     \<and> (\<forall>n. if reg n = Some StringSliceFlag then is_ok (ce_GetStringSlice e n) else is_err (ce_GetStringSlice e n))
     \<and> (\<forall>n. is_err (ce_GetStringArray e n))"

text \<open>A command line and an environment as association lists: an instance of these laws.\<close>

definition list_env ::
  "(string \<rightharpoonup> flag_type) \<Rightarrow> (string \<times> string) list \<Rightarrow> (string \<times> string list) list \<Rightarrow> (string \<times> string) list \<Rightarrow> cmd_env" where
  "list_env reg strs slices vars =
     \<lparr>ce_Changed = (\<lambda>n. case reg n of
          None \<Rightarrow> False
        | Some StringFlag \<Rightarrow> map_of strs n \<noteq> None
        | Some StringSliceFlag \<Rightarrow> map_of slices n \<noteq> None),
      ce_GetString = (\<lambda>n. if reg n = Some StringFlag then Ok (case map_of strs n of None \<Rightarrow> [] | Some v \<Rightarrow> v)
                          else Err (ErrExt ''flag type'')),
      ce_GetStringArray = (\<lambda>n. Err (ErrExt ''flag type'')),
      ce_GetStringSlice = (\<lambda>n. if reg n = Some StringSliceFlag then Ok (case map_of slices n of None \<Rightarrow> [] | Some v \<Rightarrow> v)
                          else Err (ErrExt ''flag type'')),
      ce_LookupEnv = map_of vars\<rparr>"

lemma list_env_laws [simp]: "flag_laws reg (list_env reg strs slices vars)"
  by (auto simp: flag_laws_def list_env_def)

subsection \<open>What a setting is\<close>

text \<open>The three getters are one scheme: the flag, if it was given, shadows the variable.\<close>

definition user_set ::
  "bool \<Rightarrow> (unit \<Rightarrow> 'a list res) \<Rightarrow> string option \<Rightarrow> (string \<Rightarrow> 'a list) \<Rightarrow> bool \<Rightarrow> 'a list option res" where
  "user_set changed flag var parse isOptional =
     (if changed then bindR (flag ()) (\<lambda>v. Ok (if v = [] then None else Some v))
      else (case var of
              Some v \<Rightarrow> Ok (if v = [] \<and> \<not> isOptional then None else Some (parse v))
            | None \<Rightarrow> Ok (if isOptional then Some (parse []) else None)))"

definition csv :: "string \<Rightarrow> string list" where
  "csv v = (if v = [] then [] else split_on CHR '','' v)"

lemma user_set_string:
  "getUserSetVarFromString e f k opt = Ok v \<longleftrightarrow>
     user_set (ce_Changed e f) (\<lambda>_. ce_GetString e f) (ce_LookupEnv e k) id opt = Ok (Some v)"
  by (auto simp: getUserSetVarFromString_def user_set_def split: option.splits)

lemma user_set_array:
  "getUserSetVarFromArrayString e f k opt = Ok v \<longleftrightarrow>
     user_set (ce_Changed e f) (\<lambda>_. ce_GetStringArray e f) (ce_LookupEnv e k) csv opt = Ok (Some v)"
  by (auto simp: getUserSetVarFromArrayString_def user_set_def csv_def split: option.splits)

lemma user_set_csv:
  "getUserSetCSVVar e f k opt = Ok v \<longleftrightarrow>
     user_set (ce_Changed e f) (\<lambda>_. ce_GetStringSlice e f) (ce_LookupEnv e k) csv opt = Ok (Some v)"
  by (auto simp: getUserSetCSVVar_def user_set_def csv_def split: option.splits)

lemma mandatory_not_empty: "getUserSetVarFromString e f k False = Ok v \<Longrightarrow> v \<noteq> []"
  by (auto simp: getUserSetVarFromString_def split: if_splits option.splits)

lemma optional_unset:
  "\<not> ce_Changed e f \<Longrightarrow> ce_LookupEnv e k = None \<Longrightarrow>
     getUserSetVarFromString e f k True = Ok [] \<and> getUserSetVarFromArrayString e f k True = Ok []
     \<and> getUserSetCSVVar e f k True = Ok []"
  by (simp add: getUserSetVarFromString_def getUserSetVarFromArrayString_def getUserSetCSVVar_def)

lemma no_setting_panics:
  assumes "flag_laws reg e"
  shows "getUserSetVarFromString e f k opt \<noteq> Panic p" "getUserSetCSVVar e f k opt \<noteq> Panic p"
    "getUserSetVarFromArrayString e f k opt \<noteq> Panic p"
proof -
  have p: "ce_GetString e f \<noteq> Panic p" "ce_GetStringSlice e f \<noteq> Panic p" "ce_GetStringArray e f \<noteq> Panic p"
    using assms unfolding flag_laws_def by (metis is_ok.simps(3) is_err.simps(3))+
  show "getUserSetVarFromString e f k opt \<noteq> Panic p"
    using p by (auto simp: getUserSetVarFromString_def bindR_eq_Panic split: option.splits)
  show "getUserSetCSVVar e f k opt \<noteq> Panic p"
    using p by (auto simp: getUserSetCSVVar_def bindR_eq_Panic split: option.splits)
  show "getUserSetVarFromArrayString e f k opt \<noteq> Panic p"
    using p by (auto simp: getUserSetVarFromArrayString_def bindR_eq_Panic split: option.splits)
qed

text \<open>An array getter on a flag of the other type: an optional setting given on the command line is
  silently empty.\<close>

lemma array_flag_lost:
  assumes "flag_laws reg e" "ce_Changed e f"
  shows "getUserSetOptionalVarFromArrayString e f k = Ok []"
proof -
  obtain x where "ce_GetStringArray e f = Err x"
    using assms(1) unfolding flag_laws_def by (metis is_err.elims(2))
  then show ?thesis
    using assms(2) by (simp add: getUserSetOptionalVarFromArrayString_def getUserSetVarFromArrayString_def)
qed

end
