(* ===== verification/Startup_Params.thy ===== *)
theory Startup_Params
  imports Command_Env Kms_Model
begin

text \<open>
  \<open>cmd/vc-rest/startcmd/params.go\<close>: the settings of the server, the flags that are registered for them and
  the start-up parameters read from them. A setting is a value of the datatype \<open>start_flag\<close>; its flag and
  its environment variable are named by two functions.
\<close>

datatype start_flag =
    HostURL | HostURLExternal | UniversalResolverURL | RunMode | DevMode
  | DatabaseType | DatabaseURL | DatabasePrefix
  | ContextProvider | ContextEnableRemote
  | TlsSystemCertPool | TlsCACerts | TlsCertificate | TlsKey
  | ApiToken | RequestTokens | LogLevel
  | OAuthSecret | OAuthClientsFilePath | MetricsProvider | PromHttpUrl
  | KmsType | KmsEndpoint | KmsRegion | SecretLockKeyPath
  | KmsSecretsDatabaseType | KmsSecretsDatabaseURL | KmsSecretsDatabasePrefix
  | ProfilesFilePath

fun kmsFlag :: "start_flag \<Rightarrow> (string \<times> string) option" where
  "kmsFlag KmsType = Some (''default-kms-type'', ''VC_REST_DEFAULT_KMS_TYPE'')"
| "kmsFlag KmsEndpoint = Some (''default-kms-endpoint'', ''VC_REST_DEFAULT_KMS_ENDPOINT'')"
| "kmsFlag KmsRegion = Some (''default-kms-region'', ''VC_REST_DEFAULT_KMS_REGION'')"
| "kmsFlag SecretLockKeyPath = Some (''default-kms-secret-lock-key-path'', ''VC_REST_DEFAULT_KMS_SECRET_LOCK_KEY_PATH'')"
| "kmsFlag KmsSecretsDatabaseType =
     Some (''default-kms-secrets-database-type'', ''VC_REST_DEFAULT_KMS_SECRETS_DATABASE_TYPE'')"
| "kmsFlag KmsSecretsDatabaseURL =
     Some (''default-kms-secrets-database-url'', ''VC_REST_DEFAULT_KMS_SECRETS_DATABASE_URL'')"
| "kmsFlag KmsSecretsDatabasePrefix =
     Some (''default=kms-secrets-database-prefix'', ''VC_REST_DEFAULT_KMS_SECRETS_DATABASE_PREFIX'')"
| "kmsFlag _ = None"

fun serverFlag :: "start_flag \<Rightarrow> string \<times> string" where
  "serverFlag HostURL = (''host-url'', ''VC_REST_HOST_URL'')"
| "serverFlag HostURLExternal = (''host-url-external'', ''VC_REST_HOST_URL_EXTERNAL'')"
| "serverFlag UniversalResolverURL = (''universal-resolver-url'', ''UNIVERSAL_RESOLVER_HOST_URL'')"
| "serverFlag RunMode = (''mode'', ''VC_REST_MODE'')"
| "serverFlag DevMode = (''dev-mode'', ''VC_REST_DEV_MODE'')"
| "serverFlag DatabaseType = (''database-type'', ''DATABASE_TYPE'')"
| "serverFlag DatabaseURL = (''database-url'', ''DATABASE_URL'')"
| "serverFlag DatabasePrefix = (''database-prefix'', ''DATABASE_PREFIX'')"
| "serverFlag ContextProvider = (''context-provider-url'', ''VC_REST_CONTEXT_PROVIDER_URL'')"
| "serverFlag ContextEnableRemote = (''context-enable-remote'', ''VC_REST_CONTEXT_ENABLE_REMOTE'')"
| "serverFlag TlsSystemCertPool = (''tls-systemcertpool'', ''VC_REST_TLS_SYSTEMCERTPOOL'')"
| "serverFlag TlsCACerts = (''tls-cacerts'', ''VC_REST_TLS_CACERTS'')"
| "serverFlag TlsCertificate = (''tls-certificate'', ''VCS_REST_TLS_CERTIFICATE'')"
| "serverFlag TlsKey = (''tls-key'', ''VC_REST_TLS_KEY'')"
| "serverFlag ApiToken = (''api-token'', ''VC_REST_API_TOKEN'')"
| "serverFlag RequestTokens = (''request-tokens'', ''VC_REST_REQUEST_TOKENS'')"
| "serverFlag LogLevel = (''log-level'', ''LOG_LEVEL'')"
| "serverFlag OAuthSecret = (''oauth-secret'', ''VC_OAUTH_SECRET'')"
| "serverFlag OAuthClientsFilePath = (''oauth-client-file-path'', ''VC_OAUTH_CLIENTS_FILE_PATH'')"
| "serverFlag MetricsProvider = (''metrics-provider-name'', ''VC_METRICS_PROVIDER_NAME'')"
| "serverFlag PromHttpUrl = (''prom-http-url'', ''VC_PROM_HTTP_URL'')"
| "serverFlag ProfilesFilePath = (''profiles-file-path'', ''VC_REST_PROFILES_FILE_PATH'')"
| "serverFlag _ = ([], [])"

definition flagName :: "start_flag \<Rightarrow> string" where
  "flagName f = fst (case kmsFlag f of Some p \<Rightarrow> p | None \<Rightarrow> serverFlag f)"

definition envKey :: "start_flag \<Rightarrow> string" where
  "envKey f = snd (case kmsFlag f of Some p \<Rightarrow> p | None \<Rightarrow> serverFlag f)"

text \<open>The flags that \<open>createFlags\<close> registers, with their types and shorthands.\<close>

definition createFlags :: "(start_flag \<times> flag_type \<times> string) list" where
  "createFlags =
     [(HostURL, StringFlag, ''u''), (OAuthSecret, StringFlag, ''o''), (HostURLExternal, StringFlag, ''x''),
      (UniversalResolverURL, StringFlag, ''r''), (RunMode, StringFlag, ''m''), (DevMode, StringFlag, ''d''),
      (DatabaseType, StringFlag, ''t''), (DatabaseURL, StringFlag, ''v''), (DatabasePrefix, StringFlag, []),
      (TlsSystemCertPool, StringFlag, []), (TlsCACerts, StringSliceFlag, []), (ApiToken, StringFlag, []),
      (RequestTokens, StringSliceFlag, []), (LogLevel, StringFlag, ''l''), (ContextProvider, StringSliceFlag, []),
      (ContextEnableRemote, StringFlag, []), (KmsSecretsDatabaseType, StringFlag, ''k''),
      (KmsSecretsDatabaseURL, StringFlag, ''s''), (KmsSecretsDatabasePrefix, StringFlag, []),
      (KmsType, StringFlag, []), (KmsEndpoint, StringFlag, []), (SecretLockKeyPath, StringFlag, []),
      (KmsRegion, StringFlag, []), (TlsCertificate, StringFlag, []), (TlsKey, StringFlag, []),
      (MetricsProvider, StringFlag, []), (PromHttpUrl, StringFlag, []), (OAuthClientsFilePath, StringFlag, []),
      (ProfilesFilePath, StringFlag, [])]"

definition registered :: "string \<rightharpoonup> flag_type" where
  "registered = map_of (map (\<lambda>(f, t, _). (flagName f, t)) createFlags)"

subsection \<open>Parameters\<close>

record db_parameters =
  dp_databaseType :: string
  dp_databaseURL :: string
  dp_databasePrefix :: string

record tls_parameters =
  tp_systemCertPool :: bool
  tp_caCerts :: "string list"
  tp_serveCertPath :: string
  tp_serveKeyPath :: string

record kms_parameters =
  kp_kmsType :: kms_type
  kp_kmsEndpoint :: string
  kp_kmsRegion :: string
  kp_kmsSecretsDatabaseType :: string
  kp_kmsSecretsDatabaseURL :: string
  kp_kmsSecretsDatabasePrefix :: string
  kp_secretLockKeyPath :: string

record startup_params =
  sp_hostURL :: string
  sp_hostURLExternal :: string
  sp_universalResolverURL :: string
  sp_mode :: string
  sp_dbParameters :: db_parameters
  sp_kmsParameters :: kms_parameters
  sp_token :: string
  sp_requestTokens :: "string \<rightharpoonup> string"
  sp_logLevel :: string
  sp_contextProviderURLs :: "string list"
  sp_contextEnableRemote :: bool
  sp_tlsParameters :: tls_parameters
  sp_devMode :: bool
  sp_oAuthSecret :: string
  sp_oAuthClientsFilePath :: string
  sp_metricsProviderName :: string
  sp_prometheusUrl :: "string option"

definition mandatory :: "cmd_env \<Rightarrow> start_flag \<Rightarrow> string res" where
  "mandatory e f = getUserSetVarFromString e (flagName f) (envKey f) False"

definition optional :: "cmd_env \<Rightarrow> start_flag \<Rightarrow> string res" where
  "optional e f = getUserSetVarFromString e (flagName f) (envKey f) True"

definition lenient :: "cmd_env \<Rightarrow> start_flag \<Rightarrow> string res" where
  "lenient e f = getUserSetOptionalVarFromString e (flagName f) (envKey f)"

definition getMetricsProviderName :: "cmd_env \<Rightarrow> string res" where
  "getMetricsProviderName e = optional e MetricsProvider"

definition getPrometheusMetricsProviderParams :: "cmd_env \<Rightarrow> string res" where
  "getPrometheusMetricsProviderParams e = mandatory e PromHttpUrl"

definition bool_setting :: "string \<Rightarrow> bool res" where
  "bool_setting s = (if s = [] then Ok False else parse_bool s)"

definition getDevMode :: "cmd_env \<Rightarrow> bool res" where
  "getDevMode e = bindR (optional e DevMode) bool_setting"

definition supportedMode :: "string \<Rightarrow> bool" where
  "supportedMode m \<longleftrightarrow> \<not> (m \<noteq> [] \<and> m \<noteq> ''verifier'' \<and> m \<noteq> ''issuer'' \<and> m \<noteq> ''holder'')"

definition getMode :: "cmd_env \<Rightarrow> string res" where
  "getMode e = bindR (optional e RunMode) (\<lambda>m.
     if \<not> supportedMode m then Err (ErrMsg (''unsupported mode: '' @ m))
     else if m = [] then Ok ''combined'' else Ok m)"

definition getTLS :: "cmd_env \<Rightarrow> tls_parameters res" where
  "getTLS e =
     bindR (lenient e TlsSystemCertPool) (\<lambda>poolString.
     bindR (bool_setting poolString) (\<lambda>pool.
     bindR (getUserSetOptionalVarFromArrayString e (flagName TlsCACerts) (envKey TlsCACerts)) (\<lambda>cas.
     bindR (lenient e TlsCertificate) (\<lambda>cert.
     bindR (lenient e TlsKey) (\<lambda>key.
     Ok \<lparr>tp_systemCertPool = pool, tp_caCerts = cas, tp_serveCertPath = cert, tp_serveKeyPath = key\<rparr>)))))"

fun kms_type_name :: "kms_type \<Rightarrow> string" where
  "kms_type_name AwsKms = ''aws''"
| "kms_type_name LocalKms = ''local''"
| "kms_type_name WebKms = ''web''"
| "kms_type_name (OtherKms t) = t"

definition to_kms_type :: "string \<Rightarrow> kms_type" where
  "to_kms_type s = (if s = ''aws'' then AwsKms else if s = ''local'' then LocalKms else if s = ''web'' then WebKms
     else OtherKms s)"

definition supportedKmsType :: "kms_type \<Rightarrow> bool" where
  "supportedKmsType t \<longleftrightarrow> \<not> (t \<noteq> LocalKms \<and> t \<noteq> WebKms \<and> t \<noteq> AwsKms)"

definition getKMSParameters :: "cmd_env \<Rightarrow> kms_parameters res" where
  "getKMSParameters e =
     bindR (mandatory e KmsType) (\<lambda>kmsTypeStr.
     let kmsType = to_kms_type kmsTypeStr
     in if \<not> supportedKmsType kmsType then Err (ErrMsg (''unsupported kms type: '' @ kms_type_name kmsType))
        else
          bindR (lenient e KmsEndpoint) (\<lambda>endpoint.
          bindR (lenient e KmsRegion) (\<lambda>region.
          bindR (lenient e SecretLockKeyPath) (\<lambda>lockPath.
          bindR (getUserSetVarFromString e (flagName KmsSecretsDatabaseType) (envKey KmsSecretsDatabaseType)
                   (kmsType \<noteq> LocalKms)) (\<lambda>dbType.
          bindR (lenient e KmsSecretsDatabaseURL) (\<lambda>dbURL.
          bindR (lenient e KmsSecretsDatabasePrefix) (\<lambda>dbPrefix.
          Ok \<lparr>kp_kmsType = kmsType, kp_kmsEndpoint = endpoint, kp_kmsRegion = region,
              kp_kmsSecretsDatabaseType = dbType, kp_kmsSecretsDatabaseURL = dbURL,
              kp_kmsSecretsDatabasePrefix = dbPrefix, kp_secretLockKeyPath = lockPath\<rparr>)))))))"

definition getDBParameters :: "cmd_env \<Rightarrow> db_parameters res" where
  "getDBParameters e =
     bindR (mandatory e DatabaseType) (\<lambda>t.
     bindR (optional e DatabaseURL) (\<lambda>u.
     bindR (optional e DatabasePrefix) (\<lambda>p.
     Ok \<lparr>dp_databaseType = t, dp_databaseURL = u, dp_databasePrefix = p\<rparr>)))"

definition add_token :: "(string \<rightharpoonup> string) \<Rightarrow> string \<Rightarrow> (string \<rightharpoonup> string)" where
  "add_token tokens tok = (case split_on CHR ''='' tok of [k, v] \<Rightarrow> tokens(k \<mapsto> v) | _ \<Rightarrow> tokens)"

definition getRequestTokens :: "cmd_env \<Rightarrow> (string \<rightharpoonup> string) res" where
  "getRequestTokens e =
     bindR (getUserSetOptionalCSVVar e (flagName RequestTokens) (envKey RequestTokens)) (\<lambda>ts.
     Ok (foldl add_token Map.empty ts))"

definition getStartupParameters :: "cmd_env \<Rightarrow> startup_params res" where
  "getStartupParameters e =
     bindR (mandatory e HostURL) (\<lambda>hostURL.
     bindR (mandatory e OAuthSecret) (\<lambda>secret.
     bindR (getMetricsProviderName e) (\<lambda>metrics.
     bindR (if metrics = ''prometheus'' then bindR (getPrometheusMetricsProviderParams e) (\<lambda>u. Ok (Some u)) else Ok None) (\<lambda>prom.
     bindR (optional e HostURLExternal) (\<lambda>hostExternal.
     bindR (optional e UniversalResolverURL) (\<lambda>resolver.
     bindR (getMode e) (\<lambda>run_mode.
     bindR (getTLS e) (\<lambda>tls.
     bindR (getDBParameters e) (\<lambda>db.
     bindR (getKMSParameters e) (\<lambda>kms.
     bindR (optional e ApiToken) (\<lambda>token.
     bindR (getRequestTokens e) (\<lambda>tokens.
     bindR (optional e LogLevel) (\<lambda>level.
     bindR (getUserSetOptionalCSVVar e (flagName ContextProvider) (envKey ContextProvider)) (\<lambda>providers.
     bindR (optional e ContextEnableRemote) (\<lambda>remote_setting.
     bindR (getDevMode e) (\<lambda>dev.
     bindR (bool_setting remote_setting) (\<lambda>remote.
     bindR (optional e OAuthClientsFilePath) (\<lambda>clients.
     Ok \<lparr>sp_hostURL = hostURL, sp_hostURLExternal = hostExternal, sp_universalResolverURL = resolver,
         sp_mode = run_mode, sp_dbParameters = db, sp_kmsParameters = kms, sp_token = token,
         sp_requestTokens = tokens, sp_logLevel = level, sp_contextProviderURLs = providers,
         sp_contextEnableRemote = remote, sp_tlsParameters = tls, sp_devMode = dev, sp_oAuthSecret = secret,
         sp_oAuthClientsFilePath = clients, sp_metricsProviderName = metrics, sp_prometheusUrl = prom\<rparr>))))))))))))))))))"

subsection \<open>The flags\<close>

text \<open>Every setting is registered exactly once, so the command line library accepts the registrations.\<close>

lemma flagName_distinct: "distinct (map (\<lambda>(f, _, _). flagName f) createFlags)"
  by code_simp

lemma shorthand_distinct: "distinct (filter (\<lambda>s. s \<noteq> []) (map (\<lambda>(_, _, s). s) createFlags))"
  by code_simp

lemma registered_flag: "(f, t, s) \<in> set createFlags \<Longrightarrow> registered (flagName f) = Some t"
proof -
  assume "(f, t, s) \<in> set createFlags"
  then have "(flagName f, t) \<in> set (map (\<lambda>(f, t, _). (flagName f, t)) createFlags)"
    by force
  moreover have "distinct (map fst (map (\<lambda>(f, t, _). (flagName f, t)) createFlags))"
    using flagName_distinct by (simp add: comp_def case_prod_unfold)
  ultimately show ?thesis
    unfolding registered_def by (rule map_of_is_SomeI [rotated])
qed

lemma all_registered: "\<exists>t. registered (flagName f) = Some t"
proof -
  have "f \<in> fst ` set createFlags"
    by (cases f) (simp_all add: createFlags_def)
  then show ?thesis using registered_flag by force
qed

text \<open>The CA certificates are registered as a \<open>StringSlice\<close> but read as a \<open>StringArray\<close>, and the error is
  dropped: given on the command line they are never used.\<close>

lemma ca_certs_flag_lost:
  assumes "flag_laws registered e" "ce_Changed e ''tls-cacerts''" "getTLS e = Ok tls"
  shows "tp_caCerts tls = []"
  using assms array_flag_lost [OF assms(1), of "flagName TlsCACerts" "envKey TlsCACerts"]
  by (auto simp: getTLS_def flagName_def)

lemma ca_certs_variable:
  assumes "\<not> ce_Changed e ''tls-cacerts''" "ce_LookupEnv e ''VC_REST_TLS_CACERTS'' = Some v" "getTLS e = Ok tls"
  shows "tp_caCerts tls = csv v"
  using assms
  by (auto simp: getTLS_def flagName_def envKey_def getUserSetOptionalVarFromArrayString_def
      getUserSetVarFromArrayString_def csv_def)

text \<open>The prefix flag of the secrets database has an equals sign in its name, which a command line cannot
  spell: \<open>--name=value\<close> ends the name at the first one.\<close>

lemma secrets_prefix_flag_unreachable:
  "CHR ''='' \<in> set (flagName KmsSecretsDatabasePrefix)"
  "f \<noteq> KmsSecretsDatabasePrefix \<Longrightarrow> CHR ''='' \<notin> set (flagName f)"
  by (simp add: flagName_def) (cases f; simp add: flagName_def)

subsection \<open>The parameters\<close>

lemma to_kms_type_name [simp]: "to_kms_type (kms_type_name t) = t \<longleftrightarrow> (\<forall>s. t = OtherKms s \<longrightarrow> s \<notin> {''aws'', ''local'', ''web''})"
  by (cases t) (auto simp: to_kms_type_def)

lemma supportedKmsType_iff: "supportedKmsType t \<longleftrightarrow> t \<in> {LocalKms, WebKms, AwsKms}"
  by (auto simp: supportedKmsType_def)

lemma getMode_Ok: "getMode e = Ok m \<Longrightarrow> m \<in> {''verifier'', ''issuer'', ''holder'', ''combined''}"
  by (auto simp: getMode_def supportedMode_def split: if_splits)

text \<open>The documented default is not accepted when it is spelled out.\<close>

lemma combined_mode_rejected:
  "optional e RunMode = Ok ''combined'' \<Longrightarrow> getMode e = Err (ErrMsg ''unsupported mode: combined'')"
  "optional e RunMode = Ok [] \<Longrightarrow> getMode e = Ok ''combined''"
  by (simp_all add: getMode_def supportedMode_def)

lemma getKMSParameters_Ok:
  assumes "getKMSParameters e = Ok k"
  shows "kp_kmsType k \<in> {LocalKms, WebKms, AwsKms}"
    "kp_kmsType k = LocalKms \<Longrightarrow> kp_kmsSecretsDatabaseType k \<noteq> []"
  using assms by (auto simp: getKMSParameters_def Let_def supportedKmsType_iff split: if_splits dest: mandatory_not_empty)

lemma getDBParameters_Ok: "getDBParameters e = Ok d \<Longrightarrow> dp_databaseType d \<noteq> []"
  by (auto simp: getDBParameters_def mandatory_def dest: mandatory_not_empty)

subsection \<open>Request tokens\<close>

text \<open>A token is read back from \<open>name=token\<close>; one that holds an equals sign itself, as padded base64 does, is
  dropped with a warning.\<close>

lemma add_token_pair:
  "CHR ''='' \<notin> set k \<Longrightarrow> CHR ''='' \<notin> set v \<Longrightarrow> add_token m (k @ ''='' @ v) = m(k \<mapsto> v)"
  by (simp add: add_token_def split_on_append split_on_no_sep)

lemma add_token_padded: "CHR ''='' \<in> set v \<Longrightarrow> add_token m (k @ ''='' @ v) = m"
proof -
  assume "CHR ''='' \<in> set v"
  then have "filter (\<lambda>c. c = CHR ''='') v \<noteq> []"
    by (induction v) auto
  then have "length (split_on CHR ''='' (k @ ''='' @ v)) > 2"
    by (simp add: length_split_on)
  then show ?thesis
    by (auto simp: add_token_def split: list.splits)
qed

lemma request_tokens_read:
  assumes "\<forall>(k, v) \<in> set kvs. CHR ''='' \<notin> set k \<and> CHR ''='' \<notin> set v"
  shows "foldl add_token m (map (\<lambda>(k, v). k @ ''='' @ v) kvs) = m ++ map_of (rev kvs)"
  using assms
proof (induction kvs arbitrary: m)
  case (Cons kv kvs)
  then show ?case
    using add_token_pair [of "fst kv" "snd kv" m] by (simp add: case_prod_unfold)
qed simp

end
