(* ===== verification/Startup_Config.thy ===== *)
theory Startup_Config
  imports Startup_Params Rest_Api Fosite_Store
begin

text \<open>
  \<open>cmd/vc-rest/startcmd\<close>: \<open>configuration.go\<close> (stores, DID registry and document loader from the start-up
  parameters), \<open>oauth_provider.go\<close> (the OAuth clients of the configuration are inserted into the store of
  \<open>Fosite_Store\<close>) and \<open>start.go\<close> (the start command, the settings that the services get, metrics, the
  listening server). Providers of the Aries library, the network and the files are parameters.
\<close>

subsection \<open>Configuration\<close>

datatype 'r vdr_option = UniversalResolver 'r | KeyVDR | WebVDR

datatype loader_option = RemoteProvider string | RemoteDocumentLoader

record ('pool, 'prov, 'r, 'ld, 'l) config_env =
  se_GetCertPool :: "bool \<Rightarrow> string list \<Rightarrow> 'pool res"
  se_MongoProvider :: "string \<Rightarrow> string \<Rightarrow> 'prov res"
  se_Resolver :: "string \<Rightarrow> 'r res"
  se_LdStore :: "'prov \<Rightarrow> 'ld res"
  se_DocumentLoader :: "'ld \<Rightarrow> loader_option list \<Rightarrow> 'l res"

record ('pool, 'prov, 'r, 'ld, 'l) configuration =
  cf_RootCAs :: 'pool
  cf_Storage :: 'prov
  cf_VDR :: "'r vdr_option list"
  cf_DocumentLoader :: 'l
  cf_LDContextStore :: 'ld
  cf_StartupParameters :: startup_params

definition createEdgeStoreProvider :: "(string \<Rightarrow> string \<Rightarrow> 'prov res) \<Rightarrow> startup_params \<Rightarrow> 'prov res" where
  "createEdgeStoreProvider mongo p =
     (let db = sp_dbParameters p
      in if equal_fold (dp_databaseType db) ''mongodb'' then mongo (dp_databaseURL db) (dp_databasePrefix db)
         else Err (ErrMsg (dp_databaseType db @ '' is not a valid database type.'' @
                '' run start --help to see the available options'')))"

definition createVDRI :: "(string \<Rightarrow> 'r res) \<Rightarrow> string \<Rightarrow> 'r vdr_option list res" where
  "createVDRI resolver universalResolver =
     bindR (if universalResolver \<noteq> []
            then bindR (wrapR ''failed to create new universal resolver vdr: '' (resolver universalResolver)) (\<lambda>r.
                 Ok [UniversalResolver r])
            else Ok []) (\<lambda>opts. Ok (opts @ [KeyVDR, WebVDR]))"

definition acceptsDID :: "string \<Rightarrow> bool" where
  "acceptsDID did_method \<longleftrightarrow> did_method = ''v1'' \<or> did_method = ''elem'' \<or> did_method = ''sov'' \<or> did_method = ''web''
     \<or> did_method = ''factom'' \<or> did_method = ''orb'' \<or> did_method = ''key'' \<or> did_method = ''ion''"

definition createJSONLDDocumentLoader ::
  "('ld \<Rightarrow> loader_option list \<Rightarrow> 'l res) \<Rightarrow> 'ld \<Rightarrow> string list \<Rightarrow> bool \<Rightarrow> 'l res" where
  "createJSONLDDocumentLoader loader ldStore providerURLs contextEnableRemote =
     loader ldStore (map RemoteProvider providerURLs @ (if contextEnableRemote then [RemoteDocumentLoader] else []))"

text \<open>\<open>webVDR.Read\<close>; \<open>read\<close> is the library's resolution with the HTTP client of the configuration.\<close>

definition webVDR_Read :: "(string \<Rightarrow> 'd res) \<Rightarrow> string \<Rightarrow> 'd res" where
  "webVDR_Read read didID = wrapR ''failed to read did web: '' (read didID)"

definition prepareConfiguration ::
  "('pool, 'prov, 'r, 'ld, 'l) config_env \<Rightarrow> startup_params \<Rightarrow> ('pool, 'prov, 'r, 'ld, 'l) configuration res" where
  "prepareConfiguration env p =
     bindR (se_GetCertPool env (tp_systemCertPool (sp_tlsParameters p)) (tp_caCerts (sp_tlsParameters p))) (\<lambda>rootCAs.
     bindR (createEdgeStoreProvider (se_MongoProvider env) p) (\<lambda>prov.
     bindR (createVDRI (se_Resolver env) (sp_universalResolverURL p)) (\<lambda>vdr.
     bindR (se_LdStore env prov) (\<lambda>ldStore.
     bindR (createJSONLDDocumentLoader (se_DocumentLoader env) ldStore (sp_contextProviderURLs p)
              (sp_contextEnableRemote p)) (\<lambda>loader.
     Ok \<lparr>cf_RootCAs = rootCAs, cf_Storage = prov, cf_VDR = vdr, cf_DocumentLoader = loader,
         cf_LDContextStore = ldStore, cf_StartupParameters = p\<rparr>)))))"

subsection \<open>The settings of the services\<close>

text \<open>What \<open>buildEchoHandler\<close> passes of the parameters to the parts it creates.\<close>

record service_settings =
  ss_apiKey :: "string option"
  ss_kms :: kms_config
  ss_mongoURL :: string
  ss_mongoDatabase :: string
  ss_listSize :: int
  ss_issuerPublicHost :: string
  ss_controllerPublicHost :: string
  ss_requestTokens :: "string \<rightharpoonup> string"
  ss_requestObjectEndpoint :: string
  ss_redirectURL :: string
  ss_devApi :: bool

definition kmsConfigOf :: "startup_params \<Rightarrow> kms_config" where
  "kmsConfigOf p =
     \<lparr>kc_KMSType = kp_kmsType (sp_kmsParameters p), kc_Endpoint = kp_kmsEndpoint (sp_kmsParameters p),
      kc_Region = kp_kmsRegion (sp_kmsParameters p), kc_SecretLockKeyPath = kp_secretLockKeyPath (sp_kmsParameters p),
      kc_DBType = dp_databaseType (sp_dbParameters p), kc_DBURL = dp_databaseURL (sp_dbParameters p),
      kc_DBPrefix = dp_databasePrefix (sp_dbParameters p)\<rparr>"

definition cslSize :: int where
  "cslSize = 1000"

definition oidc4VPCheckEndpoint :: string where
  "oidc4VPCheckEndpoint = ''/verifier/interactions/authorization-response''"

definition settings_of :: "startup_params \<Rightarrow> service_settings" where
  "settings_of p =
     \<lparr>ss_apiKey = (if sp_token p \<noteq> [] then Some (sp_token p) else None),
      ss_kms = kmsConfigOf p,
      ss_mongoURL = dp_databaseURL (sp_dbParameters p),
      ss_mongoDatabase = dp_databasePrefix (sp_dbParameters p) @ ''vcs'',
      ss_listSize = cslSize,
      ss_issuerPublicHost = sp_hostURL p,
      ss_controllerPublicHost = sp_hostURLExternal p,
      ss_requestTokens = sp_requestTokens p,
      ss_requestObjectEndpoint = sp_hostURLExternal p @ ''/request-object/'',
      ss_redirectURL = sp_hostURLExternal p @ oidc4VPCheckEndpoint,
      ss_devApi = sp_devMode p\<rparr>"

datatype metrics_kind = PrometheusMetrics | NoopMetrics

definition newMetrics :: "startup_params \<Rightarrow> metrics_kind" where
  "newMetrics p = (if sp_metricsProviderName p = ''prometheus'' then PrometheusMetrics else NoopMetrics)"

definition newMetricsProvider :: "startup_params \<Rightarrow> string option res" where
  "newMetricsProvider p =
     (if sp_metricsProviderName p = ''prometheus'' then bindR (deref (sp_prometheusUrl p)) (\<lambda>u. Ok (Some u)) else Ok None)"

subsection \<open>The OAuth provider\<close>

fun insertClients ::
  "fosite_client list \<Rightarrow> ('c1, 'c2, 'c3, 'c4) fosite_db \<Rightarrow> unit res \<times> ('c1, 'c2, 'c3, 'c4) fosite_db" where
  "insertClients [] db = (Ok (), db)"
| "insertClients (c # cs) db =
     (case insertClient c db of
        (Ok _, db) \<Rightarrow> insertClients cs db
      | (Err e, db) \<Rightarrow> if is_duplicate_key e then insertClients cs db else (Err e, db)
      | (Panic p, db) \<Rightarrow> (Panic p, db))"

text \<open>\<open>migrated\<close> is the outcome of creating the indexes in \<open>fositemongo.NewStore\<close>.\<close>

definition bootstrapOAuthProvider ::
  "string \<Rightarrow> unit res \<Rightarrow> fosite_client list \<Rightarrow> ('c1, 'c2, 'c3, 'c4) fosite_db \<Rightarrow> unit res \<times> ('c1, 'c2, 'c3, 'c4) fosite_db" where
  "bootstrapOAuthProvider secret migrated clients db =
     (if secret = [] then (Err (ErrMsg ''invalid secret''), db)
      else andthen (pure_op migrated db) (\<lambda>_ db. insertClients clients db))"

definition getOAuth2Clients :: "(string \<Rightarrow> string res) \<Rightarrow> (string \<Rightarrow> fosite_client list res) \<Rightarrow> string \<Rightarrow> fosite_client list res" where
  "getOAuth2Clients read_file decode path = bindR (read_file path) decode"

definition oauthClients :: "(string \<Rightarrow> string res) \<Rightarrow> (string \<Rightarrow> fosite_client list res) \<Rightarrow> startup_params \<Rightarrow> fosite_client list res" where
  "oauthClients read_file decode p =
     (if sp_oAuthClientsFilePath p \<noteq> []
      then wrapR ''failed to get oauth clients: '' (getOAuth2Clients read_file decode (sp_oAuthClientsFilePath p))
      else Ok [])"

subsection \<open>The server\<close>

datatype listen_call = ListenAndServe | ListenAndServeTLS string string

record ('h, 'w) start_opts =
  so_server :: "(listen_call \<Rightarrow> 'w \<Rightarrow> unit res \<times> 'w) option"
  so_handler :: "'h option"

definition withHTTPServer :: "(listen_call \<Rightarrow> 'w \<Rightarrow> unit res \<times> 'w) \<Rightarrow> ('h, 'w) start_opts \<Rightarrow> ('h, 'w) start_opts" where
  "withHTTPServer srvr opts = opts\<lparr>so_server := Some srvr\<rparr>"

definition withHTTPHandler :: "'h \<Rightarrow> ('h, 'w) start_opts \<Rightarrow> ('h, 'w) start_opts" where
  "withHTTPHandler h opts = opts\<lparr>so_handler := Some h\<rparr>"

definition startServer ::
  "(string \<Rightarrow> 'h option \<Rightarrow> listen_call \<Rightarrow> 'w \<Rightarrow> unit res \<times> 'w) \<Rightarrow> startup_params
     \<Rightarrow> (('h, 'w) start_opts \<Rightarrow> ('h, 'w) start_opts) list \<Rightarrow> 'w \<Rightarrow> unit res \<times> 'w" where
  "startServer http_server p opts w =
     (let opt = foldl (\<lambda>a f. f a) \<lparr>so_server = None, so_handler = None\<rparr> opts;
          srvr = (case so_server opt of Some s \<Rightarrow> s | None \<Rightarrow> http_server (sp_hostURL p) (so_handler opt));
          tls = sp_tlsParameters p
      in if tp_serveKeyPath tls \<noteq> [] \<and> tp_serveCertPath tls \<noteq> []
         then srvr (ListenAndServeTLS (tp_serveCertPath tls) (tp_serveKeyPath tls)) w
         else srvr ListenAndServe w)"

text \<open>The start command; \<open>build\<close> is \<open>buildEchoHandler\<close>.\<close>

definition runStart ::
  "('pool, 'prov, 'r, 'ld, 'l) config_env \<Rightarrow> (('pool, 'prov, 'r, 'ld, 'l) configuration \<Rightarrow> 'w \<Rightarrow> 'h res \<times> 'w)
     \<Rightarrow> (string \<Rightarrow> 'h option \<Rightarrow> listen_call \<Rightarrow> 'w \<Rightarrow> unit res \<times> 'w)
     \<Rightarrow> (('h, 'w) start_opts \<Rightarrow> ('h, 'w) start_opts) list \<Rightarrow> cmd_env \<Rightarrow> 'w \<Rightarrow> unit res \<times> 'w" where
  "runStart env build http_server opts e w =
     andthen (pure_op (wrapR ''failed to get startup parameters: '' (getStartupParameters e)) w) (\<lambda>p w.
     andthen (pure_op (wrapR ''failed to prepare configuration: '' (prepareConfiguration env p)) w) (\<lambda>conf w.
     andthen (wrapS ''failed to build echo handler: '' (build conf w)) (\<lambda>h w.
     startServer http_server p (opts @ [withHTTPHandler h]) w)))"

definition validateAuthorizationBearerToken :: "string \<Rightarrow> (string \<Rightarrow> string) \<Rightarrow> string \<Rightarrow> bool" where
  "validateAuthorizationBearerToken requestURI header token =
     (requestURI = ''/healthcheck'' \<or> header ''Authorization'' = ''Bearer '' @ token)"

subsection \<open>Lemmas\<close>

lemma getStartupParameters_parts:
  assumes "getStartupParameters e = Ok p"
  shows "mandatory e HostURL = Ok (sp_hostURL p)" "mandatory e OAuthSecret = Ok (sp_oAuthSecret p)"
    "getMode e = Ok (sp_mode p)" "getTLS e = Ok (sp_tlsParameters p)" "getDBParameters e = Ok (sp_dbParameters p)"
    "getKMSParameters e = Ok (sp_kmsParameters p)"
    "sp_metricsProviderName p = ''prometheus'' \<longleftrightarrow> sp_prometheusUrl p \<noteq> None"
    "sp_prometheusUrl p \<noteq> Some []"
  using assms by (auto simp: getStartupParameters_def getPrometheusMetricsProviderParams_def mandatory_def
      split: if_splits dest: mandatory_not_empty)

lemma prepareConfiguration_database:
  "prepareConfiguration env p = Ok c \<Longrightarrow> equal_fold (dp_databaseType (sp_dbParameters p)) ''mongodb''"
  by (auto simp: prepareConfiguration_def createEdgeStoreProvider_def Let_def split: if_splits)

lemma accepted_methods:
  "filter acceptsDID [''v1'', ''elem'', ''sov'', ''web'', ''factom'', ''orb'', ''key'', ''ion''] =
     [''v1'', ''elem'', ''sov'', ''web'', ''factom'', ''orb'', ''key'', ''ion'']"
  "acceptsDID m \<Longrightarrow> m \<in> {''v1'', ''elem'', ''sov'', ''web'', ''factom'', ''orb'', ''key'', ''ion''}"
  by (auto simp: acceptsDID_def)

lemma createVDRI_Ok: "createVDRI f u = Ok opts \<Longrightarrow> \<exists>rs. opts = rs @ [KeyVDR, WebVDR] \<and> (rs = [] \<longleftrightarrow> u = [])"
  by (auto simp: createVDRI_def split: if_splits)

text \<open>The server listens with TLS exactly when both the certificate and the key are configured.\<close>

lemma startServer_tls:
  "startServer http p [withHTTPHandler h] w =
     http (sp_hostURL p) (Some h)
       (if tp_serveKeyPath (sp_tlsParameters p) = [] \<or> tp_serveCertPath (sp_tlsParameters p) = [] then ListenAndServe
        else ListenAndServeTLS (tp_serveCertPath (sp_tlsParameters p)) (tp_serveKeyPath (sp_tlsParameters p))) w"
  by (simp add: startServer_def withHTTPHandler_def Let_def)

lemma startServer_custom:
  "startServer http p [withHTTPServer srvr, withHTTPHandler h] w =
     srvr (if tp_serveKeyPath (sp_tlsParameters p) = [] \<or> tp_serveCertPath (sp_tlsParameters p) = [] then ListenAndServe
        else ListenAndServeTLS (tp_serveCertPath (sp_tlsParameters p)) (tp_serveKeyPath (sp_tlsParameters p))) w"
  by (simp add: startServer_def withHTTPHandler_def withHTTPServer_def Let_def)

text \<open>What the insertion of the clients leaves in the store.\<close>

definition client_stored where
  "client_stored db i c e \<longleftrightarrow> gstored (fb_clients db) i (c :: fosite_client) (e :: int option)"

lemma insertClient_stores:
  assumes "gcoll_ok (fb_clients db)" "insertClient c db = (q, db')" "is_ok q \<or> (\<exists>er. q = Err er \<and> is_duplicate_key er)"
  shows "gcoll_ok (fb_clients db')"
    "client_stored db' i r e \<longleftrightarrow> client_stored db i r e \<or>
       i = fc_ID c \<and> r = c \<and> e = None \<and> (\<forall>r' e'. \<not> client_stored db i r' e')"
proof -
  obtain s' where s: "insertDoc (fc_ID c) c None (fb_clients db) = (q, s')" "db' = db\<lparr>fb_clients := s'\<rparr>"
    using assms(2) by (cases "insertDoc (fc_ID c) c None (fb_clients db)") (auto simp: insertClient_def lift_op_def)
  note L = insertDoc_eff [OF assms(1) s(1)]
  show "gcoll_ok (fb_clients db')" using L s(2) by simp
  have c: "c_insert None \<lparr>gd_Record = c, gd_LookupID = fc_ID c, gd_ExpireAt = None\<rparr> (fb_clients db) = (q, s')"
    using s(1) by (simp add: insertDoc_def)
  have ok: "coll_ok lookup_clash (fb_clients db)" using assms(1) by (simp add: gcoll_ok_def)
  show "client_stored db' i r e \<longleftrightarrow> client_stored db i r e \<or>
       i = fc_ID c \<and> r = c \<and> e = None \<and> (\<forall>r' e'. \<not> client_stored db i r' e')"
    using ok c
  proof (cases rule: c_insert_cases)
    case (ok k)
    have "\<not> gstored (fb_clients db) (fc_ID c) r' e'" for r' e'
      using ok(2,5) unfolding gstored_def free_for_def lookup_clash_def
      by (metis generic_doc.select_convs(2) option.distinct(1))
    moreover have "gstored s' (fc_ID c) c None" "gcoll_ok s'" using L ok(1) by simp_all
    ultimately show ?thesis
      using L gcoll_one [of s' "fc_ID c" c None r e] unfolding client_stored_def s(2) by (cases "i = fc_ID c") auto
  next
    case (dup er)
    then obtain j m where "docs (fb_clients db) j = Some m" "gd_LookupID m = fc_ID c"
      by (auto simp: lookup_clash_def)
    then have "\<exists>r' e'. gstored (fb_clients db) (fc_ID c) r' e'" using gstored_doc by metis
    then show ?thesis using gstored_same [OF dup(3)] unfolding client_stored_def s(2) by auto
  next
    case (unapplied er)
    then show ?thesis using assms(3) by auto
  next
    case (applied er k)
    then show ?thesis using assms(3) by auto
  qed
qed

lemma insertClients_stores:
  assumes "gcoll_ok (fb_clients db)" "insertClients cs db = (Ok (), db')"
  shows "gcoll_ok (fb_clients db') \<and> (\<forall>i r e. client_stored db' i r e \<longleftrightarrow> client_stored db i r e \<or>
       (\<forall>r' e'. \<not> client_stored db i r' e') \<and> e = None \<and> find (\<lambda>c. fc_ID c = i) cs = Some r)"
  using assms
proof (induction cs arbitrary: db)
  case (Cons c cs)
  obtain q db1 where q: "insertClient c db = (q, db1)" by fastforce
  have run: "insertClients cs db1 = (Ok (), db')" and s: "is_ok q \<or> (\<exists>er. q = Err er \<and> is_duplicate_key er)"
    using Cons.prems(2) q by (auto split: res.splits if_splits)
  note I = insertClient_stores [OF Cons.prems(1) q s]
  note L = Cons.IH [OF I(1) run]
  have "client_stored db' i r e \<longleftrightarrow> client_stored db i r e \<or>
       (\<forall>r' e'. \<not> client_stored db i r' e') \<and> e = None \<and> find (\<lambda>c. fc_ID c = i) (c # cs) = Some r" for i r e
  proof (cases "fc_ID c = i \<and> (\<forall>r' e'. \<not> client_stored db i r' e')")
    case True
    then have "client_stored db1 i c None" "client_stored db1 i r e \<longleftrightarrow> r = c \<and> e = None" using I(2) by blast+
    then show ?thesis using L True by auto
  next
    case False
    then have "client_stored db1 i r' e' \<longleftrightarrow> client_stored db i r' e'" for r' e' using I(2) by blast
    then show ?thesis using L False by auto
  qed
  then show ?case using L by blast
qed simp

subsection \<open>Properties\<close>


definition demo_vars :: "(string \<times> string) list" where
  "demo_vars = [(''VC_REST_HOST_URL'', ''localhost:8075''), (''VC_OAUTH_SECRET'', ''secret''),
     (''VC_METRICS_PROVIDER_NAME'', ''prometheus''), (''VC_PROM_HTTP_URL'', ''localhost:48127''),
     (''DATABASE_TYPE'', ''MongoDB''), (''VC_REST_DEFAULT_KMS_TYPE'', ''local''),
     (''VC_REST_DEFAULT_KMS_SECRETS_DATABASE_TYPE'', ''mem''), (''VC_REST_TLS_CACERTS'', ''a.pem,b.pem''),
     (''VC_REST_REQUEST_TOKENS'', ''rw=t1,ro=dA==''), (''VC_REST_DEV_MODE'', ''T'')]"

definition demo_cmd :: "(string \<times> string list) list \<Rightarrow> cmd_env" where
  "demo_cmd slices = list_env registered [] slices demo_vars"

lemma demo_cmd_simps:
  "ce_Changed (demo_cmd []) n = False" "ce_LookupEnv (demo_cmd slices) n = map_of demo_vars n"
  by (auto simp: demo_cmd_def list_env_def split: option.splits flag_type.splits)

lemmas startup_eval = getStartupParameters_def mandatory_def optional_def lenient_def getMetricsProviderName_def
  getPrometheusMetricsProviderParams_def getMode_def supportedMode_def getTLS_def getDBParameters_def getKMSParameters_def
  getRequestTokens_def getDevMode_def bool_setting_def getUserSetOptionalVarFromString_def
  getUserSetOptionalVarFromArrayString_def getUserSetOptionalCSVVar_def getUserSetVarFromString_def
  getUserSetVarFromArrayString_def getUserSetCSVVar_def flagName_def envKey_def

lemma demo_startup:
  "\<exists>p. getStartupParameters (demo_cmd []) = Ok p \<and> sp_mode p = ''combined'' \<and> sp_devMode p
     \<and> tp_caCerts (sp_tlsParameters p) = [''a.pem'', ''b.pem''] \<and> sp_requestTokens p = [''rw'' \<mapsto> ''t1'']
     \<and> newMetricsProvider p = Ok (Some ''localhost:48127'')"
  by (simp add: startup_eval demo_cmd_simps demo_vars_def to_kms_type_def supportedKmsType_def parse_bool_def
      add_token_def newMetricsProvider_def)


text \<open>C37: Settings that are read and lost. CA certificates given by their flag are never used, since the flag
  is registered as a string slice and read as a string array, and the error is dropped; the mode that is the
  default is rejected when it is spelled out; and the settings of the KMS secrets database, which local key
  management requires, reach no service, nor do the mode and the log level.\<close>
theorem startup_settings_lost:
  assumes "flag_laws registered e" "getStartupParameters e = Ok p"
  shows "(ce_Changed e ''tls-cacerts'' \<longrightarrow> tp_caCerts (sp_tlsParameters p) = [])
    \<and> optional e RunMode \<noteq> Ok ''combined''
    \<and> settings_of (p\<lparr>sp_mode := m, sp_logLevel := l, sp_kmsParameters := (sp_kmsParameters p)
          \<lparr>kp_kmsSecretsDatabaseType := t, kp_kmsSecretsDatabaseURL := u, kp_kmsSecretsDatabasePrefix := x\<rparr>\<rparr>)
        = settings_of p"
proof -
  note P = getStartupParameters_parts [OF assms(2)]
  have "optional e RunMode \<noteq> Ok ''combined''"
    using P(3) combined_mode_rejected(1) [of e] by auto
  then show ?thesis
    using ca_certs_flag_lost [OF assms(1) _ P(4)] by (simp add: settings_of_def kmsConfigOf_def)
qed

lemma demo_flag:
  "ce_Changed (demo_cmd [(''tls-cacerts'', [''ca.pem''])]) n = (n = ''tls-cacerts'')"
  "ce_GetStringArray (demo_cmd slices) n = Err (ErrExt ''flag type'')"
proof -
  have "registered ''tls-cacerts'' = Some StringSliceFlag"
    using registered_flag [of TlsCACerts StringSliceFlag "[]"] by (simp add: createFlags_def flagName_def)
  then show "ce_Changed (demo_cmd [(''tls-cacerts'', [''ca.pem''])]) n = (n = ''tls-cacerts'')"
    by (auto simp: demo_cmd_def list_env_def split: option.splits flag_type.splits)
qed (simp add: demo_cmd_def list_env_def)

theorem startup_settings_lost_witness:
  "\<exists>p. getStartupParameters (demo_cmd [(''tls-cacerts'', [''ca.pem''])]) = Ok p
     \<and> ce_Changed (demo_cmd [(''tls-cacerts'', [''ca.pem''])]) ''tls-cacerts''
     \<and> tp_caCerts (sp_tlsParameters p) = []"
proof -
  have "\<exists>p. getStartupParameters (demo_cmd [(''tls-cacerts'', [''ca.pem''])]) = Ok p"
    by (simp add: startup_eval demo_cmd_simps(2) demo_flag demo_vars_def to_kms_type_def supportedKmsType_def parse_bool_def)
  then obtain p where p: "getStartupParameters (demo_cmd [(''tls-cacerts'', [''ca.pem''])]) = Ok p" ..
  have "flag_laws registered (demo_cmd [(''tls-cacerts'', [''ca.pem''])])" by (simp add: demo_cmd_def)
  from startup_settings_lost [OF this p] show ?thesis
    using p demo_flag(1) by auto
qed

text \<open>The OAuth clients of the configuration are registered once. A client whose id is already in the
  store is skipped, so a changed configuration never reaches a client that was inserted before; of several
  clients with one id the first is kept; every other client becomes known, without an expiry.\<close>
theorem bootstrap_registers_clients:
  assumes "gcoll_ok (fb_clients db)" "bootstrapOAuthProvider secret migrated clients db = (Ok (), db')"
  shows "secret \<noteq> [] \<and> gcoll_ok (fb_clients db')
    \<and> (\<forall>i r e. gstored (fb_clients db') i r e \<longleftrightarrow>
         gstored (fb_clients db) i r e
         \<or> (\<forall>r' e'. \<not> gstored (fb_clients db) i r' e') \<and> e = None \<and> find (\<lambda>c. fc_ID c = i) clients = Some r)"
proof -
  have "secret \<noteq> []" "insertClients clients db = (Ok (), db')"
    using assms(2) by (auto simp: bootstrapOAuthProvider_def elim: andthen_pureE split: if_splits)
  then show ?thesis
    using insertClients_stores [OF assms(1)] unfolding client_stored_def by blast
qed

theorem bootstrap_registers_clients_witness:
  "\<exists>(db :: demo_db) db'. bootstrapOAuthProvider ''s'' (Ok ()) [demo_client, demo_client\<lparr>fc_Public := False\<rparr>] db = (Ok (), db')
     \<and> gstored (fb_clients db') ''cl'' demo_client None"
proof -
  let ?m = "mem_coll lookup_clash [] []"
  let ?db = "\<lparr>fb_clients = ?m, fb_par = ?m, fb_authCode = ?m, fb_pkce = ?m, fb_refresh = ?m, fb_access = ?m, fb_jtis = ?m\<rparr> :: demo_db"
  have m: "gcoll_ok (fb_clients ?db)" by (simp add: gcoll_ok_def mem_coll_ok docs_mem_coll)
  have "\<exists>db'. bootstrapOAuthProvider ''s'' (Ok ()) [demo_client, demo_client\<lparr>fc_Public := False\<rparr>] ?db = (Ok (), db')"
    by (simp add: bootstrapOAuthProvider_def insertClient_def lift_op_def insertDoc_def mem_eval mem_driver_def
        lookup_clash_def demo_client_def)
  then obtain db' where b: "bootstrapOAuthProvider ''s'' (Ok ()) [demo_client, demo_client\<lparr>fc_Public := False\<rparr>] ?db = (Ok (), db')" ..
  from bootstrap_registers_clients [OF m b] have "gstored (fb_clients db') ''cl'' demo_client None"
    by (simp add: gstored_def docs_mem_coll demo_client_def)
  with b show ?thesis by blast
qed

end
