(* ===== verification/Edge_Storage.thy ===== *)
theory Edge_Storage
  imports Command_Env
begin

text \<open>
  \<open>cmd/common/storage.go\<close>: the database parameters of a command and the opening of a storage provider, which
  is tried again for as long as the timeout allows. The provider constructors and the retry loop of the
  backoff library are parameters; what the code relies on of the latter is \<open>retry_law\<close>.
\<close>

record db_params =
  dbp_URL :: string
  dbp_Prefix :: string
  dbp_Timeout :: nat

definition databaseTimeoutDefault :: nat where
  "databaseTimeoutDefault = 30"

definition parse_uint :: "string \<Rightarrow> nat res" where
  "parse_uint s =
     (if s = [] then Err (ErrExt ''strconv.ParseUint: invalid syntax'')
      else (case digits_val 0 s of
              None \<Rightarrow> Err (ErrExt ''strconv.ParseUint: invalid syntax'')
            | Some n \<Rightarrow> if n < 2 ^ 64 then Ok n else Err (ErrExt ''strconv.ParseUint: value out of range'')))"

definition dBParams :: "cmd_env \<Rightarrow> db_params res" where
  "dBParams e =
     bindR (wrapR ''failed to configure dbURL: '' (getUserSetVarFromString e ''database-url'' ''DATABASE_URL'' False)) (\<lambda>url.
     bindR (wrapR ''failed to configure dbPrefix: '' (getUserSetVarFromString e ''database-prefix'' ''DATABASE_PREFIX'' False)) (\<lambda>prefix.
     bindR (case getUserSetVarFromString e ''database-timeout'' ''DATABASE_TIMEOUT'' True of
              Err er \<Rightarrow> if str_contains (err_text er) ''value is empty'' then Ok []
                        else Err (ErrWrap ''failed to configure dbTimeout: '' er)
            | r \<Rightarrow> r) (\<lambda>t.
     let timeout = (if t = [] then nat_digits databaseTimeoutDefault else t)
     in bindR (wrapR (''failed to parse dbTimeout '' @ timeout @ '': '') (parse_uint timeout)) (\<lambda>n.
        Ok \<lparr>dbp_URL = url, dbp_Prefix = prefix, dbp_Timeout = n\<rparr>))))"

text \<open>\<open>strings.SplitN(u, sep, 2)\<close>.\<close>

fun split_two :: "char \<Rightarrow> string \<Rightarrow> string list" where
  "split_two sep [] = [[]]"
| "split_two sep (c # s) =
     (if c = sep then [[], s] else (case split_two sep s of w # ws \<Rightarrow> (c # w) # ws | [] \<Rightarrow> [[c]]))"

definition parseURL :: "string \<Rightarrow> (string \<times> string) res" where
  "parseURL u =
     (case split_two CHR '':'' u of
        [driver, rest] \<Rightarrow>
          if driver = ''mongodb'' then Ok (driver, u) else Ok (driver, trim_prefix rest ''//'')
      | _ \<Rightarrow> Err (ErrMsg (''invalid dbURL '' @ u)))"

record ('p, 'w) storage_drivers =
  sd_mysql :: "string \<Rightarrow> string \<Rightarrow> 'w \<Rightarrow> 'p res \<times> 'w"
  sd_mem :: "'w \<Rightarrow> 'p res \<times> 'w"
  sd_couchdb :: "string \<Rightarrow> string \<Rightarrow> 'w \<Rightarrow> 'p res \<times> 'w"
  sd_mongodb :: "string \<Rightarrow> string \<Rightarrow> 'w \<Rightarrow> 'p res \<times> 'w"

definition supportedAriesStorageProviders ::
  "('p, 'w) storage_drivers \<Rightarrow> string \<Rightarrow> (string \<Rightarrow> string \<Rightarrow> 'w \<Rightarrow> 'p res \<times> 'w) option" where
  "supportedAriesStorageProviders d driver =
     (if driver = ''mysql'' then Some (sd_mysql d)
      else if driver = ''mem'' then Some (\<lambda>_ _. sd_mem d)
      else if driver = ''couchdb'' then Some (sd_couchdb d)
      else if driver = ''mongodb'' then Some (sd_mongodb d)
      else None)"

type_synonym ('p, 'w) retryer = "('w \<Rightarrow> 'p res \<times> 'w) \<Rightarrow> nat \<Rightarrow> 'w \<Rightarrow> 'p res \<times> 'w"

definition initStore :: "('p, 'w) retryer \<Rightarrow> ('p, 'w) storage_drivers \<Rightarrow> db_params \<Rightarrow> 'w \<Rightarrow> 'p res \<times> 'w" where
  "initStore retry d params w =
     (case parseURL (dbp_URL params) of
        Err e \<Rightarrow> (Err (ErrWrap (''failed to parse '' @ dbp_URL params @ '': '') e), w)
      | Panic p \<Rightarrow> (Panic p, w)
      | Ok (driver, url) \<Rightarrow>
          (case supportedAriesStorageProviders d driver of
             None \<Rightarrow> (Err (ErrMsg (''unsupported storage driver: '' @ driver)), w)
           | Some open_provider \<Rightarrow>
               wrapS ''failed to init aries storage provider: ''
                 (retry (open_provider url (dbp_Prefix params)) (dbp_Timeout params) w)))"

subsection \<open>The retry loop\<close>

text \<open>\<open>backoff.RetryNotify\<close> with a constant delay and a maximal number of retries: the task is run, and run
  again after each error, at most that many times; the outcome is that of the last run.\<close>

fun attempts :: "nat \<Rightarrow> ('w \<Rightarrow> 'p res \<times> 'w) \<Rightarrow> 'w \<Rightarrow> 'p res \<times> 'w" where
  "attempts 0 task w = task w"
| "attempts (Suc n) task w = onErr (task w) (\<lambda>e w. attempts n task w)"

definition retry_law :: "('p, 'w) retryer \<Rightarrow> bool" where
  "retry_law retry \<longleftrightarrow> (\<forall>task n w. retry task n w = attempts n task w)"

text \<open>The states in which the task is run.\<close>

fun runs :: "nat \<Rightarrow> ('w \<Rightarrow> 'p res \<times> 'w) \<Rightarrow> 'w \<Rightarrow> 'w list" where
  "runs 0 task w = [w]"
| "runs (Suc n) task w = w # (if is_err (fst (task w)) then runs n task (snd (task w)) else [])"

lemma runs_length: "length (runs n task w) \<le> Suc n" and runs_not_Nil [simp]: "runs n task w \<noteq> []"
  by (induction n task w rule: runs.induct) auto

lemma attempts_last: "attempts n task w = task (last (runs n task w))"
proof (induction n arbitrary: w)
  case (Suc n)
  then show ?case by (cases "task w"; cases "fst (task w)") auto
qed simp

lemma runs_failed: "w' \<in> set (butlast (runs n task w)) \<Longrightarrow> is_err (fst (task w'))"
  by (induction n task w rule: runs.induct) (auto split: if_splits)

lemma runs_exhausted: "is_err (fst (attempts n task w)) \<Longrightarrow> length (runs n task w) = Suc n"
proof (induction n arbitrary: w)
  case (Suc n)
  then show ?case by (cases "task w"; cases "fst (task w)") auto
qed simp

subsection \<open>Lemmas\<close>

lemma parse_uint_digits [simp]: "n < 2 ^ 64 \<Longrightarrow> parse_uint (nat_digits n) = Ok n"
  by (simp add: parse_uint_def)

lemma parse_uint_bound: "parse_uint s = Ok n \<Longrightarrow> n < 2 ^ 64"
  by (auto simp: parse_uint_def split: if_splits option.splits)

lemma split_two_first: "sep \<notin> set w \<Longrightarrow> split_two sep (w @ sep # s) = [w, s]"
  by (induction w) auto

lemma split_two_none: "sep \<notin> set w \<Longrightarrow> split_two sep w = [w]"
  by (induction w) auto

lemma parseURL_driver:
  "CHR '':'' \<notin> set driver \<Longrightarrow> parseURL (driver @ '':'' @ rest) =
     Ok (driver, if driver = ''mongodb'' then driver @ '':'' @ rest else trim_prefix rest ''//'')"
  using split_two_first [of "CHR '':''" driver rest] by (simp add: parseURL_def del: trim_prefix.simps)

lemma parseURL_Ok:
  assumes "parseURL u = Ok (driver, url)"
  shows "\<exists>rest. u = driver @ '':'' @ rest \<and> CHR '':'' \<notin> set driver"
proof (cases "CHR '':'' \<in> set u")
  case True
  then obtain w s where u: "u = w @ CHR '':'' # s" "CHR '':'' \<notin> set w" by (meson split_list_first)
  then show ?thesis using assms parseURL_driver [of w s] by auto
next
  case False
  then show ?thesis using assms by (simp add: parseURL_def split_two_none)
qed

lemma initStore_drivers:
  "initStore retry d p w = (Ok v, w') \<Longrightarrow>
     \<exists>driver rest. dbp_URL p = driver @ '':'' @ rest \<and> driver \<in> {''mysql'', ''mem'', ''couchdb'', ''mongodb''}"
proof -
  assume i: "initStore retry d p w = (Ok v, w')"
  obtain driver url where u: "parseURL (dbp_URL p) = Ok (driver, url)"
    using i by (cases "parseURL (dbp_URL p)") (auto simp: initStore_def)
  obtain f where "supportedAriesStorageProviders d driver = Some f"
    using i u by (cases "supportedAriesStorageProviders d driver") (auto simp: initStore_def)
  then have "driver \<in> {''mysql'', ''mem'', ''couchdb'', ''mongodb''}"
    by (simp add: supportedAriesStorageProviders_def split: if_splits)
  then show ?thesis using parseURL_Ok [OF u] by blast
qed

text \<open>The prefix is mandatory, whatever the usage text of its flag says; a timeout that is set but empty is the
  default.\<close>

lemma dBParams_Ok:
  assumes "dBParams e = Ok p"
  shows "dbp_URL p \<noteq> []" "dbp_Prefix p \<noteq> []" "dbp_Timeout p < 2 ^ 64"
  using assms by (auto simp: dBParams_def Let_def dest: mandatory_not_empty parse_uint_bound)

lemma dBParams_default_timeout:
  assumes "dBParams e = Ok p" "\<not> ce_Changed e ''database-timeout''"
    "ce_LookupEnv e ''DATABASE_TIMEOUT'' = None \<or> ce_LookupEnv e ''DATABASE_TIMEOUT'' = Some []"
  shows "dbp_Timeout p = databaseTimeoutDefault"
proof -
  have "getUserSetVarFromString e ''database-timeout'' ''DATABASE_TIMEOUT'' True = Ok []"
    using assms(2,3) by (auto simp: getUserSetVarFromString_def)
  then show ?thesis using assms(1) by (auto simp: dBParams_def databaseTimeoutDefault_def)
qed

subsection \<open>Properties\<close>


definition demo_drivers :: "(string, nat) storage_drivers" where
  "demo_drivers =
     \<lparr>sd_mysql = (\<lambda>u _ n. (if n = 0 then Ok u else Err (ErrExt ''refused''), n - 1)), sd_mem = (\<lambda>n. (Ok [], n)),
      sd_couchdb = (\<lambda>u _ n. (Ok u, n)), sd_mongodb = (\<lambda>u _ n. (Ok u, n))\<rparr>"


end
