(* ===== verification/Log_Levels.thy ===== *)
theory Log_Levels
  imports Go_Strings
begin

text \<open>
  \<open>internal/pkg/log/logger.go\<close> and \<open>cmd/common/common.go\<close>: log levels by module, their textual specification
  and which output a message goes to. The levels are zap's: consecutive integers from debug to fatal, with
  zap's own \<open>DPanic\<close> between error and panic. The state is the map of package variable \<open>levels\<close>.
\<close>

definition DEBUG :: int where "DEBUG = -1"
definition INFO :: int where "INFO = 0"
definition WARNING :: int where "WARNING = 1"
definition ERROR :: int where "ERROR = 2"
definition PANIC :: int where "PANIC = 4"
definition FATAL :: int where "FATAL = 5"

definition minLogLevel :: int where "minLogLevel = DEBUG"
definition defaultLevel :: int where "defaultLevel = INFO"

lemmas level_defs = DEBUG_def INFO_def WARNING_def ERROR_def PANIC_def FATAL_def

definition levelString :: "int \<Rightarrow> string" where
  "levelString l =
     (if l = DEBUG then ''DEBUG'' else if l = INFO then ''INFO'' else if l = WARNING then ''WARN''
      else if l = ERROR then ''ERROR'' else if l = PANIC then ''PANIC'' else if l = FATAL then ''FATAL''
      else ''Level('' @ format_int l @ '')'')"

definition parseLevel :: "string \<Rightarrow> int res" where
  "parseLevel s =
     (if s \<in> {''DEBUG'', ''debug''} then Ok DEBUG
      else if s \<in> {''INFO'', ''info''} then Ok INFO
      else if s \<in> {''WARN'', ''warn'', ''WARNING'', ''warning''} then Ok WARNING
      else if s \<in> {''ERROR'', ''error''} then Ok ERROR
      else if s \<in> {''PANIC'', ''panic''} then Ok PANIC
      else if s \<in> {''FATAL'', ''fatal''} then Ok FATAL
      else Err (ErrMsg ''logger: invalid log level''))"

type_synonym module_levels = "string \<rightharpoonup> int"

definition getLevel :: "module_levels \<Rightarrow> string \<Rightarrow> int" where
  "getLevel ls m =
     (case ls m of Some l \<Rightarrow> l
      | None \<Rightarrow> (case ls [] of Some l \<Rightarrow> l | None \<Rightarrow> defaultLevel))"

definition setLevel :: "string \<Rightarrow> int \<Rightarrow> module_levels \<Rightarrow> module_levels" where
  "setLevel m l ls = ls(m \<mapsto> l)"

definition setDefaultLevel :: "int \<Rightarrow> module_levels \<Rightarrow> module_levels" where
  "setDefaultLevel l ls = setLevel [] l ls"

definition isEnabled :: "module_levels \<Rightarrow> string \<Rightarrow> int \<Rightarrow> bool" where
  "isEnabled ls m l \<longleftrightarrow> getLevel ls m \<le> l"

text \<open>The loop of \<open>SetSpec\<close> over the parts: the default found so far (below every level when there is none)
  and the pairs.\<close>

fun specParts :: "string list \<Rightarrow> int \<Rightarrow> (string \<times> int) list \<Rightarrow> (int \<times> (string \<times> int) list) res" where
  "specParts [] dflt prs = Ok (dflt, prs)"
| "specParts (part # parts) dflt prs =
     (if CHR ''='' \<in> set part
      then (let mp = split_on CHR ''='' part
            in bindR (parseLevel (mp ! 1)) (\<lambda>l. specParts parts dflt (prs @ [(mp ! 0, l)])))
      else if minLogLevel \<le> dflt then Err (ErrMsg ''multiple default values found'')
      else bindR (parseLevel part) (\<lambda>l. specParts parts l prs))"

definition setSpec :: "string \<Rightarrow> module_levels \<Rightarrow> unit res \<times> module_levels" where
  "setSpec spec ls =
     (case specParts (split_on CHR '':'' spec) (minLogLevel - 1) [] of
        Ok (dflt, prs) \<Rightarrow>
          (Ok (), foldl (\<lambda>ls (m, l). setLevel m l ls) (setLevel [] (if minLogLevel \<le> dflt then dflt else INFO) ls) prs)
      | Err e \<Rightarrow> (Err e, ls)
      | Panic p \<Rightarrow> (Panic p, ls))"

text \<open>\<open>GetSpec\<close> ranges over the map in an order of the run time's choice, here the order of the list of its
  entries.\<close>

fun getSpec :: "(string \<times> int) list \<Rightarrow> string \<Rightarrow> string \<Rightarrow> string" where
  "getSpec [] spec dflt = spec @ dflt"
| "getSpec ((m, l) # es) spec dflt =
     (if m = [] then getSpec es spec (levelString l)
      else getSpec es (spec @ m @ ''='' @ levelString l @ '':'') dflt)"

definition enumerates :: "(string \<times> int) list \<Rightarrow> module_levels \<Rightarrow> bool" where
  "enumerates es ls \<longleftrightarrow> distinct (map fst es) \<and> map_of es = ls"

text \<open>\<open>newZap\<close>: the two cores of a logger, by the level of the message.\<close>

datatype log_output = StdOut | StdErr

definition log_cores :: "module_levels \<Rightarrow> string \<Rightarrow> int \<Rightarrow> log_output list" where
  "log_cores ls m l =
     (if ERROR \<le> l \<and> isEnabled ls m l then [StdErr] else []) @ (if l < ERROR \<and> isEnabled ls m l then [StdOut] else [])"

datatype log_encoding = JsonEncoding | ConsoleEncoding

definition newZapEncoder :: "string \<Rightarrow> log_encoding res" where
  "newZapEncoder enc =
     (if to_lower enc = ''json'' then Ok JsonEncoding
      else if to_lower enc = ''console'' then Ok ConsoleEncoding
      else Panic (LibraryPanic (''unsupported encoding '' @ enc)))"

definition setDefaultLogLevel :: "string \<Rightarrow> module_levels \<Rightarrow> module_levels" where
  "setDefaultLogLevel userLogLevel ls =
     setLevel [] (case parseLevel userLogLevel of Ok l \<Rightarrow> l | _ \<Rightarrow> INFO) ls"

subsection \<open>Lemmas\<close>

definition valid_level :: "int \<Rightarrow> bool" where
  "valid_level l \<longleftrightarrow> l \<in> {DEBUG, INFO, WARNING, ERROR, PANIC, FATAL}"

lemma parse_levelString [simp]: "valid_level l \<Longrightarrow> parseLevel (levelString l) = Ok l"
  by (auto simp: valid_level_def levelString_def parseLevel_def level_defs)

lemma levelString_chars: "valid_level l \<Longrightarrow> CHR '':'' \<notin> set (levelString l) \<and> CHR ''='' \<notin> set (levelString l) \<and> levelString l \<noteq> []"
  by (auto simp: valid_level_def levelString_def level_defs)

lemma parseLevel_valid: "parseLevel s = Ok l \<Longrightarrow> valid_level l"
  by (auto simp: parseLevel_def valid_level_def split: if_splits)

lemma valid_level_min: "valid_level l \<Longrightarrow> minLogLevel \<le> l"
  by (auto simp: valid_level_def minLogLevel_def level_defs)

lemma critical_rejected: "\<not> is_ok (parseLevel ''critical'')" "\<not> is_ok (parseLevel ''CRITICAL'')"
  by (simp_all add: parseLevel_def)

lemma log_cores_one: "isEnabled ls m l \<Longrightarrow> log_cores ls m l = [if ERROR \<le> l then StdErr else StdOut]"
  and log_cores_none: "\<not> isEnabled ls m l \<Longrightarrow> log_cores ls m l = []"
  by (auto simp: log_cores_def)

lemma isEnabled_mono: "isEnabled ls m l \<Longrightarrow> l \<le> l' \<Longrightarrow> isEnabled ls m l'"
  by (simp add: isEnabled_def)

text \<open>The specification text is the join of the parts of the modules and the default.\<close>

definition module_part :: "string \<times> int \<Rightarrow> string" where
  "module_part e = fst e @ ''='' @ levelString (snd e)"

definition named :: "(string \<times> int) list \<Rightarrow> (string \<times> int) list" where
  "named es = filter (\<lambda>e. fst e \<noteq> []) es"

lemma getSpec_text:
  "distinct (map fst es) \<Longrightarrow> ([] \<in> fst ` set es \<longrightarrow> dflt = []) \<Longrightarrow>
     getSpec es spec dflt = spec @ concat (map (\<lambda>e. module_part e @ '':'') (named es))
       @ (case map_of es [] of Some l \<Rightarrow> levelString l | None \<Rightarrow> dflt)"
proof (induction es spec dflt rule: getSpec.induct)
  case (2 m l es spec dflt)
  show ?case
  proof (cases "m = []")
    case True
    then have "[] \<notin> fst ` set es" "map_of es [] = None" using 2(3) by (auto simp: map_of_eq_None_iff)
    then show ?thesis using 2 True by (simp add: named_def)
  next
    case False
    then show ?thesis using 2 by (simp add: named_def module_part_def)
  qed
qed (simp add: named_def)

lemma split_spec:
  "\<forall>e \<in> set es. CHR '':'' \<notin> set (module_part e) \<Longrightarrow> CHR '':'' \<notin> set d \<Longrightarrow>
     split_on CHR '':'' (concat (map (\<lambda>e. module_part e @ '':'') es) @ d) = map module_part es @ [d]"
proof (induction es)
  case (Cons e es)
  then show ?case using split_on_append [of "CHR '':''" "module_part e"] by simp
qed (simp add: split_on_no_sep)

lemma specParts_modules:
  assumes "\<forall>(m, l) \<in> set es. CHR ''='' \<notin> set m \<and> valid_level l"
  shows "specParts (map module_part es @ [d]) dflt prs = specParts [d] dflt (prs @ es)"
  using assms
proof (induction es arbitrary: prs)
  case (Cons e es)
  obtain m l where e: "e = (m, l)" by fastforce
  have "split_on CHR ''='' (module_part e) = [m, levelString l]"
    using Cons.prems levelString_chars e by (simp add: module_part_def split_on_append split_on_no_sep)
  then show ?case
    using Cons e by (simp add: module_part_def)
qed simp

lemma fold_setLevel: "distinct (map fst es) \<Longrightarrow> foldl (\<lambda>ls (m, l). setLevel m l ls) ls es = ls ++ map_of es"
proof (induction es arbitrary: ls)
  case (Cons e es)
  then have "map_of es (fst e) = None" by (simp add: map_of_eq_None_iff)
  then show ?case
    using Cons by (cases e) (auto simp: setLevel_def map_add_def fun_eq_iff split: option.splits)
qed simp

lemma map_of_named: "map_of es [] = Some l \<Longrightarrow> ls([] \<mapsto> l) ++ map_of (named es) = ls ++ map_of es"
proof -
  have n: "map_of (named es) m = (if m = [] then None else map_of es m)" for m
    by (induction es) (auto simp: named_def)
  assume "map_of es [] = Some l"
  then show ?thesis by (auto simp: n map_add_def fun_eq_iff split: option.splits)
qed

subsection \<open>Properties\<close>

text \<open>The specification of the levels reads back. For levels of the six named kinds and module names
  without a colon or an equals sign, whatever the order in which the map is enumerated, giving the text of
  \<open>GetSpec\<close> to \<open>SetSpec\<close> sets exactly the levels it was made from and keeps those of other modules; but when
  the default level was never set, the text ends in a colon and is rejected, leaving everything unchanged.\<close>
theorem log_spec_roundtrip:
  assumes "enumerates es ls" "\<forall>m l. ls m = Some l \<longrightarrow> valid_level l \<and> CHR '':'' \<notin> set m \<and> CHR ''='' \<notin> set m"
  shows "setSpec (getSpec es [] []) ls' =
     (if ls [] = None then (Err (ErrMsg ''logger: invalid log level''), ls') else (Ok (), ls' ++ ls))"
proof -
  have es: "distinct (map fst es)" "map_of es = ls" using assms(1) by (simp_all add: enumerates_def)
  let ?n = "named es" and ?d = "case ls [] of Some l \<Rightarrow> levelString l | None \<Rightarrow> []"
  have v: "\<forall>(m, l) \<in> set es. valid_level l \<and> CHR '':'' \<notin> set m \<and> CHR ''='' \<notin> set m"
    using assms(2) es map_of_is_SomeI by fastforce
  have d: "valid_level l" if "ls [] = Some l" for l using assms(2) that by blast
  have parts: "split_on CHR '':'' (getSpec es [] []) = map module_part ?n @ [?d]"
    using split_spec [of ?n ?d] getSpec_text [OF es(1), of "[]" "[]"] v d levelString_chars
    by (fastforce simp: es(2) named_def module_part_def split: option.splits)
  have eq: "\<forall>(m, l) \<in> set ?n. CHR ''='' \<notin> set m \<and> valid_level l" using v by (auto simp: named_def)
  note spec = specParts_modules [OF eq, of ?d "minLogLevel - 1" "[]"]
  show ?thesis
  proof (cases "ls []")
    case None
    then show ?thesis using spec by (simp add: setSpec_def parts parseLevel_def)
  next
    case (Some l)
    have "distinct (map fst ?n)" using es(1) by (simp add: named_def distinct_map_filter)
    then show ?thesis
      using Some spec levelString_chars [OF d [OF Some]] d [OF Some] valid_level_min [OF d [OF Some]] map_of_named [of es l ls'] es(2)
      by (simp add: setSpec_def parts setLevel_def fold_setLevel [unfolded setLevel_def])
  qed
qed

definition demo_levels :: "(string \<times> int) list" where
  "demo_levels = [(''m1'', DEBUG), ([], ERROR), (''m2'', PANIC)]"

theorem log_spec_roundtrip_witness:
  "getSpec demo_levels [] [] = ''m1=DEBUG:m2=PANIC:ERROR''
   \<and> setSpec ''m1=DEBUG:m2=PANIC:ERROR'' Map.empty = (Ok (), map_of demo_levels)"
proof -
  have t: "getSpec demo_levels [] [] = ''m1=DEBUG:m2=PANIC:ERROR''"
    by (simp add: demo_levels_def levelString_def level_defs)
  have e: "enumerates demo_levels (map_of demo_levels)" by (simp add: enumerates_def demo_levels_def)
  have "\<forall>m l. map_of demo_levels m = Some l \<longrightarrow> valid_level l \<and> CHR '':'' \<notin> set m \<and> CHR ''='' \<notin> set m"
    by (auto simp: demo_levels_def valid_level_def split: if_splits)
  from log_spec_roundtrip [OF e this, of Map.empty] t show ?thesis by (simp add: demo_levels_def)
qed

end
