(* ===== verification/Cert_Pool.thy ===== *)
theory Cert_Pool
  imports Vcs_Prelude
begin

text \<open>
  \<open>internal/pkg/tls/certpool.go\<close> and \<open>internal/pkg/utils/tls/util.go\<close>: the pool of trusted certificates. \<open>Add\<close>
  queues certificates and marks the pool dirty, \<open>Get\<close> rebuilds a dirty pool. Each critical section is one
  definition; a call is their sequence, and the concurrent calls of several threads are the interleavings
  of the step relation below. The \<open>x509\<close> pool is the parameter \<open>'p\<close> with its \<open>AddCert\<close>; a certificate pointer
  has an address, since duplicates within one call are found by address.
\<close>

record cert =
  ct_addr :: nat
  ct_RawSubject :: string
  ct_Raw :: string

record 'p cert_pool =
  cp_certPool :: 'p
  cp_certs :: "cert list"
  cp_certsByName :: "string \<Rightarrow> nat list"
  cp_dirty :: bool
  cp_systemCertPool :: bool

definition cert_equal :: "cert \<Rightarrow> cert \<Rightarrow> bool" where
  "cert_equal c d = (ct_Raw c = ct_Raw d)"

text \<open>\<open>new_pool\<close> and \<open>system\<close> are the outcomes of \<open>x509.NewCertPool\<close> and \<open>x509.SystemCertPool\<close> at the call.\<close>

definition loadSystemCertPool :: "'p \<Rightarrow> 'p res \<Rightarrow> bool \<Rightarrow> 'p res" where
  "loadSystemCertPool new_pool system useSystemCertPool = (if \<not> useSystemCertPool then Ok new_pool else system)"

definition newCertPool :: "'p \<Rightarrow> 'p res \<Rightarrow> bool \<Rightarrow> 'p cert_pool res" where
  "newCertPool new_pool system useSystemCertPool =
     bindR (loadSystemCertPool new_pool system useSystemCertPool) (\<lambda>c.
     Ok \<lparr>cp_certPool = c, cp_certs = [], cp_certsByName = (\<lambda>_. []), cp_dirty = False,
         cp_systemCertPool = useSystemCertPool\<rparr>)"

fun known_cert :: "cert list \<Rightarrow> cert \<Rightarrow> nat list \<Rightarrow> bool res" where
  "known_cert certs c [] = Ok False"
| "known_cert certs c (p # ps) =
     (if p < length certs
      then if cert_equal (certs ! p) c then Ok True else known_cert certs c ps
      else Panic IndexOutOfRange)"

fun removeDuplicates :: "nat set \<Rightarrow> cert list \<Rightarrow> cert list" where
  "removeDuplicates encountered [] = []"
| "removeDuplicates encountered (c # cs) =
     (if ct_addr c \<in> encountered then removeDuplicates encountered cs
      else c # removeDuplicates (insert (ct_addr c) encountered) cs)"

fun newCerts :: "'p cert_pool \<Rightarrow> cert option list \<Rightarrow> cert list res" where
  "newCerts s [] = Ok []"
| "newCerts s (None # cs) = newCerts s cs"
| "newCerts s (Some c # cs) =
     bindR (known_cert (cp_certs s) c (cp_certsByName s (ct_RawSubject c))) (\<lambda>k.
     bindR (newCerts s cs) (\<lambda>r. Ok (if k then r else c # r)))"

definition filterCerts :: "cert option list \<Rightarrow> 'p cert_pool \<Rightarrow> cert list res" where
  "filterCerts certs s = bindR (newCerts s certs) (\<lambda>f. Ok (removeDuplicates {} f))"

definition store_cert :: "cert \<Rightarrow> 'p cert_pool \<Rightarrow> 'p cert_pool" where
  "store_cert c s = s\<lparr>cp_certsByName := (cp_certsByName s)(ct_RawSubject c := cp_certsByName s (ct_RawSubject c) @ [length (cp_certs s)]),
     cp_certs := cp_certs s @ [c]\<rparr>"

definition commitCerts :: "cert list \<Rightarrow> 'p cert_pool \<Rightarrow> 'p cert_pool" where
  "commitCerts cs s = (fold store_cert cs s)\<lparr>cp_dirty := True\<rparr>"

definition addCerts :: "cert option list \<Rightarrow> 'p cert_pool \<Rightarrow> unit res \<times> 'p cert_pool" where
  "addCerts certs s =
     (if certs = [] then (Ok (), s)
      else andthen (pure_op (filterCerts certs s) s) (\<lambda>f s. (Ok (), if f = [] then s else commitCerts f s)))"

definition swapCertPool :: "(cert \<Rightarrow> 'p \<Rightarrow> 'p) \<Rightarrow> 'p \<Rightarrow> 'p res \<Rightarrow> 'p cert_pool \<Rightarrow> unit res \<times> 'p cert_pool" where
  "swapCertPool addCert new_pool system s =
     andthen (pure_op (loadSystemCertPool new_pool system (cp_systemCertPool s)) s) (\<lambda>p s.
     (Ok (), s\<lparr>cp_certPool := fold addCert (cp_certs s) p\<rparr>))"

definition getPool :: "(cert \<Rightarrow> 'p \<Rightarrow> 'p) \<Rightarrow> 'p \<Rightarrow> 'p res \<Rightarrow> 'p cert_pool \<Rightarrow> 'p res \<times> 'p cert_pool" where
  "getPool addCert new_pool system s =
     andthen (if cp_dirty s then swapCertPool addCert new_pool system (s\<lparr>cp_dirty := False\<rparr>) else (Ok (), s)) (\<lambda>_ s.
     (Ok (cp_certPool s), s))"

text \<open>\<open>GetCertPool\<close>: reading a file, finding a PEM block (nil when there is none) and parsing it are
  parameters, as are the two outcomes of loading the system pool.\<close>

record ca_files =
  ca_ReadFile :: "string \<Rightarrow> string res"
  ca_PemDecode :: "string \<Rightarrow> string option"
  ca_ParseCertificate :: "string \<Rightarrow> cert res"

definition loadCert :: "ca_files \<Rightarrow> string \<Rightarrow> cert res" where
  "loadCert f path =
     bindR (wrapR ''failed to read cert: '' (ca_ReadFile f path)) (\<lambda>bytes.
     case ca_PemDecode f bytes of
       None \<Rightarrow> Err (ErrMsg ''failed to decode pem'')
     | Some block \<Rightarrow> wrapR ''failed to parse cert: '' (ca_ParseCertificate f block))"

fun loadCerts :: "ca_files \<Rightarrow> string list \<Rightarrow> 'p cert_pool \<Rightarrow> unit res \<times> 'p cert_pool" where
  "loadCerts f [] s = (Ok (), s)"
| "loadCerts f (v # vs) s =
     andthen (pure_op (loadCert f v) s) (\<lambda>c s. andthen (addCerts [Some c] s) (\<lambda>_ s. loadCerts f vs s))"

definition getCertPool :: "(cert \<Rightarrow> 'p \<Rightarrow> 'p) \<Rightarrow> 'p \<Rightarrow> 'p res \<Rightarrow> 'p res \<Rightarrow> ca_files \<Rightarrow> bool \<Rightarrow> string list \<Rightarrow> 'p res" where
  "getCertPool addCert new_pool system system' f useSystemCertPool tlsCACerts =
     bindR (wrapR ''failed to create new cert pool: '' (newCertPool new_pool system useSystemCertPool)) (\<lambda>s.
     fst (andthen (loadCerts f tlsCACerts s) (\<lambda>_ s. getPool addCert new_pool system' s)))"

subsection \<open>The index of the queue\<close>

definition index_ok :: "'p cert_pool \<Rightarrow> bool" where
  "index_ok s \<longleftrightarrow> (\<forall>n. cp_certsByName s n = filter (\<lambda>i. ct_RawSubject (cp_certs s ! i) = n) [0..<length (cp_certs s)])"

lemma index_ok_new [simp]: "index_ok (s\<lparr>cp_certs := [], cp_certsByName := \<lambda>_. []\<rparr>)"
  by (simp add: index_ok_def)

lemma index_ok_fields [simp]: "index_ok (s\<lparr>cp_dirty := d\<rparr>) = index_ok s" "index_ok (s\<lparr>cp_certPool := p\<rparr>) = index_ok s"
  by (simp_all add: index_ok_def)

lemma index_ok_store: "index_ok s \<Longrightarrow> index_ok (store_cert c s)"
  unfolding index_ok_def store_cert_def
  by (auto simp: nth_append intro!: filter_cong)

lemma index_ok_fold: "index_ok s \<Longrightarrow> index_ok (fold store_cert cs s)"
  by (induction cs arbitrary: s) (simp_all add: index_ok_store)

lemma index_ok_commit: "index_ok s \<Longrightarrow> index_ok (commitCerts cs s)"
  by (simp add: commitCerts_def index_ok_fold)

lemma certs_fold: "cp_certs (fold store_cert cs s) = cp_certs s @ cs"
  "cp_certPool (fold store_cert cs s) = cp_certPool s" "cp_systemCertPool (fold store_cert cs s) = cp_systemCertPool s"
  "cp_dirty (fold store_cert cs s) = cp_dirty s"
  by (induction cs arbitrary: s) (simp_all add: store_cert_def)

lemma commit_fields [simp]: "cp_certs (commitCerts cs s) = cp_certs s @ cs" "cp_certPool (commitCerts cs s) = cp_certPool s"
  "cp_systemCertPool (commitCerts cs s) = cp_systemCertPool s" "cp_dirty (commitCerts cs s)"
  by (simp_all add: commitCerts_def certs_fold)

lemma known_cert_range: "\<forall>p \<in> set ps. p < length certs \<Longrightarrow> known_cert certs c ps = Ok (\<exists>p \<in> set ps. cert_equal (certs ! p) c)"
  by (induction ps) auto

text \<open>Certificates with the same bytes have the same subject.\<close>

definition certs_ok :: "cert set \<Rightarrow> bool" where
  "certs_ok C \<longleftrightarrow> (\<forall>c \<in> C. \<forall>d \<in> C. ct_Raw c = ct_Raw d \<longrightarrow> ct_RawSubject c = ct_RawSubject d)"

lemma known_cert_ok:
  assumes "index_ok s"
  shows "known_cert (cp_certs s) c (cp_certsByName s (ct_RawSubject c)) =
     Ok (\<exists>d \<in> set (cp_certs s). ct_RawSubject d = ct_RawSubject c \<and> cert_equal d c)"
proof -
  have r: "set (cp_certsByName s (ct_RawSubject c)) = {i. i < length (cp_certs s) \<and> ct_RawSubject (cp_certs s ! i) = ct_RawSubject c}"
    using assms by (auto simp: index_ok_def)
  then have "\<forall>p \<in> set (cp_certsByName s (ct_RawSubject c)). p < length (cp_certs s)" by simp
  then have k: "known_cert (cp_certs s) c (cp_certsByName s (ct_RawSubject c)) =
      Ok (\<exists>p \<in> set (cp_certsByName s (ct_RawSubject c)). cert_equal (cp_certs s ! p) c)" by (rule known_cert_range)
  show ?thesis unfolding k r by (auto simp: in_set_conv_nth Bex_def)
qed

definition raws :: "cert list \<Rightarrow> string set" where
  "raws cs = ct_Raw ` set cs"

lemma removeDuplicates_subset: "set (removeDuplicates A cs) \<subseteq> set cs"
  by (induction A cs rule: removeDuplicates.induct) auto

lemma removeDuplicates_keeps:
  "c \<in> set cs \<Longrightarrow> ct_addr c \<notin> A \<Longrightarrow> \<exists>d \<in> set (removeDuplicates A cs). ct_addr d = ct_addr c"
proof (induction A cs rule: removeDuplicates.induct)
  case (2 A d cs)
  then show ?case by (cases "ct_addr d = ct_addr c") auto
qed simp

lemma removeDuplicates_distinct: "distinct (map ct_addr (removeDuplicates A cs)) \<and> ct_addr ` set (removeDuplicates A cs) \<inter> A = {}"
  by (induction A cs rule: removeDuplicates.induct) auto

text \<open>A filtered queue: only certificates of the call that are not in the queue, and of those every address.\<close>

lemma newCerts_ok:
  "index_ok s \<Longrightarrow> \<exists>f. newCerts s certs = Ok f \<and>
     set f = {c. Some c \<in> set certs \<and> \<not> (\<exists>d \<in> set (cp_certs s). ct_RawSubject d = ct_RawSubject c \<and> cert_equal d c)}"
proof (induction s certs rule: newCerts.induct)
  case (3 s c cs)
  then obtain f where f: "newCerts s cs = Ok f"
    "set f = {c. Some c \<in> set cs \<and> \<not> (\<exists>d \<in> set (cp_certs s). ct_RawSubject d = ct_RawSubject c \<and> cert_equal d c)}" by blast
  let ?k = "\<exists>d \<in> set (cp_certs s). ct_RawSubject d = ct_RawSubject c \<and> cert_equal d c"
  have "newCerts s (Some c # cs) = Ok (if ?k then f else c # f)" by (simp add: known_cert_ok [OF 3(2)] f(1))
  then show ?case by (intro exI [of _ "if ?k then f else c # f"]) (auto simp: f(2))
qed auto

lemma filterCerts_ok:
  assumes "index_ok s"
  obtains f where "filterCerts certs s = Ok f" "\<forall>c \<in> set f. Some c \<in> set certs"
    "\<And>c. Some c \<in> set certs \<Longrightarrow> ct_Raw c \<notin> raws (cp_certs s) \<Longrightarrow> \<exists>d \<in> set f. ct_addr d = ct_addr c"
proof -
  obtain g where g: "newCerts s certs = Ok g"
    "set g = {c. Some c \<in> set certs \<and> \<not> (\<exists>d \<in> set (cp_certs s). ct_RawSubject d = ct_RawSubject c \<and> cert_equal d c)}"
    using newCerts_ok [OF assms] by blast
  show thesis
  proof (rule that [of "removeDuplicates {} g"])
    fix c
    assume "Some c \<in> set certs" "ct_Raw c \<notin> raws (cp_certs s)"
    then have "c \<in> set g" unfolding g(2) raws_def cert_equal_def by (auto simp: image_iff)
    then show "\<exists>d \<in> set (removeDuplicates {} g). ct_addr d = ct_addr c" by (rule removeDuplicates_keeps) simp
  qed (use g removeDuplicates_subset [of "{}" g] in \<open>auto simp: filterCerts_def\<close>)
qed

subsection \<open>Interleavings\<close>

text \<open>A thread is between two critical sections of its call.\<close>

datatype pool_pc = Idle | Filtering "cert option list" | Committing "cert list" | Swapping | Reading

record 'p pool_sys =
  ps_pool :: "'p cert_pool"
  ps_pcs :: "nat \<Rightarrow> pool_pc"

datatype 'p pool_event = AddCall nat "cert option list" | AddReturns nat | GetCall nat | GetFails nat | GetReturns nat 'p | Silent

abbreviation goto :: "nat \<Rightarrow> pool_pc \<Rightarrow> 'p pool_sys \<Rightarrow> 'p pool_sys" where
  "goto i pc s \<equiv> s\<lparr>ps_pcs := (ps_pcs s)(i := pc)\<rparr>"

inductive pool_step :: "(cert \<Rightarrow> 'p \<Rightarrow> 'p) \<Rightarrow> 'p \<Rightarrow> 'p res set \<Rightarrow> 'p pool_sys \<Rightarrow> 'p pool_event \<Rightarrow> 'p pool_sys \<Rightarrow> bool"
  for addCert new_pool systems where
  add_call: "ps_pcs s i = Idle \<Longrightarrow> certs \<noteq> [] \<Longrightarrow> pool_step addCert new_pool systems s (AddCall i certs) (goto i (Filtering certs) s)"
| add_known: "ps_pcs s i = Filtering certs \<Longrightarrow> filterCerts certs (ps_pool s) = Ok [] \<Longrightarrow>
     pool_step addCert new_pool systems s (AddReturns i) (goto i Idle s)"
| add_filter: "ps_pcs s i = Filtering certs \<Longrightarrow> filterCerts certs (ps_pool s) = Ok f \<Longrightarrow> f \<noteq> [] \<Longrightarrow>
     pool_step addCert new_pool systems s Silent (goto i (Committing f) s)"
| add_commit: "ps_pcs s i = Committing f \<Longrightarrow>
     pool_step addCert new_pool systems s (AddReturns i) (goto i Idle (s\<lparr>ps_pool := commitCerts f (ps_pool s)\<rparr>))"
| get_dirty: "ps_pcs s i = Idle \<Longrightarrow> cp_dirty (ps_pool s) \<Longrightarrow>
     pool_step addCert new_pool systems s (GetCall i) (goto i Swapping (s\<lparr>ps_pool := (ps_pool s)\<lparr>cp_dirty := False\<rparr>\<rparr>))"
| get_clean: "ps_pcs s i = Idle \<Longrightarrow> \<not> cp_dirty (ps_pool s) \<Longrightarrow>
     pool_step addCert new_pool systems s (GetCall i) (goto i Reading s)"
| get_swap: "ps_pcs s i = Swapping \<Longrightarrow> system \<in> systems \<Longrightarrow> swapCertPool addCert new_pool system (ps_pool s) = (Ok (), p) \<Longrightarrow>
     pool_step addCert new_pool systems s Silent (goto i Reading (s\<lparr>ps_pool := p\<rparr>))"
| get_fails: "ps_pcs s i = Swapping \<Longrightarrow> system \<in> systems \<Longrightarrow> swapCertPool addCert new_pool system (ps_pool s) = (Err e, p) \<Longrightarrow>
     pool_step addCert new_pool systems s (GetFails i) (goto i Idle (s\<lparr>ps_pool := p\<rparr>))"
| get_read: "ps_pcs s i = Reading \<Longrightarrow>
     pool_step addCert new_pool systems s (GetReturns i (cp_certPool (ps_pool s))) (goto i Idle s)"

inductive pool_run :: "(cert \<Rightarrow> 'p \<Rightarrow> 'p) \<Rightarrow> 'p \<Rightarrow> 'p res set \<Rightarrow> 'p pool_sys \<Rightarrow> 'p pool_event list \<Rightarrow> 'p pool_sys \<Rightarrow> bool"
  for addCert new_pool systems s0 where
  start: "pool_run addCert new_pool systems s0 [] s0"
| step: "pool_run addCert new_pool systems s0 es s \<Longrightarrow> pool_step addCert new_pool systems s e t \<Longrightarrow>
     pool_run addCert new_pool systems s0 (es @ [e]) t"

definition initial_sys :: "'p cert_pool \<Rightarrow> 'p pool_sys" where
  "initial_sys p = \<lparr>ps_pool = p, ps_pcs = (\<lambda>_. Idle)\<rparr>"

text \<open>A call that runs alone makes exactly the steps of the sequential definitions.\<close>

lemma alone_add:
  assumes "ps_pcs s i = Idle" "certs \<noteq> []" "addCerts certs (ps_pool s) = (Ok (), p)"
  shows "\<exists>es. pool_run addCert new_pool systems s (AddCall i certs # es @ [AddReturns i]) (s\<lparr>ps_pool := p\<rparr>)"
proof -
  let ?s1 = "goto i (Filtering certs) s"
  have s1: "pool_run addCert new_pool systems s [AddCall i certs] ?s1"
    using pool_run.step [OF pool_run.start add_call [OF assms(1,2)]] by simp
  obtain f where f: "filterCerts certs (ps_pool s) = Ok f" "p = (if f = [] then ps_pool s else commitCerts f (ps_pool s))"
    using assms(2,3) by (auto simp: addCerts_def elim: andthen_pureE)
  show ?thesis
  proof (cases "f = []")
    case True
    have "pool_step addCert new_pool systems ?s1 (AddReturns i) (goto i Idle ?s1)"
      by (rule add_known [where certs = certs]) (use f True in simp_all)
    from pool_run.step [OF s1 this] show ?thesis
      using f(2) True assms(1) by (intro exI [of _ "[]"]) (simp add: fun_upd_idem)
  next
    case False
    let ?s2 = "goto i (Committing f) ?s1"
    have a: "pool_step addCert new_pool systems ?s1 Silent ?s2" by (rule add_filter [where certs = certs]) (use f False in simp_all)
    have b: "pool_step addCert new_pool systems ?s2 (AddReturns i) (goto i Idle (?s2\<lparr>ps_pool := commitCerts f (ps_pool ?s2)\<rparr>))"
      by (rule add_commit) simp
    from pool_run.step [OF pool_run.step [OF s1 a] b] show ?thesis
      using f(2) False assms(1) by (intro exI [of _ "[Silent]"]) (simp add: fun_upd_idem)
  qed
qed

text \<open>What a pool trusts; the invariant says that the certificates of the queue reach the pool.\<close>

definition pool_laws :: "('p \<Rightarrow> string set) \<Rightarrow> (cert \<Rightarrow> 'p \<Rightarrow> 'p) \<Rightarrow> bool" where
  "pool_laws trusts addCert \<longleftrightarrow> (\<forall>c p. trusts (addCert c p) = insert (ct_Raw c) (trusts p))"

lemma trusts_fold: "pool_laws trusts addCert \<Longrightarrow> trusts (fold addCert cs p) = raws cs \<union> trusts p"
  by (induction cs arbitrary: p) (auto simp: pool_laws_def raws_def)

definition base_trust :: "('p \<Rightarrow> string set) \<Rightarrow> 'p \<Rightarrow> 'p \<Rightarrow> 'p cert_pool \<Rightarrow> string set" where
  "base_trust trusts new_pool system s = trusts (if cp_systemCertPool s then system else new_pool)"

definition swapping :: "(nat \<Rightarrow> pool_pc) \<Rightarrow> bool" where
  "swapping pcs \<longleftrightarrow> (\<exists>i. pcs i = Swapping)"

lemma swapping_upd [simp]:
  "swapping (pcs(i := Swapping))"
  "pcs i \<noteq> Swapping \<Longrightarrow> pc \<noteq> Swapping \<Longrightarrow> swapping (pcs(i := pc)) = swapping pcs"
  by (auto simp: swapping_def)

lemma not_swapping_Idle [simp]: "\<not> swapping (\<lambda>_. Idle)"
  by (simp add: swapping_def)

definition pool_inv :: "('p \<Rightarrow> string set) \<Rightarrow> 'p \<Rightarrow> 'p \<Rightarrow> 'p pool_sys \<Rightarrow> bool" where
  "pool_inv trusts new_pool system s \<longleftrightarrow>
     index_ok (ps_pool s)
     \<and> trusts (cp_certPool (ps_pool s)) \<subseteq> base_trust trusts new_pool system (ps_pool s) \<union> raws (cp_certs (ps_pool s))
     \<and> (\<not> cp_dirty (ps_pool s) \<longrightarrow> \<not> swapping (ps_pcs s) \<longrightarrow>
          trusts (cp_certPool (ps_pool s)) = base_trust trusts new_pool system (ps_pool s) \<union> raws (cp_certs (ps_pool s)))"

lemma swap_Ok:
  "swapCertPool addCert new_pool (Ok system) s = (Ok (), s\<lparr>cp_certPool := fold addCert (cp_certs s) (if cp_systemCertPool s then system else new_pool)\<rparr>)"
  by (simp add: swapCertPool_def loadSystemCertPool_def)

lemma pool_step_inv:
  assumes "pool_laws trusts addCert" "pool_step addCert new_pool {Ok system} s e t" "pool_inv trusts new_pool system s"
  shows "pool_inv trusts new_pool system t"
  using assms(2)
proof (cases rule: pool_step.cases)
  case (add_commit i f)
  then show ?thesis using assms(3) by (auto simp: pool_inv_def index_ok_commit base_trust_def raws_def)
next
  case (get_swap i sy p)
  then have "p = (ps_pool s)\<lparr>cp_certPool := fold addCert (cp_certs (ps_pool s)) (if cp_systemCertPool (ps_pool s) then system else new_pool)\<rparr>"
    by (simp add: swap_Ok)
  then show ?thesis
    using get_swap(2) assms(3) trusts_fold [OF assms(1)] by (auto simp: pool_inv_def base_trust_def)
next
  case (get_fails i sy er p)
  then show ?thesis by (simp add: swap_Ok)
qed (use assms(3) in \<open>auto simp: pool_inv_def base_trust_def split: if_splits\<close>)

lemma pool_run_inv:
  assumes "pool_run addCert new_pool {Ok system} s0 es s" "pool_laws trusts addCert" "pool_inv trusts new_pool system s0"
  shows "pool_inv trusts new_pool system s"
  using assms by (induction rule: pool_run.induct) (blast intro: pool_step_inv)+

lemma initial_inv:
  "newCertPool new_pool (Ok system) u = Ok p \<Longrightarrow> pool_inv trusts new_pool system (initial_sys p)"
  by (auto simp: newCertPool_def loadSystemCertPool_def pool_inv_def initial_sys_def base_trust_def raws_def index_ok_def split: if_splits)

text \<open>\<open>GetCertPool\<close> runs the pool sequentially.\<close>

lemma addCerts_one:
  assumes "index_ok s"
  obtains s' where "addCerts [Some c] s = (Ok (), s')" "index_ok s'" "cp_systemCertPool s' = cp_systemCertPool s"
    "cp_certPool s' = cp_certPool s" "cp_certs s = cp_certs s' \<and> cp_dirty s' = cp_dirty s \<and> ct_Raw c \<in> raws (cp_certs s) \<or>
      cp_certs s' = cp_certs s @ [c] \<and> cp_dirty s'"
proof -
  obtain f where f: "filterCerts [Some c] s = Ok f"
    "f = (if \<exists>d \<in> set (cp_certs s). ct_RawSubject d = ct_RawSubject c \<and> cert_equal d c then [] else [c])"
    by (simp add: filterCerts_def known_cert_ok [OF assms])
  show thesis
  proof (rule that [of "if f = [] then s else commitCerts f s"])
    show "cp_certs s = cp_certs (if f = [] then s else commitCerts f s)
        \<and> cp_dirty (if f = [] then s else commitCerts f s) = cp_dirty s \<and> ct_Raw c \<in> raws (cp_certs s) \<or>
      cp_certs (if f = [] then s else commitCerts f s) = cp_certs s @ [c] \<and> cp_dirty (if f = [] then s else commitCerts f s)"
      using f(2) by (auto simp: raws_def cert_equal_def image_iff) metis
  qed (use f(1) assms in \<open>auto simp: addCerts_def index_ok_commit\<close>)
qed

lemma raws_app [simp]: "raws (xs @ ys) = raws xs \<union> raws ys" "raws [] = {}" "raws (c # cs) = insert (ct_Raw c) (raws cs)"
  by (auto simp: raws_def)

lemma loadCerts_queue:
  assumes "loadCerts f vs s = (Ok (), s')" "index_ok s" "\<not> cp_dirty s \<longrightarrow> cp_certs s = []"
  shows "\<exists>cs. mapR (loadCert f) vs = Ok cs \<and> raws (cp_certs s') = raws (cp_certs s) \<union> raws cs
    \<and> cp_systemCertPool s' = cp_systemCertPool s \<and> cp_certPool s' = cp_certPool s \<and> (\<not> cp_dirty s' \<longrightarrow> cp_certs s' = [])"
  using assms
proof (induction vs arbitrary: s)
  case (Cons v vs)
  obtain c s1 where c: "loadCert f v = Ok c" "addCerts [Some c] s = (Ok (), s1)" "loadCerts f vs s1 = (Ok (), s')"
    using Cons.prems(1) by (auto elim!: andthen_pureE)
  obtain t where t: "addCerts [Some c] s = (Ok (), t)" "index_ok t" "cp_systemCertPool t = cp_systemCertPool s" "cp_certPool t = cp_certPool s"
    "cp_certs s = cp_certs t \<and> cp_dirty t = cp_dirty s \<and> ct_Raw c \<in> raws (cp_certs s) \<or> cp_certs t = cp_certs s @ [c] \<and> cp_dirty t"
    using addCerts_one [OF Cons.prems(2)] by blast
  have e: "s1 = t" using c(2) t(1) by simp
  have "\<not> cp_dirty t \<longrightarrow> cp_certs t = []" using t(5) Cons.prems(3) by auto
  from Cons.IH [OF c(3)] this t(2) e obtain cs where cs: "mapR (loadCert f) vs = Ok cs" "raws (cp_certs s') = raws (cp_certs t) \<union> raws cs"
    "cp_systemCertPool s' = cp_systemCertPool t" "cp_certPool s' = cp_certPool t" "\<not> cp_dirty s' \<longrightarrow> cp_certs s' = []" by blast
  have "raws (cp_certs t) = insert (ct_Raw c) (raws (cp_certs s))"
    using t(5)
  proof
    assume "cp_certs s = cp_certs t \<and> cp_dirty t = cp_dirty s \<and> ct_Raw c \<in> raws (cp_certs s)"
    then show ?thesis by (metis insert_absorb)
  qed simp
  then have "raws (cp_certs s') = raws (cp_certs s) \<union> raws (c # cs)" using cs(2) by simp
  then show ?case
    using c(1) cs(1,3-5) t(3,4) by (intro exI [of _ "c # cs"]) simp
qed simp

subsection \<open>Properties\<close>

text \<open>C22: Concurrent use of the certificate pool. In every state that any threads reach by adding certificates
  and getting the pool, as long as the system pool can be loaded, the pool trusts nothing beyond its base
  (the system pool, if configured, or the empty one) and the certificates that were queued; no index is out
  of range; and when the pool is not marked dirty and no thread is rebuilding it, it trusts all of them.\<close>
theorem cert_pool_trust:
  assumes "pool_laws trusts addCert" "newCertPool new_pool (Ok system) useSystem = Ok p"
    and "pool_run addCert new_pool {Ok system} (initial_sys p) es s"
  shows "(let t = trusts (cp_certPool (ps_pool s));
              queued = raws (cp_certs (ps_pool s));
              base = base_trust trusts new_pool system (ps_pool s)
          in t \<subseteq> base \<union> queued \<and> (\<not> cp_dirty (ps_pool s) \<longrightarrow> \<not> swapping (ps_pcs s) \<longrightarrow> t = base \<union> queued))
    \<and> (\<forall>certs. is_ok (filterCerts certs (ps_pool s)))"
proof -
  have inv: "pool_inv trusts new_pool system s"
    by (rule pool_run_inv [OF assms(3,1) initial_inv [OF assms(2)]])
  then have "is_ok (filterCerts certs (ps_pool s))" for certs
    using filterCerts_ok [of "ps_pool s" certs] by (metis pool_inv_def is_ok.simps(1))
  then show ?thesis using inv by (simp add: pool_inv_def Let_def)
qed

definition demo_cert :: "nat \<Rightarrow> string \<Rightarrow> cert" where
  "demo_cert a r = \<lparr>ct_addr = a, ct_RawSubject = ''CN'', ct_Raw = r\<rparr>"

definition add_raw :: "cert \<Rightarrow> string set \<Rightarrow> string set" where
  "add_raw c P = insert (ct_Raw c) P"

definition fresh_pool :: "string set cert_pool" where
  "fresh_pool = \<lparr>cp_certPool = {}, cp_certs = [], cp_certsByName = (\<lambda>_. []), cp_dirty = False, cp_systemCertPool = False\<rparr>"

lemma demo_pool: "newCertPool {} (Ok {}) False = Ok fresh_pool" "pool_laws id add_raw"
  by (simp_all add: newCertPool_def loadSystemCertPool_def fresh_pool_def pool_laws_def add_raw_def)

lemma demo_add: "\<exists>s'. addCerts [Some (demo_cert 1 ''a'')] fresh_pool = (Ok (), s') \<and> cp_dirty s' \<and> cp_certPool s' = {}
   \<and> cp_certs s' = [demo_cert 1 ''a''] \<and> cp_systemCertPool s' = False"
  by (simp add: addCerts_def filterCerts_def fresh_pool_def)

theorem cert_pool_trust_witness:
  "\<exists>es s. pool_run add_raw {} {Ok {}} (initial_sys fresh_pool) es s \<and> raws (cp_certs (ps_pool s)) = {''a''}
     \<and> cp_certPool (ps_pool s) \<subseteq> {''a''}"
proof -
  obtain q where q: "addCerts [Some (demo_cert 1 ''a'')] fresh_pool = (Ok (), q)" "cp_certs q = [demo_cert 1 ''a'']" "cp_systemCertPool q = False"
    using demo_add by blast
  obtain es where r: "pool_run add_raw {} {Ok {}} (initial_sys fresh_pool) es ((initial_sys fresh_pool)\<lparr>ps_pool := q\<rparr>)"
    using alone_add [of "initial_sys fresh_pool" 0 "[Some (demo_cert 1 ''a'')]" q add_raw "{}" "{Ok {}}"] q(1)
    by (auto simp: initial_sys_def)
  have "cp_certPool q \<subseteq> {''a''}" "raws (cp_certs q) = {''a''}"
    using cert_pool_trust [OF demo_pool(2,1) r] q(2,3) by (auto simp: Let_def base_trust_def demo_cert_def)
  with r show ?thesis by (intro exI [of _ es] exI [of _ "(initial_sys fresh_pool)\<lparr>ps_pool := q\<rparr>"]) simp
qed

text \<open>The certificates of the configuration are trusted. When \<open>GetCertPool\<close> succeeds, every configured file
  was read, decoded and parsed, and the pool trusts exactly its base and the certificates of these files.\<close>
theorem configured_certs_trusted:
  assumes "pool_laws trusts addCert"
    and "getCertPool addCert new_pool system system' files useSystem paths = Ok p"
    and "useSystem \<longrightarrow> (\<exists>q q'. system = Ok q \<and> system' = Ok q' \<and> trusts q' = trusts q)"
  shows "\<exists>cs base. mapR (loadCert files) paths = Ok cs \<and> loadSystemCertPool new_pool system useSystem = Ok base
    \<and> trusts p = trusts base \<union> raws cs"
proof -
  obtain s s' where s: "newCertPool new_pool system useSystem = Ok s" "loadCerts files paths s = (Ok (), s')"
    "fst (getPool addCert new_pool system' s') = Ok p"
  proof -
    obtain s where a: "newCertPool new_pool system useSystem = Ok s"
      "fst (andthen (loadCerts files paths s) (\<lambda>_ s. getPool addCert new_pool system' s)) = Ok p"
      using assms(2) by (auto simp: getCertPool_def)
    obtain r s' where l: "loadCerts files paths s = (r, s')" by fastforce
    with a(2) have "r = Ok ()" "fst (getPool addCert new_pool system' s') = Ok p" by (cases r; simp)+
    with a(1) l show thesis by (intro that) simp_all
  qed
  have n: "loadSystemCertPool new_pool system useSystem = Ok (cp_certPool s)" "cp_certs s = []" "index_ok s"
    "cp_systemCertPool s = useSystem" "\<not> cp_dirty s"
    using s(1) by (auto simp: newCertPool_def index_ok_def)
  obtain cs where cs: "mapR (loadCert files) paths = Ok cs" "raws (cp_certs s') = raws cs"
    "cp_systemCertPool s' = useSystem" "cp_certPool s' = cp_certPool s" "\<not> cp_dirty s' \<longrightarrow> cp_certs s' = []"
    using loadCerts_queue [OF s(2) n(3)] n by auto
  have "trusts p = trusts (cp_certPool s) \<union> raws cs"
  proof (cases "cp_dirty s'")
    case True
    obtain b where "loadSystemCertPool new_pool system' useSystem = Ok b" "p = fold addCert (cp_certs s') b"
      using s(3) True cs(3) by (auto simp: getPool_def swapCertPool_def pure_op_def elim!: bindR.elims split: if_splits res.splits
          intro: res.exhaust [of "loadSystemCertPool new_pool system' useSystem"])
    then show ?thesis
      using trusts_fold [OF assms(1)] cs(2) n(1) assms(3) by (auto simp: loadSystemCertPool_def split: if_splits)
  next
    case False
    then show ?thesis using s(3) cs by (auto simp: getPool_def)
  qed
  with cs(1) n(1) show ?thesis by blast
qed

text \<open>Two ways to miss a queued certificate. When the system pool cannot be loaded, \<open>Get\<close> returns an error
  but has already cleared the dirty mark, so the next \<open>Get\<close> returns the old pool without the certificate;
  and a \<open>Get\<close> that starts after \<open>Add\<close> has returned gets the old pool while another one is rebuilding it.\<close>
theorem queued_certificate_missed:
  "(\<exists>s1 s2 s3. addCerts [Some (demo_cert 1 ''a'')] (fresh_pool\<lparr>cp_systemCertPool := True\<rparr>) = (Ok (), s1)
      \<and> getPool add_raw {} (Err (ErrExt ''no roots'')) s1 = (Err (ErrExt ''no roots''), s2)
      \<and> getPool add_raw {} (Ok {}) s2 = (Ok {}, s3))
   \<and> (\<exists>s. pool_run add_raw {} {Ok {}} (initial_sys fresh_pool)
        [AddCall 0 [Some (demo_cert 1 ''a'')], Silent, AddReturns 0, GetCall 1, GetCall 2, GetReturns 2 {}] s
        \<and> raws (cp_certs (ps_pool s)) = {''a''})"
proof
  show "\<exists>s1 s2 s3. addCerts [Some (demo_cert 1 ''a'')] (fresh_pool\<lparr>cp_systemCertPool := True\<rparr>) = (Ok (), s1)
      \<and> getPool add_raw {} (Err (ErrExt ''no roots'')) s1 = (Err (ErrExt ''no roots''), s2)
      \<and> getPool add_raw {} (Ok {}) s2 = (Ok {}, s3)"
    by (simp add: addCerts_def filterCerts_def fresh_pool_def getPool_def swapCertPool_def loadSystemCertPool_def pure_op_def)
  let ?c = "demo_cert 1 ''a''" and ?s0 = "initial_sys fresh_pool"
  let ?s1 = "goto 0 (Filtering [Some ?c]) ?s0"
  let ?s2 = "goto 0 (Committing [?c]) ?s1"
  let ?s3 = "goto 0 Idle (?s2\<lparr>ps_pool := commitCerts [?c] (ps_pool ?s2)\<rparr>)"
  let ?s4 = "goto 1 Swapping (?s3\<lparr>ps_pool := (ps_pool ?s3)\<lparr>cp_dirty := False\<rparr>\<rparr>)"
  let ?s5 = "goto 2 Reading ?s4"
  note D = initial_sys_def fresh_pool_def filterCerts_def commitCerts_def store_cert_def
  let ?st = "pool_step add_raw {} {Ok {}}"
  have st: "?st ?s0 (AddCall 0 [Some ?c]) ?s1" "?st ?s1 Silent ?s2" "?st ?s2 (AddReturns 0) ?s3" "?st ?s3 (GetCall 1) ?s4"
    "?st ?s4 (GetCall 2) ?s5" "?st ?s5 (GetReturns 2 (cp_certPool (ps_pool ?s5))) (goto 2 Idle ?s5)"
    by (rule add_call add_filter [where certs = "[Some ?c]"] add_commit get_dirty get_clean get_read; simp add: D)+
  have "pool_run add_raw {} {Ok {}} ?s0 ([] @ [AddCall 0 [Some ?c]] @ [Silent] @ [AddReturns 0] @ [GetCall 1] @ [GetCall 2]
      @ [GetReturns 2 (cp_certPool (ps_pool ?s5))]) (goto 2 Idle ?s5)"
    using pool_run.start [THEN pool_run.step, OF st(1), THEN pool_run.step, OF st(2), THEN pool_run.step, OF st(3),
      THEN pool_run.step, OF st(4), THEN pool_run.step, OF st(5), THEN pool_run.step, OF st(6)] by simp
  moreover have "cp_certPool (ps_pool ?s5) = {}" "raws (cp_certs (ps_pool (goto 2 Idle ?s5))) = {''a''}"
    by (simp_all add: D demo_cert_def)
  ultimately show "\<exists>s. pool_run add_raw {} {Ok {}} ?s0
        [AddCall 0 [Some ?c], Silent, AddReturns 0, GetCall 1, GetCall 2, GetReturns 2 {}] s \<and> raws (cp_certs (ps_pool s)) = {''a''}"
    by (intro exI [of _ "goto 2 Idle ?s5"]) simp
qed

end
