(* ===== verification/Did_Configuration.thy ===== *)
theory Did_Configuration
  imports Profile_Model Rest_Api Vc_Crypto Request_Object
begin

text \<open>
  \<open>pkg/service/didconfiguration/didconfiguration_service.go\<close>: the well-known DID configuration of a profile, a
  domain linkage credential signed by the profile's key; and the developer API over it and over the request
  objects (\<open>pkg/restapi/v1/devapi/controller.go\<close>).
\<close>

definition didConfigurationContextURL :: string where
  "didConfigurationContextURL = ''https://identity.foundation/.well-known/did-configuration/v1''"

definition w3CredentialsURL :: string where
  "w3CredentialsURL = ''https://www.w3.org/2018/credentials/v1''"

definition ProfileTypeIssuer :: string where "ProfileTypeIssuer = ''issuer''"
definition ProfileTypeVerifier :: string where "ProfileTypeVerifier = ''verifier''"

record ('pd, 'k) did_config_service =
  ds_verifierProfile :: "string \<Rightarrow> 'pd verifier option res"
  ds_issuerProfile :: "string \<Rightarrow> issuer option res"
  ds_signCredential :: "'k vc_signer \<Rightarrow> credential \<Rightarrow> credential res"
  ds_keyManager :: "kms_config option \<Rightarrow> 'k key_manager res"
  ds_addYear :: "int \<Rightarrow> int"

datatype linked_did = LinkedJWT string | LinkedCredential credential

record did_configuration =
  dc_Context :: string
  dc_LinkedDiDs :: "linked_did list"

definition getBaseCredentials :: "(int \<Rightarrow> int) \<Rightarrow> int \<Rightarrow> credential" where
  "getBaseCredentials addYear now = empty_credential
     \<lparr>cr_Context := [w3CredentialsURL, didConfigurationContextURL],
      cr_Types := [''VerifiableCredential'', ''DomainLinkageCredential''],
      cr_Issued := Some now, cr_Expired := Some (addYear now)\<rparr>"

definition domain_subject :: "string \<Rightarrow> string \<Rightarrow> vc_subject" where
  "domain_subject did url = SubjOther (JObj [(''id'', JStr did), (''origin'', JStr url)])"

definition verifier_signer ::
  "('pd, 'k) did_config_service \<Rightarrow> string \<Rightarrow> credential \<Rightarrow> (credential \<times> 'k vc_signer) res" where
  "verifier_signer ds profileID cred =
     bindR (mapErr (newValidationError SystemError ''profileID'') (ds_verifierProfile ds profileID)) (\<lambda>p.
     bindR (deref p) (\<lambda>profile.
     if pv_OIDCConfig profile = None then Err (ErrMsg ''oidc config is required for verifier'')
     else
       let format = (case pv_Checks profile of
             Some ck \<Rightarrow> (case cc_Format (vk_Credential ck) of f # _ \<Rightarrow> f | [] \<Rightarrow> Jwt)
           | None \<Rightarrow> Jwt)
       in bindR (deref (pv_SigningDID profile)) (\<lambda>sd.
          let cred' = cred\<lparr>cr_Issuer := \<lparr>is_ID = sd_DID sd, is_Custom = []\<rparr>, cr_Subject := domain_subject (sd_DID sd) (pv_URL profile)\<rparr>
          in bindR (ds_keyManager ds (pv_KMSConfig profile)) (\<lambda>km.
             bindR (deref (pv_OIDCConfig profile)) (\<lambda>oc.
             Ok (cred', \<lparr>sg_DID = sd_DID sd, sg_Creator = sd_Creator sd, sg_SignatureType = ov_ROSigningAlgorithm oc,
                 sg_KeyType = ov_KeyType oc, sg_Format = format, sg_Repr = SignatureProofValue, sg_KMS = km\<rparr>))))))"

definition issuer_signer ::
  "('pd, 'k) did_config_service \<Rightarrow> string \<Rightarrow> credential \<Rightarrow> (credential \<times> 'k vc_signer) res" where
  "issuer_signer ds profileID cred =
     bindR (mapErr (newValidationError SystemError ''profileID'') (ds_issuerProfile ds profileID)) (\<lambda>p.
     bindR (deref p) (\<lambda>profile.
     bindR (deref (pi_VCConfig profile)) (\<lambda>vcf.
     bindR (deref (pi_SigningDID profile)) (\<lambda>sd.
     let cred' = cred\<lparr>cr_Issuer := \<lparr>is_ID = sd_DID sd, is_Custom = []\<rparr>, cr_Subject := domain_subject (sd_DID sd) (pi_URL profile)\<rparr>
     in bindR (ds_keyManager ds (pi_KMSConfig profile)) (\<lambda>km.
        Ok (cred', \<lparr>sg_DID = sd_DID sd, sg_Creator = sd_Creator sd, sg_SignatureType = vcf_SigningAlgorithm vcf,
            sg_KeyType = vcf_KeyType vcf, sg_Format = vcf_Format vcf, sg_Repr = vcf_Repr vcf, sg_KMS = km\<rparr>))))))"

definition didConfig ::
  "('pd, 'k) did_config_service \<Rightarrow> int \<Rightarrow> string \<Rightarrow> string \<Rightarrow> did_configuration res" where
  "didConfig ds now profileType profileID =
     (let cred = getBaseCredentials (ds_addYear ds) now
      in bindR (if profileType = ProfileTypeVerifier then verifier_signer ds profileID cred
                else if profileType = ProfileTypeIssuer then issuer_signer ds profileID cred
                else Err (newValidationError InvalidValue ''profileType'' (ErrMsg ''profileType should be verifier or issuer'')))
         (\<lambda>(cred, signer).
         bindR (ds_signCredential ds signer cred) (\<lambda>signed.
         Ok \<lparr>dc_Context = didConfigurationContextURL,
             dc_LinkedDiDs = [if sg_Format signer = Jwt then LinkedJWT (cr_JWT signed) else LinkedCredential signed]\<rparr>)))"

subsection \<open>The developer API\<close>

text \<open>The text of a request object is the body of its response. Setting the status of the response before
  returning an error has no effect: the error handler writes the status of the error.\<close>

definition devDidConfig ::
  "('pd, 'k) did_config_service \<Rightarrow> (did_configuration \<Rightarrow> json res) \<Rightarrow> int \<Rightarrow> string \<Rightarrow> string \<Rightarrow> http_request \<Rightarrow> 'w \<Rightarrow> response res \<times> 'w" where
  "devDidConfig ds marshal now profileType profileID q w =
     (writeOutput marshal (didConfig ds now (to_lower profileType) profileID), w)"

definition requestObjectByUuid :: "'w ro_service \<Rightarrow> string \<Rightarrow> http_request \<Rightarrow> 'w \<Rightarrow> response res \<times> 'w" where
  "requestObjectByUuid rs uuid q w = andthen (roGet rs uuid w) (\<lambda>r w. (Ok (200, Some (JStr (ro_Content r))), w))"

subsection \<open>Lemmas\<close>

lemma didConfig_type:
  "profileType \<noteq> ProfileTypeVerifier \<Longrightarrow> profileType \<noteq> ProfileTypeIssuer \<Longrightarrow>
     didConfig ds now profileType i = Err (newValidationError InvalidValue ''profileType'' (ErrMsg ''profileType should be verifier or issuer''))"
  by (simp add: didConfig_def Let_def)

lemma profile_types [simp]: "ProfileTypeIssuer \<noteq> ProfileTypeVerifier" "ProfileTypeVerifier \<noteq> ProfileTypeIssuer"
  by (simp_all add: ProfileTypeIssuer_def ProfileTypeVerifier_def)

text \<open>The credential to sign.\<close>

definition linkage_credential :: "('pd, 'k) did_config_service \<Rightarrow> int \<Rightarrow> string \<Rightarrow> string \<Rightarrow> credential" where
  "linkage_credential ds now did url = (getBaseCredentials (ds_addYear ds) now)
     \<lparr>cr_Issuer := \<lparr>is_ID = did, is_Custom = []\<rparr>, cr_Subject := domain_subject did url\<rparr>"

lemma verifier_signer_Ok:
  assumes "verifier_signer ds i cred = Ok (cred', signer)"
  shows "\<exists>p sd oc. ds_verifierProfile ds i = Ok (Some p) \<and> pv_SigningDID p = Some sd \<and> pv_OIDCConfig p = Some oc
     \<and> cred' = cred\<lparr>cr_Issuer := \<lparr>is_ID = sd_DID sd, is_Custom = []\<rparr>, cr_Subject := domain_subject (sd_DID sd) (pv_URL p)\<rparr>
     \<and> sg_DID signer = sd_DID sd \<and> sg_Creator signer = sd_Creator sd \<and> sg_SignatureType signer = ov_ROSigningAlgorithm oc
     \<and> (pv_Checks p = None \<longrightarrow> sg_Format signer = Jwt)
     \<and> (\<forall>ck f fs. pv_Checks p = Some ck \<longrightarrow> cc_Format (vk_Credential ck) = f # fs \<longrightarrow> sg_Format signer = f)"
  using assms by (auto simp: verifier_signer_def Let_def split: if_splits)

lemma issuer_signer_Ok:
  assumes "issuer_signer ds i cred = Ok (cred', signer)"
  shows "\<exists>p sd vcf. ds_issuerProfile ds i = Ok (Some p) \<and> pi_SigningDID p = Some sd \<and> pi_VCConfig p = Some vcf
     \<and> cred' = cred\<lparr>cr_Issuer := \<lparr>is_ID = sd_DID sd, is_Custom = []\<rparr>, cr_Subject := domain_subject (sd_DID sd) (pi_URL p)\<rparr>
     \<and> sg_DID signer = sd_DID sd \<and> sg_Creator signer = sd_Creator sd \<and> sg_SignatureType signer = vcf_SigningAlgorithm vcf
     \<and> sg_Format signer = vcf_Format vcf"
  using assms by (auto simp: issuer_signer_def Let_def)

text \<open>An unknown profile is a nil profile without an error: reading it panics.\<close>

lemma unknown_profile_config:
  "ds_verifierProfile ds i = Ok None \<Longrightarrow> didConfig ds now ProfileTypeVerifier i = Panic NilDereference"
  "ds_issuerProfile ds i = Ok None \<Longrightarrow> didConfig ds now ProfileTypeIssuer i = Panic NilDereference"
  by (simp_all add: didConfig_def verifier_signer_def issuer_signer_def Let_def)

text \<open>A request object that does not exist is answered with the status of a server error.\<close>

lemma missing_request_object_status:
  assumes "rs_find rs uuid w = (Err ro_ErrDataNotFound, w')" "hq_Method q \<noteq> ''HEAD''"
  shows "\<exists>b. handled q (requestObjectByUuid rs uuid q w) = (Response 500 b, w')"
  using assms httpErrorHandler_status [of ro_ErrDataNotFound q]
  by (simp add: requestObjectByUuid_def roGet_def handled_def ro_ErrDataNotFound_def)

text \<open>A verifier whose first credential format is LDP signs with the algorithm of its request objects, which is
  a JWT algorithm: no configuration can be made for it.\<close>

lemma verifier_ldp_config:
  assumes "ds_verifierProfile ds i = Ok (Some p)" "pv_Checks p = Some ck" "cc_Format (vk_Credential ck) = Ldp # fs"
    "pv_OIDCConfig p = Some oc" "ov_ROSigningAlgorithm oc \<notin> set ldp_suites" "ds_signCredential ds = (\<lambda>sd vc. signCredential lib sd vc [])"
  shows "didConfig ds now ProfileTypeVerifier i \<noteq> Ok conf"
proof
  assume "didConfig ds now ProfileTypeVerifier i = Ok conf"
  then obtain cred signer signed where a: "verifier_signer ds i (getBaseCredentials (ds_addYear ds) now) = Ok (cred, signer)"
    "signCredential lib signer cred [] = Ok signed"
    using assms(6) by (auto simp: didConfig_def Let_def)
  have "sg_Format signer = Ldp" "sg_SignatureType signer \<notin> set ldp_suites"
    using verifier_signer_Ok [OF a(1)] assms by auto
  moreover have "chosen_type signer (apply_opts []) = sg_SignatureType signer"
    by (simp add: chosen_type_def apply_opts_def no_opts_def)
  ultimately show False
    using signed_with_authorised_key [OF a(2)] by (auto simp: Jwt_def Ldp_def)
qed

subsection \<open>Properties\<close>


definition demo_profile :: issuer where
  "demo_profile = \<lparr>pi_ID = ''p'', pi_Name = [], pi_URL = ''https://p'', pi_Active = True, pi_OIDCConfig = None, pi_OrganizationID = [],
     pi_VCConfig = Some \<lparr>vcf_Format = Jwt, vcf_SigningAlgorithm = ''ES256'', vcf_KeyType = ECDSAP256TypeDER, vcf_DIDMethod = [],
        vcf_Repr = SignatureJWS, vcf_Status = JNull, vcf_Context = []\<rparr>,
     pi_KMSConfig = None, pi_SigningDID = Some \<lparr>sd_DID = ''did:a'', sd_Creator = ''did:a#k'', sd_UpdateKeyURL = [], sd_RecoveryKeyURL = []\<rparr>,
     pi_CredentialTemplates = []\<rparr>"

definition demo_ds :: "(unit, string) did_config_service" where
  "demo_ds = \<lparr>ds_verifierProfile = (\<lambda>_. Ok None), ds_issuerProfile = (\<lambda>_. Ok (Some demo_profile)),
     ds_signCredential = (\<lambda>_ vc. Ok vc), ds_keyManager = (\<lambda>_. Ok (sg_KMS demo_signer)), ds_addYear = (\<lambda>t. t + 31536000)\<rparr>"


end
