(* ===== verification/Http_Clients.thy ===== *)
theory Http_Clients
  imports Issuance_Service
begin

text \<open>
  The HTTP clients of the program: the client of the issuer's interaction API (\<open>pkg/restapiclient\<close>) and the
  reader of OpenID configurations (\<open>pkg/service/wellknown\<close>). Building a request, the transport and the
  parsing of a body into a JSON value are the parameters \<open>http_env\<close>; decoding a value into a struct is that
  of \<open>encoding/json\<close>: unknown members are ignored, member names compare without letter case, null leaves a
  field as it is, a value of another kind is an error.
\<close>

record client_request =
  cq_Method :: string
  cq_URL :: string
  cq_Body :: "json option"

text \<open>A response body may be nil, and reading it may fail; \<open>he_doNil\<close> is the client's call on a nil request.\<close>

record api_response =
  ar_StatusCode :: int
  ar_Body :: "string res option"

record 'w http_env =
  he_newRequest :: "string \<Rightarrow> string \<Rightarrow> unit res"
  he_do :: "client_request \<Rightarrow> 'w \<Rightarrow> api_response res \<times> 'w"
  he_doNil :: "'w \<Rightarrow> api_response res \<times> 'w"
  he_parse :: "string \<Rightarrow> json res"

subsection \<open>Decoding\<close>

definition type_mismatch :: go_error where
  "type_mismatch = ErrExt ''json: cannot unmarshal value into Go struct field''"

fun decode_member :: "(json \<Rightarrow> 'v res) \<Rightarrow> string \<Rightarrow> 'v \<Rightarrow> fields \<Rightarrow> 'v res" where
  "decode_member f k v [] = Ok v"
| "decode_member f k v ((k', x) # fs) =
     (if equal_fold k' k \<and> x \<noteq> JNull then bindR (f x) (\<lambda>v'. decode_member f k v' fs) else decode_member f k v fs)"

fun decode_string :: "json \<Rightarrow> string res" where
  "decode_string (JStr s) = Ok s"
| "decode_string _ = Err type_mismatch"

fun decode_bool :: "json \<Rightarrow> bool res" where
  "decode_bool (JBool b) = Ok b"
| "decode_bool _ = Err type_mismatch"

fun decode_strings :: "json \<Rightarrow> string list res" where
  "decode_strings (JArr xs) = mapR (\<lambda>x. if x = JNull then Ok [] else decode_string x) xs"
| "decode_strings _ = Err type_mismatch"

fun decode_struct :: "'v \<Rightarrow> (fields \<Rightarrow> 'v res) \<Rightarrow> json \<Rightarrow> 'v res" where
  "decode_struct z f (JObj fs) = f fs"
| "decode_struct z f JNull = Ok z"
| "decode_struct z f _ = Err type_mismatch"

subsection \<open>The interaction API client\<close>

definition read_response :: "api_response \<Rightarrow> string res" where
  "read_response resp = (case ar_Body resp of None \<Rightarrow> Ok [] | Some r \<Rightarrow> r)"

definition sendInternal ::
  "'w http_env \<Rightarrow> (json \<Rightarrow> 'v res) \<Rightarrow> string \<Rightarrow> string \<Rightarrow> json option \<Rightarrow> 'w \<Rightarrow> 'v res \<times> 'w" where
  "sendInternal h decode http_method url request w =
     andthen (pure_op (he_newRequest h http_method url) w) (\<lambda>_ w.
     andthen (he_do h \<lparr>cq_Method = http_method, cq_URL = url, cq_Body = request\<rparr> w) (\<lambda>resp w.
     andthen (pure_op (read_response resp) w) (\<lambda>body w.
     if ar_StatusCode resp \<noteq> 200
     then (Err (ErrMsg (''unexpected status code '' @ format_int (ar_StatusCode resp) @ '' with body '' @ body)), w)
     else pure_op (bindR (he_parse h body) decode) w)))"

definition prepareClaimDataAuthEndpoint :: string where
  "prepareClaimDataAuthEndpoint = ''/issuer/interactions/prepare-claim-data-authz-request''"

definition storeAuthorizationCodeEndpoint :: string where
  "storeAuthorizationCodeEndpoint = ''/issuer/interactions/store-authorization-code''"

definition pushAuthorizationEndpoint :: string where
  "pushAuthorizationEndpoint = ''/issuer/interactions/push-authorization''"

definition prepareClaimDataAuthorization :: "'w http_env \<Rightarrow> string \<Rightarrow> string \<Rightarrow> 'w \<Rightarrow> string res \<times> 'w" where
  "prepareClaimDataAuthorization h hostURI opState =
     sendInternal h (decode_struct [] (decode_member decode_string ''redirect_uri'' [])) ''POST''
       (hostURI @ prepareClaimDataAuthEndpoint) (Some (JObj [(''op_state'', JStr opState)]))"

definition storeAuthorizationCodeCall :: "'w http_env \<Rightarrow> string \<Rightarrow> string \<Rightarrow> string \<Rightarrow> 'w \<Rightarrow> bool res \<times> 'w" where
  "storeAuthorizationCodeCall h hostURI opState code =
     sendInternal h (decode_struct False (decode_member decode_bool ''success'' False)) ''POST''
       (hostURI @ storeAuthorizationCodeEndpoint) (Some (JObj [(''op_state'', JStr opState), (''code'', JStr code)]))"

definition pushAuthorizationCall ::
  "'w http_env \<Rightarrow> string \<Rightarrow> string \<Rightarrow> string \<Rightarrow> string \<Rightarrow> 'w \<Rightarrow> string res \<times> 'w" where
  "pushAuthorizationCall h hostURI opState credentialType format =
     sendInternal h (decode_struct [] (decode_member decode_string ''tx_id'' [])) ''POST''
       (hostURI @ pushAuthorizationEndpoint)
       (Some (JObj [(''op_state'', JStr opState), (''credential_type'', JStr credentialType), (''format'', JStr format)]))"

subsection \<open>OpenID configurations\<close>

definition empty_configuration :: oidc_configuration where
  "empty_configuration = \<lparr>oi_AuthorizationEndpoint = [], oi_PAREndpoint = [], oi_TokenEndpoint = [],
     oi_ResponseTypesSupported = [], oi_ScopesSupported = [], oi_GrantTypesSupported = [], oi_InitiateIssuanceEndpoint = []\<rparr>"

definition decode_configuration :: "fields \<Rightarrow> oidc_configuration res" where
  "decode_configuration fs =
     bindR (decode_member decode_string ''authorization_endpoint'' [] fs) (\<lambda>a.
     bindR (decode_member decode_string ''pushed_authorization_request_endpoint'' [] fs) (\<lambda>p.
     bindR (decode_member decode_string ''token_endpoint'' [] fs) (\<lambda>t.
     bindR (decode_member decode_strings ''response_types_supported'' [] fs) (\<lambda>r.
     bindR (decode_member decode_strings ''scopes_supported'' [] fs) (\<lambda>s.
     bindR (decode_member decode_strings ''grant_types_supported'' [] fs) (\<lambda>g.
     bindR (decode_member decode_string ''initiate_issuance_endpoint'' [] fs) (\<lambda>i.
     Ok \<lparr>oi_AuthorizationEndpoint = a, oi_PAREndpoint = p, oi_TokenEndpoint = t, oi_ResponseTypesSupported = r,
         oi_ScopesSupported = s, oi_GrantTypesSupported = g, oi_InitiateIssuanceEndpoint = i\<rparr>)))))))"

definition encode_configuration :: "oidc_configuration \<Rightarrow> json" where
  "encode_configuration c = JObj
     [(''authorization_endpoint'', JStr (oi_AuthorizationEndpoint c)),
      (''pushed_authorization_request_endpoint'', JStr (oi_PAREndpoint c)),
      (''token_endpoint'', JStr (oi_TokenEndpoint c)),
      (''response_types_supported'', JArr (map JStr (oi_ResponseTypesSupported c))),
      (''scopes_supported'', JArr (map JStr (oi_ScopesSupported c))),
      (''grant_types_supported'', JArr (map JStr (oi_GrantTypesSupported c))),
      (''initiate_issuance_endpoint'', JStr (oi_InitiateIssuanceEndpoint c))]"

text \<open>The error of building the request is dropped, so that an invalid URL leaves a nil request.\<close>

definition getOIDCConfiguration :: "'w http_env \<Rightarrow> string \<Rightarrow> 'w \<Rightarrow> oidc_configuration res \<times> 'w" where
  "getOIDCConfiguration h url w =
     andthen (case he_newRequest h ''GET'' url of
         Ok _ \<Rightarrow> he_do h \<lparr>cq_Method = ''GET'', cq_URL = url, cq_Body = None\<rparr> w
       | Err _ \<Rightarrow> he_doNil h w
       | Panic p \<Rightarrow> (Panic p, w)) (\<lambda>resp w.
     if ar_StatusCode resp \<noteq> 200
     then (Err (ErrMsg (''got unexpected status code: '' @ format_int (ar_StatusCode resp))), w)
     else
       andthen (pure_op (bindR (deref (ar_Body resp)) (\<lambda>r. r)) w) (\<lambda>body w.
       pure_op (bindR (he_parse h body) (decode_struct empty_configuration decode_configuration)) w))"

subsection \<open>Lemmas\<close>

lemma decode_strings_map [simp]: "mapR (\<lambda>x. if x = JNull then Ok [] else decode_string x) (map JStr xs) = Ok xs"
  by (induction xs) simp_all

lemma decode_encode_configuration:
  "decode_struct empty_configuration decode_configuration (encode_configuration c) = Ok c"
  by (simp add: encode_configuration_def decode_configuration_def equal_fold_def to_lower_def lower_char_def)

lemma sendInternal_Ok:
  "sendInternal h decode m url rq w = (Ok v, w') \<longleftrightarrow>
     he_newRequest h m url = Ok () \<and>
     (\<exists>resp body j. he_do h \<lparr>cq_Method = m, cq_URL = url, cq_Body = rq\<rparr> w = (Ok resp, w')
        \<and> ar_StatusCode resp = 200 \<and> read_response resp = Ok body \<and> he_parse h body = Ok j \<and> decode j = Ok v)"
  by (auto simp: sendInternal_def andthen_eq_Ok split: if_splits)

text \<open>Whatever the outcome, the transport is called at most once.\<close>

lemma sendInternal_state:
  "snd (sendInternal h decode m url rq w) \<in> {w, snd (he_do h \<lparr>cq_Method = m, cq_URL = url, cq_Body = rq\<rparr> w)}"
proof (cases "he_newRequest h m url")
  case (Ok u)
  obtain r w1 where d: "he_do h \<lparr>cq_Method = m, cq_URL = url, cq_Body = rq\<rparr> w = (r, w1)" by fastforce
  have "snd (sendInternal h decode m url rq w) = w1"
  proof (cases r)
    case (Ok resp)
    then show ?thesis
      using d \<open>he_newRequest h m url = _\<close> by (cases "read_response resp") (auto simp: sendInternal_def pure_op_def)
  qed (use d Ok in \<open>auto simp: sendInternal_def\<close>)
  with d show ?thesis by simp
qed (simp_all add: sendInternal_def pure_op_def)

text \<open>A well-known URL that is not valid makes the reader of the configuration panic.\<close>

lemma invalid_well_known_url:
  assumes "he_newRequest h ''GET'' url = Err e" "he_doNil h w = (Panic NilDereference, w)"
  shows "getOIDCConfiguration h url w = (Panic NilDereference, w)"
  using assms by (simp add: getOIDCConfiguration_def)

lemma well_known_roundtrip:
  assumes "he_newRequest h ''GET'' url = Ok ()"
    and "he_do h \<lparr>cq_Method = ''GET'', cq_URL = url, cq_Body = None\<rparr> w = (Ok \<lparr>ar_StatusCode = 200, ar_Body = Some (Ok body)\<rparr>, w')"
    and "he_parse h body = Ok (encode_configuration c)"
  shows "getOIDCConfiguration h url w = (Ok c, w')"
  using assms by (simp add: getOIDCConfiguration_def decode_encode_configuration)

text \<open>The issuer answers the storing of an authorization code with the transaction id as a JSON string, which
  this client cannot decode, and offers no endpoint under the path to which it pushes authorizations.\<close>

lemma store_code_answer_rejected:
  assumes "he_newRequest h ''POST'' (host @ storeAuthorizationCodeEndpoint) = Ok ()"
    and "he_do h \<lparr>cq_Method = ''POST'', cq_URL = host @ storeAuthorizationCodeEndpoint,
        cq_Body = Some (JObj [(''op_state'', JStr st), (''code'', JStr code)])\<rparr> w
      = (Ok \<lparr>ar_StatusCode = 200, ar_Body = Some (Ok body)\<rparr>, w')"
    and "he_parse h body = Ok (JStr txID)"
  shows "storeAuthorizationCodeCall h host st code w = (Err type_mismatch, w')"
  using assms by (simp add: storeAuthorizationCodeCall_def sendInternal_def read_response_def)

end
