(* ===== verification/Key_Creator.thy ===== *)
theory Key_Creator
  imports Kms_Model
begin

text \<open>
  \<open>pkg/kms/key/creator.go\<close> and the two methods of the key manager over it (\<open>pkg/kms/arieskms.go\<close>): creating a
  key of a given type and returning its public key as a JWK or as one of Go's public key types. The key
  manager's creation, the ASN.1, X.509 and curve parsers and the JWK builder are parameters.
\<close>

definition ECDSAP256IEEE :: key_type where "ECDSAP256IEEE = OtherKeyType ''ECDSAP256IEEEP1363''"
definition ECDSAP384IEEE :: key_type where "ECDSAP384IEEE = OtherKeyType ''ECDSAP384IEEEP1363''"
definition ECDSAP521IEEE :: key_type where "ECDSAP521IEEE = OtherKeyType ''ECDSAP521IEEEP1363''"
definition ECDSAP521DER :: key_type where "ECDSAP521DER = OtherKeyType ''ECDSAP521DER''"

datatype curve = P256 | P384 | P521

text \<open>\<open>EcKey\<close> is an \<open>ecdsa.PublicKey\<close> with the coordinates that \<open>elliptic.Unmarshal\<close> returns, which are nil for
  bytes that are not a point; \<open>'q\<close> is the type of parsed keys.\<close>

datatype 'q public_key = EdKey string | EcKey curve "(int \<times> int) option" | ParsedKey 'q

record 'q jwk =
  jw_Key :: "'q public_key"
  jw_KeyID :: string
  jw_Kty :: string
  jw_Crv :: string

text \<open>\<open>ky_asn1\<close> yields the algorithm-independent bit string and the remaining bytes.\<close>

record ('q, 'w) key_env =
  ky_create :: "key_type \<Rightarrow> 'w \<Rightarrow> (string \<times> string) res \<times> 'w"
  ky_asn1 :: "string \<Rightarrow> (string \<times> string) res"
  ky_parseSecp256k1 :: "string \<Rightarrow> 'q res"
  ky_jwkFromKey :: "'q \<Rightarrow> 'q jwk res"
  ky_buildJWK :: "string \<Rightarrow> key_type \<Rightarrow> 'q jwk res"
  ky_parsePKIX :: "string \<Rightarrow> 'q res"
  ky_unmarshalPoint :: "curve \<Rightarrow> string \<Rightarrow> (int \<times> int) option"

definition parseSecp256k1 :: "('q, 'w) key_env \<Rightarrow> string \<Rightarrow> 'q res" where
  "parseSecp256k1 k keyBytes =
     bindR (ky_asn1 k keyBytes) (\<lambda>(bits, rest).
     if rest \<noteq> [] then Err (ErrMsg ''x509: trailing data after ASN.1 of public-key'')
     else ky_parseSecp256k1 k bits)"

definition jwkOf :: "('q, 'w) key_env \<Rightarrow> key_type \<Rightarrow> string \<Rightarrow> string \<Rightarrow> 'q jwk res" where
  "jwkOf k kt keyID keyBytes =
     (if kt = ED25519Type
      then Ok \<lparr>jw_Key = EdKey keyBytes, jw_KeyID = keyID, jw_Kty = ''OKP'', jw_Crv = ''Ed25519''\<rparr>
      else if kt = ECDSASecp256k1TypeIEEEP1363
      then bindR (parseSecp256k1 k keyBytes) (ky_jwkFromKey k)
      else wrapR ''failed to convert key to JWK: '' (ky_buildJWK k keyBytes kt))"

definition jWKKeyCreator :: "('q, 'w) key_env \<Rightarrow> key_type \<Rightarrow> 'w \<Rightarrow> (string \<times> 'q jwk) res \<times> 'w" where
  "jWKKeyCreator k kt w =
     andthen (wrapS ''failed to create new JWK key: '' (ky_create k kt w)) (\<lambda>(keyID, keyBytes) w.
     pure_op (bindR (jwkOf k kt keyID keyBytes) (\<lambda>j. Ok (keyID, j))) w)"

definition curves :: "(key_type \<times> curve) list" where
  "curves = [(ECDSAP256IEEE, P256), (ECDSAP384IEEE, P384), (ECDSAP521IEEE, P521)]"

definition cryptoKeyOf :: "(key_type \<Rightarrow> string) \<Rightarrow> ('q, 'w) key_env \<Rightarrow> key_type \<Rightarrow> string \<Rightarrow> 'q public_key res" where
  "cryptoKeyOf kt_name k kt keyBytes =
     (if kt \<in> {ECDSAP256TypeDER, ECDSAP384TypeDER, ECDSAP521DER}
      then bindR (wrapR ''failed to parse ecdsa key in DER format: '' (ky_parsePKIX k keyBytes)) (\<lambda>q. Ok (ParsedKey q))
      else (case map_of curves kt of
         Some crv \<Rightarrow> Ok (EcKey crv (ky_unmarshalPoint k crv keyBytes))
       | None \<Rightarrow>
           if kt = ED25519Type then Ok (EdKey keyBytes)
           else if kt = ECDSASecp256k1TypeIEEEP1363
           then bindR (parseSecp256k1 k keyBytes) (\<lambda>q. Ok (ParsedKey q))
           else Err (ErrMsg (''unsupported key type: '' @ kt_name kt))))"

definition cryptoKeyCreator ::
  "(key_type \<Rightarrow> string) \<Rightarrow> ('q, 'w) key_env \<Rightarrow> key_type \<Rightarrow> 'w \<Rightarrow> (string \<times> 'q public_key) res \<times> 'w" where
  "cryptoKeyCreator kt_name k kt w =
     andthen (wrapS ''failed to create new crypto key: '' (ky_create k kt w)) (\<lambda>(keyID, keyBytes) w.
     pure_op (bindR (cryptoKeyOf kt_name k kt keyBytes) (\<lambda>p. Ok (keyID, p))) w)"

text \<open>The key manager's methods.\<close>

definition createJWKKey :: "('q, 'w) key_env \<Rightarrow> key_type \<Rightarrow> 'w \<Rightarrow> (string \<times> 'q jwk) res \<times> 'w" where
  "createJWKKey = jWKKeyCreator"

definition createCryptoKey ::
  "(key_type \<Rightarrow> string) \<Rightarrow> ('q, 'w) key_env \<Rightarrow> key_type \<Rightarrow> 'w \<Rightarrow> (string \<times> 'q public_key) res \<times> 'w" where
  "createCryptoKey = cryptoKeyCreator"

subsection \<open>Lemmas\<close>

text \<open>Whatever the outcome of the conversion, a key has been created: the state is that of the key manager
  after one creation.\<close>

lemma creators_state:
  "snd (jWKKeyCreator k kt w) = snd (ky_create k kt w)"
  "snd (cryptoKeyCreator kt_name k kt w) = snd (ky_create k kt w)"
  by (cases "ky_create k kt w"; cases "fst (ky_create k kt w)"; simp add: jWKKeyCreator_def cryptoKeyCreator_def split: prod.split)+

lemma curves_lookup [simp]:
  "map_of curves ECDSAP256IEEE = Some P256" "map_of curves ECDSAP384IEEE = Some P384" "map_of curves ECDSAP521IEEE = Some P521"
  "map_of curves ED25519Type = None" "map_of curves ECDSASecp256k1TypeIEEEP1363 = None" "map_of curves BLS12381G2Type = None"
  "map_of curves X25519ECDHKWType = None" "map_of curves RSAPS256Type = None"
  by (simp_all add: curves_def ECDSAP256IEEE_def ECDSAP384IEEE_def ECDSAP521IEEE_def)

text \<open>Bytes that are not a point of the curve give a key without coordinates, not an error.\<close>

lemma invalid_point_accepted:
  "(kt, crv) \<in> set curves \<Longrightarrow> ky_unmarshalPoint k crv bytes = None \<Longrightarrow> cryptoKeyOf kt_name k kt bytes = Ok (EcKey crv None)"
  by (auto simp: cryptoKeyOf_def curves_def ECDSAP256IEEE_def ECDSAP384IEEE_def ECDSAP521IEEE_def ECDSAP521DER_def)

lemma trailing_bytes_rejected:
  "ky_asn1 k bytes = Ok (bits, rest) \<Longrightarrow> rest \<noteq> [] \<Longrightarrow>
     parseSecp256k1 k bytes = Err (ErrMsg ''x509: trailing data after ASN.1 of public-key'')"
  by (simp add: parseSecp256k1_def)

text \<open>Of the key types a manager supports, these can be created as a Go public key.\<close>

definition crypto_key_types :: "key_type set" where
  "crypto_key_types = {ED25519Type, ECDSASecp256k1TypeIEEEP1363, ECDSAP256TypeDER, ECDSAP384TypeDER, ECDSAP521DER,
     ECDSAP256IEEE, ECDSAP384IEEE, ECDSAP521IEEE}"

lemma crypto_key_types_only: "cryptoKeyOf kt_name k kt bytes = Ok p \<Longrightarrow> kt \<in> crypto_key_types"
  by (auto simp: cryptoKeyOf_def crypto_key_types_def curves_def split: if_splits option.splits)

lemma unsupported_crypto_keys:
  "kt \<in> set (supportedKeyTypes t) \<Longrightarrow> kt \<notin> crypto_key_types \<Longrightarrow> t \<noteq> AwsKms \<and> kt \<in> {X25519ECDHKWType, RSAPS256Type, BLS12381G2Type}"
  by (auto simp: supportedKeyTypes_def ariesSupportedKeyTypes_def awsSupportedKeyTypes_def crypto_key_types_def split: if_splits)

subsection \<open>Properties\<close>

text \<open>The returned key is the one that was created. When a JWK is returned, its identifier is that of a key
  of the requested type that the key manager created in this call; for Ed25519 the JWK holds the exported bytes
  and that identifier, and the Go key made from the same bytes holds them too; a secp256k1 key is made
  only from bytes with nothing after the ASN.1 structure; and whatever the outcome, exactly this
  creation has happened.\<close>
theorem created_key_returned:
  assumes "jWKKeyCreator k kt w = (r, w')"
  shows "w' = snd (ky_create k kt w)
    \<and> (\<forall>keyID j. r = Ok (keyID, j) \<longrightarrow> (\<exists>bytes. ky_create k kt w = (Ok (keyID, bytes), w')
         \<and> (kt = ED25519Type \<longrightarrow> jw_Key j = EdKey bytes \<and> jw_KeyID j = keyID
              \<and> cryptoKeyCreator kt_name k kt w = (Ok (keyID, jw_Key j), w'))
         \<and> (kt = ECDSASecp256k1TypeIEEEP1363 \<longrightarrow> (\<exists>bits q. ky_asn1 k bytes = Ok (bits, []) \<and> ky_parseSecp256k1 k bits = Ok q
              \<and> cryptoKeyCreator kt_name k kt w = (Ok (keyID, ParsedKey q), w')))))"
proof -
  have s: "w' = snd (ky_create k kt w)" using creators_state(1) [of k kt w] assms by simp
  have created: "\<exists>bytes. ky_create k kt w = (Ok (keyID, bytes), w') \<and> jwkOf k kt keyID bytes = Ok j" if "r = Ok (keyID, j)" for keyID j
    using assms that by (auto simp: jWKKeyCreator_def andthen_eq_Ok)
  have ed: "kt = ED25519Type \<longrightarrow> jw_Key j = EdKey bytes \<and> jw_KeyID j = keyID
              \<and> cryptoKeyCreator kt_name k kt w = (Ok (keyID, jw_Key j), w')"
    if "ky_create k kt w = (Ok (keyID, bytes), w')" "jwkOf k kt keyID bytes = Ok j" for keyID bytes j
    using that by (auto simp: jwkOf_def cryptoKeyCreator_def cryptoKeyOf_def ECDSAP521DER_def)
  have secp: "kt = ECDSASecp256k1TypeIEEEP1363 \<longrightarrow> (\<exists>bits q. ky_asn1 k bytes = Ok (bits, []) \<and> ky_parseSecp256k1 k bits = Ok q
              \<and> cryptoKeyCreator kt_name k kt w = (Ok (keyID, ParsedKey q), w'))"
    if "ky_create k kt w = (Ok (keyID, bytes), w')" "jwkOf k kt keyID bytes = Ok j" for keyID bytes j
    using that by (auto simp: jwkOf_def cryptoKeyCreator_def cryptoKeyOf_def parseSecp256k1_def ECDSAP521DER_def split: if_splits)
  show ?thesis
  proof (intro conjI allI impI)
    fix keyID j
    assume "r = Ok (keyID, j)"
    then obtain bytes where b: "ky_create k kt w = (Ok (keyID, bytes), w')" "jwkOf k kt keyID bytes = Ok j"
      using created by blast
    show "\<exists>bytes. ky_create k kt w = (Ok (keyID, bytes), w')
         \<and> (kt = ED25519Type \<longrightarrow> jw_Key j = EdKey bytes \<and> jw_KeyID j = keyID
              \<and> cryptoKeyCreator kt_name k kt w = (Ok (keyID, jw_Key j), w'))
         \<and> (kt = ECDSASecp256k1TypeIEEEP1363 \<longrightarrow> (\<exists>bits q. ky_asn1 k bytes = Ok (bits, []) \<and> ky_parseSecp256k1 k bits = Ok q
              \<and> cryptoKeyCreator kt_name k kt w = (Ok (keyID, ParsedKey q), w')))"
      by (intro exI [of _ bytes] conjI b(1) ed [OF b] secp [OF b])
  qed (rule s)
qed

definition demo_key_env :: "(string, nat) key_env" where
  "demo_key_env = \<lparr>ky_create = (\<lambda>kt n. (Ok (''k'' @ nat_digits n, ''bytes''), Suc n)), ky_asn1 = (\<lambda>b. Ok (b, [])),
     ky_parseSecp256k1 = (\<lambda>b. Ok b), ky_jwkFromKey = (\<lambda>q. Ok \<lparr>jw_Key = ParsedKey q, jw_KeyID = [], jw_Kty = ''EC'', jw_Crv = ''secp256k1''\<rparr>),
     ky_buildJWK = (\<lambda>b kt. Err (ErrExt ''no jwk'')), ky_parsePKIX = (\<lambda>b. Ok b), ky_unmarshalPoint = (\<lambda>_ _. None)\<rparr>"

theorem created_key_returned_witness:
  "jWKKeyCreator demo_key_env ED25519Type 7 = (Ok (''k7'', \<lparr>jw_Key = EdKey ''bytes'', jw_KeyID = ''k7'', jw_Kty = ''OKP'', jw_Crv = ''Ed25519''\<rparr>), 8)
   \<and> cryptoKeyCreator (\<lambda>_. []) demo_key_env ED25519Type 7 = (Ok (''k7'', EdKey ''bytes''), 8)"
proof -
  have j: "jWKKeyCreator demo_key_env ED25519Type 7 =
      (Ok (''k7'', \<lparr>jw_Key = EdKey ''bytes'', jw_KeyID = ''k7'', jw_Kty = ''OKP'', jw_Crv = ''Ed25519''\<rparr>), 8)"
    by (simp add: jWKKeyCreator_def jwkOf_def demo_key_env_def nat_digits.simps)
  show ?thesis
    using created_key_returned [OF j, of "\<lambda>_. []"] j by simp
qed

end
