(* ===== verification/Api_Server.thy ===== *)
theory Api_Server
  imports Startup_Config
begin

text \<open>
  The server as \<open>buildEchoHandler\<close> of \<open>cmd/vc-rest/startcmd/start.go\<close> puts it together: the order of the
  constructors with the error of each, the middlewares, and the routes that the generated
  \<open>RegisterHandlers\<close> functions add. A route is a method and the segments of its pattern; the constructors
  that can fail are parameters with their state.
\<close>

subsection \<open>Routes\<close>

datatype segment = Lit string | Param string

type_synonym route = "string \<times> segment list"

definition issuer_routes :: "route list" where
  "issuer_routes =
     [(''POST'', [Lit ''issuer'', Lit ''interactions'', Lit ''exchange-authorization-code'']),
      (''POST'', [Lit ''issuer'', Lit ''interactions'', Lit ''prepare-claim-data-authz-request'']),
      (''POST'', [Lit ''issuer'', Lit ''interactions'', Lit ''push-authorization-request'']),
      (''POST'', [Lit ''issuer'', Lit ''interactions'', Lit ''store-authorization-code'']),
      (''POST'', [Lit ''issuer'', Lit ''profiles'', Param ''profileID'', Lit ''credentials'', Lit ''issue'']),
      (''POST'', [Lit ''issuer'', Lit ''profiles'', Param ''profileID'', Lit ''credentials'', Lit ''status'']),
      (''GET'', [Lit ''issuer'', Lit ''profiles'', Param ''profileID'', Lit ''credentials'', Lit ''status'', Param ''statusID'']),
      (''POST'', [Lit ''issuer'', Lit ''profiles'', Param ''profileID'', Lit ''interactions'', Lit ''initiate-oidc''])]"

definition verifier_routes :: "route list" where
  "verifier_routes =
     [(''POST'', [Lit ''verifier'', Lit ''interactions'', Lit ''authorization-response'']),
      (''GET'', [Lit ''verifier'', Lit ''interactions'', Param ''txID'', Lit ''claim'']),
      (''POST'', [Lit ''verifier'', Lit ''profiles'', Param ''profileID'', Lit ''credentials'', Lit ''verify'']),
      (''POST'', [Lit ''verifier'', Lit ''profiles'', Param ''profileID'', Lit ''interactions'', Lit ''initiate-oidc'']),
      (''POST'', [Lit ''verifier'', Lit ''profiles'', Param ''profileID'', Lit ''presentations'', Lit ''verify''])]"

definition oidc_routes :: "route list" where
  "oidc_routes = [(''GET'', [Lit ''oidc'', Lit ''authorize'']), (''POST'', [Lit ''oidc'', Lit ''par'']),
     (''GET'', [Lit ''oidc'', Lit ''redirect'']), (''POST'', [Lit ''oidc'', Lit ''token''])]"

definition dev_routes :: "route list" where
  "dev_routes = [(''GET'', [Lit ''request-object'', Param ''uuid'']),
     (''GET'', [Param ''profileType'', Lit ''profiles'', Param ''profileID'', Lit ''well-known'', Lit ''did-config''])]"

definition healthcheck_routes :: "route list" where
  "healthcheck_routes = [(''GET'', [Lit ''healthcheck''])]"

text \<open>A pattern and the segments of a path; a parameter stands for one segment.\<close>

fun seg_matches :: "segment list \<Rightarrow> string list \<Rightarrow> bool" where
  "seg_matches [] [] = True"
| "seg_matches (Lit s # ps) (x # xs) = (x = s \<and> seg_matches ps xs)"
| "seg_matches (Param _ # ps) (x # xs) = seg_matches ps xs"
| "seg_matches _ _ = False"

definition path_of :: "string list \<Rightarrow> string" where
  "path_of xs = concat (map (\<lambda>x. CHR ''/'' # x) xs)"

definition path_segments :: "string \<Rightarrow> string list" where
  "path_segments path = tl (split_on CHR ''/'' path)"

definition routed :: "route list \<Rightarrow> http_request \<Rightarrow> bool" where
  "routed rs q \<longleftrightarrow> list_ex (\<lambda>(m, ps). m = hq_Method q \<and> seg_matches ps (path_segments (hq_Path q))) rs"

subsection \<open>Building the server\<close>

datatype middleware = RequestLogger | RecoverPanics | Cors | ApiKey string | RequestValidator

record ('km, 'mg, 'ev, 'ip, 'vp, 'w) build_env =
  be_swagger :: "unit res"
  be_kms :: "kms_config \<Rightarrow> 'km res"
  be_mongo :: "string \<Rightarrow> string \<Rightarrow> 'mg res"
  be_events :: "'ev res"
  be_issuerProfiles :: "'km \<Rightarrow> 'w \<Rightarrow> 'ip res \<times> 'w"
  be_issuanceStore :: "'mg \<Rightarrow> 'w \<Rightarrow> unit res \<times> 'w"
  be_stateStore :: "'mg \<Rightarrow> 'w \<Rightarrow> unit res \<times> 'w"
  be_apiKeyProvider :: "string \<Rightarrow> unit res"
  be_readFile :: "string \<Rightarrow> string res"
  be_decodeClients :: "string \<Rightarrow> fosite_client list res"
  be_oauth :: "string \<Rightarrow> fosite_client list \<Rightarrow> 'mg \<Rightarrow> 'w \<Rightarrow> unit res \<times> 'w"
  be_verifierProfiles :: "'km \<Rightarrow> 'w \<Rightarrow> 'vp res \<times> 'w"
  be_nonceStore :: "'mg \<Rightarrow> 'w \<Rightarrow> unit res \<times> 'w"
  be_metricsServer :: "string \<Rightarrow> 'w \<Rightarrow> unit res \<times> 'w"

record ('km, 'mg, 'ev, 'ip, 'vp) server =
  sv_middlewares :: "middleware list"
  sv_routes :: "route list"
  sv_kms :: 'km
  sv_mongo :: 'mg
  sv_events :: 'ev
  sv_issuerProfiles :: 'ip
  sv_verifierProfiles :: 'vp
  sv_settings :: service_settings
  sv_metrics :: metrics_kind

definition createEcho :: "middleware list" where
  "createEcho = [RequestLogger, RecoverPanics, Cors]"

definition serverMiddlewares :: "startup_params \<Rightarrow> middleware list" where
  "serverMiddlewares p = createEcho @ (if sp_token p \<noteq> [] then [ApiKey (sp_token p)] else []) @ [RequestValidator]"

text \<open>The part up to the registration of the issuance handlers: key manager, database, events, profiles,
  stores and the OAuth2 provider.\<close>

definition buildIssuing ::
  "('km, 'mg, 'ev, 'ip, 'vp, 'w) build_env \<Rightarrow> startup_params \<Rightarrow> 'w \<Rightarrow> ('km \<times> 'mg \<times> 'ev \<times> 'ip) res \<times> 'w" where
  "buildIssuing b p w =
     andthen (pure_op (wrapR ''failed to get openapi spec: '' (be_swagger b)) w) (\<lambda>_ w.
     andthen (pure_op (wrapR ''failed to create default kms: '' (be_kms b (kmsConfigOf p))) w) (\<lambda>km w.
     andthen (pure_op (wrapR ''failed to create mongodb client: ''
         (be_mongo b (dp_databaseURL (sp_dbParameters p)) (dp_databasePrefix (sp_dbParameters p) @ ''vcs''))) w) (\<lambda>mg w.
     andthen (pure_op (be_events b) w) (\<lambda>ev w.
     andthen (be_issuerProfiles b km w) (\<lambda>ip w.
     andthen (wrapS ''failed to instantiate new oidc4 vc store: '' (be_issuanceStore b mg w)) (\<lambda>_ w.
     andthen (wrapS ''failed to instantiate new oidc4vcstatestore: '' (be_stateStore b mg w)) (\<lambda>_ w.
     andthen (pure_op (wrapR ''failed to create security provider for issuer interaction client: ''
         (be_apiKeyProvider b (sp_token p))) w) (\<lambda>_ w.
     andthen (pure_op (oauthClients (be_readFile b) (be_decodeClients b) p) w) (\<lambda>clients w.
     andthen (wrapS ''failed to instantiate new oauth provider: '' (be_oauth b (sp_oAuthSecret p) clients mg w)) (\<lambda>_ w.
     (Ok (km, mg, ev, ip), w)))))))))))"

text \<open>The whole: the verifying half, the developer API and the metrics server.\<close>

definition buildEchoHandler ::
  "('km, 'mg, 'ev, 'ip, 'vp, 'w) build_env \<Rightarrow> startup_params \<Rightarrow> 'w \<Rightarrow> ('km, 'mg, 'ev, 'ip, 'vp) server res \<times> 'w" where
  "buildEchoHandler b p w =
     andthen (buildIssuing b p w) (\<lambda>(km, mg, ev, ip) w.
     andthen (be_verifierProfiles b km w) (\<lambda>vp w.
     andthen (be_nonceStore b mg w) (\<lambda>_ w.
     andthen (pure_op (newMetricsProvider p) w) (\<lambda>provider w.
     andthen (case provider of Some url \<Rightarrow> be_metricsServer b url w | None \<Rightarrow> (Ok (), w)) (\<lambda>_ w.
     (Ok \<lparr>sv_middlewares = serverMiddlewares p,
          sv_routes = healthcheck_routes @ oidc_routes @ issuer_routes @ verifier_routes @ (if sp_devMode p then dev_routes else []),
          sv_kms = km, sv_mongo = mg, sv_events = ev, sv_issuerProfiles = ip, sv_verifierProfiles = vp,
          sv_settings = settings_of p, sv_metrics = newMetrics p\<rparr>, w))))))"

subsection \<open>Paths and their segments\<close>

definition no_slash :: "string list \<Rightarrow> bool" where
  "no_slash xs \<longleftrightarrow> (\<forall>x \<in> set xs. CHR ''/'' \<notin> set x)"

lemma no_slash_simps [simp]: "no_slash []" "no_slash (x # xs) \<longleftrightarrow> CHR ''/'' \<notin> set x \<and> no_slash xs"
  by (auto simp: no_slash_def)

lemma path_of_simps [simp]: "path_of [] = []" "path_of (x # xs) = CHR ''/'' # x @ path_of xs"
  by (simp_all add: path_of_def)

lemma path_of_head: "path_of xs = [] \<or> (\<exists>r. path_of xs = CHR ''/'' # r)"
  by (cases xs) simp_all

lemma split_path: "no_slash xs \<Longrightarrow> CHR ''/'' \<notin> set x \<Longrightarrow> split_on CHR ''/'' (x @ path_of xs) = x # xs"
  by (induction xs arbitrary: x) (simp_all add: split_on_no_sep split_on_append)

lemma segments_of_path:
  assumes "no_slash xs" "xs \<noteq> []"
  shows "path_segments (path_of xs) = xs"
proof (cases xs)
  case (Cons x ys)
  have "split_on CHR ''/'' (x @ path_of ys) = x # ys"
    using assms Cons by (intro split_path) simp_all
  then show ?thesis using Cons by (simp add: path_segments_def)
qed (use assms in simp)

lemma lower_char_slash [simp]: "lower_char c = CHR ''/'' \<longleftrightarrow> c = CHR ''/''"
proof (cases "65 \<le> (of_char c :: nat) \<and> (of_char c :: nat) \<le> 90")
  case True
  have "(of_char (lower_char c) :: nat) = of_char c + 32"
    using True by (simp add: lower_char_def Let_def)
  moreover have "(of_char CHR ''/'' :: nat) = 47" by simp
  ultimately have "lower_char c \<noteq> CHR ''/''" using True by auto
  moreover have "c \<noteq> CHR ''/''" using True by auto
  ultimately show ?thesis by simp
next
  case False
  then show ?thesis by (auto simp: lower_char_def Let_def)
qed

lemma to_lower_slash [simp]: "CHR ''/'' \<in> set (to_lower x) \<longleftrightarrow> CHR ''/'' \<in> set x"
proof -
  have "CHR ''/'' \<in> lower_char ` A \<longleftrightarrow> CHR ''/'' \<in> A" for A
    by (metis (no_types, lifting) image_iff lower_char_slash)
  then show ?thesis by (simp add: to_lower_def)
qed

lemma to_lower_path: "to_lower (path_of xs) = path_of (map to_lower xs)"
  by (induction xs) (simp_all add: to_lower_def lower_char_def)

lemma no_slash_lower [simp]: "no_slash (map to_lower xs) = no_slash xs"
  by (simp add: no_slash_def)

text \<open>Prefix, suffix and containment of a path, one segment at a time.\<close>

lemma eq_upto_slash:
  "CHR ''/'' \<notin> set x \<Longrightarrow> CHR ''/'' \<notin> set a \<Longrightarrow> x @ path_of xs = a @ CHR ''/'' # r \<longleftrightarrow> x = a \<and> path_of xs = CHR ''/'' # r"
proof (induction x arbitrary: a)
  case Nil
  then show ?case using path_of_head [of xs] by (cases a) auto
next
  case (Cons c x)
  then show ?case by (cases a) auto
qed

lemma prefix_segment:
  "CHR ''/'' \<notin> set x \<Longrightarrow> CHR ''/'' \<notin> set a \<Longrightarrow>
     has_prefix (path_of (x # xs)) (CHR ''/'' # a @ CHR ''/'' # r) \<longleftrightarrow> x = a \<and> has_prefix (path_of xs) (CHR ''/'' # r)"
  by (auto simp: has_prefix_iff eq_upto_slash)

lemma prefix_last:
  "CHR ''/'' \<notin> set x \<Longrightarrow> CHR ''/'' \<notin> set a \<Longrightarrow> has_prefix (path_of (x # xs)) (CHR ''/'' # a) \<longleftrightarrow> has_prefix x a"
proof (induction x arbitrary: a)
  case Nil
  then show ?case using path_of_head [of xs] by (cases a) (auto simp: has_prefix_def)
next
  case (Cons c x)
  then show ?case by (cases a) (auto simp: has_prefix_def)
qed

lemma prefix_none: "\<not> has_prefix (path_of []) (CHR ''/'' # r)" "has_prefix (path_of (x # xs)) ''/''"
  by (simp_all add: has_prefix_def)

lemma suffix_segment:
  "no_slash xs \<Longrightarrow> CHR ''/'' \<notin> set w \<Longrightarrow> has_suffix (path_of xs) (CHR ''/'' # w) \<longleftrightarrow> xs \<noteq> [] \<and> last xs = w"
proof (induction xs)
  case (Cons x xs)
  show ?case
  proof (cases xs)
    case Nil
    have "CHR ''/'' # x = r @ CHR ''/'' # w \<longleftrightarrow> r = [] \<and> x = w" for r
      using Cons.prems by (cases r) auto
    then show ?thesis using Nil by (auto simp: has_suffix_iff)
  next
    case (Cons y ys)
    have "(\<exists>r. CHR ''/'' # x @ path_of xs = r @ CHR ''/'' # w) \<longleftrightarrow> (\<exists>r. path_of xs = r @ CHR ''/'' # w)"
    proof
      assume "\<exists>r. CHR ''/'' # x @ path_of xs = r @ CHR ''/'' # w"
      then obtain r where r: "CHR ''/'' # x @ path_of xs = r @ CHR ''/'' # w" ..
      have p: "path_of xs = CHR ''/'' # y @ path_of ys" using Cons by simp
      have "\<not> (\<exists>d. (CHR ''/'' # x) @ d = r \<and> False) \<and> (\<exists>d. r = (CHR ''/'' # x) @ d \<and> path_of xs = d @ CHR ''/'' # w)
          \<or> (\<exists>d. CHR ''/'' # x = r @ d \<and> d @ path_of xs = CHR ''/'' # w)"
        using r append_eq_append_conv2 [of "CHR ''/'' # x" "path_of xs" r "CHR ''/'' # w"] by auto
      then show "\<exists>r. path_of xs = r @ CHR ''/'' # w"
      proof
        assume "\<exists>d. CHR ''/'' # x = r @ d \<and> d @ path_of xs = CHR ''/'' # w"
        then obtain d where "d @ path_of xs = CHR ''/'' # w" by blast
        then have "d = [] \<or> CHR ''/'' \<in> set w" using p by (cases d) (auto dest!: arg_cong [where f = set])
        then show ?thesis using \<open>d @ path_of xs = _\<close> \<open>CHR ''/'' \<notin> set w\<close> by auto
      qed auto
    next
      assume "\<exists>r. path_of xs = r @ CHR ''/'' # w"
      then show "\<exists>r. CHR ''/'' # x @ path_of xs = r @ CHR ''/'' # w" by (metis append_Cons append_assoc)
    qed
    then show ?thesis using Cons.prems Cons.IH Cons by (simp add: has_suffix_iff)
  qed
qed (simp add: has_suffix_def)

lemma contains_segment:
  assumes "CHR ''/'' \<notin> set x"
  shows "str_contains (path_of (x # xs)) (CHR ''/'' # r) \<longleftrightarrow> has_prefix (path_of (x # xs)) (CHR ''/'' # r) \<or> str_contains (path_of xs) (CHR ''/'' # r)"
proof -
  have "str_contains (x @ path_of xs) (CHR ''/'' # r) = str_contains (path_of xs) (CHR ''/'' # r)"
    using assms by (induction x) (auto simp: has_prefix_def)
  then show ?thesis by simp
qed

text \<open>What the API key middleware reads off a path, said of its segments.\<close>

fun status_inside :: "string list \<Rightarrow> bool" where
  "status_inside (x # y # z # zs) \<longleftrightarrow> x = ''credentials'' \<and> y = ''status'' \<or> status_inside (y # z # zs)"
| "status_inside _ \<longleftrightarrow> False"

lemma status_in_one: "CHR ''/'' \<notin> set y \<Longrightarrow> \<not> str_contains (path_of [y]) ''/credentials/status/''"
  using contains_segment [of y "[]" "''credentials/status/''"]
    prefix_segment [of y "''credentials''" "[]" "''status/''"] by (simp add: has_prefix_def)

lemma status_in_two:
  assumes "no_slash [x, y]"
  shows "\<not> str_contains (path_of [x, y]) ''/credentials/status/''"
  using contains_segment [of x "[y]" "''credentials/status/''"] prefix_segment [of x "''credentials''" "[y]" "''status/''"]
    prefix_segment [of y "''status''" "[]" "[]"] status_in_one [of y] assms
  by (simp add: prefix_none has_prefix_def del: path_of_simps(2))

lemma status_contained: "no_slash xs \<Longrightarrow> str_contains (path_of xs) ''/credentials/status/'' \<longleftrightarrow> status_inside xs"
proof (induction xs)
  case (Cons x xs)
  consider (one) "xs = []" | (two) y where "xs = [y]" | (more) y z zs where "xs = y # z # zs"
    by (cases xs; cases "tl xs") auto
  then show ?case
  proof cases
    case one
    then show ?thesis using status_in_one [of x] Cons.prems by simp
  next
    case (two y)
    then show ?thesis using status_in_two [of x y] Cons.prems by simp
  next
    case (more y z zs)
    have "has_prefix (path_of (x # y # z # zs)) ''/credentials/status/'' \<longleftrightarrow> x = ''credentials'' \<and> y = ''status''"
      using prefix_segment [of x "''credentials''" "y # z # zs" "''status/''"]
        prefix_segment [of y "''status''" "z # zs" "[]"] Cons.prems more by (simp add: prefix_none del: path_of_simps)
    then show ?thesis
      using contains_segment [of x "y # z # zs" "''credentials/status/''"] Cons more by (simp del: path_of_simps)
  qed
qed simp

definition public_segments :: "string list \<Rightarrow> bool" where
  "public_segments xs \<longleftrightarrow> xs \<noteq> [] \<and> last xs = ''healthcheck'' \<or> status_inside xs \<or>
     (case xs of
        x # y # [] \<Rightarrow> x = ''request-object'' \<or> x = ''oidc'' \<and> (has_prefix y ''authorize'' \<or> has_prefix y ''redirect'' \<or> has_prefix y ''token'')
      | x # y # z # _ \<Rightarrow> x = ''request-object'' \<or> x = ''oidc'' \<and> (has_prefix y ''authorize'' \<or> has_prefix y ''redirect'' \<or> has_prefix y ''token'')
          \<or> x = ''verifier'' \<and> y = ''interactions'' \<and> has_prefix z ''authorization-response''
      | _ \<Rightarrow> False)"

lemma two_segments:
  assumes "no_slash xs" "CHR ''/'' \<notin> set a" "CHR ''/'' \<notin> set b" "a \<noteq> []"
  shows "has_prefix (path_of xs) (CHR ''/'' # a @ CHR ''/'' # b) \<longleftrightarrow>
    (case xs of x # y # _ \<Rightarrow> x = a \<and> has_prefix y b | _ \<Rightarrow> False)"
proof (cases xs)
  case (Cons x ys)
  then show ?thesis
    using assms prefix_segment [of x a ys b] prefix_last [of "hd ys" b "tl ys"]
    by (cases ys) (auto simp: has_prefix_def simp del: path_of_simps(2))
qed (simp add: has_prefix_def)

lemma publicPath_segments:
  assumes "no_slash xs"
  shows "publicPath (path_of xs) \<longleftrightarrow> public_segments (map to_lower xs)"
proof -
  let ?ys = "map to_lower xs"
  have ns: "no_slash ?ys" using assms by simp
  have h: "has_suffix (path_of ?ys) ''/healthcheck'' \<longleftrightarrow> ?ys \<noteq> [] \<and> last ?ys = ''healthcheck''"
    using suffix_segment [OF ns, of "''healthcheck''"] by simp
  have r: "has_prefix (path_of ?ys) ''/request-object/'' \<longleftrightarrow> (case ?ys of x # y # _ \<Rightarrow> x = ''request-object'' | _ \<Rightarrow> False)"
    using two_segments [OF ns, of "''request-object''" "[]"] by (simp add: has_prefix_def [of _ "[]"] split: list.split)
  have o: "has_prefix (path_of ?ys) ''/oidc/authorize'' \<longleftrightarrow> (case ?ys of x # y # _ \<Rightarrow> x = ''oidc'' \<and> has_prefix y ''authorize'' | _ \<Rightarrow> False)"
      "has_prefix (path_of ?ys) ''/oidc/redirect'' \<longleftrightarrow> (case ?ys of x # y # _ \<Rightarrow> x = ''oidc'' \<and> has_prefix y ''redirect'' | _ \<Rightarrow> False)"
      "has_prefix (path_of ?ys) ''/oidc/token'' \<longleftrightarrow> (case ?ys of x # y # _ \<Rightarrow> x = ''oidc'' \<and> has_prefix y ''token'' | _ \<Rightarrow> False)"
    using two_segments [OF ns, of "''oidc''" "''authorize''"] two_segments [OF ns, of "''oidc''" "''redirect''"]
      two_segments [OF ns, of "''oidc''" "''token''"] by simp_all
  have v: "has_prefix (path_of ?ys) ''/verifier/interactions/authorization-response'' \<longleftrightarrow>
      (case ?ys of x # y # z # _ \<Rightarrow> x = ''verifier'' \<and> y = ''interactions'' \<and> has_prefix z ''authorization-response'' | _ \<Rightarrow> False)"
  proof (cases ?ys)
    case (Cons x zs)
    then show ?thesis
      using ns prefix_segment [of x "''verifier''" zs "''interactions/authorization-response''"]
        two_segments [of zs "''interactions''" "''authorization-response''"]
      by (cases zs; cases "tl zs") (simp_all add: has_prefix_def del: path_of_simps(2))
  qed (simp add: has_prefix_def)
  show ?thesis
    unfolding publicPath_def Let_def to_lower_path h r o v status_contained [OF ns] public_segments_def [of ?ys]
    by (cases ?ys; cases "tl ?ys"; cases "tl (tl ?ys)") auto
qed

subsection \<open>Which endpoints need the API key\<close>

definition all_routes :: "route list" where
  "all_routes = healthcheck_routes @ oidc_routes @ issuer_routes @ verifier_routes @ dev_routes"

text \<open>The routes a client may call without the key: those a wallet or a checker of a credential needs.\<close>

definition public_routes :: "route list" where
  "public_routes =
     [(''GET'', [Lit ''healthcheck'']), (''GET'', [Lit ''oidc'', Lit ''authorize'']),
      (''GET'', [Lit ''oidc'', Lit ''redirect'']), (''POST'', [Lit ''oidc'', Lit ''token'']),
      (''GET'', [Lit ''issuer'', Lit ''profiles'', Param ''profileID'', Lit ''credentials'', Lit ''status'', Param ''statusID'']),
      (''POST'', [Lit ''verifier'', Lit ''interactions'', Lit ''authorization-response'']),
      (''GET'', [Lit ''request-object'', Param ''uuid''])]"

text \<open>Two more paths pass because of a parameter: a transaction id that starts with
  \<open>authorization-response\<close>, and the profile type \<open>request-object\<close>.\<close>

definition passes_by_parameter :: "string list \<Rightarrow> bool" where
  "passes_by_parameter xs = (case xs of
       [x, y, z, c] \<Rightarrow> x = ''verifier'' \<and> y = ''interactions'' \<and> c = ''claim''
         \<and> has_prefix (to_lower z) ''authorization-response''
     | [t, x, y, z, c] \<Rightarrow> to_lower t = ''request-object'' \<and> x = ''profiles'' \<and> z = ''well-known'' \<and> c = ''did-config''
     | _ \<Rightarrow> False)"

lemma seg_matches_Lit: "seg_matches (Lit s # ps) xs \<longleftrightarrow> (\<exists>ys. xs = s # ys \<and> seg_matches ps ys)"
  by (cases xs) auto

lemma seg_matches_Param: "seg_matches (Param s # ps) xs \<longleftrightarrow> (\<exists>y ys. xs = y # ys \<and> seg_matches ps ys)"
  by (cases xs) auto

lemma seg_matches_Nil: "seg_matches [] xs \<longleftrightarrow> xs = []"
  by (cases xs) auto

lemmas seg_matches_iff = seg_matches_Lit seg_matches_Param seg_matches_Nil

lemma public_route_segments:
  assumes "(m, ps) \<in> set all_routes" "seg_matches ps xs"
  shows "public_segments (map to_lower xs) \<longleftrightarrow> (m, ps) \<in> set public_routes \<or> passes_by_parameter xs"
  using assms
  unfolding all_routes_def healthcheck_routes_def oidc_routes_def issuer_routes_def verifier_routes_def dev_routes_def
    list.set set_append
  by (elim UnE insertE; clarsimp simp: seg_matches_iff simp del: seg_matches.simps)
    (simp_all add: public_segments_def passes_by_parameter_def public_routes_def to_lower_def lower_char_def has_prefix_def)

lemma route_not_head: "(m, ps) \<in> set all_routes \<Longrightarrow> m \<noteq> ''HEAD''"
  by (auto simp: all_routes_def healthcheck_routes_def oidc_routes_def issuer_routes_def verifier_routes_def dev_routes_def)

lemma buildEchoHandler_Ok:
  assumes "buildEchoHandler b p w = (Ok sv, w')"
  shows "sv_middlewares sv = serverMiddlewares p"
    and "sv_routes sv = healthcheck_routes @ oidc_routes @ issuer_routes @ verifier_routes @ (if sp_devMode p then dev_routes else [])"
    and "sv_settings sv = settings_of p" and "sv_metrics sv = newMetrics p" and "be_kms b (kmsConfigOf p) = Ok (sv_kms sv)"
proof -
  show "sv_middlewares sv = serverMiddlewares p" "sv_settings sv = settings_of p" "sv_metrics sv = newMetrics p"
      "sv_routes sv = healthcheck_routes @ oidc_routes @ issuer_routes @ verifier_routes @ (if sp_devMode p then dev_routes else [])"
    using assms by (auto simp: buildEchoHandler_def andthen_eq_Ok split: prod.splits)
  show "be_kms b (kmsConfigOf p) = Ok (sv_kms sv)"
    using assms by (auto simp: buildEchoHandler_def buildIssuing_def split: prod.splits)
qed

lemma served_routes: "buildEchoHandler b p w = (Ok sv, w') \<Longrightarrow> set (sv_routes sv) \<subseteq> set all_routes"
  by (auto simp: buildEchoHandler_Ok(2) all_routes_def)


definition demo_params :: startup_params where
  "demo_params =
     \<lparr>sp_hostURL = ''localhost:8075'', sp_hostURLExternal = ''http://localhost:8075'', sp_universalResolverURL = [],
      sp_mode = ''combined'', sp_dbParameters = \<lparr>dp_databaseType = ''mongodb'', dp_databaseURL = ''mongodb://db'', dp_databasePrefix = []\<rparr>,
      sp_kmsParameters = \<lparr>kp_kmsType = LocalKms, kp_kmsEndpoint = [], kp_kmsRegion = [], kp_kmsSecretsDatabaseType = ''mem'',
        kp_kmsSecretsDatabaseURL = [], kp_kmsSecretsDatabasePrefix = [], kp_secretLockKeyPath = []\<rparr>,
      sp_token = ''secret'', sp_requestTokens = Map.empty, sp_logLevel = [], sp_contextProviderURLs = [],
      sp_contextEnableRemote = False,
      sp_tlsParameters = \<lparr>tp_systemCertPool = False, tp_caCerts = [], tp_serveCertPath = [], tp_serveKeyPath = []\<rparr>,
      sp_devMode = True, sp_oAuthSecret = ''s'', sp_oAuthClientsFilePath = [], sp_metricsProviderName = [],
      sp_prometheusUrl = None\<rparr>"

definition demo_build :: "(unit, unit, unit, unit, unit, nat) build_env" where
  "demo_build =
     \<lparr>be_swagger = Ok (), be_kms = (\<lambda>_. Ok ()), be_mongo = (\<lambda>_ _. Ok ()), be_events = Ok (), be_issuerProfiles = (\<lambda>_ n. (Ok (), n)),
      be_issuanceStore = (\<lambda>_ n. (Ok (), n + 1)), be_stateStore = (\<lambda>_ n. (Ok (), n + 1)), be_apiKeyProvider = (\<lambda>_. Ok ()),
      be_readFile = (\<lambda>_. Err (ErrExt ''no such file'')), be_decodeClients = (\<lambda>_. Ok []), be_oauth = (\<lambda>_ _ _ n. (Ok (), n + 1)),
      be_verifierProfiles = (\<lambda>_ n. (Ok (), n)), be_nonceStore = (\<lambda>_ n. (Ok (), n + 1)), be_metricsServer = (\<lambda>_ n. (Ok (), n))\<rparr>"

lemma demo_built: "\<exists>sv. buildEchoHandler demo_build demo_params 0 = (Ok sv, 4)"
  by (simp add: buildEchoHandler_def buildIssuing_def demo_build_def demo_params_def pure_op_def wrapS_def
      oauthClients_def newMetricsProvider_def)

definition demo_get :: "string \<Rightarrow> http_request" where
  "demo_get path = \<lparr>hq_Method = ''GET'', hq_Path = path, hq_Header = (\<lambda>_. [])\<rparr>"


end
