(* ===== verification/Api_Dispatch.thy ===== *)
theory Api_Dispatch
  imports Api_Server Issuer_Controller Verifier_Controller
begin

text \<open>
  The issuer and verifier APIs behind their routes: the wrappers of the generated \<open>ServerInterfaceWrapper\<close>
  types, which bind the path parameters, the controllers' handlers, and the choice of the handler for a
  request. The properties say what a request can reach through the whole chain of API key, router, wrapper
  and controller. Binding a parameter is a library call; what echo's \<open>Bind\<close> makes of the body of the request is
  part of the request.
\<close>

subsection \<open>Requests with a body\<close>

record request_data =
  rd_issue :: "issue_body res"
  rd_status :: "status_body res"
  rd_initiate :: "initiate_body res"
  rd_push :: "push_body res"
  rd_prepare :: "prepare_body res"
  rd_code :: "code_body res"
  rd_exchange :: "string res"
  rd_verify :: "verify_body res"
  rd_initiate_vp :: "initiate_vp_body res"
  rd_form :: "(string \<Rightarrow> string list) res"
  rd_clock :: "nat \<Rightarrow> int"

type_synonym path_params = "(string \<times> string) list"
type_synonym param_decoder = "string \<Rightarrow> string \<Rightarrow> string res"
type_synonym 'w api_handler = "path_params \<Rightarrow> Rest_Api.http_request \<Rightarrow> 'w \<Rightarrow> response res \<times> 'w"

text \<open>\<open>ctx.Param\<close> is the empty string for a parameter the route does not have.\<close>

fun params_of :: "segment list \<Rightarrow> string list \<Rightarrow> path_params" where
  "params_of (Param n # ps) (x # xs) = (n, x) # params_of ps xs"
| "params_of (Lit s # ps) (x # xs) = params_of ps xs"
| "params_of _ _ = []"

definition ctx_param :: "path_params \<Rightarrow> string \<Rightarrow> string" where
  "ctx_param pp n = (case map_of pp n of Some v \<Rightarrow> v | None \<Rightarrow> [])"

definition bindParam :: "param_decoder \<Rightarrow> string \<Rightarrow> path_params \<Rightarrow> (string \<Rightarrow> 'w \<Rightarrow> response res \<times> 'w) \<Rightarrow> 'w \<Rightarrow> response res \<times> 'w" where
  "bindParam bind n pp h w =
     (case bind n (ctx_param pp n) of
        Ok v \<Rightarrow> h v w
      | Err e \<Rightarrow> (Err (ErrEcho 400 (''Invalid format for parameter '' @ n @ '': '' @ err_text e) None), w)
      | Panic p \<Rightarrow> (Panic p, w))"

subsection \<open>The wrappers\<close>

definition w_ExchangeAuthorizationCodeRequest :: "('k, 'w) issuer_ctl \<Rightarrow> request_data \<Rightarrow> 'w api_handler" where
  "w_ExchangeAuthorizationCodeRequest c d pp q w = exchangeAuthorizationCodeRequest c (rd_exchange d) q w"

definition w_PrepareAuthorizationRequest :: "('k, 'w) issuer_ctl \<Rightarrow> request_data \<Rightarrow> 'w api_handler" where
  "w_PrepareAuthorizationRequest c d pp q w = prepareAuthorizationRequest c (rd_prepare d) q w"

definition w_PushAuthorizationDetails :: "('k, 'w) issuer_ctl \<Rightarrow> request_data \<Rightarrow> 'w api_handler" where
  "w_PushAuthorizationDetails c d pp q w = pushAuthorizationDetailsReq c (rd_push d) q w"

definition w_StoreAuthorizationCodeRequest :: "('k, 'w) issuer_ctl \<Rightarrow> request_data \<Rightarrow> 'w api_handler" where
  "w_StoreAuthorizationCodeRequest c d pp q w = storeAuthorizationCodeRequest c (rd_code d) q w"

definition w_PostIssueCredentials :: "param_decoder \<Rightarrow> ('k, 'w) issuer_ctl \<Rightarrow> request_data \<Rightarrow> 'w api_handler" where
  "w_PostIssueCredentials bind c d pp q w =
     bindParam bind ''profileID'' pp (\<lambda>profileID. postIssueCredentials c (rd_issue d) profileID q) w"

definition w_PostCredentialsStatus :: "param_decoder \<Rightarrow> ('k, 'w) issuer_ctl \<Rightarrow> request_data \<Rightarrow> 'w api_handler" where
  "w_PostCredentialsStatus bind c d pp q w =
     bindParam bind ''profileID'' pp (\<lambda>profileID. postCredentialsStatus c (rd_status d) profileID q) w"

definition w_GetCredentialsStatus :: "param_decoder \<Rightarrow> ('k, 'w) issuer_ctl \<Rightarrow> 'w api_handler" where
  "w_GetCredentialsStatus bind c pp q w =
     bindParam bind ''profileID'' pp (\<lambda>profileID.
       bindParam bind ''statusID'' pp (\<lambda>statusID. getCredentialsStatus c profileID statusID q)) w"

definition w_InitiateCredentialIssuance :: "param_decoder \<Rightarrow> ('k, 'w) issuer_ctl \<Rightarrow> request_data \<Rightarrow> 'w api_handler" where
  "w_InitiateCredentialIssuance bind c d pp q w =
     bindParam bind ''profileID'' pp (\<lambda>profileID. initiateCredentialIssuance c (rd_initiate d) profileID q) w"

definition w_CheckAuthorizationResponse :: "('pd, 'j, 'w) verifier_ctl \<Rightarrow> request_data \<Rightarrow> 'w api_handler" where
  "w_CheckAuthorizationResponse c d pp q w = checkAuthorizationResponse c (rd_form d) (rd_clock d) w"

definition w_RetrieveInteractionsClaim :: "param_decoder \<Rightarrow> ('pd, 'j, 'w) verifier_ctl \<Rightarrow> 'w api_handler" where
  "w_RetrieveInteractionsClaim bind c pp q w = bindParam bind ''txID'' pp (\<lambda>txID. retrieveInteractionsClaim c txID q) w"

definition w_PostVerifyCredentials :: "param_decoder \<Rightarrow> ('pd, 'j, 'w) verifier_ctl \<Rightarrow> request_data \<Rightarrow> 'w api_handler" where
  "w_PostVerifyCredentials bind c d pp q w =
     bindParam bind ''profileID'' pp (\<lambda>profileID. postVerifyCredentials c (rd_verify d) profileID q) w"

definition w_InitiateOidcInteraction :: "param_decoder \<Rightarrow> ('pd, 'j, 'w) verifier_ctl \<Rightarrow> request_data \<Rightarrow> 'w api_handler" where
  "w_InitiateOidcInteraction bind c d pp q w =
     bindParam bind ''profileID'' pp (\<lambda>profileID. initiateOidcInteractionReq c (rd_initiate_vp d) profileID q) w"

definition w_PostVerifyPresentation :: "param_decoder \<Rightarrow> ('pd, 'j, 'w) verifier_ctl \<Rightarrow> request_data \<Rightarrow> 'w api_handler" where
  "w_PostVerifyPresentation bind c d pp q w =
     bindParam bind ''profileID'' pp (\<lambda>profileID. postVerifyPresentation c (rd_verify d) profileID q) w"

subsection \<open>The router\<close>

text \<open>The handlers in the order of \<open>issuer_routes\<close> and \<open>verifier_routes\<close>.\<close>

definition issuer_api :: "param_decoder \<Rightarrow> ('k, 'w) issuer_ctl \<Rightarrow> request_data \<Rightarrow> (route \<times> 'w api_handler) list" where
  "issuer_api bind c d = zip issuer_routes
     [w_ExchangeAuthorizationCodeRequest c d, w_PrepareAuthorizationRequest c d, w_PushAuthorizationDetails c d,
      w_StoreAuthorizationCodeRequest c d, w_PostIssueCredentials bind c d, w_PostCredentialsStatus bind c d,
      w_GetCredentialsStatus bind c, w_InitiateCredentialIssuance bind c d]"

definition verifier_api :: "param_decoder \<Rightarrow> ('pd, 'j, 'w) verifier_ctl \<Rightarrow> request_data \<Rightarrow> (route \<times> 'w api_handler) list" where
  "verifier_api bind c d = zip verifier_routes
     [w_CheckAuthorizationResponse c d, w_RetrieveInteractionsClaim bind c, w_PostVerifyCredentials bind c d,
      w_InitiateOidcInteraction bind c d, w_PostVerifyPresentation bind c d]"

text \<open>\<open>others\<close> answers what neither API serves: the remaining routes and echo's own errors.\<close>

definition dispatch ::
  "(route \<times> 'w api_handler) list \<Rightarrow> (Rest_Api.http_request \<Rightarrow> 'w \<Rightarrow> response res \<times> 'w) \<Rightarrow> Rest_Api.http_request \<Rightarrow> 'w
     \<Rightarrow> response res \<times> 'w" where
  "dispatch api others q w =
     (let xs = path_segments (hq_Path q)
      in case find (\<lambda>((m, ps), h). m = hq_Method q \<and> seg_matches ps xs) api of
           Some ((m, ps), h) \<Rightarrow> h (params_of ps xs) q w
         | None \<Rightarrow> others q w)"

subsection \<open>Routing\<close>

fun overlap :: "segment list \<Rightarrow> segment list \<Rightarrow> bool" where
  "overlap [] [] = True"
| "overlap (Lit s # ps) (Lit t # qs) = (s = t \<and> overlap ps qs)"
| "overlap (_ # ps) (_ # qs) = overlap ps qs"
| "overlap _ _ = False"

lemma both_match: "seg_matches ps xs \<Longrightarrow> seg_matches qs xs \<Longrightarrow> overlap ps qs"
proof (induction ps xs arbitrary: qs rule: seg_matches.induct)
  case (2 s ps x xs)
  then show ?case by (cases qs; cases "hd qs") auto
next
  case (3 n ps x xs)
  then show ?case by (cases qs; cases "hd qs") auto
qed (auto elim: seg_matches.elims)

lemma routes_apart:
  "list_all (\<lambda>r. list_all (\<lambda>s. fst r = fst s \<and> overlap (snd r) (snd s) \<longrightarrow> r = s) all_routes) all_routes"
  by code_simp

text \<open>A request matches at most one route, so that the router has no choice.\<close>

lemma routes_unambiguous:
  assumes "(m, ps) \<in> set all_routes" "(m, qs) \<in> set all_routes" "seg_matches ps xs" "seg_matches qs xs"
  shows "ps = qs"
  using routes_apart assms(1,2) both_match [OF assms(3,4)] unfolding list_all_iff by fastforce

lemma path_segments_path:
  assumes "no_slash xs"
  shows "path_segments (path_of xs) = xs"
proof (cases xs)
  case Nil
  then show ?thesis by (simp add: path_segments_def)
next
  case (Cons x ys)
  then show ?thesis using segments_of_path [OF assms] by blast
qed

lemma dispatch_matched:
  assumes "((hq_Method q, ps), h) \<in> set api" "distinct (map fst api)" "fst ` set api \<subseteq> set all_routes"
    and "seg_matches ps xs" "hq_Path q = path_of xs" "no_slash xs"
  shows "dispatch api others q w = h (params_of ps xs) q w"
proof -
  let ?P = "\<lambda>((m, ps), h). m = hq_Method q \<and> seg_matches ps xs"
  have "\<exists>e \<in> set api. ?P e" using assms(1,4) by (intro bexI [OF _ assms(1)]) simp
  then obtain m qs g where f: "find ?P api = Some ((m, qs), g)" by (cases "find ?P api") (auto simp: find_None_iff)
  then have g: "((hq_Method q, qs), g) \<in> set api" "seg_matches qs xs" "m = hq_Method q"
    by (auto simp: find_Some_iff in_set_conv_nth)
  have "qs = ps"
    by (rule routes_unambiguous [OF _ _ g(2) assms(4), of "hq_Method q"]) (use assms(1,3) g(1) in force)+
  then have "g = h" using assms(1,2) g(1) by (metis eq_key_imp_eq_value)
  then show ?thesis using f \<open>qs = ps\<close> by (simp add: dispatch_def Let_def assms(5) path_segments_path [OF assms(6)])
qed

subsection \<open>Profiles and their owners\<close>

text \<open>The routes that act for a profile.\<close>

definition owned_routes :: "route list" where
  "owned_routes = filter (\<lambda>(m, ps). m = ''POST'' \<and> Param ''profileID'' \<in> set ps) (issuer_routes @ verifier_routes)"

text \<open>The organization a profile belongs to, for the API of the route.\<close>

definition profile_owner :: "('k, 'w) issuer_ctl \<Rightarrow> ('pd, 'j, 'w) verifier_ctl \<Rightarrow> segment list \<Rightarrow> string \<Rightarrow> string option" where
  "profile_owner ic vc ps pid =
     (if hd ps = Lit ''issuer'' then (case ic_getProfile ic pid of Ok (Some p) \<Rightarrow> Some (pi_OrganizationID p) | _ \<Rightarrow> None)
      else (case vr_getProfile vc pid of Ok (Some p) \<Rightarrow> Some (pv_OrganizationID p) | _ \<Rightarrow> None))"

text \<open>What a handler does that looks the profile up before anything else, but may decode the body first.\<close>

definition profile_first :: "'p res \<Rightarrow> 'b res \<Rightarrow> response res \<times> 'w \<Rightarrow> 'w \<Rightarrow> bool" where
  "profile_first profile body m w \<longleftrightarrow>
     (case profile of
        Err e \<Rightarrow> m = (Err e, w) \<or> (\<exists>be. body = Err be \<and> m = (Err (newValidationError InvalidValue ''requestBody'' be), w))
          \<or> (\<exists>p. body = Panic p)
      | Ok p \<Rightarrow> True
      | Panic p \<Rightarrow> m = (Panic p, w) \<or> (\<exists>be. body = Err be \<and> m = (Err (newValidationError InvalidValue ''requestBody'' be), w))
          \<or> (\<exists>p. body = Panic p))"

lemma issue_profile_first: "profile_first (ownProfile c q pid) b (postIssueCredentials c b pid q w) w"
  by (cases "ownProfile c q pid"; cases b; simp add: profile_first_def postIssueCredentials_def issueCredentialReq_def readBody_def pure_op_def)

lemma status_profile_first: "profile_first (ownProfile c q pid) b (postCredentialsStatus c b pid q w) w"
  by (cases "ownProfile c q pid"; cases b; simp add: profile_first_def postCredentialsStatus_def updateCredentialStatus_def readBody_def pure_op_def)

lemma initiate_profile_first: "profile_first (ownProfile c q pid) b (initiateCredentialIssuance c b pid q w) w"
  by (cases "ownProfile c q pid"; cases b; simp add: profile_first_def initiateCredentialIssuance_def readBody_def pure_op_def)

lemma verify_vc_profile_first: "profile_first (requestProfile c q pid) b (postVerifyCredentials c b pid q w) w"
  by (cases "requestProfile c q pid"; cases b; simp add: profile_first_def postVerifyCredentials_def verifyCredentialReq_def writeOutput_def readBody_def pure_op_def)

lemma verify_vp_profile_first: "profile_first (requestProfile c q pid) b (postVerifyPresentation c b pid q w) w"
  by (cases "requestProfile c q pid"; cases b; simp add: profile_first_def postVerifyPresentation_def verifyPresentationReq_def writeOutput_def readBody_def pure_op_def)

lemma initiate_vp_profile_first: "profile_first (requestProfile c q pid) b (initiateOidcInteractionReq c b pid q w) w"
  by (cases "requestProfile c q pid"; cases b; simp add: profile_first_def initiateOidcInteractionReq_def readBody_def pure_op_def)

lemmas profile_firsts = issue_profile_first status_profile_first initiate_profile_first verify_vc_profile_first
  verify_vp_profile_first initiate_vp_profile_first

text \<open>How a handler refuses a request: the error handler answers with one of the four codes, and with the
  server error only when the profile could not be found.\<close>

definition refused_code :: "string option \<Rightarrow> int \<Rightarrow> bool" where
  "refused_code owner code \<longleftrightarrow> code \<in> {400, 401, 404} \<or> code = 500 \<and> owner = None"

definition not_authorised :: "string option \<Rightarrow> Rest_Api.http_request \<Rightarrow> bool" where
  "not_authorised owner q \<longleftrightarrow> hq_Header q ''X-User'' = [] \<or> owner \<noteq> Some (hq_Header q ''X-User'')"

definition refuses :: "string option \<Rightarrow> Rest_Api.http_request \<Rightarrow> response res \<times> 'w \<Rightarrow> 'w \<Rightarrow> bool" where
  "refuses owner q m w \<longleftrightarrow> (\<exists>code b. handled q m = (Response code (Some b), w) \<and> refused_code owner code)"

definition refused_profile :: "string option \<Rightarrow> 'p res \<Rightarrow> bool" where
  "refused_profile owner r \<longleftrightarrow> (case r of Ok _ \<Rightarrow> False
     | Err e \<Rightarrow> as_fosite e = None \<and> refused_code owner (fst (processError e)) | Panic _ \<Rightarrow> owner = None)"

lemma issuer_refused_profile:
  assumes "hd ps = Lit ''issuer''" "not_authorised (profile_owner ic vc ps pid) q"
  shows "refused_profile (profile_owner ic vc ps pid) (ownProfile ic q pid)"
  using assms
  by (cases "ic_getProfile ic pid")
    (auto simp: refused_profile_def refused_code_def not_authorised_def profile_owner_def ownProfile_def getOrgIDFromOIDC_def
      accessOIDCProfile_def accessProfile_def no_profile_def newUnauthorizedError_def newValidationError_def newSystemError_def
      Let_def split: option.splits)

lemma verifier_refused_profile:
  assumes "hd ps = Lit ''verifier''" "not_authorised (profile_owner ic vc ps pid) q"
  shows "refused_profile (profile_owner ic vc ps pid) (requestProfile vc q pid)"
  using assms
  by (cases "vr_getProfile vc pid")
    (auto simp: refused_profile_def refused_code_def not_authorised_def profile_owner_def requestProfile_def getOrgIDFromOIDC_def
      accessVerifierProfile_def newUnauthorizedError_def newValidationError_def newSystemError_def Let_def
      split: option.splits)

lemma handled_panic: "hq_Method q \<noteq> ''HEAD'' \<Longrightarrow> \<exists>b. handled q (Panic p, w) = (Response 500 (Some b), w)"
  by (cases p) (simp_all add: handled_def httpErrorHandler_def sendResponse_def)

lemma handled_error:
  "hq_Method q \<noteq> ''HEAD'' \<Longrightarrow> as_fosite e = None \<Longrightarrow> handled q (Err e, w) = (Response (fst (processError e)) (Some (snd (processError e))), w)"
  by (simp add: handled_def httpErrorHandler_def sendResponse_def)

lemma profile_first_refuses:
  assumes "profile_first r b m w" "refused_profile owner r" "\<And>x. b \<noteq> Panic x" "hq_Method q \<noteq> ''HEAD''"
  shows "refuses owner q m w"
proof -
  have b: "refuses owner q (Err (newValidationError InvalidValue ''requestBody'' be), w) w" for be
    using assms(4) by (simp add: refuses_def handled_error newValidationError_def refused_code_def)
  show ?thesis
  proof (cases r)
    case (Err e)
    then show ?thesis using assms b by (auto simp: profile_first_def refused_profile_def refuses_def handled_error)
  next
    case (Panic p)
    then show ?thesis using assms b handled_panic [OF assms(4), of p w]
      by (auto simp: profile_first_def refused_profile_def refuses_def refused_code_def)
  qed (use assms(2) in \<open>simp add: refused_profile_def\<close>)
qed

text \<open>The bodies are decoded, or an error is reported.\<close>

definition bodies_decode :: "request_data \<Rightarrow> bool" where
  "bodies_decode d \<longleftrightarrow> (\<forall>x. rd_issue d \<noteq> Panic x \<and> rd_status d \<noteq> Panic x \<and> rd_initiate d \<noteq> Panic x \<and> rd_verify d \<noteq> Panic x
     \<and> rd_initiate_vp d \<noteq> Panic x)"

abbreviation both_apis :: "param_decoder \<Rightarrow> ('k, 'w) issuer_ctl \<Rightarrow> ('pd, 'j, 'w) verifier_ctl \<Rightarrow> request_data \<Rightarrow> (route \<times> 'w api_handler) list" where
  "both_apis bind ic vc d \<equiv> issuer_api bind ic d @ verifier_api bind vc d"

lemma api_routes: "map fst (both_apis bind ic vc d) = issuer_routes @ verifier_routes"
  by (simp add: issuer_api_def verifier_api_def issuer_routes_def verifier_routes_def)

lemma api_routes_ok: "distinct (map fst (both_apis bind ic vc d))" "fst ` set (both_apis bind ic vc d) \<subseteq> set all_routes"
proof -
  show "distinct (map fst (both_apis bind ic vc d))"
    unfolding api_routes by (simp add: issuer_routes_def verifier_routes_def)
  have "fst ` set (both_apis bind ic vc d) = set (issuer_routes @ verifier_routes)"
    by (metis api_routes list.set_map)
  then show "fst ` set (both_apis bind ic vc d) \<subseteq> set all_routes" by (auto simp: all_routes_def)
qed

lemma owned_routes_keyed: "list_all (\<lambda>r. r \<in> set all_routes \<and> r \<notin> set public_routes) owned_routes"
  by code_simp

lemma owned_routes_list:
  "owned_routes =
     [(''POST'', [Lit ''issuer'', Lit ''profiles'', Param ''profileID'', Lit ''credentials'', Lit ''issue'']),
      (''POST'', [Lit ''issuer'', Lit ''profiles'', Param ''profileID'', Lit ''credentials'', Lit ''status'']),
      (''POST'', [Lit ''issuer'', Lit ''profiles'', Param ''profileID'', Lit ''interactions'', Lit ''initiate-oidc'']),
      (''POST'', [Lit ''verifier'', Lit ''profiles'', Param ''profileID'', Lit ''credentials'', Lit ''verify'']),
      (''POST'', [Lit ''verifier'', Lit ''profiles'', Param ''profileID'', Lit ''interactions'', Lit ''initiate-oidc'']),
      (''POST'', [Lit ''verifier'', Lit ''profiles'', Param ''profileID'', Lit ''presentations'', Lit ''verify''])]"
  by code_simp

lemma owned_not_by_parameter: "(m, ps) \<in> set owned_routes \<Longrightarrow> seg_matches ps xs \<Longrightarrow> \<not> passes_by_parameter xs"
  unfolding owned_routes_list list.set passes_by_parameter_def
  by (elim insertE; clarsimp simp: seg_matches_iff simp del: seg_matches.simps)

lemma owned_handler:
  assumes "(m, ps) \<in> set owned_routes"
  obtains (issue) "hd ps = Lit ''issuer''" "((m, ps), w_PostIssueCredentials bind ic d) \<in> set (both_apis bind ic vc d)"
  | (status) "hd ps = Lit ''issuer''" "((m, ps), w_PostCredentialsStatus bind ic d) \<in> set (both_apis bind ic vc d)"
  | (initiate) "hd ps = Lit ''issuer''" "((m, ps), w_InitiateCredentialIssuance bind ic d) \<in> set (both_apis bind ic vc d)"
  | (verify_vc) "hd ps = Lit ''verifier''" "((m, ps), w_PostVerifyCredentials bind vc d) \<in> set (both_apis bind ic vc d)"
  | (initiate_vp) "hd ps = Lit ''verifier''" "((m, ps), w_InitiateOidcInteraction bind vc d) \<in> set (both_apis bind ic vc d)"
  | (verify_vp) "hd ps = Lit ''verifier''" "((m, ps), w_PostVerifyPresentation bind vc d) \<in> set (both_apis bind ic vc d)"
proof -
  have m: "m = ''POST''" using assms by (auto simp: owned_routes_def)
  note T = owned_routes_list issuer_api_def verifier_api_def issuer_routes_def verifier_routes_def
  consider "ps = snd (owned_routes ! 0)" | "ps = snd (owned_routes ! 1)" | "ps = snd (owned_routes ! 2)"
    | "ps = snd (owned_routes ! 3)" | "ps = snd (owned_routes ! 4)" | "ps = snd (owned_routes ! 5)"
  proof -
    obtain i where i: "i < length owned_routes" "owned_routes ! i = (m, ps)" using assms by (auto simp: in_set_conv_nth)
    moreover have "length owned_routes = 6" by (simp add: owned_routes_list)
    ultimately have "i = 0 \<or> i = 1 \<or> i = 2 \<or> i = 3 \<or> i = 4 \<or> i = 5" by linarith
    moreover have "ps = snd (owned_routes ! i)" using i(2) by simp
    ultimately show thesis using that by blast
  qed
  then show thesis
  proof cases
    case 1
    then show thesis by (intro issue) (simp_all add: m T)
  next
    case 2
    then show thesis by (intro status) (simp_all add: m T)
  next
    case 3
    then show thesis by (intro initiate) (simp_all add: m T)
  next
    case 4
    then show thesis by (intro verify_vc) (simp_all add: m T)
  next
    case 5
    then show thesis by (intro initiate_vp) (simp_all add: m T)
  next
    case 6
    then show thesis by (intro verify_vp) (simp_all add: m T)
  qed
qed

lemma owned_refused:
  assumes "(hq_Method q, ps) \<in> set owned_routes" "seg_matches ps xs" "no_slash xs" "hq_Path q = path_of xs"
    and "bind ''profileID'' (ctx_param (params_of ps xs) ''profileID'') = Ok pid" "bodies_decode d"
    and "not_authorised (profile_owner ic vc ps pid) q"
  shows "refuses (profile_owner ic vc ps pid) q (dispatch (both_apis bind ic vc d) others q w) w"
proof -
  let ?o = "profile_owner ic vc ps pid"
  have m: "hq_Method q \<noteq> ''HEAD''" using assms(1) by (auto simp: owned_routes_def)
  note D = dispatch_matched [where api = "both_apis bind ic vc d" and others = others and w = w, OF _ api_routes_ok assms(2,4,3)]
  note B = assms(6) [unfolded bodies_decode_def]
  note I = profile_first_refuses [OF _ issuer_refused_profile [OF _ assms(7)] _ m]
  note V = profile_first_refuses [OF _ verifier_refused_profile [OF _ assms(7)] _ m]
  note W = w_PostIssueCredentials_def w_PostCredentialsStatus_def w_InitiateCredentialIssuance_def w_PostVerifyCredentials_def
    w_InitiateOidcInteraction_def w_PostVerifyPresentation_def bindParam_def
  show ?thesis
    using assms(1)
  proof (cases rule: owned_handler [of "hq_Method q" ps bind ic d vc])
    case issue
    then show ?thesis using I [OF issue_profile_first, of "rd_issue d" w] B D [OF issue(2)] by (simp add: W assms(5))
  next
    case status
    then show ?thesis using I [OF status_profile_first, of "rd_status d" w] B D [OF status(2)] by (simp add: W assms(5))
  next
    case initiate
    then show ?thesis using I [OF initiate_profile_first, of "rd_initiate d" w] B D [OF initiate(2)] by (simp add: W assms(5))
  next
    case verify_vc
    then show ?thesis using V [OF verify_vc_profile_first, of "rd_verify d" w] B D [OF verify_vc(2)] by (simp add: W assms(5))
  next
    case initiate_vp
    then show ?thesis using V [OF initiate_vp_profile_first, of "rd_initiate_vp d" w] B D [OF initiate_vp(2)] by (simp add: W assms(5))
  next
    case verify_vp
    then show ?thesis using V [OF verify_vp_profile_first, of "rd_verify d" w] B D [OF verify_vp(2)] by (simp add: W assms(5))
  qed
qed

text \<open>C10: Nobody acts for the profile of another organization, whatever the path, headers and body of a request.
  A request to one of the six routes that issue, revoke, initiate or verify for a profile is refused and
  changes nothing unless it carries the API key of the server (when one is configured) and names in
  \<open>X-User\<close> the organization that owns the profile in its path. The refusal is a 400, 401 or 404; it is a
  500 only for a profile that the reader does not find.\<close>

theorem organizations_isolated:
  assumes "(hq_Method q, ps) \<in> set owned_routes" "seg_matches ps xs" "no_slash xs" "hq_Path q = path_of xs"
    and "bind ''profileID'' (ctx_param (params_of ps xs) ''profileID'') = Ok pid" "bodies_decode d"
    and "token \<noteq> [] \<and> hq_Header q ''X-API-Key'' \<noteq> token \<or> hq_Header q ''X-User'' = []
      \<or> profile_owner ic vc ps pid \<noteq> Some (hq_Header q ''X-User'')"
  shows "\<exists>code b. serve token (dispatch (issuer_api bind ic d @ verifier_api bind vc d) others) q w = (Response code (Some b), w)
    \<and> (code \<in> {400, 401, 404} \<or> code = 500 \<and> profile_owner ic vc ps pid = None)"
proof (cases "token \<noteq> [] \<and> hq_Header q ''X-API-Key'' \<noteq> token")
  case True
  have r: "(hq_Method q, ps) \<in> set all_routes" "(hq_Method q, ps) \<notin> set public_routes" "\<not> passes_by_parameter xs"
    using assms(1) owned_routes_keyed owned_not_by_parameter [OF assms(1,2)] by (auto simp: list_all_iff)
  have "\<not> publicPath (hq_Path q)"
    using public_route_segments [OF r(1) assms(2)] r publicPath_segments [OF assms(3)] assms(4) by simp
  then show ?thesis
    using True route_not_head [OF r(1)]
    by (simp add: serve_def apiKeyAuth_def handled_def httpErrorHandler_def sendResponse_def)
next
  case False
  then have "not_authorised (profile_owner ic vc ps pid) q" using assms(7) by (auto simp: not_authorised_def)
  moreover have "serve token h q w = handled q (h q w)" for h
    using False by (auto simp: serve_def apiKeyAuth_def)
  ultimately show ?thesis
    using owned_refused [where bind = bind and pid = pid and ic = ic and vc = vc and others = others and w = w, OF assms(1-6)] by (auto simp: refuses_def refused_code_def)
qed

definition quiet_vctl :: "(string, string, nat) verifier_ctl" where
  "quiet_vctl = \<lparr>vr_verifyCredential = (\<lambda>_ _ _. Ok []), vr_verifyPresentation = (\<lambda>_ _ _. Ok []),
     vr_getProfile = (\<lambda>_. Ok None), vr_marshal = Ok, vr_parseVC = (\<lambda>_. Ok empty_credential),
     vr_parseVP = (\<lambda>_. Err (ErrExt ''unreadable'')), vr_initiate = (\<lambda>_ _ _ n. (Err (ErrExt ''down''), n)),
     vr_verifyOIDC = (\<lambda>_ _ n. (Ok (), Suc n)), vr_getTx = (\<lambda>_ n. (Err (ErrExt ''down''), n)),
     vr_marshalClaims = (\<lambda>_. Ok JNull), vr_pdID = (\<lambda>pd. pd), vr_parseJWT = Ok,
     vr_idClaims = (\<lambda>_. Err (ErrExt ''unreadable'')), vr_vpClaims = (\<lambda>_. Err (ErrExt ''unreadable'')),
     vr_kid = (\<lambda>_. []), vr_submissionContext = ''ctx'', vr_submissionType = ''type''\<rparr>"

definition demo_bodies :: request_data where
  "demo_bodies =
     \<lparr>rd_issue = Err (ErrExt ''EOF''), rd_status = Err (ErrExt ''EOF''), rd_initiate = Ok no_initiate, rd_push = Err (ErrExt ''EOF''),
      rd_prepare = Err (ErrExt ''EOF''), rd_code = Err (ErrExt ''EOF''), rd_exchange = Err (ErrExt ''EOF''),
      rd_verify = Err (ErrExt ''EOF''), rd_initiate_vp = Err (ErrExt ''EOF''), rd_form = Err (ErrExt ''EOF''), rd_clock = (\<lambda>_. 0)\<rparr>"

abbreviation demo_segments :: "string list" where
  "demo_segments \<equiv> [''issuer'', ''profiles'', ''i1'', ''interactions'', ''initiate-oidc'']"

definition initiate_from :: "string \<Rightarrow> Rest_Api.http_request" where
  "initiate_from org = \<lparr>hq_Method = ''POST'', hq_Path = path_of demo_segments,
     hq_Header = (\<lambda>h. if h = ''X-User'' then org else if h = ''X-API-Key'' then ''secret'' else [])\<rparr>"

definition demo_server :: "Rest_Api.http_request \<Rightarrow> nat \<Rightarrow> http_outcome \<times> nat" where
  "demo_server = serve ''secret''
     (dispatch (issuer_api (\<lambda>_ v. Ok v) demo_ctl demo_bodies @ verifier_api (\<lambda>_ v. Ok v) quiet_vctl demo_bodies)
        (\<lambda>_ n. (Err (ErrEcho 404 ''Not Found'' None), n)))"

abbreviation initiate_route :: "segment list" where
  "initiate_route \<equiv> [Lit ''issuer'', Lit ''profiles'', Param ''profileID'', Lit ''interactions'', Lit ''initiate-oidc'']"

lemma demo_own_profile: "\<exists>b. demo_server (initiate_from ''org'') 5 = (Response 200 b, 6)"
proof -
  have q: "hq_Path (initiate_from ''org'') = path_of demo_segments" by (simp add: initiate_from_def)
  have d: "dispatch (both_apis (\<lambda>_ v. Ok v) demo_ctl quiet_vctl demo_bodies) others (initiate_from ''org'') 5
     = w_InitiateCredentialIssuance (\<lambda>_ v. Ok v) demo_ctl demo_bodies (params_of initiate_route demo_segments) (initiate_from ''org'') 5" for others
    by (rule dispatch_matched [OF _ api_routes_ok _ q])
      (simp_all add: initiate_from_def issuer_api_def issuer_routes_def)
  have g: "ic_getProfile demo_ctl ''i1'' = Ok (Some demo_issuer)" by (simp add: demo_ctl_def getProfile_def)
  have o: "pi_OrganizationID demo_issuer = ''org''" by (simp add: demo_issuer_def)
  have "\<exists>r. initiateCredentialIssuance demo_ctl (Ok no_initiate) ''i1'' (initiate_from ''org'') 5 = (Ok (200, r), 6)"
    by (simp add: initiateCredentialIssuance_def ownProfile_def getOrgIDFromOIDC_def initiate_from_def accessOIDCProfile_def
        accessProfile_def g o readBody_def Let_def) (simp add: demo_ctl_def)
  then obtain r where r: "dispatch (both_apis (\<lambda>_ v. Ok v) demo_ctl quiet_vctl demo_bodies) others (initiate_from ''org'') 5
      = (Ok (200, r), 6)" if "others = (\<lambda>_ n. (Err (ErrEcho 404 ''Not Found'' None), n))" for others
    by (simp add: d w_InitiateCredentialIssuance_def bindParam_def ctx_param_def) (auto simp: demo_bodies_def)
  have "demo_server (initiate_from ''org'') 5 = handled (initiate_from ''org'')
     (dispatch (both_apis (\<lambda>_ v. Ok v) demo_ctl quiet_vctl demo_bodies) (\<lambda>_ n. (Err (ErrEcho 404 ''Not Found'' None), n)) (initiate_from ''org'') 5)"
    by (simp add: demo_server_def serve_def apiKeyAuth_def) (simp add: initiate_from_def)
  then show ?thesis by (simp add: r handled_def)
qed

theorem organizations_isolated_witness:
  "(\<exists>code b. demo_server (initiate_from ''other'') 5 = (Response code b, 5) \<and> code \<in> {400, 401, 404})
   \<and> (\<exists>b. demo_server (initiate_from ''org'') 5 = (Response 200 b, 6))"
proof -
  have d: "bodies_decode demo_bodies" by (simp add: bodies_decode_def demo_bodies_def)
  have o: "profile_owner demo_ctl quiet_vctl initiate_route ''i1'' = Some ''org''"
    by (simp add: profile_owner_def demo_ctl_def getProfile_def demo_issuer_def)
  have "\<exists>code b. demo_server (initiate_from ''other'') 5 = (Response code (Some b), 5)
     \<and> (code \<in> {400, 401, 404} \<or> code = 500 \<and> profile_owner demo_ctl quiet_vctl initiate_route ''i1'' = None)"
    unfolding demo_server_def
    by (rule organizations_isolated [of "initiate_from ''other''" initiate_route demo_segments])
      (simp_all add: o, simp_all add: initiate_from_def owned_routes_def issuer_routes_def ctx_param_def d)
  then show ?thesis using demo_own_profile o by auto
qed

end
