(* ===== verification/Profile_File.thy ===== *)
theory Profile_File
  imports Profile_Reader Command_Env
begin

text \<open>
  The file behind the profile readers of \<open>component/profile/reader/file/reader.go\<close>: the setting that names it,
  reading and decoding it, and its entries as the decoder leaves them. An entry may be null and its profile may
  be missing, and the readers dereference both. Opening the cleaned path and decoding the JSON text are
  parameters.
\<close>

definition profilesFilePathFlagName :: string where "profilesFilePathFlagName = ''profiles-file-path''"
definition profilesFilePathEnvKey :: string where "profilesFilePathEnvKey = ''VC_REST_PROFILES_FILE_PATH''"

record 'p file_entry =
  fe_Data :: "'p option"
  fe_CreateDID :: bool
  fe_DidDomain :: string

record 'pd profile_file =
  pf_Issuers :: "issuer file_entry option list"
  pf_Verifiers :: "'pd verifier file_entry option list"

record 'pd file_env =
  fv_readFile :: "string \<Rightarrow> string res"
  fv_decode :: "string \<Rightarrow> 'pd profile_file res"

definition readProfileFile :: "'pd file_env \<Rightarrow> cmd_env \<Rightarrow> 'pd profile_file res" where
  "readProfileFile fv e =
     bindR (getUserSetVarFromString e profilesFilePathFlagName profilesFilePathEnvKey False) (\<lambda>path.
     bindR (fv_readFile fv path) (fv_decode fv))"

text \<open>One entry. The issuer reader sets up the DID environment before it touches the profile; the verifier
  reader looks at the profile first.\<close>

definition issuerEntry ::
  "(string \<Rightarrow> ('j, 'y, 'w) did_env res) \<Rightarrow> issuer file_entry option \<Rightarrow> 'w \<Rightarrow> issuer res \<times> 'w" where
  "issuerEntry env entry w =
     andthen (pure_op (deref entry) w) (\<lambda>v w.
     case fe_Data v of
       Some d \<Rightarrow> loadIssuer env \<lparr>pe_Data = d, pe_CreateDID = fe_CreateDID v, pe_DidDomain = fe_DidDomain v\<rparr> w
     | None \<Rightarrow>
         if fe_CreateDID v then andthen (pure_op (env (fe_DidDomain v)) w) (\<lambda>_ w. (Panic NilDereference, w))
         else (Panic NilDereference, w))"

definition verifierEntry ::
  "(string \<Rightarrow> ('j, 'y, 'w) did_env res) \<Rightarrow> (string \<Rightarrow> (string \<times> string) res) \<Rightarrow> 'pd verifier file_entry option \<Rightarrow> 'w
    \<Rightarrow> 'pd verifier res \<times> 'w" where
  "verifierEntry env parseURL entry w =
     andthen (pure_op (deref entry) w) (\<lambda>v w.
     andthen (pure_op (deref (fe_Data v)) w) (\<lambda>d w.
     loadVerifier env parseURL \<lparr>pe_Data = d, pe_CreateDID = fe_CreateDID v, pe_DidDomain = fe_DidDomain v\<rparr> w))"

definition issuerReaderFrom ::
  "'pd file_env \<Rightarrow> cmd_env \<Rightarrow> (string \<Rightarrow> ('j, 'y, 'w) did_env res) \<Rightarrow> 'w \<Rightarrow> (string \<rightharpoonup> issuer) res \<times> 'w" where
  "issuerReaderFrom fv e env w =
     andthen (pure_op (readProfileFile fv e) w) (\<lambda>f w. loadAll (issuerEntry env) pi_ID (pf_Issuers f) Map.empty w)"

definition verifierReaderFrom ::
  "'pd file_env \<Rightarrow> cmd_env \<Rightarrow> (string \<Rightarrow> ('j, 'y, 'w) did_env res) \<Rightarrow> (string \<Rightarrow> (string \<times> string) res) \<Rightarrow> 'w
    \<Rightarrow> (string \<rightharpoonup> 'pd verifier) res \<times> 'w" where
  "verifierReaderFrom fv e env parseURL w =
     andthen (pure_op (readProfileFile fv e) w) (\<lambda>f w. loadAll (verifierEntry env parseURL) pv_ID (pf_Verifiers f) Map.empty w)"

subsection \<open>Complete files\<close>

definition complete_entry :: "'p profile_entry \<Rightarrow> 'p file_entry option" where
  "complete_entry v = Some \<lparr>fe_Data = Some (pe_Data v), fe_CreateDID = pe_CreateDID v, fe_DidDomain = pe_DidDomain v\<rparr>"

lemma issuer_complete [simp]: "issuerEntry env (complete_entry v) = loadIssuer env v"
  by (cases v) (simp add: issuerEntry_def complete_entry_def fun_eq_iff)

lemma verifier_complete [simp]: "verifierEntry env parseURL (complete_entry v) = loadVerifier env parseURL v"
  by (cases v) (simp add: verifierEntry_def complete_entry_def fun_eq_iff)

lemma complete_entryI: "fe_Data x = Some d \<Longrightarrow> \<exists>v. Some x = complete_entry v"
  by (intro exI [of _ "\<lparr>pe_Data = d, pe_CreateDID = fe_CreateDID x, pe_DidDomain = fe_DidDomain x\<rparr>"])
    (simp add: complete_entry_def)

lemma issuerEntry_Ok: "issuerEntry env entry w = (Ok p, w') \<Longrightarrow> \<exists>v. entry = complete_entry v"
  by (cases entry; cases "fe_Data (the entry)")
    (auto simp: issuerEntry_def andthen_eq_Ok complete_entryI split: if_splits)

lemma verifierEntry_Ok: "verifierEntry env parseURL entry w = (Ok p, w') \<Longrightarrow> \<exists>v. entry = complete_entry v"
  by (cases entry; cases "fe_Data (the entry)") (auto simp: verifierEntry_def andthen_eq_Ok complete_entryI)

lemma loadAll_complete:
  assumes "loadAll load pid es m w = (Ok m', w')"
    and "\<And>e w p w1. load e w = (Ok p, w1) \<Longrightarrow> \<exists>v. e = complete_entry v" "\<And>v. load (complete_entry v) = load' v"
  shows "\<exists>vs. es = map complete_entry vs \<and> loadAll load' pid vs m w = (Ok m', w')"
  using assms(1)
proof (induction es arbitrary: m w)
  case Nil
  then show ?case by simp
next
  case (Cons e es)
  then obtain p w1 where p: "load e w = (Ok p, w1)" "loadAll load pid es (m(pid p \<mapsto> p)) w1 = (Ok m', w')"
    by (auto simp: andthen_eq_Ok)
  obtain v where v: "e = complete_entry v" using assms(2) [OF p(1)] by blast
  obtain vs where "es = map complete_entry vs" "loadAll load' pid vs (m(pid p \<mapsto> p)) w1 = (Ok m', w')"
    using Cons.IH [OF p(2)] by blast
  then show ?case using p(1) v assms(3) by (intro exI [of _ "v # vs"]) (simp add: andthen_eq_Ok)
qed

text \<open>A reader that starts has read the file its setting names, every entry of the file is complete, and the
  table is the one \<open>Profile_Reader\<close> describes.\<close>

theorem readers_serve_the_file:
  "(issuerReaderFrom fv e env w = (Ok mi, w1) \<longrightarrow>
      (\<exists>path tx f vs. getUserSetVarFromString e profilesFilePathFlagName profilesFilePathEnvKey False = Ok path
         \<and> fv_readFile fv path = Ok tx \<and> fv_decode fv tx = Ok f \<and> pf_Issuers f = map complete_entry vs
         \<and> newIssuerReader env vs w = (Ok mi, w1)))
   \<and> (verifierReaderFrom fv e env parseURL w = (Ok mv, w2) \<longrightarrow>
      (\<exists>path tx f vs. getUserSetVarFromString e profilesFilePathFlagName profilesFilePathEnvKey False = Ok path
         \<and> fv_readFile fv path = Ok tx \<and> fv_decode fv tx = Ok f \<and> pf_Verifiers f = map complete_entry vs
         \<and> newVerifierReader env parseURL vs w = (Ok mv, w2)))"
proof (intro conjI impI)
  assume "issuerReaderFrom fv e env w = (Ok mi, w1)"
  then obtain path tx f where rd: "getUserSetVarFromString e profilesFilePathFlagName profilesFilePathEnvKey False = Ok path"
    "fv_readFile fv path = Ok tx" "fv_decode fv tx = Ok f"
    and l: "loadAll (issuerEntry env) pi_ID (pf_Issuers f) Map.empty w = (Ok mi, w1)"
    by (auto simp: issuerReaderFrom_def readProfileFile_def)
  have vs: "\<exists>vs. pf_Issuers f = map complete_entry vs \<and> loadAll (loadIssuer env) pi_ID vs Map.empty w = (Ok mi, w1)"
    by (rule loadAll_complete [OF l]) (auto dest: issuerEntry_Ok)
  show "\<exists>path tx f vs. getUserSetVarFromString e profilesFilePathFlagName profilesFilePathEnvKey False = Ok path
         \<and> fv_readFile fv path = Ok tx \<and> fv_decode fv tx = Ok f \<and> pf_Issuers f = map complete_entry vs
         \<and> newIssuerReader env vs w = (Ok mi, w1)"
    using rd vs unfolding newIssuerReader_def by blast
next
  assume "verifierReaderFrom fv e env parseURL w = (Ok mv, w2)"
  then obtain path tx f where rd: "getUserSetVarFromString e profilesFilePathFlagName profilesFilePathEnvKey False = Ok path"
    "fv_readFile fv path = Ok tx" "fv_decode fv tx = Ok f"
    and l: "loadAll (verifierEntry env parseURL) pv_ID (pf_Verifiers f) Map.empty w = (Ok mv, w2)"
    by (auto simp: verifierReaderFrom_def readProfileFile_def)
  have vs: "\<exists>vs. pf_Verifiers f = map complete_entry vs \<and> loadAll (loadVerifier env parseURL) pv_ID vs Map.empty w = (Ok mv, w2)"
    by (rule loadAll_complete [OF l]) (auto dest: verifierEntry_Ok)
  show "\<exists>path tx f vs. getUserSetVarFromString e profilesFilePathFlagName profilesFilePathEnvKey False = Ok path
         \<and> fv_readFile fv path = Ok tx \<and> fv_decode fv tx = Ok f \<and> pf_Verifiers f = map complete_entry vs
         \<and> newVerifierReader env parseURL vs w = (Ok mv, w2)"
    using rd vs unfolding newVerifierReader_def by blast
qed

text \<open>An entry without a profile stops the process: once the entries before it are loaded, the reader panics, for
  the issuers unless the DID environment of the entry fails first.\<close>

lemma loadAll_append: "loadAll load pid (xs @ ys) m w = andthen (loadAll load pid xs m w) (\<lambda>m w. loadAll load pid ys m w)"
proof (induction xs arbitrary: m w)
  case (Cons x xs)
  show ?case by (cases "load x w" rule: prod.exhaust; cases "fst (load x w)") (simp_all add: Cons.IH del: fun_upd_apply)
qed simp

theorem incomplete_entry_panics:
  assumes "loadAll (verifierEntry env parseURL) pv_ID vs Map.empty w = (Ok m, w')" "entry = None \<or> (\<exists>x. entry = Some x \<and> fe_Data x = None)"
  shows "loadAll (verifierEntry env parseURL) pv_ID (vs @ entry # rest) Map.empty w = (Panic NilDereference, w')"
  using assms by (auto simp: loadAll_append verifierEntry_def pure_op_def)

end
