(* ===== verification/Mongo_Indexes.thy ===== *)
theory Mongo_Indexes
  imports "HOL-Library.Multiset" Issuance_Store Oidc4vc_State_Store Nonce_Store Fosite_Store
begin

text \<open>
  The constructors of the MongoDB stores: the collections they use and the indexes that their \<open>migrate\<close>
  functions create. The theories of the stores assume which documents clash; here the clash relations are
  read off the indexes that exist once the server of \<open>startcmd\<close> has built all stores. Creating indexes is an
  operation of the driver, over a state of which \<open>ix_of\<close> observes the indexes of each collection.
\<close>

subsection \<open>Collections\<close>

definition issuanceCollection :: string where "issuanceCollection = ''oidc4vcnoncestore''"
definition stateCollection :: string where "stateCollection = ''oidc4authstate''"
definition nonceCollection :: string where "nonceCollection = ''oidc4vpnoncestore''"
definition txCollection :: string where "txCollection = ''oidc4vp_tx''"
definition requestObjectCollection :: string where "requestObjectCollection = ''request_object_store_tx''"
definition vcStoreName :: string where "vcStoreName = ''verifiablecredentials''"
definition cslStoreName :: string where "cslStoreName = ''credentialstatus''"
definition clientsCollection :: string where "clientsCollection = ''fosite_clients''"
definition parCollection :: string where "parCollection = ''fosite_par''"
definition blacklistedJTIsCollection :: string where "blacklistedJTIsCollection = ''fosite_blacklisted_jtis''"

fun sessionCollection :: "session_kind \<Rightarrow> string" where
  "sessionCollection AuthCode = ''fosite_auth_code''"
| "sessionCollection Pkce = ''fosite_pkce_sessions''"
| "sessionCollection RefreshToken = ''fosite_refresh_token_sessions''"
| "sessionCollection AccessToken = ''fosite_access_token_sessions''"

lemmas collection_names = issuanceCollection_def stateCollection_def nonceCollection_def txCollection_def
  requestObjectCollection_def vcStoreName_def cslStoreName_def clientsCollection_def parCollection_def
  blacklistedJTIsCollection_def

text \<open>The stores share a database and keep to collections of their own.\<close>

lemma collections_distinct:
  "distinct ([issuanceCollection, stateCollection, nonceCollection, txCollection, requestObjectCollection, vcStoreName,
     cslStoreName, clientsCollection, parCollection, blacklistedJTIsCollection]
     @ map sessionCollection [AuthCode, Pkce, RefreshToken, AccessToken])"
  by (simp add: collection_names)

subsection \<open>The client\<close>

text \<open>\<open>mongodb.New\<close> and \<open>Close\<close>; the driver's client and its connection are parameters.\<close>

record 'h mongo_client =
  mc_client :: 'h
  mc_databaseName :: string
  mc_timeout :: int

record ('h, 'w) client_driver =
  cd_NewClient :: "string \<Rightarrow> 'h res"
  cd_Connect :: "'h \<Rightarrow> int \<Rightarrow> 'w \<Rightarrow> unit res \<times> 'w"
  cd_Disconnect :: "'h \<Rightarrow> int \<Rightarrow> 'w \<Rightarrow> unit res \<times> 'w"

definition newMongoClient ::
  "('h, 'w) client_driver \<Rightarrow> string \<Rightarrow> string \<Rightarrow> int \<Rightarrow> 'w \<Rightarrow> 'h mongo_client res \<times> 'w" where
  "newMongoClient d connString databaseName timeout w =
     andthen (pure_op (wrapR ''failed to create a new MongoDB client: '' (cd_NewClient d connString)) w) (\<lambda>h w.
     andthen (wrapS ''failed to connect to MongoDB: '' (cd_Connect d h timeout w)) (\<lambda>_ w.
     (Ok \<lparr>mc_client = h, mc_databaseName = databaseName, mc_timeout = timeout\<rparr>, w)))"

definition closeMongoClient :: "('h, 'w) client_driver \<Rightarrow> 'h mongo_client \<Rightarrow> 'w \<Rightarrow> unit res \<times> 'w" where
  "closeMongoClient d c w =
     (case cd_Disconnect d (mc_client c) (mc_timeout c) w of
        (Err e, w) \<Rightarrow> if err_text e = ''client is disconnected'' then (Ok (), w)
                      else (Err (ErrWrap ''failed to disconnect from MongoDB: '' e), w)
      | r \<Rightarrow> r)"

text \<open>Closing a client a second time is not an error.\<close>

lemma close_again:
  assumes "\<And>w. cd_Disconnect d (mc_client c) (mc_timeout c) w = (if closed w then Err (ErrExt ''client is disconnected'') else Ok (), shut w)"
    and "\<And>w. closed (shut w)"
  shows "closeMongoClient d c (snd (closeMongoClient d c w)) = (Ok (), shut (shut w))"
  using assms by (simp add: closeMongoClient_def)

subsection \<open>Indexes\<close>

datatype mongo_index = UniqueIndex string | ExpiryIndex string

record 'w index_driver =
  ix_createMany :: "string \<Rightarrow> mongo_index list \<Rightarrow> 'w \<Rightarrow> unit res \<times> 'w"
  ix_of :: "'w \<Rightarrow> string \<Rightarrow> mongo_index set"

text \<open>Documented behaviour: success creates all the indexes, a failure some of them.\<close>

definition index_law :: "'w index_driver \<Rightarrow> bool" where
  "index_law d \<longleftrightarrow> (\<forall>c ixs w r w'. ix_createMany d c ixs w = (r, w') \<longrightarrow>
     (\<forall>c'. c' \<noteq> c \<longrightarrow> ix_of d w' c' = ix_of d w c')
     \<and> ix_of d w c \<subseteq> ix_of d w' c \<and> ix_of d w' c \<subseteq> ix_of d w c \<union> set ixs
     \<and> (r = Ok () \<longrightarrow> ix_of d w' c = ix_of d w c \<union> set ixs))"

definition migrateIssuance :: "'w index_driver \<Rightarrow> 'w \<Rightarrow> unit res \<times> 'w" where
  "migrateIssuance d w = ix_createMany d issuanceCollection [UniqueIndex ''opState'', ExpiryIndex ''expireAt''] w"

definition migrateState :: "'w index_driver \<Rightarrow> 'w \<Rightarrow> unit res \<times> 'w" where
  "migrateState d w = ix_createMany d stateCollection [UniqueIndex ''opState'', ExpiryIndex ''expireAt''] w"

definition migrateNonce :: "'w index_driver \<Rightarrow> 'w \<Rightarrow> unit res \<times> 'w" where
  "migrateNonce d w = ix_createMany d nonceCollection [ExpiryIndex ''expireAt''] w"

definition baseSessionIndexes :: "mongo_index list" where
  "baseSessionIndexes = [UniqueIndex ''_lookupId'', ExpiryIndex ''expireAt'']"

definition fositeIndexes :: "(string \<times> mongo_index list) list" where
  "fositeIndexes = [(clientsCollection, [UniqueIndex ''_lookupId'']), (parCollection, baseSessionIndexes),
     (sessionCollection AuthCode, baseSessionIndexes), (sessionCollection Pkce, baseSessionIndexes),
     (sessionCollection RefreshToken, baseSessionIndexes), (blacklistedJTIsCollection, baseSessionIndexes)]"

text \<open>The loop over the Go map visits its entries in an order of its own.\<close>

fun createEach :: "'w index_driver \<Rightarrow> (string \<times> mongo_index list) list \<Rightarrow> 'w \<Rightarrow> unit res \<times> 'w" where
  "createEach d [] w = (Ok (), w)"
| "createEach d ((c, ixs) # es) w = andthen (ix_createMany d c ixs w) (\<lambda>_ w. createEach d es w)"

definition migrateFosite :: "'w index_driver \<Rightarrow> (string \<times> mongo_index list) list \<Rightarrow> 'w \<Rightarrow> unit res \<times> 'w" where
  "migrateFosite d order w = createEach d order w"

text \<open>The constructors in the order of \<open>buildEchoHandler\<close>.\<close>

definition createStores :: "'w index_driver \<Rightarrow> (string \<times> mongo_index list) list \<Rightarrow> 'w \<Rightarrow> unit res \<times> 'w" where
  "createStores d order w =
     andthen (migrateIssuance d w) (\<lambda>_ w.
     andthen (migrateState d w) (\<lambda>_ w.
     andthen (migrateFosite d order w) (\<lambda>_ w.
     migrateNonce d w)))"

subsection \<open>The clashes of the indexes\<close>

text \<open>Two documents clash in a unique index when they agree on its field; a missing field is indexed as null.\<close>

definition index_clash :: "mongo_index set \<Rightarrow> (string \<Rightarrow> 'd \<Rightarrow> string option) \<Rightarrow> 'd clash" where
  "index_clash ixs field x y \<longleftrightarrow> (\<exists>k. UniqueIndex k \<in> ixs \<and> field k x = field k y)"

fun issue_field :: "string \<Rightarrow> issue_doc \<Rightarrow> string option" where
  "issue_field k d = (if k = ''opState'' then id_OpState d else None)"

fun state_field :: "string \<Rightarrow> state_doc \<Rightarrow> string option" where
  "state_field k d = (if k = ''opState'' then sd_OpState d else None)"

fun nonce_field :: "string \<Rightarrow> nonce_doc \<Rightarrow> string option" where
  "nonce_field k d = (if k = ''txID'' then Some (nd_txID d) else None)"

fun generic_field :: "string \<Rightarrow> 'r generic_doc \<Rightarrow> string option" where
  "generic_field k d = (if k = ''_lookupId'' then Some (gd_LookupID d) else None)"

lemma created_indexes:
  assumes "index_law d" "ix_createMany d c ixs w = (Ok (), w')"
  shows "ix_of d w' = (\<lambda>c'. ix_of d w c' \<union> (if c' = c then set ixs else {}))"
  using assms unfolding index_law_def fun_eq_iff by (smt (verit) Un_empty_right)

lemma createEach_indexes:
  assumes "index_law d" "createEach d es w = (Ok (), w')"
  shows "ix_of d w' c = ix_of d w c \<union> {i. \<exists>ixs. (c, ixs) \<in> set es \<and> i \<in> set ixs}"
  using assms(2)
proof (induction es arbitrary: w)
  case (Cons e es)
  obtain x ixs where e: "e = (x, ixs)" by fastforce
  obtain w1 where w1: "ix_createMany d x ixs w = (Ok (), w1)" "createEach d es w1 = (Ok (), w')"
    using Cons.prems by (auto simp: e andthen_eq_Ok)
  show ?case using Cons.IH [OF w1(2)] created_indexes [OF assms(1) w1(1)] by (auto simp: e split: if_splits)
qed simp

lemma fosite_part:
  assumes "mset order = mset fositeIndexes"
  shows "{i. \<exists>ixs. (c, ixs) \<in> set order \<and> i \<in> set ixs} = (case map_of fositeIndexes c of Some ixs \<Rightarrow> set ixs | None \<Rightarrow> {})"
proof -
  have s: "set order = set fositeIndexes" using assms by (metis mset_eq_setD)
  have d: "distinct (map fst fositeIndexes)" by (simp add: fositeIndexes_def collection_names)
  show ?thesis
  proof (cases "map_of fositeIndexes c")
    case None
    then have "(c, y) \<notin> set fositeIndexes" for y unfolding map_of_eq_None_iff by (metis fst_conv imageI)
    then show ?thesis unfolding s using None by simp
  next
    case (Some ixs)
    have u: "(c, y) \<in> set fositeIndexes \<longleftrightarrow> y = ixs" for y
      using map_of_eq_Some_iff [OF d, of c y] Some by auto
    show ?thesis unfolding s u using Some by simp
  qed
qed

lemma createStores_indexes:
  assumes "index_law d" "mset order = mset fositeIndexes" "createStores d order w = (Ok (), w')"
  shows "ix_of d w' c = ix_of d w c
    \<union> (if c = issuanceCollection \<or> c = stateCollection then {UniqueIndex ''opState'', ExpiryIndex ''expireAt''} else {})
    \<union> (case map_of fositeIndexes c of Some ixs \<Rightarrow> set ixs | None \<Rightarrow> {})
    \<union> (if c = nonceCollection then {ExpiryIndex ''expireAt''} else {})"
proof -
  obtain w1 w2 w3 where c: "migrateIssuance d w = (Ok (), w1)" "migrateState d w1 = (Ok (), w2)"
    "createEach d order w2 = (Ok (), w3)" "migrateNonce d w3 = (Ok (), w')"
    using assms(3) by (auto simp: createStores_def migrateFosite_def)
  show ?thesis
    using created_indexes [OF assms(1) c(1) [unfolded migrateIssuance_def]] created_indexes [OF assms(1) c(2) [unfolded migrateState_def]]
      createEach_indexes [OF assms(1) c(3)] created_indexes [OF assms(1) c(4) [unfolded migrateNonce_def]] fosite_part [OF assms(2)]
    by auto
qed

lemma fosite_index_table:
  "map_of fositeIndexes clientsCollection = Some [UniqueIndex ''_lookupId'']"
  "map_of fositeIndexes parCollection = Some baseSessionIndexes"
  "map_of fositeIndexes blacklistedJTIsCollection = Some baseSessionIndexes"
  "map_of fositeIndexes (sessionCollection k) = (if k = AccessToken then None else Some baseSessionIndexes)"
  "map_of fositeIndexes issuanceCollection = None" "map_of fositeIndexes stateCollection = None"
  "map_of fositeIndexes nonceCollection = None"
  by (cases k; simp add: fositeIndexes_def collection_names)+

lemma session_names:
  "sessionCollection k \<noteq> issuanceCollection" "sessionCollection k \<noteq> stateCollection" "sessionCollection k \<noteq> nonceCollection"
  by (cases k; simp add: collection_names)+

lemma clash_simps:
  "index_clash {UniqueIndex k, ExpiryIndex e} field x y \<longleftrightarrow> field k x = field k y"
  "index_clash {UniqueIndex k} field x y \<longleftrightarrow> field k x = field k y"
  "\<not> index_clash {ExpiryIndex e} field x y" "\<not> index_clash {} field x y"
  by (auto simp: index_clash_def)

lemma field_clashes:
  "index_clash {UniqueIndex ''opState'', ExpiryIndex ''expireAt''} issue_field = opState_clash"
  "index_clash {UniqueIndex ''opState'', ExpiryIndex ''expireAt''} state_field = state_clash"
  "index_clash {ExpiryIndex ''expireAt''} nonce_field = no_clash"
  "index_clash {UniqueIndex ''_lookupId''} generic_field = lookup_clash"
  "index_clash (set baseSessionIndexes) generic_field = lookup_clash"
  "index_clash {} generic_field = no_clash"
  by (simp_all add: fun_eq_iff clash_simps opState_clash_def state_clash_def no_clash_def lookup_clash_def baseSessionIndexes_def)

text \<open>C34: The indexes that the constructors create on an empty database are the ones the store theories assume.
  Whatever order the loop over fosite's collections takes, once all stores are built two documents of a
  collection clash exactly as the theory of its store says: by \<open>opState\<close> for issuance transactions and
  authorization states, never for nonces, by \<open>_lookupId\<close> for the OAuth2 collections, and never for access
  tokens, which get no index at all and so are not swept either.\<close>

theorem constructors_create_assumed_indexes:
  assumes "index_law d" "mset order = mset fositeIndexes" "createStores d order w = (Ok (), w')" "\<And>c. ix_of d w c = {}"
  shows "index_clash (ix_of d w' issuanceCollection) issue_field = opState_clash
    \<and> index_clash (ix_of d w' stateCollection) state_field = state_clash
    \<and> index_clash (ix_of d w' nonceCollection) nonce_field = no_clash
    \<and> index_clash (ix_of d w' clientsCollection) (generic_field :: string \<Rightarrow> fosite_client generic_doc \<Rightarrow> string option) = lookup_clash
    \<and> index_clash (ix_of d w' parCollection) (generic_field :: string \<Rightarrow> par_record generic_doc \<Rightarrow> string option) = lookup_clash
    \<and> index_clash (ix_of d w' blacklistedJTIsCollection) (generic_field :: string \<Rightarrow> string generic_doc \<Rightarrow> string option) = lookup_clash
    \<and> index_clash (ix_of d w' (sessionCollection k)) generic_field = session_clash k
    \<and> (ExpiryIndex ''expireAt'' \<in> ix_of d w' (sessionCollection k) \<longleftrightarrow> k \<noteq> AccessToken)"
proof -
  note I = createStores_indexes [OF assms(1-3)]
  have t: "ix_of d w' issuanceCollection = {UniqueIndex ''opState'', ExpiryIndex ''expireAt''}"
    "ix_of d w' stateCollection = {UniqueIndex ''opState'', ExpiryIndex ''expireAt''}"
    "ix_of d w' nonceCollection = {ExpiryIndex ''expireAt''}" "ix_of d w' clientsCollection = {UniqueIndex ''_lookupId''}"
    "ix_of d w' parCollection = set baseSessionIndexes" "ix_of d w' blacklistedJTIsCollection = set baseSessionIndexes"
    "ix_of d w' (sessionCollection k) = (if k = AccessToken then {} else set baseSessionIndexes)"
    by (simp_all add: I assms(4) fosite_index_table session_names) (simp_all add: collection_names)
  have "index_clash (ix_of d w' (sessionCollection k)) generic_field = session_clash k"
    unfolding t(7) by (cases k) (simp_all add: field_clashes)
  moreover have "ExpiryIndex ''expireAt'' \<in> ix_of d w' (sessionCollection k) \<longleftrightarrow> k \<noteq> AccessToken"
    unfolding t(7) by (simp add: baseSessionIndexes_def)
  ultimately show ?thesis unfolding t(1-6) by (simp add: field_clashes)
qed

text \<open>A server that keeps the indexes it was asked for.\<close>

definition list_indexes :: "(string \<Rightarrow> mongo_index set) index_driver" where
  "list_indexes = \<lparr>ix_createMany = (\<lambda>c ixs f. (Ok (), f(c := f c \<union> set ixs))), ix_of = (\<lambda>f. f)\<rparr>"

lemma list_indexes_law: "index_law list_indexes"
  by (simp add: index_law_def list_indexes_def)

theorem constructors_create_assumed_indexes_witness:
  "\<exists>w'. createStores list_indexes (rev fositeIndexes) (\<lambda>_. {}) = (Ok (), w')
     \<and> index_clash (w' issuanceCollection) issue_field = opState_clash
     \<and> ExpiryIndex ''expireAt'' \<notin> w' (sessionCollection AccessToken)"
proof -
  obtain w' where c: "createStores list_indexes (rev fositeIndexes) (\<lambda>_. {}) = (Ok (), w')"
    by (simp add: createStores_def migrateIssuance_def migrateState_def migrateNonce_def migrateFosite_def fositeIndexes_def list_indexes_def)
  have m: "mset (rev fositeIndexes) = mset fositeIndexes" by simp
  have e: "ix_of list_indexes (\<lambda>_. {}) x = {}" "ix_of list_indexes w' = w'" for x by (simp_all add: list_indexes_def)
  show ?thesis
    using constructors_create_assumed_indexes [OF list_indexes_law m c e(1), of AccessToken] c unfolding e(2) by blast
qed

end
