(* ===== verification/Issuer_Client.thy ===== *)
theory Issuer_Client
  imports Api_Dispatch Oidc4vc_Controller
begin

text \<open>
  The generated client of the issuer API (\<open>pkg/restapi/v1/issuer/openapi.gen.go\<close>): construction, request
  builders and calls. Through it the OIDC controller calls the API of the same server. JSON encoding, escaping
  of a path parameter, parsing and resolving URLs and building a request are library calls, the
  parameters \<open>client_env\<close>; the doer and the request editors are the client's own parameters.
\<close>

datatype client_body =
    NoBody
  | ExchangeBody string
  | PrepareBody prepare_body
  | PushBody push_body
  | CodeBody code_body
  | IssueBody issue_body
  | StatusBody status_body
  | InitiateBody initiate_body

record outgoing =
  og_Method :: string
  og_Path :: string
  og_Header :: "string \<Rightarrow> string"
  og_Body :: client_body

type_synonym request_editor = "outgoing \<Rightarrow> outgoing res"

record 'w issuer_client =
  cl_Server :: string
  cl_Do :: "(outgoing \<Rightarrow> 'w \<Rightarrow> response res \<times> 'w) option"
  cl_RequestEditors :: "request_editor list"

type_synonym 'w client_option = "'w issuer_client \<Rightarrow> 'w issuer_client res"

record 'w client_env =
  ce_marshal :: "client_body \<Rightarrow> unit res"
  ce_style :: "string \<Rightarrow> string \<Rightarrow> string res"
  ce_parseURL :: "string \<Rightarrow> unit res"
  ce_resolve :: "string \<Rightarrow> string \<Rightarrow> string res"
  ce_newRequest :: "string \<Rightarrow> string \<Rightarrow> unit res"
  ce_default :: "outgoing \<Rightarrow> 'w \<Rightarrow> response res \<times> 'w"

subsection \<open>Construction\<close>

fun applyOptions :: "'w client_option list \<Rightarrow> 'w issuer_client \<Rightarrow> 'w issuer_client res" where
  "applyOptions [] c = Ok c"
| "applyOptions (f # fs) c = bindR (f c) (applyOptions fs)"

definition newIssuerClient :: "'w client_env \<Rightarrow> string \<Rightarrow> 'w client_option list \<Rightarrow> 'w issuer_client res" where
  "newIssuerClient lib server opts =
     bindR (applyOptions opts \<lparr>cl_Server = server, cl_Do = None, cl_RequestEditors = []\<rparr>) (\<lambda>c.
     let c1 = (if has_suffix (cl_Server c) ''/'' then c else c\<lparr>cl_Server := cl_Server c @ ''/''\<rparr>)
     in Ok (if cl_Do c1 = None then c1\<lparr>cl_Do := Some (ce_default lib)\<rparr> else c1))"

definition withHTTPClient :: "(outgoing \<Rightarrow> 'w \<Rightarrow> response res \<times> 'w) \<Rightarrow> 'w client_option" where
  "withHTTPClient doer c = Ok (c\<lparr>cl_Do := Some doer\<rparr>)"

definition withRequestEditorFn :: "request_editor \<Rightarrow> 'w client_option" where
  "withRequestEditorFn f c = Ok (c\<lparr>cl_RequestEditors := cl_RequestEditors c @ [f]\<rparr>)"

definition withBaseURL :: "(string \<Rightarrow> string res) \<Rightarrow> string \<Rightarrow> 'w client_option" where
  "withBaseURL normalise baseURL c = bindR (normalise baseURL) (\<lambda>u. Ok (c\<lparr>cl_Server := u\<rparr>))"

subsection \<open>Requests\<close>

text \<open>The operation path is made relative to the server's URL; a body sets the content type.\<close>

definition buildRequest :: "'w client_env \<Rightarrow> string \<Rightarrow> string \<Rightarrow> string res \<Rightarrow> client_body \<Rightarrow> outgoing res" where
  "buildRequest lib server meth operationPath body =
     bindR operationPath (\<lambda>path.
     bindR (ce_parseURL lib server) (\<lambda>_.
     bindR (ce_resolve lib server (''.'' @ path)) (\<lambda>resolved.
     bindR (ce_newRequest lib meth resolved) (\<lambda>_.
     Ok \<lparr>og_Method = meth, og_Path = resolved,
         og_Header = (\<lambda>h. if h = ''Content-Type'' \<and> body \<noteq> NoBody then ''application/json'' else []), og_Body = body\<rparr>))))"

fun applyEditors :: "request_editor list \<Rightarrow> outgoing \<Rightarrow> outgoing res" where
  "applyEditors [] og = Ok og"
| "applyEditors (f # fs) og = bindR (f og) (applyEditors fs)"

definition clientCall ::
  "'w client_env \<Rightarrow> 'w issuer_client \<Rightarrow> string \<Rightarrow> string res \<Rightarrow> client_body \<Rightarrow> request_editor list \<Rightarrow> 'w \<Rightarrow> response res \<times> 'w" where
  "clientCall lib c meth operationPath body reqEditors w =
     andthen (pure_op (if body = NoBody then Ok () else ce_marshal lib body) w) (\<lambda>_ w.
     andthen (pure_op (buildRequest lib (cl_Server c) meth operationPath body) w) (\<lambda>og w.
     andthen (pure_op (applyEditors (cl_RequestEditors c @ reqEditors) og) w) (\<lambda>og w.
     case cl_Do c of Some doer \<Rightarrow> doer og w | None \<Rightarrow> (Panic NilDereference, w))))"

definition profile_path :: "'w client_env \<Rightarrow> string \<Rightarrow> string \<Rightarrow> string res" where
  "profile_path lib profileID rest =
     bindR (ce_style lib ''profileID'' profileID) (\<lambda>p. Ok (''/issuer/profiles/'' @ p @ rest))"

definition c_ExchangeAuthorizationCodeRequest where
  "c_ExchangeAuthorizationCodeRequest lib c opState =
     clientCall lib c ''POST'' (Ok ''/issuer/interactions/exchange-authorization-code'') (ExchangeBody opState)"

definition c_PrepareAuthorizationRequest where
  "c_PrepareAuthorizationRequest lib c body =
     clientCall lib c ''POST'' (Ok ''/issuer/interactions/prepare-claim-data-authz-request'') (PrepareBody body)"

definition c_PushAuthorizationDetails where
  "c_PushAuthorizationDetails lib c body =
     clientCall lib c ''POST'' (Ok ''/issuer/interactions/push-authorization-request'') (PushBody body)"

definition c_StoreAuthorizationCodeRequest where
  "c_StoreAuthorizationCodeRequest lib c body =
     clientCall lib c ''POST'' (Ok ''/issuer/interactions/store-authorization-code'') (CodeBody body)"

definition c_PostIssueCredentials where
  "c_PostIssueCredentials lib c profileID body =
     clientCall lib c ''POST'' (profile_path lib profileID ''/credentials/issue'') (IssueBody body)"

definition c_PostCredentialsStatus where
  "c_PostCredentialsStatus lib c profileID body =
     clientCall lib c ''POST'' (profile_path lib profileID ''/credentials/status'') (StatusBody body)"

definition c_GetCredentialsStatus where
  "c_GetCredentialsStatus lib c profileID statusID =
     clientCall lib c ''GET''
       (bindR (ce_style lib ''profileID'' profileID) (\<lambda>p. bindR (ce_style lib ''statusID'' statusID) (\<lambda>s.
          Ok (''/issuer/profiles/'' @ p @ ''/credentials/status/'' @ s)))) NoBody"

definition c_InitiateCredentialIssuance where
  "c_InitiateCredentialIssuance lib c profileID body =
     clientCall lib c ''POST'' (profile_path lib profileID ''/interactions/initiate-oidc'') (InitiateBody body)"

subsection \<open>The server behind the client\<close>

text \<open>What the server of the same process receives: the body in the form its handler decodes it to, which for
  these structs is the one that was encoded; \<open>d\<close> stands for the bodies the request does not have.\<close>

fun received :: "client_body \<Rightarrow> request_data \<Rightarrow> request_data" where
  "received NoBody d = d"
| "received (ExchangeBody b) d = d\<lparr>rd_exchange := Ok b\<rparr>"
| "received (PrepareBody b) d = d\<lparr>rd_prepare := Ok b\<rparr>"
| "received (PushBody b) d = d\<lparr>rd_push := Ok b\<rparr>"
| "received (CodeBody b) d = d\<lparr>rd_code := Ok b\<rparr>"
| "received (IssueBody b) d = d\<lparr>rd_issue := Ok b\<rparr>"
| "received (StatusBody b) d = d\<lparr>rd_status := Ok b\<rparr>"
| "received (InitiateBody b) d = d\<lparr>rd_initiate := Ok b\<rparr>"

definition request_of :: "outgoing \<Rightarrow> Rest_Api.http_request" where
  "request_of og = \<lparr>hq_Method = og_Method og, hq_Path = og_Path og, hq_Header = og_Header og\<rparr>"

definition loopback ::
  "string \<Rightarrow> param_decoder \<Rightarrow> ('k, 'w) issuer_ctl \<Rightarrow> ('pd, 'j, 'w) verifier_ctl \<Rightarrow> request_data
     \<Rightarrow> (Rest_Api.http_request \<Rightarrow> 'w \<Rightarrow> response res \<times> 'w) \<Rightarrow> outgoing \<Rightarrow> 'w \<Rightarrow> response res \<times> 'w" where
  "loopback token bind ic vc d others og =
     issuer_call token (dispatch (issuer_api bind ic (received (og_Body og) d) @ verifier_api bind vc (received (og_Body og) d)) others)
       (request_of og)"

text \<open>Documented behaviour of the libraries for a server URL without a path: encoding succeeds, a relative path
  resolves to itself, an escaped parameter is one segment and is unescaped by the server; and the key
  provider adds the header.\<close>

definition client_lib_ok :: "'w client_env \<Rightarrow> param_decoder \<Rightarrow> bool" where
  "client_lib_ok lib bind \<longleftrightarrow> (\<forall>b. ce_marshal lib b = Ok ()) \<and> (\<forall>u. ce_parseURL lib u = Ok ())
     \<and> (\<forall>u p. ce_resolve lib u (''.'' @ p) = Ok p) \<and> (\<forall>m u. ce_newRequest lib m u = Ok ())
     \<and> (\<forall>n v. \<exists>s. ce_style lib n v = Ok s \<and> bind n s = Ok v \<and> CHR ''/'' \<notin> set s)"

definition add_header :: "string \<Rightarrow> string \<Rightarrow> request_editor" where
  "add_header name v og = Ok (og\<lparr>og_Header := (og_Header og)(name := v)\<rparr>)"

text \<open>The request that the server sees.\<close>

definition client_request :: "string \<Rightarrow> string \<Rightarrow> client_body \<Rightarrow> (string \<times> string) list \<Rightarrow> string \<Rightarrow> Rest_Api.http_request" where
  "client_request meth path body extra token =
     \<lparr>hq_Method = meth, hq_Path = path,
      hq_Header = (\<lambda>h. case map_of (rev extra) h of Some v \<Rightarrow> v
        | None \<Rightarrow> if h = ''X-API-Key'' then token
                 else if h = ''Content-Type'' \<and> body \<noteq> NoBody then ''application/json'' else [])\<rparr>"

lemma applied_headers:
  "applyEditors (map (\<lambda>(n, v). add_header n v) hs) og
     = Ok (og\<lparr>og_Header := (\<lambda>h. case map_of (rev hs) h of Some v \<Rightarrow> v | None \<Rightarrow> og_Header og h)\<rparr>)"
proof (induction hs arbitrary: og)
  case (Cons x hs)
  then show ?case by (cases x) (auto simp: add_header_def fun_eq_iff map_add_def split: option.splits)
qed simp

lemma new_client:
  assumes "newIssuerClient lib server [withHTTPClient doer, withRequestEditorFn f] = Ok c"
  shows "cl_Do c = Some doer" "cl_RequestEditors c = [f]"
  using assms by (auto simp: newIssuerClient_def withHTTPClient_def withRequestEditorFn_def Let_def split: if_splits)

lemma client_call_sent:
  assumes "client_lib_ok lib bind" "newIssuerClient lib server [withHTTPClient doer, withRequestEditorFn (add_header ''X-API-Key'' token)] = Ok c"
  shows "\<exists>og. clientCall lib c meth (Ok path) body (map (\<lambda>(n, v). add_header n v) hs) w = doer og w \<and> og_Body og = body
     \<and> request_of og = client_request meth path body hs token"
proof -
  let ?b = "\<lparr>og_Method = meth, og_Path = path,
      og_Header = (\<lambda>h. if h = ''Content-Type'' \<and> body \<noteq> NoBody then ''application/json'' else []), og_Body = body\<rparr>"
  let ?e = "?b\<lparr>og_Header := (\<lambda>h. case map_of (rev ((''X-API-Key'', token) # hs)) h of Some v \<Rightarrow> v | None \<Rightarrow> og_Header ?b h)\<rparr>"
  note L = assms(1) [unfolded client_lib_ok_def]
  have b: "buildRequest lib (cl_Server c) meth (Ok path) body = Ok ?b"
    using L by (simp add: buildRequest_def)
  have "map (\<lambda>(n, v). add_header n v) ((''X-API-Key'', token) # hs) = cl_RequestEditors c @ map (\<lambda>(n, v). add_header n v) hs"
    by (simp add: new_client(2) [OF assms(2)])
  then have e: "applyEditors (cl_RequestEditors c @ map (\<lambda>(n, v). add_header n v) hs) ?b = Ok ?e"
    using applied_headers [of "(''X-API-Key'', token) # hs" ?b] by (simp only:)
  have "clientCall lib c meth (Ok path) body (map (\<lambda>(n, v). add_header n v) hs) w = doer ?e w"
    unfolding clientCall_def b using L by (simp only: e andthen_pure_Ok if_cancel new_client(1) [OF assms(2)] option.case)
  moreover have "request_of ?e = client_request meth path body hs token"
    by (auto simp: request_of_def client_request_def fun_eq_iff map_add_def split: option.splits)
  ultimately show ?thesis by (intro exI [of _ ?e]) simp
qed

abbreviation editors :: "(string \<times> string) list \<Rightarrow> request_editor list" where
  "editors hs \<equiv> map (\<lambda>(n, v). add_header n v) hs"

abbreviation loopback_client where
  "loopback_client lib server token bind ic vc d others c \<equiv>
     newIssuerClient lib server [withHTTPClient (loopback token bind ic vc d others), withRequestEditorFn (add_header ''X-API-Key'' token)] = Ok c"

lemma call_reaches_handler:
  assumes "client_lib_ok lib bind" "loopback_client lib server token bind ic vc d others c"
    and "((meth, ps), h) \<in> set (both_apis bind ic vc (received body d))" "seg_matches ps xs" "no_slash xs"
    and "''X-API-Key'' \<notin> fst ` set hs"
  shows "clientCall lib c meth (Ok (path_of xs)) body (editors hs) w
    = issuer_call [] (h (params_of ps xs)) (client_request meth (path_of xs) body hs token) w"
proof -
  let ?q = "client_request meth (path_of xs) body hs token"
  obtain og where og: "clientCall lib c meth (Ok (path_of xs)) body (editors hs) w = loopback token bind ic vc d others og w"
    "og_Body og = body" "request_of og = ?q"
    using client_call_sent [OF assms(1,2)] by blast
  have q: "hq_Method ?q = meth" "hq_Path ?q = path_of xs" by (simp_all add: client_request_def)
  have k: "hq_Header ?q ''X-API-Key'' = token"
    using assms(6) by (auto simp: client_request_def map_of_eq_None_iff split: option.splits dest!: map_of_SomeD intro: rev_image_eqI)
  have sv: "serve token g ?q w = handled ?q (g ?q w)" "serve [] g ?q w = handled ?q (g ?q w)" for g
    using k by (auto simp: serve_def apiKeyAuth_def)
  have "dispatch (both_apis bind ic vc (received body d)) others ?q w = h (params_of ps xs) ?q w"
    by (rule dispatch_matched [OF _ api_routes_ok assms(4) q(2) assms(5)]) (use assms(3) q(1) in simp)
  then show ?thesis
    unfolding og(1) loopback_def og(2,3) issuer_call_def sv by simp
qed

text \<open>Each interaction call is the call of its handler with the same body.\<close>

lemmas route_parts = issuer_api_def issuer_routes_def path_of_def

lemma prepare_call:
  assumes "client_lib_ok lib bind" "loopback_client lib server token bind ic vc d others c"
  shows "\<exists>q. c_PrepareAuthorizationRequest lib c b [] w = issuer_call [] (prepareAuthorizationRequest ic (Ok b)) q w"
  using call_reaches_handler [OF assms, where meth = "''POST''" and body = "PrepareBody b" and hs = "[]" and w = w
      and h = "w_PrepareAuthorizationRequest ic (d\<lparr>rd_prepare := Ok b\<rparr>)"
      and xs = "[''issuer'', ''interactions'', ''prepare-claim-data-authz-request'']" and ps = "[Lit ''issuer'', Lit ''interactions'', Lit ''prepare-claim-data-authz-request'']"]
  by (auto simp: route_parts c_PrepareAuthorizationRequest_def w_PrepareAuthorizationRequest_def issuer_call_def serve_def)

lemma push_call:
  assumes "client_lib_ok lib bind" "loopback_client lib server token bind ic vc d others c"
  shows "\<exists>q. c_PushAuthorizationDetails lib c b [] w = issuer_call [] (pushAuthorizationDetailsReq ic (Ok b)) q w"
  using call_reaches_handler [OF assms, where meth = "''POST''" and body = "PushBody b" and hs = "[]" and w = w
      and h = "w_PushAuthorizationDetails ic (d\<lparr>rd_push := Ok b\<rparr>)"
      and xs = "[''issuer'', ''interactions'', ''push-authorization-request'']" and ps = "[Lit ''issuer'', Lit ''interactions'', Lit ''push-authorization-request'']"]
  by (auto simp: route_parts c_PushAuthorizationDetails_def w_PushAuthorizationDetails_def issuer_call_def serve_def)

lemma store_call:
  assumes "client_lib_ok lib bind" "loopback_client lib server token bind ic vc d others c"
  shows "\<exists>q. c_StoreAuthorizationCodeRequest lib c b [] w = issuer_call [] (storeAuthorizationCodeRequest ic (Ok b)) q w"
  using call_reaches_handler [OF assms, where meth = "''POST''" and body = "CodeBody b" and hs = "[]" and w = w
      and h = "w_StoreAuthorizationCodeRequest ic (d\<lparr>rd_code := Ok b\<rparr>)"
      and xs = "[''issuer'', ''interactions'', ''store-authorization-code'']" and ps = "[Lit ''issuer'', Lit ''interactions'', Lit ''store-authorization-code'']"]
  by (auto simp: route_parts c_StoreAuthorizationCodeRequest_def w_StoreAuthorizationCodeRequest_def issuer_call_def serve_def)

lemma exchange_call:
  assumes "client_lib_ok lib bind" "loopback_client lib server token bind ic vc d others c"
  shows "\<exists>q. c_ExchangeAuthorizationCodeRequest lib c b [] w = issuer_call [] (exchangeAuthorizationCodeRequest ic (Ok b)) q w"
  using call_reaches_handler [OF assms, where meth = "''POST''" and body = "ExchangeBody b" and hs = "[]" and w = w
      and h = "w_ExchangeAuthorizationCodeRequest ic (d\<lparr>rd_exchange := Ok b\<rparr>)"
      and xs = "[''issuer'', ''interactions'', ''exchange-authorization-code'']" and ps = "[Lit ''issuer'', Lit ''interactions'', Lit ''exchange-authorization-code'']"]
  by (auto simp: route_parts c_ExchangeAuthorizationCodeRequest_def w_ExchangeAuthorizationCodeRequest_def issuer_call_def serve_def)

text \<open>The calls for a profile, with the organization in a header.\<close>

lemma initiate_call:
  assumes "client_lib_ok lib bind" "loopback_client lib server token bind ic vc d others c"
  shows "\<exists>q. hq_Header q ''X-User'' = org
      \<and> c_InitiateCredentialIssuance lib c pid b [add_header ''X-User'' org] w = issuer_call [] (initiateCredentialIssuance ic (Ok b) pid) q w"
proof -
  obtain p where p: "ce_style lib ''profileID'' pid = Ok p" "bind ''profileID'' p = Ok pid" "CHR ''/'' \<notin> set p"
    using assms(1) unfolding client_lib_ok_def by blast
  show ?thesis
    using call_reaches_handler [OF assms, where meth = "''POST''" and body = "InitiateBody b" and hs = "[(''X-User'', org)]" and w = w
        and h = "w_InitiateCredentialIssuance bind ic (d\<lparr>rd_initiate := Ok b\<rparr>)" and ps = initiate_route
        and xs = "[''issuer'', ''profiles'', p, ''interactions'', ''initiate-oidc'']"] p
    by (intro exI [of _ "client_request ''POST'' (path_of [''issuer'', ''profiles'', p, ''interactions'', ''initiate-oidc''])
          (InitiateBody b) [(''X-User'', org)] token"])
      (simp add: route_parts c_InitiateCredentialIssuance_def profile_path_def w_InitiateCredentialIssuance_def bindParam_def ctx_param_def
        issuer_call_def serve_def client_request_def)
qed

lemma issue_call:
  assumes "client_lib_ok lib bind" "loopback_client lib server token bind ic vc d others c"
  shows "\<exists>q. hq_Header q ''X-User'' = org
      \<and> c_PostIssueCredentials lib c pid b [add_header ''X-User'' org] w = issuer_call [] (postIssueCredentials ic (Ok b) pid) q w"
proof -
  obtain p where p: "ce_style lib ''profileID'' pid = Ok p" "bind ''profileID'' p = Ok pid" "CHR ''/'' \<notin> set p"
    using assms(1) unfolding client_lib_ok_def by blast
  show ?thesis
    using call_reaches_handler [OF assms, where meth = "''POST''" and body = "IssueBody b" and hs = "[(''X-User'', org)]" and w = w
        and h = "w_PostIssueCredentials bind ic (d\<lparr>rd_issue := Ok b\<rparr>)"
        and ps = "[Lit ''issuer'', Lit ''profiles'', Param ''profileID'', Lit ''credentials'', Lit ''issue'']"
        and xs = "[''issuer'', ''profiles'', p, ''credentials'', ''issue'']"] p
    by (intro exI [of _ "client_request ''POST'' (path_of [''issuer'', ''profiles'', p, ''credentials'', ''issue''])
          (IssueBody b) [(''X-User'', org)] token"])
      (simp add: route_parts c_PostIssueCredentials_def profile_path_def w_PostIssueCredentials_def bindParam_def ctx_param_def
        issuer_call_def serve_def client_request_def)
qed


subsection \<open>A concrete client\<close>

lemma hex_digit_no_slash: "n < 16 \<Longrightarrow> hex_digit n \<noteq> CHR ''/''"
  by (auto simp: hex_digit_def dest!: arg_cong [where f = "of_char :: char \<Rightarrow> nat"] split: if_splits)

lemma escape_no_slash: "CHR ''/'' \<notin> set (query_escape s)"
proof (induction s)
  case (Cons c s)
  have "(of_char c :: nat) div 16 < 16" "(of_char c :: nat) mod 16 < 16" using char_nat_lt [of c] by (simp_all add: less_mult_imp_div_less)
  note h = this [THEN hex_digit_no_slash]
  have "\<not> unreserved CHR ''/''" by (simp add: unreserved_def)
  then have "CHR ''/'' \<notin> set (escape_char c)"
    by (cases "unreserved c"; cases "c = CHR '' ''") (use h in \<open>auto simp: escape_char_def\<close>)
  then show ?case using Cons by (simp add: query_escape_def)
qed (simp add: query_escape_def)

definition demo_lib :: "nat client_env" where
  "demo_lib = \<lparr>ce_marshal = (\<lambda>_. Ok ()), ce_style = (\<lambda>_ v. Ok (query_escape v)), ce_parseURL = (\<lambda>_. Ok ()),
     ce_resolve = (\<lambda>_ p. Ok (tl p)), ce_newRequest = (\<lambda>_ _. Ok ()), ce_default = (\<lambda>_ n. (Err (ErrExt ''no route to host''), n))\<rparr>"

lemma demo_lib_ok: "client_lib_ok demo_lib (\<lambda>_ v. Ok (query_unescape v))"
  by (simp add: client_lib_ok_def demo_lib_def escape_no_slash)


end
