(* ===== verification/Log_Setup.thy ===== *)
theory Log_Setup
  imports Log_Levels
begin

text \<open>
  The rest of \<open>internal/pkg/log\<close>: the structured fields of \<open>fields.go\<close> and the construction of a logger from
  its options in \<open>logger.go\<close>. A field is a key with its value; zap's own fields are the error (key \<open>error\<close>,
  nothing for nil) and an inlined object, which adds its fields itself. The sinks are values of any type, the
  two of the process are parameters, as is the reflection of an object by the encoder.
\<close>

subsection \<open>Fields\<close>

text \<open>The keys of the encoder and the names of the fields.\<close>

definition encoderKeys :: "string list" where
  "encoderKeys = [''time'', ''level'', ''logger'', ''caller'', ''msg'', ''stacktrace'']"

definition fieldNames :: "string list" where
  "fieldNames =
     [''userLogLevel'', ''id'', ''name'', ''command'', ''httpStatus'', ''responseBody'', ''topic'', ''additionalMessage'',
      ''hostURL'', ''token'', ''totalRequests'', ''responses'', ''concurrencyRequests'', ''workers'', ''path'', ''url'',
      ''json'', ''jsonResolution'', ''sleep'', ''duration'', ''event'', ''dockerComposeCmd'', ''certPoolSize'', ''idToken'',
      ''vpToken'', ''transactionID'', ''presDefinitionID'', ''state'', ''profileID'']"

record 'o object_marshaller =
  om_key :: string
  om_obj :: 'o

definition newObjectMarshaller :: "string \<Rightarrow> 'o \<Rightarrow> 'o object_marshaller" where
  "newObjectMarshaller key obj = \<lparr>om_key = key, om_obj = obj\<rparr>"

definition marshalLogObject :: "(string \<Rightarrow> 'o \<Rightarrow> 'e \<Rightarrow> unit res \<times> 'e) \<Rightarrow> 'o object_marshaller \<Rightarrow> 'e \<Rightarrow> unit res \<times> 'e" where
  "marshalLogObject addReflected m e = addReflected (om_key m) (om_obj m) e"

datatype 'o zap_field =
    ZString string string
  | ZInt string int
  | ZDuration string int
  | ZError go_error
  | ZSkip
  | ZInline "'o object_marshaller"

definition withError :: "go_error option \<Rightarrow> 'o zap_field" where
  "withError err = (case err of Some e \<Rightarrow> ZError e | None \<Rightarrow> ZSkip)"

definition withUserLogLevel :: "string \<Rightarrow> 'o zap_field" where
  "withUserLogLevel v = ZString ''userLogLevel'' v"

definition withID :: "string \<Rightarrow> 'o zap_field" where
  "withID v = ZString ''id'' v"

definition withName :: "string \<Rightarrow> 'o zap_field" where
  "withName v = ZString ''name'' v"

definition withCommand :: "string \<Rightarrow> 'o zap_field" where
  "withCommand v = ZString ''command'' v"

definition withHTTPStatus :: "int \<Rightarrow> 'o zap_field" where
  "withHTTPStatus v = ZInt ''httpStatus'' v"

definition withResponseBody :: "string \<Rightarrow> 'o zap_field" where
  "withResponseBody v = ZString ''responseBody'' v"

definition withTopic :: "string \<Rightarrow> 'o zap_field" where
  "withTopic v = ZString ''topic'' v"

definition withAdditionalMessage :: "string \<Rightarrow> 'o zap_field" where
  "withAdditionalMessage v = ZString ''additionalMessage'' v"

definition withHostURL :: "string \<Rightarrow> 'o zap_field" where
  "withHostURL v = ZString ''hostURL'' v"

definition withToken :: "string \<Rightarrow> 'o zap_field" where
  "withToken v = ZString ''token'' v"

definition withTotalRequests :: "int \<Rightarrow> 'o zap_field" where
  "withTotalRequests v = ZInt ''totalRequests'' v"

definition withResponses :: "int \<Rightarrow> 'o zap_field" where
  "withResponses v = ZInt ''responses'' v"

definition withConcurrencyRequests :: "int \<Rightarrow> 'o zap_field" where
  "withConcurrencyRequests v = ZInt ''concurrencyRequests'' v"

definition withWorkers :: "int \<Rightarrow> 'o zap_field" where
  "withWorkers v = ZInt ''workers'' v"

definition withPath :: "string \<Rightarrow> 'o zap_field" where
  "withPath v = ZString ''path'' v"

definition withURL :: "string \<Rightarrow> 'o zap_field" where
  "withURL v = ZString ''url'' v"

definition withJSON :: "string \<Rightarrow> 'o zap_field" where
  "withJSON v = ZString ''json'' v"

definition withJSONResolution :: "string \<Rightarrow> 'o zap_field" where
  "withJSONResolution v = ZString ''jsonResolution'' v"

definition withSleep :: "int \<Rightarrow> 'o zap_field" where
  "withSleep v = ZDuration ''sleep'' v"

definition withDuration :: "int \<Rightarrow> 'o zap_field" where
  "withDuration v = ZDuration ''duration'' v"

definition withDockerComposeCmd :: "string \<Rightarrow> 'o zap_field" where
  "withDockerComposeCmd v = ZString ''dockerComposeCmd'' v"

definition withCertPoolSize :: "int \<Rightarrow> 'o zap_field" where
  "withCertPoolSize v = ZInt ''certPoolSize'' v"

definition withIDToken :: "string \<Rightarrow> 'o zap_field" where
  "withIDToken v = ZString ''idToken'' v"

definition withVPToken :: "string \<Rightarrow> 'o zap_field" where
  "withVPToken v = ZString ''vpToken'' v"

definition withTxID :: "string \<Rightarrow> 'o zap_field" where
  "withTxID v = ZString ''transactionID'' v"

definition withPresDefID :: "string \<Rightarrow> 'o zap_field" where
  "withPresDefID v = ZString ''presDefinitionID'' v"

definition withState :: "string \<Rightarrow> 'o zap_field" where
  "withState v = ZString ''state'' v"

definition withProfileID :: "string \<Rightarrow> 'o zap_field" where
  "withProfileID v = ZString ''profileID'' v"

definition withEvent :: "'o \<Rightarrow> 'o zap_field" where
  "withEvent event = ZInline (newObjectMarshaller ''event'' event)"

lemmas with_defs = withError_def withUserLogLevel_def withID_def withName_def withCommand_def
  withHTTPStatus_def withResponseBody_def withTopic_def withAdditionalMessage_def withHostURL_def withToken_def
  withTotalRequests_def withResponses_def withConcurrencyRequests_def withWorkers_def withPath_def withURL_def
  withJSON_def withJSONResolution_def withSleep_def withDuration_def withDockerComposeCmd_def
  withCertPoolSize_def withIDToken_def withVPToken_def withTxID_def withPresDefID_def withState_def
  withProfileID_def withEvent_def newObjectMarshaller_def

subsection \<open>Options and construction\<close>

definition DefaultEncoding :: string where
  "DefaultEncoding = ''console''"

record ('s, 'o) log_options =
  lo_encoding :: string
  lo_stdOut :: 's
  lo_stdErr :: 's
  lo_fields :: "'o zap_field list"

type_synonym ('s, 'o) log_option = "('s, 'o) log_options \<Rightarrow> ('s, 'o) log_options"

definition withStdOut :: "'s \<Rightarrow> ('s, 'o) log_option" where
  "withStdOut s os = os\<lparr>lo_stdOut := s\<rparr>"

definition withStdErr :: "'s \<Rightarrow> ('s, 'o) log_option" where
  "withStdErr s os = os\<lparr>lo_stdErr := s\<rparr>"

definition withFields :: "'o zap_field list \<Rightarrow> ('s, 'o) log_option" where
  "withFields fs os = os\<lparr>lo_fields := fs\<rparr>"

definition withEncoding :: "string \<Rightarrow> ('s, 'o) log_option" where
  "withEncoding e os = os\<lparr>lo_encoding := e\<rparr>"

definition getOptions :: "'s \<Rightarrow> 's \<Rightarrow> ('s, 'o) log_option list \<Rightarrow> ('s, 'o) log_options" where
  "getOptions osStdout osStderr opts =
     foldl (\<lambda>os opt. opt os)
       \<lparr>lo_encoding = DefaultEncoding, lo_stdOut = osStdout, lo_stdErr = osStderr, lo_fields = []\<rparr> opts"

record ('s, 'o) logger =
  lg_module :: string
  lg_encoding :: log_encoding
  lg_stdOut :: 's
  lg_stdErr :: 's
  lg_fields :: "'o zap_field list"

text \<open>\<open>newZap\<close> chooses the encoder first, which panics for an unknown encoding.\<close>

definition newLogger :: "'s \<Rightarrow> 's \<Rightarrow> string \<Rightarrow> ('s, 'o) log_option list \<Rightarrow> ('s, 'o) logger res" where
  "newLogger osStdout osStderr m opts =
     (let os = getOptions osStdout osStderr opts
      in bindR (newZapEncoder (lo_encoding os)) (\<lambda>enc.
           Ok \<lparr>lg_module = m, lg_encoding = enc, lg_stdOut = lo_stdOut os, lg_stdErr = lo_stdErr os,
               lg_fields = lo_fields os\<rparr>))"

text \<open>The methods that read and change the levels of the package.\<close>

definition logIsEnabled :: "module_levels \<Rightarrow> ('s, 'o) logger \<Rightarrow> int \<Rightarrow> bool" where
  "logIsEnabled ls l level = isEnabled ls (lg_module l) level"

definition newModuleLevels :: module_levels where
  "newModuleLevels = Map.empty"

text \<open>A message: what each core that is enabled writes. The context fields of the logger come before those of
  the message.\<close>

definition sink_of :: "('s, 'o) logger \<Rightarrow> log_output \<Rightarrow> 's" where
  "sink_of l out = (case out of StdOut \<Rightarrow> lg_stdOut l | StdErr \<Rightarrow> lg_stdErr l)"

definition log_message :: "module_levels \<Rightarrow> ('s, 'o) logger \<Rightarrow> int \<Rightarrow> string \<Rightarrow> 'o zap_field list \<Rightarrow> ('s \<times> string \<times> 'o zap_field list) list" where
  "log_message ls l level msg fs =
     map (\<lambda>out. (sink_of l out, msg, lg_fields l @ fs)) (log_cores ls (lg_module l) level)"

subsection \<open>Lemmas\<close>

fun zap_key :: "'o zap_field \<Rightarrow> string option" where
  "zap_key (ZString k _) = Some k"
| "zap_key (ZInt k _) = Some k"
| "zap_key (ZDuration k _) = Some k"
| "zap_key (ZError _) = Some ''error''"
| "zap_key ZSkip = None"
| "zap_key (ZInline m) = Some (om_key m)"

text \<open>No field takes the key of another field, of the error or of the entry's own columns.\<close>

lemma field_names_distinct:
  "distinct (''error'' # encoderKeys @ fieldNames)"
  by code_simp

text \<open>The constructors use exactly the listed names, each once.\<close>

lemma field_constructor_keys:
  "map zap_key
      [withUserLogLevel s, withID s, withName s, withCommand s, withHTTPStatus n, withResponseBody s, withTopic s,
       withAdditionalMessage s, withHostURL s, withToken s, withTotalRequests n, withResponses n,
       withConcurrencyRequests n, withWorkers n, withPath s, withURL s, withJSON s, withJSONResolution s, withSleep
       n, withDuration n, withDockerComposeCmd s, withCertPoolSize n, withIDToken s, withVPToken s, withTxID s,
       withPresDefID s, withState s, withProfileID s, withEvent ev]
     = map Some (filter (\<lambda>k. k \<noteq> ''event'') fieldNames @ [''event''])"
  by (simp add: with_defs fieldNames_def)

lemma newLogger_encoding:
  "newLogger o1 o2 m opts =
     (let os = getOptions o1 o2 opts
      in if to_lower (lo_encoding os) \<in> {''json'', ''console''}
         then Ok \<lparr>lg_module = m,
                  lg_encoding = (if to_lower (lo_encoding os) = ''json'' then JsonEncoding else ConsoleEncoding),
                  lg_stdOut = lo_stdOut os, lg_stdErr = lo_stdErr os, lg_fields = lo_fields os\<rparr>
         else Panic (LibraryPanic (''unsupported encoding '' @ lo_encoding os)))"
  by (simp add: newLogger_def newZapEncoder_def Let_def)

lemma getOptions_snoc [simp]: "getOptions o1 o2 (opts @ [opt]) = opt (getOptions o1 o2 opts)"
  by (simp add: getOptions_def)

text \<open>The last of several options of a kind wins: the fields of an earlier \<open>WithFields\<close> are replaced.\<close>

lemma withFields_replace: "withFields gs (withFields fs os) = withFields gs os"
  and withEncoding_replace: "withEncoding e (withEncoding d os) = withEncoding e os"
  by (simp_all add: withFields_def withEncoding_def)

lemma log_message_cases:
  "log_message ls l level msg fs =
     (if logIsEnabled ls l level
      then [(if ERROR \<le> level then lg_stdErr l else lg_stdOut l, msg, lg_fields l @ fs)] else [])"
  by (simp add: log_message_def logIsEnabled_def log_cores_one log_cores_none sink_of_def)

text \<open>A logger built with the standard options writes an enabled message exactly once, to the sink of its
  level; raising the level of another module changes nothing.\<close>

theorem logger_writes_once:
  assumes "newLogger o1 o2 m opts = Ok l"
  shows "log_message ls l level msg fs =
      (let os = getOptions o1 o2 opts
       in if getLevel ls m \<le> level
          then [(if ERROR \<le> level then lo_stdErr os else lo_stdOut os, msg, lo_fields os @ fs)] else [])
    \<and> (m' \<noteq> m \<and> m' \<noteq> [] \<longrightarrow> log_message (setLevel m' v ls) l level msg fs = log_message ls l level msg fs)"
proof -
  have l: "lg_module l = m" "lg_stdOut l = lo_stdOut (getOptions o1 o2 opts)"
      "lg_stdErr l = lo_stdErr (getOptions o1 o2 opts)" "lg_fields l = lo_fields (getOptions o1 o2 opts)"
    using assms by (auto simp: newLogger_encoding Let_def split: if_splits)
  have g: "getLevel (setLevel m' v ls) m = getLevel ls m" if "m' \<noteq> m" "m' \<noteq> []"
    using that by (auto simp: getLevel_def setLevel_def split: option.split)
  show ?thesis
    using g by (auto simp: log_message_cases logIsEnabled_def isEnabled_def l Let_def)
qed

theorem logger_writes_once_witness:
  "log_message Map.empty (\<lparr>lg_module = ''m'', lg_encoding = JsonEncoding, lg_stdOut = ''out'', lg_stdErr = ''err'',
       lg_fields = [withID ''x'']\<rparr> :: (string, unit) logger) ERROR ''failed'' [withTopic ''t'']
     = [(''err'', ''failed'', [withID ''x'', withTopic ''t''])]"
proof -
  let ?l = "\<lparr>lg_module = ''m'', lg_encoding = JsonEncoding, lg_stdOut = ''out'', lg_stdErr = ''err'',
       lg_fields = [withID ''x'']\<rparr> :: (string, unit) logger"
  let ?opts = "[withEncoding ''JSON'', withFields [withID ''x'']] :: (string, unit) log_option list"
  have os: "getOptions ''out'' ''err'' ?opts = \<lparr>lo_encoding = ''JSON'', lo_stdOut = ''out'', lo_stdErr = ''err'', lo_fields = [withID ''x'']\<rparr>"
    by (simp add: getOptions_def withEncoding_def withFields_def)
  have low: "to_lower ''JSON'' = ''json''" by code_simp
  have "newLogger ''out'' ''err'' ''m'' ?opts = Ok ?l"
    by (simp add: newLogger_encoding os low Let_def)
  from logger_writes_once [OF this, of Map.empty ERROR "''failed''" "[withTopic ''t'']"] show ?thesis
    by (simp add: os getLevel_def defaultLevel_def level_defs)
qed

end
