(* ===== verification/Metrics.thy ===== *)
theory Metrics
  imports Startup_Config Verifier_Controller
begin

text \<open>
  \<open>pkg/observability/metrics\<close> (the names, the noop and the prometheus provider) with the places that use it:
  the key signer (\<open>pkg/kms/signer/arieskms.go\<close>), the response check of the verifier controller and the end of
  \<open>buildEchoHandler\<close> (\<open>cmd/vc-rest/startcmd/start.go\<close>). Registering collectors with the prometheus library,
  listening and shutting down are parameters; an observation is a duration in nanoseconds read by \<open>sec\<close>, the
  model of \<open>Duration.Seconds\<close>.
\<close>

subsection \<open>Names and collectors\<close>

definition Namespace :: string where "Namespace = ''vcs''"
definition Crypto :: string where "Crypto = ''crypto''"
definition CryptoSignTimeMetric :: string where "CryptoSignTimeMetric = ''crypto_sign_seconds''"
definition Controller :: string where "Controller = ''controller''"
definition ControllerCheckAuthRespMetric :: string where
  "ControllerCheckAuthRespMetric = ''controller_checkAuthResponse_seconds''"
definition Service :: string where "Service = ''service''"
definition VerifyOIDCVP :: string where "VerifyOIDCVP = ''service_verifyOIDCVerifiablePresentation_seconds''"

lemmas metric_names = Namespace_def Crypto_def CryptoSignTimeMetric_def Controller_def
  ControllerCheckAuthRespMetric_def Service_def VerifyOIDCVP_def

datatype collector_kind = CounterKind | GaugeKind | HistogramKind

record 'f collector =
  co_kind :: collector_kind
  co_Namespace :: string
  co_Subsystem :: string
  co_Name :: string
  co_Help :: string
  co_ConstLabels :: "(string \<times> string) list"
  co_observed :: "'f list"

definition new_collector :: "collector_kind \<Rightarrow> string \<Rightarrow> string \<Rightarrow> string \<Rightarrow> (string \<times> string) list \<Rightarrow> 'f collector" where
  "new_collector k subsystem name help labels =
     \<lparr>co_kind = k, co_Namespace = Namespace, co_Subsystem = subsystem, co_Name = name, co_Help = help,
      co_ConstLabels = labels, co_observed = []\<rparr>"

definition newCounter :: "string \<Rightarrow> string \<Rightarrow> string \<Rightarrow> (string \<times> string) list \<Rightarrow> 'f collector" where
  "newCounter = new_collector CounterKind"

definition newGauge :: "string \<Rightarrow> string \<Rightarrow> string \<Rightarrow> (string \<times> string) list \<Rightarrow> 'f collector" where
  "newGauge = new_collector GaugeKind"

definition newHistogram :: "string \<Rightarrow> string \<Rightarrow> string \<Rightarrow> (string \<times> string) list \<Rightarrow> 'f collector" where
  "newHistogram = new_collector HistogramKind"

definition newSignTime :: "'f collector" where
  "newSignTime = newHistogram Crypto CryptoSignTimeMetric ''The time (in seconds) it takes to run crypto sign.'' []"

definition newCheckAuthRespTime :: "'f collector" where
  "newCheckAuthRespTime = newHistogram Controller ControllerCheckAuthRespMetric
     ''The time (in seconds) it takes to execute checkAuthorizationResponse controller endpoint call.'' []"

definition newVerifyOIDCVPTime :: "'f collector" where
  "newVerifyOIDCVPTime = newHistogram Service VerifyOIDCVP
     ''The time (in seconds) it takes to execute VerifyOIDCVerifiablePresentation service call.'' []"

definition observe :: "'f \<Rightarrow> 'f collector \<Rightarrow> 'f collector" where
  "observe v c = c\<lparr>co_observed := co_observed c @ [v]\<rparr>"

subsection \<open>The prometheus metrics\<close>

record 'f prom_metrics =
  pm_signTime :: "'f collector"
  pm_checkAuthRespTime :: "'f collector"
  pm_verifyOIDCVPTime :: "'f collector"

type_synonym ('f, 'r) registrar = "'f collector list \<Rightarrow> 'r \<Rightarrow> unit res \<times> 'r"

definition registerMetrics :: "('f, 'r) registrar \<Rightarrow> 'f prom_metrics \<Rightarrow> 'r \<Rightarrow> unit res \<times> 'r" where
  "registerMetrics mustRegister pm r =
     mustRegister [pm_signTime pm, pm_checkAuthRespTime pm, pm_verifyOIDCVPTime pm] r"

definition fresh_metrics :: "'f prom_metrics" where
  "fresh_metrics = \<lparr>pm_signTime = newSignTime, pm_checkAuthRespTime = newCheckAuthRespTime,
                    pm_verifyOIDCVPTime = newVerifyOIDCVPTime\<rparr>"

definition newPromMetrics :: "('f, 'r) registrar \<Rightarrow> 'r \<Rightarrow> 'f prom_metrics res \<times> 'r" where
  "newPromMetrics mustRegister r =
     andthen (registerMetrics mustRegister fresh_metrics r) (\<lambda>_ r. (Ok fresh_metrics, r))"

text \<open>\<open>GetMetrics\<close> with its package variables \<open>createOnce\<close> and \<open>instance\<close>: a panic of the first call still uses
  the \<open>sync.Once\<close> up. The result is the pointer in the variable, nil when there is none.\<close>

record ('f, 'r) metrics_vars =
  mv_createOnce :: bool
  mv_instance :: "'f prom_metrics option"
  mv_registry :: 'r

definition getMetrics :: "('f, 'r) registrar \<Rightarrow> ('f, 'r) metrics_vars \<Rightarrow> 'f prom_metrics option res \<times> ('f, 'r) metrics_vars" where
  "getMetrics mustRegister s =
     (if mv_createOnce s then (Ok (mv_instance s), s)
      else (case newPromMetrics mustRegister (mv_registry s) of
              (Ok pm, r) \<Rightarrow> (Ok (Some pm), s\<lparr>mv_createOnce := True, mv_instance := Some pm, mv_registry := r\<rparr>)
            | (Err e, r) \<Rightarrow> (Err e, s\<lparr>mv_createOnce := True, mv_registry := r\<rparr>)
            | (Panic p, r) \<Rightarrow> (Panic p, s\<lparr>mv_createOnce := True, mv_registry := r\<rparr>)))"

definition signTime :: "(int \<Rightarrow> 'f) \<Rightarrow> int \<Rightarrow> 'f prom_metrics \<Rightarrow> 'f prom_metrics" where
  "signTime sec d pm = pm\<lparr>pm_signTime := observe (sec d) (pm_signTime pm)\<rparr>"

definition checkAuthorizationResponseTime :: "(int \<Rightarrow> 'f) \<Rightarrow> int \<Rightarrow> 'f prom_metrics \<Rightarrow> 'f prom_metrics" where
  "checkAuthorizationResponseTime sec d pm = pm\<lparr>pm_signTime := observe (sec d) (pm_signTime pm)\<rparr>"

definition verifyOIDCVerifiablePresentationTime :: "(int \<Rightarrow> 'f) \<Rightarrow> int \<Rightarrow> 'f prom_metrics \<Rightarrow> 'f prom_metrics" where
  "verifyOIDCVerifiablePresentationTime sec d pm = pm\<lparr>pm_verifyOIDCVPTime := observe (sec d) (pm_verifyOIDCVPTime pm)\<rparr>"

text \<open>The interface \<open>Metrics\<close>: the methods of \<open>NoMetrics\<close> do nothing.\<close>

datatype metric_call =
    SignTime int
  | CheckAuthorizationResponseTime int
  | VerifyOIDCVerifiablePresentationTime int

fun call_metrics :: "metrics_kind \<Rightarrow> (int \<Rightarrow> 'f) \<Rightarrow> metric_call \<Rightarrow> 'f prom_metrics \<Rightarrow> 'f prom_metrics" where
  "call_metrics NoopMetrics sec m pm = pm"
| "call_metrics PrometheusMetrics sec (SignTime d) pm = signTime sec d pm"
| "call_metrics PrometheusMetrics sec (CheckAuthorizationResponseTime d) pm = checkAuthorizationResponseTime sec d pm"
| "call_metrics PrometheusMetrics sec (VerifyOIDCVerifiablePresentationTime d) pm =
     verifyOIDCVerifiablePresentationTime sec d pm"

subsection \<open>The provider\<close>

definition promCreate :: "('srv \<Rightarrow> 'w \<Rightarrow> unit res \<times> 'w) \<Rightarrow> 'srv option \<Rightarrow> 'w \<Rightarrow> unit res \<times> 'w" where
  "promCreate listenAndServe httpServer w =
     (if httpServer \<noteq> None then (Ok (), w)
      else wrapS ''start metrics HTTP server: ''
             (andthen (pure_op (deref httpServer) w) (\<lambda>hs w. listenAndServe hs w)))"

definition promDestroy :: "('srv \<Rightarrow> 'w \<Rightarrow> unit res \<times> 'w) \<Rightarrow> 'srv option \<Rightarrow> 'w \<Rightarrow> unit res \<times> 'w" where
  "promDestroy shutdown httpServer w = (case httpServer of Some hs \<Rightarrow> shutdown hs w | None \<Rightarrow> (Ok (), w))"

text \<open>The end of \<open>buildEchoHandler\<close>; the server of the provider is known by its address.\<close>

definition createMetricsProvider ::
  "(string \<Rightarrow> 'w \<Rightarrow> unit res \<times> 'w) \<Rightarrow> startup_params \<Rightarrow> 'w \<Rightarrow> unit res \<times> 'w" where
  "createMetricsProvider listenAndServe p w =
     andthen (pure_op (newMetricsProvider p) w) (\<lambda>mp w.
       (case mp of Some url \<Rightarrow> promCreate listenAndServe (Some url) w | None \<Rightarrow> (Ok (), w)))"

subsection \<open>The timed operations\<close>

text \<open>Both record the elapsed time in a deferred call, so on every return and on a panic too.\<close>

definition timedSign ::
  "metrics_kind \<Rightarrow> (int \<Rightarrow> 'f) \<Rightarrow> (string \<Rightarrow> 'h \<Rightarrow> string res) \<Rightarrow> (string list \<Rightarrow> 'h \<Rightarrow> string res) \<Rightarrow> 'h kms_signer
     \<Rightarrow> string \<Rightarrow> int \<Rightarrow> 'f prom_metrics \<Rightarrow> string res \<times> 'f prom_metrics" where
  "timedSign k sec sign sign_multi s data elapsed pm =
     (signData sign sign_multi s data, call_metrics k sec (SignTime elapsed) pm)"

definition timedCheckAuthorizationResponse ::
  "metrics_kind \<Rightarrow> (int \<Rightarrow> 'f) \<Rightarrow> ('pd, 'j, 'w) verifier_ctl \<Rightarrow> (string \<Rightarrow> string list) res \<Rightarrow> (nat \<Rightarrow> int) \<Rightarrow> int
     \<Rightarrow> 'w \<times> 'f prom_metrics \<Rightarrow> response res \<times> 'w \<times> 'f prom_metrics" where
  "timedCheckAuthorizationResponse k sec c form clock elapsed wm =
     (let (r, w) = checkAuthorizationResponse c form clock (fst wm)
      in (r, w, call_metrics k sec (CheckAuthorizationResponseTime elapsed) (snd wm)))"

text \<open>The calls of a running server: these two are the only ones in the program.\<close>

datatype served = Signed string int | Checked "(string \<Rightarrow> string list) res" "nat \<Rightarrow> int" int

fun elapsed_of :: "served \<Rightarrow> int" where
  "elapsed_of (Signed _ d) = d"
| "elapsed_of (Checked _ _ d) = d"

fun serve_one ::
  "metrics_kind \<Rightarrow> (int \<Rightarrow> 'f) \<Rightarrow> (string \<Rightarrow> 'h \<Rightarrow> string res) \<Rightarrow> (string list \<Rightarrow> 'h \<Rightarrow> string res) \<Rightarrow> 'h kms_signer
     \<Rightarrow> ('pd, 'j, 'w) verifier_ctl \<Rightarrow> served \<Rightarrow> 'w \<times> 'f prom_metrics \<Rightarrow> (string res + response res) \<times> 'w \<times> 'f prom_metrics" where
  "serve_one k sec sg multi s c (Signed data d) (w, pm) =
     (let (r, pm') = timedSign k sec sg multi s data d pm in (Inl r, w, pm'))"
| "serve_one k sec sg multi s c (Checked form clock d) (w, pm) =
     map_prod Inr id (timedCheckAuthorizationResponse k sec c form clock d (w, pm))"

fun serve_all ::
  "metrics_kind \<Rightarrow> (int \<Rightarrow> 'f) \<Rightarrow> (string \<Rightarrow> 'h \<Rightarrow> string res) \<Rightarrow> (string list \<Rightarrow> 'h \<Rightarrow> string res) \<Rightarrow> 'h kms_signer
     \<Rightarrow> ('pd, 'j, 'w) verifier_ctl \<Rightarrow> served list \<Rightarrow> 'w \<times> 'f prom_metrics
     \<Rightarrow> (string res + response res) list \<times> 'w \<times> 'f prom_metrics" where
  "serve_all k sec sg multi s c [] wm = ([], wm)"
| "serve_all k sec sg multi s c (ev # evs) wm =
     (let (r, wm1) = serve_one k sec sg multi s c ev wm; (rs, wm2) = serve_all k sec sg multi s c evs wm1
      in (r # rs, wm2))"

subsection \<open>Lemmas\<close>

lemma fresh_observed [simp]:
  "co_observed (pm_signTime fresh_metrics) = []" "co_observed (pm_checkAuthRespTime fresh_metrics) = []"
  "co_observed (pm_verifyOIDCVPTime fresh_metrics) = []"
  by (simp_all add: fresh_metrics_def newSignTime_def newCheckAuthRespTime_def newVerifyOIDCVPTime_def
      newHistogram_def new_collector_def)

lemma observe_observed [simp]: "co_observed (observe v c) = co_observed c @ [v]"
  by (simp add: observe_def)

lemma serve_Cons:
  "fst (serve_all k sec sg multi s c (ev # evs) wm) =
     fst (serve_one k sec sg multi s c ev wm) # fst (serve_all k sec sg multi s c evs (snd (serve_one k sec sg multi s c ev wm)))"
  "snd (serve_all k sec sg multi s c (ev # evs) wm) =
     snd (serve_all k sec sg multi s c evs (snd (serve_one k sec sg multi s c ev wm)))"
  by (simp_all add: split_def Let_def)

declare serve_all.simps(2) [simp del]

text \<open>Which metrics are on makes no difference to the results and to the state of the services.\<close>

lemma serve_one_results:
  "fst (serve_one k sec sg multi s c ev (w, pm)) = fst (serve_one k' sec' sg multi s c ev (w, pm'))"
  "fst (snd (serve_one k sec sg multi s c ev (w, pm))) = fst (snd (serve_one k' sec' sg multi s c ev (w, pm')))"
  by (cases ev; simp add: timedSign_def timedCheckAuthorizationResponse_def split_def Let_def)+

lemma serve_results:
  "fst wm = fst wm' \<Longrightarrow> fst (serve_all k sec sg multi s c evs wm) = fst (serve_all k' sec' sg multi s c evs wm')
   \<and> fst (snd (serve_all k sec sg multi s c evs wm)) = fst (snd (serve_all k' sec' sg multi s c evs wm'))"
proof (induction evs arbitrary: wm wm')
  case (Cons ev evs)
  obtain w pm pm' where wm: "wm = (w, pm)" "wm' = (w, pm')" using Cons.prems by (cases wm; cases wm') auto
  show ?case
    using Cons.IH [OF serve_one_results(2), of k sec sg multi s c ev w pm k' sec' pm']
      serve_one_results(1) [of k sec sg multi s c ev w pm k' sec' pm']
    by (simp add: serve_Cons wm)
qed simp

lemma serve_one_observed:
  "snd (snd (serve_one PrometheusMetrics sec sg multi s c ev wm)) = signTime sec (elapsed_of ev) (snd wm)"
  by (cases ev; cases wm)
    (simp_all add: timedSign_def timedCheckAuthorizationResponse_def signTime_def checkAuthorizationResponseTime_def
      split_def Let_def)

lemma serve_observed:
  "snd (snd (serve_all PrometheusMetrics sec sg multi s c evs wm)) = fold (\<lambda>ev. signTime sec (elapsed_of ev)) evs (snd wm)"
  by (induction evs arbitrary: wm) (simp_all add: serve_Cons serve_one_observed)

lemma fold_signTime:
  "fold (\<lambda>ev. signTime sec (elapsed_of ev)) evs pm =
     pm\<lparr>pm_signTime := (pm_signTime pm)\<lparr>co_observed := co_observed (pm_signTime pm) @ map (\<lambda>ev. sec (elapsed_of ev)) evs\<rparr>\<rparr>"
  by (induction evs arbitrary: pm) (simp_all add: signTime_def observe_def)

lemma getMetrics_again:
  "mv_createOnce s \<Longrightarrow> getMetrics reg s = (Ok (mv_instance s), s)"
  by (simp add: getMetrics_def)

lemma getMetrics_first:
  assumes "\<not> mv_createOnce s" "reg [newSignTime, newCheckAuthRespTime, newVerifyOIDCVPTime] (mv_registry s) = (Ok (), r)"
  shows "getMetrics reg s = (Ok (Some fresh_metrics), s\<lparr>mv_createOnce := True, mv_instance := Some fresh_metrics, mv_registry := r\<rparr>)"
  using assms by (simp add: getMetrics_def newPromMetrics_def registerMetrics_def fresh_metrics_def)

subsection \<open>Properties\<close>

text \<open>What the prometheus metrics of a running server show. Whatever it signs and whatever authorization
  responses it checks, every elapsed time goes to the signing histogram, in order; the histograms of the
  response check and of the presentation service never hold an observation. Results and services are those of
  a server without metrics.\<close>
theorem metrics_all_signing:
  "let (rs, w', pm) = serve_all PrometheusMetrics sec sg multi s c evs (w, fresh_metrics)
   in co_observed (pm_signTime pm) = map (\<lambda>ev. sec (elapsed_of ev)) evs
    \<and> pm_checkAuthRespTime pm = newCheckAuthRespTime \<and> pm_verifyOIDCVPTime pm = newVerifyOIDCVPTime
    \<and> (rs, w', pm0) = serve_all NoopMetrics sec sg multi s c evs (w, pm0)"
proof -
  let ?p = "serve_all PrometheusMetrics sec sg multi s c evs (w, fresh_metrics)"
  let ?n = "serve_all NoopMetrics sec sg multi s c evs (w, pm0)"
  have noop: "snd (snd (serve_all NoopMetrics sec sg multi s c evs wm)) = snd wm" for wm
  proof (induction evs arbitrary: wm)
    case (Cons ev evs)
    have "snd (snd (serve_one NoopMetrics sec sg multi s c ev wm)) = snd wm"
      by (cases ev; cases wm) (simp_all add: timedSign_def timedCheckAuthorizationResponse_def split_def Let_def)
    then show ?case using Cons by (simp add: serve_Cons)
  qed simp
  have "fst ?n = fst ?p \<and> fst (snd ?n) = fst (snd ?p)" by (rule serve_results) simp
  moreover have "snd (snd ?n) = pm0" using noop by simp
  ultimately have "?n = (fst ?p, fst (snd ?p), pm0)" by (metis prod.collapse)
  then show ?thesis
    by (simp add: split_def Let_def serve_observed fold_signTime) (simp add: fresh_metrics_def)
qed

text \<open>\<open>GetMetrics\<close> registers once. When the first registration succeeds, every call returns the one instance and
  no later call reaches the registry; when it panics, later calls return nil without a panic.\<close>
theorem metrics_created_once:
  assumes "\<not> mv_createOnce s"
  shows "case reg [newSignTime, newCheckAuthRespTime, newVerifyOIDCVPTime] (mv_registry s) of
      (Ok _, r) \<Rightarrow> \<exists>s'. getMetrics reg s = (Ok (Some fresh_metrics), s') \<and> mv_registry s' = r
         \<and> getMetrics reg' s' = (Ok (Some fresh_metrics), s')
    | (Panic p, r) \<Rightarrow> \<exists>s'. getMetrics reg s = (Panic p, s') \<and> getMetrics reg' s' = (Ok (mv_instance s), s')
    | (Err e, r) \<Rightarrow> True"
  using assms
  by (auto simp: getMetrics_def newPromMetrics_def registerMetrics_def fresh_metrics_def split: prod.splits res.splits)

theorem metrics_created_once_witness:
  "\<exists>s'. getMetrics (\<lambda>cs r. (Ok (), r + length cs)) \<lparr>mv_createOnce = False, mv_instance = (None :: int prom_metrics option), mv_registry = 0\<rparr>
        = (Ok (Some fresh_metrics), s') \<and> mv_registry s' = 3
      \<and> getMetrics (\<lambda>cs r. (Panic NilDereference, r)) s' = (Ok (Some fresh_metrics), s')"
  using metrics_created_once [of "\<lparr>mv_createOnce = False, mv_instance = (None :: int prom_metrics option), mv_registry = 0\<rparr>"
      "\<lambda>cs r. (Ok (), r + length cs)" "\<lambda>cs r. (Panic NilDereference, r)"]
  by (simp add: numeral_3_eq_3)

text \<open>The prometheus endpoint is never served. With parameters that the start command accepted, the end of
  \<open>buildEchoHandler\<close> succeeds and does nothing, for either provider: \<open>Create\<close> returns at once when it has a
  server; without one it would dereference nil.\<close>
theorem metrics_never_listen:
  assumes "getStartupParameters e = Ok p"
  shows "createMetricsProvider listenAndServe p w = (Ok (), w)
    \<and> promCreate listenAndServe None w = (Panic NilDereference, w)"
proof -
  have "\<exists>mp. newMetricsProvider p = Ok mp"
    using getStartupParameters_parts(7) [OF assms]
    by (cases "sp_prometheusUrl p") (auto simp: newMetricsProvider_def)
  then show ?thesis
    by (auto simp: createMetricsProvider_def promCreate_def wrapS_def pure_op_def split: option.split)
qed

theorem metrics_never_listen_witness:
  "\<exists>p. getStartupParameters (demo_cmd []) = Ok p \<and> newMetricsProvider p = Ok (Some ''localhost:48127'')
     \<and> createMetricsProvider (\<lambda>url w. (Ok (), w @ [url])) p [] = (Ok (), [])"
proof -
  obtain p where p: "getStartupParameters (demo_cmd []) = Ok p" "newMetricsProvider p = Ok (Some ''localhost:48127'')"
    using demo_startup by blast
  then show ?thesis
    using metrics_never_listen [OF p(1), of "\<lambda>url w. (Ok (), w @ [url])" "[]"] by blast
qed

end
