(* ===== verification/Public_Api.thy ===== *)
theory Public_Api
  imports Api_Dispatch Oidc4vc_Controller Did_Configuration
begin

text \<open>
  The rest of the server behind its routes: the health check (\<open>restapi/v1/healthcheck\<close>), the OAuth2 endpoints
  (\<open>restapi/v1/oidc4vc\<close>) and the developer API (\<open>restapi/v1/devapi\<close>) with the wrappers of their generated
  \<open>openapi.gen.go\<close> files, which bind query and path parameters, and the whole server as one dispatcher.
  Binding one parameter is a library call; what fosite and echo write for an OAuth2 reply is a parameter.
\<close>

subsection \<open>Query parameters\<close>

type_synonym query = "(string \<times> string list) list"

text \<open>\<open>runtime.BindQueryParameter\<close> in form style, for a required and for an optional parameter.\<close>

record query_binder =
  qb_required :: "string \<Rightarrow> query \<Rightarrow> string res"
  qb_optional :: "string \<Rightarrow> query \<Rightarrow> string option res"

definition badParam :: "string \<Rightarrow> 'a res \<Rightarrow> 'a res" where
  "badParam n r = mapErr (\<lambda>e. ErrEcho 400 (''Invalid format for parameter '' @ n @ '': '' @ err_text e) None) r"

record oidc_authorize_params =
  oq_ResponseType :: string
  oq_ClientId :: string
  oq_CodeChallenge :: string
  oq_CodeChallengeMethod :: "string option"
  oq_RedirectUri :: "string option"
  oq_Scope :: "string option"
  oq_State :: "string option"
  oq_AuthorizationDetails :: "string option"
  oq_WalletIssuer :: "string option"
  oq_UserHint :: "string option"
  oq_OpState :: string

definition bindAuthorizeParams :: "query_binder \<Rightarrow> query \<Rightarrow> oidc_authorize_params res" where
  "bindAuthorizeParams qb qs =
     (let req = (\<lambda>n. badParam n (qb_required qb n qs)); opt = (\<lambda>n. badParam n (qb_optional qb n qs))
      in bindR (req ''response_type'') (\<lambda>rt.
         bindR (req ''client_id'') (\<lambda>ci.
         bindR (req ''code_challenge'') (\<lambda>cc.
         bindR (opt ''code_challenge_method'') (\<lambda>cm.
         bindR (opt ''redirect_uri'') (\<lambda>ru.
         bindR (opt ''scope'') (\<lambda>sc.
         bindR (opt ''state'') (\<lambda>st.
         bindR (opt ''authorization_details'') (\<lambda>ad.
         bindR (opt ''wallet_issuer'') (\<lambda>wi.
         bindR (opt ''user_hint'') (\<lambda>uh.
         bindR (req ''op_state'') (\<lambda>os.
         Ok \<lparr>oq_ResponseType = rt, oq_ClientId = ci, oq_CodeChallenge = cc, oq_CodeChallengeMethod = cm, oq_RedirectUri = ru,
             oq_Scope = sc, oq_State = st, oq_AuthorizationDetails = ad, oq_WalletIssuer = wi, oq_UserHint = uh,
             oq_OpState = os\<rparr>))))))))))))"

definition bindRedirectParams :: "query_binder \<Rightarrow> query \<Rightarrow> redirect_params res" where
  "bindRedirectParams qb qs =
     bindR (badParam ''code'' (qb_required qb ''code'' qs)) (\<lambda>c.
     bindR (badParam ''state'' (qb_required qb ''state'' qs)) (\<lambda>s.
     Ok \<lparr>rp_Code = c, rp_State = s\<rparr>))"

text \<open>The members of the parameters that the handler reads.\<close>

definition read_params :: "oidc_authorize_params \<Rightarrow> authorize_params" where
  "read_params p = \<lparr>ap_OpState = oq_OpState p, ap_ResponseType = oq_ResponseType p\<rparr>"

subsection \<open>The wrappers\<close>

record public_data =
  pd_query :: query
  pd_par :: "par_request res"
  pd_now :: int

record health_check_response =
  hc_CurrentTime :: "int option"
  hc_Status :: string

definition getHealthcheck :: "(health_check_response \<Rightarrow> json res) \<Rightarrow> int \<Rightarrow> Rest_Api.http_request \<Rightarrow> 'w \<Rightarrow> response res \<times> 'w" where
  "getHealthcheck marshal now q w =
     (writeOutput marshal (Ok \<lparr>hc_CurrentTime = Some now, hc_Status = ''success''\<rparr>), w)"

definition w_GetHealthcheck :: "(health_check_response \<Rightarrow> json res) \<Rightarrow> public_data \<Rightarrow> 'w api_handler" where
  "w_GetHealthcheck marshal d pp q w = getHealthcheck marshal (pd_now d) q w"

text \<open>A reply of the OAuth2 handlers becomes what fosite or echo writes for it.\<close>

definition written :: "('r \<Rightarrow> response) \<Rightarrow> 'r res \<times> 'w \<Rightarrow> response res \<times> 'w" where
  "written render m = andthen m (\<lambda>r w. (Ok (render r), w))"

type_synonym ('ar, 'pr, 'q, 'tr) renderer = "('ar, 'pr, 'q, 'tr) oidc_reply \<Rightarrow> response"

definition w_OidcAuthorize ::
  "('ar, 'pr, 'q, 'tr) renderer \<Rightarrow> query_binder \<Rightarrow> ('ar, 'pr, 'q, 'tr, 'w) oidc_ctl \<Rightarrow> public_data \<Rightarrow> 'w api_handler" where
  "w_OidcAuthorize render qb oc d pp q w =
     andthen (pure_op (bindAuthorizeParams qb (pd_query d)) w) (\<lambda>params w.
     written render (oidcAuthorize oc (read_params params) q (pd_now d) w))"

definition w_OidcPushedAuthorizationRequest ::
  "('ar, 'pr, 'q, 'tr) renderer \<Rightarrow> ('ar, 'pr, 'q, 'tr, 'w) oidc_ctl \<Rightarrow> public_data \<Rightarrow> 'w api_handler" where
  "w_OidcPushedAuthorizationRequest render oc d pp q w =
     written render (oidcPushedAuthorizationRequest oc (pd_par d) q w)"

definition w_OidcRedirect ::
  "('ar, 'pr, 'q, 'tr) renderer \<Rightarrow> query_binder \<Rightarrow> ('ar, 'pr, 'q, 'tr, 'w) oidc_ctl \<Rightarrow> public_data \<Rightarrow> 'w api_handler" where
  "w_OidcRedirect render qb oc d pp q w =
     andthen (pure_op (bindRedirectParams qb (pd_query d)) w) (\<lambda>params w.
     written render (oidcRedirect oc params (pd_now d) w))"

definition w_OidcToken ::
  "('ar, 'pr, 'q, 'tr) renderer \<Rightarrow> ('ar, 'pr, 'q, 'tr, 'w) oidc_ctl \<Rightarrow> 'w api_handler" where
  "w_OidcToken render oc pp q w = written render (oidcToken oc q w)"

definition w_RequestObjectByUuid :: "param_decoder \<Rightarrow> 'w ro_service \<Rightarrow> 'w api_handler" where
  "w_RequestObjectByUuid bind rs pp q w = bindParam bind ''uuid'' pp (\<lambda>uuid. requestObjectByUuid rs uuid q) w"

definition w_DidConfig ::
  "param_decoder \<Rightarrow> ('pd, 'k) did_config_service \<Rightarrow> (did_configuration \<Rightarrow> json res) \<Rightarrow> public_data \<Rightarrow> 'w api_handler" where
  "w_DidConfig bind ds marshal d pp q w =
     bindParam bind ''profileType'' pp (\<lambda>profileType.
       bindParam bind ''profileID'' pp (\<lambda>profileID. devDidConfig ds marshal (pd_now d) profileType profileID q)) w"

subsection \<open>The whole server\<close>

definition oidc_api ::
  "('ar, 'pr, 'q, 'tr) renderer \<Rightarrow> query_binder \<Rightarrow> ('ar, 'pr, 'q, 'tr, 'w) oidc_ctl \<Rightarrow> public_data \<Rightarrow> (route \<times> 'w api_handler) list" where
  "oidc_api render qb oc d = zip oidc_routes
     [w_OidcAuthorize render qb oc d, w_OidcPushedAuthorizationRequest render oc d, w_OidcRedirect render qb oc d,
      w_OidcToken render oc]"

definition dev_api ::
  "param_decoder \<Rightarrow> 'w ro_service \<Rightarrow> ('pd, 'k) did_config_service \<Rightarrow> (did_configuration \<Rightarrow> json res) \<Rightarrow> public_data
     \<Rightarrow> (route \<times> 'w api_handler) list" where
  "dev_api bind rs ds marshal d = zip dev_routes [w_RequestObjectByUuid bind rs, w_DidConfig bind ds marshal d]"

definition healthcheck_api :: "(health_check_response \<Rightarrow> json res) \<Rightarrow> public_data \<Rightarrow> (route \<times> 'w api_handler) list" where
  "healthcheck_api marshal d = zip healthcheck_routes [w_GetHealthcheck marshal d]"

record ('k, 'pd, 'j, 'ar, 'pr, 'q, 'tr, 'w) controllers =
  ct_marshalHealth :: "health_check_response \<Rightarrow> json res"
  ct_marshalConfig :: "did_configuration \<Rightarrow> json res"
  ct_render :: "('ar, 'pr, 'q, 'tr) renderer"
  ct_param :: param_decoder
  ct_query :: query_binder
  ct_oidc :: "('ar, 'pr, 'q, 'tr, 'w) oidc_ctl"
  ct_issuer :: "('k, 'w) issuer_ctl"
  ct_verifier :: "('pd, 'j, 'w) verifier_ctl"
  ct_objects :: "'w ro_service"
  ct_dids :: "('pd, 'k) did_config_service"

text \<open>The registrations in the order of \<open>buildEchoHandler\<close>; those of the developer API are conditional.\<close>

definition server_api ::
  "('k, 'pd, 'j, 'ar, 'pr, 'q, 'tr, 'w) controllers \<Rightarrow> bool \<Rightarrow> public_data \<Rightarrow> request_data \<Rightarrow> (route \<times> 'w api_handler) list" where
  "server_api ct devMode d rd =
     healthcheck_api (ct_marshalHealth ct) d @ oidc_api (ct_render ct) (ct_query ct) (ct_oidc ct) d
     @ issuer_api (ct_param ct) (ct_issuer ct) rd @ verifier_api (ct_param ct) (ct_verifier ct) rd
     @ (if devMode then dev_api (ct_param ct) (ct_objects ct) (ct_dids ct) (ct_marshalConfig ct) d else [])"

subsection \<open>Lemmas\<close>

lemma server_api_routes:
  "map fst (server_api ct devMode d rd) =
     healthcheck_routes @ oidc_routes @ issuer_routes @ verifier_routes @ (if devMode then dev_routes else [])"
  by (simp add: server_api_def healthcheck_api_def oidc_api_def issuer_api_def verifier_api_def dev_api_def
      healthcheck_routes_def oidc_routes_def issuer_routes_def verifier_routes_def dev_routes_def)

lemma all_routes_distinct: "distinct all_routes"
  by code_simp

lemma server_api_ok:
  "distinct (map fst (server_api ct devMode d rd))" "fst ` set (server_api ct devMode d rd) \<subseteq> set all_routes"
proof -
  have "map fst (server_api ct devMode d rd) = take (length (map fst (server_api ct devMode d rd))) all_routes"
    by (simp add: server_api_routes all_routes_def)
  then show "distinct (map fst (server_api ct devMode d rd))" using all_routes_distinct by (metis distinct_take)
  have "set (map fst (server_api ct devMode d rd)) \<subseteq> set all_routes"
    unfolding server_api_routes all_routes_def by auto
  then show "fst ` set (server_api ct devMode d rd) \<subseteq> set all_routes" by simp
qed

lemma server_api_oidc:
  "((''GET'', [Lit ''oidc'', Lit ''authorize'']), w_OidcAuthorize (ct_render ct) (ct_query ct) (ct_oidc ct) d) \<in> set (server_api ct dm d rd)"
  "((''GET'', [Lit ''oidc'', Lit ''redirect'']), w_OidcRedirect (ct_render ct) (ct_query ct) (ct_oidc ct) d) \<in> set (server_api ct dm d rd)"
  "((''GET'', [Lit ''healthcheck'']), w_GetHealthcheck (ct_marshalHealth ct) d) \<in> set (server_api ct dm d rd)"
  by (simp_all add: server_api_def oidc_api_def oidc_routes_def healthcheck_api_def healthcheck_routes_def)

lemma unrouted:
  assumes "\<not> routed (map fst api) q"
  shows "dispatch api others q w = others q w"
proof -
  have "find (\<lambda>((m, ps), h). m = hq_Method q \<and> seg_matches ps (path_segments (hq_Path q))) api = None"
    using assms by (auto simp: routed_def find_None_iff list_ex_iff)
  then show ?thesis by (simp add: dispatch_def Let_def)
qed

text \<open>A parameter that does not bind ends the wrapper with 400.\<close>

definition binds_or_fails :: "query_binder \<Rightarrow> query \<Rightarrow> bool" where
  "binds_or_fails qb qs \<longleftrightarrow> (\<forall>n x. qb_required qb n qs \<noteq> Panic x \<and> qb_optional qb n qs \<noteq> Panic x)"

definition bad_request :: "go_error \<Rightarrow> bool" where
  "bad_request e \<longleftrightarrow> (\<exists>m. e = ErrEcho 400 m None)"

definition bad_result :: "'a res \<Rightarrow> bool" where
  "bad_result r \<longleftrightarrow> (\<exists>e. r = Err e \<and> bad_request e)"

lemma bind_bad:
  assumes "\<And>p. r \<noteq> Panic p" "\<And>v. r = Ok v \<Longrightarrow> bad_result (k v)"
  shows "bad_result (bindR (badParam n r) k)"
  using assms by (cases r) (auto simp: badParam_def bad_result_def bad_request_def)

lemma authorize_params_bad:
  assumes "binds_or_fails qb qs" "n \<in> {''response_type'', ''client_id'', ''code_challenge'', ''op_state''}"
    "qb_required qb n qs = Err e"
  shows "bad_result (bindAuthorizeParams qb qs)"
  unfolding bindAuthorizeParams_def Let_def
  using assms by (intro bind_bad) (auto simp: binds_or_fails_def)

lemma bind_ok_or_bad:
  assumes "\<And>p. r \<noteq> Panic p" "\<And>v. is_ok (k v) \<or> bad_result (k v)"
  shows "is_ok (bindR (badParam n r) k) \<or> bad_result (bindR (badParam n r) k)"
  using assms by (cases r) (auto simp: badParam_def bad_result_def bad_request_def)

lemma params_ok_or_bad:
  assumes "binds_or_fails qb qs"
  shows "is_ok (bindAuthorizeParams qb qs) \<or> bad_result (bindAuthorizeParams qb qs)"
    and "is_ok (bindRedirectParams qb qs) \<or> bad_result (bindRedirectParams qb qs)"
  unfolding bindAuthorizeParams_def bindRedirectParams_def Let_def
  using assms by (intro bind_ok_or_bad; simp add: binds_or_fails_def)+

lemma handled_bad:
  assumes "bad_result r" "hq_Method q = ''GET''"
  shows "\<exists>b. handled q (andthen (pure_op r w) k) = (Response 400 (Some b), w)"
  using assms by (auto simp: bad_result_def bad_request_def pure_op_def handled_def httpErrorHandler_def sendResponse_def)

text \<open>The paths of these endpoints need no API key.\<close>

lemma serve_public:
  assumes "no_slash xs" "hq_Path q = path_of xs" "(m, ps) \<in> set public_routes" "(m, ps) \<in> set all_routes" "seg_matches ps xs"
  shows "serve token h q w = handled q (h q w)"
proof -
  have "publicPath (hq_Path q)"
    using publicPath_segments [OF assms(1)] public_route_segments [OF assms(4,5)] assms(2,3) by simp
  then show ?thesis by (simp add: serve_def apiKeyAuth_def)
qed

lemma serve_public_route:
  assumes "no_slash xs" "hq_Path q = path_of xs" "((hq_Method q, ps), h) \<in> set (server_api ct dm d rd)"
    "(hq_Method q, ps) \<in> set public_routes" "seg_matches ps xs"
  shows "serve token (dispatch (server_api ct dm d rd) others) q w = handled q (h (params_of ps xs) q w)"
proof -
  have "(hq_Method q, ps) \<in> set all_routes" using server_api_ok(2) assms(3) by force
  then show ?thesis
    by (simp add: serve_public [OF assms(1,2,4) _ assms(5)] dispatch_matched [OF assms(3) server_api_ok assms(5,2,1)])
qed

subsection \<open>Properties\<close>

text \<open>Every route of the built server is answered by the handler registered for it, and nothing else is: the
  dispatcher over the controllers serves exactly the routes of the server; a request whose method and path
  match one of them reaches that one handler with the parameters of the path, whatever else is registered,
  and any other request goes to the router's own answer.\<close>
theorem server_routes_answered:
  assumes "buildEchoHandler b p w0 = (Ok sv, w1)"
  shows "map fst (server_api ct (sp_devMode p) d rd) = sv_routes sv
    \<and> (\<forall>((m, ps), h) \<in> set (server_api ct (sp_devMode p) d rd). \<forall>xs q. m = hq_Method q \<and> seg_matches ps xs \<and> no_slash xs
         \<and> hq_Path q = path_of xs \<longrightarrow> dispatch (server_api ct (sp_devMode p) d rd) others q w = h (params_of ps xs) q w)
    \<and> (\<not> routed (sv_routes sv) q \<longrightarrow> dispatch (server_api ct (sp_devMode p) d rd) others q w = others q w)"
proof -
  have r: "map fst (server_api ct (sp_devMode p) d rd) = sv_routes sv"
    by (simp add: server_api_routes buildEchoHandler_Ok(2) [OF assms])
  then show ?thesis
    using unrouted [of "server_api ct (sp_devMode p) d rd" q others w]
    by (auto intro!: dispatch_matched [OF _ server_api_ok])
qed

text \<open>The endpoints a browser calls check their parameters first. Whatever the headers and the API key of the
  server, a GET of \<open>/oidc/authorize\<close> or \<open>/oidc/redirect\<close> in which a required parameter does not bind is
  answered 400 and changes nothing; when all bind, the handler gets exactly the bound values.\<close>
theorem public_parameters_checked:
  assumes "hq_Method q = ''GET''" "binds_or_fails (ct_query ct) (pd_query d)"
  shows "(hq_Path q = ''/oidc/authorize'' \<longrightarrow>
      (case bindAuthorizeParams (ct_query ct) (pd_query d) of
         Ok prm \<Rightarrow> serve token (dispatch (server_api ct dm d rd) others) q w
           = handled q (written (ct_render ct) (oidcAuthorize (ct_oidc ct) (read_params prm) q (pd_now d) w))
       | _ \<Rightarrow> \<exists>m. serve token (dispatch (server_api ct dm d rd) others) q w = (Response 400 (Some m), w)))
    \<and> (hq_Path q = ''/oidc/redirect'' \<longrightarrow>
      (case bindRedirectParams (ct_query ct) (pd_query d) of
         Ok prm \<Rightarrow> serve token (dispatch (server_api ct dm d rd) others) q w
           = handled q (written (ct_render ct) (oidcRedirect (ct_oidc ct) prm (pd_now d) w))
       | _ \<Rightarrow> \<exists>m. serve token (dispatch (server_api ct dm d rd) others) q w = (Response 400 (Some m), w)))
    \<and> (\<forall>n \<in> {''response_type'', ''client_id'', ''code_challenge'', ''op_state''}. \<not> is_ok (qb_required (ct_query ct) n (pd_query d)) \<longrightarrow>
         \<not> is_ok (bindAuthorizeParams (ct_query ct) (pd_query d)))"
proof (intro conjI impI ballI)
  note S = serve_public_route [where token = token and others = others and w = w]
  note R = public_routes_def assms(1) seg_matches.simps
  assume p: "hq_Path q = ''/oidc/authorize''"
  have "serve token (dispatch (server_api ct dm d rd) others) q w
      = handled q (w_OidcAuthorize (ct_render ct) (ct_query ct) (ct_oidc ct) d [] q w)"
    using S [of "[''oidc'', ''authorize'']" q "[Lit ''oidc'', Lit ''authorize'']", OF _ _ server_api_oidc(1) [folded assms(1)]] p
    by (simp add: R)
  then show "case bindAuthorizeParams (ct_query ct) (pd_query d) of
         Ok prm \<Rightarrow> serve token (dispatch (server_api ct dm d rd) others) q w
           = handled q (written (ct_render ct) (oidcAuthorize (ct_oidc ct) (read_params prm) q (pd_now d) w))
       | _ \<Rightarrow> \<exists>m. serve token (dispatch (server_api ct dm d rd) others) q w = (Response 400 (Some m), w)"
    using params_ok_or_bad(1) [OF assms(2)] handled_bad [OF _ assms(1)]
    by (cases "bindAuthorizeParams (ct_query ct) (pd_query d)") (simp_all add: w_OidcAuthorize_def)
next
  note S = serve_public_route [where token = token and others = others and w = w]
  note R = public_routes_def assms(1) seg_matches.simps
  assume p: "hq_Path q = ''/oidc/redirect''"
  have "serve token (dispatch (server_api ct dm d rd) others) q w
      = handled q (w_OidcRedirect (ct_render ct) (ct_query ct) (ct_oidc ct) d [] q w)"
    using S [of "[''oidc'', ''redirect'']" q "[Lit ''oidc'', Lit ''redirect'']", OF _ _ server_api_oidc(2) [folded assms(1)]] p
    by (simp add: R)
  then show "case bindRedirectParams (ct_query ct) (pd_query d) of
         Ok prm \<Rightarrow> serve token (dispatch (server_api ct dm d rd) others) q w
           = handled q (written (ct_render ct) (oidcRedirect (ct_oidc ct) prm (pd_now d) w))
       | _ \<Rightarrow> \<exists>m. serve token (dispatch (server_api ct dm d rd) others) q w = (Response 400 (Some m), w)"
    using params_ok_or_bad(2) [OF assms(2)] handled_bad [OF _ assms(1)]
    by (cases "bindRedirectParams (ct_query ct) (pd_query d)") (simp_all add: w_OidcRedirect_def)
next
  fix n
  assume n: "n \<in> {''response_type'', ''client_id'', ''code_challenge'', ''op_state''}" "\<not> is_ok (qb_required (ct_query ct) n (pd_query d))"
  then obtain e where "qb_required (ct_query ct) n (pd_query d) = Err e"
    using assms(2) by (cases "qb_required (ct_query ct) n (pd_query d)") (auto simp: binds_or_fails_def)
  then show "\<not> is_ok (bindAuthorizeParams (ct_query ct) (pd_query d))"
    using authorize_params_bad [OF assms(2) n(1)] by (auto simp: bad_result_def)
qed

text \<open>The health check answers 200 whatever the headers.\<close>

lemma healthcheck_answers:
  assumes "hq_Method q = ''GET''" "hq_Path q = ''/healthcheck''" "ct_marshalHealth ct \<lparr>hc_CurrentTime = Some (pd_now d), hc_Status = ''success''\<rparr> = Ok j"
  shows "serve token (dispatch (server_api ct dm d rd) others) q w = (Response 200 (Some j), w)"
proof -
  have "serve token (dispatch (server_api ct dm d rd) others) q w = handled q (w_GetHealthcheck (ct_marshalHealth ct) d [] q w)"
    using serve_public_route [where token = token and others = others and w = w, of "[''healthcheck'']" q "[Lit ''healthcheck'']",
        OF _ _ server_api_oidc(3) [folded assms(1)]] assms(1,2)
    by (simp add: public_routes_def)
  then show ?thesis by (simp add: w_GetHealthcheck_def getHealthcheck_def writeOutput_def handled_def assms(3))
qed

subsection \<open>A server with all its controllers\<close>

definition demo_binder :: query_binder where
  "demo_binder =
     \<lparr>qb_required = (\<lambda>n qs. case map_of qs n of Some (v # _) \<Rightarrow> Ok v | _ \<Rightarrow> Err (ErrExt (''query parameter '' @ n @ '' is required''))),
      qb_optional = (\<lambda>n qs. case map_of qs n of Some (v # _) \<Rightarrow> Ok (Some v) | _ \<Rightarrow> Ok None)\<rparr>"

definition demo_controllers :: "(string, string, string, string, unit, unit, unit, nat) controllers" where
  "demo_controllers =
     \<lparr>ct_marshalHealth = (\<lambda>h. Ok (JStr (hc_Status h))), ct_marshalConfig = (\<lambda>_. Ok JNull),
      ct_render = (\<lambda>r. case r of SeeOther url \<Rightarrow> (303, Some (JStr url)) | _ \<Rightarrow> (200, None)), ct_param = (\<lambda>_ v. Ok v),
      ct_query = demo_binder,
      ct_oidc = demo_oidc (\<lambda>_ _ _ _ n. (Ok (), Suc n)) (\<lambda>_ _ n. (Err (ErrExt ''none''), n)) (\<lambda>_ n. (Ok (200, None), n)),
      ct_issuer = demo_ctl, ct_verifier = quiet_vctl,
      ct_objects = \<lparr>rs_create = (\<lambda>r n. (Ok r, Suc n)), rs_find = (\<lambda>_ n. (Err ro_ErrDataNotFound, n)), rs_delete = (\<lambda>_ n. (Ok (), n)),
        rs_send = (\<lambda>_ _ n. (Ok (), n)), rs_joinPath = (\<lambda>_ _. Ok []), rs_selfURI = []\<rparr>,
      ct_dids = \<lparr>ds_verifierProfile = (\<lambda>_. Ok None), ds_issuerProfile = (\<lambda>_. Ok None), ds_signCredential = (\<lambda>_ vc. Ok vc),
        ds_keyManager = (\<lambda>_. Ok (sg_KMS demo_signer)), ds_addYear = (\<lambda>t. t)\<rparr>\<rparr>"

definition get_request :: "string \<Rightarrow> Rest_Api.http_request" where
  "get_request path = \<lparr>hq_Method = ''GET'', hq_Path = path, hq_Header = (\<lambda>_. [])\<rparr>"

definition demo_public :: "query \<Rightarrow> public_data" where
  "demo_public qs = \<lparr>pd_query = qs, pd_par = Err (ErrExt ''EOF''), pd_now = 0\<rparr>"

definition not_found :: "Rest_Api.http_request \<Rightarrow> nat \<Rightarrow> response res \<times> nat" where
  "not_found q n = (Err (ErrEcho 404 ''Not Found'' None), n)"

lemma demo_binds: "binds_or_fails demo_binder qs"
  by (auto simp: binds_or_fails_def demo_binder_def split: option.split list.split)

theorem public_parameters_checked_witness:
  "\<exists>m. serve ''secret'' (dispatch (server_api demo_controllers True (demo_public [(''response_type'', [''code''])]) demo_bodies) not_found)
     (get_request ''/oidc/authorize'') 3 = (Response 400 (Some m), 3)"
proof -
  let ?d = "demo_public [(''response_type'', [''code''])]"
  have q: "hq_Method (get_request p) = ''GET''" "hq_Path (get_request p) = p" for p by (simp_all add: get_request_def)
  have b: "binds_or_fails (ct_query demo_controllers) (pd_query ?d)" by (simp add: demo_controllers_def demo_binds)
  have m: "\<not> is_ok (qb_required (ct_query demo_controllers) ''client_id'' (pd_query ?d))"
    by (simp add: demo_controllers_def demo_binder_def demo_public_def)
  note T = public_parameters_checked [OF q(1) [of "''/oidc/authorize''"] b, where token = "''secret''" and dm = True and rd = demo_bodies
      and others = not_found and w = 3, unfolded q(2)]
  have "\<not> is_ok (bindAuthorizeParams (ct_query demo_controllers) (pd_query ?d))" using T m by blast
  then show ?thesis using T by (cases "bindAuthorizeParams (ct_query demo_controllers) (pd_query ?d)") auto
qed

theorem server_routes_answered_witness:
  "\<exists>sv. buildEchoHandler demo_build demo_params 0 = (Ok sv, 4)
     \<and> map fst (server_api demo_controllers True (demo_public []) demo_bodies) = sv_routes sv
     \<and> dispatch (server_api demo_controllers True (demo_public []) demo_bodies) not_found (get_request ''/healthcheck'') 3
       = w_GetHealthcheck (ct_marshalHealth demo_controllers) (demo_public []) [] (get_request ''/healthcheck'') 3"
proof -
  obtain sv where sv: "buildEchoHandler demo_build demo_params 0 = (Ok sv, 4)" using demo_built by blast
  have dm: "sp_devMode demo_params = True" by (simp add: demo_params_def)
  note T = server_routes_answered [OF sv, where ct = demo_controllers and d = "demo_public []" and rd = demo_bodies and others = not_found
      and w = 3, unfolded dm]
  have q: "hq_Method (get_request p) = ''GET''" "hq_Path (get_request p) = p" for p by (simp_all add: get_request_def)
  have "dispatch (server_api demo_controllers True (demo_public []) demo_bodies) not_found (get_request ''/healthcheck'') 3
       = w_GetHealthcheck (ct_marshalHealth demo_controllers) (demo_public []) (params_of [Lit ''healthcheck''] [''healthcheck'']) (get_request ''/healthcheck'') 3"
    using bspec [OF T [THEN conjunct2, THEN conjunct1] server_api_oidc(3), unfolded split_conv, rule_format,
        of "get_request ''/healthcheck''" "[''healthcheck'']"]
    by (simp add: q)
  then show ?thesis using sv T by (intro exI [of _ sv]) simp
qed

end
