(* ===== verification/Issued_Format.thy ===== *)
theory Issued_Format
  imports Issuer_Controller
begin

text \<open>
  The format of a credential from the request to the response of the issuer's API: \<open>ValidateFormat\<close>, the profile's
  configuration, \<open>SignCredential\<close> and the marshalling of the result agree on one type of document, a JWT string
  or a JSON-LD object. The assumptions are what the Aries library documents: parsing JSON-LD leaves the JWT member
  empty, adding a proof keeps it, a marshalled JWS is not empty, and a credential is marshalled as its JWT when
  it has one and as an object otherwise.
\<close>

subsection \<open>Documents by format\<close>

text \<open>The documents that belong to a format.\<close>

definition document_of :: "string \<Rightarrow> json \<Rightarrow> bool" where
  "document_of format j \<longleftrightarrow> (if format = Jwt then \<exists>s. j = JStr s else if format = Ldp then \<exists>fs. j = JObj fs else False)"

definition parse_plain :: "(vc_bytes \<Rightarrow> credential res) \<Rightarrow> bool" where
  "parse_plain parse \<longleftrightarrow> (\<forall>j c. parse (JsonBytes j) = Ok c \<longrightarrow> cr_JWT c = [])"

definition lib_forms :: "('k, 'c, 'a, 'z) crypto_lib_scheme \<Rightarrow> bool" where
  "lib_forms lib \<longleftrightarrow> (\<forall>ctx vc vc'. cl_addLDP lib ctx vc = Ok vc' \<longrightarrow> cr_JWT vc' = cr_JWT vc)
     \<and> (\<forall>cs a s m. cl_marshalJWS lib cs a s m \<noteq> Ok [])"

definition marshals_forms :: "(credential \<Rightarrow> json res) \<Rightarrow> bool" where
  "marshals_forms marshal \<longleftrightarrow>
     (\<forall>c j. marshal c = Ok j \<longrightarrow> (if cr_JWT c \<noteq> [] then j = JStr (cr_JWT c) else (\<exists>fs. j = JObj fs)))"

subsection \<open>Lemmas\<close>

lemma formats_differ [simp]: "Jwt \<noteq> Ldp" "Ldp \<noteq> Jwt"
  by (simp_all add: Jwt_def Ldp_def)

text \<open>\<open>ValidateFormat\<close> accepts a value exactly for the format it is a document of.\<close>

lemma validateFormat_Ok:
  "validateFormat marshal data formats = Ok b \<longleftrightarrow>
     (case data of JStr s \<Rightarrow> Jwt \<in> set formats \<and> b = JwtBytes s
      | _ \<Rightarrow> Ldp \<in> set formats \<and> (\<exists>j. marshal data = Ok j \<and> b = JsonBytes j))"
  by (cases data) (auto simp: validateFormat_def isFormatSupported_def list_ex_iff)

lemma document_accepted:
  assumes "document_of format j" "\<And>x. is_ok (marshal x)"
  shows "is_ok (validateFormat marshal j formats) \<longleftrightarrow> format \<in> set formats"
proof -
  have m: "\<exists>y. marshal x = Ok y" for x using assms(2) [of x] by (cases "marshal x") auto
  show ?thesis
    using assms(1) m
    by (auto simp: document_of_def validateFormat_def isFormatSupported_def list_ex_iff split: if_splits)
      (metis bindR.simps(1) is_ok.simps(1) wrapR.simps(1))+
qed

lemma validateCredential_Ok:
  "validateCredential marshal parse cred formats = Ok c \<longleftrightarrow> (\<exists>b. validateFormat marshal cred formats = Ok b \<and> parse b = Ok c)"
  by (simp add: validateCredential_def)

lemma sign_form:
  assumes "signCredential lib signer vc os = Ok vc'" "lib_forms lib"
  shows "sg_Format signer = Jwt \<and> cr_JWT vc' \<noteq> [] \<or> sg_Format signer = Ldp \<and> cr_JWT vc' = cr_JWT vc"
  using signed_with_authorised_key [OF assms(1)] assms(2) by (auto simp: lib_forms_def)

lemma issue_form:
  assumes "issueCredential sv vc os p now uuid w = (Ok vc', w')" "se_sign sv = signCredential lib" "lib_forms lib"
  shows "\<exists>vcf. pi_VCConfig p = Some vcf \<and> (vcf_Format vcf = Jwt \<and> cr_JWT vc' \<noteq> [] \<or> vcf_Format vcf = Ldp \<and> cr_JWT vc' = cr_JWT vc)"
proof -
  obtain km signer url status w1 where a: "profile_signer p km = Ok signer"
    "signCredential lib signer (prepared p signer status vc) os = Ok vc'"
    using issueCredential_Ok [OF assms(1)] assms(2) by metis
  show ?thesis
    using sign_form [OF a(2) assms(3)] a(1) by (auto simp: profile_signer_def)
qed

text \<open>What a successful request of the issuing endpoint took and gave.\<close>

lemma issued_document:
  assumes "postIssueCredentials c body pid q w = (Ok (status, j), w')"
    and "ic_issue c = (\<lambda>vc os p w. issueCredential sv vc os p (now w) (uuid w) w)" "se_sign sv = signCredential lib"
    and "lib_forms lib" "parse_plain (ic_parse c)" "marshals_forms (ic_marshalVC c)"
  obtains b p vcf out where "body = Ok b" "ic_getProfile c pid = Ok (Some p)" "pi_VCConfig p = Some vcf" "status = 200" "j = Some out"
    "vcf_Format vcf = Jwt \<longleftrightarrow> (\<exists>s. ib_Credential b = JStr s)" "document_of (vcf_Format vcf) out"
proof -
  obtain b vc w1 out where b: "status = 200" "body = Ok b" "issueCredentialReq c q b pid w = (Ok vc, w1)" "ic_marshalVC c vc = Ok out" "j = Some out"
    using assms(1) by (auto simp: postIssueCredentials_def readBody_def writeOutput_def andthen_eq_Ok)
  obtain p vcf vc0 os where p: "ownProfile c q pid = Ok p" "pi_VCConfig p = Some vcf"
    "validateCredential (ic_marshal c) (ic_parse c) (ib_Credential b) [vcf_Format vcf] = Ok vc0"
    "ic_issue c vc0 os p w = (Ok vc, w1)"
    using b(3) by (auto simp: issueCredentialReq_def andthen_eq_Ok)
  note I = issue_form [OF p(4) [unfolded assms(2)] assms(3,4)]
  have form: "vcf_Format vcf = Jwt \<and> cr_JWT vc \<noteq> [] \<or> vcf_Format vcf = Ldp \<and> cr_JWT vc = cr_JWT vc0" using I p(2) by auto
  obtain bytes where f: "validateFormat (ic_marshal c) (ib_Credential b) [vcf_Format vcf] = Ok bytes" "ic_parse c bytes = Ok vc0"
    using p(3) by (auto simp: validateCredential_Ok)
  have str: "vcf_Format vcf = Jwt \<longleftrightarrow> (\<exists>s. ib_Credential b = JStr s)"
    using f(1) form by (auto simp: validateFormat_Ok split: json.splits)
  have plain: "cr_JWT vc0 = []" if "vcf_Format vcf = Ldp"
    using f that assms(5) by (auto simp: validateFormat_Ok parse_plain_def split: json.splits)
  have m: "if cr_JWT vc \<noteq> [] then out = JStr (cr_JWT vc) else \<exists>fs. out = JObj fs"
    using assms(6) b(4) unfolding marshals_forms_def by blast
  have d: "document_of (vcf_Format vcf) out"
    using form
  proof
    assume "vcf_Format vcf = Jwt \<and> cr_JWT vc \<noteq> []"
    then show ?thesis using m by (simp add: document_of_def)
  next
    assume "vcf_Format vcf = Ldp \<and> cr_JWT vc = cr_JWT vc0"
    then show ?thesis using m plain by (simp add: document_of_def)
  qed
  show thesis
    using that b(1,2,5) p(2) str d ownProfile_Ok [OF p(1), THEN conjunct1] by blast
qed

subsection \<open>Properties\<close>


definition typed_service :: "(string, nat) issue_service" where
  "typed_service = \<lparr>se_keyManager = (\<lambda>_. Ok (sg_KMS demo_signer)), se_statusURL = (\<lambda>u _ _. Ok u),
     se_createStatusID = (\<lambda>_ u _ i n. (Ok \<lparr>ti_ID = i, ti_Type = ''StatusList2021Entry'', ti_Custom = []\<rparr>, Suc n)),
     se_sign = signCredential demo_lib, se_put = (\<lambda>_ _ n. (Ok (), Suc n))\<rparr>"

definition typed_ctl :: "(string, nat) issuer_ctl" where
  "typed_ctl = demo_ctl\<lparr>ic_getProfile := getProfile [''i1'' \<mapsto> rq_Profile demo_request],
     ic_parse := (\<lambda>b. case b of JwtBytes s \<Rightarrow> Ok (empty_credential\<lparr>cr_ID := ''c'', cr_JWT := s\<rparr>) | JsonBytes j \<Rightarrow> Ok empty_credential),
     ic_marshalVC := (\<lambda>c. Ok (if cr_JWT c \<noteq> [] then JStr (cr_JWT c) else JObj [])),
     ic_issue := (\<lambda>vc os p n. issueCredential typed_service vc os p 0 ''urn:uuid:1'' n)\<rparr>"

lemma demo_sign_any:
  "signCredential demo_lib demo_signer vc [] = Ok (vc\<lparr>cr_JWT := cr_ID vc @ ''.did:a#k''\<rparr>)"
  by (simp add: signCredential_def signCredentialJWT_def demo_lib_def demo_signer_def demo_doc_def apply_opts_def
      no_opts_def getSigner_def getDIDDocFromVerificationMethod_def getDIDFromVerificationMethod_def
      validateProofPurpose_def did_key_prefix Let_def)

lemma typed_laws:
  "lib_forms demo_lib" "parse_plain (ic_parse typed_ctl)" "marshals_forms (ic_marshalVC typed_ctl)"
  "se_sign typed_service = signCredential demo_lib"
  "ic_issue typed_ctl = (\<lambda>vc os p w. issueCredential typed_service vc os p ((\<lambda>_. 0) w) ((\<lambda>_. ''urn:uuid:1'') w) w)"
  by (simp_all add: lib_forms_def parse_plain_def marshals_forms_def typed_service_def typed_ctl_def demo_lib_def empty_credential_def)

lemma typed_issued:
  "postIssueCredentials typed_ctl (Ok \<lparr>ib_Credential = JStr ''unsigned'', ib_Options = None\<rparr>) ''i1'' (from_org ''org'') 5
     = (Ok (200, Some (JStr ''c.did:a#k'')), 7)"
proof -
  let ?b = "\<lparr>ib_Credential = JStr ''unsigned'', ib_Options = None\<rparr>"
  have o: "ownProfile typed_ctl (from_org ''org'') ''i1'' = Ok (rq_Profile demo_request)"
    by (simp add: ownProfile_def getOrgIDFromOIDC_def from_org_def accessOIDCProfile_def accessProfile_def typed_ctl_def getProfile_def
        demo_request_def Let_def)
  obtain vcf where c: "pi_VCConfig (rq_Profile demo_request) = Some vcf" "vcf_Format vcf = Jwt" by (simp add: demo_request_def)
  let ?vc = "empty_credential\<lparr>cr_ID := ''c'', cr_JWT := ''unsigned''\<rparr>"
  have v: "validateCredential (ic_marshal typed_ctl) (ic_parse typed_ctl) (JStr ''unsigned'') [Jwt] = Ok ?vc"
    by (simp add: validateCredential_def validateFormat_def isFormatSupported_def typed_ctl_def)
  have "\<exists>c1. ic_issue typed_ctl ?vc [] (rq_Profile demo_request) 5 = (Ok c1, 7) \<and> cr_JWT c1 = ''c.did:a#k''"
    unfolding typed_laws(5) issueCredential_def typed_service_def
    by (simp add: pure_op_def demo_signer_of demo_sign_any)
  then obtain c1 where i: "ic_issue typed_ctl ?vc [] (rq_Profile demo_request) 5 = (Ok c1, 7)" "cr_JWT c1 = ''c.did:a#k''"
    by blast
  show ?thesis
    using o c v i
    by (simp add: postIssueCredentials_def issueCredentialReq_def readBody_def pure_op_def validateIssueCredOptions_def writeOutput_def)
      (simp add: typed_ctl_def)
qed


end
