(* ===== verification/Json_Decode.thy ===== *)
theory Json_Decode
  imports Verifiable_Model
begin

text \<open>
  Decoding into a struct with \<open>encoding/json\<close>: a member that is absent or null keeps its zero value, one of
  another type is an error, and so is a value that is no object; null leaves the struct as it is. Member names
  are compared exactly, as the encoders of the same structs write them.
\<close>

definition type_error :: go_error where
  "type_error = ErrExt ''json: cannot unmarshal value''"

definition member_string :: "fields \<Rightarrow> string \<Rightarrow> string res" where
  "member_string fs k = (case fget fs k of JNull \<Rightarrow> Ok [] | JStr s \<Rightarrow> Ok s | _ \<Rightarrow> Err type_error)"

definition member_pointer :: "fields \<Rightarrow> string \<Rightarrow> string option res" where
  "member_pointer fs k = (case fget fs k of JNull \<Rightarrow> Ok None | JStr s \<Rightarrow> Ok (Some s) | _ \<Rightarrow> Err type_error)"

definition element_string :: "json \<Rightarrow> string res" where
  "element_string j = (case j of JNull \<Rightarrow> Ok [] | JStr s \<Rightarrow> Ok s | _ \<Rightarrow> Err type_error)"

definition member_strings :: "fields \<Rightarrow> string \<Rightarrow> string list res" where
  "member_strings fs k = (case fget fs k of JNull \<Rightarrow> Ok [] | JArr js \<Rightarrow> mapR element_string js | _ \<Rightarrow> Err type_error)"

definition decode_struct :: "(fields \<Rightarrow> 'a res) \<Rightarrow> json \<Rightarrow> 'a res" where
  "decode_struct f j = (case j of JObj fs \<Rightarrow> f fs | JNull \<Rightarrow> f [] | _ \<Rightarrow> Err type_error)"

text \<open>A Go map takes any object; null gives an empty one.\<close>

definition decode_map :: "json \<Rightarrow> fields res" where
  "decode_map = decode_struct Ok"

lemma member_str [simp]:
  "fget fs k = JStr s \<Longrightarrow> member_string fs k = Ok s" "fget fs k = JStr s \<Longrightarrow> member_pointer fs k = Ok (Some s)"
  by (simp_all add: member_string_def member_pointer_def)

lemma mapR_JStr: "mapR element_string (map JStr ss) = Ok ss"
  by (induction ss) (simp_all add: element_string_def)

lemma member_strs [simp]: "fget fs k = JArr (map JStr ss) \<Longrightarrow> member_strings fs k = Ok ss"
  by (simp add: member_strings_def mapR_JStr)

end
