(* ===== verification/Typed_Client.thy ===== *)
theory Typed_Client
  imports Json_Decode Issuer_Client Issued_Format
begin

text \<open>
  The half of the generated issuer client (\<open>pkg/restapi/v1/issuer/openapi.gen.go\<close>) that parses responses:
  \<open>ClientWithResponses\<close>, the calls with any body and the \<open>Parse...Response\<close> functions, composed with the server
  of the same process. A response carries a JSON content type exactly when it has a body.
\<close>

subsection \<open>Calls with any body\<close>

text \<open>The body is the reader's content, here again a \<open>client_body\<close>, sent with the given content type.\<close>

definition buildRequestWithBody :: "'w client_env \<Rightarrow> string \<Rightarrow> string \<Rightarrow> string res \<Rightarrow> string \<Rightarrow> client_body \<Rightarrow> outgoing res" where
  "buildRequestWithBody lib server meth operationPath contentType body =
     bindR operationPath (\<lambda>path.
     bindR (ce_parseURL lib server) (\<lambda>_.
     bindR (ce_resolve lib server (''.'' @ path)) (\<lambda>resolved.
     bindR (ce_newRequest lib meth resolved) (\<lambda>_.
     Ok \<lparr>og_Method = meth, og_Path = resolved, og_Header = (\<lambda>h. if h = ''Content-Type'' then contentType else []), og_Body = body\<rparr>))))"

definition clientCallWithBody ::
  "'w client_env \<Rightarrow> 'w issuer_client \<Rightarrow> string \<Rightarrow> string res \<Rightarrow> string \<Rightarrow> client_body \<Rightarrow> request_editor list \<Rightarrow> 'w \<Rightarrow> response res \<times> 'w" where
  "clientCallWithBody lib c meth operationPath contentType body reqEditors w =
     andthen (pure_op (buildRequestWithBody lib (cl_Server c) meth operationPath contentType body) w) (\<lambda>og w.
     andthen (pure_op (applyEditors (cl_RequestEditors c @ reqEditors) og) w) (\<lambda>og w.
     case cl_Do c of Some doer \<Rightarrow> doer og w | None \<Rightarrow> (Panic NilDereference, w)))"

definition c_ExchangeAuthorizationCodeRequestWithBody where
  "c_ExchangeAuthorizationCodeRequestWithBody lib c = clientCallWithBody lib c ''POST'' (Ok ''/issuer/interactions/exchange-authorization-code'')"

definition c_PrepareAuthorizationRequestWithBody where
  "c_PrepareAuthorizationRequestWithBody lib c = clientCallWithBody lib c ''POST'' (Ok ''/issuer/interactions/prepare-claim-data-authz-request'')"

definition c_PushAuthorizationDetailsWithBody where
  "c_PushAuthorizationDetailsWithBody lib c = clientCallWithBody lib c ''POST'' (Ok ''/issuer/interactions/push-authorization-request'')"

definition c_StoreAuthorizationCodeRequestWithBody where
  "c_StoreAuthorizationCodeRequestWithBody lib c = clientCallWithBody lib c ''POST'' (Ok ''/issuer/interactions/store-authorization-code'')"

definition c_PostIssueCredentialsWithBody where
  "c_PostIssueCredentialsWithBody lib c profileID = clientCallWithBody lib c ''POST'' (profile_path lib profileID ''/credentials/issue'')"

definition c_PostCredentialsStatusWithBody where
  "c_PostCredentialsStatusWithBody lib c profileID = clientCallWithBody lib c ''POST'' (profile_path lib profileID ''/credentials/status'')"

definition c_InitiateCredentialIssuanceWithBody where
  "c_InitiateCredentialIssuanceWithBody lib c profileID = clientCallWithBody lib c ''POST'' (profile_path lib profileID ''/interactions/initiate-oidc'')"

subsection \<open>Decoding\<close>

text \<open>The destinations. The two responses with a transaction id only have an optional member.\<close>

record oauth_parameters =
  dp_ClientId :: string
  dp_ClientSecret :: string
  dp_ResponseType :: string
  dp_Scope :: "string list"

record prepare_claim_data_response =
  pc_AuthorizationEndpoint :: string
  pc_AuthorizationRequest :: oauth_parameters
  pc_PAREndpoint :: "string option"
  pc_TxId :: string

record initiate_oidc4vc_response =
  iv_InitiateIssuanceUrl :: string
  iv_TxId :: string

definition decode_tx_id :: "json \<Rightarrow> string option res" where
  "decode_tx_id = decode_struct (\<lambda>fs. member_pointer fs ''tx_id'')"

definition decode_oauth_parameters :: "fields \<Rightarrow> oauth_parameters res" where
  "decode_oauth_parameters fs =
     bindR (member_string fs ''client_id'') (\<lambda>ci.
     bindR (member_string fs ''client_secret'') (\<lambda>cs.
     bindR (member_string fs ''response_type'') (\<lambda>rt.
     bindR (member_strings fs ''scope'') (\<lambda>sc.
     Ok \<lparr>dp_ClientId = ci, dp_ClientSecret = cs, dp_ResponseType = rt, dp_Scope = sc\<rparr>))))"

definition decode_prepare :: "json \<Rightarrow> prepare_claim_data_response res" where
  "decode_prepare = decode_struct (\<lambda>fs.
     bindR (member_string fs ''authorization_endpoint'') (\<lambda>ae.
     bindR (decode_struct decode_oauth_parameters (fget fs ''authorization_request'')) (\<lambda>ar.
     bindR (member_pointer fs ''pushed_authorization_request_endpoint'') (\<lambda>pe.
     bindR (member_string fs ''tx_id'') (\<lambda>tx.
     Ok \<lparr>pc_AuthorizationEndpoint = ae, pc_AuthorizationRequest = ar, pc_PAREndpoint = pe, pc_TxId = tx\<rparr>)))))"

definition decode_initiate :: "json \<Rightarrow> initiate_oidc4vc_response res" where
  "decode_initiate = decode_struct (\<lambda>fs.
     bindR (member_string fs ''initiate_issuance_url'') (\<lambda>u.
     bindR (member_string fs ''tx_id'') (\<lambda>tx. Ok \<lparr>iv_InitiateIssuanceUrl = u, iv_TxId = tx\<rparr>)))"

subsection \<open>Parsed responses\<close>

record 'a typed_response =
  tr_Body :: "json option"
  tr_HTTPResponse :: "response option"
  tr_JSON200 :: "'a option"

definition statusCode :: "'a typed_response \<Rightarrow> int" where
  "statusCode r = (case tr_HTTPResponse r of Some rsp \<Rightarrow> fst rsp | None \<Rightarrow> 0)"

definition parseResponse :: "(json \<Rightarrow> 'a res) \<Rightarrow> response \<Rightarrow> 'a typed_response res" where
  "parseResponse decode rsp =
     (let response = \<lparr>tr_Body = snd rsp, tr_HTTPResponse = Some rsp, tr_JSON200 = None\<rparr>
      in case snd rsp of
           Some body \<Rightarrow> if fst rsp = 200 then bindR (decode body) (\<lambda>dest. Ok (response\<lparr>tr_JSON200 := Some dest\<rparr>)) else Ok response
         | None \<Rightarrow> Ok response)"

definition parseExchangeAuthorizationCodeRequestResponse :: "response \<Rightarrow> string option typed_response res" where
  "parseExchangeAuthorizationCodeRequestResponse = parseResponse decode_tx_id"

definition parsePrepareAuthorizationRequestResponse :: "response \<Rightarrow> prepare_claim_data_response typed_response res" where
  "parsePrepareAuthorizationRequestResponse = parseResponse decode_prepare"

text \<open>This one has no member for a decoded body.\<close>

definition parsePushAuthorizationDetailsResponse :: "response \<Rightarrow> unit typed_response res" where
  "parsePushAuthorizationDetailsResponse rsp = Ok \<lparr>tr_Body = snd rsp, tr_HTTPResponse = Some rsp, tr_JSON200 = None\<rparr>"

definition parseStoreAuthorizationCodeRequestResponse :: "response \<Rightarrow> string option typed_response res" where
  "parseStoreAuthorizationCodeRequestResponse = parseResponse decode_tx_id"

definition parsePostIssueCredentialsResponse :: "response \<Rightarrow> fields typed_response res" where
  "parsePostIssueCredentialsResponse = parseResponse decode_map"

definition parsePostCredentialsStatusResponse :: "response \<Rightarrow> fields typed_response res" where
  "parsePostCredentialsStatusResponse = parseResponse decode_map"

definition parseGetCredentialsStatusResponse :: "response \<Rightarrow> fields typed_response res" where
  "parseGetCredentialsStatusResponse = parseResponse decode_map"

definition parseInitiateCredentialIssuanceResponse :: "response \<Rightarrow> initiate_oidc4vc_response typed_response res" where
  "parseInitiateCredentialIssuanceResponse = parseResponse decode_initiate"

text \<open>\<open>NewClientWithResponses\<close> wraps the client; each method calls it and parses.\<close>

definition newClientWithResponses :: "'w client_env \<Rightarrow> string \<Rightarrow> 'w client_option list \<Rightarrow> 'w issuer_client res" where
  "newClientWithResponses lib server opts = bindR (newIssuerClient lib server opts) Ok"

definition parsed :: "(response \<Rightarrow> 'a typed_response res) \<Rightarrow> response res \<times> 'w \<Rightarrow> 'a typed_response res \<times> 'w" where
  "parsed parse m = andthen m (\<lambda>rsp w. pure_op (parse rsp) w)"

definition t_ExchangeAuthorizationCodeRequestWithBody where
  "t_ExchangeAuthorizationCodeRequestWithBody lib c ct body eds w =
     parsed parseExchangeAuthorizationCodeRequestResponse (c_ExchangeAuthorizationCodeRequestWithBody lib c ct body eds w)"
definition t_ExchangeAuthorizationCodeRequest where
  "t_ExchangeAuthorizationCodeRequest lib c body eds w =
     parsed parseExchangeAuthorizationCodeRequestResponse (c_ExchangeAuthorizationCodeRequest lib c body eds w)"
definition t_PrepareAuthorizationRequestWithBody where
  "t_PrepareAuthorizationRequestWithBody lib c ct body eds w =
     parsed parsePrepareAuthorizationRequestResponse (c_PrepareAuthorizationRequestWithBody lib c ct body eds w)"
definition t_PrepareAuthorizationRequest where
  "t_PrepareAuthorizationRequest lib c body eds w =
     parsed parsePrepareAuthorizationRequestResponse (c_PrepareAuthorizationRequest lib c body eds w)"
definition t_PushAuthorizationDetailsWithBody where
  "t_PushAuthorizationDetailsWithBody lib c ct body eds w =
     parsed parsePushAuthorizationDetailsResponse (c_PushAuthorizationDetailsWithBody lib c ct body eds w)"
definition t_PushAuthorizationDetails where
  "t_PushAuthorizationDetails lib c body eds w =
     parsed parsePushAuthorizationDetailsResponse (c_PushAuthorizationDetails lib c body eds w)"
definition t_StoreAuthorizationCodeRequestWithBody where
  "t_StoreAuthorizationCodeRequestWithBody lib c ct body eds w =
     parsed parseStoreAuthorizationCodeRequestResponse (c_StoreAuthorizationCodeRequestWithBody lib c ct body eds w)"
definition t_StoreAuthorizationCodeRequest where
  "t_StoreAuthorizationCodeRequest lib c body eds w =
     parsed parseStoreAuthorizationCodeRequestResponse (c_StoreAuthorizationCodeRequest lib c body eds w)"
definition t_PostIssueCredentialsWithBody where
  "t_PostIssueCredentialsWithBody lib c pid ct body eds w =
     parsed parsePostIssueCredentialsResponse (c_PostIssueCredentialsWithBody lib c pid ct body eds w)"
definition t_PostIssueCredentials where
  "t_PostIssueCredentials lib c pid body eds w =
     parsed parsePostIssueCredentialsResponse (c_PostIssueCredentials lib c pid body eds w)"
definition t_PostCredentialsStatusWithBody where
  "t_PostCredentialsStatusWithBody lib c pid ct body eds w =
     parsed parsePostCredentialsStatusResponse (c_PostCredentialsStatusWithBody lib c pid ct body eds w)"
definition t_PostCredentialsStatus where
  "t_PostCredentialsStatus lib c pid body eds w =
     parsed parsePostCredentialsStatusResponse (c_PostCredentialsStatus lib c pid body eds w)"
definition t_GetCredentialsStatus where
  "t_GetCredentialsStatus lib c pid sid eds w =
     parsed parseGetCredentialsStatusResponse (c_GetCredentialsStatus lib c pid sid eds w)"
definition t_InitiateCredentialIssuanceWithBody where
  "t_InitiateCredentialIssuanceWithBody lib c pid ct body eds w =
     parsed parseInitiateCredentialIssuanceResponse (c_InitiateCredentialIssuanceWithBody lib c pid ct body eds w)"
definition t_InitiateCredentialIssuance where
  "t_InitiateCredentialIssuance lib c pid body eds w =
     parsed parseInitiateCredentialIssuanceResponse (c_InitiateCredentialIssuance lib c pid body eds w)"

subsection \<open>Lemmas\<close>

text \<open>A call with a JSON body is the call with any body, after encoding it.\<close>

lemma json_call_is_body_call:
  assumes "body \<noteq> NoBody"
  shows "clientCall lib c meth path body eds w =
     andthen (pure_op (ce_marshal lib body) w) (\<lambda>_. clientCallWithBody lib c meth path ''application/json'' body eds)"
  using assms
  by (cases "ce_marshal lib body") (simp_all add: clientCall_def clientCallWithBody_def buildRequest_def buildRequestWithBody_def pure_op_def)

text \<open>The outputs of the handlers decode.\<close>

lemma prepare_output_decodes:
  "decode_prepare (prepare_output r) = Ok
     \<lparr>pc_AuthorizationEndpoint = cr_AuthorizationEndpoint r,
      pc_AuthorizationRequest = \<lparr>dp_ClientId = op_ClientID (cr_AuthorizationParameters r),
        dp_ClientSecret = op_ClientSecret (cr_AuthorizationParameters r),
        dp_ResponseType = op_ResponseType (cr_AuthorizationParameters r), dp_Scope = op_Scope (cr_AuthorizationParameters r)\<rparr>,
      pc_PAREndpoint = Some (cr_PAREndpoint r), pc_TxId = cr_TxID r\<rparr>"
  by (simp add: decode_prepare_def decode_struct_def prepare_output_def decode_oauth_parameters_def fget_def)

lemma initiate_output_decodes:
  "decode_initiate (JObj [(''initiate_issuance_url'', JStr u), (''tx_id'', JStr tx)]) = Ok \<lparr>iv_InitiateIssuanceUrl = u, iv_TxId = tx\<rparr>"
  by (simp add: decode_initiate_def decode_struct_def fget_def)

lemma string_does_not_decode: "decode_tx_id (JStr s) = Err type_error" "decode_map (JStr s) = Err type_error"
  by (simp_all add: decode_tx_id_def decode_map_def decode_struct_def)

text \<open>The answers of the error handler name no transaction.\<close>

lemma error_has_no_tx_id: "decode_tx_id (snd (processError e)) = Ok None"
proof (cases e)
  case (ErrCustom code v opn cn e')
  then show ?thesis
    by (cases code) (simp_all add: decode_tx_id_def decode_struct_def member_pointer_def fget_def)
qed (simp_all add: decode_tx_id_def decode_struct_def member_pointer_def fget_def)

lemma parseResponse_simps [simp]:
  "parseResponse decode (code, None) = Ok \<lparr>tr_Body = None, tr_HTTPResponse = Some (code, None), tr_JSON200 = None\<rparr>"
  "parseResponse decode (200, Some body) = bindR (decode body) (\<lambda>dest.
     Ok \<lparr>tr_Body = Some body, tr_HTTPResponse = Some (200, Some body), tr_JSON200 = Some dest\<rparr>)"
  by (simp_all add: parseResponse_def Let_def)

lemma issuer_call_Ok: "h q w = (Ok r, w') \<Longrightarrow> issuer_call [] h q w = (Ok r, w')"
  by (cases r) (simp add: issuer_call_def serve_def handled_def)

lemma issuer_call_failed:
  assumes "h q w = (r, w')" "\<not> is_ok r"
  shows "\<exists>code e b. (issuer_call [] h q w = (Ok (code, b), w') \<and> (b = None \<or> b = Some (snd (processError e))))
     \<or> (\<exists>x. issuer_call [] h q w = (Err x, w'))"
  using assms
  by (cases r) (auto simp: issuer_call_def serve_def handled_def httpErrorHandler_def sendResponse_def split: option.splits)

text \<open>The calls that answer with a transaction id.\<close>

lemma tx_id_call:
  assumes "h q w = (r, w')" "\<And>x. r = Ok x \<Longrightarrow> \<exists>tx. x = (200, Some (JStr tx))" "parsed (parseResponse decode_tx_id) (issuer_call [] h q w) = (p, w2)"
  shows "w2 = w' \<and> (is_ok r \<longrightarrow> p = Err type_error) \<and> (\<forall>t. p = Ok t \<longrightarrow> tr_JSON200 t \<in> {None, Some None})"
proof (cases "is_ok r")
  case True
  then obtain tx where "r = Ok (200, Some (JStr tx))" using assms(2) by (cases r) auto
  then have "p = Err type_error \<and> w2 = w'"
    using assms(1,3) issuer_call_Ok [of h q w "(200, Some (JStr tx))" w']
    by (auto simp: parsed_def pure_op_def string_does_not_decode)
  then show ?thesis by simp
next
  case False
  from issuer_call_failed [of h q w r w', OF assms(1) False] obtain code e b where
    "issuer_call [] h q w = (Ok (code, b), w') \<and> (b = None \<or> b = Some (snd (processError e))) \<or> (\<exists>x. issuer_call [] h q w = (Err x, w'))" by blast
  then show ?thesis
    using assms(3) False
    by (cases "code = 200") (auto simp: parsed_def pure_op_def parseResponse_def error_has_no_tx_id Let_def)
qed

subsection \<open>Properties\<close>


text \<open>The typed client cannot read a JWT credential. When the issuing endpoint succeeds, the typed call returns the
  object of a JSON-LD credential, and for a profile of the JWT format it reports a decoding error, in the state in
  which the credential has been issued.\<close>
theorem typed_client_issue:
  assumes "client_lib_ok lib bind" "loopback_client lib server token bind ic vc d others c"
    and "postIssueCredentials ic (Ok b) pid q w = (Ok rsp, w')"
    and "ic_issue ic = (\<lambda>vc os p w. issueCredential sv vc os p (now w) (uuid w) w)" "se_sign sv = signCredential cl"
    and "lib_forms cl" "parse_plain (ic_parse ic)" "marshals_forms (ic_marshalVC ic)"
  shows "\<exists>p vcf. ic_getProfile ic pid = Ok (Some p) \<and> pi_VCConfig p = Some vcf
    \<and> (if vcf_Format vcf = Jwt
       then t_PostIssueCredentials lib c pid b [add_header ''X-User'' (hq_Header q ''X-User'')] w = (Err type_error, w')
       else \<exists>fs t. snd rsp = Some (JObj fs) \<and> tr_JSON200 t = Some fs \<and> statusCode t = 200
         \<and> t_PostIssueCredentials lib c pid b [add_header ''X-User'' (hq_Header q ''X-User'')] w = (Ok t, w'))"
proof -
  obtain st j where r: "rsp = (st, j)" by fastforce
  obtain p vcf out where o: "ic_getProfile ic pid = Ok (Some p)" "pi_VCConfig p = Some vcf" "st = 200" "j = Some out"
    "document_of (vcf_Format vcf) out"
    by (rule issued_document [OF assms(3) [unfolded r] assms(4-8)]) (rule that)
  obtain q' where q: "hq_Header q' ''X-User'' = hq_Header q ''X-User''"
    "c_PostIssueCredentials lib c pid b [add_header ''X-User'' (hq_Header q ''X-User'')] w = issuer_call [] (postIssueCredentials ic (Ok b) pid) q' w"
    using issue_call [OF assms(1,2)] by blast
  have "postIssueCredentials ic (Ok b) pid q' w = postIssueCredentials ic (Ok b) pid q w"
    using q(1) by (simp add: postIssueCredentials_def issueCredentialReq_def ownProfile_def getOrgIDFromOIDC_def)
  then have "postIssueCredentials ic (Ok b) pid q' w = (Ok (200, Some out), w')" using assms(3) r o(3,4) by simp
  note issuer_call_Ok [of "postIssueCredentials ic (Ok b) pid", OF this]
  then have call: "t_PostIssueCredentials lib c pid b [add_header ''X-User'' (hq_Header q ''X-User'')] w
      = (bindR (decode_map out) (\<lambda>fs. Ok \<lparr>tr_Body = Some out, tr_HTTPResponse = Some (200, Some out), tr_JSON200 = Some fs\<rparr>), w')"
    by (simp add: t_PostIssueCredentials_def q(2) parsed_def pure_op_def parsePostIssueCredentialsResponse_def)
  show ?thesis
  proof (cases "vcf_Format vcf = Jwt")
    case True
    then obtain s where "out = JStr s" using o(5) by (auto simp: document_of_def)
    then show ?thesis using o(1,2) True call by (intro exI [of _ p] exI [of _ vcf]) (simp add: string_does_not_decode)
  next
    case False
    then obtain fs where "out = JObj fs" using o(5) by (auto simp: document_of_def split: if_splits)
    then show ?thesis
      using o(1-4) False call r
      by (intro exI [of _ p] exI [of _ vcf]) (simp add: decode_map_def decode_struct_def statusCode_def)
  qed
qed

subsection \<open>Concrete calls\<close>

definition demo_issuer_client :: "string \<Rightarrow> (string, nat) issuer_ctl \<Rightarrow> nat issuer_client res" where
  "demo_issuer_client token ic = newIssuerClient Issuer_Client.demo_lib ''http://localhost:8075''
     [withHTTPClient (loopback token (\<lambda>_ v. Ok (query_unescape v)) ic quiet_vctl demo_bodies (\<lambda>_ n. (Err (ErrEcho 404 ''Not Found'' None), n))),
      withRequestEditorFn (add_header ''X-API-Key'' token)]"

lemma demo_issuer_client_made: "\<exists>c. demo_issuer_client token ic = Ok c"
  by (simp add: demo_issuer_client_def newIssuerClient_def withHTTPClient_def withRequestEditorFn_def Let_def)


theorem typed_client_issue_witness:
  "\<exists>c w'. demo_issuer_client ''secret'' typed_ctl = Ok c
     \<and> t_PostIssueCredentials Issuer_Client.demo_lib c ''i1'' \<lparr>ib_Credential = JStr ''unsigned'', ib_Options = None\<rparr>
         [add_header ''X-User'' ''org''] 5 = (Err type_error, w')
     \<and> postIssueCredentials typed_ctl (Ok \<lparr>ib_Credential = JStr ''unsigned'', ib_Options = None\<rparr>) ''i1'' (from_org ''org'') 5
         = (Ok (200, Some (JStr ''c.did:a#k'')), w')"
proof -
  obtain c where c: "demo_issuer_client ''secret'' typed_ctl = Ok c" using demo_issuer_client_made by blast
  have h: "hq_Header (from_org ''org'') ''X-User'' = ''org''" by (simp add: from_org_def)
  have f: "pi_VCConfig p = Some vcf \<Longrightarrow> ic_getProfile typed_ctl ''i1'' = Ok (Some p) \<Longrightarrow> vcf_Format vcf = Jwt" for p vcf
    by (auto simp: typed_ctl_def getProfile_def demo_request_def)
  show ?thesis
    using typed_client_issue [OF Issuer_Client.demo_lib_ok c [unfolded demo_issuer_client_def] typed_issued typed_laws(5,4,1,2,3)]
      c typed_issued f unfolding h by fastforce
qed

end
