(* ===== verification/Mongo_Documents.thy ===== *)
theory Mongo_Documents
  imports Json_Decode Request_Object "HOL-Library.List_Lexorder" "HOL-Library.Char_ord"
begin

text \<open>
  \<open>pkg/storage/mongodb/util.go\<close>: the conversion between structs and the maps that MongoDB stores, by way of
  JSON, and its use for the event of a request object. Decoding into \<open>map[string]interface{}\<close> keeps the last
  of several members of a name and reads numbers as floats (\<open>num\<close>, the nearest float of an integer); encoding
  the map writes its members sorted by name. The time format is Aries's \<open>TimeWrapper\<close>, a parameter.
\<close>

subsection \<open>Values in generic maps\<close>

definition canon :: "fields \<Rightarrow> fields" where
  "canon fs = map (\<lambda>k. (k, fget (rev fs) k)) (sort (remdups (map fst fs)))"

fun generic :: "(int \<Rightarrow> int) \<Rightarrow> json \<Rightarrow> json" where
  "generic num (JNum n) = JNum (num n)"
| "generic num (JArr js) = JArr (map (generic num) js)"
| "generic num (JObj fs) = JObj (canon (map (\<lambda>(k, v). (k, generic num v)) fs))"
| "generic num j = j"

text \<open>\<open>StructureToMap\<close> and \<open>MapToStructure\<close>; \<open>marshal\<close> and \<open>unmarshal\<close> are those of the struct's type.\<close>

definition structureToMap :: "(int \<Rightarrow> int) \<Rightarrow> ('a \<Rightarrow> json res) \<Rightarrow> 'a \<Rightarrow> fields res" where
  "structureToMap num marshal obj = bindR (marshal obj) (\<lambda>b. decode_map (generic num b))"

definition mapToStructure :: "(json \<Rightarrow> 'a res) \<Rightarrow> fields \<Rightarrow> 'a res" where
  "mapToStructure unmarshal m = unmarshal (JObj m)"

subsection \<open>Events\<close>

text \<open>The struct tags of \<open>spi.Event\<close>. A null time or payload, which is never written for an event, has no
  counterpart in the model's events and is reported as an error.\<close>

definition marshalEvent :: "(int \<Rightarrow> string) \<Rightarrow> event \<Rightarrow> json res" where
  "marshalEvent fmt e = Ok (JObj [(''specversion'', JStr (ev_SpecVersion e)), (''id'', JStr (ev_ID e)), (''source'', JStr (ev_Source e)),
     (''type'', JStr (ev_Type e)), (''datacontenttype'', JStr (ev_DataContentType e)), (''time'', JStr (fmt (ev_Time e))),
     (''data'', ev_Data e)])"

definition unmarshalEvent :: "(string \<Rightarrow> int res) \<Rightarrow> json \<Rightarrow> event res" where
  "unmarshalEvent parse = decode_struct (\<lambda>fs.
     bindR (member_string fs ''specversion'') (\<lambda>sv.
     bindR (member_string fs ''id'') (\<lambda>i.
     bindR (member_string fs ''source'') (\<lambda>s.
     bindR (member_string fs ''type'') (\<lambda>t.
     bindR (member_string fs ''datacontenttype'') (\<lambda>dt.
     bindR (case fget fs ''time'' of JStr x \<Rightarrow> parse x | _ \<Rightarrow> Err type_error) (\<lambda>tm.
     bindR (case fget fs ''data'' of JNull \<Rightarrow> Err type_error | j \<Rightarrow> Ok j) (\<lambda>d.
     Ok \<lparr>ev_SpecVersion = sv, ev_ID = i, ev_Source = s, ev_Type = t, ev_DataContentType = dt, ev_Time = tm, ev_Data = d\<rparr>))))))))"

text \<open>The codec of the request object store.\<close>

definition mongo_codec :: "(int \<Rightarrow> int) \<Rightarrow> (int \<Rightarrow> string) \<Rightarrow> (string \<Rightarrow> int res) \<Rightarrow> ro_codec" where
  "mongo_codec num fmt parse =
     \<lparr>rc_toMap = (\<lambda>e. bindR (structureToMap num (marshalEvent fmt) e) (\<lambda>m. Ok (JObj m))),
      rc_ofMap = (\<lambda>j. bindR (decode_map j) (mapToStructure (unmarshalEvent parse)))\<rparr>"

subsection \<open>Lemmas\<close>

lemma fget_absent: "k \<notin> fst ` set fs \<Longrightarrow> fget fs k = JNull"
  by (simp add: fget_def map_of_eq_None_iff [symmetric] split: option.split)

lemma fget_map_keys: "fget (map (\<lambda>k. (k, f k)) ks) k = (if k \<in> set ks then f k else JNull)"
  by (induction ks) (auto simp: fget_def split: option.splits)

lemma fget_canon [simp]: "fget (canon fs) k = fget (rev fs) k"
  using fget_absent [of k "rev fs"] by (auto simp: canon_def fget_map_keys image_iff)

lemma canon_sorted: "sorted (map fst (canon fs))" and canon_distinct: "distinct (map fst (canon fs))"
  by (simp_all add: canon_def comp_def)

lemma map_of_distinct_rev: "distinct (map fst fs) \<Longrightarrow> map_of (rev fs) = map_of fs"
proof (induction fs)
  case (Cons x fs)
  then have "map_of fs (fst x) = None" by (simp add: map_of_eq_None_iff)
  then show ?case using Cons by (cases x) (auto simp: map_add_def fun_eq_iff split: option.split)
qed simp

lemma fget_generic:
  assumes "distinct (map fst fs)"
  shows "fget (canon (map (\<lambda>(k, v). (k, generic num v)) fs)) k = generic num (fget fs k)"
proof -
  let ?X = "map (\<lambda>(k, v). (k, generic num v)) fs"
  have d: "distinct (map fst ?X)" using assms by (simp add: comp_def split_def)
  have "fget (canon ?X) k = fget ?X k" unfolding fget_canon by (simp add: fget_def map_of_distinct_rev [OF d])
  also have "\<dots> = generic num (fget fs k)" by (induction fs) auto
  finally show ?thesis .
qed

lemma canon_id:
  assumes "sorted (map fst fs)" "distinct (map fst fs)"
  shows "canon fs = fs"
proof -
  have "fget (rev fs) k = v" if "(k, v) \<in> set fs" for k v
    using that assms(2) by (simp add: fget_def map_of_distinct_rev)
  then have "map ((\<lambda>k. (k, fget (rev fs) k)) \<circ> fst) fs = fs" by (intro map_idI) auto
  moreover have "sort (remdups (map fst fs)) = map fst fs"
    using assms by (simp add: distinct_remdups_id sorted_sort_id)
  ultimately show ?thesis by (simp add: canon_def)
qed

lemma canon_values: "(k, v) \<in> set (canon fs) \<Longrightarrow> (k, v) \<in> set fs"
proof -
  assume "(k, v) \<in> set (canon fs)"
  then have "k \<in> fst ` set fs" "v = fget (rev fs) k" by (auto simp: canon_def)
  then have "map_of (rev fs) k = Some v" by (auto simp: fget_def map_of_eq_None_iff split: option.split)
  then show ?thesis using map_of_SomeD by fastforce
qed

text \<open>What has been stored once is stored the same way again.\<close>

lemma generic_idem:
  assumes "\<And>n. num (num n) = num n"
  shows "generic num (generic num j) = generic num j"
  using assms
proof (induction num j rule: generic.induct)
  case (3 num fs)
  let ?X = "map (\<lambda>(k, v). (k, generic num v)) fs"
  have "generic num v = v" if "(k, v) \<in> set (canon ?X)" for k v
    using canon_values [OF that] 3 by auto
  then have "map (\<lambda>(k, v). (k, generic num v)) (canon ?X) = canon ?X" by (intro map_idI) auto
  then show ?case using canon_id [OF canon_sorted canon_distinct, of ?X] by simp
qed simp_all

lemma webhook_generic:
  assumes "\<And>fs. j = JObj fs \<Longrightarrow> distinct (map fst fs)"
  shows "webhook_of (generic num j) = webhook_of j"
proof (cases j)
  case (JObj fs)
  then show ?thesis using fget_generic [OF assms [OF JObj], of num "''webHook''"]
    by (cases "fget fs ''webHook''") (simp_all add: webhook_of_def)
qed (simp_all add: webhook_of_def)

subsection \<open>Properties\<close>

text \<open>An event comes back from the database as it was stored, except for the spelling of its payload. The event that
  \<open>MapToStructure\<close> makes of the stored document has all members of the stored event and a payload that is the
  same JSON value with sorted members and numbers rounded to floats; it is the same event when the payload is
  already of that form, which it is after the first round; and its web hook is the same.\<close>
theorem stored_event_reads_back:
  assumes "\<And>t. parse (fmt t) = Ok t" "ev_Data e \<noteq> JNull"
  shows "\<exists>j e'. rc_toMap (mongo_codec num fmt parse) e = Ok j \<and> rc_ofMap (mongo_codec num fmt parse) j = Ok e'
    \<and> e' = e\<lparr>ev_Data := generic num (ev_Data e)\<rparr>
    \<and> (generic num (ev_Data e) = ev_Data e \<longrightarrow> e' = e)
    \<and> ((\<forall>n. num (num n) = num n) \<longrightarrow> generic num (ev_Data e') = ev_Data e')
    \<and> ((\<forall>fs. ev_Data e = JObj fs \<longrightarrow> distinct (map fst fs)) \<longrightarrow> webhook_of (ev_Data e') = webhook_of (ev_Data e))"
proof -
  let ?fs = "[(''specversion'', JStr (ev_SpecVersion e)), (''id'', JStr (ev_ID e)), (''source'', JStr (ev_Source e)),
     (''type'', JStr (ev_Type e)), (''datacontenttype'', JStr (ev_DataContentType e)), (''time'', JStr (fmt (ev_Time e))),
     (''data'', ev_Data e)]"
  let ?m = "canon (map (\<lambda>(k, v). (k, generic num v)) ?fs)"
  have d: "distinct (map fst ?fs)" by simp
  have m: "rc_toMap (mongo_codec num fmt parse) e = Ok (JObj ?m)"
    unfolding mongo_codec_def ro_codec.simps structureToMap_def marshalEvent_def bindR.simps generic.simps
    by (simp add: decode_map_def decode_struct_def)
  have f: "fget ?m k = generic num (fget ?fs k)" for k by (rule fget_generic [OF d])
  have nn: "generic num (ev_Data e) \<noteq> JNull" using assms(2) by (cases "ev_Data e") simp_all
  have "rc_ofMap (mongo_codec num fmt parse) (JObj ?m) = unmarshalEvent parse (JObj ?m)"
    by (simp add: mongo_codec_def decode_map_def decode_struct_def mapToStructure_def)
  also have "\<dots> = Ok (e\<lparr>ev_Data := generic num (ev_Data e)\<rparr>)"
    unfolding unmarshalEvent_def decode_struct_def json.case member_string_def f
    using nn assms(1) by (simp split: json.splits)
  finally have r: "rc_ofMap (mongo_codec num fmt parse) (JObj ?m) = Ok (e\<lparr>ev_Data := generic num (ev_Data e)\<rparr>)" .
  show ?thesis
    using m r generic_idem [of num "ev_Data e"] webhook_generic [of "ev_Data e" num]
    by (intro exI [of _ "JObj ?m"] exI [of _ "e\<lparr>ev_Data := generic num (ev_Data e)\<rparr>"]) (simp del: generic.simps)
qed

definition unary_time :: "int \<Rightarrow> string" where
  "unary_time t = (if t < 0 then ''-'' else []) @ replicate (nat \<bar>t\<bar>) CHR ''1''"

definition parse_unary :: "string \<Rightarrow> int res" where
  "parse_unary s = Ok (case s of c # cs \<Rightarrow> if c = CHR ''-'' then - int (length cs) else int (length s) | [] \<Rightarrow> 0)"

lemma parse_unary_time: "parse_unary (unary_time t) = Ok t"
  by (cases "nat \<bar>t\<bar>") (auto simp: parse_unary_def unary_time_def)

definition hook_event :: event where
  "hook_event = newEvent ''e1'' ''src'' VerifierOIDCInteractionQRScanned (JObj [(''webHook'', JStr ''https://rp''), (''id'', JStr ''t'')]) 7"

theorem stored_event_reads_back_witness:
  "\<exists>j e'. rc_toMap (mongo_codec id unary_time parse_unary) hook_event = Ok j \<and> rc_ofMap (mongo_codec id unary_time parse_unary) j = Ok e'
     \<and> webhook_of (ev_Data e') = Ok ''https://rp'' \<and> ev_ID e' = ''e1'' \<and> ev_Time e' = 7"
proof -
  have n: "ev_Data hook_event \<noteq> JNull" by (simp add: hook_event_def newEvent_def)
  have h: "webhook_of (ev_Data hook_event) = Ok ''https://rp''" "\<forall>fs. ev_Data hook_event = JObj fs \<longrightarrow> distinct (map fst fs)"
    "ev_ID hook_event = ''e1''" "ev_Time hook_event = 7"
    by (simp_all add: hook_event_def newEvent_def webhook_of_def)
  obtain j e' where r: "rc_toMap (mongo_codec id unary_time parse_unary) hook_event = Ok j" "rc_ofMap (mongo_codec id unary_time parse_unary) j = Ok e'"
    "e' = hook_event\<lparr>ev_Data := generic id (ev_Data hook_event)\<rparr>" "webhook_of (ev_Data e') = webhook_of (ev_Data hook_event)"
    using stored_event_reads_back [OF parse_unary_time n, of id] h(2) by blast
  then show ?thesis using h by (intro exI [of _ j] exI [of _ e'] conjI) simp_all
qed

end
