(* ===== verification/Api_Spec.thy ===== *)
theory Api_Spec
  imports Api_Server
begin

text \<open>
  \<open>api/spec/openapi.gen.go\<close> and the same functions of \<open>pkg/restapi/v1/common/openapi.gen.go\<close>: the embedded OpenAPI
  documents, their decoding at package initialisation, and the file system of embedded documents against which
  the loader resolves references. Base64, gzip and the \<open>openapi3\<close> loader are parameters; the functions of Go's
  package \<open>path\<close> are written out.
\<close>

subsection \<open>Slash-separated paths\<close>

text \<open>\<open>path.Clean\<close>: the components read so far are a stack, the last one first; \<open>..\<close> removes a proper component,
  and is kept when there is none unless the path is rooted.\<close>

fun clean_step :: "bool \<Rightarrow> string list \<Rightarrow> string \<Rightarrow> string list" where
  "clean_step rooted stack c =
     (if c = [] \<or> c = ''.'' then stack
      else if c \<noteq> ''..'' then c # stack
      else case stack of
          [] \<Rightarrow> if rooted then [] else [c]
        | t # rest \<Rightarrow> if t = ''..'' then c # stack else rest)"

definition path_clean :: "string \<Rightarrow> string" where
  "path_clean p =
     (if p = [] then ''.''
      else let rooted = (hd p = CHR ''/'');
               body = join_with ''/'' (rev (foldl (clean_step rooted) [] (split_on CHR ''/'' p)))
           in if rooted then CHR ''/'' # body else if body = [] then ''.'' else body)"

text \<open>\<open>path.Dir\<close> and \<open>path.Join\<close>.\<close>

definition path_dir :: "string \<Rightarrow> string" where
  "path_dir p = path_clean (rev (dropWhile (\<lambda>c. c \<noteq> CHR ''/'') (rev p)))"

definition path_join :: "string list \<Rightarrow> string" where
  "path_join elems =
     (let es = filter (\<lambda>e. e \<noteq> []) elems in if es = [] then [] else path_clean (join_with ''/'' es))"

subsection \<open>The embedded documents\<close>

record ('z, 'b) spec_lib =
  sp_base64 :: "string \<Rightarrow> string res"
  sp_gzip :: "string \<Rightarrow> 'z res"
  sp_readFrom :: "'z \<Rightarrow> 'b res"

text \<open>\<open>fmt.Errorf\<close> with \<open>%s\<close>: only the text of the cause is kept.\<close>

definition textErr :: "string \<Rightarrow> 'a res \<Rightarrow> 'a res" where
  "textErr msg = mapErr (\<lambda>e. ErrMsg (msg @ err_text e))"

definition decodeSpec :: "('z, 'b) spec_lib \<Rightarrow> string list \<Rightarrow> 'b res" where
  "decodeSpec lib swaggerSpec =
     bindR (textErr ''error base64 decoding spec: '' (sp_base64 lib (concat swaggerSpec))) (\<lambda>zipped.
     bindR (textErr ''error decompressing spec: '' (sp_gzip lib zipped)) (\<lambda>zr.
     textErr ''error decompressing spec: '' (sp_readFrom lib zr)))"

type_synonym 'b raw_spec = "unit \<Rightarrow> 'b res"

text \<open>\<open>decodeSpecCached\<close>: decoding happens once, the outcome is answered to every call.\<close>

definition decodeSpecCached :: "('z, 'b) spec_lib \<Rightarrow> string list \<Rightarrow> 'b raw_spec" where
  "decodeSpecCached lib swaggerSpec = (let data = decodeSpec lib swaggerSpec in (\<lambda>_. data))"

text \<open>\<open>PathToRawSpec\<close> of the common document and of the document of the server, which refers to the common one.\<close>

definition commonPathToRawSpec :: "'b raw_spec \<Rightarrow> string \<Rightarrow> (string \<rightharpoonup> 'b raw_spec)" where
  "commonPathToRawSpec rawSpec pathToFile = (if pathToFile \<noteq> [] then [pathToFile \<mapsto> rawSpec] else Map.empty)"

definition pathToRawSpec :: "'b raw_spec \<Rightarrow> 'b raw_spec \<Rightarrow> string \<Rightarrow> (string \<rightharpoonup> 'b raw_spec)" where
  "pathToRawSpec rawSpec common pathToFile =
     (let own = (if pathToFile \<noteq> [] then [pathToFile \<mapsto> rawSpec] else Map.empty);
          pathPrefix = path_dir pathToFile
      in own ++ commonPathToRawSpec common (path_join [pathPrefix, ''./common.yaml'']))"

text \<open>\<open>loader.ReadFromURIFunc\<close>, and \<open>GetSwagger\<close> for a file system; \<open>loadFromData\<close> is the loader's, given the
  function with which it reads references.\<close>

definition readFromURI :: "(string \<rightharpoonup> 'b raw_spec) \<Rightarrow> string \<Rightarrow> 'b res" where
  "readFromURI resolvePath url =
     (let pathToFile = path_clean url
      in case resolvePath pathToFile of
           None \<Rightarrow> Err (ErrMsg (''path not found: '' @ pathToFile))
         | Some getSpec \<Rightarrow> getSpec ())"

definition getSwagger ::
  "((string \<Rightarrow> 'b res) \<Rightarrow> 'b \<Rightarrow> 'd res) \<Rightarrow> (string \<rightharpoonup> 'b raw_spec) \<Rightarrow> 'b raw_spec \<Rightarrow> 'd res" where
  "getSwagger loadFromData resolvePath rawSpec =
     bindR (rawSpec ()) (\<lambda>specData. loadFromData (readFromURI resolvePath) specData)"

text \<open>The document of the server, the common document, and the server that asks for it while it is built.\<close>

definition serverSwagger ::
  "('z, 'b) spec_lib \<Rightarrow> ((string \<Rightarrow> 'b res) \<Rightarrow> 'b \<Rightarrow> 'd res) \<Rightarrow> string list \<Rightarrow> string list \<Rightarrow> 'd res" where
  "serverSwagger lib loadFromData swaggerSpec commonSpec =
     (let rawSpec = decodeSpecCached lib swaggerSpec
      in getSwagger loadFromData (pathToRawSpec rawSpec (decodeSpecCached lib commonSpec) []) rawSpec)"

definition commonSwagger ::
  "('z, 'b) spec_lib \<Rightarrow> ((string \<Rightarrow> 'b res) \<Rightarrow> 'b \<Rightarrow> 'd res) \<Rightarrow> string list \<Rightarrow> 'd res" where
  "commonSwagger lib loadFromData commonSpec =
     (let rawSpec = decodeSpecCached lib commonSpec
      in getSwagger loadFromData (commonPathToRawSpec rawSpec []) rawSpec)"

definition with_spec :: "'d res \<Rightarrow> ('km, 'mg, 'ev, 'ip, 'vp, 'w) build_env \<Rightarrow> ('km, 'mg, 'ev, 'ip, 'vp, 'w) build_env" where
  "with_spec swagger b = b\<lparr>be_swagger := bindR swagger (\<lambda>_. Ok ())\<rparr>"

subsection \<open>Clean paths\<close>

text \<open>The stacks that \<open>path.Clean\<close> builds: proper components, above them nothing but \<open>..\<close>, and those only in a
  path that is not rooted.\<close>

fun clean_stack :: "bool \<Rightarrow> string list \<Rightarrow> bool" where
  "clean_stack rooted [] = True"
| "clean_stack rooted (c # s) \<longleftrightarrow> c \<noteq> [] \<and> c \<noteq> ''.'' \<and> CHR ''/'' \<notin> set c
     \<and> (c = ''..'' \<longrightarrow> \<not> rooted \<and> (case s of [] \<Rightarrow> True | t # _ \<Rightarrow> t = ''..'')) \<and> clean_stack rooted s"

lemma clean_step_stack: "clean_stack r s \<Longrightarrow> CHR ''/'' \<notin> set c \<Longrightarrow> clean_stack r (clean_step r s c)"
  by (cases s) auto

lemma clean_fold_stack: "clean_stack r s \<Longrightarrow> \<forall>c \<in> set cs. CHR ''/'' \<notin> set c \<Longrightarrow> clean_stack r (foldl (clean_step r) s cs)"
  by (induction cs arbitrary: s) (simp_all add: clean_step_stack del: clean_step.simps)

lemma clean_step_push: "clean_stack r (c # s) \<Longrightarrow> clean_step r s c = c # s"
  by (cases s) auto

lemma clean_fold_same: "clean_stack r s \<Longrightarrow> foldl (clean_step r) [] (rev s) = s"
proof (induction s)
  case (Cons c s)
  then show ?case using clean_step_push [OF Cons.prems] by (simp del: clean_step.simps)
qed simp

lemma clean_stack_parts: "clean_stack r s \<Longrightarrow> c \<in> set s \<Longrightarrow> c \<noteq> [] \<and> CHR ''/'' \<notin> set c"
  by (induction s) auto

lemma hd_join: "xs \<noteq> [] \<Longrightarrow> hd xs \<noteq> [] \<Longrightarrow> join_with sep xs \<noteq> [] \<and> hd (join_with sep xs) = hd (hd xs)"
  by (induction sep xs rule: join_with.induct) auto

lemma clean_fold_body:
  assumes "clean_stack r s"
  shows "foldl (clean_step r) [] (split_on CHR ''/'' (join_with ''/'' (rev s))) = s"
proof (cases "s = []")
  case False
  then show ?thesis
    using split_join [of "rev s" "CHR ''/''"] clean_stack_parts [OF assms] clean_fold_same [OF assms] by simp
qed simp

text \<open>Cleaning a path twice is cleaning it once.\<close>

theorem path_clean_idem: "path_clean (path_clean p) = path_clean p"
proof (cases "p = []")
  case True
  then show ?thesis by (simp add: path_clean_def Let_def)
next
  case False
  define r s where "r = (hd p = CHR ''/'')" and "s = foldl (clean_step r) [] (split_on CHR ''/'' p)"
  have st: "clean_stack r s" unfolding s_def by (rule clean_fold_stack) (auto dest: split_on_parts)
  have p: "path_clean p = (if r then CHR ''/'' # join_with ''/'' (rev s)
      else if join_with ''/'' (rev s) = [] then ''.'' else join_with ''/'' (rev s))"
    using False by (simp add: path_clean_def Let_def r_def s_def)
  show ?thesis
  proof (cases "s = []")
    case True
    then show ?thesis by (simp add: p) (simp add: path_clean_def Let_def)
  next
    case False
    have l: "hd (rev s) \<noteq> []" "CHR ''/'' \<notin> set (hd (rev s))"
      using clean_stack_parts [OF st, of "last s"] False by (simp_all add: hd_rev)
    have j: "join_with ''/'' (rev s) \<noteq> []" "hd (join_with ''/'' (rev s)) \<noteq> CHR ''/''"
      using hd_join [of "rev s" "''/''"] False l hd_in_set [OF l(1)] by (metis rev_is_Nil_conv)+
    show ?thesis
      using j clean_fold_body [OF st] by (cases r) (simp_all add: p, simp_all add: path_clean_def Let_def)
  qed
qed

subsection \<open>References of the document\<close>

lemma common_path: "path_join [path_dir [], ''./common.yaml''] = ''common.yaml''"
  by (simp add: path_join_def path_dir_def path_clean_def Let_def)

text \<open>Whatever reference the document of the server makes, only the embedded common document can be read: the
  reference resolves when its cleaned path is the common file, with the outcome of decoding that document, and
  anything else is not found. The common document resolves no reference.\<close>

theorem spec_references:
  "readFromURI (pathToRawSpec own (decodeSpecCached lib commonSpec) []) url =
     (if path_clean url = ''common.yaml'' then decodeSpec lib commonSpec
      else Err (ErrMsg (''path not found: '' @ path_clean url)))"
  "readFromURI (commonPathToRawSpec common []) url = Err (ErrMsg (''path not found: '' @ path_clean url))"
  by (simp_all add: readFromURI_def pathToRawSpec_def commonPathToRawSpec_def common_path decodeSpecCached_def Let_def)

text \<open>A document that cannot be decoded stops the server before anything else of it is built, with the text of
  the failure.\<close>

theorem spec_stops_server:
  assumes "decodeSpec lib swaggerSpec = Err e"
  shows "buildEchoHandler (with_spec (serverSwagger lib loadFromData swaggerSpec commonSpec) b) p w
    = (Err (ErrWrap ''failed to get openapi spec: '' e), w)"
  using assms
  by (simp add: buildEchoHandler_def buildIssuing_def with_spec_def serverSwagger_def getSwagger_def decodeSpecCached_def Let_def pure_op_def)

definition demo_spec_lib :: "(string, string) spec_lib" where
  "demo_spec_lib = \<lparr>sp_base64 = (\<lambda>s. if s = [] then Err (ErrExt ''no data'') else Ok s), sp_gzip = Ok, sp_readFrom = Ok\<rparr>"

lemma spec_stops_demo:
  "buildEchoHandler (with_spec (serverSwagger demo_spec_lib (\<lambda>_. Ok) [] [''c'']) b0) p0 w0
    = (Err (ErrWrap ''failed to get openapi spec: '' (ErrMsg ''error base64 decoding spec: no data'')), w0)"
  by (rule spec_stops_server) (simp add: decodeSpec_def demo_spec_lib_def textErr_def)

end
