(* ===== verification/Service_Entry.thy ===== *)
theory Service_Entry
  imports Startup_Config Api_Server Lifecycle Oidc4vp_Service Oidc4vc_Controller
begin

text \<open>
  What stands between the start command and the services: the \<open>main\<close> function, the JSON-LD stores and the
  document loader of \<open>pkg/ld\<close>, the constructor of the OIDC4VP service, the options of a lifecycle, the publisher of
  \<open>component/event\<close> and the errors of \<open>pkg/restapi/resterr/fosite.go\<close> with the requester they carry. The Aries
  and cobra libraries are parameters.
\<close>

subsection \<open>The main function\<close>

text \<open>A cobra command with its subcommands; \<open>Run\<close> of the root command prints the help text.\<close>

record ('sub, 'w) root_command =
  rc_Use :: string
  rc_Run :: "string list \<Rightarrow> 'w \<Rightarrow> unit res \<times> 'w"
  rc_Commands :: "'sub list"

datatype process_end = Returned | Exited int | Panicked go_panic

text \<open>\<open>logger.Fatal\<close> writes the message and ends the process with status 1; \<open>fatal\<close> is the writing.\<close>

definition vcs_main ::
  "(('sub, 'w) root_command \<Rightarrow> 'w \<Rightarrow> unit res \<times> 'w) \<Rightarrow> (string list \<Rightarrow> 'w \<Rightarrow> unit res \<times> 'w)
     \<Rightarrow> (string \<Rightarrow> go_error \<Rightarrow> 'w \<Rightarrow> 'w) \<Rightarrow> 'sub \<Rightarrow> 'w \<Rightarrow> process_end \<times> 'w" where
  "vcs_main execute help fatal startCmd w =
     (case execute \<lparr>rc_Use = ''vc-rest'', rc_Run = help, rc_Commands = [startCmd]\<rparr> w of
        (Ok _, w) \<Rightarrow> (Returned, w)
      | (Err e, w) \<Rightarrow> (Exited 1, fatal ''Failed to run vc-rest'' e w)
      | (Panic p, w) \<Rightarrow> (Panicked p, w))"

text \<open>\<open>getDuration\<close> of the start command; the parser of durations is a parameter.\<close>

definition getDuration :: "(string \<Rightarrow> int res) \<Rightarrow> cmd_env \<Rightarrow> string \<Rightarrow> string \<Rightarrow> int \<Rightarrow> int res" where
  "getDuration parseDuration e flag_name env_key defaultDuration =
     bindR (getUserSetVarFromString e flag_name env_key True) (\<lambda>timeoutStr.
     if timeoutStr = [] then Ok defaultDuration
     else wrapR (''invalid value ['' @ timeoutStr @ '']: '') (parseDuration timeoutStr))"

subsection \<open>JSON-LD stores and document loader\<close>

record ('c, 'r) ld_stores =
  ls_ContextStore :: 'c
  ls_RemoteProviderStore :: 'r

definition newStoreProvider :: "('prov \<Rightarrow> 'c res) \<Rightarrow> ('prov \<Rightarrow> 'r res) \<Rightarrow> 'prov \<Rightarrow> ('c, 'r) ld_stores res" where
  "newStoreProvider newContextStore newRemoteProviderStore storageProvider =
     bindR (wrapR ''create JSON-LD context store: '' (newContextStore storageProvider)) (\<lambda>contextStore.
     bindR (wrapR ''create remote provider store: '' (newRemoteProviderStore storageProvider)) (\<lambda>remoteProviderStore.
     Ok \<lparr>ls_ContextStore = contextStore, ls_RemoteProviderStore = remoteProviderStore\<rparr>))"

text \<open>The options of the library's loader: those of the caller and documents added to the contexts it embeds. The
  content of the embedded file is the parameter \<open>vocab\<close>.\<close>

datatype 'b ld_option = CallerOption loader_option | ExtraContexts "(string \<times> 'b) list"

definition embedContexts :: "'b \<Rightarrow> (string \<times> 'b) list" where
  "embedContexts vocab = [(''https://w3c-ccg.github.io/lds-jws2020/contexts/lds-jws2020-v1.json'', vocab)]"

definition newDocumentLoader ::
  "(('c, 'r) ld_stores \<Rightarrow> 'b ld_option list \<Rightarrow> 'l res) \<Rightarrow> 'b \<Rightarrow> ('c, 'r) ld_stores \<Rightarrow> loader_option list \<Rightarrow> 'l res" where
  "newDocumentLoader ariesLoader vocab p opts =
     wrapR ''new document loader: '' (ariesLoader p (map CallerOption opts @ [ExtraContexts (embedContexts vocab)]))"

text \<open>The configuration of the server with these constructors.\<close>

record ('pool, 'prov, 'res, 'c, 'r, 'b, 'l) ld_env =
  le_GetCertPool :: "bool \<Rightarrow> string list \<Rightarrow> 'pool res"
  le_MongoProvider :: "string \<Rightarrow> string \<Rightarrow> 'prov res"
  le_Resolver :: "string \<Rightarrow> 'res res"
  le_ContextStore :: "'prov \<Rightarrow> 'c res"
  le_RemoteProviderStore :: "'prov \<Rightarrow> 'r res"
  le_AriesLoader :: "('c, 'r) ld_stores \<Rightarrow> 'b ld_option list \<Rightarrow> 'l res"
  le_Vocab :: 'b

definition config_of :: "('pool, 'prov, 'res, 'c, 'r, 'b, 'l) ld_env \<Rightarrow> ('pool, 'prov, 'res, ('c, 'r) ld_stores, 'l) config_env" where
  "config_of e =
     \<lparr>se_GetCertPool = le_GetCertPool e, se_MongoProvider = le_MongoProvider e, se_Resolver = le_Resolver e,
      se_LdStore = newStoreProvider (le_ContextStore e) (le_RemoteProviderStore e),
      se_DocumentLoader = newDocumentLoader (le_AriesLoader e) (le_Vocab e)\<rparr>"

subsection \<open>The OIDC4VP service\<close>

text \<open>\<open>oidc4vp.Config\<close>. The library functions that take the document loader and the key fetcher are in \<open>vp_library\<close>.\<close>

record ('pd, 'k, 'dl, 'pk, 'm, 'w) vp_config =
  vc_TransactionManager :: "('pd, 'w) tx_mgr"
  vc_RequestObjectPublicStore :: "string \<Rightarrow> event \<Rightarrow> 'w \<Rightarrow> string res \<times> 'w"
  vc_KMSRegistry :: "'k key_manager"
  vc_DocumentLoader :: 'dl
  vc_ProfileService :: "string \<rightharpoonup> 'pd verifier"
  vc_EventSvc :: "string \<Rightarrow> event list \<Rightarrow> 'w \<Rightarrow> unit res \<times> 'w"
  vc_PresentationVerifier :: "presentation \<Rightarrow> verify_opts option \<Rightarrow> 'pd verifier \<Rightarrow> check_result list res"
  vc_PublicKeyFetcher :: 'pk
  vc_RedirectURL :: string
  vc_TokenLifetime :: int
  vc_Metrics :: "'m option"

record ('pd, 'k, 't, 'j, 'dl, 'pk) vp_library =
  vl_match :: "'dl \<Rightarrow> 'pk \<Rightarrow> 'pd \<Rightarrow> presentation \<Rightarrow> claims res"
  vl_marshalVP :: "presentation \<Rightarrow> json res"
  vl_subjectID :: "vc_subject \<Rightarrow> string res"
  vl_parseJWT :: "string \<Rightarrow> 'j res"
  vl_decodeSub :: "'j \<Rightarrow> string res"
  vl_keyTypeName :: "key_type \<Rightarrow> string"
  vl_newSigned :: "'pd auth_request \<Rightarrow> 'k jws_signer \<Rightarrow> 't res"
  vl_serialize :: "'t \<Rightarrow> string res"

text \<open>\<open>NewService\<close>: the service and the metrics it times verifications with, the noop metrics when none are given.\<close>

definition newOidc4vpService ::
  "('pd, 'k, 't, 'j, 'dl, 'pk) vp_library \<Rightarrow> 'm \<Rightarrow> ('pd, 'k, 'dl, 'pk, 'm, 'w) vp_config
     \<Rightarrow> ('pd, 'k, 't, 'j, 'w) vp_service \<times> 'm" where
  "newOidc4vpService lib noMetrics cfg =
     (let metrics = (case vc_Metrics cfg of None \<Rightarrow> noMetrics | Some m \<Rightarrow> m)
      in (\<lparr>vs_mgr = vc_TransactionManager cfg, vs_publishRO = vc_RequestObjectPublicStore cfg, vs_send = vc_EventSvc cfg,
           vs_defaultKM = vc_KMSRegistry cfg, vs_profiles = vc_ProfileService cfg, vs_verify = vc_PresentationVerifier cfg,
           vs_marshalVP = vl_marshalVP lib, vs_match = vl_match lib (vc_DocumentLoader cfg) (vc_PublicKeyFetcher cfg),
           vs_subjectID = vl_subjectID lib, vs_parseJWT = vl_parseJWT lib, vs_decodeSub = vl_decodeSub lib,
           vs_keyTypeName = vl_keyTypeName lib, vs_newSigned = vl_newSigned lib, vs_serialize = vl_serialize lib,
           vs_redirectURL = vc_RedirectURL cfg, vs_tokenLifetime = vc_TokenLifetime cfg\<rparr>, metrics))"

text \<open>The two settings that \<open>buildEchoHandler\<close> gives it.\<close>

definition server_vp_config ::
  "startup_params \<Rightarrow> ('pd, 'k, 'dl, 'pk, 'm, 'w) vp_config \<Rightarrow> ('pd, 'k, 'dl, 'pk, 'm, 'w) vp_config" where
  "server_vp_config p cfg = cfg\<lparr>vc_RedirectURL := ss_redirectURL (settings_of p), vc_TokenLifetime := 15 * 60 * 1000000000\<rparr>"

subsection \<open>Options of a lifecycle\<close>

record 'w lc_options =
  lo_start :: "'w \<Rightarrow> 'w"
  lo_stop :: "'w \<Rightarrow> 'w"

definition withStart :: "('w \<Rightarrow> 'w) \<Rightarrow> 'w lc_options \<Rightarrow> 'w lc_options" where
  "withStart f opts = opts\<lparr>lo_start := f\<rparr>"

definition withStop :: "('w \<Rightarrow> 'w) \<Rightarrow> 'w lc_options \<Rightarrow> 'w lc_options" where
  "withStop f opts = opts\<lparr>lo_stop := f\<rparr>"

definition newOptions :: "('w lc_options \<Rightarrow> 'w lc_options) list \<Rightarrow> 'w lc_options" where
  "newOptions opts = foldl (\<lambda>o1 opt. opt o1) \<lparr>lo_start = id, lo_stop = id\<rparr> opts"

fun run_hook :: "'w lc_options \<Rightarrow> lc_hook \<Rightarrow> 'w \<Rightarrow> 'w" where
  "run_hook o1 StartHook = lo_start o1"
| "run_hook o1 StopHook = lo_stop o1"

subsection \<open>The publisher\<close>

definition publisherPublish :: "(string \<Rightarrow> 'e list \<Rightarrow> 'w \<Rightarrow> unit res \<times> 'w) \<Rightarrow> string \<Rightarrow> 'e list \<Rightarrow> 'w \<Rightarrow> unit res \<times> 'w" where
  "publisherPublish pub topic events = pub topic events"

subsection \<open>Errors of the OAuth2 provider\<close>

record ('ar, 'qr) fosite_error =
  fe_err :: go_error
  fe_code :: fosite_code
  fe_authorizeRequester :: "'ar option"
  fe_accessRequester :: "'qr option"

definition createFositeError :: "fosite_code \<Rightarrow> go_error \<Rightarrow> ('ar, 'qr) fosite_error" where
  "createFositeError code e = \<lparr>fe_err = e, fe_code = code, fe_authorizeRequester = None, fe_accessRequester = None\<rparr>"

definition withAuthorizeRequester :: "'ar \<Rightarrow> ('ar, 'qr) fosite_error \<Rightarrow> ('ar, 'qr) fosite_error" where
  "withAuthorizeRequester requester e = e\<lparr>fe_authorizeRequester := Some requester\<rparr>"

definition withAccessRequester :: "'qr \<Rightarrow> ('ar, 'qr) fosite_error \<Rightarrow> ('ar, 'qr) fosite_error" where
  "withAccessRequester requester e = e\<lparr>fe_accessRequester := Some requester\<rparr>"

definition fositeErrorText :: "('ar, 'qr) fosite_error \<Rightarrow> string" where
  "fositeErrorText e = err_text (fe_err e)"

datatype ('ar, 'qr) writer_call =
    WriteAuthorizeError "'ar option" go_error
  | WriteAccessError "'qr option" go_error
  | WriteIntrospectionError go_error
  | WritePushedAuthorizeError "'ar option" go_error

fun fositeErrorWrite :: "('ar, 'qr) fosite_error \<Rightarrow> (('ar, 'qr) writer_call \<Rightarrow> 'w \<Rightarrow> 'w) \<Rightarrow> 'w \<Rightarrow> unit res \<times> 'w" where
  "fositeErrorWrite e call w =
     (case fe_code e of
        FositeAuthorizeError \<Rightarrow> (Ok (), call (WriteAuthorizeError (fe_authorizeRequester e) (fe_err e)) w)
      | FositeAccessError \<Rightarrow> (Ok (), call (WriteAccessError (fe_accessRequester e) (fe_err e)) w)
      | FositeIntrospectionError \<Rightarrow> (Ok (), call (WriteIntrospectionError (fe_err e)) w)
      | FositePARError \<Rightarrow> (Ok (), call (WritePushedAuthorizeError (fe_authorizeRequester e) (fe_err e)) w)
      | FositeOtherCode n \<Rightarrow> (Err (ErrWrap (''usupported fosite error code '' @ format_int n @ '', err '') (fe_err e)), w))"

text \<open>The error value of the prelude, which forgets the requester.\<close>

definition as_error :: "('ar, 'qr) fosite_error \<Rightarrow> go_error" where
  "as_error e = ErrFosite (fe_code e) (fe_err e)"

subsection \<open>Lemmas\<close>

text \<open>The process started as \<open>vc-rest start\<close>: cobra runs the subcommand.\<close>

definition vcs_process where
  "vcs_process env build http_server opts help fatal e =
     vcs_main (\<lambda>r. hd (rc_Commands r)) help fatal (runStart env build http_server opts e)"

text \<open>Whatever fails before the server listens
  ends the process with status 1 and the wrapped cause in the log.\<close>

lemma startup_failure_exits:
  "getStartupParameters e = Err x \<Longrightarrow>
      vcs_process env build http_server opts help fatal e w
        = (Exited 1, fatal ''Failed to run vc-rest'' (ErrWrap ''failed to get startup parameters: '' x) w)"
  "getStartupParameters e = Ok p \<Longrightarrow> prepareConfiguration env p = Err x \<Longrightarrow>
      vcs_process env build http_server opts help fatal e w
        = (Exited 1, fatal ''Failed to run vc-rest'' (ErrWrap ''failed to prepare configuration: '' x) w)"
  "getStartupParameters e = Ok p \<Longrightarrow> prepareConfiguration env p = Ok conf \<Longrightarrow> build conf w = (Err x, w') \<Longrightarrow>
      vcs_process env build http_server opts help fatal e w
        = (Exited 1, fatal ''Failed to run vc-rest'' (ErrWrap ''failed to build echo handler: '' x) w')"
  by (simp_all add: vcs_process_def vcs_main_def runStart_def pure_op_def wrapS_def)

text \<open>The loader of a started server: it reads the stores opened on the edge storage, asks exactly the remote
  providers of the parameters, in their order, loads documents from anywhere only when the parameter says so,
  and always has the embedded context.\<close>

theorem loader_of_configuration:
  assumes "prepareConfiguration (config_of e) p = Ok cf"
  shows "le_AriesLoader e (cf_LDContextStore cf)
      (map (\<lambda>url. CallerOption (RemoteProvider url)) (sp_contextProviderURLs p)
        @ (if sp_contextEnableRemote p then [CallerOption RemoteDocumentLoader] else [])
        @ [ExtraContexts (embedContexts (le_Vocab e))]) = Ok (cf_DocumentLoader cf)"
    and "le_ContextStore e (cf_Storage cf) = Ok (ls_ContextStore (cf_LDContextStore cf))"
    and "le_RemoteProviderStore e (cf_Storage cf) = Ok (ls_RemoteProviderStore (cf_LDContextStore cf))"
  using assms
  by (auto simp: prepareConfiguration_def config_of_def newStoreProvider_def newDocumentLoader_def
      createJSONLDDocumentLoader_def comp_def)

text \<open>A request object of the server lives a quarter of an hour, and asks the wallet to answer at a path that the
  server routes and that needs no API key, under its external address.\<close>

theorem request_object_of_server:
  fixes cfg :: "('pd, 'k, 'dl, 'pk, 'm, 'w) vp_config" and lib and noMetrics and p
  defines "ro \<equiv> createRequestObject (fst (newOidc4vpService lib noMetrics (server_vp_config p cfg)))"
  shows "rq_Exp (ro pd formats tx nonce purpose profile signing uuid now)
      = rq_IAT (ro pd formats tx nonce purpose profile signing uuid now) + 900"
    and "rq_RedirectURI (ro pd formats tx nonce purpose profile signing uuid now)
      = sp_hostURLExternal p @ oidc4VPCheckEndpoint"
    and "publicPath oidc4VPCheckEndpoint"
    and "routed verifier_routes \<lparr>hq_Method = ''POST'', hq_Path = oidc4VPCheckEndpoint, hq_Header = h\<rparr>"
proof -
  show "rq_Exp (ro pd formats tx nonce purpose profile signing uuid now)
      = rq_IAT (ro pd formats tx nonce purpose profile signing uuid now) + 900"
    by (simp add: ro_def createRequestObject_def newOidc4vpService_def server_vp_config_def unix_time_def)
  show "rq_RedirectURI (ro pd formats tx nonce purpose profile signing uuid now)
      = sp_hostURLExternal p @ oidc4VPCheckEndpoint"
    by (simp add: ro_def createRequestObject_def newOidc4vpService_def server_vp_config_def settings_of_def)
  show "publicPath oidc4VPCheckEndpoint"
    by (simp add: publicPath_def oidc4VPCheckEndpoint_def has_prefix_def has_suffix_def to_lower_def lower_char_def Let_def)
  show "routed verifier_routes \<lparr>hq_Method = ''POST'', hq_Path = oidc4VPCheckEndpoint, hq_Header = h\<rparr>"
    by (simp add: routed_def verifier_routes_def path_segments_def oidc4VPCheckEndpoint_def)
qed

lemma newOptions_last: "newOptions (opts @ [withStart f]) = (newOptions opts)\<lparr>lo_start := f\<rparr>"
    "newOptions (opts @ [withStop f]) = (newOptions opts)\<lparr>lo_stop := f\<rparr>"
  by (simp_all add: newOptions_def withStart_def withStop_def)

text \<open>The effect of a service on the world is that of its start function, or of the start and then the stop
  function, or nothing, however its calls interleave.\<close>

theorem lifecycle_effects:
  assumes "lc_reach l"
  shows "fold (run_hook (newOptions opts)) (lf_hooks l) w
    \<in> {w, lo_start (newOptions opts) w, lo_stop (newOptions opts) (lo_start (newOptions opts) w)}"
  using lc_reach_inv [OF assms] by (auto simp: lc_inv_def split: lc_state.splits)

text \<open>Writing an error of the provider agrees with what the error handler makes of the error value, and the
  requester of the authorization or access request reaches the writer.\<close>

theorem fosite_write_agrees:
  "fst (fositeErrorWrite e call w) = (case fositeWrite (fe_code e) (fe_err e) of None \<Rightarrow> Ok () | Some x \<Rightarrow> Err x)"
  "as_fosite (as_error e) = Some (fe_code e, fe_err e)"
  "err_text (as_error e) = fositeErrorText e"
  "as_error (withAuthorizeRequester ar (createFositeError code x)) = newFositeError code x"
  "fositeErrorWrite (withAuthorizeRequester ar (createFositeError FositeAuthorizeError x)) call w
     = (Ok (), call (WriteAuthorizeError (Some ar) x) w)"
  "fositeErrorWrite (withAuthorizeRequester ar (createFositeError FositePARError x)) call w
     = (Ok (), call (WritePushedAuthorizeError (Some ar) x) w)"
  "fositeErrorWrite (withAccessRequester qr (createFositeError FositeAccessError x)) call w
     = (Ok (), call (WriteAccessError (Some qr) x) w)"
  by (simp_all add: fositeWrite_def as_error_def fositeErrorText_def withAuthorizeRequester_def withAccessRequester_def
      createFositeError_def newFositeError_def split: fosite_code.split)

text \<open>An absent duration is the default one; a text that is no duration is reported with the text.\<close>

lemma getDuration_cases:
  "getUserSetVarFromString e flag_name env_key True = Ok [] \<Longrightarrow> getDuration parse e flag_name env_key d = Ok d"
  "getUserSetVarFromString e flag_name env_key True = Ok (c # s) \<Longrightarrow>
     getDuration parse e flag_name env_key d = wrapR (''invalid value ['' @ (c # s) @ '']: '') (parse (c # s))"
  by (simp_all add: getDuration_def)

end
