(* ===== verification/Log_Concurrency.thy ===== *)
theory Log_Concurrency
  imports Log_Levels
begin

text \<open>
  The lock of \<open>moduleLevels\<close> in \<open>internal/pkg/log/logger.go\<close>: \<open>Get\<close> and \<open>Set\<close> read and write the map of levels while they
  hold the read or the write lock, \<open>All\<close> takes the reference of the map under the read lock and ranges over it
  after the lock is released. Every goroutine is at a point of one of these calls, each step is a locked
  operation or the access it protects, and any number of goroutines interleave.
\<close>

subsection \<open>The steps\<close>

text \<open>Between calls; holding the read lock in \<open>Get\<close>, before the lookup and after it; holding the write lock in
  \<open>Set\<close>, before the map is written and after it; holding the read lock in \<open>All\<close>; ranging over the map in \<open>All\<close>, with
  no lock.\<close>

datatype level_pc =
    Outside
  | GetLocked string
  | GetRead int
  | SetLocked string int
  | SetWritten
  | AllLocked
  | AllRanging

record level_store =
  lv_levels :: module_levels
  lv_pc :: "nat \<Rightarrow> level_pc"

fun read_locked :: "level_pc \<Rightarrow> bool" where
  "read_locked (GetLocked m) = True"
| "read_locked (GetRead l) = True"
| "read_locked AllLocked = True"
| "read_locked _ = False"

fun write_locked :: "level_pc \<Rightarrow> bool" where
  "write_locked (SetLocked m l) = True"
| "write_locked SetWritten = True"
| "write_locked _ = False"

text \<open>\<open>sync.RWMutex\<close>: the read lock is free when nobody writes, the write lock when nobody holds either.\<close>

definition can_RLock :: "level_store \<Rightarrow> bool" where
  "can_RLock s \<longleftrightarrow> (\<forall>t. \<not> write_locked (lv_pc s t))"

definition can_Lock :: "level_store \<Rightarrow> bool" where
  "can_Lock s \<longleftrightarrow> (\<forall>t. \<not> write_locked (lv_pc s t) \<and> \<not> read_locked (lv_pc s t))"

definition at_pc :: "nat \<Rightarrow> level_pc \<Rightarrow> level_store \<Rightarrow> level_store" where
  "at_pc t pc s = s\<lparr>lv_pc := (lv_pc s)(t := pc)\<rparr>"

inductive level_step :: "level_store \<Rightarrow> level_store \<Rightarrow> bool" where
  get_rlock: "lv_pc s t = Outside \<Longrightarrow> can_RLock s \<Longrightarrow> level_step s (at_pc t (GetLocked m) s)"
| get_read: "lv_pc s t = GetLocked m \<Longrightarrow> level_step s (at_pc t (GetRead (getLevel (lv_levels s) m)) s)"
| get_runlock: "lv_pc s t = GetRead l \<Longrightarrow> level_step s (at_pc t Outside s)"
| set_lock: "lv_pc s t = Outside \<Longrightarrow> can_Lock s \<Longrightarrow> level_step s (at_pc t (SetLocked m l) s)"
| set_write: "lv_pc s t = SetLocked m l \<Longrightarrow>
     level_step s (at_pc t SetWritten (s\<lparr>lv_levels := setLevel m l (lv_levels s)\<rparr>))"
| set_unlock: "lv_pc s t = SetWritten \<Longrightarrow> level_step s (at_pc t Outside s)"
| all_rlock: "lv_pc s t = Outside \<Longrightarrow> can_RLock s \<Longrightarrow> level_step s (at_pc t AllLocked s)"
| all_runlock: "lv_pc s t = AllLocked \<Longrightarrow> level_step s (at_pc t AllRanging s)"
| all_copied: "lv_pc s t = AllRanging \<Longrightarrow> level_step s (at_pc t Outside s)"

inductive level_reach :: "level_store \<Rightarrow> bool" where
  level_init: "level_reach \<lparr>lv_levels = ls, lv_pc = (\<lambda>_. Outside)\<rparr>"
| level_next: "level_reach s \<Longrightarrow> level_step s s' \<Longrightarrow> level_reach s'"

text \<open>Go's run time stops the process when a map is written while another goroutine reads it or ranges over it.\<close>

fun accesses :: "level_pc \<Rightarrow> bool" where
  "accesses (GetLocked m) = True"
| "accesses (SetLocked m l) = True"
| "accesses AllRanging = True"
| "accesses _ = False"

definition map_race :: "level_store \<Rightarrow> bool" where
  "map_race s \<longleftrightarrow> (\<exists>t u m l. t \<noteq> u \<and> lv_pc s t = SetLocked m l \<and> accesses (lv_pc s u))"

subsection \<open>Mutual exclusion\<close>

definition excl :: "level_store \<Rightarrow> bool" where
  "excl s \<longleftrightarrow> (\<forall>t u. write_locked (lv_pc s t) \<and> u \<noteq> t \<longrightarrow> \<not> write_locked (lv_pc s u) \<and> \<not> read_locked (lv_pc s u))"

lemma lv_pc_at [simp]: "lv_pc (at_pc t pc s) = (lv_pc s)(t := pc)"
  by (simp add: at_pc_def)

text \<open>A thread may move as long as its new point holds no more than its old one.\<close>

lemma excl_move:
  assumes "excl s"
    and "write_locked pc \<Longrightarrow> write_locked (lv_pc s t)" "read_locked pc \<Longrightarrow> read_locked (lv_pc s t) \<or> write_locked (lv_pc s t)"
  shows "excl (at_pc t pc s)"
  using assms unfolding excl_def lv_pc_at by (metis fun_upd_apply)

lemma excl_levels [simp]: "excl (s\<lparr>lv_levels := ls\<rparr>) = excl s"
  by (simp add: excl_def)

lemma excl_RLock: "can_RLock s \<Longrightarrow> \<not> write_locked pc \<Longrightarrow> excl (at_pc t pc s)"
  by (auto simp: can_RLock_def excl_def)

lemma excl_Lock: "can_Lock s \<Longrightarrow> excl (at_pc t pc s)"
  by (auto simp: can_Lock_def excl_def)

lemma level_step_excl: "level_step s s' \<Longrightarrow> excl s \<Longrightarrow> excl s'"
proof (induction rule: level_step.induct)
  case (get_rlock s t m)
  then show ?case by (simp add: excl_RLock)
next
  case (set_lock s t m l)
  then show ?case by (simp add: excl_Lock)
next
  case (all_rlock s t)
  then show ?case by (simp add: excl_RLock)
qed (rule excl_move; simp)+

lemma level_reach_excl: "level_reach s \<Longrightarrow> excl s"
proof (induction rule: level_reach.induct)
  case (level_init ls)
  show ?case by (simp add: excl_def)
qed (rule level_step_excl)

text \<open>\<open>Get\<close> and \<open>Set\<close> never touch the map together: in a race of a reachable state the other goroutine is in the
  loop of \<open>All\<close>.\<close>

theorem races_only_with_All:
  assumes "level_reach s" "lv_pc s t = SetLocked m l" "t \<noteq> u" "accesses (lv_pc s u)"
  shows "lv_pc s u = AllRanging"
  using level_reach_excl [OF assms(1)] assms(2-) unfolding excl_def
  by (cases "lv_pc s u") (metis read_locked.simps(1) write_locked.simps(1) accesses.simps)+

text \<open>What a \<open>Get\<close> has read is the level of the map at the moment its lock is released: no write happens in between.\<close>

definition got :: "level_store \<Rightarrow> bool" where
  "got s \<longleftrightarrow> (\<forall>t l. lv_pc s t = GetRead l \<longrightarrow> (\<exists>m. l = getLevel (lv_levels s) m))"

lemma level_step_got: "level_step s s' \<Longrightarrow> excl s \<Longrightarrow> got s \<Longrightarrow> got s'"
proof (induction rule: level_step.induct)
  case (set_write s t m l)
  have "lv_pc s u \<noteq> GetRead k" for u k
  proof (cases "u = t")
    case False
    then have "\<not> read_locked (lv_pc s u)" using set_write unfolding excl_def by (metis write_locked.simps(1))
    then show ?thesis by auto
  qed (simp add: set_write)
  then show ?case by (simp add: got_def at_pc_def)
qed (auto simp: got_def at_pc_def)

theorem get_sees_current_level:
  assumes "level_reach s" "lv_pc s t = GetRead l"
  shows "\<exists>m. l = getLevel (lv_levels s) m"
proof -
  have "got s" using assms(1)
  proof (induction rule: level_reach.induct)
    case (level_init ls)
    show ?case by (simp add: got_def)
  next
    case (level_next s s')
    then show ?case using level_step_got level_reach_excl by blast
  qed
  then show ?thesis using assms(2) by (simp add: got_def)
qed

subsection \<open>The race\<close>

text \<open>But \<open>All\<close> ranges over the map itself, not a copy, without the lock: there is a schedule of one \<open>All\<close> and one
  \<open>Set\<close> that writes the map while it is ranged over.\<close>

theorem All_races_with_Set: "\<exists>s. level_reach s \<and> map_race s"
proof -
  let ?s0 = "\<lparr>lv_levels = Map.empty, lv_pc = (\<lambda>_. Outside)\<rparr>"
  let ?s2 = "at_pc 0 AllRanging (at_pc 0 AllLocked ?s0)"
  let ?s3 = "at_pc 1 (SetLocked ''m'' DEBUG) ?s2"
  have "level_reach (at_pc 0 AllLocked ?s0)"
    by (rule level_next [OF level_init all_rlock]) (simp_all add: can_RLock_def)
  then have "level_reach ?s2" by (rule level_next) (rule all_runlock, simp)
  then have "level_reach ?s3" by (rule level_next) (rule set_lock, simp_all add: can_Lock_def)
  moreover have "map_race ?s3"
    unfolding map_race_def by (intro exI [of _ 1] exI [of _ 0] exI [of _ "''m''"] exI [of _ DEBUG]) simp
  ultimately show ?thesis by blast
qed

end
