(* ===== verification/Spec2Isabelle.thy ===== *)
theory Spec2Isabelle
  imports Nonce_Store Status_Allocation Revocation_Flow Revocation Verify_Presentation Request_Object
    Oidc4vp_Service Profile_Reader Event_Bus Issuer_Controller Oidc4vc_Controller
    Verifier_Controller Fosite_Store Startup_Config Edge_Storage Log_Levels Cert_Pool
    Did_Configuration Http_Clients Key_Creator Api_Server Api_Dispatch Profile_File Mongo_Indexes Issuer_Client Log_Setup Metrics Public_Api Issued_Format Typed_Client Mongo_Documents
    Api_Spec Service_Entry Log_Concurrency
begin

text \<open>
  Verification development of the verifiable credential service (vcs), a Go server that issues, verifies
  and revokes W3C verifiable credentials and runs the OpenID flows for issuance (OIDC4VC) and presentation
  (OIDC4VP).

  The program and its parts. REST controllers (\<^verbatim>\<open>pkg/restapi/v1\<close>) decode requests, check the organization of the
  caller against the profile and call the services (\<^verbatim>\<open>pkg/service\<close>); the services use signing
  (\<^verbatim>\<open>pkg/doc/vc/crypto\<close> over \<^verbatim>\<open>pkg/kms\<close>), profiles (\<^verbatim>\<open>pkg/profile\<close>), the event bus (\<^verbatim>\<open>component/event\<close>) and stores
  in MongoDB (\<^verbatim>\<open>pkg/storage/mongodb\<close>, \<^verbatim>\<open>component/oidc\<close>). The start command (\<^verbatim>\<open>cmd/vc-rest/startcmd\<close>) reads the
  settings and wires the parts.

  How code becomes definitions.
  \<^item> A struct is a record, an enumeration a datatype or its string values, an interface or a library a record of
    functions that is an argument of what uses it. A function returning a value and an error is a function
    into \<open>'a res\<close> with the outcomes \<open>Ok\<close>, \<open>Err\<close> and \<open>Panic\<close>; an operation on state also returns the state, also
    when it fails. Wrapped errors keep their chain, so that \<open>errors.Is\<close> and the status of a response can be stated.
  \<^item> The clock, random identifiers and the outcome of decoding a request body are arguments.
  \<^item> A MongoDB collection is a server state behind a driver record. \<open>Mongo_Driver\<close> states the laws of the driver
    (an operation may fail with or without taking effect, unique indexes hold); \<open>Mongo_Mem\<close> is a server that
    satisfies them and can be scripted to fail, used in the witnesses.
  \<^item> Loops over lists are structural recursions. The only unbounded loop, the search for an unused nonce, is
    bounded by fuel; \<open>Tx_Manager\<close> shows the fuel that is enough. Integers are \<open>int\<close> with \<open>wrap64\<close> where the
    code counts, bytes of the bit string are \<open>8 word\<close>.
  \<^item> Goroutines are step relations (\<open>Event_Bus\<close>, \<open>Lifecycle\<close>, \<open>Cert_Pool\<close>, \<open>Log_Concurrency\<close>): each critical section is one step.

  Theories, in the order of the layers.
  \<^item> \<open>Vcs_Prelude\<close>, \<open>Go_Strings\<close>, \<open>Go_Url\<close>: results, errors, panics, and the parts of the Go library in use.
  \<^item> \<open>Mongo_Driver\<close>, \<open>Mongo_Mem\<close>: the database.
  \<^item> \<open>Verifiable_Model\<close>, \<open>Kms_Model\<close>, \<open>Vc_Crypto\<close>: documents, keys, signing and proof checks. A credential is
    signed only with a key its DID document authorises for the purpose.
  \<^item> \<open>Bit_String\<close>, \<open>Csl_Store\<close>, \<open>Credential_Status\<close>, \<open>Status_Allocation\<close>: status list entries; entries are handed
    out once as long as operations do not overlap, and the failures that break this are stated too.
  \<^item> \<open>Verify_Credential\<close>, \<open>Revocation\<close>, \<open>Revocation_Flow\<close>, \<open>Verify_Presentation\<close>: verification, fetching of status
    lists, and the round trip from revoking a credential to a verifier that rejects exactly that one.
  \<^item> \<open>Profile_Model\<close>, \<open>Profile_Reader\<close>: profiles and their file.
  \<^item> \<open>Event_Model\<close>, \<open>Lifecycle\<close>, \<open>Event_Bus\<close>: events, first-in first-out delivery, start and stop.
  \<^item> \<open>Nonce_Store\<close>, \<open>Oidc4vp_Tx_Store\<close>, \<open>Tx_Manager\<close>, \<open>Request_Object\<close>, \<open>Oidc4vp_Service\<close>: presentation
    interactions; a presentation is accepted once, for the transaction its nonce was made for.
  \<^item> \<open>Vc_Store\<close>, \<open>Issue_Credential\<close>, \<open>Issuance_Store\<close>, \<open>Issuance_Service\<close>: issuing credentials and the issuance
    interaction; the store refines a map from operation states to transactions.
  \<^item> \<open>Oidc4vc_State_Store\<close>, \<open>Fosite_Store\<close>: storage of the OAuth2 provider.
  \<^item> \<open>Rest_Api\<close>, \<open>Api_Common\<close>, \<open>Issuer_Controller\<close>, \<open>Oidc4vc_Controller\<close>, \<open>Verifier_Controller\<close>: the REST API, the
    API key, the isolation of organizations.
  \<^item> \<open>Command_Env\<close>, \<open>Startup_Params\<close>, \<open>Startup_Config\<close>, \<open>Edge_Storage\<close>, \<open>Log_Levels\<close>, \<open>Cert_Pool\<close>: settings, start of
    the server, opening of storage, log levels and trusted certificates.
  \<^item> \<open>Api_Server\<close>, \<open>Api_Dispatch\<close>: \<open>buildEchoHandler\<close> (constructors, middlewares, routes), the parameter wrappers
    and the router of the issuer and verifier APIs; what a request can reach through the whole chain. \<open>Issuer_Client\<close> is the
    generated client through which the server calls its own issuer API.
  \<^item> \<open>Mongo_Indexes\<close>: the client, the collections and the indexes the constructors of the stores create, which are
    the ones the theories of the stores assume.
  \<^item> \<open>Profile_File\<close>: the file of the profile readers and its incomplete entries.
  \<^item> \<open>Did_Configuration\<close>, \<open>Http_Clients\<close>, \<open>Key_Creator\<close>: the DID configuration of a profile and the developer
    API, the clients for the issuer API and for well-known configurations, and the creation of keys.
  \<^item> \<open>Log_Setup\<close>, \<open>Metrics\<close>: the loggers with their fields and options, and the metrics providers with the timed
    signer and controllers; every signing is counted once and a provider is created once.
  \<^item> \<open>Public_Api\<close>: the wrappers of the OAuth2, health and developer routes with their query parameters, and the
    router over all controllers.
  \<^item> \<open>Issued_Format\<close>: the type of what issuing returns: a JWT exactly where the profile's format is a JWT format.
  \<^item> \<open>Json_Decode\<close>, \<open>Typed_Client\<close>: decoding of a JSON document into a struct, and the generated typed client that
    reads the answers of the issuer API back.
  \<^item> \<open>Mongo_Documents\<close>: conversion of structures to MongoDB documents and back, with the codec of stored events.
  \<^item> \<open>Api_Spec\<close>: the embedded OpenAPI documents and the paths under which references between them resolve.
  \<^item> \<open>Service_Entry\<close>: the main function, the document loader of the server, the constructor of the OIDC4VP service, the
    options of a lifecycle and the errors of the OAuth2 provider with their requesters.
  \<^item> \<open>Log_Concurrency\<close>: the lock of the log levels; reading and setting levels exclude each other, listing them does
    not.

  Interfaces. A locale states what a component promises to its clients (\<open>nonce_store\<close>, the status list store,
  the transaction stores, the authorize states, the lookup collections); its lemmas are proved once from the
  laws, and it is interpreted on the model of the MongoDB store in the theory that provides it. The properties
  rest on these interpretations.

  Not modelled. Cryptography, DID resolution, JSON-LD processing, the OAuth2 protocol of fosite, echo, the MongoDB
  server and HTTP transport are libraries and appear as parameters. The test helpers and the
  programs of the behaviour tests are not part of the server. Concurrency
  is modelled where the code synchronises (event bus, lifecycle, certificate pool, log levels) and, for status lists, by one
  theorem on overlapping allocations; other services are sequential within a request and share state only
  through the stores.
\<close>

end
